(* ===== verification/Prelude.thy ===== *)
theory Prelude
  imports Complex_Main "HOL-Library.List_Lexorder" "HOL-Library.Char_ord"
begin

text \<open>
  What every component of the development shares: Python exceptions as values, the
  sequencing of computations that may raise, the string and sequence operations of the
  Python standard library that the sources call, and the sorting and duplicate-removal
  facts the component theories rest on.

  Strings are lists of characters read as ASCII text, as every symbol, version and reason code
  of the program is.  A set of strings is a \<^typ>\<open>string set\<close> where only membership matters and a list
  where the code iterates in an order that can be observed.
\<close>

named_theorems py_result "sequencing of computations that may raise"
named_theorems py_list "Python sequence operations"

section \<open>Exceptions as values\<close>

datatype py_error =
    ValueError string
  | KeyError string
  | TypeError string
  | IndexError
  | ArithmeticError
  | FileNotFoundError string
  | FileExistsError string
  | AssertionError string
  | RuntimeError string
  | IntegrityError string
  | StopIteration
  | OSError string
  | OverflowError
  | AttributeError string

type_synonym 'a result = "py_error + 'a"

text \<open>A call whose exception propagates to the caller.\<close>

fun bind_result :: "'a result \<Rightarrow> ('a \<Rightarrow> 'b result) \<Rightarrow> 'b result" where
  "bind_result (Inl e) f = Inl e"
| "bind_result (Inr x) f = f x"

definition raise_if :: "bool \<Rightarrow> py_error \<Rightarrow> unit result" where
  "raise_if c e = (if c then Inl e else Inr ())"

fun map_result :: "('a \<Rightarrow> 'b result) \<Rightarrow> 'a list \<Rightarrow> 'b list result" where
  "map_result f [] = Inr []"
| "map_result f (x # xs) =
     bind_result (f x) (\<lambda>y. bind_result (map_result f xs) (\<lambda>ys. Inr (y # ys)))"

definition is_ok :: "'a result \<Rightarrow> bool" where
  "is_ok r = (case r of Inl _ \<Rightarrow> False | Inr _ \<Rightarrow> True)"

lemma bind_result_Inr [py_result]:
  "bind_result m f = Inr y \<longleftrightarrow> (\<exists>x. m = Inr x \<and> f x = Inr y)"
  by (cases m) auto

lemma bind_result_Inl [py_result]:
  "bind_result m f = Inl e \<longleftrightarrow> m = Inl e \<or> (\<exists>x. m = Inr x \<and> f x = Inl e)"
  by (cases m) auto

lemma raise_if_Inr [py_result]: "raise_if c e = Inr u \<longleftrightarrow> \<not> c"
  by (simp add: raise_if_def)

lemma raise_if_Inl [py_result]: "raise_if c e = Inl e' \<longleftrightarrow> c \<and> e' = e"
  by (auto simp: raise_if_def)

lemma is_ok_Inr [simp]: "is_ok (Inr x)"
  by (simp add: is_ok_def)

lemma is_ok_Inl [simp]: "\<not> is_ok (Inl e)"
  by (simp add: is_ok_def)

lemma is_ok_iff: "is_ok r \<longleftrightarrow> (\<exists>x. r = Inr x)"
  by (cases r) simp_all

lemma is_ok_bind [py_result]:
  "is_ok (bind_result m f) \<longleftrightarrow> (\<exists>x. m = Inr x \<and> is_ok (f x))"
  by (cases m) auto

lemma map_result_Inr_length: "map_result f xs = Inr ys \<Longrightarrow> length ys = length xs"
  by (induction xs arbitrary: ys) (auto simp: py_result)

lemma map_result_Inr_nth:
  "map_result f xs = Inr ys \<Longrightarrow> i < length xs \<Longrightarrow> f (xs ! i) = Inr (ys ! i)"
proof (induction xs arbitrary: ys i)
  case (Cons x xs)
  then show ?case by (cases i) (auto simp: py_result)
qed simp

lemma map_result_Inr_set:
  "map_result f xs = Inr ys \<Longrightarrow> y \<in> set ys \<Longrightarrow> \<exists>x \<in> set xs. f x = Inr y"
  by (induction xs arbitrary: ys) (auto simp: py_result)

lemma map_result_Inr_set2:
  "map_result f xs = Inr ys \<Longrightarrow> x \<in> set xs \<Longrightarrow> \<exists>y \<in> set ys. f x = Inr y"
  by (induction xs arbitrary: ys) (auto simp: py_result)

lemma Inr_eq: "((Inr x :: 'a result) = Inr y) = (y = x)"
  by auto

lemma raise_then: "((if c then Inl e else r) = Inr y) = (\<not> c \<and> r = Inr y)"
  by simp

section \<open>Times\<close>

text \<open>
  A Python \<^verbatim>\<open>datetime\<close> is naive or aware.  An aware one denotes an instant; the model counts
  microseconds since the epoch in UTC, and so do durations (\<^verbatim>\<open>timedelta\<close>).
\<close>

type_synonym utc = int
type_synonym timedelta = int

datatype datetime = Naive int | Aware utc

definition microseconds :: "int \<Rightarrow> timedelta" where "microseconds n = n"
definition seconds :: "int \<Rightarrow> timedelta" where "seconds n = 1000000 * n"
definition minutes :: "int \<Rightarrow> timedelta" where "minutes n = 60000000 * n"
definition hours :: "int \<Rightarrow> timedelta" where "hours n = 3600000000 * n"
definition days :: "int \<Rightarrow> timedelta" where "days n = 86400000000 * n"

fun require_utc :: "datetime \<Rightarrow> string \<Rightarrow> utc result" where
  "require_utc (Naive _) field_name = Inl (ValueError (field_name @ '' must be timezone-aware''))"
| "require_utc (Aware t) field_name = Inr t"

lemmas duration_defs = microseconds_def seconds_def minutes_def hours_def days_def

section \<open>Strings\<close>

definition py_isspace :: "char \<Rightarrow> bool" where
  "py_isspace c = (let n = (of_char c :: nat) in 9 \<le> n \<and> n \<le> 13 \<or> 28 \<le> n \<and> n \<le> 32)"

definition py_strip :: "string \<Rightarrow> string" where
  "py_strip s = rev (dropWhile py_isspace (rev (dropWhile py_isspace s)))"

definition upper_char :: "char \<Rightarrow> char" where
  "upper_char c =
     (let n = (of_char c :: nat) in if 97 \<le> n \<and> n \<le> 122 then char_of (n - 32) else c)"

definition py_upper :: "string \<Rightarrow> string" where
  "py_upper s = map upper_char s"

definition alnum_char :: "char \<Rightarrow> bool" where
  "alnum_char c =
     (let n = (of_char c :: nat)
      in 48 \<le> n \<and> n \<le> 57 \<or> 65 \<le> n \<and> n \<le> 90 \<or> 97 \<le> n \<and> n \<le> 122)"

text \<open>\<^verbatim>\<open>str.isalnum\<close> is false on the empty string.\<close>

definition py_isalnum :: "string \<Rightarrow> bool" where
  "py_isalnum s = (s \<noteq> [] \<and> list_all alnum_char s)"

definition py_replace_char :: "char \<Rightarrow> char \<Rightarrow> string \<Rightarrow> string" where
  "py_replace_char a b s = map (\<lambda>c. if c = a then b else c) s"

fun py_split :: "char \<Rightarrow> string \<Rightarrow> string list" where
  "py_split d [] = [] # []"
| "py_split d (c # cs) =
     (if c = d then [] # py_split d cs
      else case py_split d cs of [] \<Rightarrow> (c # []) # [] | w # ws \<Rightarrow> (c # w) # ws)"

lemma py_strip_idem [simp]: "py_strip (py_strip s) = py_strip s"
proof -
  define t where "t = dropWhile py_isspace s"
  have hd_t: "t = [] \<or> \<not> py_isspace (hd t)"
    unfolding t_def by (metis hd_dropWhile)
  define u where "u = rev (dropWhile py_isspace (rev t))"
  have hd_u: "u = [] \<or> \<not> py_isspace (hd u)"
  proof (cases "u = []")
    case False
    have "t = u @ rev (takeWhile py_isspace (rev t))"
      unfolding u_def by (metis rev_append rev_rev_ident takeWhile_dropWhile_id)
    with False have "hd u = hd t" "t \<noteq> []" by (metis hd_append2, auto)
    with hd_t show ?thesis by simp
  qed simp
  have last_u: "rev u = [] \<or> \<not> py_isspace (hd (rev u))"
    unfolding u_def by (metis hd_dropWhile rev_rev_ident)
  have id_if: "dropWhile py_isspace xs = xs" if "xs = [] \<or> \<not> py_isspace (hd xs)" for xs
    using that by (cases xs) auto
  have "py_strip s = u" by (simp add: py_strip_def u_def t_def)
  moreover have "py_strip u = u"
    unfolding py_strip_def id_if [OF hd_u] id_if [OF last_u] by simp
  ultimately show ?thesis by simp
qed

lemma upper_char_idem [simp]: "upper_char (upper_char c) = upper_char c"
proof -
  have "(of_char (char_of (n - 32) :: char) :: nat) = n - 32" if "n \<le> 122" for n :: nat
    using that by (simp add: of_char_of)
  then show ?thesis by (auto simp: upper_char_def Let_def)
qed

lemma py_upper_idem [simp]: "py_upper (py_upper s) = py_upper s"
  by (simp add: py_upper_def comp_def)

lemma isspace_upper: "py_isspace (upper_char c) = py_isspace c"
proof -
  have n: "(of_char (char_of (n - 32) :: char) :: nat) = n - 32" if "n \<le> 122" for n :: nat
    using that by (simp add: of_char_of)
  show ?thesis
  proof (cases "97 \<le> (of_char c :: nat) \<and> (of_char c :: nat) \<le> 122")
    case True
    then have u: "(of_char (upper_char c) :: nat) = of_char c - 32" using n by (simp only: upper_char_def Let_def simp_thms if_True)
    show ?thesis unfolding py_isspace_def Let_def u using True by linarith
  qed (auto simp: upper_char_def Let_def)
qed

lemma py_strip_upper: "py_strip (py_upper s) = py_upper (py_strip s)"
  by (simp add: py_strip_def py_upper_def dropWhile_map comp_def isspace_upper rev_map)

lemma alnum_not_space: "alnum_char c \<Longrightarrow> \<not> py_isspace c"
  by (auto simp: alnum_char_def py_isspace_def Let_def)

lemma py_strip_alnum: "list_all alnum_char s \<Longrightarrow> py_strip s = s"
proof -
  assume "list_all alnum_char s"
  then have ns: "\<forall>c \<in> set s. \<not> py_isspace c" by (auto simp: list_all_iff alnum_not_space)
  have "dropWhile py_isspace xs = xs" if "\<forall>c \<in> set xs. \<not> py_isspace c" for xs
    using that by (cases xs) auto
  note id_if = this
  have "\<forall>c \<in> set (rev s). \<not> py_isspace c" using ns by simp
  with ns show ?thesis unfolding py_strip_def by (simp only: id_if rev_rev_ident)
qed

lemma list_all_upper: "py_upper s = s \<longleftrightarrow> list_all (\<lambda>c. upper_char c = c) s"
  unfolding py_upper_def by (induction s) auto

lemma py_split_two:
  "d \<notin> set a \<Longrightarrow> d \<notin> set b \<Longrightarrow> py_split d (a @ d # b) = [a, b]"
proof (induction a)
  case Nil
  have "py_split d b = [b]" using Nil(2) by (induction b) auto
  then show ?case by simp
qed auto

lemma py_strip_no_space: "\<forall>c \<in> set s. \<not> py_isspace c \<Longrightarrow> py_strip s = s"
proof -
  assume ns: "\<forall>c \<in> set s. \<not> py_isspace c"
  have id_if: "dropWhile py_isspace xs = xs" if "\<forall>c \<in> set xs. \<not> py_isspace c" for xs
    using that by (cases xs) auto
  show ?thesis unfolding py_strip_def using ns by (simp add: id_if)
qed

section \<open>Sequences\<close>

text \<open>
  \<^verbatim>\<open>tuple(dict.fromkeys(xs))\<close>: the first occurrence of every element, in order.
\<close>

fun dict_fromkeys :: "'a list \<Rightarrow> 'a list" where
  "dict_fromkeys [] = []"
| "dict_fromkeys (x # xs) = x # dict_fromkeys (filter (\<lambda>y. y \<noteq> x) xs)"

lemma set_dict_fromkeys [simp, py_list]: "set (dict_fromkeys xs) = set xs"
  by (induction xs rule: dict_fromkeys.induct) auto

lemma distinct_dict_fromkeys [simp, py_list]: "distinct (dict_fromkeys xs)"
  by (induction xs rule: dict_fromkeys.induct) auto

lemma dict_fromkeys_distinct: "distinct xs \<Longrightarrow> dict_fromkeys xs = xs"
proof (induction xs rule: dict_fromkeys.induct)
  case (2 x xs)
  then have "filter (\<lambda>y. y \<noteq> x) xs = xs" by (auto simp: filter_id_conv)
  with 2 show ?case by simp
qed simp

lemma dict_fromkeys_Nil [simp]: "dict_fromkeys xs = [] \<longleftrightarrow> xs = []"
  by (cases xs) auto

text \<open>Strictly increasing neighbours, the order every time series of the program must have.\<close>

fun strictly_ordered :: "('a \<Rightarrow> int) \<Rightarrow> 'a list \<Rightarrow> bool" where
  "strictly_ordered key [] = True"
| "strictly_ordered key [x] = True"
| "strictly_ordered key (x # y # xs) = (key x < key y \<and> strictly_ordered key (y # xs))"

lemma strictly_ordered_iff: "strictly_ordered key xs \<longleftrightarrow> sorted_wrt (\<lambda>x y. key x < key y) xs"
proof (induction key xs rule: strictly_ordered.induct)
  case (3 key x y xs)
  then show ?case by (auto intro: less_trans)
qed auto

lemma strictly_ordered_filter: "strictly_ordered key xs \<Longrightarrow> strictly_ordered key (filter P xs)"
  by (simp add: strictly_ordered_iff sorted_wrt_filter)

text \<open>
  \<^verbatim>\<open>sorted(values, key=lambda item: (-number, name))\<close>: Python compares the key tuples
  lexicographically.  The model sorts by the pair, ordered as Python orders tuples.
\<close>

definition key_le :: "(rat \<times> string) \<Rightarrow> (rat \<times> string) \<Rightarrow> bool" where
  "key_le a b = (fst a < fst b \<or> fst a = fst b \<and> snd a \<le> snd b)"

fun insort_by :: "('a \<Rightarrow> 'a \<Rightarrow> bool) \<Rightarrow> 'a \<Rightarrow> 'a list \<Rightarrow> 'a list" where
  "insort_by le x [] = [x]"
| "insort_by le x (y # ys) = (if le x y then x # y # ys else y # insort_by le x ys)"

text \<open>The stable sort of Python, as insertion from the right.\<close>

definition sort_by :: "('a \<Rightarrow> 'a \<Rightarrow> bool) \<Rightarrow> 'a list \<Rightarrow> 'a list" where
  "sort_by le xs = foldr (insort_by le) xs []"

lemma set_insort_by [simp]: "set (insort_by le x xs) = insert x (set xs)"
  by (induction xs) auto

lemma length_insort_by [simp]: "length (insort_by le x xs) = Suc (length xs)"
  by (induction xs) auto

lemma distinct_insort_by [simp]: "distinct (insort_by le x xs) \<longleftrightarrow> x \<notin> set xs \<and> distinct xs"
  by (induction xs) auto

lemma set_sort_by [simp]: "set (sort_by le xs) = set xs"
  by (induction xs) (auto simp: sort_by_def)

lemma length_sort_by [simp]: "length (sort_by le xs) = length xs"
  by (induction xs) (auto simp: sort_by_def)

lemma distinct_sort_by [simp]: "distinct (sort_by le xs) \<longleftrightarrow> distinct xs"
  by (induction xs) (simp_all add: sort_by_def, metis set_sort_by sort_by_def)

lemma sort_by_Nil [simp]: "sort_by le xs = [] \<longleftrightarrow> xs = []"
  by (metis length_0_conv length_sort_by)

lemma distinct_map_insort_by:
  "distinct (map f (insort_by le x xs)) \<longleftrightarrow> distinct (map f (x # xs))"
  by (induction xs) auto

lemma distinct_map_sort_by [simp]: "distinct (map f (sort_by le xs)) \<longleftrightarrow> distinct (map f xs)"
proof (induction xs)
  case (Cons x xs)
  have "sort_by le (x # xs) = insort_by le x (sort_by le xs)" by (simp add: sort_by_def)
  with Cons show ?case by (simp only: distinct_map_insort_by) auto
qed (simp add: sort_by_def)

lemma sorted_insort_by:
  assumes tr: "\<And>a b c. le a b \<Longrightarrow> le b c \<Longrightarrow> le a c" and tot: "\<And>a b. le a b \<or> le b a"
    and s: "sorted_wrt le xs"
  shows "sorted_wrt le (insort_by le x xs)"
  using s
proof (induction xs)
  case (Cons y ys)
  then show ?case using tot tr by (auto intro: tr)
qed simp

lemma sorted_sort_by:
  assumes "\<And>a b c. le a b \<Longrightarrow> le b c \<Longrightarrow> le a c" and "\<And>a b. le a b \<or> le b a"
  shows "sorted_wrt le (sort_by le xs)"
proof (induction xs)
  case (Cons x xs)
  have "sort_by le (x # xs) = insort_by le x (sort_by le xs)" by (simp add: sort_by_def)
  then show ?case using sorted_insort_by [of le, OF assms Cons] by simp
qed (simp add: sort_by_def)

lemma key_le_trans: "key_le a b \<Longrightarrow> key_le b c \<Longrightarrow> key_le a c"
  by (auto simp: key_le_def)

lemma key_le_total: "key_le a b \<or> key_le b a"
  by (auto simp: key_le_def)

lemma key_le_antisym: "key_le a b \<Longrightarrow> key_le b a \<Longrightarrow> a = b"
  by (auto simp: key_le_def prod_eq_iff)

definition sort_on :: "('a \<Rightarrow> rat \<times> string) \<Rightarrow> 'a list \<Rightarrow> 'a list" where
  "sort_on key xs = sort_by (\<lambda>a b. key_le (key a) (key b)) xs"

lemma set_sort_on [simp]: "set (sort_on key xs) = set xs"
  by (simp add: sort_on_def)

lemma length_sort_on [simp]: "length (sort_on key xs) = length xs"
  by (simp add: sort_on_def)

lemma distinct_map_sort_on [simp]: "distinct (map f (sort_on key xs)) = distinct (map f xs)"
  by (simp add: sort_on_def)

lemma sorted_sort_on: "sorted_wrt (\<lambda>a b. key_le (key a) (key b)) (sort_on key xs)"
  unfolding sort_on_def
  by (rule sorted_sort_by) (auto intro: key_le_trans simp: key_le_total)

text \<open>\<^verbatim>\<open>xs[:n]\<close> and \<^verbatim>\<open>xs[-n:]\<close> for any integer \<^verbatim>\<open>n\<close>.\<close>

definition py_take :: "int \<Rightarrow> 'a list \<Rightarrow> 'a list" where
  "py_take n xs = (if 0 \<le> n then take (nat n) xs else take (length xs - nat (- n)) xs)"

definition py_last :: "int \<Rightarrow> 'a list \<Rightarrow> 'a list" where
  "py_last n xs = (if 0 < n then drop (length xs - nat n) xs else drop (nat (- n)) xs)"

text \<open>\<^verbatim>\<open>xs[-k]\<close> for \<^verbatim>\<open>k > 0\<close>.\<close>

definition from_end :: "nat \<Rightarrow> 'a list \<Rightarrow> 'a result" where
  "from_end k xs = (if k \<le> length xs \<and> 0 < k then Inr (xs ! (length xs - k)) else Inl IndexError)"

lemma set_py_take: "set (py_take n xs) \<subseteq> set xs"
  by (auto simp: py_take_def dest: in_set_takeD)

lemma py_take_take: "\<exists>k. py_take n xs = take k xs"
  by (auto simp: py_take_def)

lemma distinct_map_py_take: "distinct (map f xs) \<Longrightarrow> distinct (map f (py_take n xs))"
  by (metis distinct_take py_take_take take_map)

lemma sorted_wrt_py_take: "sorted_wrt P xs \<Longrightarrow> sorted_wrt P (py_take n xs)"
  by (metis py_take_take sorted_wrt_take)

lemma length_py_take: "0 \<le> n \<Longrightarrow> length (py_take n xs) \<le> nat n"
  by (simp add: py_take_def)

lemma find_None_all: "find P xs = None \<longleftrightarrow> (\<forall>x \<in> set xs. \<not> P x)"
  by (auto simp: find_None_iff)

lemma find_Some_in: "find P xs = Some x \<Longrightarrow> x \<in> set xs \<and> P x"
  by (auto simp: find_Some_iff)

section \<open>Dictionaries in insertion order\<close>

text \<open>
  A Python \<^verbatim>\<open>dict\<close> whose iteration order can be observed is an association list with distinct
  keys; \<^term>\<open>dict_set\<close> keeps the position of a key that is present.
\<close>

fun dict_set :: "'k \<Rightarrow> 'v \<Rightarrow> ('k \<times> 'v) list \<Rightarrow> ('k \<times> 'v) list" where
  "dict_set k v [] = [(k, v)]"
| "dict_set k v ((k', v') # xs) = (if k = k' then (k, v) # xs else (k', v') # dict_set k v xs)"

definition dict_keys :: "('k \<times> 'v) list \<Rightarrow> 'k list" where
  "dict_keys d = map fst d"

lemma map_of_dict_set [simp, py_list]: "map_of (dict_set k v d) = (map_of d)(k \<mapsto> v)"
  by (induction k v d rule: dict_set.induct) auto

lemma set_keys_dict_set [simp, py_list]: "fst ` set (dict_set k v d) = insert k (fst ` set d)"
  by (induction k v d rule: dict_set.induct) auto

lemma distinct_keys_dict_set: "distinct (map fst d) \<Longrightarrow> distinct (map fst (dict_set k v d))"
proof (induction d)
  case (Cons a d)
  obtain k' v' where a: "a = (k', v')" by (cases a)
  have "k' \<noteq> k \<Longrightarrow> k' \<notin> fst ` set d \<Longrightarrow> k' \<notin> set (map fst (dict_set k v d))" by simp
  with Cons show ?case by (auto simp: a)
qed simp

section \<open>JSON documents and digests\<close>

text \<open>
  A JSON document is held as the value it denotes: \<^verbatim>\<open>json.loads\<close> undoes \<^verbatim>\<open>json.dumps\<close>.
  \<open>JInt\<close> is an \<^verbatim>\<open>int\<close> and \<open>JNum\<close> a \<^verbatim>\<open>float\<close>; \<open>JTime\<close> and
  \<open>JDec\<close> are the text of an instant (\<^verbatim>\<open>isoformat\<close>) and of a \<^verbatim>\<open>Decimal\<close> (\<^verbatim>\<open>str\<close>), which the program
  reads back as the same value.  The SHA-256 of the \<^verbatim>\<open>hashlib\<close> module is a parameter of
  the definitions that use it, a function from the text (given by its parts) to the hex digest.
\<close>

datatype json =
    JNull
  | JBool bool
  | JInt int
  | JNum rat
  | JStr string
  | JTime utc
  | JDec rat
  | JList "json list"
  | JObj "(string \<times> json) list"

type_synonym digest = "json \<Rightarrow> string"

definition json_opt :: "('a \<Rightarrow> json) \<Rightarrow> 'a option \<Rightarrow> json" where
  "json_opt f x = (case x of None \<Rightarrow> JNull | Some y \<Rightarrow> f y)"

text \<open>\<^verbatim>\<open>item.get(key)\<close> of a decoded object; an absent key and \<^verbatim>\<open>null\<close> both give \<^verbatim>\<open>None\<close>.\<close>

fun json_get :: "string \<Rightarrow> json \<Rightarrow> json option" where
  "json_get k (JObj kvs) = (case map_of kvs k of Some JNull \<Rightarrow> None | r \<Rightarrow> r)"
| "json_get k _ = None"

fun json_items :: "json \<Rightarrow> json list" where
  "json_items (JList xs) = xs"
| "json_items _ = []"

fun json_num :: "json \<Rightarrow> rat option" where
  "json_num (JInt n) = Some (of_int n)"
| "json_num (JNum r) = Some r"
| "json_num _ = None"

fun json_str :: "json \<Rightarrow> string option" where
  "json_str (JStr s) = Some s"
| "json_str _ = None"

text \<open>\<^verbatim>\<open>list_repr\<close> renders \<^verbatim>\<open>sorted(names)\<close> inside an error message.\<close>

fun join_with :: "string \<Rightarrow> string list \<Rightarrow> string" where
  "join_with d [] = []"
| "join_with d [x] = x"
| "join_with d (x # y # xs) = x @ d @ join_with d (y # xs)"

definition list_repr :: "string list \<Rightarrow> string" where
  "list_repr xs = ''['' @ join_with '', '' (map (\<lambda>x. [CHR 39] @ x @ [CHR 39]) xs) @ '']''"

section \<open>Sorting by a key is canonical\<close>

lemma sorted_key_unique:
  assumes "sorted_wrt (\<lambda>a b. key_le (key a) (key b)) xs" "sorted_wrt (\<lambda>a b. key_le (key a) (key b)) ys"
    "distinct (map key xs)" "distinct (map key ys)" "set xs = set ys"
  shows "xs = ys"
  using assms
proof (induction xs arbitrary: ys)
  case (Cons x xs)
  then obtain y ys' where ys: "ys = y # ys'" by (cases ys) auto
  have le: "key_le (key x) (key z)" if "z \<in> set (x # xs)" for z
    using Cons.prems(1) that key_le_total [of "key x" "key x"] by auto
  have le': "key_le (key y) (key z)" if "z \<in> set ys" for z
    using Cons.prems(2) that key_le_total [of "key y" "key y"] by (auto simp: ys)
  have "key_le (key x) (key y)" "key_le (key y) (key x)"
    using le [of y] le' [of x] Cons.prems(5) ys by auto
  then have k: "key x = key y" by (rule key_le_antisym)
  have inj: "inj_on key (set ys)" using Cons.prems(4) by (simp add: distinct_map)
  have "x \<in> set ys" "y \<in> set ys" using Cons.prems(5) ys by auto
  with inj k have xy: "x = y" by (auto dest: inj_onD)
  have "x \<notin> set xs" "y \<notin> set ys'" using Cons.prems(3,4) ys by (auto simp: distinct_map)
  then have "set xs = set ys'" using Cons.prems(5) xy ys by auto
  then show ?case using Cons.IH [of ys'] Cons.prems xy ys by simp
qed simp

lemma sort_on_unique:
  assumes "distinct (map key xs)" "distinct (map key ys)" "set xs = set ys"
  shows "sort_on key xs = sort_on key ys"
  by (rule sorted_key_unique [where key = key]) (use assms in \<open>simp_all add: sorted_sort_on\<close>)

text \<open>Collecting the rows.\<close>

lemma map_filter_id:
  "List.map_filter id [] = []"
  "List.map_filter id (Some a # xs) = a # List.map_filter id xs"
  "List.map_filter id (None # xs) = List.map_filter id xs"
  by (simp_all only: map_filter_simps id_apply option.case)

lemma map_result_filter_set:
  "map_result f xs = Inr ys \<Longrightarrow> set (List.map_filter id ys) = {y. \<exists>x \<in> set xs. f x = Inr (Some y)}"
  by (induction xs arbitrary: ys) (auto simp: py_result map_filter_simps split: option.splits)

lemma map_result_ok_iff: "(\<exists>ys. map_result f xs = Inr ys) \<longleftrightarrow> (\<forall>x \<in> set xs. \<exists>y. f x = Inr y)"
  by (induction xs) (auto simp: py_result)


end
