(* ===== verification/PyNumbers.thy ===== *)
theory PyNumbers
  imports Complex_Main Prelude
begin

text \<open>
  The two number types of the program that round, with the rounding written out.

  \<^item> \<^verbatim>\<open>Decimal\<close> under Python's default context: every arithmetic operation returns the exact
    result rounded half to even to 28 significant digits; construction from text and
    comparison are exact.
  \<^item> \<^verbatim>\<open>float\<close>: every arithmetic operation, literal and conversion returns the exact
    result rounded half to even to 53 significant bits.

  Both are values of \<^typ>\<open>rat\<close>, on which Python's mixed comparisons are exact too.  Exponents are not
  bounded: overflow, subnormal numbers, NaN and the infinities are outside the model
  (prices, weights, scores and fees are far from those ranges).  The laws the components use
  are those of the locale \<^theory_text>\<open>rounding\<close> below, interpreted on the two concrete rounding functions.
\<close>

section \<open>Rounding to a number of significant digits\<close>

text \<open>Round half to even, the tie rule of both number types.\<close>

definition round_half_even :: "rat \<Rightarrow> int" where
  "round_half_even x =
     (let f = \<lfloor>x\<rfloor>; d = x - of_int f
      in if d < 1 / 2 then f else if 1 / 2 < d then f + 1 else if even f then f else f + 1)"

text \<open>The exponent of the leading digit of a positive integer, by repeated division.\<close>

function int_log :: "int \<Rightarrow> int \<Rightarrow> int" where
  "int_log b n = (if b \<le> 1 \<or> n < b then 0 else 1 + int_log b (n div b))"
  by pat_completeness auto
termination
proof (relation "measure (\<lambda>(b, n). nat n)")
  show "wf (measure (\<lambda>(b, n). nat n))" by simp
next
  fix b n :: int
  assume "\<not> (b \<le> 1 \<or> n < b)"
  then have "1 < b" "0 < n" by simp_all
  then have "n div b < n" by (simp add: int_div_less_self)
  with \<open>0 < n\<close> show "((b, n div b), b, n) \<in> measure (\<lambda>(b, n). nat n)" by simp
qed

declare int_log.simps [simp del]

definition rat_log :: "int \<Rightarrow> rat \<Rightarrow> int" where
  "rat_log b r =
     (case quotient_of r of (n, d) \<Rightarrow>
        let k = int_log b n - int_log b d
        in if of_int b powi k \<le> r then k else k - 1)"

definition sig_round :: "int \<Rightarrow> nat \<Rightarrow> rat \<Rightarrow> rat" where
  "sig_round b p r =
     (if r = 0 then 0
      else let u = of_int b powi (rat_log b \<bar>r\<bar> + 1 - int p)
           in of_int (round_half_even (r / u)) * u)"

subsection \<open>Round half even\<close>

lemma round_half_even_of_int [simp]: "round_half_even (of_int k) = k"
  by (simp add: round_half_even_def)

lemma round_half_even_bounds: "\<bar>of_int (round_half_even x) - x\<bar> \<le> 1 / 2"
proof -
  have "of_int \<lfloor>x\<rfloor> \<le> x" "x < of_int \<lfloor>x\<rfloor> + 1" by linarith+
  then show ?thesis
    unfolding round_half_even_def Let_def by (auto simp: abs_le_iff field_simps)
qed

lemma round_half_even_cases:
  "(round_half_even x = \<lfloor>x\<rfloor> \<and> x - of_int \<lfloor>x\<rfloor> \<le> 1 / 2)
   \<or> (round_half_even x = \<lfloor>x\<rfloor> + 1 \<and> 1 / 2 \<le> x - of_int \<lfloor>x\<rfloor>)"
  unfolding round_half_even_def Let_def by auto

lemma round_half_even_mono:
  assumes "x \<le> y" shows "round_half_even x \<le> round_half_even y"
proof (cases "\<lfloor>x\<rfloor> = \<lfloor>y\<rfloor>")
  case True
  with assms show ?thesis
    unfolding round_half_even_def Let_def by auto
next
  case False
  with assms have "\<lfloor>x\<rfloor> + 1 \<le> \<lfloor>y\<rfloor>"
    by (metis floor_mono order_le_less zless_imp_add1_zle)
  moreover have "round_half_even x \<le> \<lfloor>x\<rfloor> + 1" "\<lfloor>y\<rfloor> \<le> round_half_even y"
    using round_half_even_cases [of x] round_half_even_cases [of y] by auto
  ultimately show ?thesis by linarith
qed

lemma round_half_even_minus [simp]: "round_half_even (- x) = - round_half_even x"
proof (cases "x = of_int \<lfloor>x\<rfloor>")
  case True
  then obtain k where "x = of_int k" by blast
  then show ?thesis by (simp flip: of_int_minus)
next
  case False
  then have lt: "of_int \<lfloor>x\<rfloor> < x" "x < of_int \<lfloor>x\<rfloor> + 1" by linarith+
  then have fl: "\<lfloor>- x\<rfloor> = - \<lfloor>x\<rfloor> - 1"
    by (intro floor_unique) auto
  show ?thesis
    unfolding round_half_even_def Let_def fl using lt
    by (auto simp: field_simps)
qed

subsection \<open>The exponent of the leading digit\<close>

lemma int_log_nonneg: "0 \<le> int_log b n"
proof (induction b n rule: int_log.induct)
  case (1 b n)
  then show ?case by (subst int_log.simps) simp
qed

lemma int_log_bounds_int:
  assumes "0 < n" "1 < b"
  shows "b ^ nat (int_log b n) \<le> n \<and> n < b * b ^ nat (int_log b n)"
  using assms
proof (induction b n rule: int_log.induct)
  case (1 b n)
  show ?case
  proof (cases "n < b")
    case True
    then have "int_log b n = 0" by (simp add: int_log.simps)
    with 1 True show ?thesis by simp
  next
    case False
    define q where "q = n div b"
    define k where "k = nat (int_log b q)"
    have "0 < q" using False 1 by (simp add: q_def pos_imp_zdiv_pos_iff)
    then have IH: "b ^ k \<le> q" "q < b * b ^ k"
      using 1 False by (simp_all add: q_def k_def)
    have "int_log b n = 1 + int_log b q"
      using False 1 by (subst int_log.simps) (simp add: q_def)
    then have eq: "nat (int_log b n) = Suc k"
      using int_log_nonneg [of b q] by (simp add: k_def nat_add_distrib)
    have n: "n = b * q + n mod b" "0 \<le> n mod b" "n mod b < b"
      using 1 by (simp_all add: q_def)
    have "b * b ^ k \<le> b * q" using IH 1 by simp
    moreover have "b * (q + 1) \<le> b * (b * b ^ k)" using IH 1 by simp
    then have "b * q + b \<le> b * (b * b ^ k)" by (simp add: distrib_left)
    ultimately show ?thesis unfolding eq power_Suc using n by (intro conjI) linarith+
  qed
qed

lemma int_log_bounds:
  assumes "0 < n" "1 < b"
  shows "of_int b powi int_log b n \<le> (of_int n :: rat)"
    and "(of_int n :: rat) < of_int b powi (int_log b n + 1)"
proof -
  define k where "k = nat (int_log b n)"
  have k: "int_log b n = int k" using int_log_nonneg by (simp add: k_def)
  have "b ^ k \<le> n" "n < b * b ^ k"
    using int_log_bounds_int [OF assms] by (simp_all add: k_def)
  then have "(of_int (b ^ k) :: rat) \<le> of_int n" "(of_int n :: rat) < of_int (b * b ^ k)"
    by (simp_all only: of_int_le_iff of_int_less_iff)
  moreover have "of_int b powi (int k + 1) = (of_int (b * b ^ k) :: rat)"
    using assms by (simp add: power_int_add)
  ultimately show "of_int b powi int_log b n \<le> (of_int n :: rat)"
    and "(of_int n :: rat) < of_int b powi (int_log b n + 1)"
    by (simp_all add: k)
qed

lemma rat_log_bounds:
  assumes r: "0 < r" and b: "1 < b"
  shows "of_int b powi rat_log b r \<le> r \<and> r < of_int b powi (rat_log b r + 1)"
proof -
  obtain n d where q: "quotient_of r = (n, d)" by (cases "quotient_of r")
  have d: "0 < d" and rnd: "r = of_int n / of_int d"
    using q quotient_of_denom_pos quotient_of_div by blast+
  have n: "0 < n"
    using r rnd d by (metis of_int_0_less_iff zero_less_divide_iff less_asym)
  define ln where "ln = int_log b n"
  define ld where "ld = int_log b d"
  have b0: "(0::rat) < of_int b" using b by simp
  have nb: "of_int b powi ln \<le> (of_int n :: rat)" "(of_int n :: rat) < of_int b powi (ln + 1)"
    using int_log_bounds [OF n b] by (simp_all add: ln_def)
  have db: "of_int b powi ld \<le> (of_int d :: rat)" "(of_int d :: rat) < of_int b powi (ld + 1)"
    using int_log_bounds [OF d b] by (simp_all add: ld_def)
  have up: "r < of_int b powi (ln - ld + 1)"
  proof -
    have "r < of_int b powi (ln + 1) / of_int b powi ld"
      unfolding rnd using nb db d n b0 by (intro frac_less) auto
    also have "\<dots> = of_int b powi (ln - ld + 1)"
      using b0 by (simp flip: power_int_diff add: algebra_simps)
    finally show ?thesis .
  qed
  have lo: "of_int b powi (ln - ld - 1) \<le> r"
  proof -
    have "of_int b powi (ln - ld - 1) = of_int b powi ln / (of_int b powi (ld + 1) :: rat)"
      using b0 by (simp flip: power_int_diff add: algebra_simps)
    also have "\<dots> \<le> r"
      unfolding rnd using nb db d n b0 by (intro frac_le) auto
    finally show ?thesis .
  qed
  show ?thesis
    using up lo by (auto simp: rat_log_def q ln_def [symmetric] ld_def [symmetric] Let_def)
qed

lemma rat_log_unique:
  assumes b: "1 < b" and "of_int b powi k \<le> r" "r < of_int b powi (k + 1)"
  shows "rat_log b r = k"
proof -
  have b1: "(1::rat) < of_int b" using b by simp
  have r: "0 < r"
    using assms(2) b1 by (meson less_le_trans zero_less_power_int order_less_trans zero_less_one)
  note L = rat_log_bounds [OF r b]
  have "of_int b powi k < (of_int b powi (rat_log b r + 1) :: rat)"
    using L assms(2) by linarith
  then have "k < rat_log b r + 1" using b1 by (meson not_le power_int_increasing order_less_imp_le leD)
  moreover have "of_int b powi rat_log b r < (of_int b powi (k + 1) :: rat)"
    using L assms(3) by linarith
  then have "rat_log b r < k + 1" using b1 by (meson not_le power_int_increasing order_less_imp_le leD)
  ultimately show ?thesis by simp
qed


subsection \<open>Rounding to significant digits is monotone, odd and idempotent\<close>

lemma sig_round_0 [simp]: "sig_round b p 0 = 0"
  by (simp add: sig_round_def)

lemma sig_round_minus [simp]: "sig_round b p (- r) = - sig_round b p r"
proof -
  have "round_half_even (- r / u) = - round_half_even (r / u)" for u
    using round_half_even_minus [of "r / u"] by (simp del: round_half_even_minus)
  then show ?thesis by (simp add: sig_round_def Let_def)
qed

text \<open>
  A number with at most \<open>p\<close> significant digits is its own rounding.
\<close>

lemma sig_round_exact:
  assumes b: "1 < b" and p: "0 < p" and m: "\<bar>m\<bar> \<le> b ^ p" and r: "r = of_int m * of_int b powi e"
  shows "sig_round b p r = r"
proof (cases "r = 0")
  case False
  have b1: "(1::rat) < of_int b" using b by simp
  define l where "l = rat_log b \<bar>r\<bar>"
  define u where "u = (of_int b :: rat) powi (l + 1 - int p)"
  have u0: "u \<noteq> 0" using b1 by (simp add: u_def)
  have L: "of_int b powi l \<le> \<bar>r\<bar>"
    using rat_log_bounds [of "\<bar>r\<bar>" b] b False by (simp add: l_def)
  have ar: "\<bar>r\<bar> = of_int \<bar>m\<bar> * of_int b powi e"
    using b1 by (simp add: r abs_mult)
  have "(of_int \<bar>m\<bar> :: rat) \<le> of_int (b ^ p)"
    using m by (simp only: of_int_le_iff)
  then have "\<bar>r\<bar> \<le> of_int b ^ p * of_int b powi e"
    unfolding ar using b1 by (intro mult_right_mono) auto
  also have "\<dots> = of_int b powi (int p + e)"
    using b1 by (simp add: power_int_add)
  finally have le: "\<bar>r\<bar> \<le> of_int b powi (int p + e)" .
  have "\<exists>k. r / u = of_int k"
  proof (cases "l + 1 - int p \<le> e")
    case True
    define j where "j = nat (e - (l + 1 - int p))"
    have "of_int b powi e = u * of_int b ^ j"
      using True b1 by (simp add: u_def j_def flip: power_int_add power_int_of_nat)
    then have "r / u = of_int (m * b ^ j)"
      using u0 by (simp add: r)
    then show ?thesis by blast
  next
    case False
    then have "e + int p \<le> l" by simp
    then have "of_int b powi (int p + e) \<le> (of_int b powi l :: rat)"
      using b1 by (intro power_int_increasing) auto
    with le L have eq: "\<bar>r\<bar> = of_int b powi l" by linarith
    have "of_int b powi l = u * of_int b powi (int p - 1)"
      using b1 by (simp add: u_def flip: power_int_add)
    moreover have "of_int b powi (int p - 1) = (of_int (b ^ (p - 1)) :: rat)"
      using p by (simp flip: power_int_of_nat add: of_nat_diff)
    ultimately have "\<bar>r\<bar> = of_int (b ^ (p - 1)) * u" using eq by simp
    then have "r / u = of_int (b ^ (p - 1)) \<or> r / u = of_int (- (b ^ (p - 1)))"
      using u0 by (auto simp: abs_if field_simps split: if_splits)
    then show ?thesis by blast
  qed
  then obtain k where k: "r / u = of_int k" by blast
  then have "sig_round b p r = of_int k * u"
    using False by (simp add: sig_round_def Let_def l_def [symmetric] u_def [symmetric])
  also have "\<dots> = r" using k u0 by (simp add: field_simps)
  finally show ?thesis .
qed simp


text \<open>A positive number stays between the powers of the base around it.\<close>

lemma sig_round_pos_bounds:
  assumes b: "1 < b" and p: "0 < p" and r: "0 < r"
  shows "of_int b powi rat_log b r \<le> sig_round b p r"
    and "sig_round b p r \<le> of_int b powi (rat_log b r + 1)"
proof -
  have b1: "(1::rat) < of_int b" using b by simp
  define l where "l = rat_log b r"
  define u where "u = (of_int b :: rat) powi (l + 1 - int p)"
  have u0: "0 < u" using b1 by (simp add: u_def)
  have L: "of_int b powi l \<le> r" "r < of_int b powi (l + 1)"
    using rat_log_bounds [OF r b] by (simp_all add: l_def)
  have lo: "of_int b powi l = of_int (b ^ (p - 1)) * u"
    using b1 p by (simp add: u_def of_nat_diff flip: power_int_of_nat power_int_add)
  have hi: "of_int b powi (l + 1) = of_int (b ^ p) * u"
    using b1 by (simp add: u_def flip: power_int_of_nat power_int_add)
  have sr: "sig_round b p r = of_int (round_half_even (r / u)) * u"
    using r by (simp add: sig_round_def Let_def l_def [symmetric] u_def [symmetric])
  have "of_int (b ^ (p - 1)) \<le> r / u"
    using L(1) u0 unfolding lo by (simp add: pos_le_divide_eq)
  from round_half_even_mono [OF this] have "b ^ (p - 1) \<le> round_half_even (r / u)"
    by (simp only: round_half_even_of_int)
  then have "of_int (b ^ (p - 1)) * u \<le> sig_round b p r"
    unfolding sr using u0 by (intro mult_right_mono) (simp_all only: of_int_le_iff order_less_imp_le)
  then show "of_int b powi rat_log b r \<le> sig_round b p r" unfolding lo [symmetric] l_def [symmetric] .
  have "r / u \<le> of_int (b ^ p)"
    using L(2) u0 unfolding hi by (simp add: pos_divide_le_eq)
  from round_half_even_mono [OF this] have "round_half_even (r / u) \<le> b ^ p"
    by (simp only: round_half_even_of_int)
  then have "sig_round b p r \<le> of_int (b ^ p) * u"
    unfolding sr using u0 by (intro mult_right_mono) (simp_all only: of_int_le_iff order_less_imp_le)
  then show "sig_round b p r \<le> of_int b powi (rat_log b r + 1)" unfolding hi [symmetric] l_def [symmetric] .
qed

lemma sig_round_pos:
  assumes "1 < b" "0 < p" "0 < r" shows "0 < sig_round b p r"
proof -
  have "(0::rat) < of_int b powi rat_log b r" using assms(1) by simp
  with sig_round_pos_bounds(1) [OF assms] show ?thesis by linarith
qed

lemma sig_round_mono_pos:
  assumes b: "1 < b" and p: "0 < p" and r: "0 < r" and rs: "r \<le> s"
  shows "sig_round b p r \<le> sig_round b p s"
proof (cases "rat_log b r = rat_log b s")
  case True
  have s: "0 < s" using r rs by linarith
  define u where "u = (of_int b :: rat) powi (rat_log b s + 1 - int p)"
  have u0: "0 < u" using b by (simp add: u_def)
  have "r / u \<le> s / u" using rs u0 by (simp add: divide_right_mono)
  then have "round_half_even (r / u) \<le> round_half_even (s / u)" by (rule round_half_even_mono)
  then show ?thesis
    using r s u0 by (simp add: sig_round_def Let_def True u_def [symmetric])
next
  case False
  have s: "0 < s" using r rs by linarith
  have b1: "(1::rat) < of_int b" using b by simp
  have "of_int b powi rat_log b r < (of_int b powi (rat_log b s + 1) :: rat)"
    using rat_log_bounds [OF r b] rat_log_bounds [OF s b] rs by linarith
  then have "rat_log b r < rat_log b s + 1"
    using b1 by (meson not_le power_int_increasing order_less_imp_le leD)
  with False have "rat_log b r + 1 \<le> rat_log b s" by simp
  then have "of_int b powi (rat_log b r + 1) \<le> (of_int b powi rat_log b s :: rat)"
    using b1 by (intro power_int_increasing) auto
  with sig_round_pos_bounds(2) [OF b p r] sig_round_pos_bounds(1) [OF b p s]
  show ?thesis by linarith
qed

lemma sig_round_mono:
  assumes b: "1 < b" and p: "0 < p" and rs: "r \<le> s"
  shows "sig_round b p r \<le> sig_round b p s"
proof -
  consider "0 < r" | "r \<le> 0" "0 \<le> s" | "s < 0" by linarith
  then show ?thesis
  proof cases
    case 1
    then show ?thesis using sig_round_mono_pos [OF b p] rs by blast
  next
    case 2
    have "0 \<le> sig_round b p (- r)" "0 \<le> sig_round b p s"
      using 2 sig_round_pos [OF b p, of "- r"] sig_round_pos [OF b p, of s]
      by (cases "r = 0"; cases "s = 0"; force)+
    then show ?thesis by simp
  next
    case 3
    then show ?thesis using sig_round_mono_pos [OF b p, of "- s" "- r"] rs by simp
  qed
qed

lemma sig_round_idem:
  assumes b: "1 < b" and p: "0 < p"
  shows "sig_round b p (sig_round b p r) = sig_round b p r"
proof (cases "r = 0")
  case False
  have pos: "sig_round b p (sig_round b p r) = sig_round b p r" if r: "0 < r" for r
  proof -
    define l where "l = rat_log b r"
    define u where "u = (of_int b :: rat) powi (l + 1 - int p)"
    define k where "k = round_half_even (r / u)"
    have u0: "0 < u" using b by (simp add: u_def)
    have sr: "sig_round b p r = of_int k * u"
      using r by (simp add: sig_round_def Let_def l_def [symmetric] u_def [symmetric] k_def)
    have "of_int k * u \<le> of_int b powi (l + 1)"
      using sig_round_pos_bounds(2) [OF b p r] by (simp add: sr l_def)
    also have "\<dots> = of_int (b ^ p) * u"
      using b by (simp add: u_def flip: power_int_of_nat power_int_add)
    finally have "k \<le> b ^ p" using u0 by (simp only: mult_le_cancel_right_pos of_int_le_iff)
    moreover have "0 < k"
      using sig_round_pos [OF b p r] u0 by (simp add: sr zero_less_mult_iff)
    ultimately have "\<bar>k\<bar> \<le> b ^ p" by simp
    from sig_round_exact [OF b p this, of "of_int k * u" "l + 1 - int p"]
    show ?thesis by (simp add: sr u_def)
  qed
  show ?thesis
  proof (cases "0 < r")
    case True
    then show ?thesis by (rule pos)
  next
    case F: False
    then have "0 < - r" using False by simp
    from pos [OF this] show ?thesis by simp
  qed
qed simp

lemma sig_round_error:
  assumes b: "1 < b"
  shows "\<bar>sig_round b p r - r\<bar> \<le> \<bar>r\<bar> * of_int b powi (1 - int p) / 2"
proof (cases "r = 0")
  case False
  define l where "l = rat_log b \<bar>r\<bar>"
  define u where "u = (of_int b :: rat) powi (l + 1 - int p)"
  have u0: "0 < u" using b by (simp add: u_def)
  have "of_int b powi l \<le> \<bar>r\<bar>"
    using rat_log_bounds [of "\<bar>r\<bar>" b] b False by (simp add: l_def)
  then have ur: "u \<le> \<bar>r\<bar> * of_int b powi (1 - int p)"
  proof -
    assume "of_int b powi l \<le> \<bar>r\<bar>"
    then have "of_int b powi l * of_int b powi (1 - int p) \<le> \<bar>r\<bar> * of_int b powi (1 - int p)"
      by (rule mult_right_mono) (use b in simp)
    moreover have "of_int b powi l * of_int b powi (1 - int p) = u"
      using b by (simp add: u_def algebra_simps flip: power_int_add)
    ultimately show ?thesis by simp
  qed
  have "sig_round b p r - r = (of_int (round_half_even (r / u)) - r / u) * u"
  proof -
    have "sig_round b p r = of_int (round_half_even (r / u)) * u"
      using False by (simp add: sig_round_def Let_def l_def [symmetric] u_def [symmetric])
    then show ?thesis using u0 by (simp add: left_diff_distrib)
  qed
  then have "\<bar>sig_round b p r - r\<bar> = \<bar>of_int (round_half_even (r / u)) - r / u\<bar> * u"
    using u0 by (simp add: abs_mult)
  also have "\<dots> \<le> 1 / 2 * u"
    using round_half_even_bounds u0 by (intro mult_right_mono) auto
  finally show ?thesis using ur by simp
qed simp


section \<open>What the components know of a rounding\<close>

locale rounding =
  fixes rnd :: "rat \<Rightarrow> rat"
  assumes rnd_mono: "x \<le> y \<Longrightarrow> rnd x \<le> rnd y"
    and rnd_idem: "rnd (rnd x) = rnd x"
    and rnd_0: "rnd 0 = 0"
    and rnd_minus: "rnd (- x) = - rnd x"
    and rnd_pos: "0 < x \<Longrightarrow> 0 < rnd x"
begin

lemma rnd_nonneg: "0 \<le> x \<Longrightarrow> 0 \<le> rnd x"
  using rnd_mono [of 0 x] by (simp add: rnd_0)

lemma rnd_nonpos: "x \<le> 0 \<Longrightarrow> rnd x \<le> 0"
  using rnd_mono [of x 0] by (simp add: rnd_0)

lemma rnd_neg: "x < 0 \<Longrightarrow> rnd x < 0"
  using rnd_pos [of "- x"] by (simp add: rnd_minus)

lemma rnd_pos_iff: "0 < rnd x \<longleftrightarrow> 0 < x"
  using rnd_pos [of x] rnd_nonpos [of x] by linarith

lemma rnd_nonneg_iff: "0 \<le> rnd x \<longleftrightarrow> 0 \<le> x"
  using rnd_neg [of x] rnd_nonneg [of x] by linarith

lemma rnd_eq_0_iff: "rnd x = 0 \<longleftrightarrow> x = 0"
  using rnd_pos [of x] rnd_neg [of x] rnd_0 by (metis less_irrefl linorder_neqE)

text \<open>A bound that is itself representable is kept.\<close>

lemma rnd_le: "x \<le> rnd y \<Longrightarrow> rnd x \<le> rnd y"
  using rnd_mono [of x "rnd y"] by (simp add: rnd_idem)

lemma rnd_ge: "rnd y \<le> x \<Longrightarrow> rnd y \<le> rnd x"
  using rnd_mono [of "rnd y" x] by (simp add: rnd_idem)

lemma rnd_le_fixed: "x \<le> y \<Longrightarrow> rnd y = y \<Longrightarrow> rnd x \<le> y"
  using rnd_mono [of x y] by simp

lemma rnd_ge_fixed: "y \<le> x \<Longrightarrow> rnd y = y \<Longrightarrow> y \<le> rnd x"
  using rnd_mono [of y x] by simp

text \<open>A difference is rounded to zero only when it is zero, so a comparison may be read off it.\<close>

lemma rnd_diff_nonneg: "0 \<le> rnd (x - y) \<longleftrightarrow> y \<le> x"
  by (simp add: rnd_nonneg_iff)

lemma rnd_abs: "rnd \<bar>x\<bar> = \<bar>rnd x\<bar>"
  using rnd_nonneg [of x] rnd_nonneg [of "- x"] by (auto simp: abs_if rnd_minus)

end

definition dec :: "rat \<Rightarrow> rat" where
  "dec = sig_round 10 28"

definition flt :: "rat \<Rightarrow> rat" where
  "flt = sig_round 2 53"

interpretation dec: rounding dec
  by unfold_locales (auto simp: dec_def sig_round_mono sig_round_idem sig_round_pos)

interpretation flt: rounding flt
  by unfold_locales (auto simp: flt_def sig_round_mono sig_round_idem sig_round_pos)

text \<open>
  Values with few digits are exact.  \<^term>\<open>m\<close> and \<^term>\<open>e\<close> are the coefficient and the exponent of the number.
\<close>

lemma dec_exact: "\<bar>m\<bar> \<le> 10 ^ 28 \<Longrightarrow> dec (of_int m * 10 powi e) = of_int m * 10 powi e"
  unfolding dec_def by (rule sig_round_exact) simp_all

lemma flt_exact: "\<bar>m\<bar> \<le> 2 ^ 53 \<Longrightarrow> flt (of_int m * 2 powi e) = of_int m * 2 powi e"
  unfolding flt_def by (rule sig_round_exact) simp_all

lemma dec_of_int: "\<bar>m\<bar> \<le> 10 ^ 28 \<Longrightarrow> dec (of_int m) = of_int m"
  using dec_exact [of m 0] by simp

lemma flt_of_int: "\<bar>m\<bar> \<le> 2 ^ 53 \<Longrightarrow> flt (of_int m) = of_int m"
  using flt_exact [of m 0] by simp

lemma dec_1 [simp]: "dec 1 = 1" and flt_1 [simp]: "flt 1 = 1"
  using dec_of_int [of 1] flt_of_int [of 1] by simp_all

lemmas dec_0 [simp] = dec.rnd_0
lemmas flt_0 [simp] = flt.rnd_0
lemmas dec_idem [simp] = dec.rnd_idem
lemmas flt_idem [simp] = flt.rnd_idem

lemma sig_round_error_pow:
  assumes "1 < b"
  shows "\<bar>sig_round b (Suc k) r - r\<bar> \<le> \<bar>r\<bar> * inverse (of_int b ^ k) / 2"
proof -
  have e: "1 - int (Suc k) = - int k" by simp
  show ?thesis
    using sig_round_error [OF assms, of "Suc k" r]
    unfolding e power_int_minus power_int_of_nat .
qed

lemma dec_error: "\<bar>dec x - x\<bar> \<le> \<bar>x\<bar> * inverse (10 ^ 27) / 2"
  unfolding dec_def
  using sig_round_error_pow [of 10 27 x]
  by (simp del: power_numeral inverse_eq_divide times_divide_eq_right)

section \<open>Evaluating a rounding\<close>

text \<open>
  Evaluating a rounding by its result: \<open>k\<close> is the coefficient of \<open>p\<close> digits nearest to the number.
\<close>

lemma round_half_even_near: "\<bar>x - of_int k\<bar> * 2 < 1 \<Longrightarrow> round_half_even x = k"
proof -
  assume "\<bar>x - of_int k\<bar> * 2 < 1"
  then have "\<bar>x - of_int k\<bar> < 1 / 2" by simp
  then have "x - of_int k < 1 / 2" "of_int k - x < 1 / 2" by (simp_all only: abs_less_iff minus_diff_eq)
  moreover have "of_int (round_half_even x) - x \<le> 1 / 2" "x - of_int (round_half_even x) \<le> 1 / 2"
    using round_half_even_bounds [of x] by (simp_all only: abs_le_iff minus_diff_eq)
  ultimately have "\<bar>of_int (round_half_even x) - (of_int k :: rat)\<bar> < 1"
    unfolding abs_less_iff by linarith
  then have "of_int \<bar>round_half_even x - k\<bar> < (of_int 1 :: rat)" by simp
  then show ?thesis unfolding of_int_less_iff by simp
qed

lemma round_half_even_tie:
  assumes tie: "\<bar>x - of_int k\<bar> * 2 = 1" and k: "even k"
  shows "round_half_even x = k"
proof (cases "of_int k \<le> x")
  case True
  then have x: "x = of_int k + 1 / 2" using tie by simp
  then have "\<lfloor>x\<rfloor> = k" by (simp add: floor_eq_iff)
  then show ?thesis using k x by (simp add: round_half_even_def)
next
  case False
  then have x: "x = of_int (k - 1) + 1 / 2" using tie by simp
  then have "\<lfloor>x\<rfloor> = k - 1" by (simp add: floor_eq_iff)
  then show ?thesis using k x by (simp add: round_half_even_def)
qed

lemma sig_round_eval:
  assumes b: "1 < b" and p: "0 < p" and lo: "of_int b ^ (p - 1) \<le> x * of_int b ^ j" and hi: "k < b ^ p"
    and near: "\<bar>x * of_int b ^ j - of_int k\<bar> * 2 < 1 \<or> \<bar>x * of_int b ^ j - of_int k\<bar> * 2 = 1 \<and> even k"
  shows "sig_round b p x = of_int k / of_int b ^ j"
proof -
  let ?b = "of_int b :: rat"
  have b0: "0 < ?b" using b by simp
  have bj: "0 < ?b ^ j" using b0 by simp
  have "0 < ?b ^ (p - 1)" using b0 by simp
  with lo have x: "0 < x" using bj by (metis less_le_trans zero_less_mult_pos2)
  have "of_int k + 1 \<le> ?b ^ p" using hi by (metis add1_zle_eq of_int_1 of_int_add of_int_le_iff of_int_power)
  moreover have "\<bar>x * ?b ^ j - of_int k\<bar> \<le> 1 / 2" using near by auto
  then have "x * ?b ^ j - of_int k \<le> 1 / 2" by (simp only: abs_le_iff)
  ultimately have up: "x * ?b ^ j < ?b ^ p" by linarith
  have "?b powi (int p - 1 - int j) * ?b ^ j = ?b ^ (p - 1)"
    using b0 p by (simp add: of_nat_diff flip: power_int_of_nat power_int_add)
  then have l1: "?b powi (int p - 1 - int j) \<le> x"
    using lo bj by (metis mult_le_cancel_right_pos)
  have "?b powi (int p - 1 - int j + 1) * ?b ^ j = ?b ^ p"
    using b0 by (simp flip: power_int_of_nat power_int_add)
  then have l2: "x < ?b powi (int p - 1 - int j + 1)"
    using up bj by (metis mult_less_cancel_right_pos)
  have log: "rat_log b x = int p - 1 - int j" by (rule rat_log_unique [OF b l1 l2])
  have u: "?b powi (rat_log b \<bar>x\<bar> + 1 - int p) = 1 / ?b ^ j"
    using x by (simp add: log power_int_minus divide_inverse)
  have "round_half_even (x / (1 / ?b ^ j)) = k" using near round_half_even_near round_half_even_tie by auto
  then show ?thesis using x unfolding sig_round_def u by simp
qed

lemma dec_eval:
  assumes "10 ^ 27 \<le> x * 10 ^ j" "\<bar>x * 10 ^ j - of_int k\<bar> * 2 < 1" "k < 10 ^ 28"
  shows "dec x = of_int k / 10 ^ j"
  unfolding dec_def using sig_round_eval [of 10 28 x j k] assms by simp

lemma flt_eval:
  assumes "2 ^ 52 \<le> x * 2 ^ j" "k < 2 ^ 53"
    and "\<bar>x * 2 ^ j - of_int k\<bar> * 2 < 1 \<or> \<bar>x * 2 ^ j - of_int k\<bar> * 2 = 1 \<and> even k"
  shows "flt x = of_int k / 2 ^ j"
  unfolding flt_def using sig_round_eval [of 2 53 x j k] assms by simp

section \<open>The operations of the two types\<close>

type_synonym decimal = rat
type_synonym pyfloat = rat

definition dadd :: "decimal \<Rightarrow> decimal \<Rightarrow> decimal" where "dadd a b = dec (a + b)"
definition dsub :: "decimal \<Rightarrow> decimal \<Rightarrow> decimal" where "dsub a b = dec (a - b)"
definition dmul :: "decimal \<Rightarrow> decimal \<Rightarrow> decimal" where "dmul a b = dec (a * b)"

text \<open>Division by a number that is not zero where it stands, and division in general.\<close>

definition dquot :: "decimal \<Rightarrow> decimal \<Rightarrow> decimal" where "dquot a b = dec (a / b)"

definition ddiv :: "decimal \<Rightarrow> decimal \<Rightarrow> decimal result" where
  "ddiv a b = (if b = 0 then Inl ArithmeticError else Inr (dquot a b))"

text \<open>Unary minus and \<^verbatim>\<open>abs\<close> apply the context too.\<close>

definition dneg :: "decimal \<Rightarrow> decimal" where "dneg a = dec (- a)"
definition dabs :: "decimal \<Rightarrow> decimal" where "dabs a = dec \<bar>a\<bar>"

text \<open>\<^verbatim>\<open>sum(values, start)\<close> adds from the left.\<close>

definition dsum :: "decimal \<Rightarrow> decimal list \<Rightarrow> decimal" where
  "dsum start xs = foldl dadd start xs"

definition fadd :: "pyfloat \<Rightarrow> pyfloat \<Rightarrow> pyfloat" where "fadd a b = flt (a + b)"
definition fsub :: "pyfloat \<Rightarrow> pyfloat \<Rightarrow> pyfloat" where "fsub a b = flt (a - b)"
definition fmul :: "pyfloat \<Rightarrow> pyfloat \<Rightarrow> pyfloat" where "fmul a b = flt (a * b)"
definition fquot :: "pyfloat \<Rightarrow> pyfloat \<Rightarrow> pyfloat" where "fquot a b = flt (a / b)"

definition fdiv :: "pyfloat \<Rightarrow> pyfloat \<Rightarrow> pyfloat result" where
  "fdiv a b = (if b = 0 then Inl ArithmeticError else Inr (fquot a b))"

text \<open>\<^verbatim>\<open>timedelta.total_seconds()\<close>.\<close>

definition total_seconds :: "timedelta \<Rightarrow> pyfloat" where
  "total_seconds d = flt (of_int d / 1000000)"

lemmas decimal_defs = dadd_def dsub_def dmul_def dquot_def dneg_def dabs_def
lemmas float_defs = fadd_def fsub_def fmul_def fquot_def

lemma dadd_nonneg: "0 \<le> a \<Longrightarrow> 0 \<le> b \<Longrightarrow> 0 \<le> dadd a b"
  by (simp add: dadd_def dec.rnd_nonneg)

lemma dadd_pos: "0 \<le> a \<Longrightarrow> 0 < b \<Longrightarrow> 0 < dadd a b"
  by (simp add: dadd_def dec.rnd_pos)

lemma dsub_nonneg_iff [simp]: "0 \<le> dsub a b \<longleftrightarrow> b \<le> a"
  by (simp add: dsub_def dec.rnd_diff_nonneg)

lemma dsub_pos_iff [simp]: "0 < dsub a b \<longleftrightarrow> b < a"
  by (simp add: dsub_def dec.rnd_pos_iff)

lemma dsub_eq_0_iff [simp]: "dsub a b = 0 \<longleftrightarrow> a = b"
  by (simp add: dsub_def dec.rnd_eq_0_iff)

lemma dsub_self [simp]: "dsub a a = 0"
  by (simp add: dsub_def)

lemma dmul_nonneg: "0 \<le> a \<Longrightarrow> 0 \<le> b \<Longrightarrow> 0 \<le> dmul a b"
  by (simp add: dmul_def dec.rnd_nonneg)

lemma dmul_pos: "0 < a \<Longrightarrow> 0 < b \<Longrightarrow> 0 < dmul a b"
  by (simp add: dmul_def dec.rnd_pos)

lemma dmul_mono: "0 \<le> c \<Longrightarrow> a \<le> b \<Longrightarrow> dmul a c \<le> dmul b c"
  by (simp add: dmul_def dec.rnd_mono mult_right_mono)

lemma dquot_nonneg: "0 \<le> a \<Longrightarrow> 0 < b \<Longrightarrow> 0 \<le> dquot a b"
  by (simp add: dquot_def dec.rnd_nonneg)

lemma dquot_pos: "0 < a \<Longrightarrow> 0 < b \<Longrightarrow> 0 < dquot a b"
  by (simp add: dquot_def dec.rnd_pos)

lemma dabs_nonneg [simp]: "0 \<le> dabs a"
  by (simp add: dabs_def dec.rnd_nonneg)

lemma dabs_dec [simp]: "dabs (dec a) = \<bar>dec a\<bar>"
  by (simp only: dabs_def dec.rnd_abs dec.rnd_idem)

lemma dabs_dsub [simp]: "dabs (dsub a b) = \<bar>dsub a b\<bar>"
  by (simp only: dsub_def dabs_dec)

lemma dsum_Nil [simp]: "dsum s [] = s"
  by (simp add: dsum_def)

lemma dsum_Cons [simp]: "dsum s (x # xs) = dsum (dadd s x) xs"
  by (simp add: dsum_def)

lemma dsum_append: "dsum s (xs @ ys) = dsum (dsum s xs) ys"
  by (simp add: dsum_def)

lemma dsum_nonneg: "0 \<le> s \<Longrightarrow> \<forall>x \<in> set xs. 0 \<le> x \<Longrightarrow> 0 \<le> dsum s xs"
  by (induction xs arbitrary: s) (auto simp: dadd_nonneg)

lemma fsub_nonneg_iff [simp]: "0 \<le> fsub a b \<longleftrightarrow> b \<le> a"
  by (simp add: fsub_def flt.rnd_diff_nonneg)

lemma fadd_nonneg: "0 \<le> a \<Longrightarrow> 0 \<le> b \<Longrightarrow> 0 \<le> fadd a b"
  by (simp add: fadd_def flt.rnd_nonneg)

lemma fmul_nonneg: "0 \<le> a \<Longrightarrow> 0 \<le> b \<Longrightarrow> 0 \<le> fmul a b"
  by (simp add: fmul_def flt.rnd_nonneg)

lemma ddiv_Inr [py_result]: "ddiv a b = Inr c \<longleftrightarrow> b \<noteq> 0 \<and> c = dquot a b"
  by (auto simp: ddiv_def)

section \<open>Text of a normalised Decimal\<close>

text \<open>
  \<^verbatim>\<open>f"{d.normalize()}"\<close>: trailing zeros of the coefficient are dropped, and the exponent is written
  out when it is positive or the number is below a millionth.
\<close>

function digits_text :: "int \<Rightarrow> string" where
  "digits_text n = (if n < 10 then [char_of (48 + nat n)]
                    else digits_text (n div 10) @ [char_of (48 + nat (n mod 10))])"
  by pat_completeness auto
termination by (relation "measure nat") auto

declare digits_text.simps [simp del]

definition int_text :: "int \<Rightarrow> string" where
  "int_text n = (if n < 0 then CHR ''-'' # digits_text (- n) else digits_text n)"

text \<open>The number as coefficient and exponent; a Decimal has finitely many decimal places.\<close>

definition decimal_places :: "rat \<Rightarrow> nat" where
  "decimal_places r =
     (case find (\<lambda>k. snd (quotient_of (r * 10 ^ k)) = 1) [0..<60] of None \<Rightarrow> 60 | Some k \<Rightarrow> k)"

fun drop_zeros :: "nat \<Rightarrow> int \<Rightarrow> int \<Rightarrow> int \<times> int" where
  "drop_zeros 0 m e = (m, e)"
| "drop_zeros (Suc fuel) m e =
     (if m \<noteq> 0 \<and> m mod 10 = 0 then drop_zeros fuel (m div 10) (e + 1) else (m, e))"

definition normalized_text :: "decimal \<Rightarrow> string" where
  "normalized_text r =
     (if r = 0 then ''0''
      else let k = decimal_places r;
               (m, e) = drop_zeros 60 (fst (quotient_of (\<bar>r\<bar> * 10 ^ k))) (- int k);
               d = digits_text m;
               n = int (length d);
               left = e + n;
               body = (if e \<le> 0 \<and> - 6 < left
                       then (if left \<le> 0 then ''0.'' @ replicate (nat (- left)) CHR ''0'' @ d
                             else if left = n then d
                             else take (nat left) d @ ''.'' @ drop (nat left) d)
                       else take 1 d @ (if 1 < n then ''.'' @ drop 1 d else []) @ ''E''
                            @ (if 0 < left - 1 then ''+'' else []) @ int_text (left - 1))
           in (if r < 0 then CHR ''-'' # body else body))"

end
