(* ===== verification/Domain.thy ===== *)
theory Domain
  imports PyNumbers
begin

text \<open>
  The value objects of \<^verbatim>\<open>crypto/domain\<close>: assets, trading pairs, universes, candles and market data
  (\<^verbatim>\<open>market.py\<close>), portfolios and allocations (\<^verbatim>\<open>portfolio.py\<close>), orders (\<^verbatim>\<open>order.py\<close>), signals
  (\<^verbatim>\<open>signal.py\<close>), timeframes (\<^verbatim>\<open>timeframe.py\<close>) and universe snapshots (\<^verbatim>\<open>universe.py\<close>).

  A frozen dataclass is a record; its \<^verbatim>\<open>__post_init__\<close> is a smart constructor \<open>mk_...\<close> that either
  raises or returns the validated record.  The invariant of a class is the predicate
  \<open>wf_...\<close>, and each smart constructor is shown to return exactly the values that satisfy it.
  Times stored in a record have passed \<^const>\<open>require_utc\<close>.
\<close>

named_theorems domain_wf "what a validated domain value satisfies"

section \<open>market.py\<close>

datatype asset_kind = CRYPTO | CASH

record asset =
  asset_symbol :: string
  asset_kind :: asset_kind

definition mk_asset :: "string \<Rightarrow> asset_kind \<Rightarrow> asset result" where
  "mk_asset symbol knd =
     (let normalized = py_upper (py_strip symbol)
      in if normalized = [] \<or> \<not> py_isalnum normalized
         then Inl (ValueError ''asset symbol must be non-empty and alphanumeric'')
         else Inr \<lparr>asset_symbol = normalized, asset_kind = knd\<rparr>)"

record trading_pair =
  pair_base :: asset
  pair_quote :: asset

definition mk_trading_pair :: "asset \<Rightarrow> asset \<Rightarrow> trading_pair result" where
  "mk_trading_pair base quote =
     (if base = quote then Inl (ValueError ''base and quote assets must differ'')
      else if asset_kind quote \<noteq> CASH
           then Inl (ValueError ''spot trading-pair quote must be a cash asset'')
      else Inr \<lparr>pair_base = base, pair_quote = quote\<rparr>)"

definition pair_symbol :: "trading_pair \<Rightarrow> string" where
  "pair_symbol p = asset_symbol (pair_base p) @ asset_symbol (pair_quote p)"

definition parse_trading_pair :: "string \<Rightarrow> trading_pair result" where
  "parse_trading_pair value =
     (let normalized = py_replace_char CHR ''-'' CHR ''/'' (py_upper (py_strip value))
      in case py_split CHR ''/'' normalized of
           [base, quote] \<Rightarrow>
             bind_result (mk_asset base CRYPTO) (\<lambda>b.
             bind_result (mk_asset quote CASH) (\<lambda>q. mk_trading_pair b q))
         | _ \<Rightarrow> Inl (ValueError (''pair must use BASE/QUOTE format: '' @ value)))"

record trading_universe =
  universe_pairs :: "trading_pair list"

definition mk_trading_universe :: "trading_pair list \<Rightarrow> trading_universe result" where
  "mk_trading_universe pairs =
     (if pairs = [] then Inl (ValueError ''trading universe cannot be empty'')
      else if \<not> distinct (map pair_symbol pairs)
           then Inl (ValueError ''trading universe pairs must be unique'')
      else if card (set (map pair_quote pairs)) \<noteq> 1
           then Inl (ValueError ''the initial universe requires one common quote asset'')
      else Inr \<lparr>universe_pairs = pairs\<rparr>)"

fun universe_quote_asset :: "trading_universe \<Rightarrow> asset result" where
  "universe_quote_asset u =
     (case universe_pairs u of [] \<Rightarrow> Inl IndexError | p # _ \<Rightarrow> Inr (pair_quote p))"

definition universe_assets :: "trading_universe \<Rightarrow> asset list" where
  "universe_assets u = map pair_base (universe_pairs u)"

definition pair_for :: "trading_universe \<Rightarrow> asset \<Rightarrow> trading_pair result" where
  "pair_for u a =
     (case find (\<lambda>p. pair_base p = a) (universe_pairs u) of
        Some p \<Rightarrow> Inr p
      | None \<Rightarrow> Inl (KeyError (asset_symbol a)))"

record candle =
  candle_pair :: trading_pair
  open_time :: utc
  available_at :: utc
  open_price :: decimal
  high_price :: decimal
  low_price :: decimal
  close_price :: decimal
  volume :: decimal

definition mk_candle ::
    "trading_pair \<Rightarrow> datetime \<Rightarrow> datetime \<Rightarrow> decimal \<Rightarrow> decimal \<Rightarrow> decimal \<Rightarrow> decimal \<Rightarrow> decimal
     \<Rightarrow> candle result" where
  "mk_candle pair opened avail opn high low close vol =
     bind_result (require_utc opened ''open_time'') (\<lambda>t.
     bind_result (require_utc avail ''available_at'') (\<lambda>a.
       if a < t then Inl (ValueError ''candle cannot be available before it opens'')
       else if min opn (min high (min low close)) \<le> 0
            then Inl (ValueError ''OHLC prices must be positive'')
       else if vol < 0 then Inl (ValueError ''volume cannot be negative'')
       else if high < max opn close \<or> min opn close < low
            then Inl (ValueError ''invalid OHLC range'')
       else Inr \<lparr>candle_pair = pair, open_time = t, available_at = a, open_price = opn,
                 high_price = high, low_price = low, close_price = close, volume = vol\<rparr>))"

text \<open>\<^verbatim>\<open>candles\<close> maps a pair symbol to its series; the mapping is iterated in insertion order.\<close>

type_synonym series = "(string \<times> candle list) list"

record market_data_bundle =
  bundle_universe :: trading_universe
  bundle_candles :: series

definition mk_market_data_bundle :: "trading_universe \<Rightarrow> series \<Rightarrow> market_data_bundle result" where
  "mk_market_data_bundle u cs =
     (if \<not> set (map pair_symbol (universe_pairs u)) \<subseteq> set (dict_keys cs)
      then Inl (ValueError ''market data is missing one or more universe pairs'')
      else case find (\<lambda>(s, vs). \<not> strictly_ordered open_time vs) cs of
             Some (s, _) \<Rightarrow> Inl (ValueError (''candles must be strictly ordered for '' @ s))
           | None \<Rightarrow> Inr \<lparr>bundle_universe = u, bundle_candles = cs\<rparr>)"

text \<open>\<^verbatim>\<open>bundle.candles[symbol]\<close>.\<close>

definition candles_of :: "string \<Rightarrow> market_data_bundle \<Rightarrow> candle list result" where
  "candles_of symbol b =
     (case map_of (bundle_candles b) symbol of
        None \<Rightarrow> Inl (KeyError symbol)
      | Some vs \<Rightarrow> Inr vs)"

text \<open>The candles of one pair that a decision at \<open>cutoff\<close> may see.\<close>

definition visible_candles :: "utc \<Rightarrow> candle list \<Rightarrow> candle list" where
  "visible_candles cutoff vs = filter (\<lambda>c. available_at c \<le> cutoff) vs"

definition candles_known_at :: "utc \<Rightarrow> series \<Rightarrow> series" where
  "candles_known_at cutoff cs =
     map (\<lambda>(s, vs). (s, visible_candles cutoff vs)) cs"

definition bundle_known_at :: "market_data_bundle \<Rightarrow> datetime \<Rightarrow> market_data_bundle result" where
  "bundle_known_at b as_of =
     bind_result (require_utc as_of ''as_of'') (\<lambda>cutoff.
       mk_market_data_bundle (bundle_universe b) (candles_known_at cutoff (bundle_candles b)))"

datatype market_regime = RISK_ON | NEUTRAL | RISK_OFF

record market_regime_result =
  regime_of :: market_regime
  regime_as_of :: utc
  regime_model :: string
  regime_evidence :: "(string \<times> pyfloat) list"

section \<open>portfolio.py\<close>

datatype portfolio_purpose = CORE_INVESTMENT | SYSTEMATIC_TRADING | PAPER_TRADING

record position =
  position_asset :: asset
  position_quantity :: decimal
  position_average_cost :: decimal

definition mk_position :: "asset \<Rightarrow> decimal \<Rightarrow> decimal \<Rightarrow> position result" where
  "mk_position a q c =
     (if q < 0 \<or> c < 0
      then Inl (ValueError ''spot positions cannot have negative quantity or cost'')
      else Inr \<lparr>position_asset = a, position_quantity = q, position_average_cost = c\<rparr>)"

record trading_portfolio =
  tp_id :: string
  tp_purpose :: portfolio_purpose
  tp_cash_asset :: asset
  tp_cash_balance :: decimal
  tp_positions :: "position list"

definition mk_trading_portfolio ::
    "string \<Rightarrow> portfolio_purpose \<Rightarrow> asset \<Rightarrow> decimal \<Rightarrow> position list \<Rightarrow> trading_portfolio result"
where
  "mk_trading_portfolio pid purpose cash_asset cash positions =
     (if purpose = CORE_INVESTMENT
      then Inl (ValueError ''core investment holdings cannot enter the crypto trading engine'')
      else if cash < 0 then Inl (ValueError ''cash balance cannot be negative'')
      else Inr \<lparr>tp_id = pid, tp_purpose = purpose, tp_cash_asset = cash_asset,
                tp_cash_balance = cash, tp_positions = positions\<rparr>)"

record asset_allocation =
  alloc_asset :: asset
  alloc_weight :: decimal

definition mk_asset_allocation :: "asset \<Rightarrow> decimal \<Rightarrow> asset_allocation result" where
  "mk_asset_allocation a w =
     (if \<not> (0 \<le> w \<and> w \<le> 1)
      then Inl (ValueError ''allocation weight must be between zero and one'')
      else Inr \<lparr>alloc_asset = a, alloc_weight = w\<rparr>)"

record portfolio_allocation =
  pa_portfolio_id :: string
  pa_purpose :: portfolio_purpose
  pa_allocations :: "asset_allocation list"
  pa_cash_weight :: decimal

definition mk_portfolio_allocation ::
    "string \<Rightarrow> portfolio_purpose \<Rightarrow> asset_allocation list \<Rightarrow> decimal \<Rightarrow> portfolio_allocation result"
where
  "mk_portfolio_allocation pid purpose allocations cash_weight =
     (if purpose = CORE_INVESTMENT
      then Inl (ValueError ''core investment allocation is outside this engine'')
      else if \<not> (0 \<le> cash_weight \<and> cash_weight \<le> 1)
           then Inl (ValueError ''cash weight must be between zero and one'')
      else if \<not> distinct (map alloc_asset allocations)
           then Inl (ValueError ''allocation assets must be unique'')
      else if dsum cash_weight (map alloc_weight allocations) \<noteq> 1
           then Inl (ValueError ''asset and cash weights must sum exactly to one'')
      else Inr \<lparr>pa_portfolio_id = pid, pa_purpose = purpose, pa_allocations = allocations,
                pa_cash_weight = cash_weight\<rparr>)"

section \<open>order.py\<close>

datatype order_side = BUY | SELL

record order_intent =
  oi_portfolio_id :: string
  oi_purpose :: portfolio_purpose
  oi_pair :: trading_pair
  oi_side :: order_side
  oi_quantity :: decimal
  oi_created_at :: utc
  oi_intent_id :: string

definition mk_order_intent ::
    "string \<Rightarrow> portfolio_purpose \<Rightarrow> trading_pair \<Rightarrow> order_side \<Rightarrow> decimal \<Rightarrow> datetime \<Rightarrow> string
     \<Rightarrow> order_intent result" where
  "mk_order_intent pid purpose pair side quantity created_at intent_id =
     bind_result (require_utc created_at ''created_at'') (\<lambda>t.
       if quantity \<le> 0 then Inl (ValueError ''order quantity must be positive'')
       else if py_strip intent_id = []
            then Inl (ValueError ''intent_id is required for idempotency'')
       else Inr \<lparr>oi_portfolio_id = pid, oi_purpose = purpose, oi_pair = pair, oi_side = side,
                 oi_quantity = quantity, oi_created_at = t, oi_intent_id = intent_id\<rparr>)"

record approved_order =
  ao_intent :: order_intent
  ao_risk_policy_version :: string

definition mk_approved_order :: "order_intent \<Rightarrow> string \<Rightarrow> approved_order result" where
  "mk_approved_order intent version =
     (if oi_purpose intent = CORE_INVESTMENT
      then Inl (ValueError ''the crypto trading engine cannot approve core investment orders'')
      else Inr \<lparr>ao_intent = intent, ao_risk_policy_version = version\<rparr>)"

section \<open>signal.py\<close>

datatype signal_direction = LONG | FLAT

record signal =
  signal_asset :: asset
  signal_direction :: signal_direction
  signal_strength :: decimal
  signal_as_of :: utc
  signal_reason :: string

definition mk_signal ::
    "asset \<Rightarrow> signal_direction \<Rightarrow> decimal \<Rightarrow> datetime \<Rightarrow> string \<Rightarrow> signal result" where
  "mk_signal a d strength as_of reason =
     bind_result (require_utc as_of ''as_of'') (\<lambda>t.
       if \<not> (0 \<le> strength \<and> strength \<le> 1)
       then Inl (ValueError ''signal strength must be between zero and one'')
       else Inr \<lparr>signal_asset = a, signal_direction = d, signal_strength = strength,
                 signal_as_of = t, signal_reason = reason\<rparr>)"

record strategy_result =
  sr_strategy_name :: string
  sr_strategy_version :: string
  sr_as_of :: utc
  sr_regime :: market_regime
  sr_signals :: "signal list"

definition mk_strategy_result ::
    "string \<Rightarrow> string \<Rightarrow> datetime \<Rightarrow> market_regime \<Rightarrow> signal list \<Rightarrow> strategy_result result" where
  "mk_strategy_result name version as_of reg signals =
     bind_result (require_utc as_of ''as_of'') (\<lambda>t.
       Inr \<lparr>sr_strategy_name = name, sr_strategy_version = version, sr_as_of = t,
            sr_regime = reg, sr_signals = signals\<rparr>)"

section \<open>timeframe.py\<close>

datatype candle_timeframe = MINUTE_15 | HOUR_1 | HOUR_4 | DAY_1

fun timeframe_minutes :: "candle_timeframe \<Rightarrow> int" where
  "timeframe_minutes MINUTE_15 = 15"
| "timeframe_minutes HOUR_1 = 60"
| "timeframe_minutes HOUR_4 = 240"
| "timeframe_minutes DAY_1 = 1440"

definition timeframe_upbit_unit :: "candle_timeframe \<Rightarrow> int result" where
  "timeframe_upbit_unit tf =
     (if tf = DAY_1 then Inl (ValueError ''daily candles do not use an Upbit minute unit'')
      else Inr (timeframe_minutes tf))"

section \<open>universe.py\<close>

record universe_member =
  member_pair :: trading_pair
  member_warning :: bool
  member_source :: string
  member_observed_at :: utc

definition mk_universe_member ::
    "trading_pair \<Rightarrow> bool \<Rightarrow> string \<Rightarrow> datetime \<Rightarrow> universe_member result" where
  "mk_universe_member pair warning source observed_at =
     bind_result (require_utc observed_at ''observed_at'') (\<lambda>t.
       Inr \<lparr>member_pair = pair, member_warning = warning, member_source = source,
            member_observed_at = t\<rparr>)"

record universe_snapshot =
  snapshot_observed_at :: utc
  snapshot_source :: string
  snapshot_members :: "universe_member list"

definition mk_universe_snapshot ::
    "datetime \<Rightarrow> string \<Rightarrow> universe_member list \<Rightarrow> universe_snapshot result" where
  "mk_universe_snapshot observed_at source members =
     bind_result (require_utc observed_at ''observed_at'') (\<lambda>t.
       if \<not> distinct (map (\<lambda>m. pair_symbol (member_pair m)) members)
       then Inl (ValueError ''universe snapshot contains duplicate pairs'')
       else if list_ex (\<lambda>m. member_observed_at m \<noteq> t) members
            then Inl (ValueError ''member observation time must match its snapshot'')
       else Inr \<lparr>snapshot_observed_at = t, snapshot_source = source, snapshot_members = members\<rparr>)"

record universe_history =
  history_snapshots :: "universe_snapshot list"

definition mk_universe_history :: "universe_snapshot list \<Rightarrow> universe_history result" where
  "mk_universe_history snapshots =
     (if \<not> strictly_ordered snapshot_observed_at snapshots
      then Inl (ValueError ''universe snapshots must be strictly ordered'')
      else Inr \<lparr>history_snapshots = snapshots\<rparr>)"

definition last_option :: "'a list \<Rightarrow> 'a option" where
  "last_option xs = (if xs = [] then None else Some (last xs))"

definition visible_snapshots :: "utc \<Rightarrow> universe_snapshot list \<Rightarrow> universe_snapshot list" where
  "visible_snapshots cutoff ss = filter (\<lambda>s. snapshot_observed_at s \<le> cutoff) ss"

definition history_known_at :: "universe_history \<Rightarrow> datetime \<Rightarrow> universe_snapshot option result"
where
  "history_known_at h as_of =
     bind_result (require_utc as_of ''as_of'') (\<lambda>cutoff.
       Inr (last_option (visible_snapshots cutoff (history_snapshots h))))"

record universe_eligibility_result =
  elig_as_of :: utc
  elig_snapshot_observed_at :: "utc option"
  elig_eligible_pairs :: "trading_pair list"
  elig_average_quote_volume :: "(string \<times> decimal) list"
  elig_exclusions :: "(string \<times> string) list"

section \<open>Well-formed values\<close>

text \<open>An asset that \<^const>\<open>mk_asset\<close> returned, and a pair that \<^const>\<open>mk_trading_pair\<close> returned for such assets.\<close>

definition valid_symbol :: "string \<Rightarrow> bool" where
  "valid_symbol s = (py_isalnum s \<and> py_upper s = s)"

definition wf_asset :: "asset \<Rightarrow> bool" where
  "wf_asset a = valid_symbol (asset_symbol a)"

definition wf_pair :: "trading_pair \<Rightarrow> bool" where
  "wf_pair p = (wf_asset (pair_base p) \<and> wf_asset (pair_quote p) \<and> pair_base p \<noteq> pair_quote p
     \<and> asset_kind (pair_quote p) = CASH)"

lemma valid_symbol_strip [simp]: "valid_symbol s \<Longrightarrow> py_strip s = s"
  by (simp add: valid_symbol_def py_isalnum_def py_strip_alnum)

lemma mk_asset_valid [simp]:
  "valid_symbol s \<Longrightarrow> mk_asset s k = Inr \<lparr>asset_symbol = s, asset_kind = k\<rparr>"
  by (auto simp: mk_asset_def valid_symbol_def py_isalnum_def py_strip_alnum)

lemma mk_asset_wf [domain_wf]: "mk_asset s k = Inr a \<Longrightarrow> wf_asset a \<and> asset_kind a = k"
  by (auto simp: mk_asset_def wf_asset_def valid_symbol_def Let_def split: if_splits)

lemma mk_trading_pair_wf [domain_wf]:
  "mk_trading_pair b q = Inr p \<Longrightarrow> wf_asset b \<Longrightarrow> wf_asset q \<Longrightarrow> wf_pair p \<and> pair_base p = b \<and> pair_quote p = q"
  by (auto simp: mk_trading_pair_def wf_pair_def split: if_splits)

lemma mk_trading_pair_again: "wf_pair p \<Longrightarrow> mk_trading_pair (pair_base p) (pair_quote p) = Inr p"
  by (simp add: mk_trading_pair_def wf_pair_def)

lemma parse_trading_pair_Inr:
  "parse_trading_pair s = Inr p \<Longrightarrow> wf_pair p \<and> asset_kind (pair_base p) = CRYPTO"
  by (auto simp: parse_trading_pair_def Let_def py_result dest!: mk_asset_wf mk_trading_pair_wf split: list.splits)

definition canonical_text :: "trading_pair \<Rightarrow> string" where
  "canonical_text p = asset_symbol (pair_base p) @ CHR ''/'' # asset_symbol (pair_quote p)"

lemma valid_chars:
  assumes "valid_symbol s" "c \<in> set s"
  shows "\<not> py_isspace c" "c \<noteq> CHR ''/''" "c \<noteq> CHR ''-''" "upper_char c = c"
proof -
  have c: "alnum_char c" "upper_char c = c"
    using assms by (auto simp: valid_symbol_def py_isalnum_def list_all_upper list_all_iff)
  show "\<not> py_isspace c" using c(1) by (rule alnum_not_space)
  show "c \<noteq> CHR ''/''" "c \<noteq> CHR ''-''" using c(1) by (auto simp: alnum_char_def)
  show "upper_char c = c" by (rule c(2))
qed

lemma parse_canonical:
  assumes p: "wf_pair p" and k: "asset_kind (pair_base p) = CRYPTO"
  shows "parse_trading_pair (canonical_text p) = Inr p"
proof -
  let ?b = "asset_symbol (pair_base p)" and ?q = "asset_symbol (pair_quote p)"
  have v: "valid_symbol ?b" "valid_symbol ?q" using p by (auto simp: wf_pair_def wf_asset_def)
  have slash: "\<not> py_isspace CHR ''/''" by (simp add: py_isspace_def)
  have "py_strip (canonical_text p) = canonical_text p"
    unfolding canonical_text_def
    by (rule py_strip_no_space) (auto simp: valid_chars(1) [OF v(1)] valid_chars(1) [OF v(2)] slash)
  moreover have "py_upper (canonical_text p) = canonical_text p"
    using v by (simp add: canonical_text_def valid_symbol_def py_upper_def upper_char_def)
  moreover have "py_replace_char CHR ''-'' CHR ''/'' (canonical_text p) = canonical_text p"
    unfolding canonical_text_def py_replace_char_def map_append list.map
    using valid_chars(3) [OF v(1)] valid_chars(3) [OF v(2)] by (auto intro!: map_idI)
  moreover have "py_split CHR ''/'' (canonical_text p) = [?b, ?q]"
    unfolding canonical_text_def
    using valid_chars(2) [OF v(1)] valid_chars(2) [OF v(2)] by (intro py_split_two) auto
  moreover have "\<lparr>asset_symbol = ?b, asset_kind = CRYPTO\<rparr> = pair_base p"
    "\<lparr>asset_symbol = ?q, asset_kind = CASH\<rparr> = pair_quote p"
    using p k by (simp_all add: wf_pair_def)
  ultimately show ?thesis
    using v by (simp add: parse_trading_pair_def mk_trading_pair_again [OF p])
qed


section \<open>Point-in-time views\<close>

text \<open>
  Candles, universe snapshots and derivatives observations are all read through a view
  that hides what was not yet known.  The contract of such a view, and what follows from it.
\<close>

locale point_in_time =
  fixes stamp :: "'a \<Rightarrow> utc" and view :: "utc \<Rightarrow> 'a list \<Rightarrow> 'a list"
  assumes view_Nil: "view t [] = []"
    and view_Cons: "view t (x # xs) = (if stamp x \<le> t then x # view t xs else view t xs)"
begin

lemma view_set: "set (view t xs) = {x \<in> set xs. stamp x \<le> t}"
  by (induction xs) (auto simp: view_Nil view_Cons)

lemma view_append: "view t (xs @ ys) = view t xs @ view t ys"
  by (induction xs) (auto simp: view_Nil view_Cons)

lemma view_empty: "view t xs = [] \<longleftrightarrow> (\<forall>x \<in> set xs. t < stamp x)"
  by (induction xs) (auto simp: view_Nil view_Cons)

lemma view_all: "\<forall>x \<in> set xs. stamp x \<le> t \<Longrightarrow> view t xs = xs"
  by (induction xs) (auto simp: view_Nil view_Cons)

text \<open>Nothing that becomes known later changes the view.\<close>

lemma no_look_ahead: "\<forall>y \<in> set ys. t < stamp y \<Longrightarrow> view t (xs @ ys) = view t xs"
  by (simp add: view_append view_empty)

lemma view_nested: "s \<le> t \<Longrightarrow> view s (view t xs) = view s xs"
  by (induction xs) (auto simp: view_Nil view_Cons)

lemma view_ordered: "strictly_ordered key xs \<Longrightarrow> strictly_ordered key (view t xs)"
proof -
  have v: "view t xs = filter (\<lambda>x. stamp x \<le> t) xs"
    by (induction xs) (auto simp: view_Nil view_Cons)
  show "strictly_ordered key xs \<Longrightarrow> ?thesis" unfolding v by (rule strictly_ordered_filter)
qed

text \<open>The last visible element is the latest one.\<close>

lemma view_last:
  assumes s: "strictly_ordered stamp xs" and v: "view t xs \<noteq> []"
  shows "last (view t xs) \<in> set xs \<and> stamp (last (view t xs)) \<le> t
    \<and> (\<forall>x \<in> set xs. stamp x \<le> t \<longrightarrow> stamp x \<le> stamp (last (view t xs)))"
proof -
  have "\<forall>x \<in> set ys. stamp x \<le> stamp (last ys)" if "sorted_wrt (\<lambda>x y. stamp x < stamp y) ys" for ys
    using that by (induction ys) (auto simp: less_imp_le)
  then have "\<forall>x \<in> set (view t xs). stamp x \<le> stamp (last (view t xs))"
    using view_ordered [OF s, of t] by (simp add: strictly_ordered_iff)
  with last_in_set [OF v] show ?thesis by (auto simp: view_set)
qed

end

interpretation candle_view: point_in_time available_at visible_candles
  by unfold_locales (simp_all add: visible_candles_def)

interpretation snapshot_view: point_in_time snapshot_observed_at visible_snapshots
  by unfold_locales (simp_all add: visible_snapshots_def)

lemma mk_market_data_bundle_Inr:
  "mk_market_data_bundle u cs = Inr b \<longleftrightarrow>
     set (map pair_symbol (universe_pairs u)) \<subseteq> set (dict_keys cs)
     \<and> (\<forall>(s, vs) \<in> set cs. strictly_ordered open_time vs)
     \<and> b = \<lparr>bundle_universe = u, bundle_candles = cs\<rparr>"
  by (auto simp: mk_market_data_bundle_def find_None_all split: option.splits dest!: find_Some_in)

lemma candles_known_at_again:
  "s \<le> t \<Longrightarrow> candles_known_at s (candles_known_at t cs) = candles_known_at s cs"
  by (auto simp: candles_known_at_def candle_view.view_nested split: prod.splits)

lemma dict_keys_known_at [simp]: "dict_keys (candles_known_at t cs) = dict_keys cs"
  by (auto simp: dict_keys_def candles_known_at_def split: prod.splits)

section \<open>Sample values\<close>

definition btc_krw :: trading_pair where
  "btc_krw = \<lparr>pair_base = \<lparr>asset_symbol = ''BTC'', asset_kind = CRYPTO\<rparr>,
              pair_quote = \<lparr>asset_symbol = ''KRW'', asset_kind = CASH\<rparr>\<rparr>"

definition sample_candle :: "int \<Rightarrow> candle" where
  "sample_candle n =
     \<lparr>candle_pair = btc_krw, open_time = minutes (15 * n), available_at = minutes (15 * (n + 1)),
      open_price = 100, high_price = 110, low_price = 90, close_price = 105, volume = 2\<rparr>"

definition sample_intent :: "order_side \<Rightarrow> decimal \<Rightarrow> string \<Rightarrow> order_intent" where
  "sample_intent side quantity i =
     \<lparr>oi_portfolio_id = ''paper'', oi_purpose = PAPER_TRADING, oi_pair = btc_krw, oi_side = side,
      oi_quantity = quantity, oi_created_at = 0, oi_intent_id = i\<rparr>"

definition sample_order :: "order_side \<Rightarrow> decimal \<Rightarrow> string \<Rightarrow> approved_order" where
  "sample_order side quantity i = \<lparr>ao_intent = sample_intent side quantity i, ao_risk_policy_version = ''v1''\<rparr>"

definition sample_bundle :: market_data_bundle where
  "sample_bundle =
     \<lparr>bundle_universe = \<lparr>universe_pairs = [btc_krw]\<rparr>,
      bundle_candles = [(''BTCKRW'', [sample_candle 0, sample_candle 1, sample_candle 2])]\<rparr>"

definition sample_history :: universe_history where
  "sample_history =
     \<lparr>history_snapshots = map (\<lambda>n. \<lparr>snapshot_observed_at = minutes n, snapshot_source = ''UPBIT'',
        snapshot_members = []\<rparr>) [0, 60, 120]\<rparr>"

lemma valid_samples [simp]: "valid_symbol ''KRW''" "valid_symbol ''BTC''"
  by (simp_all add: valid_symbol_def py_isalnum_def alnum_char_def py_upper_def upper_char_def)

lemmas sample_defs = btc_krw_def sample_candle_def sample_bundle_def sample_history_def minutes_def

section \<open>Properties\<close>

text \<open>The text of a validated spot pair parses back to that pair, and only validated pairs are parsed from their text.\<close>

lemma parse_trading_pair_round_trip:
  "parse_trading_pair (canonical_text p) = Inr p \<longleftrightarrow> wf_pair p \<and> asset_kind (pair_base p) = CRYPTO"
  using parse_canonical parse_trading_pair_Inr by blast

text \<open>A validated bundle can be cut at any instant without an error; the cut holds exactly the candles available by then, series by series in their order, and cutting twice is cutting at the earlier instant.\<close>

lemma bundle_known_at_point_in_time:
  assumes "mk_market_data_bundle (bundle_universe b) (bundle_candles b) = Inr b" and "s \<le> t"
  shows "\<exists>bt. bundle_known_at b (Aware t) = Inr bt
    \<and> bundle_known_at bt (Aware s) = bundle_known_at b (Aware s)
    \<and> (\<forall>(symbol, vs) \<in> set (bundle_candles bt). \<forall>c \<in> set vs. available_at c \<le> t)
    \<and> bundle_candles bt = map (\<lambda>(symbol, vs). (symbol, visible_candles t vs)) (bundle_candles b)"
proof -
  define bt where "bt = b\<lparr>bundle_candles := candles_known_at t (bundle_candles b)\<rparr>"
  have wf: "set (map pair_symbol (universe_pairs (bundle_universe b))) \<subseteq> set (dict_keys (bundle_candles b))"
    "\<forall>(s, vs) \<in> set (bundle_candles b). strictly_ordered open_time vs"
    using assms(1) by (auto simp: mk_market_data_bundle_Inr)
  have ord: "\<forall>(s, vs) \<in> set (candles_known_at t (bundle_candles b)). strictly_ordered open_time vs"
    using wf(2) by (auto simp: candles_known_at_def candle_view.view_ordered)
  have bt: "bundle_known_at b (Aware t) = Inr bt"
    using wf(1) ord by (simp add: bundle_known_at_def mk_market_data_bundle_Inr bt_def)
  have again: "bundle_known_at bt (Aware s) = bundle_known_at b (Aware s)"
    by (simp add: bundle_known_at_def bt_def candles_known_at_again [OF assms(2)])
  have cs: "bundle_candles bt = candles_known_at t (bundle_candles b)" by (simp add: bt_def)
  have "\<forall>(symbol, vs) \<in> set (bundle_candles bt). \<forall>c \<in> set vs. available_at c \<le> t"
    by (auto simp: cs candles_known_at_def candle_view.view_set)
  moreover have "bundle_candles bt = map (\<lambda>(symbol, vs). (symbol, visible_candles t vs)) (bundle_candles b)"
    by (simp add: cs candles_known_at_def)
  ultimately show ?thesis using bt again by blast
qed

text \<open>The universe snapshot read at an instant is the latest one observed by then, nothing if there is none, and snapshots observed later never change it.\<close>

lemma history_known_at_latest:
  assumes h: "mk_universe_history (history_snapshots h) = Inr h"
  shows "\<exists>r. history_known_at h (Aware t) = Inr r
    \<and> (case r of
         None \<Rightarrow> \<forall>s \<in> set (history_snapshots h). t < snapshot_observed_at s
       | Some s \<Rightarrow> s \<in> set (history_snapshots h) \<and> snapshot_observed_at s \<le> t
           \<and> (\<forall>s' \<in> set (history_snapshots h).
                 snapshot_observed_at s' \<le> t \<longrightarrow> snapshot_observed_at s' \<le> snapshot_observed_at s))
    \<and> (\<forall>later. (\<forall>s \<in> set later. t < snapshot_observed_at s)
         \<longrightarrow> history_known_at (h\<lparr>history_snapshots := history_snapshots h @ later\<rparr>) (Aware t) = Inr r)"
proof -
  have o: "strictly_ordered snapshot_observed_at (history_snapshots h)"
    using h by (auto simp: mk_universe_history_def split: if_splits)
  show ?thesis
  proof (cases "visible_snapshots t (history_snapshots h) = []")
    case True
    then show ?thesis
      using snapshot_view.view_empty [of t "history_snapshots h"]
      by (simp add: history_known_at_def last_option_def snapshot_view.no_look_ahead)
  next
    case False
    then show ?thesis
      using snapshot_view.view_last [OF o False]
      by (simp add: history_known_at_def last_option_def snapshot_view.no_look_ahead)
  qed
qed

end
