(* ===== verification/Ports.thy ===== *)
theory Ports
  imports Domain
begin

text \<open>
  The ports between the rebalance, the execution venue and the ledger
  (\<^verbatim>\<open>ports/exchange.py\<close>, \<^verbatim>\<open>ports/accounting.py\<close>): the execution report that crosses them, the loop
  of \<^verbatim>\<open>_execute\<close> over any implementation of the two ports, and the contract a pair of
  implementations must meet for the loop to keep the books.  The paper gateway and the SQLite ledger
  meet it (theory Ledger).
\<close>

section \<open>Execution reports\<close>

record execution_report =
  er_order_id :: string
  er_status :: string
  er_side :: order_side
  er_filled_quantity :: decimal
  er_average_price :: decimal
  er_fee :: decimal
  er_executed_at :: utc
  er_model_version :: string
  er_fee_rate :: decimal
  er_slippage_rate :: decimal

definition mk_execution_report ::
    "string \<Rightarrow> string \<Rightarrow> order_side \<Rightarrow> decimal \<Rightarrow> decimal \<Rightarrow> decimal \<Rightarrow> datetime \<Rightarrow> string \<Rightarrow> decimal
     \<Rightarrow> decimal \<Rightarrow> execution_report result" where
  "mk_execution_report order_id status side filled price fee executed_at version fee_rate slippage_rate =
     bind_result (require_utc executed_at ''executed_at'') (\<lambda>t.
       if filled \<le> 0 \<or> price \<le> 0 \<or> fee < 0
       then Inl (ValueError ''execution quantity/price must be positive and fee non-negative'')
       else if py_strip version = []
            then Inl (ValueError ''execution model version is required'')
       else if min fee_rate slippage_rate < 0
            then Inl (ValueError ''execution fee and slippage rates cannot be negative'')
       else Inr \<lparr>er_order_id = order_id, er_status = status, er_side = side,
                 er_filled_quantity = filled, er_average_price = price, er_fee = fee,
                 er_executed_at = t, er_model_version = version, er_fee_rate = fee_rate,
                 er_slippage_rate = slippage_rate\<rparr>)"

definition order_id_of :: "approved_order \<Rightarrow> string" where
  "order_id_of order = oi_intent_id (ao_intent order)"

section \<open>The loop over the intents\<close>

text \<open>
  Approve, submit, apply, for every intent in order.  \<open>n\<close> counts the fills, for the clock of
  the venue.  An exception ends the loop; what was applied before it stays applied.
\<close>

fun execution_loop ::
    "(order_intent \<Rightarrow> approved_order result)
     \<Rightarrow> (nat \<Rightarrow> 'g \<Rightarrow> approved_order \<Rightarrow> (execution_report \<times> 'g) result)
     \<Rightarrow> (approved_order \<Rightarrow> execution_report \<Rightarrow> 'l \<Rightarrow> (bool \<times> 'l) result)
     \<Rightarrow> nat \<Rightarrow> order_intent list \<Rightarrow> 'g \<Rightarrow> 'l \<Rightarrow> 'l \<times> unit result" where
  "execution_loop approve submit_order apply_fill n [] g l = (l, Inr ())"
| "execution_loop approve submit_order apply_fill n (intent # rest) g l =
     (case bind_result (approve intent) (\<lambda>approved.
             bind_result (submit_order n g approved) (\<lambda>(report, g').
             bind_result (apply_fill approved report l) (\<lambda>(_, l'). Inr (g', l')))) of
        Inl e \<Rightarrow> (l, Inl e)
      | Inr (g', l') \<Rightarrow> execution_loop approve submit_order apply_fill (Suc n) rest g' l')"

section \<open>The contract of the ports\<close>

locale execution_ports =
  fixes submit_order :: "nat \<Rightarrow> 'g \<Rightarrow> approved_order \<Rightarrow> (execution_report \<times> 'g) result"
    and apply_fill :: "approved_order \<Rightarrow> execution_report \<Rightarrow> 'l \<Rightarrow> (bool \<times> 'l) result"
    and venue_ok :: "'g \<Rightarrow> bool"
    and books_ok :: "'l \<Rightarrow> bool"
    and order_ok :: "approved_order \<Rightarrow> bool"
    and fill_ok :: "approved_order \<Rightarrow> execution_report \<Rightarrow> bool"
    and recorded :: "'l \<Rightarrow> string \<Rightarrow> bool"
  assumes submit_fill:
      "venue_ok g \<Longrightarrow> order_ok ord \<Longrightarrow> submit_order n g ord = Inr (r, g') \<Longrightarrow> fill_ok ord r \<and> venue_ok g'"
    and apply_books:
      "books_ok l \<Longrightarrow> order_ok ord \<Longrightarrow> fill_ok ord r \<Longrightarrow> apply_fill ord r l = Inr (b, l') \<Longrightarrow> books_ok l'"
    and apply_records:
      "books_ok l \<Longrightarrow> order_ok ord \<Longrightarrow> fill_ok ord r \<Longrightarrow> apply_fill ord r l = Inr (b, l') \<Longrightarrow>
       recorded l' i \<longleftrightarrow> recorded l i \<or> i = order_id_of ord"
    and apply_again:
      "books_ok l \<Longrightarrow> order_ok ord \<Longrightarrow> fill_ok ord r \<Longrightarrow> recorded l (order_id_of ord) \<Longrightarrow>
       apply_fill ord r l = Inr (b, l') \<Longrightarrow> l' = l"
begin

text \<open>The books stay in order whether the loop ends normally or with an exception.\<close>

lemma loop_books:
  assumes "venue_ok g" "books_ok l"
    and ok: "\<And>i a. i \<in> set intents \<Longrightarrow> approve i = Inr a \<Longrightarrow> order_ok a"
  shows "books_ok (fst (execution_loop approve submit_order apply_fill n intents g l))"
  using assms
proof (induction intents arbitrary: n g l)
  case (Cons i rest)
  show ?case
  proof (cases "approve i")
    case (Inr a)
    then have a: "order_ok a" using Cons.prems(3) [of i a] by simp
    show ?thesis
    proof (cases "submit_order n g a")
      case sub: (Inr rg)
      obtain r g' where rg: "rg = (r, g')" by (cases rg)
      have f: "fill_ok a r" "venue_ok g'"
        using submit_fill [OF Cons.prems(1) a] sub rg by blast+
      show ?thesis
      proof (cases "apply_fill a r l")
        case app: (Inr bl)
        obtain b l' where bl: "bl = (b, l')" by (cases bl)
        have l': "books_ok l'" using apply_books [OF Cons.prems(2) a f(1)] app bl by blast
        have "books_ok (fst (execution_loop approve submit_order apply_fill (Suc n) rest g' l'))"
          by (rule Cons.IH [OF f(2) l']) (auto intro: Cons.prems(3))
        then show ?thesis by (simp add: Inr sub rg app bl)
      qed (use Cons.prems in \<open>simp add: Inr sub rg\<close>)
    qed (use Cons.prems in \<open>simp add: Inr\<close>)
  qed (use Cons.prems in simp)
qed simp

text \<open>What the loop records: only its own intents, and nothing is forgotten.\<close>

lemma loop_recorded:
  assumes "venue_ok g" "books_ok l"
    and ok: "\<And>i a. i \<in> set intents \<Longrightarrow> approve i = Inr a \<Longrightarrow> order_ok a \<and> ao_intent a = i"
    and loop: "execution_loop approve submit_order apply_fill n intents g l = (l', res)"
  shows "(recorded l k \<longrightarrow> recorded l' k) \<and> (recorded l' k \<longrightarrow> recorded l k \<or> k \<in> oi_intent_id ` set intents)
    \<and> (res = Inr () \<longrightarrow> k \<in> oi_intent_id ` set intents \<longrightarrow> recorded l' k)"
  using assms
proof (induction intents arbitrary: n g l)
  case (Cons i rest)
  show ?case
  proof (cases "bind_result (approve i) (\<lambda>approved.
             bind_result (submit_order n g approved) (\<lambda>(report, g').
             bind_result (apply_fill approved report l) (\<lambda>(_, l'). Inr (g', l'))))")
    case (Inl e)
    with Cons.prems(4) show ?thesis by auto
  next
    case step: (Inr gl)
    then obtain a r g1 b l1 where a: "approve i = Inr a" and s: "submit_order n g a = Inr (r, g1)"
      and ap: "apply_fill a r l = Inr (b, l1)" and gl: "gl = (g1, l1)"
      by (auto simp: py_result split: prod.splits)
    have oa: "order_ok a" "ao_intent a = i" using Cons.prems(3) a by auto
    have f: "fill_ok a r" "venue_ok g1" using submit_fill [OF Cons.prems(1) oa(1) s] by blast+
    have l1: "books_ok l1" by (rule apply_books [OF Cons.prems(2) oa(1) f(1) ap])
    have rec: "recorded l1 k \<longleftrightarrow> recorded l k \<or> k = oi_intent_id i" for k
      using apply_records [OF Cons.prems(2) oa(1) f(1) ap] oa(2) by (simp add: order_id_of_def)
    have "execution_loop approve submit_order apply_fill (Suc n) rest g1 l1 = (l', res)"
      using Cons.prems(4) step gl by simp
    from Cons.IH [OF f(2) l1 _ this] Cons.prems(3) show ?thesis by (auto simp: rec)
  qed
qed auto

text \<open>Running recorded intents again changes nothing.\<close>

lemma loop_replay:
  assumes "venue_ok g" "books_ok l"
    and ok: "\<And>i a. i \<in> set intents \<Longrightarrow> approve i = Inr a \<Longrightarrow> order_ok a \<and> ao_intent a = i"
    and all: "\<And>i. i \<in> set intents \<Longrightarrow> recorded l (oi_intent_id i)"
  shows "fst (execution_loop approve submit_order apply_fill n intents g l) = l"
  using assms
proof (induction intents arbitrary: n g)
  case (Cons i rest)
  show ?case
  proof (cases "approve i")
    case (Inr a)
    then have oa: "order_ok a" "ao_intent a = i" using Cons.prems(3) by auto
    show ?thesis
    proof (cases "submit_order n g a")
      case sub: (Inr rg)
      obtain r g' where rg: "rg = (r, g')" by (cases rg)
      have f: "fill_ok a r" "venue_ok g'"
        using submit_fill [OF Cons.prems(1) oa(1)] sub rg by blast+
      have again: "l' = l" if "apply_fill a r l = Inr (b, l')" for b l'
        using apply_again [OF Cons.prems(2) oa(1) f(1) _ that] Cons.prems(4) oa(2) by (simp add: order_id_of_def)
      have "fst (execution_loop approve submit_order apply_fill (Suc n) rest g' l) = l"
        by (rule Cons.IH [OF f(2) Cons.prems(2)]) (meson Cons.prems(3,4) list.set_intros(2))+
      then show ?thesis
        using again by (cases "apply_fill a r l") (auto simp: Inr sub rg)
    qed (simp add: Inr)
  qed simp
qed simp

end

text \<open>Whatever every single booking respects, the loop respects.\<close>

lemma execution_loop_relates:
  assumes refl: "\<And>x. R x x" and trans: "\<And>x y z. R x y \<Longrightarrow> R y z \<Longrightarrow> R x z"
    and step: "\<And>i a r x x' b. i \<in> set intents \<Longrightarrow> approve i = Inr a \<Longrightarrow> apply_fill a r x = Inr (b, x') \<Longrightarrow> R x x'"
  shows "R l (fst (execution_loop approve submit_order apply_fill n intents g l))"
  using step
proof (induction intents arbitrary: n g l)
  case (Cons i rest)
  show ?case
  proof (cases "bind_result (approve i) (\<lambda>approved.
             bind_result (submit_order n g approved) (\<lambda>(report, g').
             bind_result (apply_fill approved report l) (\<lambda>(_, l'). Inr (g', l'))))")
    case (Inl e)
    then show ?thesis by (simp add: refl)
  next
    case step: (Inr gl)
    then obtain a r g1 b l1 where a: "approve i = Inr a" "apply_fill a r l = Inr (b, l1)" and gl: "gl = (g1, l1)"
      by (auto simp: py_result split: prod.splits)
    have "R l l1" by (rule Cons.prems [OF _ a]) simp
    moreover have "R l1 (fst (execution_loop approve submit_order apply_fill (Suc n) rest g1 l1))"
      by (rule Cons.IH, rule Cons.prems) auto
    ultimately show ?thesis using step gl by (auto intro: trans)
  qed
qed (simp add: refl)

end
