(* ===== verification/Exchange.thy ===== *)
theory Exchange
  imports Ports
begin

text \<open>
  The only adapter of the execution port, the deterministic full-fill paper
  gateway (\<^verbatim>\<open>infrastructure/paper_exchange.py\<close>).  The gateway object is a record that
  \<open>submit\<close> returns updated; the wall clock \<^verbatim>\<open>datetime.now(UTC)\<close> is the argument \<open>now\<close>.
\<close>

section \<open>The paper gateway\<close>

record paper_gateway =
  gw_prices :: "string \<rightharpoonup> decimal"
  gw_fee_rate :: decimal
  gw_slippage_rate :: decimal
  gw_model_version :: string
  gw_reports :: "string \<rightharpoonup> execution_report"

definition mk_paper_gateway ::
    "(string \<rightharpoonup> decimal) \<Rightarrow> decimal \<Rightarrow> decimal \<Rightarrow> string \<Rightarrow> paper_gateway result" where
  "mk_paper_gateway prices fee_rate slippage_rate version =
     (let v = py_strip version
      in if v \<notin> {''paper-fill-v1'', ''paper-fill-v2''}
         then Inl (ValueError ''unsupported paper execution model'')
         else if min fee_rate slippage_rate < 0
              then Inl (ValueError ''paper fee and slippage rates cannot be negative'')
         else if v = ''paper-fill-v1'' \<and> slippage_rate \<noteq> 0
              then Inl (ValueError ''paper-fill-v1 does not apply slippage'')
         else Inr \<lparr>gw_prices = prices, gw_fee_rate = fee_rate, gw_slippage_rate = slippage_rate,
                   gw_model_version = v, gw_reports = Map.empty\<rparr>)"

text \<open>The price at which an order fills, and the fee it pays.\<close>

definition fill_price :: "paper_gateway \<Rightarrow> order_side \<Rightarrow> decimal \<Rightarrow> decimal" where
  "fill_price g side reference =
     (if gw_model_version g = ''paper-fill-v2''
      then dmul reference (dadd 1 (dmul (if side = BUY then 1 else - 1) (gw_slippage_rate g)))
      else reference)"

definition fill_fee :: "paper_gateway \<Rightarrow> decimal \<Rightarrow> decimal \<Rightarrow> decimal" where
  "fill_fee g price quantity = dmul (dmul price quantity) (gw_fee_rate g)"

definition submit ::
    "utc \<Rightarrow> paper_gateway \<Rightarrow> approved_order \<Rightarrow> (execution_report \<times> paper_gateway) result" where
  "submit now g order =
     (let intent = ao_intent order
      in case gw_reports g (oi_intent_id intent) of
           Some report \<Rightarrow> Inr (report, g)
         | None \<Rightarrow>
             (case gw_prices g (pair_symbol (oi_pair intent)) of
                None \<Rightarrow> Inl (ValueError (''paper price unavailable for '' @ pair_symbol (oi_pair intent)))
              | Some reference \<Rightarrow>
                  (let price = fill_price g (oi_side intent) reference
                   in bind_result
                        (mk_execution_report (''paper:'' @ oi_intent_id intent) ''FILLED''
                           (oi_side intent) (oi_quantity intent) price
                           (fill_fee g price (oi_quantity intent)) (Aware now)
                           (gw_model_version g) (gw_fee_rate g) (gw_slippage_rate g))
                        (\<lambda>report. Inr (report,
                           g\<lparr>gw_reports := (gw_reports g)(oi_intent_id intent \<mapsto> report)\<rparr>)))))"

record gateway_factory =
  gf_fee_rate :: decimal
  gf_slippage_rate :: decimal
  gf_model_version :: string

definition default_gateway_factory :: gateway_factory where
  "default_gateway_factory =
     \<lparr>gf_fee_rate = 5 / 10000, gf_slippage_rate = 0, gf_model_version = ''paper-fill-v1''\<rparr>"

definition factory_create :: "gateway_factory \<Rightarrow> (string \<rightharpoonup> decimal) \<Rightarrow> paper_gateway result" where
  "factory_create f prices =
     mk_paper_gateway prices (gf_fee_rate f) (gf_slippage_rate f) (gf_model_version f)"

section \<open>The venue\<close>

text \<open>What a fill of an approved order satisfies, and the invariant of the gateway.\<close>

definition fill_ok :: "approved_order \<Rightarrow> execution_report \<Rightarrow> bool" where
  "fill_ok order r =
     (er_order_id r = ''paper:'' @ order_id_of order \<and> 0 < er_filled_quantity r
      \<and> 0 < er_average_price r \<and> 0 \<le> er_fee r
      \<and> er_fee r \<le> dmul (er_filled_quantity r) (er_average_price r))"

definition gateway_ok :: "paper_gateway \<Rightarrow> bool" where
  "gateway_ok g =
     (0 \<le> gw_fee_rate g \<and> gw_fee_rate g \<le> 1 \<and> 0 \<le> gw_slippage_rate g
      \<and> (\<forall>i r. gw_reports g i = Some r \<longrightarrow>
           er_order_id r = ''paper:'' @ i \<and> 0 < er_filled_quantity r \<and> 0 < er_average_price r
           \<and> 0 \<le> er_fee r \<and> er_fee r \<le> dmul (er_filled_quantity r) (er_average_price r)))"

lemma mk_execution_report_Inr:
  "mk_execution_report oid st side q pr fee t v fr sr = Inr r \<longleftrightarrow>
     (\<exists>u. t = Aware u \<and> 0 < q \<and> 0 < pr \<and> 0 \<le> fee \<and> py_strip v \<noteq> [] \<and> 0 \<le> min fr sr
       \<and> r = \<lparr>er_order_id = oid, er_status = st, er_side = side, er_filled_quantity = q,
              er_average_price = pr, er_fee = fee, er_executed_at = u, er_model_version = v,
              er_fee_rate = fr, er_slippage_rate = sr\<rparr>)"
  by (cases t) (auto simp: mk_execution_report_def not_le not_less)


lemma fill_fee_bounds:
  assumes "0 \<le> gw_fee_rate g" "gw_fee_rate g \<le> 1" "0 < pr" "0 < q"
  shows "0 \<le> fill_fee g pr q" "fill_fee g pr q \<le> dmul q pr"
proof -
  have n: "0 \<le> dmul pr q" using assms by (simp add: dmul_nonneg)
  show "0 \<le> fill_fee g pr q" using n assms by (simp add: fill_fee_def dmul_nonneg)
  have "dmul pr q * gw_fee_rate g \<le> dmul pr q * 1"
    by (rule mult_left_mono) (use n assms in auto)
  then have "dec (dmul pr q * gw_fee_rate g) \<le> dmul pr q"
    unfolding dmul_def by (simp only: mult_1_right dec.rnd_le)
  then show "fill_fee g pr q \<le> dmul q pr"
    by (simp add: fill_fee_def dmul_def mult.commute)
qed

lemma submit_Inr:
  assumes "submit now g order = Inr (r, g')"
  shows "gw_reports g (order_id_of order) = Some r \<and> g' = g
    \<or> gw_reports g (order_id_of order) = None
      \<and> g' = g\<lparr>gw_reports := (gw_reports g)(order_id_of order \<mapsto> r)\<rparr>
      \<and> (\<exists>reference. gw_prices g (pair_symbol (oi_pair (ao_intent order))) = Some reference
         \<and> er_average_price r = fill_price g (oi_side (ao_intent order)) reference)
      \<and> er_order_id r = ''paper:'' @ order_id_of order
      \<and> er_side r = oi_side (ao_intent order)
      \<and> er_filled_quantity r = oi_quantity (ao_intent order)
      \<and> er_fee r = fill_fee g (er_average_price r) (er_filled_quantity r)
      \<and> er_executed_at r = now
      \<and> 0 < er_filled_quantity r \<and> 0 < er_average_price r \<and> 0 \<le> er_fee r"
  using assms
  by (auto simp: submit_def order_id_of_def Let_def py_result mk_execution_report_Inr split: option.splits)

lemma submit_fill_ok:
  assumes g: "gateway_ok g" and s: "submit now g order = Inr (r, g')"
  shows "fill_ok order r \<and> gateway_ok g'"
proof (cases "gw_reports g (order_id_of order)")
  case None
  then have f: "fill_ok order r" and g': "g' = g\<lparr>gw_reports := (gw_reports g)(order_id_of order \<mapsto> r)\<rparr>"
    using submit_Inr [OF s] g fill_fee_bounds(2) [of g "er_average_price r" "er_filled_quantity r"]
    by (auto simp: fill_ok_def gateway_ok_def)
  from f g show ?thesis by (auto simp: g' fill_ok_def gateway_ok_def)
next
  case (Some r0)
  then show ?thesis using submit_Inr [OF s] g by (auto simp: fill_ok_def gateway_ok_def)
qed

lemma mk_paper_gateway_ok:
  "mk_paper_gateway prices fr sr v = Inr g \<Longrightarrow> fr \<le> 1 \<Longrightarrow> gateway_ok g"
  by (auto simp: mk_paper_gateway_def gateway_ok_def Let_def not_less split: if_splits)

lemma factory_gateway_ok:
  "factory_create f prices = Inr g \<Longrightarrow> gf_fee_rate f \<le> 1 \<Longrightarrow> gateway_ok g"
  by (auto simp: factory_create_def dest: mk_paper_gateway_ok)

section \<open>Sample values\<close>

definition sample_gateway :: paper_gateway where
  "sample_gateway =
     \<lparr>gw_prices = [''BTCKRW'' \<mapsto> 1000], gw_fee_rate = 0, gw_slippage_rate = 0,
      gw_model_version = ''paper-fill-v1'', gw_reports = Map.empty\<rparr>"

definition sample_fill :: "order_side \<Rightarrow> decimal \<Rightarrow> string \<Rightarrow> execution_report" where
  "sample_fill side quantity i =
     \<lparr>er_order_id = ''paper:'' @ i, er_status = ''FILLED'', er_side = side,
      er_filled_quantity = quantity, er_average_price = 1000, er_fee = 0, er_executed_at = 7,
      er_model_version = ''paper-fill-v1'', er_fee_rate = 0, er_slippage_rate = 0\<rparr>"

lemmas sample_order_defs =
  sample_intent_def sample_order_def sample_gateway_def sample_fill_def

lemma sample_gateway_ok: "gateway_ok sample_gateway"
  by (simp add: gateway_ok_def sample_gateway_def)


section \<open>Properties\<close>

text \<open>A gateway fills an intent once: submitting an order with the same intent again, at any later time, returns the report of the first fill and leaves the gateway as it is.\<close>

lemma submit_idempotent:
  assumes "submit now g order = Inr (r, g')" and "order_id_of order' = order_id_of order"
  shows "submit later g' order' = Inr (r, g')"
proof -
  have "gw_reports g' (order_id_of order) = Some r" using submit_Inr [OF assms(1)] by auto
  then show ?thesis using assms(2) by (simp add: submit_def order_id_of_def Let_def)
qed

text \<open>A fresh gateway fills the whole quantity at a price that is never better than the reference: a purchase at or above it, a sale at or below it, exactly at it under the first model; the fee is the rate of the filled notional, and a rate of at most one never charges more than the notional.\<close>

lemma submit_price_adverse:
  assumes g: "mk_paper_gateway prices fee_rate slippage v = Inr g"
    and s: "submit now g order = Inr (r, g')"
    and p: "prices (pair_symbol (oi_pair (ao_intent order))) = Some reference" "0 < reference" "dec reference = reference"
  shows "er_filled_quantity r = oi_quantity (ao_intent order)
    \<and> (if oi_side (ao_intent order) = BUY then reference \<le> er_average_price r else er_average_price r \<le> reference)
    \<and> (py_strip v = ''paper-fill-v1'' \<longrightarrow> er_average_price r = reference)
    \<and> er_fee r = dmul (dmul (er_average_price r) (er_filled_quantity r)) fee_rate
    \<and> (fee_rate \<le> 1 \<longrightarrow> er_fee r \<le> dmul (er_filled_quantity r) (er_average_price r))"
proof -
  have gw: "gw_prices g = prices" "gw_fee_rate g = fee_rate" "gw_slippage_rate g = slippage"
    "gw_model_version g = py_strip v" "gw_reports g = Map.empty" "0 \<le> fee_rate" "0 \<le> slippage"
    using g by (auto simp: mk_paper_gateway_def Let_def not_less split: if_splits)
  from submit_Inr [OF s]
  have r: "er_average_price r = fill_price g (oi_side (ao_intent order)) reference"
    "er_filled_quantity r = oi_quantity (ao_intent order)"
    "er_fee r = fill_fee g (er_average_price r) (er_filled_quantity r)"
    "0 < er_filled_quantity r" "0 < er_average_price r"
    using p(1) by (auto simp: gw)
  have up: "reference \<le> dmul reference (dadd 1 (dmul 1 slippage))"
  proof -
    have "dec 1 \<le> dadd 1 (dmul 1 slippage)"
      unfolding dadd_def by (rule dec.rnd_mono) (use gw(7) in \<open>simp add: dmul_nonneg\<close>)
    then have "reference * 1 \<le> reference * dadd 1 (dmul 1 slippage)"
      using p(2) by (intro mult_left_mono) auto
    then show ?thesis unfolding dmul_def using dec.rnd_ge_fixed [OF _ p(3)] by simp
  qed
  have down: "dmul reference (dadd 1 (dmul (- 1) slippage)) \<le> reference"
  proof -
    have "dadd 1 (dmul (- 1) slippage) \<le> dec 1"
      unfolding dadd_def by (rule dec.rnd_mono) (use gw(7) in \<open>simp add: dmul_def dec.rnd_minus dec.rnd_nonneg\<close>)
    then have "reference * dadd 1 (dmul (- 1) slippage) \<le> reference * 1"
      using p(2) by (intro mult_left_mono) auto
    then show ?thesis unfolding dmul_def using dec.rnd_le_fixed [OF _ p(3)] by simp
  qed
  have fee: "er_fee r \<le> dmul (er_filled_quantity r) (er_average_price r)" if "fee_rate \<le> 1"
    unfolding r(3) by (rule fill_fee_bounds(2)) (use gw that r in auto)
  show ?thesis
    using up down p(2) fee by (auto simp: r fill_price_def fill_fee_def gw)
qed

end
