(* ===== verification/Ledger.thy ===== *)
theory Ledger
  imports Exchange
begin

text \<open>
  The paper ledger: \<^verbatim>\<open>infrastructure/sqlite_accounting.py\<close> with its read models
  (\<^verbatim>\<open>domain/accounting.py\<close>).  The four tables are the fields of \<open>ledger\<close>; a method is a function
  of the ledger that raises or returns its value with the ledger after the transaction.  A method that raises
  leaves the ledger as it was, as the rolled-back transaction does.

  Decimals, purposes, sides and times are stored as text that reads back as the same value
  (\<^verbatim>\<open>str\<close>/\<^verbatim>\<open>Decimal\<close>, \<^verbatim>\<open>.value\<close>, \<^verbatim>\<open>isoformat\<close>), so the rows hold the values.  The \<^verbatim>\<open>TEXT\<close> time
  columns are all ISO text in UTC, whose order is the order of the instants.  Rows that compare
  equal in an \<^verbatim>\<open>ORDER BY\<close> keep their insertion order.
\<close>

section \<open>Rows and read models\<close>

record portfolio_row =
  row_purpose :: portfolio_purpose
  row_cash_asset :: string
  row_cash_balance :: decimal
  row_created_at :: utc
  row_updated_at :: utc

record position_row =
  pr_portfolio_id :: string
  pr_asset :: string
  pr_quantity :: decimal
  pr_average_cost :: decimal

record paper_execution =
  pe_order_id :: string
  pe_intent_id :: string
  pe_portfolio_id :: string
  pe_pair :: string
  pe_side :: order_side
  pe_quantity :: decimal
  pe_price :: decimal
  pe_fee :: decimal
  pe_realized_pnl :: decimal
  pe_executed_at :: utc
  pe_model_version :: string
  pe_fee_rate :: decimal
  pe_slippage_rate :: decimal

record rebalance_decision =
  rd_decision_id :: string
  rd_portfolio_id :: string
  rd_strategy_version :: string
  rd_as_of :: utc
  rd_universe_observed_at :: utc
  rd_execute :: bool
  rd_equity :: decimal
  rd_assessments_json :: json
  rd_selected_json :: json
  rd_orders_json :: json
  rd_risk_violations :: "string list"
  rd_decision_reasons :: "string list"
  rd_status :: string
  rd_created_at :: utc
  rd_market_context_json :: json

record ledger =
  tbl_portfolio :: "string \<rightharpoonup> portfolio_row"
  tbl_position :: "position_row list"
  tbl_execution :: "paper_execution list"
  tbl_decision :: "rebalance_decision list"

record paper_position =
  pp_asset :: asset
  pp_quantity :: decimal
  pp_average_cost :: decimal

record portfolio_snapshot =
  ps_portfolio_id :: string
  ps_purpose :: portfolio_purpose
  ps_cash_asset :: asset
  ps_cash_balance :: decimal
  ps_positions :: "paper_position list"
  ps_updated_at :: utc

definition empty_ledger :: ledger where
  "empty_ledger = \<lparr>tbl_portfolio = Map.empty, tbl_position = [], tbl_execution = [], tbl_decision = []\<rparr>"

section \<open>Reading a portfolio\<close>

definition position_of :: "position_row \<Rightarrow> paper_position result" where
  "position_of row =
     bind_result (mk_asset (pr_asset row) CRYPTO) (\<lambda>a.
       Inr \<lparr>pp_asset = a, pp_quantity = pr_quantity row, pp_average_cost = pr_average_cost row\<rparr>)"

definition rows_of :: "string \<Rightarrow> ledger \<Rightarrow> position_row list" where
  "rows_of pid l =
     sort_by (\<lambda>a b. pr_asset a \<le> pr_asset b)
       (filter (\<lambda>r. pr_portfolio_id r = pid) (tbl_position l))"

definition get_portfolio :: "string \<Rightarrow> ledger \<Rightarrow> portfolio_snapshot result" where
  "get_portfolio pid l =
     (case tbl_portfolio l pid of
        None \<Rightarrow> Inl (KeyError pid)
      | Some p \<Rightarrow>
          bind_result (mk_asset (row_cash_asset p) CASH) (\<lambda>cash.
          bind_result (map_result position_of (rows_of pid l)) (\<lambda>positions.
            Inr \<lparr>ps_portfolio_id = pid, ps_purpose = row_purpose p, ps_cash_asset = cash,
                 ps_cash_balance = row_cash_balance p, ps_positions = positions,
                 ps_updated_at = row_updated_at p\<rparr>)))"

section \<open>Creating a portfolio\<close>

definition create_portfolio ::
    "utc \<Rightarrow> trading_portfolio \<Rightarrow> ledger \<Rightarrow> (portfolio_snapshot \<times> ledger) result" where
  "create_portfolio now portfolio l =
     (if tp_positions portfolio \<noteq> []
      then Inl (ValueError ''paper portfolio creation requires an empty initial position set'')
      else bind_result
        (case tbl_portfolio l (tp_id portfolio) of
           None \<Rightarrow>
             Inr (l\<lparr>tbl_portfolio := (tbl_portfolio l)(tp_id portfolio \<mapsto>
                    \<lparr>row_purpose = tp_purpose portfolio,
                     row_cash_asset = asset_symbol (tp_cash_asset portfolio),
                     row_cash_balance = tp_cash_balance portfolio,
                     row_created_at = now, row_updated_at = now\<rparr>)\<rparr>)
         | Some existing \<Rightarrow>
             if row_purpose existing \<noteq> tp_purpose portfolio
                \<or> row_cash_asset existing \<noteq> asset_symbol (tp_cash_asset portfolio)
             then Inl (ValueError ''existing portfolio identity does not match'')
             else Inr l)
        (\<lambda>l'. bind_result (get_portfolio (tp_id portfolio) l') (\<lambda>s. Inr (s, l'))))"

section \<open>Applying an execution\<close>

definition find_position :: "string \<Rightarrow> string \<Rightarrow> ledger \<Rightarrow> position_row option" where
  "find_position pid a l =
     find (\<lambda>r. pr_portfolio_id r = pid \<and> pr_asset r = a) (tbl_position l)"

definition upsert_position :: "string \<Rightarrow> string \<Rightarrow> decimal \<Rightarrow> decimal \<Rightarrow> ledger \<Rightarrow> ledger" where
  "upsert_position pid a quantity average_cost l =
     (let same = (\<lambda>r. pr_portfolio_id r = pid \<and> pr_asset r = a)
      in if dabs quantity < 1 / 10 ^ 18
         then l\<lparr>tbl_position := filter (\<lambda>r. \<not> same r) (tbl_position l)\<rparr>
         else if list_ex same (tbl_position l)
         then l\<lparr>tbl_position :=
                map (\<lambda>r. if same r then r\<lparr>pr_quantity := quantity, pr_average_cost := average_cost\<rparr>
                          else r) (tbl_position l)\<rparr>
         else l\<lparr>tbl_position := tbl_position l @
                [\<lparr>pr_portfolio_id = pid, pr_asset = a, pr_quantity = quantity,
                  pr_average_cost = average_cost\<rparr>]\<rparr>)"

text \<open>What one execution does to cash, quantity and average cost, and what it realises.\<close>

record settlement =
  st_cash :: decimal
  st_quantity :: decimal
  st_average :: decimal
  st_realized_pnl :: decimal

definition settle_buy ::
    "decimal \<Rightarrow> decimal \<Rightarrow> decimal \<Rightarrow> execution_report \<Rightarrow> settlement result" where
  "settle_buy cash old_quantity old_average report =
     (let notional = dmul (er_filled_quantity report) (er_average_price report);
          required_cash = dadd notional (er_fee report);
          new_quantity = dadd old_quantity (er_filled_quantity report)
      in if cash < required_cash then Inl (ValueError ''insufficient paper cash'')
         else bind_result
           (ddiv (dadd (dadd (dmul old_quantity old_average) notional) (er_fee report)) new_quantity)
           (\<lambda>new_average. Inr \<lparr>st_cash = dsub cash required_cash, st_quantity = new_quantity,
                                st_average = new_average, st_realized_pnl = 0\<rparr>))"

definition settle_sell ::
    "decimal \<Rightarrow> decimal \<Rightarrow> decimal \<Rightarrow> execution_report \<Rightarrow> settlement result" where
  "settle_sell cash old_quantity old_average report =
     (let notional = dmul (er_filled_quantity report) (er_average_price report);
          new_quantity = dsub old_quantity (er_filled_quantity report)
      in if old_quantity < er_filled_quantity report
         then Inl (ValueError ''insufficient paper position'')
         else Inr \<lparr>st_cash = dadd cash (dsub notional (er_fee report)),
                   st_quantity = new_quantity,
                   st_average = (if new_quantity \<noteq> 0 then old_average else 0),
                   st_realized_pnl =
                     dsub (dmul (dsub (er_average_price report) old_average)
                                (er_filled_quantity report)) (er_fee report)\<rparr>)"

definition settle ::
    "order_side \<Rightarrow> decimal \<Rightarrow> decimal \<Rightarrow> decimal \<Rightarrow> execution_report \<Rightarrow> settlement result" where
  "settle side cash old_quantity old_average report =
     (if side = BUY then settle_buy cash old_quantity old_average report
      else settle_sell cash old_quantity old_average report)"

definition execution_row ::
    "order_intent \<Rightarrow> execution_report \<Rightarrow> decimal \<Rightarrow> paper_execution" where
  "execution_row intent report realized_pnl =
     \<lparr>pe_order_id = er_order_id report, pe_intent_id = oi_intent_id intent,
      pe_portfolio_id = oi_portfolio_id intent, pe_pair = pair_symbol (oi_pair intent),
      pe_side = oi_side intent, pe_quantity = er_filled_quantity report,
      pe_price = er_average_price report, pe_fee = er_fee report,
      pe_realized_pnl = realized_pnl, pe_executed_at = er_executed_at report,
      pe_model_version = er_model_version report, pe_fee_rate = er_fee_rate report,
      pe_slippage_rate = er_slippage_rate report\<rparr>"

definition is_duplicate :: "execution_report \<Rightarrow> order_intent \<Rightarrow> ledger \<Rightarrow> bool" where
  "is_duplicate report intent l =
     list_ex (\<lambda>e. pe_order_id e = er_order_id report \<or> pe_intent_id e = oi_intent_id intent)
       (tbl_execution l)"

definition apply_execution ::
    "approved_order \<Rightarrow> execution_report \<Rightarrow> ledger \<Rightarrow> (bool \<times> ledger) result" where
  "apply_execution order report l =
     (let intent = ao_intent order; pid = oi_portfolio_id intent;
          base = asset_symbol (pair_base (oi_pair intent))
      in if er_side report \<noteq> oi_side intent
         then Inl (ValueError ''execution side does not match order intent'')
         else if er_filled_quantity report \<le> 0 \<or> oi_quantity intent < er_filled_quantity report
         then Inl (ValueError ''invalid filled quantity'')
         else if is_duplicate report intent l then Inr (False, l)
         else case tbl_portfolio l pid of
           None \<Rightarrow> Inl (KeyError pid)
         | Some p \<Rightarrow>
             if row_purpose p \<noteq> oi_purpose intent
             then Inl (ValueError ''portfolio purpose mismatch'')
             else if row_cash_asset p \<noteq> asset_symbol (pair_quote (oi_pair intent))
             then Inl (ValueError ''order quote asset does not match portfolio cash'')
             else
               (let position = find_position pid base l;
                    old_quantity = (case position of None \<Rightarrow> 0 | Some r \<Rightarrow> pr_quantity r);
                    old_average = (case position of None \<Rightarrow> 0 | Some r \<Rightarrow> pr_average_cost r)
                in bind_result (settle (oi_side intent) (row_cash_balance p) old_quantity old_average report)
                   (\<lambda>s. let l1 = upsert_position pid base (st_quantity s) (st_average s) l;
                            l2 = l1\<lparr>tbl_portfolio := (tbl_portfolio l1)(pid \<mapsto>
                                   p\<lparr>row_cash_balance := st_cash s,
                                     row_updated_at := er_executed_at report\<rparr>)\<rparr>;
                            l3 = l2\<lparr>tbl_execution := tbl_execution l2 @
                                   [execution_row intent report (st_realized_pnl s)]\<rparr>
                        in Inr (True, l3))))"

section \<open>Executions and decisions\<close>

definition list_executions :: "string \<Rightarrow> int \<Rightarrow> ledger \<Rightarrow> paper_execution list result" where
  "list_executions pid limit l =
     (if limit \<le> 0 then Inl (ValueError ''execution limit must be positive'')
      else bind_result (get_portfolio pid l) (\<lambda>_.
        Inr (take (nat limit)
          (sort_by (\<lambda>a b. pe_executed_at b \<le> pe_executed_at a)
            (filter (\<lambda>e. pe_portfolio_id e = pid) (tbl_execution l))))))"

text \<open>
  \<^verbatim>\<open>INSERT OR IGNORE\<close>: a decision whose identifier is present is ignored; a decision of an
  unknown portfolio breaks the foreign key and raises.
\<close>

definition save_rebalance_decision :: "rebalance_decision \<Rightarrow> ledger \<Rightarrow> ledger result" where
  "save_rebalance_decision d l =
     (if list_ex (\<lambda>r. rd_decision_id r = rd_decision_id d) (tbl_decision l) then Inr l
      else if tbl_portfolio l (rd_portfolio_id d) = None
           then Inl (IntegrityError ''FOREIGN KEY constraint failed'')
      else Inr (l\<lparr>tbl_decision := tbl_decision l @ [d]\<rparr>))"

definition list_rebalance_decisions :: "string \<Rightarrow> int \<Rightarrow> ledger \<Rightarrow> rebalance_decision list result" where
  "list_rebalance_decisions pid limit l =
     (if limit \<le> 0 then Inl (ValueError ''decision limit must be positive'')
      else bind_result (get_portfolio pid l) (\<lambda>_.
        Inr (take (nat limit)
          (sort_by (\<lambda>a b. rd_as_of b \<le> rd_as_of a)
            (filter (\<lambda>d. rd_portfolio_id d = pid) (tbl_decision l))))))"

section \<open>The invariant of the books\<close>

definition portfolio_row_ok :: "portfolio_row \<Rightarrow> bool" where
  "portfolio_row_ok p =
     (row_purpose p \<noteq> CORE_INVESTMENT \<and> valid_symbol (row_cash_asset p) \<and> 0 \<le> row_cash_balance p)"

definition position_row_ok :: "position_row \<Rightarrow> bool" where
  "position_row_ok r = (valid_symbol (pr_asset r) \<and> 0 < pr_quantity r \<and> 0 \<le> pr_average_cost r)"

definition execution_row_ok :: "paper_execution \<Rightarrow> bool" where
  "execution_row_ok e =
     (pe_order_id e = ''paper:'' @ pe_intent_id e \<and> 0 < pe_quantity e \<and> 0 < pe_price e \<and> 0 \<le> pe_fee e)"

definition position_key :: "position_row \<Rightarrow> string \<times> string" where
  "position_key r = (pr_portfolio_id r, pr_asset r)"

definition ledger_ok :: "ledger \<Rightarrow> bool" where
  "ledger_ok l =
     ((\<forall>pid p. tbl_portfolio l pid = Some p \<longrightarrow> portfolio_row_ok p)
      \<and> (\<forall>r \<in> set (tbl_position l). position_row_ok r \<and> tbl_portfolio l (pr_portfolio_id r) \<noteq> None)
      \<and> distinct (map position_key (tbl_position l))
      \<and> (\<forall>e \<in> set (tbl_execution l). execution_row_ok e \<and> tbl_portfolio l (pe_portfolio_id e) \<noteq> None)
      \<and> distinct (map pe_intent_id (tbl_execution l))
      \<and> (\<forall>d \<in> set (tbl_decision l). tbl_portfolio l (rd_portfolio_id d) \<noteq> None)
      \<and> distinct (map rd_decision_id (tbl_decision l)))"

definition order_ok :: "approved_order \<Rightarrow> bool" where
  "order_ok order = wf_pair (oi_pair (ao_intent order))"

definition recorded :: "ledger \<Rightarrow> string \<Rightarrow> bool" where
  "recorded l i = (i \<in> pe_intent_id ` set (tbl_execution l))"

lemma ledger_okI:
  assumes "\<And>pid p. tbl_portfolio l pid = Some p \<Longrightarrow> portfolio_row_ok p"
    and "\<And>r. r \<in> set (tbl_position l) \<Longrightarrow> position_row_ok r \<and> tbl_portfolio l (pr_portfolio_id r) \<noteq> None"
    and "distinct (map position_key (tbl_position l))"
    and "\<And>e. e \<in> set (tbl_execution l) \<Longrightarrow> execution_row_ok e \<and> tbl_portfolio l (pe_portfolio_id e) \<noteq> None"
    and "distinct (map pe_intent_id (tbl_execution l))"
    and "\<And>d. d \<in> set (tbl_decision l) \<Longrightarrow> tbl_portfolio l (rd_portfolio_id d) \<noteq> None"
    and "distinct (map rd_decision_id (tbl_decision l))"
  shows "ledger_ok l"
  using assms unfolding ledger_ok_def by blast

lemma ledger_okD:
  assumes "ledger_ok l"
  shows "tbl_portfolio l pid = Some p \<Longrightarrow> portfolio_row_ok p"
    and "r \<in> set (tbl_position l) \<Longrightarrow> position_row_ok r"
    and "r \<in> set (tbl_position l) \<Longrightarrow> tbl_portfolio l (pr_portfolio_id r) \<noteq> None"
    and "distinct (map position_key (tbl_position l))"
    and "e \<in> set (tbl_execution l) \<Longrightarrow> execution_row_ok e"
    and "e \<in> set (tbl_execution l) \<Longrightarrow> tbl_portfolio l (pe_portfolio_id e) \<noteq> None"
    and "distinct (map pe_intent_id (tbl_execution l))"
    and "d \<in> set (tbl_decision l) \<Longrightarrow> tbl_portfolio l (rd_portfolio_id d) \<noteq> None"
    and "distinct (map rd_decision_id (tbl_decision l))"
  using assms unfolding ledger_ok_def by blast+

lemma empty_ledger_ok [simp]: "ledger_ok empty_ledger"
  by (simp add: ledger_ok_def empty_ledger_def)

text \<open>Settlement.\<close>

lemma settle_buy_ok:
  assumes "settle_buy cash q a r = Inr s" "0 \<le> q" "0 \<le> a"
    "0 < er_filled_quantity r" "0 < er_average_price r" "0 \<le> er_fee r"
  shows "0 \<le> st_cash s \<and> 0 < st_quantity s \<and> 0 \<le> st_average s"
  using assms
  by (auto simp: settle_buy_def Let_def py_result not_less dadd_pos intro!: dquot_nonneg dadd_nonneg dmul_nonneg
      split: if_splits)

lemma settle_sell_ok:
  assumes "settle_sell cash q a r = Inr s" "0 \<le> cash" "0 \<le> q" "0 \<le> a"
    "er_fee r \<le> dmul (er_filled_quantity r) (er_average_price r)"
  shows "0 \<le> st_cash s \<and> 0 \<le> st_quantity s \<and> 0 \<le> st_average s"
  using assms
  by (auto simp: settle_sell_def Let_def not_less dadd_nonneg split: if_splits)

lemma settle_ok:
  assumes "settle side cash q a r = Inr s" "0 \<le> cash" "0 \<le> q" "0 \<le> a"
    "0 < er_filled_quantity r" "0 < er_average_price r" "0 \<le> er_fee r"
    "er_fee r \<le> dmul (er_filled_quantity r) (er_average_price r)"
  shows "0 \<le> st_cash s \<and> 0 \<le> st_quantity s \<and> 0 \<le> st_average s"
proof (cases side)
  case BUY
  then show ?thesis using settle_buy_ok [of cash q a r s] assms by (auto simp: settle_def)
next
  case SELL
  then show ?thesis using settle_sell_ok [of cash q a r s] assms by (simp add: settle_def)
qed

text \<open>The position table.\<close>

lemma upsert_fields [simp]:
  "tbl_portfolio (upsert_position pid a q c l) = tbl_portfolio l"
  "tbl_execution (upsert_position pid a q c l) = tbl_execution l"
  "tbl_decision (upsert_position pid a q c l) = tbl_decision l"
  by (simp_all add: upsert_position_def Let_def)

lemma upsert_set:
  assumes "r \<in> set (tbl_position (upsert_position pid a q c l))"
  shows "r \<in> set (tbl_position l) \<and> position_key r \<noteq> (pid, a)
    \<or> position_key r = (pid, a) \<and> pr_quantity r = q \<and> pr_average_cost r = c \<and> \<not> dabs q < 1 / 10 ^ 18"
  using assms
  by (auto simp: upsert_position_def Let_def position_key_def list_ex_iff split: if_splits)

lemma upsert_distinct:
  assumes "distinct (map position_key (tbl_position l))"
  shows "distinct (map position_key (tbl_position (upsert_position pid a q c l)))"
proof -
  have key: "map position_key (map (\<lambda>r. if pr_portfolio_id r = pid \<and> pr_asset r = a
      then r\<lparr>pr_quantity := q, pr_average_cost := c\<rparr> else r) rs) = map position_key rs" for rs
    by (induction rs) (auto simp: position_key_def)
  have "(pid, a) \<notin> position_key ` set (tbl_position l)"
    if "\<not> list_ex (\<lambda>r. pr_portfolio_id r = pid \<and> pr_asset r = a) (tbl_position l)"
    using that by (auto simp: position_key_def list_ex_iff)
  then show ?thesis
    using assms
    by (auto simp: upsert_position_def Let_def key distinct_map_filter position_key_def simp del: map_map)
qed

lemma find_position_Some:
  "find_position pid a l = Some r \<Longrightarrow> r \<in> set (tbl_position l) \<and> position_key r = (pid, a)"
  by (auto simp: find_position_def position_key_def dest!: find_Some_in)

lemma old_holding_ok:
  assumes "ledger_ok l"
  shows "0 \<le> (case find_position pid a l of None \<Rightarrow> 0 | Some r \<Rightarrow> pr_quantity r)"
    and "0 \<le> (case find_position pid a l of None \<Rightarrow> 0 | Some r \<Rightarrow> pr_average_cost r)"
  using ledger_okD(2) [OF assms] find_position_Some [of pid a l]
  by (fastforce simp: position_row_ok_def split: option.splits)+

definition held_quantity :: "string \<Rightarrow> string \<Rightarrow> ledger \<Rightarrow> decimal" where
  "held_quantity pid a l = (case find_position pid a l of None \<Rightarrow> 0 | Some r \<Rightarrow> pr_quantity r)"

definition held_average :: "string \<Rightarrow> string \<Rightarrow> ledger \<Rightarrow> decimal" where
  "held_average pid a l = (case find_position pid a l of None \<Rightarrow> 0 | Some r \<Rightarrow> pr_average_cost r)"

abbreviation order_portfolio :: "approved_order \<Rightarrow> string" where
  "order_portfolio order \<equiv> oi_portfolio_id (ao_intent order)"

abbreviation order_base :: "approved_order \<Rightarrow> string" where
  "order_base order \<equiv> asset_symbol (pair_base (oi_pair (ao_intent order)))"

text \<open>The books after a settlement is posted.\<close>

definition posted :: "approved_order \<Rightarrow> execution_report \<Rightarrow> portfolio_row \<Rightarrow> settlement \<Rightarrow> ledger \<Rightarrow> ledger" where
  "posted order r p s l =
     (upsert_position (order_portfolio order) (order_base order) (st_quantity s) (st_average s) l)
       \<lparr>tbl_portfolio := (tbl_portfolio l)(order_portfolio order \<mapsto>
          p\<lparr>row_cash_balance := st_cash s, row_updated_at := er_executed_at r\<rparr>),
        tbl_execution := tbl_execution l @ [execution_row (ao_intent order) r (st_realized_pnl s)]\<rparr>"

lemma apply_execution_Inr:
  "apply_execution order r l = Inr (b, l') \<longleftrightarrow>
     er_side r = oi_side (ao_intent order) \<and> 0 < er_filled_quantity r
     \<and> er_filled_quantity r \<le> oi_quantity (ao_intent order)
     \<and> (if is_duplicate r (ao_intent order) l then \<not> b \<and> l' = l
        else b \<and> (\<exists>p s. tbl_portfolio l (order_portfolio order) = Some p
           \<and> row_purpose p = oi_purpose (ao_intent order)
           \<and> row_cash_asset p = asset_symbol (pair_quote (oi_pair (ao_intent order)))
           \<and> settle (oi_side (ao_intent order)) (row_cash_balance p)
                (held_quantity (order_portfolio order) (order_base order) l)
                (held_average (order_portfolio order) (order_base order) l) r = Inr s
           \<and> l' = posted order r p s l))"
proof -
  have upd: "(upsert_position pid a q c l)\<lparr>tbl_portfolio := P\<rparr>\<lparr>tbl_execution := E\<rparr>
      = (upsert_position pid a q c l)\<lparr>tbl_portfolio := P, tbl_execution := E\<rparr>" for pid a q c P E by simp
  show ?thesis
    by (auto simp: apply_execution_def Let_def py_result posted_def held_quantity_def held_average_def not_le not_less
        split: option.splits)
qed

lemma posted_fields [simp]:
  "tbl_portfolio (posted order r p s l) = (tbl_portfolio l)(order_portfolio order \<mapsto>
      p\<lparr>row_cash_balance := st_cash s, row_updated_at := er_executed_at r\<rparr>)"
  "tbl_execution (posted order r p s l) = tbl_execution l @ [execution_row (ao_intent order) r (st_realized_pnl s)]"
  "tbl_decision (posted order r p s l) = tbl_decision l"
  "tbl_position (posted order r p s l) =
     tbl_position (upsert_position (order_portfolio order) (order_base order) (st_quantity s) (st_average s) l)"
  by (simp_all add: posted_def)

lemma duplicate_iff_recorded:
  assumes "ledger_ok l" "er_order_id r = ''paper:'' @ oi_intent_id intent"
  shows "is_duplicate r intent l \<longleftrightarrow> recorded l (oi_intent_id intent)"
proof -
  have "pe_order_id e = er_order_id r \<longleftrightarrow> pe_intent_id e = oi_intent_id intent" if "e \<in> set (tbl_execution l)" for e
    using ledger_okD(5) [OF assms(1) that] assms(2) by (simp add: execution_row_ok_def)
  then show ?thesis unfolding is_duplicate_def recorded_def list_ex_iff image_iff by metis
qed

lemma held_ok: "ledger_ok l \<Longrightarrow> 0 \<le> held_quantity pid a l" "ledger_ok l \<Longrightarrow> 0 \<le> held_average pid a l"
  using old_holding_ok [of l] by (simp_all add: held_quantity_def held_average_def)

lemma posted_ok:
  assumes l: "ledger_ok l" and o: "order_ok order" and f: "fill_ok order r"
    and n: "\<not> is_duplicate r (ao_intent order) l"
    and p: "tbl_portfolio l (order_portfolio order) = Some p"
    and s: "settle (oi_side (ao_intent order)) (row_cash_balance p)
              (held_quantity (order_portfolio order) (order_base order) l)
              (held_average (order_portfolio order) (order_base order) l) r = Inr s"
  shows "ledger_ok (posted order r p s l)"
proof (rule ledger_okI)
  have pok: "portfolio_row_ok p" by (rule ledger_okD(1) [OF l p])
  have st: "0 \<le> st_cash s \<and> 0 \<le> st_quantity s \<and> 0 \<le> st_average s"
    by (rule settle_ok [OF s]) (use pok f held_ok [OF l] in \<open>auto simp: portfolio_row_ok_def fill_ok_def\<close>)
  show "portfolio_row_ok q" if "tbl_portfolio (posted order r p s l) pid = Some q" for pid q
    using that ledger_okD(1) [OF l] pok st by (auto simp: portfolio_row_ok_def split: if_splits)
  show "position_row_ok q \<and> tbl_portfolio (posted order r p s l) (pr_portfolio_id q) \<noteq> None"
    if q: "q \<in> set (tbl_position (posted order r p s l))" for q
  proof (cases "position_key q = (order_portfolio order, order_base order)")
    case True
    then have "pr_quantity q = st_quantity s" "pr_average_cost q = st_average s"
      "\<not> dabs (st_quantity s) < 1 / 10 ^ 18"
      using q upsert_set [of q "order_portfolio order" "order_base order" "st_quantity s" "st_average s" l]
      by auto
    moreover have "st_quantity s \<noteq> 0" using \<open>\<not> dabs (st_quantity s) < 1 / 10 ^ 18\<close> by (auto simp: dabs_def)
    ultimately show ?thesis
      using True st o by (auto simp: position_row_ok_def position_key_def order_ok_def wf_pair_def wf_asset_def)
  next
    case False
    then have "q \<in> set (tbl_position l)"
      using q upsert_set [of q "order_portfolio order" "order_base order" "st_quantity s" "st_average s" l]
      by auto
    then show ?thesis using ledger_okD(2,3) [OF l] by auto
  qed
  show "distinct (map position_key (tbl_position (posted order r p s l)))"
    using upsert_distinct [OF ledger_okD(4) [OF l]] by simp
  show "execution_row_ok e \<and> tbl_portfolio (posted order r p s l) (pe_portfolio_id e) \<noteq> None"
    if "e \<in> set (tbl_execution (posted order r p s l))" for e
    using that ledger_okD(5,6) [OF l] f
    by (auto simp: execution_row_def execution_row_ok_def fill_ok_def order_id_of_def)
  have "\<not> recorded l (oi_intent_id (ao_intent order))"
    using n f duplicate_iff_recorded [OF l] by (simp add: fill_ok_def order_id_of_def)
  then show "distinct (map pe_intent_id (tbl_execution (posted order r p s l)))"
    using ledger_okD(7) [OF l] by (simp add: execution_row_def recorded_def)
  show "tbl_portfolio (posted order r p s l) (rd_portfolio_id d) \<noteq> None"
    if "d \<in> set (tbl_decision (posted order r p s l))" for d
    using that ledger_okD(8) [OF l] by auto
  show "distinct (map rd_decision_id (tbl_decision (posted order r p s l)))"
    using ledger_okD(9) [OF l] by simp
qed

lemma apply_execution_ok:
  assumes "ledger_ok l" "order_ok order" "fill_ok order r" "apply_execution order r l = Inr (b, l')"
  shows "ledger_ok l'"
  using assms posted_ok [OF assms(1-3)] by (auto simp: apply_execution_Inr split: if_splits)

lemma apply_execution_recorded:
  assumes l: "ledger_ok l" and f: "fill_ok order r" and a: "apply_execution order r l = Inr (b, l')"
  shows "recorded l' i \<longleftrightarrow> recorded l i \<or> i = order_id_of order"
  using a f duplicate_iff_recorded [OF l, of r "ao_intent order"]
  by (auto simp: apply_execution_Inr recorded_def execution_row_def fill_ok_def order_id_of_def split: if_splits)

lemma apply_execution_again:
  assumes l: "ledger_ok l" and f: "fill_ok order r" and a: "apply_execution order r l = Inr (b, l')"
    and i: "recorded l (order_id_of order)"
  shows "\<not> b \<and> l' = l"
  using a f i duplicate_iff_recorded [OF l, of r "ao_intent order"]
  by (simp add: apply_execution_Inr fill_ok_def order_id_of_def)

interpretation paper: execution_ports "\<lambda>n. submit (clock n)" apply_execution gateway_ok ledger_ok order_ok fill_ok recorded
  for clock
proof (unfold_locales, goal_cases)
  case 1
  then show ?case by (blast dest: submit_fill_ok)
next
  case 2
  then show ?case by (blast dest: apply_execution_ok)
next
  case 3
  then show ?case by (blast dest: apply_execution_recorded)
next
  case 4
  then show ?case by (blast dest: apply_execution_again)
qed

section \<open>The other operations\<close>

lemma mk_trading_portfolio_Inr:
  "mk_trading_portfolio pid purpose a c ps = Inr tp \<longleftrightarrow>
     purpose \<noteq> CORE_INVESTMENT \<and> 0 \<le> c
     \<and> tp = \<lparr>tp_id = pid, tp_purpose = purpose, tp_cash_asset = a, tp_cash_balance = c, tp_positions = ps\<rparr>"
  by (auto simp: mk_trading_portfolio_def)

definition trading_portfolio_ok :: "trading_portfolio \<Rightarrow> bool" where
  "trading_portfolio_ok tp =
     (tp_purpose tp \<noteq> CORE_INVESTMENT \<and> wf_asset (tp_cash_asset tp) \<and> 0 \<le> tp_cash_balance tp)"

lemma create_portfolio_ledger:
  "create_portfolio now tp l = Inr (s, l') \<Longrightarrow>
     l' = l \<and> tbl_portfolio l (tp_id tp) \<noteq> None
     \<or> tbl_portfolio l (tp_id tp) = None
       \<and> l' = l\<lparr>tbl_portfolio := (tbl_portfolio l)(tp_id tp \<mapsto>
            \<lparr>row_purpose = tp_purpose tp, row_cash_asset = asset_symbol (tp_cash_asset tp),
             row_cash_balance = tp_cash_balance tp, row_created_at = now, row_updated_at = now\<rparr>)\<rparr>"
  by (auto simp: create_portfolio_def py_result split: if_splits option.splits)

lemma create_portfolio_ok:
  assumes l: "ledger_ok l" and tp: "trading_portfolio_ok tp" and c: "create_portfolio now tp l = Inr (s, l')"
  shows "ledger_ok l'"
  using create_portfolio_ledger [OF c]
proof
  assume "tbl_portfolio l (tp_id tp) = None \<and> l' = l\<lparr>tbl_portfolio := (tbl_portfolio l)(tp_id tp \<mapsto>
            \<lparr>row_purpose = tp_purpose tp, row_cash_asset = asset_symbol (tp_cash_asset tp),
             row_cash_balance = tp_cash_balance tp, row_created_at = now, row_updated_at = now\<rparr>)\<rparr>"
  then show ?thesis
    using l tp unfolding ledger_ok_def
    by (auto simp: trading_portfolio_ok_def portfolio_row_ok_def wf_asset_def split: if_splits)
qed (use l in simp)

lemma save_rebalance_decision_Inr:
  "save_rebalance_decision d l = Inr l' \<longleftrightarrow>
     (if rd_decision_id d \<in> rd_decision_id ` set (tbl_decision l) then l' = l
      else tbl_portfolio l (rd_portfolio_id d) \<noteq> None \<and> l' = l\<lparr>tbl_decision := tbl_decision l @ [d]\<rparr>)"
  by (auto simp: save_rebalance_decision_def list_ex_iff image_iff)

lemma save_rebalance_decision_ok:
  "ledger_ok l \<Longrightarrow> save_rebalance_decision d l = Inr l' \<Longrightarrow> ledger_ok l'"
  unfolding ledger_ok_def by (auto simp: save_rebalance_decision_Inr split: if_splits)

text \<open>Every step of the program on the ledger.\<close>

inductive ledger_step :: "ledger \<Rightarrow> ledger \<Rightarrow> bool" where
  created: "mk_trading_portfolio pid purpose cash_asset cash positions = Inr tp \<Longrightarrow> wf_asset cash_asset \<Longrightarrow>
    create_portfolio now tp l = Inr (s, l') \<Longrightarrow> ledger_step l l'"
| filled: "gateway_ok g \<Longrightarrow> order_ok order \<Longrightarrow> submit now g order = Inr (r, g') \<Longrightarrow>
    apply_execution order r l = Inr (b, l') \<Longrightarrow> ledger_step l l'"
| decided: "save_rebalance_decision d l = Inr l' \<Longrightarrow> ledger_step l l'"

inductive_cases ledger_stepE: "ledger_step l l'"

lemma ledger_step_ok: "ledger_step l l' \<Longrightarrow> ledger_ok l \<Longrightarrow> ledger_ok l'"
proof (induction rule: ledger_step.induct)
  case (created pid purpose cash_asset cash positions tp now l s l')
  then have "trading_portfolio_ok tp" by (auto simp: mk_trading_portfolio_Inr trading_portfolio_ok_def)
  with created show ?case by (blast intro: create_portfolio_ok)
next
  case (filled g order now r g' l b l')
  then show ?case using submit_fill_ok apply_execution_ok by blast
next
  case (decided d l l')
  then show ?case by (blast intro: save_rebalance_decision_ok)
qed

section \<open>Reading back\<close>

lemma rows_of_set [simp]: "set (rows_of pid l) = {r \<in> set (tbl_position l). pr_portfolio_id r = pid}"
  by (auto simp: rows_of_def)

lemma position_of_ok:
  "position_row_ok r \<Longrightarrow> position_of r = Inr \<lparr>pp_asset = \<lparr>asset_symbol = pr_asset r, asset_kind = CRYPTO\<rparr>,
     pp_quantity = pr_quantity r, pp_average_cost = pr_average_cost r\<rparr>"
  by (simp add: position_of_def position_row_ok_def)

lemma map_result_total: "\<forall>x \<in> set xs. f x = Inr (g x) \<Longrightarrow> map_result f xs = Inr (map g xs)"
  by (induction xs) auto

lemma get_portfolio_ok:
  assumes l: "ledger_ok l" and p: "tbl_portfolio l pid = Some p"
  shows "get_portfolio pid l = Inr
    \<lparr>ps_portfolio_id = pid, ps_purpose = row_purpose p,
     ps_cash_asset = \<lparr>asset_symbol = row_cash_asset p, asset_kind = CASH\<rparr>,
     ps_cash_balance = row_cash_balance p,
     ps_positions = map (\<lambda>r. \<lparr>pp_asset = \<lparr>asset_symbol = pr_asset r, asset_kind = CRYPTO\<rparr>,
        pp_quantity = pr_quantity r, pp_average_cost = pr_average_cost r\<rparr>) (rows_of pid l),
     ps_updated_at = row_updated_at p\<rparr>"
proof -
  have "\<forall>r \<in> set (rows_of pid l). position_of r = Inr \<lparr>pp_asset = \<lparr>asset_symbol = pr_asset r, asset_kind = CRYPTO\<rparr>,
     pp_quantity = pr_quantity r, pp_average_cost = pr_average_cost r\<rparr>"
    using ledger_okD(2) [OF l] position_of_ok by simp
  from map_result_total [OF this] show ?thesis
    using ledger_okD(1) [OF l p] by (simp add: get_portfolio_def p portfolio_row_ok_def)
qed

lemma get_portfolio_iff: "ledger_ok l \<Longrightarrow> is_ok (get_portfolio pid l) \<longleftrightarrow> tbl_portfolio l pid \<noteq> None"
  using get_portfolio_ok [of l pid] by (cases "tbl_portfolio l pid") (auto simp: get_portfolio_def is_ok_iff)

lemma upsert_other:
  assumes "pid' \<noteq> pid"
  shows "filter (\<lambda>r. pr_portfolio_id r = pid') (tbl_position (upsert_position pid a q c l))
    = filter (\<lambda>r. pr_portfolio_id r = pid') (tbl_position l)"
proof -
  have "filter (\<lambda>r. pr_portfolio_id r = pid')
      (map (\<lambda>r. if pr_portfolio_id r = pid \<and> pr_asset r = a
         then r\<lparr>pr_quantity := q, pr_average_cost := c\<rparr> else r) rs)
    = filter (\<lambda>r. pr_portfolio_id r = pid') rs" for rs :: "position_row list"
    using assms by (induction rs) auto
  moreover have "filter (\<lambda>r. pr_portfolio_id r = pid') (filter (\<lambda>r. pr_portfolio_id r = pid \<longrightarrow> pr_asset r \<noteq> a) rs)
    = filter (\<lambda>r. pr_portfolio_id r = pid') rs" for rs :: "position_row list"
    using assms by (induction rs) auto
  ultimately show ?thesis using assms by (simp add: upsert_position_def Let_def)
qed

lemma find_position_iff:
  assumes "distinct (map position_key (tbl_position l))"
  shows "find_position pid a l = Some r \<longleftrightarrow> r \<in> set (tbl_position l) \<and> position_key r = (pid, a)"
proof
  assume r: "r \<in> set (tbl_position l) \<and> position_key r = (pid, a)"
  then obtain r' where r': "find_position pid a l = Some r'"
    by (cases "find_position pid a l") (auto simp: find_position_def find_None_all position_key_def)
  then have "r' = r"
    using find_position_Some [OF r'] r assms by (auto simp: distinct_map inj_on_def)
  with r' show "find_position pid a l = Some r" by simp
qed (rule find_position_Some)

lemma upsert_found:
  assumes d: "distinct (map position_key (tbl_position l))"
  shows "find_position pid a (upsert_position pid a q c l) =
    (if dabs q < 1 / 10 ^ 18 then None
     else Some \<lparr>pr_portfolio_id = pid, pr_asset = a, pr_quantity = q, pr_average_cost = c\<rparr>)"
proof (cases "find_position pid a (upsert_position pid a q c l)")
  case (Some r)
  then have "position_key r = (pid, a) \<and> pr_quantity r = q \<and> pr_average_cost r = c \<and> \<not> dabs q < 1 / 10 ^ 18"
    using find_position_Some [OF Some] upsert_set [of r pid a q c l] by auto
  then show ?thesis using Some by (auto simp: position_key_def)
next
  case None
  then have "\<forall>r \<in> set (tbl_position (upsert_position pid a q c l)). position_key r \<noteq> (pid, a)"
    by (auto simp: find_position_def find_None_all position_key_def)
  moreover have "\<exists>r \<in> set (tbl_position (upsert_position pid a q c l)). position_key r = (pid, a)"
    if n: "\<not> dabs q < 1 / 10 ^ 18"
  proof (cases "list_ex (\<lambda>r. pr_portfolio_id r = pid \<and> pr_asset r = a) (tbl_position l)")
    case True
    then obtain r where r: "r \<in> set (tbl_position l)" "pr_portfolio_id r = pid" "pr_asset r = a"
      by (auto simp: list_ex_iff)
    have "tbl_position (upsert_position pid a q c l) =
        map (\<lambda>r. if pr_portfolio_id r = pid \<and> pr_asset r = a
          then r\<lparr>pr_quantity := q, pr_average_cost := c\<rparr> else r) (tbl_position l)"
      using True n by (simp add: upsert_position_def Let_def)
    with r show ?thesis by (auto simp: position_key_def intro!: bexI [of _ "r\<lparr>pr_quantity := q, pr_average_cost := c\<rparr>"])
  qed (use n in \<open>simp add: upsert_position_def Let_def position_key_def\<close>)
  ultimately have "dabs q < 1 / 10 ^ 18" by blast
  with None show ?thesis by simp
qed

section \<open>Sample values\<close>

definition sample_ledger :: ledger where
  "sample_ledger = empty_ledger
     \<lparr>tbl_portfolio := [''paper'' \<mapsto> \<lparr>row_purpose = PAPER_TRADING, row_cash_asset = ''KRW'',
        row_cash_balance = 100000, row_created_at = 0, row_updated_at = 0\<rparr>]\<rparr>"

lemmas sample_ledger_defs =
  sample_order_defs sample_ledger_def empty_ledger_def

lemma sample_order_ok: "order_ok (sample_order side q i)"
  by (simp add: order_ok_def sample_ledger_defs btc_krw_def wf_pair_def wf_asset_def)

lemma sample_ledger_ok: "ledger_ok sample_ledger"
  by (auto simp: ledger_ok_def sample_ledger_defs portfolio_row_ok_def split: if_splits)

lemma sample_buy:
  "apply_execution (sample_order BUY 2 ''a'') (sample_fill BUY 2 ''a'') sample_ledger
    = Inr (True, posted (sample_order BUY 2 ''a'') (sample_fill BUY 2 ''a'')
        \<lparr>row_purpose = PAPER_TRADING, row_cash_asset = ''KRW'',
        row_cash_balance = 100000, row_created_at = 0, row_updated_at = 0\<rparr>
        \<lparr>st_cash = 98000, st_quantity = 2, st_average = 1000, st_realized_pnl = 0\<rparr> sample_ledger)"
  using dec_of_int [of 2] dec_of_int [of 1000] dec_of_int [of 2000] dec_of_int [of 98000]
  by (simp add: apply_execution_Inr is_duplicate_def settle_def settle_buy_def held_quantity_def held_average_def
      find_position_def sample_ledger_defs btc_krw_def decimal_defs ddiv_def)

section \<open>Properties\<close>

text \<open>C5: Every ledger the program can reach from the empty one by creating portfolios, filling approved orders on a paper gateway and saving decisions keeps its books: cash is never negative, every position is positive and of a valid asset, no intent is booked twice, and every row refers to a portfolio.\<close>

theorem reachable_books:
  assumes "ledger_step\<^sup>*\<^sup>* empty_ledger l"
  shows "ledger_ok l
    \<and> (\<forall>pid p. tbl_portfolio l pid = Some p \<longrightarrow> 0 \<le> row_cash_balance p)
    \<and> (\<forall>r \<in> set (tbl_position l). 0 < pr_quantity r)
    \<and> distinct (map pe_intent_id (tbl_execution l))"
proof -
  have "ledger_ok l" using assms
    by (induction rule: rtranclp_induct) (auto intro: ledger_step_ok)
  then show ?thesis
    by (auto simp: ledger_ok_def portfolio_row_ok_def position_row_ok_def)
qed

lemma sample_reachable: "ledger_step\<^sup>*\<^sup>* empty_ledger sample_ledger"
proof -
  have "ledger_step empty_ledger sample_ledger"
  proof (rule ledger_step.created)
    show "mk_trading_portfolio ''paper'' PAPER_TRADING \<lparr>asset_symbol = ''KRW'', asset_kind = CASH\<rparr> 100000 []
      = Inr \<lparr>tp_id = ''paper'', tp_purpose = PAPER_TRADING,
             tp_cash_asset = \<lparr>asset_symbol = ''KRW'', asset_kind = CASH\<rparr>, tp_cash_balance = 100000,
             tp_positions = []\<rparr>" by (simp add: mk_trading_portfolio_def)
    show "wf_asset \<lparr>asset_symbol = ''KRW'', asset_kind = CASH\<rparr>" by (simp add: wf_asset_def)
    show "create_portfolio 0 \<lparr>tp_id = ''paper'', tp_purpose = PAPER_TRADING,
             tp_cash_asset = \<lparr>asset_symbol = ''KRW'', asset_kind = CASH\<rparr>, tp_cash_balance = 100000,
             tp_positions = []\<rparr> empty_ledger
      = Inr (\<lparr>ps_portfolio_id = ''paper'', ps_purpose = PAPER_TRADING,
              ps_cash_asset = \<lparr>asset_symbol = ''KRW'', asset_kind = CASH\<rparr>, ps_cash_balance = 100000,
              ps_positions = [], ps_updated_at = 0\<rparr>, sample_ledger)"
      by (simp add: create_portfolio_def sample_ledger_defs get_portfolio_def rows_of_def sort_by_def)
  qed
  then show ?thesis by simp
qed

lemma reachable_books_witness: "ledger_ok sample_ledger \<and> tbl_portfolio sample_ledger ''paper'' \<noteq> None"
  using reachable_books [OF sample_reachable] by (simp add: sample_ledger_defs)

lemma ledger_step_executions: "ledger_step l l' \<Longrightarrow> set (tbl_execution l) \<subseteq> set (tbl_execution l')"
proof (induction rule: ledger_step.induct)
  case (created pid purpose cash_asset cash positions tp now l s l')
  then show ?case using create_portfolio_ledger [of now tp l s l'] by auto
qed (auto simp: apply_execution_Inr save_rebalance_decision_Inr split: if_splits)

lemma ledger_steps_executions: "ledger_step\<^sup>*\<^sup>* l l' \<Longrightarrow> set (tbl_execution l) \<subseteq> set (tbl_execution l')"
  by (induction rule: rtranclp_induct) (use ledger_step_executions in \<open>blast+\<close>)

lemma duplicate_mono:
  "set (tbl_execution l) \<subseteq> set (tbl_execution l') \<Longrightarrow> is_duplicate r i l \<Longrightarrow> is_duplicate r i l'"
  by (auto simp: is_duplicate_def list_ex_iff)

text \<open>An execution is booked once: applying the same fill again, immediately or after any other steps of the program, reports a duplicate and changes nothing.\<close>

lemma apply_execution_once:
  assumes first: "apply_execution order r l = Inr (b, l1)" and later: "ledger_step\<^sup>*\<^sup>* l1 l2"
  shows "apply_execution order r l2 = Inr (False, l2)"
proof -
  have "is_duplicate r (ao_intent order) l1"
    using first by (auto simp: apply_execution_Inr is_duplicate_def execution_row_def split: if_splits)
  with ledger_steps_executions [OF later] have "is_duplicate r (ao_intent order) l2"
    by (rule duplicate_mono)
  with first show ?thesis by (auto simp: apply_execution_Inr)
qed

text \<open>Booking a fill touches one portfolio: every other portfolio reads back the same, and so do its executions and its decisions.\<close>

lemma apply_execution_frame:
  assumes a: "apply_execution order r l = Inr (b, l')" and pid: "pid \<noteq> oi_portfolio_id (ao_intent order)"
  shows "get_portfolio pid l' = get_portfolio pid l
    \<and> list_executions pid limit l' = list_executions pid limit l
    \<and> list_rebalance_decisions pid limit l' = list_rebalance_decisions pid limit l"
proof -
  have "rows_of pid l' = rows_of pid l" "tbl_portfolio l' pid = tbl_portfolio l pid"
    using a pid by (auto simp: apply_execution_Inr rows_of_def upsert_other split: if_splits)
  then have "get_portfolio pid l' = get_portfolio pid l" by (simp only: get_portfolio_def)
  moreover have "filter (\<lambda>e. pe_portfolio_id e = pid) (tbl_execution l')
      = filter (\<lambda>e. pe_portfolio_id e = pid) (tbl_execution l)"
    using a pid by (auto simp: apply_execution_Inr execution_row_def split: if_splits)
  moreover have "tbl_decision l' = tbl_decision l"
    using a by (auto simp: apply_execution_Inr split: if_splits)
  ultimately show ?thesis by (simp add: list_executions_def list_rebalance_decisions_def)
qed

text \<open>C6: On sound books a fill that is booked settles as the accounting rules say: a purchase needs the cash for notional and fee, and its fee enters the average cost; a sale needs the quantity, keeps the average cost and realises the price difference less the fee; the portfolio then reads back with that cash, and the position with that quantity, or without the position when less than 1e-18 is left.\<close>

theorem apply_execution_settles:
  assumes l: "ledger_ok l" and o: "order_ok order" and f: "fill_ok order r"
    and a: "apply_execution order r l = Inr (True, l')"
  defines "pid \<equiv> oi_portfolio_id (ao_intent order)"
    and "base \<equiv> asset_symbol (pair_base (oi_pair (ao_intent order)))"
    and "notional \<equiv> dmul (er_filled_quantity r) (er_average_price r)"
    and "dust \<equiv> (1 / 10 ^ 18 :: decimal)"
  shows "\<exists>before after q. get_portfolio pid l = Inr before \<and> get_portfolio pid l' = Inr after
    \<and> held_quantity pid base l' = (if q < dust then 0 else q)
    \<and> (if er_side r = BUY
       then dadd notional (er_fee r) \<le> ps_cash_balance before
         \<and> ps_cash_balance after = dsub (ps_cash_balance before) (dadd notional (er_fee r))
         \<and> q = dadd (held_quantity pid base l) (er_filled_quantity r)
         \<and> (dust \<le> q \<longrightarrow> held_average pid base l' =
              dquot (dadd (dadd (dmul (held_quantity pid base l) (held_average pid base l)) notional) (er_fee r)) q)
       else er_filled_quantity r \<le> held_quantity pid base l
         \<and> ps_cash_balance after = dadd (ps_cash_balance before) (dsub notional (er_fee r))
         \<and> q = dsub (held_quantity pid base l) (er_filled_quantity r)
         \<and> (dust \<le> q \<longrightarrow> held_average pid base l' = held_average pid base l)
         \<and> pe_realized_pnl (last (tbl_execution l')) =
             dsub (dmul (dsub (er_average_price r) (held_average pid base l)) (er_filled_quantity r)) (er_fee r))"
proof -
  obtain p s where p: "tbl_portfolio l pid = Some p"
    and s: "settle (oi_side (ao_intent order)) (row_cash_balance p) (held_quantity pid base l)
              (held_average pid base l) r = Inr s"
    and l': "l' = posted order r p s l" and side: "er_side r = oi_side (ao_intent order)"
    using a by (auto simp: apply_execution_Inr pid_def base_def split: if_splits)
  have l'ok: "ledger_ok l'" by (rule apply_execution_ok [OF l o f a])
  have st: "0 \<le> st_quantity s"
    using settle_ok [OF s] ledger_okD(1) [OF l p] held_ok [OF l] f
    by (auto simp: portfolio_row_ok_def fill_ok_def)
  have "\<exists>y. st_quantity s = dec y"
    using s by (auto simp: settle_def settle_buy_def settle_sell_def Let_def py_result dadd_def dsub_def split: if_splits)
  with st have dq: "dabs (st_quantity s) = st_quantity s" by auto
  have found: "find_position pid base l' =
    (if st_quantity s < dust then None
     else Some \<lparr>pr_portfolio_id = pid, pr_asset = base, pr_quantity = st_quantity s, pr_average_cost = st_average s\<rparr>)"
    using upsert_found [OF ledger_okD(4) [OF l], of pid base "st_quantity s" "st_average s"]
    by (simp add: l' dq find_position_def dust_def flip: pid_def base_def)
  have hq: "held_quantity pid base l' = (if st_quantity s < dust then 0 else st_quantity s)"
    and ha: "dust \<le> st_quantity s \<Longrightarrow> held_average pid base l' = st_average s"
    by (simp_all add: held_quantity_def held_average_def found)
  have p': "tbl_portfolio l' pid = Some (p\<lparr>row_cash_balance := st_cash s, row_updated_at := er_executed_at r\<rparr>)"
    by (simp add: l' pid_def)
  have last: "pe_realized_pnl (last (tbl_execution l')) = st_realized_pnl s"
    by (simp add: l' execution_row_def)
  have pos: "0 < dust" by (simp add: dust_def)
  show ?thesis
    unfolding get_portfolio_ok [OF l p] get_portfolio_ok [OF l'ok p'] sum.inject
    by (intro exI conjI, rule refl, rule refl, rule hq)
      (use s pos in \<open>auto simp: settle_def settle_buy_def settle_sell_def side last Let_def py_result notional_def ha
        split: if_splits\<close>)
qed

lemma sample_fill_ok: "fill_ok (sample_order BUY 2 ''a'') (sample_fill BUY 2 ''a'')"
  using dec_of_int [of 2000]
  by (simp add: fill_ok_def sample_ledger_defs order_id_of_def dmul_def)

lemma apply_execution_settles_witness:
  "\<exists>l' after. apply_execution (sample_order BUY 2 ''a'') (sample_fill BUY 2 ''a'') sample_ledger = Inr (True, l')
     \<and> get_portfolio ''paper'' l' = Inr after
     \<and> ps_cash_balance after = dsub 100000 (dadd (dmul 2 1000) 0)"
  using apply_execution_settles [OF sample_ledger_ok sample_order_ok sample_fill_ok sample_buy] sample_buy
  by (auto simp: sample_ledger_defs get_portfolio_def rows_of_def sort_by_def)

end
