(* ===== verification/Policy.thy ===== *)
theory Policy
  imports PyNumbers
begin

text \<open>
  The strategy profile of the dynamic paper rebalance (\<^verbatim>\<open>DynamicUniversePolicy\<close> in
  \<^verbatim>\<open>application/dynamic_paper_rebalance.py\<close>) and its published versions
  (\<^verbatim>\<open>dynamic_policy_for_version\<close>): each version is a record update of an earlier one, as the
  source builds it with \<^verbatim>\<open>dataclasses.replace\<close>.  A \<^verbatim>\<open>float\<close> literal is \<^const>\<open>flt\<close> of its decimal text; a
  \<^verbatim>\<open>Decimal\<close> literal is exact.
\<close>

section \<open>The profile\<close>

record universe_policy =
  dp_strategy_version :: string
  dp_minimum_history_bars :: int
  dp_liquidity_lookback_bars :: int
  dp_maximum_candidates :: int
  dp_maximum_positions :: int
  dp_invested_fraction :: decimal
  dp_maximum_asset_weight :: decimal
  dp_minimum_order_notional :: decimal
  dp_minimum_rebalance_fraction :: decimal
  dp_exchange_fee_rate :: decimal
  dp_estimated_slippage_rate :: decimal
  dp_entry_score_hurdle :: pyfloat
  dp_hold_score_hurdle :: pyfloat
  dp_exit_score_hurdle :: pyfloat
  dp_maximum_hold_rank :: int
  dp_required_entry_confirmations :: int
  dp_reentry_cooldown :: timedelta
  dp_minimum_replacement_score_advantage :: pyfloat
  dp_maximum_daily_turnover_fraction :: decimal
  dp_turnover_sell_weight :: decimal
  dp_turnover_budget_mode :: string
  dp_bullish_daily_turnover_fraction :: "decimal option"
  dp_bullish_btc_minimum_momentum_4h :: pyfloat
  dp_bullish_btc_minimum_momentum_24h :: pyfloat
  dp_bullish_market_breadth_minimum :: pyfloat
  dp_bullish_market_breadth_minimum_candidates :: int
  dp_maximum_daily_fee_fraction :: decimal
  dp_maximum_daily_realized_loss_fraction :: decimal
  dp_scoring_method :: string
  dp_score_scale :: string
  dp_momentum_1h_weight :: pyfloat
  dp_momentum_4h_weight :: pyfloat
  dp_momentum_24h_weight :: pyfloat
  dp_volatility_weight :: pyfloat
  dp_minimum_entry_momentum_1h :: "pyfloat option"
  dp_maximum_entry_momentum_1h :: "pyfloat option"
  dp_minimum_entry_momentum_4h :: "pyfloat option"
  dp_maximum_entry_momentum_4h :: "pyfloat option"
  dp_minimum_entry_momentum_24h :: "pyfloat option"
  dp_maximum_entry_momentum_24h :: "pyfloat option"
  dp_maximum_entry_volatility :: "pyfloat option"
  dp_maximum_entry_volatility_quantile :: "pyfloat option"
  dp_minimum_hold_momentum_1h :: "pyfloat option"
  dp_minimum_hold_momentum_24h :: "pyfloat option"
  dp_maximum_hold_volatility :: "pyfloat option"
  dp_maximum_holding_period :: "timedelta option"
  dp_excluded_base_assets :: "string list"
  dp_maximum_market_data_age :: "timedelta option"
  dp_extreme_score_penalty_threshold :: "pyfloat option"
  dp_extreme_score_maximum_penalty :: pyfloat
  dp_expected_return_calibration_mode :: string
  dp_expected_return_1h_intercept :: pyfloat
  dp_expected_return_1h_score_slope :: pyfloat
  dp_expected_return_4h_intercept :: pyfloat
  dp_expected_return_4h_score_slope :: pyfloat
  dp_minimum_fee_adjusted_entry_return :: pyfloat
  dp_minimum_expected_hold_return :: pyfloat
  dp_minimum_fee_adjusted_replacement_advantage :: pyfloat
  dp_selection_concentration_lookback :: "timedelta option"
  dp_maximum_selection_concentration :: "pyfloat option"
  dp_selection_concentration_minimum_cohorts :: int
  dp_rolling_asset_performance_lookback :: "timedelta option"
  dp_rolling_asset_minimum_sells :: int
  dp_maximum_rolling_asset_realized_loss_fraction :: "decimal option"
  dp_derivatives_overlay_mode :: string
  dp_derivatives_feature_version :: string
  dp_derivatives_maximum_age :: timedelta
  dp_derivatives_minimum_funding_rate :: "decimal option"
  dp_derivatives_minimum_basis_input_rate :: "decimal option"
  dp_derivatives_minimum_global_long_short_ratio :: "decimal option"
  dp_crowding_overlay_mode :: string
  dp_crowding_feature_version :: string
  dp_crowding_maximum_age :: timedelta
  dp_crowding_maximum_long_score :: "pyfloat option"
  dp_crowding_maximum_bearish_unwind_score :: "pyfloat option"
  dp_maximum_entry_market_data_age :: "timedelta option"

definition policy_v21 :: universe_policy where
  "policy_v21 =
     \<lparr>dp_strategy_version = ''dynamic-intraday-v2.1'',
      dp_minimum_history_bars = 7 * 24 * 4,
      dp_liquidity_lookback_bars = 24 * 4,
      dp_maximum_candidates = 20,
      dp_maximum_positions = 3,
      dp_invested_fraction = 9 / 10,
      dp_maximum_asset_weight = 4 / 10,
      dp_minimum_order_notional = 5000,
      dp_minimum_rebalance_fraction = 2 / 100,
      dp_exchange_fee_rate = 5 / 10000,
      dp_estimated_slippage_rate = 5 / 10000,
      dp_entry_score_hurdle = flt (5 / 1000),
      dp_hold_score_hurdle = flt (1 / 1000),
      dp_exit_score_hurdle = flt (- (2 / 1000)),
      dp_maximum_hold_rank = 8,
      dp_required_entry_confirmations = 2,
      dp_reentry_cooldown = hours 1,
      dp_minimum_replacement_score_advantage = flt (1 / 100),
      dp_maximum_daily_turnover_fraction = 6,
      dp_turnover_sell_weight = 1,
      dp_turnover_budget_mode = ''FIXED'',
      dp_bullish_daily_turnover_fraction = None,
      dp_bullish_btc_minimum_momentum_4h = 0,
      dp_bullish_btc_minimum_momentum_24h = 0,
      dp_bullish_market_breadth_minimum = 1,
      dp_bullish_market_breadth_minimum_candidates = 10,
      dp_maximum_daily_fee_fraction = 5 / 1000,
      dp_maximum_daily_realized_loss_fraction = 2 / 100,
      dp_scoring_method = ''RAW_MOMENTUM'',
      dp_score_scale = ''EXPECTED_RETURN'',
      dp_momentum_1h_weight = flt (45 / 100),
      dp_momentum_4h_weight = flt (35 / 100),
      dp_momentum_24h_weight = flt (20 / 100),
      dp_volatility_weight = flt (- (10 / 100)),
      dp_minimum_entry_momentum_1h = None,
      dp_maximum_entry_momentum_1h = None,
      dp_minimum_entry_momentum_4h = None,
      dp_maximum_entry_momentum_4h = None,
      dp_minimum_entry_momentum_24h = None,
      dp_maximum_entry_momentum_24h = None,
      dp_maximum_entry_volatility = None,
      dp_maximum_entry_volatility_quantile = None,
      dp_minimum_hold_momentum_1h = None,
      dp_minimum_hold_momentum_24h = None,
      dp_maximum_hold_volatility = None,
      dp_maximum_holding_period = None,
      dp_excluded_base_assets = [],
      dp_maximum_market_data_age = None,
      dp_extreme_score_penalty_threshold = None,
      dp_extreme_score_maximum_penalty = 0,
      dp_expected_return_calibration_mode = ''DISABLED'',
      dp_expected_return_1h_intercept = 0,
      dp_expected_return_1h_score_slope = 0,
      dp_expected_return_4h_intercept = 0,
      dp_expected_return_4h_score_slope = 0,
      dp_minimum_fee_adjusted_entry_return = 0,
      dp_minimum_expected_hold_return = 0,
      dp_minimum_fee_adjusted_replacement_advantage = 0,
      dp_selection_concentration_lookback = None,
      dp_maximum_selection_concentration = None,
      dp_selection_concentration_minimum_cohorts = 20,
      dp_rolling_asset_performance_lookback = None,
      dp_rolling_asset_minimum_sells = 2,
      dp_maximum_rolling_asset_realized_loss_fraction = None,
      dp_derivatives_overlay_mode = ''DISABLED'',
      dp_derivatives_feature_version = ''btc-squeeze-v1'',
      dp_derivatives_maximum_age = minutes 10,
      dp_derivatives_minimum_funding_rate = None,
      dp_derivatives_minimum_basis_input_rate = None,
      dp_derivatives_minimum_global_long_short_ratio = None,
      dp_crowding_overlay_mode = ''DISABLED'',
      dp_crowding_feature_version = ''btc-crowding-v1'',
      dp_crowding_maximum_age = minutes 10,
      dp_crowding_maximum_long_score = None,
      dp_crowding_maximum_bearish_unwind_score = None,
      dp_maximum_entry_market_data_age = None\<rparr>"

definition policy_v22 :: universe_policy where
  "policy_v22 = policy_v21
     \<lparr>dp_strategy_version := ''dynamic-intraday-v2.2'',
      dp_maximum_positions := 2,
      dp_invested_fraction := 50 / 100,
      dp_maximum_asset_weight := 25 / 100,
      dp_entry_score_hurdle := flt (60 / 100),
      dp_hold_score_hurdle := flt (45 / 100),
      dp_exit_score_hurdle := flt (45 / 100),
      dp_maximum_hold_rank := 6,
      dp_required_entry_confirmations := 3,
      dp_reentry_cooldown := hours 2,
      dp_minimum_replacement_score_advantage := flt (15 / 100),
      dp_maximum_daily_turnover_fraction := 2,
      dp_maximum_daily_fee_fraction := 3 / 1000,
      dp_maximum_daily_realized_loss_fraction := 1 / 100,
      dp_scoring_method := ''CALM_PULLBACK_RANK'',
      dp_score_scale := ''UNIT_INTERVAL'',
      dp_momentum_1h_weight := flt (45 / 100),
      dp_momentum_4h_weight := flt (20 / 100),
      dp_momentum_24h_weight := flt (10 / 100),
      dp_volatility_weight := flt (25 / 100),
      dp_minimum_entry_momentum_1h := Some (flt (- (15 / 1000))),
      dp_maximum_entry_momentum_1h := Some (flt (5 / 1000)),
      dp_minimum_entry_momentum_4h := Some (flt (- (3 / 100))),
      dp_maximum_entry_momentum_4h := Some (flt (15 / 1000)),
      dp_minimum_entry_momentum_24h := Some (flt (- (8 / 100))),
      dp_maximum_entry_momentum_24h := Some (flt (8 / 100)),
      dp_maximum_entry_volatility := Some (flt (12 / 1000)),
      dp_maximum_entry_volatility_quantile := Some (flt (80 / 100)),
      dp_minimum_hold_momentum_1h := Some (flt (- (4 / 100))),
      dp_minimum_hold_momentum_24h := Some (flt (- (8 / 100))),
      dp_maximum_hold_volatility := Some (flt (12 / 1000)),
      dp_maximum_holding_period := Some (hours 4),
      dp_excluded_base_assets := [''DAI'', ''RLUSD'', ''USD1'', ''USDC'', ''USDE'', ''USDG'', ''USDS'', ''USDT'']\<rparr>"

definition policy_v23 :: universe_policy where
  "policy_v23 = policy_v22
     \<lparr>dp_strategy_version := ''dynamic-intraday-v2.3'',
      dp_turnover_sell_weight := 50 / 100,
      dp_turnover_budget_mode := ''BULLISH_REGIME'',
      dp_bullish_daily_turnover_fraction := Some 3,
      dp_bullish_btc_minimum_momentum_4h := flt (1 / 100),
      dp_bullish_btc_minimum_momentum_24h := flt (3 / 100),
      dp_bullish_market_breadth_minimum := flt (65 / 100),
      dp_bullish_market_breadth_minimum_candidates := 10\<rparr>"

definition policy_v24 :: universe_policy where
  "policy_v24 = policy_v23
     \<lparr>dp_strategy_version := ''dynamic-intraday-v2.4'',
      dp_maximum_market_data_age := Some (minutes 30),
      dp_extreme_score_penalty_threshold := Some (flt (80 / 100)),
      dp_extreme_score_maximum_penalty := flt (25 / 100),
      dp_expected_return_calibration_mode := ''SCORE_LINEAR'',
      dp_expected_return_1h_intercept := flt (- (5 / 1000)),
      dp_expected_return_1h_score_slope := flt (10 / 1000),
      dp_expected_return_4h_intercept := flt (- (8 / 1000)),
      dp_expected_return_4h_score_slope := flt (16 / 1000),
      dp_minimum_fee_adjusted_entry_return := 0,
      dp_minimum_expected_hold_return := 0,
      dp_minimum_fee_adjusted_replacement_advantage := flt (1 / 1000),
      dp_selection_concentration_lookback := Some (hours 24),
      dp_maximum_selection_concentration := Some (flt (25 / 100)),
      dp_selection_concentration_minimum_cohorts := 20,
      dp_rolling_asset_performance_lookback := Some (hours 72),
      dp_rolling_asset_minimum_sells := 2,
      dp_maximum_rolling_asset_realized_loss_fraction := Some (5 / 1000),
      dp_derivatives_overlay_mode := ''SHADOW'',
      dp_derivatives_feature_version := ''btc-squeeze-v2-market-streams'',
      dp_derivatives_maximum_age := minutes 10\<rparr>"

definition policy_v25 :: universe_policy where
  "policy_v25 = policy_v24
     \<lparr>dp_strategy_version := ''dynamic-intraday-v2.5'',
      dp_minimum_entry_momentum_4h := Some 0,
      dp_derivatives_feature_version := ''btc-squeeze-v3-mark-index-basis-proxy''\<rparr>"

definition policy_v26 :: universe_policy where
  "policy_v26 = policy_v25
     \<lparr>dp_strategy_version := ''dynamic-intraday-v2.6'',
      dp_minimum_entry_momentum_4h := Some (flt (- (3 / 100))),
      dp_maximum_entry_momentum_4h := Some (flt (5 / 1000)),
      dp_maximum_entry_volatility := Some (flt (3 / 1000)),
      dp_maximum_entry_volatility_quantile := Some (flt (50 / 100)),
      dp_maximum_holding_period := Some (hours 1),
      dp_extreme_score_penalty_threshold := Some (flt (70 / 100)),
      dp_extreme_score_maximum_penalty := flt (35 / 100),
      dp_derivatives_overlay_mode := ''ENTRY_GATE'',
      dp_derivatives_minimum_funding_rate := Some (5 / 100000),
      dp_derivatives_minimum_basis_input_rate := Some (- (5 / 10000)),
      dp_derivatives_minimum_global_long_short_ratio := Some (10 / 10)\<rparr>"

definition policy_v27 :: universe_policy where
  "policy_v27 = policy_v26
     \<lparr>dp_strategy_version := ''dynamic-intraday-v2.7'',
      dp_minimum_entry_momentum_1h := Some (flt (- (7 / 1000))),
      dp_reentry_cooldown := hours 4,
      dp_crowding_overlay_mode := ''ENTRY_GATE'',
      dp_crowding_feature_version := ''btc-crowding-v1'',
      dp_crowding_maximum_age := minutes 10,
      dp_crowding_maximum_long_score := Some (flt (70 / 100)),
      dp_crowding_maximum_bearish_unwind_score := Some (flt (55 / 100))\<rparr>"

definition policy_v27_accuracy :: universe_policy where
  "policy_v27_accuracy = policy_v27
     \<lparr>dp_strategy_version := ''dynamic-intraday-v2.7-accuracy-v1'',
      dp_maximum_entry_market_data_age := Some (minutes 20)\<rparr>"

section \<open>The versions\<close>

text \<open>
  The V2.8 ablation: four variants of the accuracy-patched V2.7 that differ in the role of
  the derivatives and crowding evidence only.
\<close>

definition v28_versions :: "string list" where
  "v28_versions =
     [''dynamic-intraday-v2.8-production-control'', ''dynamic-intraday-v2.8-momentum'',
      ''dynamic-intraday-v2.8-long-short'', ''dynamic-intraday-v2.8-soft-penalty'']"

definition v29_versions :: "string list" where
  "v29_versions =
     [''dynamic-intraday-v2.9-production-control'', ''dynamic-intraday-v2.9-volatility-relaxed'',
      ''dynamic-intraday-v2.9-pullback-window'', ''dynamic-intraday-v2.9-concentration-relaxed'']"

definition policy_v28_control :: universe_policy where
  "policy_v28_control =
     policy_v27_accuracy\<lparr>dp_strategy_version := ''dynamic-intraday-v2.8-production-control''\<rparr>"

definition policy_v28_variant :: "string \<Rightarrow> string \<Rightarrow> universe_policy" where
  "policy_v28_variant version mode =
     (let baseline = policy_v27_accuracy
      in baseline
       \<lparr>dp_strategy_version := version,
        dp_derivatives_overlay_mode := mode,
        dp_derivatives_minimum_funding_rate :=
          (if mode = ''SHADOW'' then None else dp_derivatives_minimum_funding_rate baseline),
        dp_derivatives_minimum_basis_input_rate :=
          (if mode = ''SHADOW'' then None else dp_derivatives_minimum_basis_input_rate baseline),
        dp_derivatives_minimum_global_long_short_ratio :=
          (if mode = ''SHADOW'' then None
           else dp_derivatives_minimum_global_long_short_ratio baseline),
        dp_crowding_overlay_mode := ''SHADOW'',
        dp_crowding_maximum_long_score := None,
        dp_crowding_maximum_bearish_unwind_score := None\<rparr>)"

definition policy_v28 :: "string \<Rightarrow> universe_policy" where
  "policy_v28 version =
     (if version = ''dynamic-intraday-v2.8-production-control'' then policy_v28_control
      else policy_v28_variant version
        (if version = ''dynamic-intraday-v2.8-momentum'' then ''SHADOW''
         else if version = ''dynamic-intraday-v2.8-long-short'' then ''LONG_SHORT_GATE''
         else ''SOFT_PENALTY''))"

definition policy_v29 :: "string \<Rightarrow> universe_policy result" where
  "policy_v29 version =
     (let baseline = policy_v28_control
      in if version = ''dynamic-intraday-v2.9-production-control''
         then Inr (baseline\<lparr>dp_strategy_version := version\<rparr>)
         else if version = ''dynamic-intraday-v2.9-volatility-relaxed''
         then Inr (baseline\<lparr>dp_strategy_version := version,
                dp_maximum_entry_volatility := Some (flt (18 / 1000)),
                dp_maximum_entry_volatility_quantile := None\<rparr>)
         else if version = ''dynamic-intraday-v2.9-pullback-window''
         then Inr (baseline\<lparr>dp_strategy_version := version,
                dp_minimum_entry_momentum_1h := Some (flt (- (3 / 100))),
                dp_maximum_entry_momentum_1h := Some (flt (- (7 / 1000))),
                dp_minimum_entry_momentum_4h := Some (flt (- (3 / 100))),
                dp_maximum_entry_momentum_4h := Some (flt (- (8 / 1000)))\<rparr>)
         else if version = ''dynamic-intraday-v2.9-concentration-relaxed''
         then Inr (baseline\<lparr>dp_strategy_version := version,
                dp_maximum_selection_concentration := Some (flt (50 / 100))\<rparr>)
         else Inl (AssertionError ''unreachable V2.9 strategy version''))"

definition dynamic_policy_for_version :: "string \<Rightarrow> universe_policy result" where
  "dynamic_policy_for_version version =
     (if version = ''dynamic-intraday-v2.1'' then Inr policy_v21
      else if version = ''dynamic-intraday-v2.2'' then Inr policy_v22
      else if version = ''dynamic-intraday-v2.3'' then Inr policy_v23
      else if version = ''dynamic-intraday-v2.4'' then Inr policy_v24
      else if version = ''dynamic-intraday-v2.5'' then Inr policy_v25
      else if version = ''dynamic-intraday-v2.6'' then Inr policy_v26
      else if version = ''dynamic-intraday-v2.7'' then Inr policy_v27
      else if version = ''dynamic-intraday-v2.7-accuracy-v1'' then Inr policy_v27_accuracy
      else if version \<in> set v28_versions then Inr (policy_v28 version)
      else if version \<in> set v29_versions then policy_v29 version
      else Inl (ValueError (''unsupported dynamic strategy version: '' @ version)))"

section \<open>Derived hurdles\<close>

definition round_trip_cost_hurdle :: "universe_policy \<Rightarrow> pyfloat" where
  "round_trip_cost_hurdle p =
     flt (dmul 2 (dadd (dp_exchange_fee_rate p) (dp_estimated_slippage_rate p)))"

definition effective_entry_score_hurdle :: "universe_policy \<Rightarrow> pyfloat" where
  "effective_entry_score_hurdle p =
     (if dp_score_scale p = ''EXPECTED_RETURN''
      then max (dp_entry_score_hurdle p) (round_trip_cost_hurdle p)
      else dp_entry_score_hurdle p)"

text \<open>What the versions have in common, for the proofs about them.\<close>

lemmas policy_defs =
  policy_v21_def policy_v22_def policy_v23_def policy_v24_def policy_v25_def policy_v26_def
  policy_v27_def policy_v27_accuracy_def policy_v28_control_def policy_v28_variant_def

section \<open>The published versions\<close>

lemma policy_v29_version: "v \<in> set v29_versions \<Longrightarrow> \<exists>p. policy_v29 v = Inr p \<and> dp_strategy_version p = v"
  unfolding v29_versions_def set_simps by (elim insertE emptyE) (simp_all add: policy_v29_def Let_def)

lemma policy_v28_version: "v \<in> set v28_versions \<Longrightarrow> dp_strategy_version (policy_v28 v) = v"
  unfolding v28_versions_def set_simps by (elim insertE emptyE) (simp_all add: policy_v28_def policy_v28_control_def policy_v28_variant_def Let_def)

definition published_versions :: "string list" where
  "published_versions =
     [''dynamic-intraday-v2.1'', ''dynamic-intraday-v2.2'', ''dynamic-intraday-v2.3'', ''dynamic-intraday-v2.4'',
      ''dynamic-intraday-v2.5'', ''dynamic-intraday-v2.6'', ''dynamic-intraday-v2.7'',
      ''dynamic-intraday-v2.7-accuracy-v1''] @ v28_versions @ v29_versions"

lemma published_cases:
  "v \<in> set published_versions \<longleftrightarrow>
    v \<in> set [''dynamic-intraday-v2.1'', ''dynamic-intraday-v2.2'', ''dynamic-intraday-v2.3'', ''dynamic-intraday-v2.4'',
      ''dynamic-intraday-v2.5'', ''dynamic-intraday-v2.6'', ''dynamic-intraday-v2.7'',
      ''dynamic-intraday-v2.7-accuracy-v1''] \<or> v \<in> set v28_versions \<or> v \<in> set v29_versions"
  by (simp only: published_versions_def set_append Un_iff)

lemma early_versions:
  "v \<in> set [''dynamic-intraday-v2.1'', ''dynamic-intraday-v2.2'', ''dynamic-intraday-v2.3'', ''dynamic-intraday-v2.4'',
      ''dynamic-intraday-v2.5'', ''dynamic-intraday-v2.6'', ''dynamic-intraday-v2.7'',
      ''dynamic-intraday-v2.7-accuracy-v1''] \<Longrightarrow>
    \<exists>p. dynamic_policy_for_version v = Inr p \<and> dp_strategy_version p = v"
  unfolding set_simps by (elim insertE emptyE) (simp_all add: dynamic_policy_for_version_def policy_defs)

lemma v28_lookup: "v \<in> set v28_versions \<Longrightarrow> dynamic_policy_for_version v = Inr (policy_v28 v)"
  unfolding v28_versions_def set_simps
  by (elim insertE emptyE) (simp_all add: dynamic_policy_for_version_def v28_versions_def)

lemma v29_lookup: "v \<in> set v29_versions \<Longrightarrow> dynamic_policy_for_version v = policy_v29 v"
  unfolding v29_versions_def set_simps
  by (elim insertE emptyE) (simp_all add: dynamic_policy_for_version_def v28_versions_def v29_versions_def)

lemma published_found:
  "v \<in> set published_versions \<Longrightarrow> \<exists>p. dynamic_policy_for_version v = Inr p \<and> dp_strategy_version p = v"
  unfolding published_cases
  using early_versions v28_lookup v29_lookup policy_v28_version policy_v29_version by metis

lemma unpublished:
  assumes "v \<notin> set published_versions"
  shows "dynamic_policy_for_version v = Inl (ValueError (''unsupported dynamic strategy version: '' @ v))"
proof -
  have n: "v \<noteq> ''dynamic-intraday-v2.1''" "v \<noteq> ''dynamic-intraday-v2.2''" "v \<noteq> ''dynamic-intraday-v2.3''"
    "v \<noteq> ''dynamic-intraday-v2.4''" "v \<noteq> ''dynamic-intraday-v2.5''" "v \<noteq> ''dynamic-intraday-v2.6''"
    "v \<noteq> ''dynamic-intraday-v2.7''" "v \<noteq> ''dynamic-intraday-v2.7-accuracy-v1''"
    "v \<notin> set v28_versions" "v \<notin> set v29_versions"
    using assms unfolding published_cases set_simps by blast+
  show ?thesis unfolding dynamic_policy_for_version_def by (simp only: n if_False)
qed


definition entry_fields_reset :: "universe_policy \<Rightarrow> universe_policy \<Rightarrow> universe_policy" where
  "entry_fields_reset c p = p
     \<lparr>dp_strategy_version := dp_strategy_version c,
      dp_maximum_entry_volatility := dp_maximum_entry_volatility c,
      dp_maximum_entry_volatility_quantile := dp_maximum_entry_volatility_quantile c,
      dp_minimum_entry_momentum_1h := dp_minimum_entry_momentum_1h c,
      dp_maximum_entry_momentum_1h := dp_maximum_entry_momentum_1h c,
      dp_minimum_entry_momentum_4h := dp_minimum_entry_momentum_4h c,
      dp_maximum_entry_momentum_4h := dp_maximum_entry_momentum_4h c,
      dp_maximum_selection_concentration := dp_maximum_selection_concentration c\<rparr>"

lemma v29_reset:
  assumes "v \<in> set v29_versions" "dynamic_policy_for_version v = Inr p"
  shows "entry_fields_reset policy_v28_control p = policy_v28_control"
proof -
  have p: "policy_v29 v = Inr p" using assms v29_lookup by simp
  show ?thesis
    using assms(1) p unfolding v29_versions_def set_simps
    by (elim insertE emptyE) (auto simp: policy_v29_def Let_def entry_fields_reset_def)
qed

lemma reset_fields:
  fixes p c :: universe_policy
  defines "q \<equiv> entry_fields_reset c p"
  shows
    "dp_minimum_history_bars q = dp_minimum_history_bars p"
    and "dp_liquidity_lookback_bars q = dp_liquidity_lookback_bars p"
    and "dp_maximum_candidates q = dp_maximum_candidates p"
    and "dp_maximum_positions q = dp_maximum_positions p"
    and "dp_invested_fraction q = dp_invested_fraction p"
    and "dp_maximum_asset_weight q = dp_maximum_asset_weight p"
    and "dp_minimum_order_notional q = dp_minimum_order_notional p"
    and "dp_minimum_rebalance_fraction q = dp_minimum_rebalance_fraction p"
    and "dp_exchange_fee_rate q = dp_exchange_fee_rate p"
    and "dp_estimated_slippage_rate q = dp_estimated_slippage_rate p"
    and "dp_entry_score_hurdle q = dp_entry_score_hurdle p"
    and "dp_hold_score_hurdle q = dp_hold_score_hurdle p"
    and "dp_exit_score_hurdle q = dp_exit_score_hurdle p"
    and "dp_maximum_hold_rank q = dp_maximum_hold_rank p"
    and "dp_required_entry_confirmations q = dp_required_entry_confirmations p"
    and "dp_reentry_cooldown q = dp_reentry_cooldown p"
    and "dp_minimum_replacement_score_advantage q = dp_minimum_replacement_score_advantage p"
    and "dp_maximum_daily_turnover_fraction q = dp_maximum_daily_turnover_fraction p"
    and "dp_turnover_sell_weight q = dp_turnover_sell_weight p"
    and "dp_turnover_budget_mode q = dp_turnover_budget_mode p"
    and "dp_bullish_daily_turnover_fraction q = dp_bullish_daily_turnover_fraction p"
    and "dp_bullish_btc_minimum_momentum_4h q = dp_bullish_btc_minimum_momentum_4h p"
    and "dp_bullish_btc_minimum_momentum_24h q = dp_bullish_btc_minimum_momentum_24h p"
    and "dp_bullish_market_breadth_minimum q = dp_bullish_market_breadth_minimum p"
    and "dp_bullish_market_breadth_minimum_candidates q = dp_bullish_market_breadth_minimum_candidates p"
    and "dp_maximum_daily_fee_fraction q = dp_maximum_daily_fee_fraction p"
    and "dp_maximum_daily_realized_loss_fraction q = dp_maximum_daily_realized_loss_fraction p"
    and "dp_scoring_method q = dp_scoring_method p"
    and "dp_score_scale q = dp_score_scale p"
    and "dp_momentum_1h_weight q = dp_momentum_1h_weight p"
    and "dp_momentum_4h_weight q = dp_momentum_4h_weight p"
    and "dp_momentum_24h_weight q = dp_momentum_24h_weight p"
    and "dp_volatility_weight q = dp_volatility_weight p"
    and "dp_minimum_entry_momentum_24h q = dp_minimum_entry_momentum_24h p"
    and "dp_maximum_entry_momentum_24h q = dp_maximum_entry_momentum_24h p"
    and "dp_minimum_hold_momentum_1h q = dp_minimum_hold_momentum_1h p"
    and "dp_minimum_hold_momentum_24h q = dp_minimum_hold_momentum_24h p"
    and "dp_maximum_hold_volatility q = dp_maximum_hold_volatility p"
    and "dp_maximum_holding_period q = dp_maximum_holding_period p"
    and "dp_excluded_base_assets q = dp_excluded_base_assets p"
    and "dp_maximum_market_data_age q = dp_maximum_market_data_age p"
    and "dp_extreme_score_penalty_threshold q = dp_extreme_score_penalty_threshold p"
    and "dp_extreme_score_maximum_penalty q = dp_extreme_score_maximum_penalty p"
    and "dp_expected_return_calibration_mode q = dp_expected_return_calibration_mode p"
    and "dp_expected_return_1h_intercept q = dp_expected_return_1h_intercept p"
    and "dp_expected_return_1h_score_slope q = dp_expected_return_1h_score_slope p"
    and "dp_expected_return_4h_intercept q = dp_expected_return_4h_intercept p"
    and "dp_expected_return_4h_score_slope q = dp_expected_return_4h_score_slope p"
    and "dp_minimum_fee_adjusted_entry_return q = dp_minimum_fee_adjusted_entry_return p"
    and "dp_minimum_expected_hold_return q = dp_minimum_expected_hold_return p"
    and "dp_minimum_fee_adjusted_replacement_advantage q = dp_minimum_fee_adjusted_replacement_advantage p"
    and "dp_selection_concentration_lookback q = dp_selection_concentration_lookback p"
    and "dp_selection_concentration_minimum_cohorts q = dp_selection_concentration_minimum_cohorts p"
    and "dp_rolling_asset_performance_lookback q = dp_rolling_asset_performance_lookback p"
    and "dp_rolling_asset_minimum_sells q = dp_rolling_asset_minimum_sells p"
    and "dp_maximum_rolling_asset_realized_loss_fraction q = dp_maximum_rolling_asset_realized_loss_fraction p"
    and "dp_derivatives_overlay_mode q = dp_derivatives_overlay_mode p"
    and "dp_derivatives_feature_version q = dp_derivatives_feature_version p"
    and "dp_derivatives_maximum_age q = dp_derivatives_maximum_age p"
    and "dp_derivatives_minimum_funding_rate q = dp_derivatives_minimum_funding_rate p"
    and "dp_derivatives_minimum_basis_input_rate q = dp_derivatives_minimum_basis_input_rate p"
    and "dp_derivatives_minimum_global_long_short_ratio q = dp_derivatives_minimum_global_long_short_ratio p"
    and "dp_crowding_overlay_mode q = dp_crowding_overlay_mode p"
    and "dp_crowding_feature_version q = dp_crowding_feature_version p"
    and "dp_crowding_maximum_age q = dp_crowding_maximum_age p"
    and "dp_crowding_maximum_long_score q = dp_crowding_maximum_long_score p"
    and "dp_crowding_maximum_bearish_unwind_score q = dp_crowding_maximum_bearish_unwind_score p"
    and "dp_maximum_entry_market_data_age q = dp_maximum_entry_market_data_age p"
  by (simp_all add: q_def entry_fields_reset_def)


definition published_limits :: "universe_policy \<Rightarrow> bool" where
  "published_limits p =
     ((dp_maximum_positions p, dp_maximum_asset_weight p, dp_invested_fraction p) \<in> {(3, 4 / 10, 9 / 10), (2, 25 / 100, 50 / 100)}
      \<and> dp_minimum_order_notional p = 5000 \<and> dp_minimum_rebalance_fraction p = 2 / 100
      \<and> dp_maximum_candidates p = 20)"

lemma published_limits_update:
  "published_limits p \<Longrightarrow> dp_maximum_positions q = dp_maximum_positions p \<Longrightarrow>
   dp_maximum_asset_weight q = dp_maximum_asset_weight p \<Longrightarrow> dp_invested_fraction q = dp_invested_fraction p \<Longrightarrow>
   dp_minimum_order_notional q = dp_minimum_order_notional p \<Longrightarrow>
   dp_minimum_rebalance_fraction q = dp_minimum_rebalance_fraction p \<Longrightarrow>
   dp_maximum_candidates q = dp_maximum_candidates p \<Longrightarrow> published_limits q"
  by (simp add: published_limits_def)

lemma published_limits_v22: "published_limits policy_v22"
  by (simp add: published_limits_def policy_v22_def policy_v21_def)

lemma published_limits_v27: "published_limits policy_v27_accuracy"
  by (rule published_limits_update [OF published_limits_v22]; simp add: policy_v27_accuracy_def policy_v27_def
      policy_v26_def policy_v25_def policy_v24_def policy_v23_def)

lemma policy_limits:
  assumes "dynamic_policy_for_version v = Inr p"
  shows "published_limits p"
proof -
  have "v \<in> set published_versions" using unpublished [of v] assms by (cases "v \<in> set published_versions") auto
  then consider
      "v \<in> set [''dynamic-intraday-v2.1'', ''dynamic-intraday-v2.2'', ''dynamic-intraday-v2.3'', ''dynamic-intraday-v2.4'',
      ''dynamic-intraday-v2.5'', ''dynamic-intraday-v2.6'', ''dynamic-intraday-v2.7'',
      ''dynamic-intraday-v2.7-accuracy-v1'']" | "v \<in> set v28_versions" | "v \<in> set v29_versions"
    unfolding published_cases by blast
  then show ?thesis
  proof cases
    case 1
    then show ?thesis using assms unfolding set_simps
      by (elim insertE emptyE)
        (auto simp: dynamic_policy_for_version_def policy_v21_def policy_v22_def policy_v23_def policy_v24_def policy_v25_def
          policy_v26_def policy_v27_def policy_v27_accuracy_def published_limits_def)
  next
    case 2
    then have "p = policy_v28 v" using assms v28_lookup by simp
    then show ?thesis
      using published_limits_v27
      by (auto simp: policy_v28_def policy_v28_control_def policy_v28_variant_def Let_def published_limits_def)
  next
    case 3
    then have "entry_fields_reset policy_v28_control p = policy_v28_control" using assms by (rule v29_reset)
    moreover have "published_limits policy_v28_control"
      using published_limits_v27 by (simp add: policy_v28_control_def published_limits_def)
    ultimately show ?thesis
      using published_limits_update [of "entry_fields_reset policy_v28_control p" p] reset_fields [of policy_v28_control p]
      by simp
  qed
qed


section \<open>Properties\<close>

text \<open>The published versions are exactly the sixteen names; each name gives the profile that carries it, and any other name raises.\<close>

lemma policy_for_version:
  "(v \<in> set published_versions \<longleftrightarrow> is_ok (dynamic_policy_for_version v))
   \<and> (dynamic_policy_for_version v = Inr p \<longrightarrow> dp_strategy_version p = v)
   \<and> (v \<notin> set published_versions \<longrightarrow>
       dynamic_policy_for_version v = Inl (ValueError (''unsupported dynamic strategy version: '' @ v)))"
proof (cases "v \<in> set published_versions")
  case True
  then show ?thesis using published_found [OF True] by (auto simp: is_ok_iff)
next
  case False
  then show ?thesis by (simp add: unpublished)
qed

end
