(* ===== verification/Assess.thy ===== *)
theory Assess
  imports Domain Policy
begin

text \<open>
  How \<^verbatim>\<open>DynamicPaperRebalanceService\<close> turns a universe snapshot into scored candidates
  (\<^verbatim>\<open>_assess\<close>, \<^verbatim>\<open>_score_assessments\<close>, \<^verbatim>\<open>_with_score_evidence\<close>, \<^verbatim>\<open>_percentile_ranks\<close>).

  The market-data port is the argument \<open>fetch\<close>: universe, start and end to a bundle or an
  exception.  The volatility of a price series, \<^verbatim>\<open>np.std(np.diff(np.log(closes)), ddof=1)\<close>, is
  computed by \<^verbatim>\<open>numpy\<close>, which is not part of the program: it is the argument \<open>log_std\<close>.
\<close>

section \<open>Candidates\<close>

record candidate =
  ca_pair :: string
  ca_eligible :: bool
  ca_reason :: string
  ca_score :: "pyfloat option"
  ca_average_quote_volume :: "decimal option"
  ca_latest_price :: "decimal option"
  ca_momentum_1h :: "pyfloat option"
  ca_momentum_4h :: "pyfloat option"
  ca_momentum_24h :: "pyfloat option"
  ca_volatility :: "pyfloat option"
  ca_reference_at :: "utc option"
  ca_raw_score :: "pyfloat option"
  ca_score_penalty :: "pyfloat option"
  ca_expected_relative_return_1h :: "pyfloat option"
  ca_expected_relative_return_4h :: "pyfloat option"
  ca_fee_adjusted_expected_return :: "pyfloat option"
  ca_decision_reasons :: "string list"
  ca_reference_age_seconds :: "pyfloat option"
  ca_candidate_confirmation_count :: int
  ca_entry_signal_eligible :: bool
  ca_entry_eligible_confirmation_count :: int

definition rejected :: "string \<Rightarrow> string \<Rightarrow> candidate" where
  "rejected pair reason =
     \<lparr>ca_pair = pair, ca_eligible = False, ca_reason = reason, ca_score = None,
      ca_average_quote_volume = None, ca_latest_price = None, ca_momentum_1h = None,
      ca_momentum_4h = None, ca_momentum_24h = None, ca_volatility = None,
      ca_reference_at = None, ca_raw_score = None, ca_score_penalty = None,
      ca_expected_relative_return_1h = None, ca_expected_relative_return_4h = None,
      ca_fee_adjusted_expected_return = None, ca_decision_reasons = [],
      ca_reference_age_seconds = None, ca_candidate_confirmation_count = 0,
      ca_entry_signal_eligible = False, ca_entry_eligible_confirmation_count = 0\<rparr>"

section \<open>Assessing one market\<close>

text \<open>
  The age limit of a market: held markets use the valuation limit, others the entry limit
  if it is set (a zero duration is false in Python and does not count as set).
\<close>

definition maximum_age :: "universe_policy \<Rightarrow> bool \<Rightarrow> timedelta option" where
  "maximum_age p held =
     (if held then dp_maximum_market_data_age p
      else case dp_maximum_entry_market_data_age p of
             Some d \<Rightarrow> if d \<noteq> 0 then Some d else dp_maximum_market_data_age p
           | None \<Rightarrow> dp_maximum_market_data_age p)"

definition is_stale :: "timedelta option \<Rightarrow> utc \<Rightarrow> candle list \<Rightarrow> bool" where
  "is_stale limit as_of known =
     (case limit of
        None \<Rightarrow> False
      | Some d \<Rightarrow> known \<noteq> [] \<and> d < as_of - available_at (last known))"

definition last_close :: "candle list \<Rightarrow> decimal option" where
  "last_close known = (if known = [] then None else Some (close_price (last known)))"

definition last_available :: "candle list \<Rightarrow> utc option" where
  "last_available known = (if known = [] then None else Some (available_at (last known)))"

definition momentum :: "nat \<Rightarrow> pyfloat list \<Rightarrow> pyfloat result" where
  "momentum k closes =
     bind_result (from_end 1 closes) (\<lambda>now.
     bind_result (from_end k closes) (\<lambda>before.
       Inr (fsub (fquot now before) 1)))"

definition average_liquidity :: "universe_policy \<Rightarrow> candle list \<Rightarrow> decimal result" where
  "average_liquidity p known =
     (let window = py_last (dp_liquidity_lookback_bars p) known
      in ddiv (dsum 0 (map (\<lambda>c. dmul (close_price c) (volume c)) window)) (of_nat (length window)))"

definition raw_momentum_score ::
    "universe_policy \<Rightarrow> pyfloat \<Rightarrow> pyfloat \<Rightarrow> pyfloat \<Rightarrow> pyfloat \<Rightarrow> pyfloat" where
  "raw_momentum_score p m1 m4 m24 vol =
     fadd (fadd (fadd (fmul (dp_momentum_1h_weight p) m1) (fmul (dp_momentum_4h_weight p) m4))
                (fmul (dp_momentum_24h_weight p) m24))
          (fmul (dp_volatility_weight p) vol)"

definition eligible_candidate ::
    "universe_policy \<Rightarrow> (pyfloat list \<Rightarrow> pyfloat) \<Rightarrow> utc \<Rightarrow> string \<Rightarrow> candle list \<Rightarrow> candidate result"
where
  "eligible_candidate p log_std as_of symbol known =
     bind_result (average_liquidity p known) (\<lambda>liquidity.
     (let closes = map (\<lambda>c. flt (close_price c)) known
      in bind_result (momentum 5 closes) (\<lambda>m1.
         bind_result (momentum 17 closes) (\<lambda>m4.
         bind_result (momentum 97 closes) (\<lambda>m24.
         (let vol = log_std (py_last 97 closes);
              score = (if dp_scoring_method p = ''RAW_MOMENTUM''
                       then Some (raw_momentum_score p m1 m4 m24 vol) else None)
          in Inr ((rejected symbol ''ELIGIBLE'')
               \<lparr>ca_eligible := True, ca_score := score,
                ca_average_quote_volume := Some liquidity,
                ca_latest_price := last_close known,
                ca_momentum_1h := Some m1, ca_momentum_4h := Some m4,
                ca_momentum_24h := Some m24, ca_volatility := Some vol,
                ca_reference_at := last_available known,
                ca_reference_age_seconds :=
                  map_option (\<lambda>a. total_seconds (as_of - a)) (last_available known)\<rparr>)))))))"

text \<open>What one member of the snapshot adds: at most one candidate and at most one series.\<close>

type_synonym assessed = "candidate option \<times> (string \<times> candle list) option"
type_synonym fetch = "trading_universe \<Rightarrow> utc \<Rightarrow> utc \<Rightarrow> market_data_bundle result"

definition with_reference :: "candle list \<Rightarrow> candidate \<Rightarrow> candidate" where
  "with_reference known c =
     c\<lparr>ca_latest_price := last_close known, ca_reference_at := last_available known\<rparr>"

definition assess_known ::
    "universe_policy \<Rightarrow> (pyfloat list \<Rightarrow> pyfloat) \<Rightarrow> utc \<Rightarrow> bool \<Rightarrow> universe_member \<Rightarrow> candle list
     \<Rightarrow> assessed result" where
  "assess_known p log_std as_of held m known =
     (let symbol = pair_symbol (member_pair m)
      in if is_stale (maximum_age p held) as_of known
         then (if held
               then Inl (ValueError (''cannot value held asset '' @ symbol @
                           '' with stale 15m market data''))
               else Inr (Some ((rejected symbol ''STALE_MARKET_DATA'')
                      \<lparr>ca_reference_at := last_available known,
                       ca_reference_age_seconds :=
                         map_option (\<lambda>a. total_seconds (as_of - a)) (last_available known)\<rparr>), None))
         else if member_warning m
         then Inr (Some (with_reference known (rejected symbol ''MARKET_WARNING'')),
                   if known = [] then None else Some (symbol, known))
         else if int (length known) < dp_minimum_history_bars p
         then Inr (Some (with_reference known (rejected symbol ''INSUFFICIENT_HISTORY'')), None)
         else bind_result (eligible_candidate p log_std as_of symbol known) (\<lambda>c.
                Inr (Some c, Some (symbol, known))))"

definition assess_member ::
    "universe_policy \<Rightarrow> fetch \<Rightarrow> (pyfloat list \<Rightarrow> pyfloat) \<Rightarrow> utc \<Rightarrow> utc \<Rightarrow> string set \<Rightarrow> universe_member
     \<Rightarrow> assessed result" where
  "assess_member p fetch log_std start as_of held_pairs m =
     (let pair = member_pair m; symbol = pair_symbol pair; held = (symbol \<in> held_pairs)
      in if asset_symbol (pair_quote pair) \<noteq> ''KRW'' then Inr (None, None)
         else if asset_symbol (pair_base pair) \<in> set (dp_excluded_base_assets p) \<and> \<not> held
         then Inr (Some (rejected symbol ''DIRECTIONAL_ASSET_EXCLUDED''), None)
         else if member_warning m \<and> \<not> held
         then Inr (Some (rejected symbol ''MARKET_WARNING''), None)
         else bind_result (mk_trading_universe [pair]) (\<lambda>u.
           case fetch u start as_of of
             Inl (FileNotFoundError _) \<Rightarrow> Inr (Some (rejected symbol ''DATA_UNAVAILABLE''), None)
           | Inl e \<Rightarrow> Inl e
           | Inr b \<Rightarrow>
               bind_result (candles_of symbol b) (\<lambda>vs.
                 assess_known p log_std as_of held m
                   (visible_candles as_of vs))))"

section \<open>Scores\<close>

function rank_groups ::
    "(candidate \<Rightarrow> pyfloat) \<Rightarrow> nat \<Rightarrow> nat \<Rightarrow> candidate list \<Rightarrow> (string \<times> pyfloat) list" where
  "rank_groups f n start [] = []"
| "rank_groups f n start (x # xs) =
     (let same = x # takeWhile (\<lambda>y. f y = f x) xs;
          stop = start + length same;
          average_index = fquot (of_nat (start + stop - 1)) 2;
          rank = fquot average_index (of_nat (n - 1))
      in map (\<lambda>y. (ca_pair y, rank)) same @ rank_groups f n stop (dropWhile (\<lambda>y. f y = f x) xs))"
  by pat_completeness auto
termination
  by (relation "measure (\<lambda>(f, n, start, xs). length xs)") (auto simp: le_imp_less_Suc length_dropWhile_le)

definition percentile_ranks ::
    "(candidate \<Rightarrow> pyfloat) \<Rightarrow> candidate list \<Rightarrow> (string \<times> pyfloat) list" where
  "percentile_ranks f values =
     (let ordered = sort_on (\<lambda>c. (f c, ca_pair c)) values
      in case ordered of
           [x] \<Rightarrow> [(ca_pair x, 1 / 2)]
         | _ \<Rightarrow> rank_groups f (length ordered) 0 ordered)"

definition rank_of :: "(string \<times> pyfloat) list \<Rightarrow> string \<Rightarrow> pyfloat option" where
  "rank_of ranks pair = map_of (rev ranks) pair"

definition expected_relative_returns ::
    "universe_policy \<Rightarrow> pyfloat \<Rightarrow> (pyfloat option \<times> pyfloat option) result" where
  "expected_relative_returns p score =
     (if dp_expected_return_calibration_mode p = ''DISABLED'' then Inr (None, None)
      else if dp_expected_return_calibration_mode p \<noteq> ''SCORE_LINEAR''
      then Inl (ValueError (''unsupported expected-return calibration mode: '' @
                            dp_expected_return_calibration_mode p))
      else Inr (Some (fadd (dp_expected_return_1h_intercept p)
                           (fmul (dp_expected_return_1h_score_slope p) score)),
                Some (fadd (dp_expected_return_4h_intercept p)
                           (fmul (dp_expected_return_4h_score_slope p) score))))"

text \<open>The quadratic penalty of a score above the threshold, and the penalised score.\<close>

definition penalised_score :: "universe_policy \<Rightarrow> pyfloat \<Rightarrow> (pyfloat \<times> pyfloat) result" where
  "penalised_score p raw_score =
     (case dp_extreme_score_penalty_threshold p of
        None \<Rightarrow> Inr (raw_score, 0)
      | Some threshold \<Rightarrow>
          if threshold < raw_score
          then bind_result (fdiv (fsub raw_score threshold) (fsub 1 threshold)) (\<lambda>q.
            (let excess = min 1 q;
                 penalty = fmul (dp_extreme_score_maximum_penalty p) (fmul excess excess)
             in Inr (max 0 (fsub raw_score penalty), penalty)))
          else Inr (raw_score, 0))"

definition with_score_evidence ::
    "universe_policy \<Rightarrow> candidate \<Rightarrow> pyfloat option \<Rightarrow> candidate result" where
  "with_score_evidence p item raw =
     (case raw of
        None \<Rightarrow> Inr (item\<lparr>ca_score := None, ca_raw_score := None, ca_score_penalty := None\<rparr>)
      | Some raw_score \<Rightarrow>
          bind_result (penalised_score p raw_score) (\<lambda>(score, penalty).
          bind_result (expected_relative_returns p score) (\<lambda>(e1, e4).
            Inr (item\<lparr>ca_score := Some score, ca_raw_score := Some raw_score,
                      ca_score_penalty := Some penalty,
                      ca_expected_relative_return_1h := e1,
                      ca_expected_relative_return_4h := e4,
                      ca_fee_adjusted_expected_return :=
                        (case (e1, e4) of
                           (Some a, Some b) \<Rightarrow> Some (fsub (min a b) (round_trip_cost_hurdle p))
                         | _ \<Rightarrow> None)\<rparr>))))"

text \<open>The most liquid candidates, the cross-section every rank is taken over.\<close>

definition liquidity_key :: "candidate \<Rightarrow> rat \<times> string" where
  "liquidity_key c =
     (dneg (case ca_average_quote_volume c of None \<Rightarrow> 0 | Some v \<Rightarrow> v), ca_pair c)"

definition most_liquid :: "universe_policy \<Rightarrow> candidate list \<Rightarrow> candidate list" where
  "most_liquid p cs = py_take (dp_maximum_candidates p) (sort_on liquidity_key cs)"

definition has_features :: "candidate \<Rightarrow> bool" where
  "has_features c =
     (ca_momentum_1h c \<noteq> None \<and> ca_momentum_4h c \<noteq> None \<and> ca_momentum_24h c \<noteq> None
      \<and> ca_volatility c \<noteq> None)"

definition opt_val :: "rat option \<Rightarrow> rat" where
  "opt_val x = (case x of None \<Rightarrow> 0 | Some v \<Rightarrow> v)"

text \<open>The weighted sum of the four inverted percentile ranks of a candidate.\<close>

definition calm_pullback_score :: "universe_policy \<Rightarrow> candidate list \<Rightarrow> string \<Rightarrow> pyfloat" where
  "calm_pullback_score p liquid pair =
     (let inverted = (\<lambda>f. fsub 1 (opt_val (rank_of (percentile_ranks (\<lambda>c. opt_val (f c)) liquid) pair)))
      in fadd (fadd (fadd (fmul (dp_momentum_1h_weight p) (inverted ca_momentum_1h))
                          (fmul (dp_momentum_4h_weight p) (inverted ca_momentum_4h)))
                    (fmul (dp_momentum_24h_weight p) (inverted ca_momentum_24h)))
              (fmul (dp_volatility_weight p) (inverted ca_volatility)))"

definition score_assessments :: "universe_policy \<Rightarrow> candidate list \<Rightarrow> candidate list result" where
  "score_assessments p assessments =
     (if dp_scoring_method p = ''RAW_MOMENTUM''
      then map_result (\<lambda>c. with_score_evidence p c (ca_score c)) assessments
      else if dp_scoring_method p \<noteq> ''CALM_PULLBACK_RANK''
      then Inl (ValueError (''unsupported scoring method: '' @ dp_scoring_method p))
      else let liquid = most_liquid p (filter (\<lambda>c. ca_eligible c \<and> has_features c) assessments)
           in if liquid = [] then Inr assessments
              else map_result (\<lambda>c. with_score_evidence p c
                     (if ca_pair c \<in> ca_pair ` set liquid
                      then Some (calm_pullback_score p liquid (ca_pair c)) else None)) assessments)"

section \<open>Assessing a snapshot\<close>

definition assess_start :: "universe_policy \<Rightarrow> utc \<Rightarrow> utc" where
  "assess_start p as_of =
     min (as_of - minutes (15 * (dp_minimum_history_bars p + 8))) (as_of - days 10)"

definition assess ::
    "universe_policy \<Rightarrow> fetch \<Rightarrow> (pyfloat list \<Rightarrow> pyfloat) \<Rightarrow> universe_snapshot \<Rightarrow> utc \<Rightarrow> string set
     \<Rightarrow> (candidate list \<times> (string \<rightharpoonup> candle list)) result" where
  "assess p fetch log_std snapshot as_of held_pairs =
     bind_result
       (map_result (assess_member p fetch log_std (assess_start p as_of) as_of held_pairs)
         (snapshot_members snapshot)) (\<lambda>rs.
     bind_result (score_assessments p (List.map_filter fst rs)) (\<lambda>cs.
       Inr (cs, map_of (rev (List.map_filter snd rs)))))"

end
