(* ===== verification/Derivatives.thy ===== *)
theory Derivatives
  imports Domain
begin

text \<open>
  The point-in-time models of \<^verbatim>\<open>crypto/derivatives/domain.py\<close>: liquidation events, stream statuses,
  derivatives snapshots, squeeze and crowding signals, and the overlay a strategy decision may
  consult.  All times are aware, so \<^const>\<open>require_utc\<close> is the identity on them.
  The enumerations carry a prefix where the source uses one name in several classes;
  \<open>..._value\<close> gives the text of a member.
\<close>

section \<open>Enumerations\<close>

datatype squeeze_state = SQ_INSUFFICIENT_DATA | SQ_NONE | SQ_FUEL | SQ_IGNITION | SQ_ACTIVE

fun squeeze_state_value :: "squeeze_state \<Rightarrow> string" where
  "squeeze_state_value SQ_INSUFFICIENT_DATA = ''INSUFFICIENT_DATA''"
| "squeeze_state_value SQ_NONE = ''NONE''"
| "squeeze_state_value SQ_FUEL = ''FUEL''"
| "squeeze_state_value SQ_IGNITION = ''IGNITION''"
| "squeeze_state_value SQ_ACTIVE = ''ACTIVE''"

datatype liquidated_position = LIQUIDATED_LONG | LIQUIDATED_SHORT

fun liquidated_position_value :: "liquidated_position \<Rightarrow> string" where
  "liquidated_position_value LIQUIDATED_LONG = ''LONG''"
| "liquidated_position_value LIQUIDATED_SHORT = ''SHORT''"

datatype stream_state = CONNECTED | DISCONNECTED | STREAM_STALE

datatype overlay_availability = AVAILABLE | MISSING | STALE | INCOMPLETE

fun availability_value :: "overlay_availability \<Rightarrow> string" where
  "availability_value AVAILABLE = ''AVAILABLE''"
| "availability_value MISSING = ''MISSING''"
| "availability_value STALE = ''STALE''"
| "availability_value INCOMPLETE = ''INCOMPLETE''"

datatype overlay_recommendation =
  UNKNOWN | NO_CONFIRMATION | WAIT_FOR_IGNITION | CONFIRM_RISK_ON

fun recommendation_value :: "overlay_recommendation \<Rightarrow> string" where
  "recommendation_value UNKNOWN = ''UNKNOWN''"
| "recommendation_value NO_CONFIRMATION = ''NO_CONFIRMATION''"
| "recommendation_value WAIT_FOR_IGNITION = ''WAIT_FOR_IGNITION''"
| "recommendation_value CONFIRM_RISK_ON = ''CONFIRM_RISK_ON''"

datatype basis_source = OFFICIAL | MARK_INDEX_PROXY

fun basis_source_value :: "basis_source \<Rightarrow> string" where
  "basis_source_value OFFICIAL = ''OFFICIAL''"
| "basis_source_value MARK_INDEX_PROXY = ''MARK_INDEX_PROXY''"

datatype crowding_side = SIDE_NONE | SIDE_LONG | SIDE_SHORT

fun crowding_side_value :: "crowding_side \<Rightarrow> string" where
  "crowding_side_value SIDE_NONE = ''NONE''"
| "crowding_side_value SIDE_LONG = ''LONG''"
| "crowding_side_value SIDE_SHORT = ''SHORT''"

datatype crowding_state =
  CS_INSUFFICIENT_DATA | CS_NEUTRAL | LONG_CROWDED | SHORT_CROWDED | LONG_UNWIND | SHORT_UNWIND

fun crowding_state_value :: "crowding_state \<Rightarrow> string" where
  "crowding_state_value CS_INSUFFICIENT_DATA = ''INSUFFICIENT_DATA''"
| "crowding_state_value CS_NEUTRAL = ''NEUTRAL''"
| "crowding_state_value LONG_CROWDED = ''LONG_CROWDED''"
| "crowding_state_value SHORT_CROWDED = ''SHORT_CROWDED''"
| "crowding_state_value LONG_UNWIND = ''LONG_UNWIND''"
| "crowding_state_value SHORT_UNWIND = ''SHORT_UNWIND''"

section \<open>Events and statuses\<close>

record liquidation_event =
  le_symbol :: string
  le_event_time :: utc
  le_trade_time :: utc
  le_position :: liquidated_position
  le_price :: decimal
  le_quantity :: decimal
  le_source :: string

definition check_liquidation_event :: "liquidation_event \<Rightarrow> liquidation_event result" where
  "check_liquidation_event e =
     (let e' = e\<lparr>le_symbol := py_upper (py_strip (le_symbol e))\<rparr>
      in if le_symbol e' = [] \<or> le_price e \<le> 0 \<or> le_quantity e \<le> 0
         then Inl (ValueError ''liquidation identity, price, and quantity are required'')
         else Inr e')"

definition notional_usd :: "liquidation_event \<Rightarrow> decimal" where
  "notional_usd e = dmul (le_price e) (le_quantity e)"

definition liquidation_event_id :: "digest \<Rightarrow> liquidation_event \<Rightarrow> string" where
  "liquidation_event_id sha256 e =
     sha256 (JList [JStr (le_source e), JStr (le_symbol e), JTime (le_event_time e),
       JTime (le_trade_time e), JStr (liquidated_position_value (le_position e)),
       JDec (le_price e), JDec (le_quantity e)])"

record coinbase_price_observation =
  cp_product_id :: string
  cp_observed_at :: utc
  cp_price_usd :: decimal
  cp_source_sequence :: int
  cp_source :: string

definition check_coinbase_price :: "coinbase_price_observation \<Rightarrow> coinbase_price_observation result"
where
  "check_coinbase_price c =
     (let c' = c\<lparr>cp_product_id := py_upper (py_strip (cp_product_id c))\<rparr>
      in if cp_product_id c' = [] \<or> cp_price_usd c \<le> 0 \<or> cp_source_sequence c < 0
         then Inl (ValueError ''Coinbase price identity, value, and sequence are required'')
         else Inr c')"

definition coinbase_observation_id :: "digest \<Rightarrow> coinbase_price_observation \<Rightarrow> string" where
  "coinbase_observation_id sha256 c =
     sha256 (JList [JStr (cp_source c), JStr (cp_product_id c), JTime (cp_observed_at c),
       JDec (cp_price_usd c), JInt (cp_source_sequence c)])"

record market_stream_status =
  ms_stream_name :: string
  ms_state :: stream_state
  ms_updated_at :: utc
  ms_connected_since :: "utc option"
  ms_last_message_at :: "utc option"
  ms_last_error :: "string option"

section \<open>Snapshots\<close>

record derivatives_snapshot =
  sn_symbol :: string
  sn_observed_at :: utc
  sn_available_at :: utc
  sn_mark_price :: decimal
  sn_index_price :: decimal
  sn_open_interest_usd :: decimal
  sn_funding_rate :: decimal
  sn_basis_rate :: "decimal option"
  sn_global_long_short_ratio :: decimal
  sn_top_position_long_short_ratio :: decimal
  sn_taker_buy_sell_ratio :: decimal
  sn_coinbase_price_usd :: "decimal option"
  sn_coinbase_premium_rate :: "decimal option"
  sn_coinbase_observed_at :: "utc option"
  sn_missing_fields :: "string set"
  sn_source :: string

definition snapshot_missing_fields :: "derivatives_snapshot \<Rightarrow> string set" where
  "snapshot_missing_fields s =
     sn_missing_fields s
     \<union> (if sn_basis_rate s = None then {''basis_rate''} else {})
     \<union> (if sn_coinbase_premium_rate s = None then {''coinbase_premium_rate''} else {})"

definition check_snapshot :: "derivatives_snapshot \<Rightarrow> derivatives_snapshot result" where
  "check_snapshot s =
     (let symbol = py_upper (py_strip (sn_symbol s));
          unknown = sn_missing_fields s - {''basis_rate'', ''coinbase_premium_rate''}
      in if symbol = [] \<or> \<not> py_isalnum symbol
         then Inl (ValueError ''derivatives symbol must be alphanumeric'')
         else if sn_available_at s < sn_observed_at s
         then Inl (ValueError ''derivatives data cannot be available before it was observed'')
         else if Min (set [sn_mark_price s, sn_index_price s, sn_open_interest_usd s,
                     sn_global_long_short_ratio s, sn_top_position_long_short_ratio s,
                     sn_taker_buy_sell_ratio s]) \<le> 0
         then Inl (ValueError ''prices, interest, and ratios must be positive'')
         else if py_strip (sn_source s) = []
         then Inl (ValueError ''derivatives source is required'')
         else if (sn_coinbase_price_usd s = None) \<noteq> (sn_coinbase_premium_rate s = None)
         then Inl (ValueError ''Coinbase price and premium must be available together'')
         else if (case sn_coinbase_price_usd s of None \<Rightarrow> False | Some p \<Rightarrow> p \<le> 0)
         then Inl (ValueError ''Coinbase price must be positive'')
         else if (sn_coinbase_price_usd s = None) \<noteq> (sn_coinbase_observed_at s = None)
         then Inl (ValueError ''Coinbase observation time must match its price'')
         else if unknown \<noteq> {}
         then Inl (ValueError (''unknown derivatives missing fields: '' @
                list_repr (sorted_list_of_set unknown)))
         else if sn_basis_rate s \<noteq> None \<and> ''basis_rate'' \<in> sn_missing_fields s
         then Inl (ValueError ''basis_rate cannot be both available and missing'')
         else if sn_coinbase_premium_rate s \<noteq> None
                 \<and> ''coinbase_premium_rate'' \<in> sn_missing_fields s
         then Inl (ValueError ''coinbase_premium_rate cannot be both available and missing'')
         else Inr (s\<lparr>sn_symbol := symbol, sn_missing_fields := snapshot_missing_fields s\<rparr>))"

definition mark_index_basis_rate :: "derivatives_snapshot \<Rightarrow> decimal result" where
  "mark_index_basis_rate s =
     bind_result (ddiv (sn_mark_price s) (sn_index_price s)) (\<lambda>q. Inr (dsub q 1))"

definition snapshot_id :: "digest \<Rightarrow> derivatives_snapshot \<Rightarrow> string" where
  "snapshot_id sha256 s =
     sha256 (JObj
       [(''availableAt'', JTime (sn_available_at s)),
        (''basisRate'', json_opt JDec (sn_basis_rate s)),
        (''coinbaseObservedAt'', json_opt JTime (sn_coinbase_observed_at s)),
        (''coinbasePremiumRate'', json_opt JDec (sn_coinbase_premium_rate s)),
        (''coinbasePriceUsd'', json_opt JDec (sn_coinbase_price_usd s)),
        (''fundingRate'', JDec (sn_funding_rate s)),
        (''globalLongShortRatio'', JDec (sn_global_long_short_ratio s)),
        (''indexPrice'', JDec (sn_index_price s)),
        (''markPrice'', JDec (sn_mark_price s)),
        (''missingFields'', JList (map JStr (sorted_list_of_set (sn_missing_fields s)))),
        (''observedAt'', JTime (sn_observed_at s)),
        (''openInterestUsd'', JDec (sn_open_interest_usd s)),
        (''source'', JStr (sn_source s)),
        (''symbol'', JStr (sn_symbol s)),
        (''takerBuySellRatio'', JDec (sn_taker_buy_sell_ratio s)),
        (''topPositionLongShortRatio'', JDec (sn_top_position_long_short_ratio s))])"

section \<open>Signals\<close>

definition outside_unit :: "pyfloat option \<Rightarrow> bool" where
  "outside_unit x = (case x of None \<Rightarrow> False | Some v \<Rightarrow> \<not> (0 \<le> v \<and> v \<le> 1))"

record squeeze_signal =
  sq_snapshot_id :: string
  sq_symbol :: string
  sq_as_of :: utc
  sq_state :: squeeze_state
  sq_fuel_score :: "pyfloat option"
  sq_ignition_score :: "pyfloat option"
  sq_open_interest_change_15m :: "pyfloat option"
  sq_open_interest_change_1h :: "pyfloat option"
  sq_futures_price_change_15m :: "pyfloat option"
  sq_futures_price_change_1h :: "pyfloat option"
  sq_spot_return_15m :: "pyfloat option"
  sq_spot_volume_ratio :: "pyfloat option"
  sq_spot_breakout :: "bool option"
  sq_short_liquidation_usd_15m :: "pyfloat option"
  sq_liquidation_confirmed :: bool
  sq_evidence :: "string list"
  sq_basis_input_rate :: "decimal option"
  sq_basis_input_source :: "basis_source option"
  sq_feature_version :: string

definition check_squeeze_signal :: "squeeze_signal \<Rightarrow> squeeze_signal result" where
  "check_squeeze_signal s =
     (if sq_snapshot_id s = [] \<or> sq_symbol s = [] \<or> sq_feature_version s = []
      then Inl (ValueError ''signal identity fields are required'')
      else if outside_unit (sq_fuel_score s)
      then Inl (ValueError ''fuel_score must be in [0, 1]'')
      else if outside_unit (sq_ignition_score s)
      then Inl (ValueError ''ignition_score must be in [0, 1]'')
      else if sq_liquidation_confirmed s \<and> sq_short_liquidation_usd_15m s = None
      then Inl (ValueError ''confirmed liquidation requires observed liquidation notional'')
      else if (sq_basis_input_rate s = None) \<noteq> (sq_basis_input_source s = None)
      then Inl (ValueError ''basis input rate and source must be available together'')
      else Inr s)"

record crowding_signal =
  cr_snapshot_id :: string
  cr_symbol :: string
  cr_as_of :: utc
  cr_state :: crowding_state
  cr_dominant_side :: crowding_side
  cr_long_crowding_score :: "pyfloat option"
  cr_short_crowding_score :: "pyfloat option"
  cr_crowding_intensity :: "pyfloat option"
  cr_bullish_unwind_score :: "pyfloat option"
  cr_bearish_unwind_score :: "pyfloat option"
  cr_confidence :: pyfloat
  cr_long_liquidation_usd_15m :: "pyfloat option"
  cr_short_liquidation_usd_15m :: "pyfloat option"
  cr_liquidation_confirmed :: bool
  cr_evidence :: "string list"
  cr_feature_version :: string

definition check_crowding_signal :: "crowding_signal \<Rightarrow> crowding_signal result" where
  "check_crowding_signal s0 =
     (let s = s0\<lparr>cr_symbol := py_upper (py_strip (cr_symbol s0))\<rparr>;
          bad = find (\<lambda>(n, v). outside_unit v)
            [(''long_crowding_score'', cr_long_crowding_score s),
             (''short_crowding_score'', cr_short_crowding_score s),
             (''crowding_intensity'', cr_crowding_intensity s),
             (''bullish_unwind_score'', cr_bullish_unwind_score s),
             (''bearish_unwind_score'', cr_bearish_unwind_score s),
             (''confidence'', Some (cr_confidence s))]
      in if cr_snapshot_id s = [] \<or> cr_symbol s = [] \<or> cr_feature_version s = [] \<or> cr_evidence s = []
         then Inl (ValueError ''crowding signal identity and evidence are required'')
         else if bad \<noteq> None
         then Inl (ValueError ((case bad of None \<Rightarrow> [] | Some (n, _) \<Rightarrow> n) @ '' must be in [0, 1]''))
         else if list_ex (\<lambda>v. case v of None \<Rightarrow> False | Some x \<Rightarrow> x < 0)
                [cr_long_liquidation_usd_15m s, cr_short_liquidation_usd_15m s]
         then Inl (ValueError ''liquidation notionals must be finite and non-negative'')
         else if cr_liquidation_confirmed s
                 \<and> (cr_long_liquidation_usd_15m s = None \<or> cr_short_liquidation_usd_15m s = None)
         then Inl (ValueError ''confirmed coverage requires both liquidation notionals'')
         else if cr_state s = CS_INSUFFICIENT_DATA
         then (if cr_dominant_side s \<noteq> SIDE_NONE
               then Inl (ValueError ''insufficient crowding data cannot select a dominant side'')
               else Inr s)
         else if None \<in> set [cr_long_crowding_score s, cr_short_crowding_score s,
                    cr_crowding_intensity s, cr_bullish_unwind_score s, cr_bearish_unwind_score s]
         then Inl (ValueError ''complete crowding states require every score'')
         else Inr s)"

section \<open>The decision overlay\<close>

record decision_overlay =
  ov_decision_as_of :: utc
  ov_availability :: overlay_availability
  ov_recommendation :: overlay_recommendation
  ov_reason_codes :: "string list"
  ov_symbol :: string
  ov_snapshot_id :: "string option"
  ov_snapshot_available_at :: "utc option"
  ov_signal_as_of :: "utc option"
  ov_age_seconds :: "pyfloat option"
  ov_feature_version :: "string option"
  ov_state :: "squeeze_state option"
  ov_fuel_score :: "pyfloat option"
  ov_ignition_score :: "pyfloat option"
  ov_open_interest_change_15m :: "pyfloat option"
  ov_open_interest_change_1h :: "pyfloat option"
  ov_futures_price_change_15m :: "pyfloat option"
  ov_futures_price_change_1h :: "pyfloat option"
  ov_spot_return_15m :: "pyfloat option"
  ov_spot_volume_ratio :: "pyfloat option"
  ov_spot_breakout :: "bool option"
  ov_short_liquidation_usd_15m :: "pyfloat option"
  ov_liquidation_confirmed :: "bool option"
  ov_mark_price :: "decimal option"
  ov_index_price :: "decimal option"
  ov_open_interest_usd :: "decimal option"
  ov_funding_rate :: "decimal option"
  ov_basis_rate :: "decimal option"
  ov_mark_index_basis_rate :: "decimal option"
  ov_basis_input_rate :: "decimal option"
  ov_basis_input_source :: "basis_source option"
  ov_global_long_short_ratio :: "decimal option"
  ov_top_position_long_short_ratio :: "decimal option"
  ov_taker_buy_sell_ratio :: "decimal option"
  ov_coinbase_price_usd :: "decimal option"
  ov_coinbase_premium_rate :: "decimal option"
  ov_coinbase_observed_at :: "utc option"
  ov_missing_fields :: "string set"
  ov_crowding_availability :: "overlay_availability option"
  ov_crowding_snapshot_id :: "string option"
  ov_crowding_signal_as_of :: "utc option"
  ov_crowding_age_seconds :: "pyfloat option"
  ov_crowding_feature_version :: "string option"
  ov_crowding_state :: "crowding_state option"
  ov_crowding_dominant_side :: "crowding_side option"
  ov_long_crowding_score :: "pyfloat option"
  ov_short_crowding_score :: "pyfloat option"
  ov_crowding_intensity :: "pyfloat option"
  ov_bullish_unwind_score :: "pyfloat option"
  ov_bearish_unwind_score :: "pyfloat option"
  ov_crowding_confidence :: "pyfloat option"
  ov_long_liquidation_usd_15m :: "pyfloat option"

definition after :: "utc option \<Rightarrow> utc \<Rightarrow> bool" where
  "after x t = (case x of None \<Rightarrow> False | Some u \<Rightarrow> t < u)"

definition negative_age :: "pyfloat option \<Rightarrow> bool" where
  "negative_age x = (case x of None \<Rightarrow> False | Some a \<Rightarrow> a < 0)"

definition check_overlay :: "decision_overlay \<Rightarrow> decision_overlay result" where
  "check_overlay ov =
     (let symbol = py_upper (py_strip (ov_symbol ov));
          has_observation = (ov_snapshot_id ov \<noteq> None)
      in if symbol = [] \<or> ov_reason_codes ov = []
         then Inl (ValueError ''overlay symbol and reason codes are required'')
         else if after (ov_signal_as_of ov) (ov_decision_as_of ov)
         then Inl (ValueError ''derivatives overlay cannot use a future signal'')
         else if after (ov_snapshot_available_at ov) (ov_decision_as_of ov)
         then Inl (ValueError ''derivatives overlay cannot use a future snapshot'')
         else if negative_age (ov_age_seconds ov)
         then Inl (ValueError ''overlay age must be a finite non-negative number'')
         else if (ov_basis_input_rate ov = None) \<noteq> (ov_basis_input_source ov = None)
         then Inl (ValueError ''overlay basis input rate and source must be available together'')
         else if ov_availability ov = MISSING \<and> has_observation
         then Inl (ValueError ''a missing overlay cannot identify a snapshot'')
         else if ov_availability ov \<noteq> MISSING \<and> \<not> has_observation
         then Inl (ValueError ''a non-missing overlay must identify a snapshot'')
         else if has_observation
                 \<and> (ov_snapshot_available_at ov = None \<or> ov_signal_as_of ov = None
                    \<or> ov_age_seconds ov = None \<or> ov_feature_version ov = None
                    \<or> ov_state ov = None \<or> ov_liquidation_confirmed ov = None)
         then Inl (ValueError ''observed overlays require signal identity and state'')
         else if ov_availability ov \<noteq> AVAILABLE \<and> ov_recommendation ov \<noteq> UNKNOWN
         then Inl (ValueError ''unavailable overlays cannot make a market recommendation'')
         else if after (ov_crowding_signal_as_of ov) (ov_decision_as_of ov)
         then Inl (ValueError ''crowding overlay cannot use a future signal'')
         else if negative_age (ov_crowding_age_seconds ov)
         then Inl (ValueError ''crowding age must be finite and non-negative'')
         else Inr (ov\<lparr>ov_symbol := symbol\<rparr>))"

definition overlay_to_dict :: "decision_overlay \<Rightarrow> (string \<times> json) list" where
  "overlay_to_dict ov =
     [(''decisionAsOf'', JTime (ov_decision_as_of ov)),
      (''availability'', JStr (availability_value (ov_availability ov))),
      (''recommendation'', JStr (recommendation_value (ov_recommendation ov))),
      (''reasonCodes'', JList (map JStr (ov_reason_codes ov))),
      (''symbol'', JStr (ov_symbol ov)),
      (''snapshotId'', json_opt JStr (ov_snapshot_id ov)),
      (''snapshotAvailableAt'', json_opt JTime (ov_snapshot_available_at ov)),
      (''signalAsOf'', json_opt JTime (ov_signal_as_of ov)),
      (''ageSeconds'', json_opt JNum (ov_age_seconds ov)),
      (''featureVersion'', json_opt JStr (ov_feature_version ov)),
      (''state'', json_opt (\<lambda>x. JStr (squeeze_state_value x)) (ov_state ov)),
      (''fuelScore'', json_opt JNum (ov_fuel_score ov)),
      (''ignitionScore'', json_opt JNum (ov_ignition_score ov)),
      (''openInterestChange15m'', json_opt JNum (ov_open_interest_change_15m ov)),
      (''openInterestChange1h'', json_opt JNum (ov_open_interest_change_1h ov)),
      (''futuresPriceChange15m'', json_opt JNum (ov_futures_price_change_15m ov)),
      (''futuresPriceChange1h'', json_opt JNum (ov_futures_price_change_1h ov)),
      (''spotReturn15m'', json_opt JNum (ov_spot_return_15m ov)),
      (''spotVolumeRatio'', json_opt JNum (ov_spot_volume_ratio ov)),
      (''spotBreakout'', json_opt JBool (ov_spot_breakout ov)),
      (''shortLiquidationUsd15m'', json_opt JNum (ov_short_liquidation_usd_15m ov)),
      (''liquidationConfirmed'', json_opt JBool (ov_liquidation_confirmed ov)),
      (''markPrice'', json_opt JDec (ov_mark_price ov)),
      (''indexPrice'', json_opt JDec (ov_index_price ov)),
      (''openInterestUsd'', json_opt JDec (ov_open_interest_usd ov)),
      (''fundingRate'', json_opt JDec (ov_funding_rate ov)),
      (''basisRate'', json_opt JDec (ov_basis_rate ov)),
      (''markIndexBasisRate'', json_opt JDec (ov_mark_index_basis_rate ov)),
      (''basisInputRate'', json_opt JDec (ov_basis_input_rate ov)),
      (''basisInputSource'', json_opt (\<lambda>x. JStr (basis_source_value x)) (ov_basis_input_source ov)),
      (''globalLongShortRatio'', json_opt JDec (ov_global_long_short_ratio ov)),
      (''topPositionLongShortRatio'', json_opt JDec (ov_top_position_long_short_ratio ov)),
      (''takerBuySellRatio'', json_opt JDec (ov_taker_buy_sell_ratio ov)),
      (''coinbasePriceUsd'', json_opt JDec (ov_coinbase_price_usd ov)),
      (''coinbasePremiumRate'', json_opt JDec (ov_coinbase_premium_rate ov)),
      (''coinbaseObservedAt'', json_opt JTime (ov_coinbase_observed_at ov)),
      (''missingFields'', JList (map JStr (sorted_list_of_set (ov_missing_fields ov)))),
      (''crowdingAvailability'', json_opt (\<lambda>x. JStr (availability_value x)) (ov_crowding_availability ov)),
      (''crowdingSnapshotId'', json_opt JStr (ov_crowding_snapshot_id ov)),
      (''crowdingSignalAsOf'', json_opt JTime (ov_crowding_signal_as_of ov)),
      (''crowdingAgeSeconds'', json_opt JNum (ov_crowding_age_seconds ov)),
      (''crowdingFeatureVersion'', json_opt JStr (ov_crowding_feature_version ov)),
      (''crowdingState'', json_opt (\<lambda>x. JStr (crowding_state_value x)) (ov_crowding_state ov)),
      (''crowdingDominantSide'', json_opt (\<lambda>x. JStr (crowding_side_value x)) (ov_crowding_dominant_side ov)),
      (''longCrowdingScore'', json_opt JNum (ov_long_crowding_score ov)),
      (''shortCrowdingScore'', json_opt JNum (ov_short_crowding_score ov)),
      (''crowdingIntensity'', json_opt JNum (ov_crowding_intensity ov)),
      (''bullishUnwindScore'', json_opt JNum (ov_bullish_unwind_score ov)),
      (''bearishUnwindScore'', json_opt JNum (ov_bearish_unwind_score ov)),
      (''crowdingConfidence'', json_opt JNum (ov_crowding_confidence ov)),
      (''longLiquidationUsd15m'', json_opt JNum (ov_long_liquidation_usd_15m ov))]"

text \<open>An overlay that identifies no observation; every optional field is absent.\<close>

definition bare_overlay ::
    "utc \<Rightarrow> overlay_availability \<Rightarrow> overlay_recommendation \<Rightarrow> string list \<Rightarrow> string \<Rightarrow> string \<Rightarrow> decision_overlay"
where
  "bare_overlay decision_as_of availability recommendation reason_codes symbol feature_version =
     \<lparr>ov_decision_as_of = decision_as_of,
      ov_availability = availability,
      ov_recommendation = recommendation,
      ov_reason_codes = reason_codes,
      ov_symbol = symbol,
      ov_snapshot_id = None,
      ov_snapshot_available_at = None,
      ov_signal_as_of = None,
      ov_age_seconds = None,
      ov_feature_version = Some feature_version,
      ov_state = None,
      ov_fuel_score = None,
      ov_ignition_score = None,
      ov_open_interest_change_15m = None,
      ov_open_interest_change_1h = None,
      ov_futures_price_change_15m = None,
      ov_futures_price_change_1h = None,
      ov_spot_return_15m = None,
      ov_spot_volume_ratio = None,
      ov_spot_breakout = None,
      ov_short_liquidation_usd_15m = None,
      ov_liquidation_confirmed = None,
      ov_mark_price = None,
      ov_index_price = None,
      ov_open_interest_usd = None,
      ov_funding_rate = None,
      ov_basis_rate = None,
      ov_mark_index_basis_rate = None,
      ov_basis_input_rate = None,
      ov_basis_input_source = None,
      ov_global_long_short_ratio = None,
      ov_top_position_long_short_ratio = None,
      ov_taker_buy_sell_ratio = None,
      ov_coinbase_price_usd = None,
      ov_coinbase_premium_rate = None,
      ov_coinbase_observed_at = None,
      ov_missing_fields = {},
      ov_crowding_availability = None,
      ov_crowding_snapshot_id = None,
      ov_crowding_signal_as_of = None,
      ov_crowding_age_seconds = None,
      ov_crowding_feature_version = None,
      ov_crowding_state = None,
      ov_crowding_dominant_side = None,
      ov_long_crowding_score = None,
      ov_short_crowding_score = None,
      ov_crowding_intensity = None,
      ov_bullish_unwind_score = None,
      ov_bearish_unwind_score = None,
      ov_crowding_confidence = None,
      ov_long_liquidation_usd_15m = None\<rparr>"

end
