(* ===== verification/Gates.thy ===== *)
theory Gates
  imports Derivatives Policy
begin

text \<open>
  The BTC derivatives and crowding gates of the dynamic paper rebalance: how the overlay of a
  decision is obtained and when it blocks new entries
  (\<^verbatim>\<open>_derivatives_overlay\<close>, \<^verbatim>\<open>_raw_derivatives_entry_block_reason\<close>,
  \<^verbatim>\<open>_crowding_entry_block_reason\<close>, \<^verbatim>\<open>_derivatives_cost_penalty\<close>, \<^verbatim>\<open>_decision_diagnostics\<close>).

  The overlay provider is an argument: a query to an overlay or an exception.  The exceptions the
  source catches are those of the stores (\<^verbatim>\<open>KeyError\<close>, \<^verbatim>\<open>OSError\<close>, \<^verbatim>\<open>ValueError\<close>, the database errors);
  any other exception propagates.
\<close>

record overlay_query =
  oq_as_of :: utc
  oq_feature_version :: string
  oq_maximum_age :: timedelta
  oq_crowding_feature_version :: "string option"
  oq_crowding_maximum_age :: "timedelta option"

type_synonym overlay_provider = "overlay_query \<Rightarrow> decision_overlay result"

text \<open>\<^verbatim>\<open>FileNotFoundError\<close> and \<^verbatim>\<open>FileExistsError\<close> are an \<^verbatim>\<open>OSError\<close>, \<^verbatim>\<open>IntegrityError\<close> a database error.\<close>

fun is_store_error :: "py_error \<Rightarrow> bool" where
  "is_store_error (KeyError _) = True"
| "is_store_error (ValueError _) = True"
| "is_store_error (FileNotFoundError _) = True"
| "is_store_error (FileExistsError _) = True"
| "is_store_error (IntegrityError _) = True"
| "is_store_error (OSError _) = True"
| "is_store_error _ = False"

definition missing_overlay :: "universe_policy \<Rightarrow> utc \<Rightarrow> string \<Rightarrow> decision_overlay result" where
  "missing_overlay p as_of reason =
     check_overlay (bare_overlay as_of MISSING UNKNOWN [reason] ''BTCUSDT''
                      (dp_derivatives_feature_version p))"

definition overlay_query_of :: "universe_policy \<Rightarrow> utc \<Rightarrow> overlay_query" where
  "overlay_query_of p as_of =
     (let crowding = (dp_crowding_overlay_mode p \<noteq> ''DISABLED'')
      in \<lparr>oq_as_of = as_of, oq_feature_version = dp_derivatives_feature_version p,
          oq_maximum_age = dp_derivatives_maximum_age p,
          oq_crowding_feature_version =
            (if crowding then Some (dp_crowding_feature_version p) else None),
          oq_crowding_maximum_age =
            (if crowding then Some (dp_crowding_maximum_age p) else None)\<rparr>)"

definition derivatives_overlay ::
    "universe_policy \<Rightarrow> overlay_provider option \<Rightarrow> utc \<Rightarrow> decision_overlay option result" where
  "derivatives_overlay p provider as_of =
     (if dp_derivatives_overlay_mode p = ''DISABLED'' then Inr None
      else if dp_derivatives_overlay_mode p
              \<notin> {''SHADOW'', ''ENTRY_GATE'', ''LONG_SHORT_GATE'', ''SOFT_PENALTY''}
      then Inl (ValueError (''unsupported derivatives overlay mode: '' @ dp_derivatives_overlay_mode p))
      else case provider of
             None \<Rightarrow> bind_result (missing_overlay p as_of ''DERIVATIVES_OVERLAY_PROVIDER_DISABLED'')
                      (\<lambda>ov. Inr (Some ov))
           | Some known_at \<Rightarrow>
               (case known_at (overlay_query_of p as_of) of
                  Inr ov \<Rightarrow> Inr (Some ov)
                | Inl e \<Rightarrow>
                    if is_store_error e
                    then bind_result (missing_overlay p as_of ''DERIVATIVES_OVERLAY_READ_FAILED'')
                           (\<lambda>ov. Inr (Some ov))
                    else Inl e))"

definition derivatives_overlay_reasons ::
    "universe_policy \<Rightarrow> decision_overlay option \<Rightarrow> string list" where
  "derivatives_overlay_reasons p overlay =
     (case overlay of
        None \<Rightarrow> []
      | Some ov \<Rightarrow>
          [''DERIVATIVES_'' @ dp_derivatives_overlay_mode p @ ''_'' @
           availability_value (ov_availability ov) @ ''_'' @
           recommendation_value (ov_recommendation ov)])"

section \<open>Entry gates\<close>

definition below :: "decimal option \<Rightarrow> decimal \<Rightarrow> bool" where
  "below actual minimum = (case actual of None \<Rightarrow> True | Some a \<Rightarrow> a < minimum)"

text \<open>The three regime checks in the order of the source; the first that fails names the reason.\<close>

definition regime_checks ::
    "universe_policy \<Rightarrow> decision_overlay \<Rightarrow> (decimal option \<times> decimal option \<times> string) list" where
  "regime_checks p ov =
     [(ov_funding_rate ov, dp_derivatives_minimum_funding_rate p,
       ''NEW_ENTRY_BLOCKED_BY_LOW_BTC_FUNDING_REGIME''),
      (ov_basis_input_rate ov, dp_derivatives_minimum_basis_input_rate p,
       ''NEW_ENTRY_BLOCKED_BY_NEGATIVE_BTC_BASIS_REGIME''),
      (ov_global_long_short_ratio ov, dp_derivatives_minimum_global_long_short_ratio p,
       ''NEW_ENTRY_BLOCKED_BY_LOW_BTC_LONG_SHORT_REGIME'')]"

fun first_failing_check ::
    "string \<Rightarrow> (decimal option \<times> decimal option \<times> string) list \<Rightarrow> string option" where
  "first_failing_check mode [] = None"
| "first_failing_check mode ((actual, minimum, reason) # rest) =
     (if mode = ''LONG_SHORT_GATE'' \<and> reason \<noteq> ''NEW_ENTRY_BLOCKED_BY_LOW_BTC_LONG_SHORT_REGIME''
      then first_failing_check mode rest
      else case minimum of
             None \<Rightarrow> first_failing_check mode rest
           | Some m \<Rightarrow> if below actual m then Some reason else first_failing_check mode rest)"

definition raw_derivatives_entry_block_reason ::
    "universe_policy \<Rightarrow> decision_overlay option \<Rightarrow> string option" where
  "raw_derivatives_entry_block_reason p overlay =
     (let mode = dp_derivatives_overlay_mode p;
          unavailable = Some ''NEW_ENTRY_BLOCKED_BY_DERIVATIVES_DATA_UNAVAILABLE''
      in if mode \<notin> {''ENTRY_GATE'', ''LONG_SHORT_GATE'', ''SOFT_PENALTY''} then None
         else case overlay of
                None \<Rightarrow> unavailable
              | Some ov \<Rightarrow>
                  if ov_availability ov \<noteq> AVAILABLE then unavailable
                  else if mode = ''SOFT_PENALTY''
                  then (if ov_funding_rate ov = None \<or> ov_basis_input_rate ov = None
                           \<or> ov_global_long_short_ratio ov = None
                        then unavailable else None)
                  else first_failing_check mode (regime_checks p ov))"

definition at_least :: "pyfloat option \<Rightarrow> pyfloat option \<Rightarrow> bool" where
  "at_least score limit =
     (case (score, limit) of (Some s, Some m) \<Rightarrow> m \<le> s | _ \<Rightarrow> False)"

definition crowding_entry_block_reason ::
    "universe_policy \<Rightarrow> decision_overlay option \<Rightarrow> string option" where
  "crowding_entry_block_reason p overlay =
     (let unavailable = Some ''NEW_ENTRY_BLOCKED_BY_CROWDING_DATA_UNAVAILABLE''
      in if dp_crowding_overlay_mode p \<noteq> ''ENTRY_GATE'' then None
         else case overlay of
                None \<Rightarrow> unavailable
              | Some ov \<Rightarrow>
                  if ov_crowding_availability ov \<noteq> Some AVAILABLE then unavailable
                  else if ov_long_crowding_score ov = None \<or> ov_bearish_unwind_score ov = None
                  then unavailable
                  else if ov_crowding_state ov = Some LONG_UNWIND
                  then Some ''NEW_ENTRY_BLOCKED_BY_LONG_CROWDING_UNWIND''
                  else if at_least (ov_long_crowding_score ov) (dp_crowding_maximum_long_score p)
                          \<and> at_least (ov_bearish_unwind_score ov)
                               (dp_crowding_maximum_bearish_unwind_score p)
                  then Some ''NEW_ENTRY_BLOCKED_BY_LONG_CROWDING_AND_BEARISH_TRIGGER''
                  else None)"

definition derivatives_entry_block_reason ::
    "universe_policy \<Rightarrow> decision_overlay option \<Rightarrow> string option" where
  "derivatives_entry_block_reason p overlay =
     (case raw_derivatives_entry_block_reason p overlay of
        Some reason \<Rightarrow> Some reason
      | None \<Rightarrow> crowding_entry_block_reason p overlay)"

section \<open>The soft penalty and the diagnostics\<close>

definition v28_penalty_per_breach :: pyfloat where
  "v28_penalty_per_breach = flt (5 / 10000)"

definition is_breach :: "decimal option \<Rightarrow> decimal option \<Rightarrow> bool" where
  "is_breach actual minimum =
     (case (actual, minimum) of (Some a, Some m) \<Rightarrow> a < m | _ \<Rightarrow> False)"

definition breach_count :: "universe_policy \<Rightarrow> decision_overlay \<Rightarrow> nat" where
  "breach_count p ov =
     length (filter (\<lambda>(a, m). is_breach a m)
       [(ov_funding_rate ov, dp_derivatives_minimum_funding_rate p),
        (ov_basis_input_rate ov, dp_derivatives_minimum_basis_input_rate p),
        (ov_global_long_short_ratio ov, dp_derivatives_minimum_global_long_short_ratio p)])"

definition derivatives_cost_penalty :: "universe_policy \<Rightarrow> decision_overlay option \<Rightarrow> pyfloat" where
  "derivatives_cost_penalty p overlay =
     (case overlay of
        None \<Rightarrow> 0
      | Some ov \<Rightarrow>
          if dp_derivatives_overlay_mode p \<noteq> ''SOFT_PENALTY'' \<or> ov_availability ov \<noteq> AVAILABLE then 0
          else fmul v28_penalty_per_breach (of_nat (breach_count p ov)))"

definition decision_diagnostics ::
    "universe_policy \<Rightarrow> decision_overlay option \<Rightarrow> (string \<times> json) list" where
  "decision_diagnostics p overlay =
     (let current_reason = crowding_entry_block_reason p overlay;
          long_score = Option.bind overlay ov_long_crowding_score;
          bearish_score = Option.bind overlay ov_bearish_unwind_score;
          policy_blocked = (at_least long_score (dp_crowding_maximum_long_score p)
                            \<and> at_least bearish_score (dp_crowding_maximum_bearish_unwind_score p));
          current_blocked = (current_reason \<noteq> None)
      in [(''derivativesCostPenalty'', JNum (derivatives_cost_penalty p overlay)),
          (''derivativesOverlayMode'', JStr (dp_derivatives_overlay_mode p)),
          (''expectedReturnCalibrationIsEmpirical'', JBool False),
          (''candidateConfirmationMeaning'', JStr ''CONSECUTIVE_SCORE_ABOVE_HURDLE''),
          (''entryEligibleConfirmationMeaning'',
           JStr ''SHADOW_SCORE_GUARDS_COST_DERIVATIVES_AND_CROWDING''),
          (''currentCrowdingGate'',
           JObj [(''blocked'', JBool current_blocked), (''reason'', json_opt JStr current_reason)]),
          (''policyCrowdingGate'',
           JObj [(''blocked'', JBool policy_blocked),
                 (''minimumLongCrowdingScore'', json_opt JNum (dp_crowding_maximum_long_score p)),
                 (''minimumBearishUnwindScore'',
                  json_opt JNum (dp_crowding_maximum_bearish_unwind_score p))]),
          (''crowdingGateDisagreement'', JBool (current_blocked \<noteq> policy_blocked)),
          (''squeezeRole'',
           JStr ''BTC_DERIVATIVES_STRUCTURE_DIAGNOSTIC_AND_POINT_IN_TIME_FEATURE_PROVIDER''),
          (''rawDerivativesGateRole'', JStr ''FUNDING_BASIS_GLOBAL_LONG_SHORT_RISK_ON_GATE'')])"

section \<open>Properties\<close>

text \<open>What an entry gate asks of one measured value: it is known, and at least the configured minimum if there is one.\<close>

definition regime_met :: "decimal option \<Rightarrow> decimal option \<Rightarrow> bool" where
  "regime_met actual minimum = (case minimum of None \<Rightarrow> True | Some m \<Rightarrow> (\<exists>a. actual = Some a \<and> m \<le> a))"

lemma first_failing_check_None:
  "mode \<noteq> ''LONG_SHORT_GATE'' \<Longrightarrow>
   first_failing_check mode checks = None \<longleftrightarrow> (\<forall>(a, m, r) \<in> set checks. regime_met a m)"
  by (induction mode checks rule: first_failing_check.induct)
    (auto simp: regime_met_def below_def not_less split: option.splits if_splits)

lemma raw_gate_None:
  assumes "dp_derivatives_overlay_mode p = ''ENTRY_GATE''"
  shows "raw_derivatives_entry_block_reason p overlay = None \<longleftrightarrow>
    (\<exists>ov. overlay = Some ov \<and> ov_availability ov = AVAILABLE
      \<and> regime_met (ov_funding_rate ov) (dp_derivatives_minimum_funding_rate p)
      \<and> regime_met (ov_basis_input_rate ov) (dp_derivatives_minimum_basis_input_rate p)
      \<and> regime_met (ov_global_long_short_ratio ov) (dp_derivatives_minimum_global_long_short_ratio p))"
proof (cases overlay)
  case (Some ov)
  have "first_failing_check ''ENTRY_GATE'' (regime_checks p ov) = None \<longleftrightarrow>
      (\<forall>(a, m, r) \<in> set (regime_checks p ov). regime_met a m)"
    by (rule first_failing_check_None) simp
  then show ?thesis
    unfolding raw_derivatives_entry_block_reason_def Some assms Let_def by (simp add: regime_checks_def)
qed (simp add: raw_derivatives_entry_block_reason_def assms)

lemma crowding_gate_None:
  assumes "dp_crowding_overlay_mode p = ''ENTRY_GATE''"
  shows "crowding_entry_block_reason p overlay = None \<longleftrightarrow>
    (\<exists>ov. overlay = Some ov
      \<and> ov_crowding_availability ov = Some AVAILABLE \<and> ov_crowding_state ov \<noteq> Some LONG_UNWIND
      \<and> (\<exists>long bearish. ov_long_crowding_score ov = Some long \<and> ov_bearish_unwind_score ov = Some bearish
          \<and> \<not> (at_least (Some long) (dp_crowding_maximum_long_score p)
               \<and> at_least (Some bearish) (dp_crowding_maximum_bearish_unwind_score p))))"
proof (cases overlay)
  case (Some ov)
  show ?thesis
    by (cases "ov_long_crowding_score ov"; cases "ov_bearish_unwind_score ov")
      (simp_all add: crowding_entry_block_reason_def assms Some Let_def)
qed (simp add: crowding_entry_block_reason_def assms)

lemma gates_None:
  "derivatives_entry_block_reason p overlay = None \<longleftrightarrow>
    raw_derivatives_entry_block_reason p overlay = None \<and> crowding_entry_block_reason p overlay = None"
  by (auto simp: derivatives_entry_block_reason_def split: option.splits)

text \<open>C11: Under the production gates a new entry is let through exactly when the overlay is available with every configured funding, basis and long/short minimum met, and the crowding evidence is available, is not a long unwind, and does not have both scores at their limits; anything missing blocks.\<close>

theorem production_gates_fail_closed:
  assumes "dp_derivatives_overlay_mode p = ''ENTRY_GATE''" "dp_crowding_overlay_mode p = ''ENTRY_GATE''"
  shows "derivatives_entry_block_reason p overlay = None \<longleftrightarrow>
    (\<exists>ov. overlay = Some ov \<and> ov_availability ov = AVAILABLE
      \<and> regime_met (ov_funding_rate ov) (dp_derivatives_minimum_funding_rate p)
      \<and> regime_met (ov_basis_input_rate ov) (dp_derivatives_minimum_basis_input_rate p)
      \<and> regime_met (ov_global_long_short_ratio ov) (dp_derivatives_minimum_global_long_short_ratio p)
      \<and> ov_crowding_availability ov = Some AVAILABLE \<and> ov_crowding_state ov \<noteq> Some LONG_UNWIND
      \<and> (\<exists>long bearish. ov_long_crowding_score ov = Some long \<and> ov_bearish_unwind_score ov = Some bearish
          \<and> \<not> (at_least (Some long) (dp_crowding_maximum_long_score p)
               \<and> at_least (Some bearish) (dp_crowding_maximum_bearish_unwind_score p))))"
  unfolding gates_None raw_gate_None [OF assms(1)] crowding_gate_None [OF assms(2)] by auto

lemma production_gates_fail_closed_witness:
  "derivatives_entry_block_reason policy_v27 None \<noteq> None"
proof -
  have "dp_derivatives_overlay_mode policy_v27 = ''ENTRY_GATE''" "dp_crowding_overlay_mode policy_v27 = ''ENTRY_GATE''"
    by (simp_all add: policy_v27_def policy_v26_def)
  from production_gates_fail_closed [OF this, of None] show ?thesis by simp
qed

lemma missing_overlay_ok:
  "missing_overlay p t reason = Inr (bare_overlay t MISSING UNKNOWN [reason] ''BTCUSDT'' (dp_derivatives_feature_version p))"
  by (simp add: missing_overlay_def check_overlay_def bare_overlay_def after_def negative_age_def
      py_strip_def py_isspace_def py_upper_def upper_char_def)

text \<open>C12: A store that cannot be read never stops a decision: the overlay becomes a missing one with an unknown recommendation, and under every gating mode that blocks all new entries; only the disabled mode has no overlay at all.\<close>

theorem overlay_store_failure_blocks:
  assumes "dp_derivatives_overlay_mode p \<in> {''SHADOW'', ''ENTRY_GATE'', ''LONG_SHORT_GATE'', ''SOFT_PENALTY''}"
    and "known_at (overlay_query_of p t) = Inl e" "is_store_error e"
  shows "\<exists>ov. derivatives_overlay p (Some known_at) t = Inr (Some ov)
    \<and> ov_availability ov = MISSING \<and> ov_recommendation ov = UNKNOWN \<and> ov_decision_as_of ov = t
    \<and> (dp_derivatives_overlay_mode p \<noteq> ''SHADOW'' \<longrightarrow>
        derivatives_entry_block_reason p (Some ov) = Some ''NEW_ENTRY_BLOCKED_BY_DERIVATIVES_DATA_UNAVAILABLE'')
    \<and> derivatives_cost_penalty p (Some ov) = 0"
proof -
  define ov where "ov = bare_overlay t MISSING UNKNOWN [''DERIVATIVES_OVERLAY_READ_FAILED''] ''BTCUSDT''
    (dp_derivatives_feature_version p)"
  have av: "ov_availability ov = MISSING" "ov_recommendation ov = UNKNOWN" "ov_decision_as_of ov = t"
    by (simp_all add: ov_def bare_overlay_def)
  have mode: "dp_derivatives_overlay_mode p \<noteq> ''DISABLED''" using assms(1) by auto
  have "derivatives_overlay p (Some known_at) t = Inr (Some ov)"
    unfolding derivatives_overlay_def if_not_P [OF mode] using assms by (simp add: missing_overlay_ok ov_def)
  moreover have "derivatives_entry_block_reason p (Some ov) = Some ''NEW_ENTRY_BLOCKED_BY_DERIVATIVES_DATA_UNAVAILABLE''"
    if "dp_derivatives_overlay_mode p \<noteq> ''SHADOW''"
  proof -
    have "dp_derivatives_overlay_mode p \<in> {''ENTRY_GATE'', ''LONG_SHORT_GATE'', ''SOFT_PENALTY''}"
      using assms(1) that by blast
    then show ?thesis
      by (simp add: derivatives_entry_block_reason_def raw_derivatives_entry_block_reason_def Let_def av
          del: insert_iff)
  qed
  moreover have "derivatives_cost_penalty p (Some ov) = 0" by (simp add: derivatives_cost_penalty_def av)
  ultimately show ?thesis using av by blast
qed

lemma overlay_store_failure_blocks_witness:
  "\<exists>ov. derivatives_overlay policy_v27 (Some (\<lambda>_. Inl (FileNotFoundError ''crowding''))) 7 = Inr (Some ov)
     \<and> ov_availability ov = MISSING"
proof -
  have "dp_derivatives_overlay_mode policy_v27 \<in> {''SHADOW'', ''ENTRY_GATE'', ''LONG_SHORT_GATE'', ''SOFT_PENALTY''}"
    by (simp add: policy_v27_def policy_v26_def)
  moreover have "is_store_error (FileNotFoundError ''crowding'')" by simp
  ultimately show ?thesis
    using overlay_store_failure_blocks [where known_at = "\<lambda>_. Inl (FileNotFoundError ''crowding'')", OF _ refl]
    by blast
qed

end
