(* ===== verification/Select.thy ===== *)
theory Select
  imports Assess Gates
begin

text \<open>
  The selection of the dynamic paper rebalance (\<^verbatim>\<open>_select_detailed\<close> and its guards,
  \<^verbatim>\<open>_entry_signal_eligibility\<close>, \<^verbatim>\<open>_selection_variants\<close>): which held markets are retained, which
  candidates enter or replace a weaker holding, with what weight, and the reasons recorded
  for every decision.

  The evidence of a decision is a function from pair to its reasons; the sets the source
  passes between its methods are sets of pair symbols.  \<^verbatim>\<open>min\<close> of an empty list raises.
\<close>

record selected_asset =
  sa_pair :: string
  sa_score :: pyfloat
  sa_target_weight :: decimal
  sa_reason :: string

text \<open>The arguments of \<^verbatim>\<open>_select_detailed\<close> other than the candidates.\<close>

record selection_input =
  si_held_pairs :: "string set"
  si_previous_scores :: "string \<rightharpoonup> pyfloat"
  si_recent_exits :: "string set"
  si_expired :: "string set"
  si_confirmation_counts :: "(string \<rightharpoonup> int) option"
  si_concentration_blocked :: "string set"
  si_rolling_loss_blocked :: "string set"
  si_entry_block_reason :: "string option"

section \<open>Guards\<close>

definition lt_limit :: "pyfloat option \<Rightarrow> pyfloat option \<Rightarrow> bool" where
  "lt_limit x limit = (case (x, limit) of (Some v, Some l) \<Rightarrow> v < l | _ \<Rightarrow> False)"

definition gt_limit :: "pyfloat option \<Rightarrow> pyfloat option \<Rightarrow> bool" where
  "gt_limit x limit = (case (x, limit) of (Some v, Some l) \<Rightarrow> l < v | _ \<Rightarrow> False)"

definition entry_guard_reason :: "universe_policy \<Rightarrow> pyfloat option \<Rightarrow> candidate \<Rightarrow> string option" where
  "entry_guard_reason p volatility_cap c =
     (if lt_limit (ca_momentum_1h c) (dp_minimum_entry_momentum_1h p)
      then Some ''NEW_ENTRY_BLOCKED_BY_FALLING_KNIFE_GUARD''
      else if gt_limit (ca_momentum_1h c) (dp_maximum_entry_momentum_1h p)
      then Some ''NEW_ENTRY_BLOCKED_BY_SHORT_TERM_SPIKE_GUARD''
      else if lt_limit (ca_momentum_4h c) (dp_minimum_entry_momentum_4h p)
      then Some ''NEW_ENTRY_BLOCKED_BY_4H_FALLING_KNIFE_GUARD''
      else if gt_limit (ca_momentum_4h c) (dp_maximum_entry_momentum_4h p)
      then Some ''NEW_ENTRY_BLOCKED_BY_4H_SPIKE_GUARD''
      else if lt_limit (ca_momentum_24h c) (dp_minimum_entry_momentum_24h p)
      then Some ''NEW_ENTRY_BLOCKED_BY_24H_TREND_GUARD''
      else if gt_limit (ca_momentum_24h c) (dp_maximum_entry_momentum_24h p)
      then Some ''NEW_ENTRY_BLOCKED_BY_24H_SPIKE_GUARD''
      else if gt_limit (ca_volatility c) volatility_cap
      then Some ''NEW_ENTRY_BLOCKED_BY_VOLATILITY_GUARD''
      else None)"

definition hold_guard_reason :: "universe_policy \<Rightarrow> candidate \<Rightarrow> string option" where
  "hold_guard_reason p c =
     (if lt_limit (ca_momentum_1h c) (dp_minimum_hold_momentum_1h p)
      then Some ''HOLD_BLOCKED_BY_FALLING_KNIFE_GUARD''
      else if lt_limit (ca_momentum_24h c) (dp_minimum_hold_momentum_24h p)
      then Some ''HOLD_BLOCKED_BY_24H_TREND_GUARD''
      else if gt_limit (ca_volatility c) (dp_maximum_hold_volatility p)
      then Some ''HOLD_BLOCKED_BY_VOLATILITY_GUARD''
      else None)"

text \<open>
  The volatility cap: the absolute limit, or the value at a quantile of the scored
  candidates, whichever is smaller.  \<^verbatim>\<open>int\<close> truncates towards zero.
\<close>

definition py_int :: "pyfloat \<Rightarrow> int" where
  "py_int x = (if 0 \<le> x then \<lfloor>x\<rfloor> else - \<lfloor>- x\<rfloor>)"

definition entry_volatility_cap :: "universe_policy \<Rightarrow> candidate list \<Rightarrow> pyfloat option" where
  "entry_volatility_cap p assessments =
     (let values = sort_by (\<le>) (List.map_filter ca_volatility assessments);
          n = int (length values)
      in case dp_maximum_entry_volatility_quantile p of
           None \<Rightarrow> dp_maximum_entry_volatility p
         | Some quantile \<Rightarrow>
             if values = [] then dp_maximum_entry_volatility p
             else let index = min (n - 1) (max 0 (py_int (fmul (of_int (n - 1)) quantile)));
                      relative = values ! nat index
                  in (case dp_maximum_entry_volatility p of
                        None \<Rightarrow> Some relative
                      | Some absolute \<Rightarrow> Some (min absolute relative)))"

definition conservative_expected_relative_return :: "candidate \<Rightarrow> pyfloat option" where
  "conservative_expected_relative_return c =
     (case (ca_expected_relative_return_1h c, ca_expected_relative_return_4h c) of
        (Some a, Some b) \<Rightarrow> Some (min a b)
      | _ \<Rightarrow> None)"

definition fee_adjusted_entry_return_passes :: "universe_policy \<Rightarrow> candidate \<Rightarrow> bool" where
  "fee_adjusted_entry_return_passes p c =
     (if dp_expected_return_calibration_mode p = ''DISABLED'' then True
      else case ca_fee_adjusted_expected_return c of
             None \<Rightarrow> False
           | Some r \<Rightarrow> dp_minimum_fee_adjusted_entry_return p \<le> r)"

definition expected_hold_return_passes :: "universe_policy \<Rightarrow> candidate \<Rightarrow> bool" where
  "expected_hold_return_passes p c =
     (if dp_expected_return_calibration_mode p = ''DISABLED'' then True
      else case conservative_expected_relative_return c of
             None \<Rightarrow> True
           | Some r \<Rightarrow> dp_minimum_expected_hold_return p \<le> r)"

definition fee_adjusted_replacement_passes :: "universe_policy \<Rightarrow> candidate \<Rightarrow> candidate \<Rightarrow> bool" where
  "fee_adjusted_replacement_passes p entrant incumbent =
     (if dp_expected_return_calibration_mode p = ''DISABLED'' then True
      else case (conservative_expected_relative_return entrant,
                 conservative_expected_relative_return incumbent) of
             (Some e, Some i) \<Rightarrow>
               dp_minimum_fee_adjusted_replacement_advantage p
                 \<le> fsub (fsub e i) (round_trip_cost_hurdle p)
           | _ \<Rightarrow> False)"

definition score_above :: "candidate \<Rightarrow> pyfloat \<Rightarrow> bool" where
  "score_above c hurdle = (case ca_score c of None \<Rightarrow> False | Some s \<Rightarrow> hurdle < s)"

text \<open>Confirmations a pair has from earlier decisions.\<close>

definition prior_count :: "universe_policy \<Rightarrow> selection_input \<Rightarrow> string \<Rightarrow> int" where
  "prior_count p si pair =
     (case si_confirmation_counts si of
        Some counts \<Rightarrow> (case counts pair of None \<Rightarrow> 0 | Some n \<Rightarrow> n)
      | None \<Rightarrow> (case si_previous_scores si pair of
                   None \<Rightarrow> 0
                 | Some s \<Rightarrow> if effective_entry_score_hurdle p < s then 1 else 0))"

section \<open>The scored cross-section\<close>

definition score_key :: "candidate \<Rightarrow> rat \<times> string" where
  "score_key c = (- opt_val (ca_score c), ca_pair c)"

definition scored_candidates :: "universe_policy \<Rightarrow> candidate list \<Rightarrow> candidate list" where
  "scored_candidates p assessments = sort_on score_key (most_liquid p (filter ca_eligible assessments))"

text \<open>The rank of a candidate, counted from one; only asked of a scored candidate.\<close>

definition rank_in :: "candidate list \<Rightarrow> string \<Rightarrow> int" where
  "rank_in scored pair = int (length (takeWhile (\<lambda>c. ca_pair c \<noteq> pair) scored)) + 1"

definition is_retained :: "universe_policy \<Rightarrow> selection_input \<Rightarrow> candidate list \<Rightarrow> candidate \<Rightarrow> bool" where
  "is_retained p si scored c =
     (ca_pair c \<in> si_held_pairs si
      \<and> ca_pair c \<notin> si_expired si
      \<and> score_above c (dp_exit_score_hurdle p)
      \<and> rank_in scored (ca_pair c) \<le> dp_maximum_hold_rank p
      \<and> hold_guard_reason p c = None
      \<and> expected_hold_return_passes p c)"

definition is_entrant :: "universe_policy \<Rightarrow> selection_input \<Rightarrow> pyfloat option \<Rightarrow> candidate \<Rightarrow> bool" where
  "is_entrant p si cap c =
     (ca_pair c \<notin> si_held_pairs si
      \<and> ca_pair c \<notin> si_recent_exits si
      \<and> ca_pair c \<notin> si_concentration_blocked si
      \<and> ca_pair c \<notin> si_rolling_loss_blocked si
      \<and> si_entry_block_reason si = None
      \<and> score_above c (effective_entry_score_hurdle p)
      \<and> entry_guard_reason p cap c = None
      \<and> fee_adjusted_entry_return_passes p c
      \<and> (dp_required_entry_confirmations p \<le> 1
         \<or> dp_required_entry_confirmations p - 1 \<le> prior_count p si (ca_pair c)))"

section \<open>Evidence\<close>

definition opt_list :: "'a option \<Rightarrow> 'a list" where
  "opt_list x = (case x of None \<Rightarrow> [] | Some y \<Rightarrow> [y])"

definition hold_evidence ::
    "universe_policy \<Rightarrow> selection_input \<Rightarrow> candidate list \<Rightarrow> candidate \<Rightarrow> string list" where
  "hold_evidence p si scored c =
     (if ca_pair c \<in> si_expired si then [''HOLD_EXITED_BY_MAXIMUM_HOLDING_PERIOD''] else [])
     @ (if \<not> score_above c (dp_exit_score_hurdle p) then [''HOLD_SCORE_BELOW_EXIT_HURDLE''] else [])
     @ (if dp_maximum_hold_rank p < rank_in scored (ca_pair c) then [''HOLD_RANK_BELOW_LIMIT''] else [])
     @ opt_list (hold_guard_reason p c)
     @ (if \<not> expected_hold_return_passes p c
        then [''HOLD_EXPECTED_RELATIVE_RETURN_INSUFFICIENT''] else [])"

definition entry_evidence ::
    "universe_policy \<Rightarrow> selection_input \<Rightarrow> pyfloat option \<Rightarrow> candidate \<Rightarrow> string list" where
  "entry_evidence p si cap c =
     (if ca_pair c \<in> si_recent_exits si then [''NEW_ENTRY_BLOCKED_BY_REENTRY_COOLDOWN''] else [])
     @ (if \<not> score_above c (effective_entry_score_hurdle p)
        then [''NEW_ENTRY_SCORE_BELOW_HURDLE''] else [])
     @ opt_list (entry_guard_reason p cap c)
     @ (if \<not> fee_adjusted_entry_return_passes p c
        then [''NEW_ENTRY_FEE_ADJUSTED_RETURN_INSUFFICIENT''] else [])
     @ (if ca_pair c \<in> si_concentration_blocked si
        then [''NEW_ENTRY_BLOCKED_BY_SELECTION_CONCENTRATION''] else [])
     @ (if ca_pair c \<in> si_rolling_loss_blocked si
        then [''NEW_ENTRY_BLOCKED_BY_ROLLING_ASSET_LOSS''] else [])
     @ opt_list (si_entry_block_reason si)
     @ (if prior_count p si (ca_pair c) < dp_required_entry_confirmations p - 1
        then [''NEW_ENTRY_WAITING_FOR_CONFIRMATIONS''] else [])"

type_synonym evidence = "string \<Rightarrow> string list"

definition add_evidence :: "string \<Rightarrow> string list \<Rightarrow> evidence \<Rightarrow> evidence" where
  "add_evidence pair reasons ev = ev(pair := ev pair @ reasons)"

definition initial_evidence ::
    "universe_policy \<Rightarrow> selection_input \<Rightarrow> candidate list \<Rightarrow> pyfloat option \<Rightarrow> evidence" where
  "initial_evidence p si scored cap =
     fold (\<lambda>c. add_evidence (ca_pair c)
        (if ca_pair c \<in> si_held_pairs si then hold_evidence p si scored c
         else entry_evidence p si cap c)) scored (\<lambda>_. [])"

definition guard_reasons ::
    "universe_policy \<Rightarrow> selection_input \<Rightarrow> candidate list \<Rightarrow> pyfloat option \<Rightarrow> string list" where
  "guard_reasons p si scored cap =
     sorted_list_of_set
       (set (List.map_filter (\<lambda>c. if ca_pair c \<in> si_held_pairs si then None
                                   else entry_guard_reason p cap c) scored)
        \<union> set (List.map_filter (\<lambda>c. if ca_pair c \<in> si_held_pairs si then hold_guard_reason p c
                                      else None) scored))"

section \<open>Filling the positions\<close>

record fill_state =
  fs_ranked :: "candidate list"
  fs_evidence :: evidence
  fs_score_blocked :: bool
  fs_return_blocked :: bool

text \<open>\<^verbatim>\<open>min(ranked, key=(score, pair))\<close>: the first of the smallest.\<close>

fun weakest_of :: "candidate list \<Rightarrow> candidate option" where
  "weakest_of [] = None"
| "weakest_of (c # cs) =
     (case weakest_of cs of
        None \<Rightarrow> Some c
      | Some w \<Rightarrow> if key_le (opt_val (ca_score c), ca_pair c) (opt_val (ca_score w), ca_pair w)
                  then Some c else Some w)"

definition replacement_score_passes :: "universe_policy \<Rightarrow> candidate \<Rightarrow> candidate \<Rightarrow> bool" where
  "replacement_score_passes p entrant weakest =
     (fadd (opt_val (ca_score weakest)) (dp_minimum_replacement_score_advantage p)
        \<le> opt_val (ca_score entrant))"

definition fill_one :: "universe_policy \<Rightarrow> candidate \<Rightarrow> fill_state \<Rightarrow> fill_state result" where
  "fill_one p entrant st =
     (if int (length (fs_ranked st)) < dp_maximum_positions p
      then Inr (st\<lparr>fs_ranked := fs_ranked st @ [entrant]\<rparr>)
      else case weakest_of (fs_ranked st) of
             None \<Rightarrow> Inl (ValueError ''min() arg is an empty sequence'')
           | Some weakest \<Rightarrow>
               (let score_passes = replacement_score_passes p entrant weakest;
                    return_passes = fee_adjusted_replacement_passes p entrant weakest
                in if score_passes \<and> return_passes
                   then Inr (st\<lparr>fs_ranked := remove1 weakest (fs_ranked st) @ [entrant],
                     fs_evidence :=
                       add_evidence (ca_pair weakest) [''REPLACED_BY_STRONGER_FEE_ADJUSTED_CANDIDATE'']
                       (add_evidence (ca_pair entrant)
                          [''REPLACEMENT_FEE_ADJUSTED_ADVANTAGE_CONFIRMED''] (fs_evidence st))\<rparr>)
                   else Inr (st\<lparr>fs_score_blocked := fs_score_blocked st \<or> \<not> score_passes,
                     fs_return_blocked := fs_return_blocked st \<or> \<not> return_passes,
                     fs_evidence := add_evidence (ca_pair entrant)
                       ((if \<not> score_passes then [''REPLACEMENT_SCORE_ADVANTAGE_INSUFFICIENT''] else [])
                        @ (if \<not> return_passes
                           then [''REPLACEMENT_FEE_ADJUSTED_RETURN_INSUFFICIENT''] else []))
                       (fs_evidence st)\<rparr>)))"

fun fill_positions :: "universe_policy \<Rightarrow> candidate list \<Rightarrow> fill_state \<Rightarrow> fill_state result" where
  "fill_positions p [] st = Inr st"
| "fill_positions p (e # es) st = bind_result (fill_one p e st) (\<lambda>st'. fill_positions p es st')"

section \<open>The selection\<close>

definition selection_reasons ::
    "universe_policy \<Rightarrow> selection_input \<Rightarrow> candidate list \<Rightarrow> candidate list \<Rightarrow> pyfloat option
     \<Rightarrow> fill_state \<Rightarrow> string list" where
  "selection_reasons p si assessments scored cap st =
     guard_reasons p si scored cap
     @ (if si_expired si \<noteq> {} then [''HOLD_EXITED_BY_MAXIMUM_HOLDING_PERIOD''] else [])
     @ (if list_ex (\<lambda>c. ca_pair c \<in> si_recent_exits si
                       \<and> score_above c (effective_entry_score_hurdle p)) scored
        then [''NEW_ENTRY_BLOCKED_BY_REENTRY_COOLDOWN''] else [])
     @ (if fs_score_blocked st then [''REPLACEMENT_SCORE_ADVANTAGE_INSUFFICIENT''] else [])
     @ (if fs_return_blocked st then [''REPLACEMENT_FEE_ADJUSTED_RETURN_INSUFFICIENT''] else [])
     @ (if si_concentration_blocked si \<noteq> {}
        then [''NEW_ENTRY_BLOCKED_BY_SELECTION_CONCENTRATION''] else [])
     @ (if si_rolling_loss_blocked si \<noteq> {}
        then [''NEW_ENTRY_BLOCKED_BY_ROLLING_ASSET_LOSS''] else [])
     @ opt_list (si_entry_block_reason si)
     @ (if list_ex (\<lambda>c. ''NEW_ENTRY_FEE_ADJUSTED_RETURN_INSUFFICIENT''
                          \<in> set (fs_evidence st (ca_pair c))) assessments
        then [''NEW_ENTRY_FEE_ADJUSTED_RETURN_INSUFFICIENT''] else [])"

definition selected_reason :: "universe_policy \<Rightarrow> selection_input \<Rightarrow> candidate \<Rightarrow> string" where
  "selected_reason p si c =
     (let calibrated = (dp_expected_return_calibration_mode p \<noteq> ''DISABLED'')
      in if ca_pair c \<in> si_held_pairs si
         then (if calibrated then ''HELD_WITH_POSITIVE_EXPECTED_RELATIVE_RETURN''
               else ''HELD_WITHIN_EXIT_HYSTERESIS'')
         else (if calibrated then ''ENTRY_CONFIRMED_ABOVE_FEE_ADJUSTED_HURDLE''
               else ''ENTRY_CONFIRMED_ABOVE_COST_HURDLE''))"

definition equal_target_weight :: "universe_policy \<Rightarrow> nat \<Rightarrow> decimal" where
  "equal_target_weight p n =
     dquot (min (dp_invested_fraction p) (dmul (dp_maximum_asset_weight p) (of_nat n))) (of_nat n)"

definition ranked_candidates ::
    "universe_policy \<Rightarrow> selection_input \<Rightarrow> candidate list \<Rightarrow> fill_state result" where
  "ranked_candidates p si assessments =
     (let scored = scored_candidates p assessments;
          cap = entry_volatility_cap p scored;
          retained = filter (is_retained p si scored) scored;
          entrants = filter (is_entrant p si cap) scored
      in bind_result
           (fill_positions p entrants
              \<lparr>fs_ranked = py_take (dp_maximum_positions p) (sort_on score_key retained),
               fs_evidence = initial_evidence p si scored cap,
               fs_score_blocked = False, fs_return_blocked = False\<rparr>)
           (\<lambda>st. Inr (st\<lparr>fs_ranked := sort_on score_key (fs_ranked st)\<rparr>)))"

type_synonym selection = "selected_asset list \<times> string list \<times> evidence"

definition select_detailed ::
    "universe_policy \<Rightarrow> candidate list \<Rightarrow> selection_input \<Rightarrow> selection result" where
  "select_detailed p assessments si =
     bind_result (ranked_candidates p si assessments) (\<lambda>st.
       (let scored = scored_candidates p assessments;
            cap = entry_volatility_cap p scored;
            reasons = dict_fromkeys (selection_reasons p si assessments scored cap st);
            frozen = (\<lambda>pair. dict_fromkeys (fs_evidence st pair));
            ranked = fs_ranked st
        in Inr (map (\<lambda>c. \<lparr>sa_pair = ca_pair c, sa_score = opt_val (ca_score c),
                          sa_target_weight = equal_target_weight p (length ranked),
                          sa_reason = selected_reason p si c\<rparr>) ranked,
                reasons, frozen)))"

definition entry_signal_eligibility ::
    "universe_policy \<Rightarrow> candidate list \<Rightarrow> string option \<Rightarrow> string set" where
  "entry_signal_eligibility p assessments entry_block_reason =
     (let scored = scored_candidates p assessments;
          cap = entry_volatility_cap p scored
      in if entry_block_reason \<noteq> None then {}
         else ca_pair ` set (filter (\<lambda>c. score_above c (effective_entry_score_hurdle p)
                                     \<and> entry_guard_reason p cap c = None
                                     \<and> fee_adjusted_entry_return_passes p c) scored))"

section \<open>Control variants\<close>

record selection_variant =
  sv_variant_id :: string
  sv_selected :: "selected_asset list"

definition variant_of ::
    "universe_policy \<Rightarrow> candidate list \<Rightarrow> selection_input \<Rightarrow> string \<Rightarrow> string option
     \<Rightarrow> selection_variant result" where
  "variant_of p assessments si variant_id block_reason =
     bind_result (select_detailed p assessments (si\<lparr>si_entry_block_reason := block_reason\<rparr>))
       (\<lambda>(selected, _, _). Inr \<lparr>sv_variant_id = variant_id, sv_selected = selected\<rparr>)"

definition v25_control_policy :: "universe_policy \<Rightarrow> universe_policy" where
  "v25_control_policy p =
     p\<lparr>dp_minimum_entry_momentum_4h := Some 0,
       dp_maximum_entry_momentum_4h := Some (flt (15 / 1000)),
       dp_maximum_entry_volatility := Some (flt (12 / 1000)),
       dp_maximum_entry_volatility_quantile := Some (flt (80 / 100)),
       dp_maximum_holding_period := Some (hours 4),
       dp_extreme_score_penalty_threshold := Some (flt (80 / 100)),
       dp_extreme_score_maximum_penalty := flt (25 / 100),
       dp_derivatives_overlay_mode := ''SHADOW'',
       dp_derivatives_minimum_funding_rate := None,
       dp_derivatives_minimum_basis_input_rate := None,
       dp_derivatives_minimum_global_long_short_ratio := None\<rparr>"

text \<open>The V2.5 control reapplies the old penalty to the recorded raw scores.\<close>

definition repenalised :: "universe_policy \<Rightarrow> candidate list \<Rightarrow> candidate list result" where
  "repenalised control assessments =
     map_result (\<lambda>c. if ca_raw_score c \<noteq> None then with_score_evidence control c (ca_raw_score c)
                     else Inr c) assessments"

definition selection_variants ::
    "universe_policy \<Rightarrow> candidate list \<Rightarrow> selection_input \<Rightarrow> decision_overlay option
     \<Rightarrow> selection_variant list result" where
  "selection_variants p assessments si overlay =
     (let version = dp_strategy_version p
      in if version = ''dynamic-intraday-v2.7-accuracy-v1''
         then map_result (\<lambda>(variant_id, reason). variant_of p assessments si variant_id reason)
                [(''v2.7a-momentum-only'', None),
                 (''v2.7b-raw-derivatives'', raw_derivatives_entry_block_reason p overlay),
                 (''v2.7c-crowding-only'', crowding_entry_block_reason p overlay),
                 (''v2.7d-production-gates'', derivatives_entry_block_reason p overlay)]
         else if version = ''dynamic-intraday-v2.5''
         then let control = p\<lparr>dp_minimum_entry_momentum_4h := Some (flt (- (3 / 100)))\<rparr>
              in bind_result (variant_of control assessments si ''v2.4-rule-control''
                   (derivatives_entry_block_reason control overlay)) (\<lambda>v. Inr [v])
         else if version = ''dynamic-intraday-v2.6''
         then let control = v25_control_policy p
              in bind_result (repenalised control assessments) (\<lambda>cs.
                 bind_result (variant_of control cs si ''v2.5-rule-control''
                   (derivatives_entry_block_reason control overlay)) (\<lambda>v. Inr [v]))
         else if version = ''dynamic-intraday-v2.7''
         then bind_result (dynamic_policy_for_version ''dynamic-intraday-v2.6'') (\<lambda>control.
              bind_result (variant_of control assessments si ''v2.6-rule-control''
                   (derivatives_entry_block_reason control overlay)) (\<lambda>v. Inr [v]))
         else Inr [])"

section \<open>The scored cross-section\<close>

lemma set_most_liquid: "set (most_liquid p cs) \<subseteq> set cs"
  unfolding most_liquid_def using set_py_take [of "dp_maximum_candidates p" "sort_on liquidity_key cs"] by simp

lemma set_scored: "c \<in> set (scored_candidates p cs) \<Longrightarrow> c \<in> set cs \<and> ca_eligible c"
  using set_most_liquid [of p "filter ca_eligible cs"] by (auto simp: scored_candidates_def)

lemma distinct_scored:
  "distinct (map ca_pair cs) \<Longrightarrow> distinct (map ca_pair (scored_candidates p cs))"
  by (simp add: scored_candidates_def most_liquid_def distinct_map_py_take distinct_map_filter)

section \<open>Filling the positions\<close>

lemma weakest_of_None [simp]: "weakest_of cs = None \<longleftrightarrow> cs = []"
  by (induction cs) (auto split: option.splits)

lemma weakest_of_in: "weakest_of cs = Some w \<Longrightarrow> w \<in> set cs"
  by (induction cs arbitrary: w) (auto split: option.splits if_splits)

lemma weakest_of_least:
  "weakest_of cs = Some w \<Longrightarrow> c \<in> set cs \<Longrightarrow> opt_val (ca_score w) \<le> opt_val (ca_score c)"
proof (induction cs arbitrary: w)
  case (Cons d ds)
  show ?case
  proof (cases "weakest_of ds")
    case None
    with Cons.prems show ?thesis by simp
  next
    case (Some v)
    have "opt_val (ca_score v) \<le> opt_val (ca_score c)" if "c \<in> set ds" using Cons.IH [OF Some that] .
    then show ?thesis using Cons.prems Some by (auto simp: key_le_def split: if_splits)
  qed
qed simp

lemma fill_one_cases:
  assumes "fill_one p e st = Inr st'"
  obtains (same) "fs_ranked st' = fs_ranked st"
    | (room) "int (length (fs_ranked st)) < dp_maximum_positions p" "fs_ranked st' = fs_ranked st @ [e]"
    | (replaced) w where "weakest_of (fs_ranked st) = Some w" "replacement_score_passes p e w"
        "fee_adjusted_replacement_passes p e w" "fs_ranked st' = remove1 w (fs_ranked st) @ [e]"
  using assms by (auto simp: fill_one_def Let_def split: if_splits option.splits)

text \<open>What holds of the positions throughout: they come from the cross-section, once each, within the limit.\<close>

definition positions_ok :: "universe_policy \<Rightarrow> (candidate \<Rightarrow> bool) \<Rightarrow> candidate list \<Rightarrow> bool" where
  "positions_ok p good cs =
     (int (length cs) \<le> max 0 (dp_maximum_positions p) \<and> distinct (map ca_pair cs) \<and> (\<forall>c \<in> set cs. good c))"

lemma fill_one_ok:
  assumes "fill_one p e st = Inr st'" "positions_ok p good (fs_ranked st)" "good e"
    "ca_pair e \<notin> ca_pair ` set (fs_ranked st)"
  shows "positions_ok p good (fs_ranked st') \<and> set (fs_ranked st') \<subseteq> insert e (set (fs_ranked st))"
  using assms(1)
proof (cases rule: fill_one_cases)
  case (replaced w)
  have w: "w \<in> set (fs_ranked st)" by (rule weakest_of_in [OF replaced(1)])
  have "distinct (map ca_pair (remove1 w (fs_ranked st)))" "set (remove1 w (fs_ranked st)) \<subseteq> set (fs_ranked st)"
    using assms(2) set_remove1_subset [of w "fs_ranked st"]
    by (auto simp: positions_ok_def distinct_map intro: inj_on_subset)
  moreover have "length (remove1 w (fs_ranked st) @ [e]) = length (fs_ranked st)"
    using w length_pos_if_in_set [OF w] by (simp add: length_remove1)
  ultimately show ?thesis
    using assms w replaced(4) by (auto simp: positions_ok_def simp del: length_append)
qed (use assms in \<open>auto simp: positions_ok_def\<close>)

lemma disjoint_insert_subset: "X \<subseteq> insert e Y \<Longrightarrow> e \<notin> Z \<Longrightarrow> Z \<inter> Y = {} \<Longrightarrow> Z \<inter> X = {}"
  by blast

lemma fill_positions_ok:
  assumes "fill_positions p es st = Inr st'" "positions_ok p good (fs_ranked st)" "\<forall>e \<in> set es. good e"
    "distinct (map ca_pair es)" "ca_pair ` set es \<inter> ca_pair ` set (fs_ranked st) = {}"
  shows "positions_ok p good (fs_ranked st') \<and> set (fs_ranked st') \<subseteq> set es \<union> set (fs_ranked st)"
  using assms
proof (induction es arbitrary: st)
  case (Cons e es)
  obtain st1 where one: "fill_one p e st = Inr st1" and rest: "fill_positions p es st1 = Inr st'"
    using Cons.prems(1) by (auto simp: py_result)
  have st1: "positions_ok p good (fs_ranked st1)" "set (fs_ranked st1) \<subseteq> insert e (set (fs_ranked st))"
    using fill_one_ok [OF one Cons.prems(2)] Cons.prems by auto
  have "ca_pair ` set (fs_ranked st1) \<subseteq> insert (ca_pair e) (ca_pair ` set (fs_ranked st))" using st1(2) by blast
  then have dis: "ca_pair ` set es \<inter> ca_pair ` set (fs_ranked st1) = {}"
    by (rule disjoint_insert_subset) (use Cons.prems(4,5) in simp_all)
  have "positions_ok p good (fs_ranked st') \<and> set (fs_ranked st') \<subseteq> set es \<union> set (fs_ranked st1)"
    by (rule Cons.IH [OF rest st1(1) _ _ dis]) (use Cons.prems(3,4) in simp_all)
  with st1(2) show ?case by auto
qed simp

text \<open>A position is given up only to a candidate that beats it by the replacement advantage.\<close>

definition displaced_ok :: "universe_policy \<Rightarrow> candidate list \<Rightarrow> candidate list \<Rightarrow> bool" where
  "displaced_ok p start now =
     (\<forall>w \<in> set start. w \<in> set now \<or>
        (\<exists>e \<in> set now. fadd (opt_val (ca_score w)) (dp_minimum_replacement_score_advantage p) \<le> opt_val (ca_score e)))"

lemma fill_one_displaced:
  assumes one: "fill_one p e st = Inr st'" and d: "displaced_ok p start (fs_ranked st)"
    and adv: "0 \<le> dp_minimum_replacement_score_advantage p"
    and f: "\<forall>c \<in> set (fs_ranked st). flt (opt_val (ca_score c)) = opt_val (ca_score c)"
  shows "displaced_ok p start (fs_ranked st')"
  using one
proof (cases rule: fill_one_cases)
  case (replaced w)
  have w: "w \<in> set (fs_ranked st)" by (rule weakest_of_in [OF replaced(1)])
  have beat: "fadd (opt_val (ca_score w)) (dp_minimum_replacement_score_advantage p) \<le> opt_val (ca_score e)"
    using replaced(2) by (simp add: replacement_score_passes_def)
  have "opt_val (ca_score w) \<le> fadd (opt_val (ca_score w)) (dp_minimum_replacement_score_advantage p)"
    unfolding fadd_def by (rule flt.rnd_ge_fixed) (use adv f w in auto)
  with beat have le: "opt_val (ca_score w) \<le> opt_val (ca_score e)" by linarith
  have keep: "x \<in> set (remove1 w (fs_ranked st))" if "x \<in> set (fs_ranked st)" "x \<noteq> w" for x
    using that by (simp add: in_set_remove1)
  show ?thesis unfolding displaced_ok_def
  proof
    fix v assume v: "v \<in> set start"
    then consider "v \<in> set (fs_ranked st)"
      | x where "x \<in> set (fs_ranked st)"
          "fadd (opt_val (ca_score v)) (dp_minimum_replacement_score_advantage p) \<le> opt_val (ca_score x)"
      using d by (auto simp: displaced_ok_def)
    then show "v \<in> set (fs_ranked st') \<or> (\<exists>e \<in> set (fs_ranked st').
        fadd (opt_val (ca_score v)) (dp_minimum_replacement_score_advantage p) \<le> opt_val (ca_score e))"
    proof cases
      case 1
      then show ?thesis using keep [of v] beat replaced(4) by (cases "v = w") auto
    next
      case 2
      then show ?thesis using keep [of x] le replaced(4) by (cases "x = w") force+
    qed
  qed
qed (use d in \<open>auto simp: displaced_ok_def\<close>)

lemma fill_positions_displaced:
  assumes "fill_positions p es st = Inr st'" "displaced_ok p start (fs_ranked st)"
    "0 \<le> dp_minimum_replacement_score_advantage p"
    "\<forall>c \<in> set es \<union> set (fs_ranked st). flt (opt_val (ca_score c)) = opt_val (ca_score c)"
  shows "displaced_ok p start (fs_ranked st')"
  using assms
proof (induction es arbitrary: st)
  case (Cons e es)
  obtain st1 where one: "fill_one p e st = Inr st1" and rest: "fill_positions p es st1 = Inr st'"
    using Cons.prems(1) by (auto simp: py_result)
  have "set (fs_ranked st1) \<subseteq> insert e (set (fs_ranked st))"
    using one by (cases rule: fill_one_cases) (auto dest: notin_set_remove1)
  then show ?case
    by (intro Cons.IH [OF rest fill_one_displaced [OF one Cons.prems(2,3)] Cons.prems(3)]) (use Cons.prems(4) in auto)
qed simp

text \<open>With room for at least one position the loop never asks for the weakest of nothing.\<close>

lemma fill_one_total:
  assumes "0 < dp_maximum_positions p"
  shows "\<exists>st'. fill_one p e st = Inr st'"
  using assms by (cases "weakest_of (fs_ranked st)") (auto simp: fill_one_def Let_def)

lemma fill_positions_total:
  assumes "0 < dp_maximum_positions p"
  shows "\<exists>st'. fill_positions p es st = Inr st'"
proof (induction es arbitrary: st)
  case (Cons e es)
  obtain st1 where "fill_one p e st = Inr st1" using fill_one_total [OF assms] by blast
  with Cons.IH show ?case by simp
qed simp

text \<open>The positions before any entry: the best retained holdings.\<close>

definition retained_start :: "universe_policy \<Rightarrow> selection_input \<Rightarrow> candidate list \<Rightarrow> candidate list" where
  "retained_start p si cs =
     (let scored = scored_candidates p cs
      in py_take (dp_maximum_positions p) (sort_on score_key (filter (is_retained p si scored) scored)))"

definition may_hold :: "universe_policy \<Rightarrow> selection_input \<Rightarrow> candidate list \<Rightarrow> candidate \<Rightarrow> bool" where
  "may_hold p si cs c =
     (let scored = scored_candidates p cs
      in c \<in> set scored \<and> (is_retained p si scored c \<or> is_entrant p si (entry_volatility_cap p scored) c))"

lemma set_retained_start:
  "c \<in> set (retained_start p si cs) \<Longrightarrow>
     c \<in> set (scored_candidates p cs) \<and> is_retained p si (scored_candidates p cs) c"
  using set_py_take [of "dp_maximum_positions p"] by (fastforce simp: retained_start_def Let_def)

lemma retained_start_ok:
  assumes "distinct (map ca_pair cs)" and n: "0 < dp_maximum_positions p"
  shows "positions_ok p (may_hold p si cs) (retained_start p si cs)"
proof -
  let ?r = "sort_on score_key (filter (is_retained p si (scored_candidates p cs)) (scored_candidates p cs))"
  have "distinct (map ca_pair (retained_start p si cs))"
    using distinct_scored [OF assms(1), of p]
    by (simp add: retained_start_def Let_def distinct_map_py_take distinct_map_filter)
  moreover have "int (length (retained_start p si cs)) \<le> dp_maximum_positions p"
    using length_py_take [of "dp_maximum_positions p" ?r] n by (simp add: retained_start_def Let_def)
  ultimately show ?thesis
    using set_retained_start [of _ p si cs] by (auto simp: positions_ok_def may_hold_def Let_def)
qed

lemma ranked_candidates_Inr:
  assumes "ranked_candidates p si cs = Inr st"
  obtains st0 where
    "fill_positions p (filter (is_entrant p si (entry_volatility_cap p (scored_candidates p cs))) (scored_candidates p cs))
       \<lparr>fs_ranked = retained_start p si cs,
        fs_evidence = initial_evidence p si (scored_candidates p cs) (entry_volatility_cap p (scored_candidates p cs)),
        fs_score_blocked = False, fs_return_blocked = False\<rparr> = Inr st0"
    "fs_ranked st = sort_on score_key (fs_ranked st0)"
  using assms by (auto simp: ranked_candidates_def retained_start_def Let_def py_result)

lemma ranked_sorted:
  "ranked_candidates p si cs = Inr st \<Longrightarrow> \<exists>st0. fs_ranked st = sort_on score_key (fs_ranked (st0 :: fill_state))"
  by (auto simp: ranked_candidates_def py_result Let_def)

lemma ranked_ok:
  assumes "ranked_candidates p si cs = Inr st" "distinct (map ca_pair cs)" "0 < dp_maximum_positions p"
  shows "positions_ok p (may_hold p si cs) (fs_ranked st)"
  using assms(1)
proof (cases rule: ranked_candidates_Inr)
  case (1 st0)
  let ?s = "scored_candidates p cs"
  let ?e = "filter (is_entrant p si (entry_volatility_cap p ?s)) ?s"
  have "positions_ok p (may_hold p si cs) (fs_ranked st0)"
  proof (rule conjunct1 [OF fill_positions_ok [OF 1(1)]])
    show "distinct (map ca_pair ?e)" using distinct_scored [OF assms(2), of p] by (simp add: distinct_map_filter)
    have "ca_pair c \<in> si_held_pairs si" if "c \<in> set (retained_start p si cs)" for c
      using set_retained_start [OF that] by (simp add: is_retained_def)
    moreover have "ca_pair c \<notin> si_held_pairs si" if "c \<in> set ?e" for c using that by (simp add: is_entrant_def)
    ultimately show "ca_pair ` set ?e \<inter> ca_pair ` set (fs_ranked \<lparr>fs_ranked = retained_start p si cs,
        fs_evidence = initial_evidence p si ?s (entry_volatility_cap p ?s),
        fs_score_blocked = False, fs_return_blocked = False\<rparr>) = {}" by force
  qed (use retained_start_ok [OF assms(2,3), of si] in \<open>simp_all add: may_hold_def Let_def\<close>)
  then show ?thesis by (simp add: 1(2) positions_ok_def)
qed

lemma ranked_total: "0 < dp_maximum_positions p \<Longrightarrow> \<exists>st. ranked_candidates p si cs = Inr st"
  using fill_positions_total [of p] by (fastforce simp: ranked_candidates_def Let_def py_result)

lemma select_detailed_Inr:
  "select_detailed p cs si = Inr (selected, reasons, ev) \<longleftrightarrow>
    (\<exists>st. ranked_candidates p si cs = Inr st
      \<and> selected = map (\<lambda>c. \<lparr>sa_pair = ca_pair c, sa_score = opt_val (ca_score c),
                          sa_target_weight = equal_target_weight p (length (fs_ranked st)),
                          sa_reason = selected_reason p si c\<rparr>) (fs_ranked st)
      \<and> reasons = dict_fromkeys (selection_reasons p si cs (scored_candidates p cs)
            (entry_volatility_cap p (scored_candidates p cs)) st)
      \<and> ev = (\<lambda>pair. dict_fromkeys (fs_evidence st pair)))"
  by (auto simp: select_detailed_def py_result Let_def)


lemma dec_tenths:
  "dec (2 / 5) = 2 / 5" "dec (4 / 5) = 4 / 5" "dec (6 / 5) = 6 / 5" "dec (3 / 10) = 3 / 10"
  "dec (1 / 4) = 1 / 4" "dec (1 / 2) = 1 / 2"
  using dec_exact [of 4 "- 1"] dec_exact [of 8 "- 1"] dec_exact [of 12 "- 1"] dec_exact [of 3 "- 1"]
    dec_exact [of 25 "- 2"] dec_exact [of 5 "- 1"]
  by (simp_all add: power_int_minus field_simps)

lemma equal_weight_values:
  "dquot (min (9 / 10) (dmul (4 / 10) (of_nat 1))) (of_nat 1) = 4 / 10"
  "dquot (min (9 / 10) (dmul (4 / 10) (of_nat 2))) (of_nat 2) = 4 / 10"
  "dquot (min (9 / 10) (dmul (4 / 10) (of_nat 3))) (of_nat 3) = 3 / 10"
  "dquot (min (50 / 100) (dmul (25 / 100) (of_nat 1))) (of_nat 1) = 25 / 100"
  "dquot (min (50 / 100) (dmul (25 / 100) (of_nat 2))) (of_nat 2) = 25 / 100"
  by (simp_all add: decimal_defs dec_tenths)

lemma equal_target_weights:
  assumes l: "published_limits p" and n: "0 < n" "int n \<le> dp_maximum_positions p"
  shows "0 < equal_target_weight p n \<and> equal_target_weight p n \<le> dp_maximum_asset_weight p
    \<and> of_nat n * equal_target_weight p n \<le> dp_invested_fraction p"
proof -
  have "n \<le> 3" using l n(2) by (auto simp: published_limits_def)
  with n(1) have m: "n = 1 \<or> n = 2 \<or> n = 3" by auto
  from l have "(dp_maximum_positions p, dp_maximum_asset_weight p, dp_invested_fraction p) = (3, 4 / 10, 9 / 10)
      \<or> (dp_maximum_positions p, dp_maximum_asset_weight p, dp_invested_fraction p) = (2, 25 / 100, 50 / 100)"
    unfolding published_limits_def by blast
  then consider "dp_maximum_positions p = 3" "dp_maximum_asset_weight p = 4 / 10" "dp_invested_fraction p = 9 / 10"
    | "dp_maximum_positions p = 2" "dp_maximum_asset_weight p = 25 / 100" "dp_invested_fraction p = 50 / 100"
    unfolding prod.inject by blast
  then show ?thesis
  proof cases
    case 1
    from m show ?thesis unfolding equal_target_weight_def 1(2,3)
      by (elim disjE) (simp_all only: equal_weight_values, simp_all)
  next
    case 2
    from m n(2) have "n = 1 \<or> n = 2" unfolding 2(1) by auto
    then show ?thesis unfolding equal_target_weight_def 2(2,3)
      by (elim disjE) (simp_all only: equal_weight_values, simp_all)
  qed
qed


section \<open>Sample values\<close>

definition sample_candidate :: candidate where
  "sample_candidate = (rejected ''BTCKRW'' ''ELIGIBLE'')
     \<lparr>ca_eligible := True, ca_score := Some 1, ca_average_quote_volume := Some 10\<rparr>"

definition sample_selection :: "string option \<Rightarrow> selection_input" where
  "sample_selection reason =
     \<lparr>si_held_pairs = {''BTCKRW''}, si_previous_scores = Map.empty, si_recent_exits = {}, si_expired = {},
      si_confirmation_counts = Some Map.empty, si_concentration_blocked = {}, si_rolling_loss_blocked = {},
      si_entry_block_reason = reason\<rparr>"

lemma sample_scored: "scored_candidates policy_v22 [sample_candidate] = [sample_candidate]"
  by (simp add: scored_candidates_def most_liquid_def sort_on_def sort_by_def py_take_def sample_candidate_def
      policy_v22_def policy_v21_def)

lemma sample_retained: "is_retained policy_v22 (sample_selection reason) [sample_candidate] sample_candidate"
proof -
  have "flt (45 / 100) \<le> 9 / 10"
  proof -
    have "flt (45 / 100) \<le> flt (1 / 2)" by (rule flt.rnd_mono) simp
    also have "flt (1 / 2) = 1 / 2" using flt_exact [of 1 "- 1"] by (simp add: power_int_minus)
    finally show ?thesis by simp
  qed
  then show ?thesis
    by (simp add: is_retained_def sample_candidate_def sample_selection_def rejected_def score_above_def rank_in_def
        hold_guard_reason_def lt_limit_def gt_limit_def expected_hold_return_passes_def policy_v22_def policy_v21_def)
qed

lemma sample_two [simp]: "dp_maximum_positions policy_v22 = 2"
  by (simp add: policy_v22_def)

lemma sample_start: "retained_start policy_v22 (sample_selection reason) [sample_candidate] = [sample_candidate]"
  by (simp add: retained_start_def Let_def sample_scored sample_retained sort_on_def sort_by_def py_take_def)

lemma sample_positions: "0 < dp_maximum_positions policy_v22"
  by simp


section \<open>Properties\<close>

text \<open>C8: The selection always returns when at least one position is allowed; it selects at most that many assets, each once and in order of falling score, and every selected asset is an eligible candidate with a score that is either a held market that passes every hold rule or a market not held that passes every entry rule.\<close>

theorem selection_sound:
  assumes d: "distinct (map ca_pair cs)" and n: "0 < dp_maximum_positions p"
  shows "\<exists>selected reasons ev. select_detailed p cs si = Inr (selected, reasons, ev)
    \<and> int (length selected) \<le> dp_maximum_positions p \<and> distinct (map sa_pair selected)
    \<and> sorted_wrt (\<lambda>a b. sa_score b \<le> sa_score a) selected
    \<and> (\<forall>s \<in> set selected. \<exists>c \<in> set cs. ca_pair c = sa_pair s \<and> ca_eligible c \<and> ca_score c = Some (sa_score s)
        \<and> (if sa_pair s \<in> si_held_pairs si then is_retained p si (scored_candidates p cs) c
           else is_entrant p si (entry_volatility_cap p (scored_candidates p cs)) c))"
proof -
  obtain st where st: "ranked_candidates p si cs = Inr st" using ranked_total [OF n] by blast
  have ok: "positions_ok p (may_hold p si cs) (fs_ranked st)" by (rule ranked_ok [OF st d n])
  let ?sel = "map (\<lambda>c. \<lparr>sa_pair = ca_pair c, sa_score = opt_val (ca_score c),
      sa_target_weight = equal_target_weight p (length (fs_ranked st)),
      sa_reason = selected_reason p si c\<rparr>) (fs_ranked st)"
  have "distinct (map sa_pair ?sel)" using ok by (simp add: positions_ok_def comp_def)
  moreover have "sorted_wrt (\<lambda>a b. sa_score b \<le> sa_score a) ?sel"
  proof -
    obtain st0 :: fill_state where "fs_ranked st = sort_on score_key (fs_ranked st0)"
      using ranked_sorted [OF st] by blast
    then have "sorted_wrt (\<lambda>a b. key_le (score_key a) (score_key b)) (fs_ranked st)" by (simp add: sorted_sort_on)
    then show ?thesis
      unfolding sorted_wrt_map by (rule sorted_wrt_mono_rel [rotated]) (auto simp: key_le_def score_key_def)
  qed
  moreover have "\<exists>c \<in> set cs. ca_pair c = sa_pair s \<and> ca_eligible c \<and> ca_score c = Some (sa_score s)
        \<and> (if sa_pair s \<in> si_held_pairs si then is_retained p si (scored_candidates p cs) c
           else is_entrant p si (entry_volatility_cap p (scored_candidates p cs)) c)" if s: "s \<in> set ?sel" for s
  proof -
    obtain c where c: "c \<in> set (fs_ranked st)" "sa_pair s = ca_pair c" "sa_score s = opt_val (ca_score c)"
      using s by auto
    then have m: "may_hold p si cs c" using ok by (simp add: positions_ok_def)
    then have "c \<in> set cs" "ca_eligible c" using set_scored [of c p cs] by (auto simp: may_hold_def Let_def)
    moreover have "ca_score c = Some (opt_val (ca_score c))"
      using m by (auto simp: may_hold_def Let_def is_retained_def is_entrant_def score_above_def opt_val_def
          split: option.splits)
    ultimately show ?thesis using m c by (auto simp: may_hold_def Let_def is_retained_def is_entrant_def)
  qed
  moreover have "int (length ?sel) \<le> dp_maximum_positions p" using ok n by (simp add: positions_ok_def)
  ultimately show ?thesis using st by (auto simp: select_detailed_Inr)
qed

lemma selection_sound_witness:
  "\<exists>selected reasons ev. select_detailed policy_v22 [sample_candidate] (sample_selection None) = Inr (selected, reasons, ev)
     \<and> int (length selected) \<le> 2"
  using selection_sound [of "[sample_candidate]" policy_v22 "sample_selection None", OF _ sample_positions]
  by auto

text \<open>C9: A reason that blocks entries blocks all of them and nothing else: the selection is then exactly the best retained holdings, so no market is bought that is not held, and no holding that passes its rules is dropped for want of market data.\<close>

theorem entry_block_keeps_holdings:
  assumes b: "si_entry_block_reason si = Some reason"
  shows "\<exists>selected reasons ev. select_detailed p cs si = Inr (selected, reasons, ev)
    \<and> map sa_pair selected = map ca_pair (sort_on score_key (retained_start p si cs))
    \<and> sa_pair ` set selected \<subseteq> si_held_pairs si \<and> reason \<in> set reasons
    \<and> (length (filter (is_retained p si (scored_candidates p cs)) (scored_candidates p cs)) \<le> nat (dp_maximum_positions p)
        \<longrightarrow> (\<forall>c \<in> set (scored_candidates p cs). is_retained p si (scored_candidates p cs) c \<longrightarrow> ca_pair c \<in> sa_pair ` set selected))"
proof -
  let ?s = "scored_candidates p cs"
  have none: "filter (is_entrant p si (entry_volatility_cap p ?s)) ?s = []"
    using b by (auto simp: filter_empty_conv is_entrant_def)
  obtain st where st: "ranked_candidates p si cs = Inr st" and r: "fs_ranked st = sort_on score_key (retained_start p si cs)"
    by (simp add: ranked_candidates_def retained_start_def Let_def none)
  have held: "ca_pair c \<in> si_held_pairs si" if "c \<in> set (retained_start p si cs)" for c
    using set_retained_start [OF that] by (simp add: is_retained_def)
  have all: "set (retained_start p si cs) = set (filter (is_retained p si ?s) ?s)"
    if "length (filter (is_retained p si ?s) ?s) \<le> nat (dp_maximum_positions p)"
  proof (cases "0 \<le> dp_maximum_positions p")
    case True
    with that show ?thesis by (simp add: retained_start_def Let_def py_take_def)
  next
    case False
    with that have "filter (is_retained p si ?s) ?s = []" by simp
    then show ?thesis by (simp add: retained_start_def Let_def py_take_def sort_on_def sort_by_def)
  qed
  have "reason \<in> set (selection_reasons p si cs ?s (entry_volatility_cap p ?s) st)"
    by (simp add: selection_reasons_def b opt_list_def)
  then show ?thesis
    using st r held all by (auto simp: select_detailed_Inr image_image)
qed

lemma entry_block_keeps_holdings_witness:
  "\<exists>selected reasons ev. select_detailed policy_v22 [sample_candidate] (sample_selection (Some ''BLOCKED''))
      = Inr (selected, reasons, ev)
     \<and> map sa_pair selected = [''BTCKRW''] \<and> ''BLOCKED'' \<in> set reasons"
proof -
  have "si_entry_block_reason (sample_selection (Some ''BLOCKED'')) = Some ''BLOCKED''" by (simp add: sample_selection_def)
  from entry_block_keeps_holdings [OF this, of policy_v22 "[sample_candidate]"] show ?thesis
    unfolding sample_start by (auto simp: sort_on_def sort_by_def sample_candidate_def rejected_def)
qed

text \<open>Holdings are replaced with hysteresis: with room for every retained holding and a replacement advantage that is not negative, a retained holding is missing from the selection only if a selected market beats its score by at least that advantage.\<close>

lemma replacement_needs_advantage:
  assumes n: "0 < dp_maximum_positions p" and adv: "0 \<le> dp_minimum_replacement_score_advantage p"
    and f: "\<forall>c \<in> set cs. flt (opt_val (ca_score c)) = opt_val (ca_score c)"
    and sel: "select_detailed p cs si = Inr (selected, reasons, ev)"
    and c: "c \<in> set (retained_start p si cs)"
  shows "ca_pair c \<in> sa_pair ` set selected
    \<or> (\<exists>s \<in> set selected. fadd (opt_val (ca_score c)) (dp_minimum_replacement_score_advantage p) \<le> sa_score s)"
proof -
  let ?s = "scored_candidates p cs"
  obtain st where st: "ranked_candidates p si cs = Inr st"
    and selected: "selected = map (\<lambda>c. \<lparr>sa_pair = ca_pair c, sa_score = opt_val (ca_score c),
      sa_target_weight = equal_target_weight p (length (fs_ranked st)),
      sa_reason = selected_reason p si c\<rparr>) (fs_ranked st)"
    using sel by (auto simp: select_detailed_Inr)
  from st have "displaced_ok p (retained_start p si cs) (fs_ranked st)"
  proof (cases rule: ranked_candidates_Inr)
    case (1 st0)
    have "displaced_ok p (retained_start p si cs) (fs_ranked st0)"
    proof (rule fill_positions_displaced [OF 1(1) _ adv])
      show "\<forall>c \<in> set (filter (is_entrant p si (entry_volatility_cap p ?s)) ?s) \<union>
          set (fs_ranked \<lparr>fs_ranked = retained_start p si cs,
            fs_evidence = initial_evidence p si ?s (entry_volatility_cap p ?s),
            fs_score_blocked = False, fs_return_blocked = False\<rparr>).
          flt (opt_val (ca_score c)) = opt_val (ca_score c)"
        using f set_scored [of _ p cs] set_retained_start [of _ p si cs] by auto
    qed (simp add: displaced_ok_def)
    then show ?thesis by (simp add: displaced_ok_def 1(2))
  qed
  with c consider "c \<in> set (fs_ranked st)"
    | e where "e \<in> set (fs_ranked st)"
        "fadd (opt_val (ca_score c)) (dp_minimum_replacement_score_advantage p) \<le> opt_val (ca_score e)"
    unfolding displaced_ok_def by blast
  then show ?thesis by cases (auto simp: selected image_image)
qed

text \<open>C10: Under every published profile the selected target weights are positive, none exceeds the asset limit of the profile, and together they never exceed its invested fraction.\<close>

theorem selection_weights_bounded:
  assumes v: "dynamic_policy_for_version v = Inr p" and d: "distinct (map ca_pair cs)"
    and sel: "select_detailed p cs si = Inr (selected, reasons, ev)"
  shows "(\<forall>s \<in> set selected. 0 < sa_target_weight s \<and> sa_target_weight s \<le> dp_maximum_asset_weight p)
    \<and> sum_list (map sa_target_weight selected) \<le> dp_invested_fraction p"
proof -
  have l: "published_limits p" by (rule policy_limits [OF v])
  obtain st where st: "ranked_candidates p si cs = Inr st"
    and selected: "selected = map (\<lambda>c. \<lparr>sa_pair = ca_pair c, sa_score = opt_val (ca_score c),
      sa_target_weight = equal_target_weight p (length (fs_ranked st)),
      sa_reason = selected_reason p si c\<rparr>) (fs_ranked st)"
    using sel by (auto simp: select_detailed_Inr)
  have n: "0 < dp_maximum_positions p" using l by (auto simp: published_limits_def)
  have len: "int (length (fs_ranked st)) \<le> dp_maximum_positions p"
    using ranked_ok [OF st d n] n by (simp add: positions_ok_def)
  have sum: "sum_list (map sa_target_weight selected) =
      of_nat (length (fs_ranked st)) * equal_target_weight p (length (fs_ranked st))"
    unfolding selected by (induction "fs_ranked st") (simp_all add: comp_def sum_list_triv)
  show ?thesis
  proof (cases "fs_ranked st = []")
    case True
    then show ?thesis using l by (auto simp: selected published_limits_def)
  next
    case False
    then show ?thesis
      using equal_target_weights [OF l _ len] unfolding sum by (auto simp: selected)
  qed
qed

lemma selection_weights_bounded_witness:
  "\<exists>p selected reasons ev. dynamic_policy_for_version ''dynamic-intraday-v2.2'' = Inr p
     \<and> select_detailed p [sample_candidate] (sample_selection (Some ''BLOCKED'')) = Inr (selected, reasons, ev)
     \<and> sum_list (map sa_target_weight selected) \<le> dp_invested_fraction p"
proof -
  have v: "dynamic_policy_for_version ''dynamic-intraday-v2.2'' = Inr policy_v22"
    by (simp add: dynamic_policy_for_version_def)
  have d: "distinct (map ca_pair [sample_candidate])" by simp
  obtain st where "ranked_candidates policy_v22 (sample_selection (Some ''BLOCKED'')) [sample_candidate] = Inr st"
    using ranked_total [OF sample_positions] by blast
  then obtain selected reasons ev where
    s: "select_detailed policy_v22 [sample_candidate] (sample_selection (Some ''BLOCKED'')) = Inr (selected, reasons, ev)"
    by (simp add: select_detailed_def Let_def)
  from selection_weights_bounded [OF v d s] v s show ?thesis by blast
qed

end
