(* ===== verification/History.thy ===== *)
theory History
  imports Ledger Select
begin

text \<open>
  What the dynamic paper rebalance reads back from the ledger before it decides: recent exits,
  expired holdings, concentration and rolling-loss blocks, previous scores, confirmation counts,
  the daily risk budgets and the turnover budget
  (\<^verbatim>\<open>_recent_exits\<close> to \<^verbatim>\<open>_expired_holdings\<close>, \<^verbatim>\<open>_previous_scores\<close> to \<^verbatim>\<open>_turnover_budget\<close>).

  \<^verbatim>\<open>dict\<close>s that are only looked up are maps, and \<^verbatim>\<open>set\<close>s of pairs are sets.
\<close>

section \<open>From the executions\<close>

definition recent_exits :: "universe_policy \<Rightarrow> ledger \<Rightarrow> string \<Rightarrow> utc \<Rightarrow> string set result" where
  "recent_exits p l pid as_of =
     bind_result (list_executions pid 1000 l) (\<lambda>es.
       Inr (set (map pe_pair (filter (\<lambda>e. pe_side e = SELL
              \<and> as_of - dp_reentry_cooldown p < pe_executed_at e \<and> pe_executed_at e \<le> as_of) es))))"

text \<open>One execution replayed: the quantity held of its pair and when that holding was opened.\<close>

record holdings =
  hd_quantities :: "string \<rightharpoonup> decimal"
  hd_opened_at :: "string \<rightharpoonup> utc"

definition replay_execution :: "paper_execution \<Rightarrow> holdings \<Rightarrow> holdings" where
  "replay_execution e h =
     (let pair = pe_pair e;
          current = (case hd_quantities h pair of None \<Rightarrow> 0 | Some q \<Rightarrow> q)
      in if pe_side e = BUY
         then \<lparr>hd_quantities = (hd_quantities h)(pair \<mapsto> dadd current (pe_quantity e)),
               hd_opened_at = (if current \<le> 0 then (hd_opened_at h)(pair \<mapsto> pe_executed_at e)
                               else hd_opened_at h)\<rparr>
         else let remaining = max 0 (dsub current (pe_quantity e))
              in \<lparr>hd_quantities = (hd_quantities h)(pair \<mapsto> remaining),
                  hd_opened_at = (if remaining = 0 then (hd_opened_at h)(pair := None)
                                  else hd_opened_at h)\<rparr>)"

definition replay_executions :: "paper_execution list \<Rightarrow> holdings" where
  "replay_executions es =
     fold replay_execution (sort_by (\<lambda>a b. pe_executed_at a \<le> pe_executed_at b) es)
       \<lparr>hd_quantities = Map.empty, hd_opened_at = Map.empty\<rparr>"

definition expired_holdings ::
    "universe_policy \<Rightarrow> ledger \<Rightarrow> string \<Rightarrow> string list \<Rightarrow> utc \<Rightarrow> string set result" where
  "expired_holdings p l pid held_pairs as_of =
     (case dp_maximum_holding_period p of
        None \<Rightarrow> Inr {}
      | Some period \<Rightarrow>
          if held_pairs = [] then Inr {}
          else bind_result (list_executions pid 10000 l) (\<lambda>es.
            Inr (set (filter (\<lambda>pair. case hd_opened_at (replay_executions es) pair of
                   None \<Rightarrow> False
                 | Some opened \<Rightarrow> period \<le> as_of - opened) held_pairs))))"

text \<open>The realised results of the sells of a pair inside the window, latest first.\<close>

definition window_sells :: "utc \<Rightarrow> utc \<Rightarrow> paper_execution list \<Rightarrow> paper_execution list" where
  "window_sells cutoff as_of es =
     filter (\<lambda>e. pe_side e = SELL \<and> cutoff < pe_executed_at e \<and> pe_executed_at e \<le> as_of) es"

definition realized_of :: "string \<Rightarrow> paper_execution list \<Rightarrow> decimal list" where
  "realized_of pair es = map pe_realized_pnl (filter (\<lambda>e. pe_pair e = pair) es)"

definition rolling_loss_blocked ::
    "universe_policy \<Rightarrow> ledger \<Rightarrow> string \<Rightarrow> decimal \<Rightarrow> utc \<Rightarrow> string set result" where
  "rolling_loss_blocked p l pid equity as_of =
     (case (dp_rolling_asset_performance_lookback p, dp_maximum_rolling_asset_realized_loss_fraction p) of
        (Some lookback, Some maximum_loss) \<Rightarrow>
          bind_result (list_executions pid 10000 l) (\<lambda>es.
            (let sells = window_sells (as_of - lookback) as_of es;
                 threshold = dneg (dmul equity maximum_loss)
             in Inr (set (filter (\<lambda>pair.
                      dp_rolling_asset_minimum_sells p \<le> int (length (realized_of pair sells))
                      \<and> dsum 0 (realized_of pair sells) \<le> threshold) (map pe_pair sells)))))
      | _ \<Rightarrow> Inr {})"

section \<open>From the recorded decisions\<close>

fun is_object :: "json \<Rightarrow> bool" where
  "is_object (JObj _) = True"
| "is_object _ = False"

definition item_pair :: "json \<Rightarrow> string result" where
  "item_pair item =
     (case Option.bind (json_get ''pair'' item) json_str of
        None \<Rightarrow> Inl (KeyError ''pair'') | Some s \<Rightarrow> Inr s)"

definition item_score :: "json \<Rightarrow> rat result" where
  "item_score item =
     (case Option.bind (json_get ''score'' item) json_num of
        None \<Rightarrow> Inl (TypeError ''score'') | Some s \<Rightarrow> Inr s)"

definition scored_items :: "json \<Rightarrow> (string \<times> pyfloat) list result" where
  "scored_items payload =
     map_result (\<lambda>item. bind_result (item_pair item) (\<lambda>s.
                        bind_result (item_score item) (\<lambda>v. Inr (s, flt v))))
       (filter (\<lambda>item. is_object item \<and> json_get ''score'' item \<noteq> None) (json_items payload))"

definition own_decisions ::
    "universe_policy \<Rightarrow> ledger \<Rightarrow> string \<Rightarrow> int \<Rightarrow> rebalance_decision list result" where
  "own_decisions p l pid limit =
     bind_result (list_rebalance_decisions pid limit l) (\<lambda>ds.
       Inr (filter (\<lambda>d. rd_strategy_version d = dp_strategy_version p) ds))"

definition previous_scores ::
    "universe_policy \<Rightarrow> ledger \<Rightarrow> string \<Rightarrow> (string \<rightharpoonup> pyfloat) result" where
  "previous_scores p l pid =
     bind_result (own_decisions p l pid 100) (\<lambda>ds.
       case ds of
         [] \<Rightarrow> Inr Map.empty
       | d # _ \<Rightarrow> bind_result (scored_items (rd_assessments_json d)) (\<lambda>kvs. Inr (map_of (rev kvs))))"

text \<open>
  Confirmations: in how many of the latest decisions, counted back without a gap, a pair was
  in the passing set.
\<close>

fun consecutive_counts ::
    "string set list \<Rightarrow> string set option \<Rightarrow> (string \<rightharpoonup> int) \<Rightarrow> (string \<rightharpoonup> int)" where
  "consecutive_counts [] still counts = counts"
| "consecutive_counts (passing # rest) still counts =
     (let still' = (case still of None \<Rightarrow> passing | Some s \<Rightarrow> s \<inter> passing)
      in consecutive_counts rest (Some still')
           (\<lambda>pair. if pair \<in> still'
                   then Some ((case counts pair of None \<Rightarrow> 0 | Some n \<Rightarrow> n) + 1)
                   else counts pair))"

definition prior_counts ::
    "universe_policy \<Rightarrow> ledger \<Rightarrow> string \<Rightarrow> (json \<Rightarrow> string set result) \<Rightarrow> (string \<rightharpoonup> int) result" where
  "prior_counts p l pid passing =
     (let required_prior = max 0 (dp_required_entry_confirmations p - 1)
      in if required_prior = 0 then Inr Map.empty
         else bind_result (own_decisions p l pid 100) (\<lambda>ds.
              bind_result (map_result (\<lambda>d. passing (rd_assessments_json d)) (py_take required_prior ds))
                (\<lambda>sets. Inr (consecutive_counts sets None Map.empty))))"

definition passing_scores :: "universe_policy \<Rightarrow> json \<Rightarrow> string set result" where
  "passing_scores p payload =
     bind_result (scored_items payload) (\<lambda>kvs.
       Inr (set (map fst (filter (\<lambda>(_, v). effective_entry_score_hurdle p < v) kvs))))"

definition passing_eligible :: "json \<Rightarrow> string set result" where
  "passing_eligible payload =
     bind_result
       (map_result item_pair
         (filter (\<lambda>item. is_object item \<and> json_get ''entrySignalEligible'' item = Some (JBool True))
           (json_items payload)))
       (\<lambda>pairs. Inr (set pairs))"

definition prior_confirmation_counts ::
    "universe_policy \<Rightarrow> ledger \<Rightarrow> string \<Rightarrow> (string \<rightharpoonup> int) result" where
  "prior_confirmation_counts p l pid = prior_counts p l pid (passing_scores p)"

definition prior_entry_eligible_confirmation_counts ::
    "universe_policy \<Rightarrow> ledger \<Rightarrow> string \<Rightarrow> (string \<rightharpoonup> int) result" where
  "prior_entry_eligible_confirmation_counts p l pid = prior_counts p l pid passing_eligible"

definition selected_cohort :: "json \<Rightarrow> string list" where
  "selected_cohort payload =
     remdups (List.map_filter (\<lambda>item. Option.bind (json_get ''pair'' item) json_str)
       (filter is_object (json_items payload)))"

definition concentration :: "string list list \<Rightarrow> string \<Rightarrow> pyfloat" where
  "concentration cohorts pair =
     fquot (of_nat (length (filter (\<lambda>c. pair \<in> set c) cohorts) + 1)) (of_nat (length cohorts + 1))"

definition selection_concentration_blocked ::
    "universe_policy \<Rightarrow> ledger \<Rightarrow> string \<Rightarrow> utc \<Rightarrow> string set result" where
  "selection_concentration_blocked p l pid as_of =
     (case (dp_selection_concentration_lookback p, dp_maximum_selection_concentration p) of
        (Some lookback, Some maximum) \<Rightarrow>
          bind_result (own_decisions p l pid 10000) (\<lambda>ds.
            (let recent = filter (\<lambda>d. as_of - lookback < rd_as_of d \<and> rd_as_of d < as_of) ds;
                 cohorts = filter (\<lambda>c. c \<noteq> []) (map (\<lambda>d. selected_cohort (rd_selected_json d)) recent)
             in if int (length cohorts) < dp_selection_concentration_minimum_cohorts p then Inr {}
                else Inr (set (filter (\<lambda>pair. maximum < concentration cohorts pair) (concat cohorts)))))
      | _ \<Rightarrow> Inr {})"

section \<open>Budgets\<close>

definition day_start :: "utc \<Rightarrow> utc" where
  "day_start t = t - t mod days 1"

definition execution_turnover :: "universe_policy \<Rightarrow> paper_execution \<Rightarrow> decimal" where
  "execution_turnover p e =
     dmul (dmul (pe_quantity e) (pe_price e))
          (if pe_side e = SELL then dp_turnover_sell_weight p else 1)"

definition daily_risk_violations ::
    "universe_policy \<Rightarrow> ledger \<Rightarrow> string \<Rightarrow> decimal \<Rightarrow> utc \<Rightarrow> decimal option \<Rightarrow> string list result" where
  "daily_risk_violations p l pid equity as_of maximum_turnover_fraction =
     bind_result (list_executions pid 1000 l) (\<lambda>all.
       (let es = filter (\<lambda>e. day_start as_of \<le> pe_executed_at e) all;
            turnover = dsum 0 (map (execution_turnover p) es);
            fees = dsum 0 (map pe_fee es);
            realized = dsum 0 (map pe_realized_pnl es);
            turnover_limit = (case maximum_turnover_fraction of
                Some f \<Rightarrow> if f \<noteq> 0 then f else dp_maximum_daily_turnover_fraction p
              | None \<Rightarrow> dp_maximum_daily_turnover_fraction p)
        in Inr ((if dmul equity turnover_limit \<le> turnover
                 then [''DAILY_TURNOVER_BUDGET_EXHAUSTED''] else [])
                @ (if dmul equity (dp_maximum_daily_fee_fraction p) \<le> fees
                   then [''DAILY_FEE_BUDGET_EXHAUSTED''] else [])
                @ (if realized \<le> dneg (dmul equity (dp_maximum_daily_realized_loss_fraction p))
                   then [''DAILY_REALIZED_LOSS_LIMIT''] else []))))"

definition is_bullish :: "universe_policy \<Rightarrow> candidate list \<Rightarrow> bool" where
  "is_bullish p assessments =
     (let liquid = most_liquid p (filter (\<lambda>c. ca_eligible c \<and> ca_average_quote_volume c \<noteq> None
                      \<and> ca_momentum_4h c \<noteq> None \<and> ca_momentum_24h c \<noteq> None) assessments);
          breadth = (if liquid = [] then 0
                     else fquot (of_nat (length (filter (\<lambda>c. 0 < opt_val (ca_momentum_4h c)
                                                   \<and> 0 < opt_val (ca_momentum_24h c)) liquid)))
                                (of_nat (length liquid)))
      in dp_bullish_market_breadth_minimum_candidates p \<le> int (length liquid)
         \<and> (case find (\<lambda>c. ca_pair c = ''BTCKRW'') liquid of
              None \<Rightarrow> False
            | Some btc \<Rightarrow>
                dp_bullish_btc_minimum_momentum_4h p \<le> opt_val (ca_momentum_4h btc)
                \<and> dp_bullish_btc_minimum_momentum_24h p \<le> opt_val (ca_momentum_24h btc))
         \<and> dp_bullish_market_breadth_minimum p \<le> breadth)"

definition turnover_limit_text :: "decimal \<Rightarrow> string" where
  "turnover_limit_text limit = ''DYNAMIC_TURNOVER_LIMIT_'' @ normalized_text limit @ ''X_EQUITY''"

definition turnover_budget ::
    "universe_policy \<Rightarrow> candidate list \<Rightarrow> (decimal \<times> string list) result" where
  "turnover_budget p assessments =
     (let base = dp_maximum_daily_turnover_fraction p
      in if dp_turnover_budget_mode p = ''FIXED'' then Inr (base, [])
         else if dp_turnover_budget_mode p \<noteq> ''BULLISH_REGIME''
         then Inl (ValueError (''unsupported turnover budget mode: '' @ dp_turnover_budget_mode p))
         else case dp_bullish_daily_turnover_fraction p of
           None \<Rightarrow> Inr (base, [''DYNAMIC_TURNOVER_BASE_REGIME_ACTIVE'', turnover_limit_text base])
         | Some expanded \<Rightarrow>
             if expanded \<le> base
             then Inr (base, [''DYNAMIC_TURNOVER_BASE_REGIME_ACTIVE'', turnover_limit_text base])
             else let bullish = is_bullish p assessments;
                      limit = (if bullish then expanded else base)
                  in Inr (limit,
                      [if bullish then ''DYNAMIC_TURNOVER_BULLISH_REGIME_ACTIVE''
                       else ''DYNAMIC_TURNOVER_BASE_REGIME_ACTIVE'', turnover_limit_text limit]))"

end
