(* ===== verification/Risk.thy ===== *)
theory Risk
  imports Domain
begin

text \<open>
  The deterministic risk engine (\<^verbatim>\<open>risk/engine.py\<close>) and the equal-weight portfolio constructor
  (\<^verbatim>\<open>portfolio/equal_weight.py\<close>) whose allocations it judges.
\<close>

section \<open>The risk engine\<close>

record risk_policy =
  rp_version :: string
  rp_maximum_invested_fraction :: decimal
  rp_maximum_asset_fraction :: decimal
  rp_maximum_positions :: int
  rp_maximum_single_order_notional :: decimal
  rp_minimum_order_notional :: decimal
  rp_kill_switch :: bool

definition default_risk_policy :: risk_policy where
  "default_risk_policy =
     \<lparr>rp_version = ''v1'', rp_maximum_invested_fraction = 1, rp_maximum_asset_fraction = 5 / 10,
      rp_maximum_positions = 3, rp_maximum_single_order_notional = 100000,
      rp_minimum_order_notional = 5000, rp_kill_switch = False\<rparr>"

definition check_risk_policy :: "risk_policy \<Rightarrow> risk_policy result" where
  "check_risk_policy p =
     (if rp_maximum_positions p \<le> 0
      then Inl (ValueError ''maximum_positions must be positive'')
      else if \<not> (0 \<le> rp_maximum_invested_fraction p \<and> rp_maximum_invested_fraction p \<le> 1)
      then Inl (ValueError ''maximum invested fraction must be within [0, 1]'')
      else if \<not> (0 \<le> rp_maximum_asset_fraction p \<and> rp_maximum_asset_fraction p \<le> 1)
      then Inl (ValueError ''maximum asset fraction must be within [0, 1]'')
      else if min (rp_maximum_single_order_notional p) (rp_minimum_order_notional p) < 0
      then Inl (ValueError ''order notional limits cannot be negative'')
      else if rp_maximum_single_order_notional p < rp_minimum_order_notional p
      then Inl (ValueError ''minimum order notional cannot exceed maximum'')
      else Inr p)"

record risk_decision =
  rdec_approved :: bool
  rdec_policy_version :: string
  rdec_violations :: "string list"

definition evaluate_allocation ::
    "risk_policy \<Rightarrow> portfolio_allocation \<Rightarrow> trading_portfolio \<Rightarrow> risk_decision" where
  "evaluate_allocation policy allocation portfolio =
     (let violations =
        (if rp_kill_switch policy then [''KILL_SWITCH_ACTIVE''] else [])
        @ (if pa_portfolio_id allocation \<noteq> tp_id portfolio then [''PORTFOLIO_ID_MISMATCH''] else [])
        @ (if pa_purpose allocation \<noteq> tp_purpose portfolio
           then [''PORTFOLIO_PURPOSE_MISMATCH''] else [])
        @ (if tp_purpose portfolio = CORE_INVESTMENT then [''CORE_INVESTMENT_FORBIDDEN''] else [])
        @ (if rp_maximum_positions policy < int (length (pa_allocations allocation))
           then [''MAXIMUM_POSITIONS_EXCEEDED''] else [])
        @ (if rp_maximum_invested_fraction policy < dsub 1 (pa_cash_weight allocation)
           then [''MAXIMUM_PORTFOLIO_ALLOCATION_EXCEEDED''] else [])
        @ (if list_ex (\<lambda>i. rp_maximum_asset_fraction policy < alloc_weight i)
                (pa_allocations allocation)
           then [''MAXIMUM_ASSET_ALLOCATION_EXCEEDED''] else [])
      in \<lparr>rdec_approved = (violations = []), rdec_policy_version = rp_version policy,
          rdec_violations = violations\<rparr>)"

definition approve_order :: "risk_policy \<Rightarrow> order_intent \<Rightarrow> decimal \<Rightarrow> approved_order result" where
  "approve_order policy intent reference_price =
     (if rp_kill_switch policy then Inl (ValueError ''kill switch is active'')
      else if oi_purpose intent = CORE_INVESTMENT
      then Inl (ValueError ''core investment orders are forbidden'')
      else let notional = dmul (oi_quantity intent) reference_price
           in if notional < rp_minimum_order_notional policy
              then Inl (ValueError ''order is below the minimum notional'')
              else if rp_maximum_single_order_notional policy < notional
              then Inl (ValueError ''order exceeds the maximum notional'')
              else mk_approved_order intent (rp_version policy))"

section \<open>The equal-weight constructor\<close>

record equal_weight =
  ew_maximum_positions :: int
  ew_maximum_asset_weight :: decimal
  ew_risk_on_invested_fraction :: decimal
  ew_neutral_invested_fraction :: decimal

definition default_equal_weight :: equal_weight where
  "default_equal_weight =
     \<lparr>ew_maximum_positions = 3, ew_maximum_asset_weight = 5 / 10,
      ew_risk_on_invested_fraction = 1, ew_neutral_invested_fraction = 5 / 10\<rparr>"

definition check_equal_weight :: "equal_weight \<Rightarrow> equal_weight result" where
  "check_equal_weight c =
     (if ew_maximum_positions c \<le> 0
      then Inl (ValueError ''maximum_positions must be positive'')
      else if list_ex (\<lambda>v. \<not> (0 \<le> v \<and> v \<le> 1))
                [ew_maximum_asset_weight c, ew_risk_on_invested_fraction c,
                 ew_neutral_invested_fraction c]
      then Inl (ValueError ''portfolio construction fractions must be within [0, 1]'')
      else Inr c)"

text \<open>
  The loop over the selected signals: every one but the last gets the base weight, the last
  one what is left of the invested fraction.  \<open>allocated\<close> is the running sum.
\<close>

fun allocate_weights ::
    "decimal \<Rightarrow> decimal \<Rightarrow> decimal \<Rightarrow> signal list \<Rightarrow> asset_allocation list result" where
  "allocate_weights invested base_weight allocated [] = Inr []"
| "allocate_weights invested base_weight allocated (s # ss) =
     (let weight = (if ss = [] then dsub invested allocated else base_weight)
      in bind_result (mk_asset_allocation (signal_asset s) weight) (\<lambda>a.
         bind_result (allocate_weights invested base_weight (dadd allocated weight) ss) (\<lambda>rest.
           Inr (a # rest))))"

definition selected_signals :: "equal_weight \<Rightarrow> strategy_result \<Rightarrow> signal list" where
  "selected_signals c r =
     take (nat (ew_maximum_positions c)) (filter (\<lambda>s. signal_direction s = LONG) (sr_signals r))"

definition invested_fraction_of :: "equal_weight \<Rightarrow> strategy_result \<Rightarrow> decimal" where
  "invested_fraction_of c r =
     min (if sr_regime r = RISK_ON then ew_risk_on_invested_fraction c
          else ew_neutral_invested_fraction c)
         (dmul (ew_maximum_asset_weight c) (of_nat (length (selected_signals c r))))"

definition construct_allocation ::
    "equal_weight \<Rightarrow> trading_portfolio \<Rightarrow> strategy_result \<Rightarrow> portfolio_allocation result" where
  "construct_allocation c portfolio r =
     (let selected = selected_signals c r
      in if sr_regime r = RISK_OFF \<or> selected = []
         then mk_portfolio_allocation (tp_id portfolio) (tp_purpose portfolio) [] 1
         else let invested = invested_fraction_of c r;
                  base_weight = dquot invested (of_nat (length selected))
              in bind_result (allocate_weights invested base_weight 0 selected) (\<lambda>allocations.
                   mk_portfolio_allocation (tp_id portfolio) (tp_purpose portfolio) allocations
                     (dsub 1 invested)))"

section \<open>Weights of the default constructor\<close>

lemma dec_default_weights:
  "dec (1 / 2) = 1 / 2"
  "dec (1 / 4) = 1 / 4"
  "dec (3 / 4) = 3 / 4"
  "dec (3 / 2) = 3 / 2"
  "dec (1 / 3) = 3333333333333333333333333333 / 10000000000000000000000000000"
  "dec (3333333333333333333333333333 / 10000000000000000000000000000) = 3333333333333333333333333333 / 10000000000000000000000000000"
  "dec (3333333333333333333333333333 / 5000000000000000000000000000) = 3333333333333333333333333333 / 5000000000000000000000000000"
  "dec (1666666666666666666666666667 / 5000000000000000000000000000) = 1666666666666666666666666667 / 5000000000000000000000000000"
  "dec (1 / 6) = 1666666666666666666666666667 / 10000000000000000000000000000"
  "dec (1666666666666666666666666667 / 10000000000000000000000000000) = 1666666666666666666666666667 / 10000000000000000000000000000"
  "dec (833333333333333333333333333 / 5000000000000000000000000000) = 833333333333333333333333333 / 5000000000000000000000000000"
  "dec (6666666666666666666666666667 / 10000000000000000000000000000) = 6666666666666666666666666667 / 10000000000000000000000000000"
  "dec (4166666666666666666666666667 / 5000000000000000000000000000) = 4166666666666666666666666667 / 5000000000000000000000000000"
  using dec_eval [of "1 / 2" 28 5000000000000000000000000000]
    dec_eval [of "1 / 4" 28 2500000000000000000000000000]
    dec_eval [of "3 / 4" 28 7500000000000000000000000000]
    dec_eval [of "3 / 2" 27 1500000000000000000000000000]
    dec_eval [of "1 / 3" 28 3333333333333333333333333333]
    dec_eval [of "3333333333333333333333333333 / 10000000000000000000000000000" 28 3333333333333333333333333333]
    dec_eval [of "3333333333333333333333333333 / 5000000000000000000000000000" 28 6666666666666666666666666666]
    dec_eval [of "1666666666666666666666666667 / 5000000000000000000000000000" 28 3333333333333333333333333334]
    dec_eval [of "1 / 6" 28 1666666666666666666666666667]
    dec_eval [of "1666666666666666666666666667 / 10000000000000000000000000000" 28 1666666666666666666666666667]
    dec_eval [of "833333333333333333333333333 / 5000000000000000000000000000" 28 1666666666666666666666666666]
    dec_eval [of "6666666666666666666666666667 / 10000000000000000000000000000" 28 6666666666666666666666666667]
    dec_eval [of "4166666666666666666666666667 / 5000000000000000000000000000" 28 8333333333333333333333333334]
  by simp_all

lemma dec_2 [simp]: "dec 2 = 2" using dec_of_int [of 2] by simp

lemma dec_exact_weights:
  "dec (1 / 5) = 1 / 5" "dec (2 / 5) = 2 / 5" "dec (3 / 5) = 3 / 5" "dec (4 / 5) = 4 / 5" "dec (5 / 2) = 5 / 2"
  "dec (1 / 8) = 1 / 8" "dec (3 / 8) = 3 / 8" "dec (5 / 8) = 5 / 8" "dec (7 / 8) = 7 / 8"
  "dec (1 / 10) = 1 / 10" "dec (3 / 10) = 3 / 10" "dec (7 / 10) = 7 / 10" "dec (9 / 10) = 9 / 10"
  using dec_eval [of "1 / 5" 28 2000000000000000000000000000]
    dec_eval [of "2 / 5" 28 4000000000000000000000000000]
    dec_eval [of "3 / 5" 28 6000000000000000000000000000]
    dec_eval [of "4 / 5" 28 8000000000000000000000000000]
    dec_eval [of "5 / 2" 27 2500000000000000000000000000]
    dec_eval [of "1 / 8" 28 1250000000000000000000000000]
    dec_eval [of "3 / 8" 28 3750000000000000000000000000]
    dec_eval [of "5 / 8" 28 6250000000000000000000000000]
    dec_eval [of "7 / 8" 28 8750000000000000000000000000]
    dec_eval [of "1 / 10" 28 1000000000000000000000000000]
    dec_eval [of "3 / 10" 28 3000000000000000000000000000]
    dec_eval [of "7 / 10" 28 7000000000000000000000000000]
    dec_eval [of "9 / 10" 28 9000000000000000000000000000]
  by simp_all

definition half_budget :: "bool \<Rightarrow> nat \<Rightarrow> decimal" where
  "half_budget risk_on n = min (if risk_on then 1 else 1 / 2) (dmul (1 / 2) (of_nat n))"

lemma half_weights:
  assumes "length ss \<in> {1, 2, 3, 4, 5}" and i: "invested = half_budget risk_on (length ss)"
  shows "\<exists>as. allocate_weights invested (dquot invested (of_nat (length ss))) 0 ss = Inr as
    \<and> map alloc_asset as = map signal_asset ss
    \<and> dsum (dsub 1 invested) (map alloc_weight as) = 1
    \<and> (\<forall>a \<in> set as. alloc_weight a \<le> 1 / 2) \<and> 0 \<le> dsub 1 invested \<and> dsub 1 invested \<le> 1"
proof -
  consider x where "ss = [x]" | x y where "ss = [x, y]" | x y z where "ss = [x, y, z]"
    | x y z u where "ss = [x, y, z, u]" | x y z u v where "ss = [x, y, z, u, v]"
    using assms(1) by (auto simp: numeral_eq_Suc length_Suc_conv)
  then show ?thesis
    by cases
      (auto simp: i half_budget_def mk_asset_allocation_def decimal_defs dec_default_weights dec_exact_weights Let_def)
qed

definition backtest_weights :: "nat \<Rightarrow> equal_weight" where
  "backtest_weights n = default_equal_weight\<lparr>ew_maximum_positions := int n, ew_maximum_asset_weight := 5 / 10\<rparr>"

definition backtest_limits :: "nat \<Rightarrow> risk_policy" where
  "backtest_limits n = default_risk_policy\<lparr>rp_maximum_positions := int n, rp_maximum_asset_fraction := 5 / 10\<rparr>"

lemma allocate_weights_length: "allocate_weights i b a ss = Inr as \<Longrightarrow> length as = length ss"
  by (induction i b a ss arbitrary: as rule: allocate_weights.induct) (auto simp: Let_def py_result)


section \<open>Sample values\<close>

definition sample_signals :: "nat \<Rightarrow> signal list" where
  "sample_signals n = map (\<lambda>i. \<lparr>signal_asset = \<lparr>asset_symbol = replicate (Suc i) CHR ''A'', asset_kind = CRYPTO\<rparr>,
      signal_direction = LONG, signal_strength = 1, signal_as_of = 0, signal_reason = ''''\<rparr>) [0..<n]"

definition sample_strategy_result :: "market_regime \<Rightarrow> nat \<Rightarrow> strategy_result" where
  "sample_strategy_result reg n =
     \<lparr>sr_strategy_name = ''momentum'', sr_strategy_version = ''v1'', sr_as_of = 0, sr_regime = reg,
      sr_signals = sample_signals n\<rparr>"

definition sample_portfolio :: trading_portfolio where
  "sample_portfolio =
     \<lparr>tp_id = ''paper'', tp_purpose = PAPER_TRADING,
      tp_cash_asset = \<lparr>asset_symbol = ''KRW'', asset_kind = CASH\<rparr>, tp_cash_balance = 100000,
      tp_positions = []\<rparr>"

lemmas sample_risk_defs = sample_signals_def sample_strategy_result_def sample_portfolio_def


section \<open>Properties\<close>

text \<open>C38: for every number of positions up to five, every portfolio of the engine and every strategy result over
  distinct assets, the constructor as the backtest services build it returns an allocation: its assets are the
  first long signals, or none when the regime is off, its asset and cash weights sum exactly to one although the
  equal weights are rounded, and the risk engine with the limits of the same service approves it.\<close>

theorem allocation_up_to_five_approved:
  assumes "0 < n" "n \<le> 5" "tp_purpose tp \<noteq> CORE_INVESTMENT" and d: "distinct (map signal_asset (sr_signals r))"
  shows "\<exists>a. construct_allocation (backtest_weights n) tp r = Inr a
    \<and> dsum (pa_cash_weight a) (map alloc_weight (pa_allocations a)) = 1
    \<and> map alloc_asset (pa_allocations a) =
        (if sr_regime r = RISK_OFF then []
         else map signal_asset (take n (filter (\<lambda>s. signal_direction s = LONG) (sr_signals r))))
    \<and> rdec_approved (evaluate_allocation (backtest_limits n) a tp)"
proof -
  let ?ew = "backtest_weights n"
  define ss where "ss = take n (filter (\<lambda>s. signal_direction s = LONG) (sr_signals r))"
  have sel: "selected_signals ?ew r = ss" by (simp add: selected_signals_def backtest_weights_def ss_def)
  have len: "length ss \<le> n" by (simp add: ss_def)
  have dist: "distinct (map signal_asset ss)"
    using d by (simp add: ss_def distinct_map_filter distinct_take flip: take_map)
  show ?thesis
  proof (cases "sr_regime r = RISK_OFF \<or> ss = []")
    case True
    then show ?thesis using assms(1,3) sel
      by (auto simp: construct_allocation_def mk_portfolio_allocation_def evaluate_allocation_def backtest_limits_def
          default_risk_policy_def dsub_def Let_def simp flip: ss_def)
  next
    case False
    let ?i = "invested_fraction_of ?ew r"
    have l: "length ss \<in> {1, 2, 3, 4, 5}" using len assms(2) False by (cases ss) (auto simp: le_Suc_eq numeral_eq_Suc)
    have "?i = half_budget (sr_regime r = RISK_ON) (length ss)"
      unfolding invested_fraction_of_def sel half_budget_def by (simp add: backtest_weights_def default_equal_weight_def)
    from half_weights [OF l this] obtain as where as:
      "allocate_weights ?i (dquot ?i (of_nat (length ss))) 0 ss = Inr as"
      "map alloc_asset as = map signal_asset ss" "dsum (dsub 1 ?i) (map alloc_weight as) = 1"
      "\<forall>a \<in> set as. alloc_weight a \<le> 1 / 2" "0 \<le> dsub 1 ?i" "dsub 1 ?i \<le> 1" by blast
    have k: "length as \<le> n" using allocate_weights_length [OF as(1)] len by simp
    have inv: "dsub 1 (dsub 1 ?i) \<le> 1"
      unfolding dsub_def [of 1 "dsub 1 ?i"] by (rule dec.rnd_le_fixed) (use as(5) in auto)
    show ?thesis
      using False assms(3) as dist k inv sel
      by (auto simp: construct_allocation_def mk_portfolio_allocation_def evaluate_allocation_def backtest_limits_def
          default_risk_policy_def Let_def list_ex_iff not_less simp flip: ss_def)
  qed
qed

lemma allocation_up_to_five_approved_witness:
  "\<exists>a. construct_allocation (backtest_weights 5) sample_portfolio (sample_strategy_result NEUTRAL 5) = Inr a
     \<and> length (pa_allocations a) = 5"
proof -
  have p: "tp_purpose sample_portfolio \<noteq> CORE_INVESTMENT" by (simp add: sample_portfolio_def)
  have d: "distinct (map signal_asset (sr_signals (sample_strategy_result NEUTRAL 5)))"
    by (simp add: sample_risk_defs upt_rec)
  have k: "length (take 5 (filter (\<lambda>s. signal_direction s = LONG) (sr_signals (sample_strategy_result NEUTRAL 5)))) = 5"
    by (simp add: sample_risk_defs upt_rec)
  have "sr_regime (sample_strategy_result NEUTRAL 5) \<noteq> RISK_OFF" by (simp add: sample_risk_defs)
  then show ?thesis
    using allocation_up_to_five_approved [of 5, OF _ _ p d] k by (auto dest!: arg_cong [where f = length])
qed

lemma dec_twelfths:
  "dec (1 / 12) = 8333333333333333333333333333 / 100000000000000000000000000000"
  "dec (8333333333333333333333333333 / 100000000000000000000000000000) = 8333333333333333333333333333 / 100000000000000000000000000000"
  "dec (8333333333333333333333333333 / 50000000000000000000000000000) = 1666666666666666666666666667 / 10000000000000000000000000000"
  "dec (25000000000000000000000000003 / 100000000000000000000000000000) = 1 / 4"
  "dec (33333333333333333333333333333 / 100000000000000000000000000000) = 3333333333333333333333333333 / 10000000000000000000000000000"
  "dec (41666666666666666666666666663 / 100000000000000000000000000000) = 2083333333333333333333333333 / 5000000000000000000000000000"
  "dec (416666666666666666666666667 / 5000000000000000000000000000) = 416666666666666666666666667 / 5000000000000000000000000000"
  "dec (1 / 2) = 1 / 2"
  "dec (58333333333333333333333333333 / 100000000000000000000000000000) = 5833333333333333333333333333 / 10000000000000000000000000000"
  "dec (66666666666666666666666666663 / 100000000000000000000000000000) = 3333333333333333333333333333 / 5000000000000000000000000000"
  "dec (74999999999999999999999999993 / 100000000000000000000000000000) = 7499999999999999999999999999 / 10000000000000000000000000000"
  "dec (83333333333333333333333333323 / 100000000000000000000000000000) = 2083333333333333333333333333 / 2500000000000000000000000000"
  "dec (91666666666666666666666666653 / 100000000000000000000000000000) = 1833333333333333333333333333 / 2000000000000000000000000000"
  "dec (9999999999999999999999999999 / 10000000000000000000000000000) = 9999999999999999999999999999 / 10000000000000000000000000000"
  using dec_eval [of "1 / 12" 29 8333333333333333333333333333]
    dec_eval [of "8333333333333333333333333333 / 100000000000000000000000000000" 29 8333333333333333333333333333]
    dec_eval [of "8333333333333333333333333333 / 50000000000000000000000000000" 28 1666666666666666666666666667]
    dec_eval [of "25000000000000000000000000003 / 100000000000000000000000000000" 28 2500000000000000000000000000]
    dec_eval [of "33333333333333333333333333333 / 100000000000000000000000000000" 28 3333333333333333333333333333]
    dec_eval [of "41666666666666666666666666663 / 100000000000000000000000000000" 28 4166666666666666666666666666]
    dec_eval [of "416666666666666666666666667 / 5000000000000000000000000000" 29 8333333333333333333333333340]
    dec_eval [of "1 / 2" 28 5000000000000000000000000000]
    dec_eval [of "58333333333333333333333333333 / 100000000000000000000000000000" 28 5833333333333333333333333333]
    dec_eval [of "66666666666666666666666666663 / 100000000000000000000000000000" 28 6666666666666666666666666666]
    dec_eval [of "74999999999999999999999999993 / 100000000000000000000000000000" 28 7499999999999999999999999999]
    dec_eval [of "83333333333333333333333333323 / 100000000000000000000000000000" 28 8333333333333333333333333332]
    dec_eval [of "91666666666666666666666666653 / 100000000000000000000000000000" 28 9166666666666666666666666665]
    dec_eval [of "9999999999999999999999999999 / 10000000000000000000000000000" 28 9999999999999999999999999999]
  by simp_all

text \<open>Five is the most: with six positions, six long signals of a neutral regime make the constructor raise, because
  the rounded weights sum to 0.9999999999999999999999999999.\<close>

lemma six_neutral_positions_raise:
  "is_ok (check_equal_weight (default_equal_weight\<lparr>ew_maximum_positions := 6\<rparr>))
   \<and> construct_allocation (default_equal_weight\<lparr>ew_maximum_positions := 6\<rparr>) sample_portfolio
       (sample_strategy_result NEUTRAL 6)
     = Inl (ValueError ''asset and cash weights must sum exactly to one'')"
proof
  show "is_ok (check_equal_weight (default_equal_weight\<lparr>ew_maximum_positions := 6\<rparr>))"
    by (simp add: check_equal_weight_def default_equal_weight_def)
  show "construct_allocation (default_equal_weight\<lparr>ew_maximum_positions := 6\<rparr>) sample_portfolio
       (sample_strategy_result NEUTRAL 6)
     = Inl (ValueError ''asset and cash weights must sum exactly to one'')"
    using dec_of_int [of 3]
    by (simp add: construct_allocation_def selected_signals_def invested_fraction_of_def default_equal_weight_def
        sample_risk_defs upt_rec numeral_eq_Suc mk_asset_allocation_def mk_portfolio_allocation_def decimal_defs
        dec_twelfths Let_def)
qed

definition tighter :: "risk_policy \<Rightarrow> risk_policy \<Rightarrow> bool" where
  "tighter p p' =
     (rp_maximum_invested_fraction p \<le> rp_maximum_invested_fraction p'
      \<and> rp_maximum_asset_fraction p \<le> rp_maximum_asset_fraction p'
      \<and> rp_maximum_positions p \<le> rp_maximum_positions p'
      \<and> rp_maximum_single_order_notional p \<le> rp_maximum_single_order_notional p'
      \<and> rp_minimum_order_notional p' \<le> rp_minimum_order_notional p
      \<and> (rp_kill_switch p' \<longrightarrow> rp_kill_switch p))"

text \<open>Tightening a risk policy never lets more through: what a policy approves, an allocation or an order, every policy with wider limits and no active kill switch approves too.\<close>

lemma risk_policy_monotone:
  assumes "tighter p p'"
  shows "(rdec_approved (evaluate_allocation p a tp) \<longrightarrow> rdec_approved (evaluate_allocation p' a tp))
    \<and> (is_ok (approve_order p intent price) \<longrightarrow> is_ok (approve_order p' intent price))"
  using assms
  by (auto simp: tighter_def evaluate_allocation_def approve_order_def mk_approved_order_def Let_def list_ex_iff
      not_less split: if_splits)

end
