(* ===== verification/Rebalance.thy ===== *)
theory Rebalance
  imports History Risk
begin

text \<open>
  The dynamic paper rebalance itself (\<^verbatim>\<open>DynamicPaperRebalanceService.run\<close>): planning the orders
  (\<^verbatim>\<open>_plan\<close>), executing them (\<^verbatim>\<open>_execute\<close>), recording the decision (\<^verbatim>\<open>_save_decision\<close>,
  \<^verbatim>\<open>_decision_reasons\<close>) and the run that composes them.

  A run takes the ledger and returns it with the outcome: an exception in the middle of the
  execution leaves the orders applied before it in the ledger, as each one is a transaction of
  its own.  The clock, the market data, the overlay provider and SHA-256 are fields of the
  environment.
\<close>

section \<open>Planning\<close>

record order_plan =
  op_intent_id :: string
  op_pair :: string
  op_side :: order_side
  op_quantity :: decimal
  op_reference_price :: decimal
  op_notional :: decimal
  op_current_weight :: decimal
  op_target_weight :: decimal
  op_status :: string

definition held_symbol :: "portfolio_snapshot \<Rightarrow> paper_position \<Rightarrow> string" where
  "held_symbol s pos = asset_symbol (pp_asset pos) @ asset_symbol (ps_cash_asset s)"

definition current_quantities :: "portfolio_snapshot \<Rightarrow> (string \<times> decimal) list" where
  "current_quantities s = map (\<lambda>pos. (held_symbol s pos, pp_quantity pos)) (ps_positions s)"

definition lookup0 :: "(string \<times> decimal) list \<Rightarrow> string \<Rightarrow> decimal" where
  "lookup0 d k = (case map_of (rev d) k of None \<Rightarrow> 0 | Some v \<Rightarrow> v)"

definition side_value :: "order_side \<Rightarrow> string" where
  "side_value side = (if side = BUY then ''BUY'' else ''SELL'')"

definition intent_identity :: "digest \<Rightarrow> string \<Rightarrow> utc \<Rightarrow> string \<Rightarrow> order_side \<Rightarrow> string" where
  "intent_identity sha256 pid as_of symbol side =
     ''dynamic-rebalance-'' @
     take 20 (sha256 (JList [JStr pid, JTime as_of, JStr symbol, JStr (side_value side)]))"

text \<open>The quantity of an order: a sale to zero sells the exact position.\<close>

definition order_quantity ::
    "order_side \<Rightarrow> decimal \<Rightarrow> decimal \<Rightarrow> decimal \<Rightarrow> decimal \<Rightarrow> decimal result" where
  "order_quantity side target_notional difference price current_quantity =
     (if side = SELL \<and> target_notional = 0 then Inr current_quantity
      else bind_result (ddiv (dabs difference) price) (\<lambda>q.
        Inr (if side = SELL then min q current_quantity else q)))"

record plan_input =
  pi_snapshot :: universe_snapshot
  pi_portfolio :: portfolio_snapshot
  pi_equity :: decimal
  pi_prices :: "string \<rightharpoonup> decimal"
  pi_targets :: "(string \<times> decimal) list"
  pi_as_of :: utc
  pi_block_buys :: bool
  pi_blocked_buy_pairs :: "string set"

definition plan_row ::
    "universe_policy \<Rightarrow> digest \<Rightarrow> plan_input \<Rightarrow> string \<Rightarrow> (order_plan \<times> order_intent) option result"
where
  "plan_row p sha256 i symbol =
     (case pi_prices i symbol of
        None \<Rightarrow> Inr None
      | Some price \<Rightarrow>
        (let current_quantity = lookup0 (current_quantities (pi_portfolio i)) symbol;
             target = lookup0 (pi_targets i) symbol;
             current_notional = dmul current_quantity price;
             target_notional = dmul (pi_equity i) target;
             difference = dsub target_notional current_notional
         in if dabs difference < max (dp_minimum_order_notional p)
                                     (dmul (pi_equity i) (dp_minimum_rebalance_fraction p))
            then Inr None
            else case find (\<lambda>m. pair_symbol (member_pair m) = symbol) (snapshot_members (pi_snapshot i)) of
                   None \<Rightarrow> Inl StopIteration
                 | Some m \<Rightarrow>
                   (let side = (if 0 < difference then BUY else SELL)
                    in if side = BUY \<and> (pi_block_buys i \<or> symbol \<in> pi_blocked_buy_pairs i)
                       then Inr None
                       else bind_result (order_quantity side target_notional difference price current_quantity)
                         (\<lambda>quantity.
                       bind_result (mk_order_intent (ps_portfolio_id (pi_portfolio i))
                           (ps_purpose (pi_portfolio i)) (member_pair m) side quantity
                           (Aware (pi_as_of i))
                           (intent_identity sha256 (ps_portfolio_id (pi_portfolio i)) (pi_as_of i)
                              symbol side)) (\<lambda>intent.
                       bind_result (ddiv current_notional (pi_equity i)) (\<lambda>current_weight.
                         Inr (Some (\<lparr>op_intent_id = oi_intent_id intent, op_pair = symbol,
                            op_side = side, op_quantity = quantity, op_reference_price = price,
                            op_notional = dabs difference, op_current_weight = current_weight,
                            op_target_weight = target, op_status = ''DRY_RUN''\<rparr>, intent))))))))"

text \<open>Sells before buys, then by pair.\<close>

definition row_key :: "order_plan \<times> order_intent \<Rightarrow> rat \<times> string" where
  "row_key r = (if oi_side (snd r) = BUY then 1 else 0, pair_symbol (oi_pair (snd r)))"

definition plan_symbols :: "plan_input \<Rightarrow> string list" where
  "plan_symbols i = remdups (map fst (current_quantities (pi_portfolio i)) @ map fst (pi_targets i))"

text \<open>The source iterates over a set, in an order that is not defined: \<open>symbols\<close> is that order.\<close>

definition plan_over ::
    "universe_policy \<Rightarrow> digest \<Rightarrow> plan_input \<Rightarrow> string list \<Rightarrow> (order_plan list \<times> order_intent list) result"
where
  "plan_over p sha256 i symbols =
     bind_result (map_result (plan_row p sha256 i) symbols) (\<lambda>rows.
       (let sorted_rows = sort_on row_key (List.map_filter id rows)
        in Inr (map fst sorted_rows, map snd sorted_rows)))"

definition plan ::
    "universe_policy \<Rightarrow> digest \<Rightarrow> plan_input \<Rightarrow> (order_plan list \<times> order_intent list) result" where
  "plan p sha256 i = plan_over p sha256 i (plan_symbols i)"

section \<open>Executing\<close>

definition execution_risk_policy :: "universe_policy \<Rightarrow> decimal \<Rightarrow> risk_policy result" where
  "execution_risk_policy p equity =
     check_risk_policy (default_risk_policy
       \<lparr>rp_maximum_positions := dp_maximum_positions p,
        rp_maximum_asset_fraction := dp_maximum_asset_weight p,
        rp_maximum_single_order_notional := equity,
        rp_minimum_order_notional := dp_minimum_order_notional p\<rparr>)"

text \<open>
  The loop of theory Ports over the paper gateway and the ledger.  The clock gives the time of the
  n-th fill.
\<close>

definition approve_intent ::
    "risk_policy \<Rightarrow> (string \<rightharpoonup> decimal) \<Rightarrow> order_intent \<Rightarrow> approved_order result" where
  "approve_intent risk prices intent =
     (case prices (pair_symbol (oi_pair intent)) of
        None \<Rightarrow> Inl (KeyError (pair_symbol (oi_pair intent)))
      | Some price \<Rightarrow> approve_order risk intent price)"

definition execute_intents ::
    "risk_policy \<Rightarrow> (string \<rightharpoonup> decimal) \<Rightarrow> (nat \<Rightarrow> utc) \<Rightarrow> order_intent list \<Rightarrow> paper_gateway \<Rightarrow> ledger
     \<Rightarrow> ledger \<times> unit result" where
  "execute_intents risk prices clock intents g l =
     execution_loop (approve_intent risk prices) (\<lambda>n. submit (clock n)) apply_execution 0 intents g l"

definition execute_plan ::
    "universe_policy \<Rightarrow> gateway_factory \<Rightarrow> (nat \<Rightarrow> utc) \<Rightarrow> order_intent list \<Rightarrow> (string \<rightharpoonup> decimal)
     \<Rightarrow> decimal \<Rightarrow> ledger \<Rightarrow> ledger \<times> unit result" where
  "execute_plan p factory clock intents prices equity l =
     (case factory_create factory prices of
        Inl e \<Rightarrow> (l, Inl e)
      | Inr g \<Rightarrow>
          (case execution_risk_policy p equity of
             Inl e \<Rightarrow> (l, Inl e)
           | Inr risk \<Rightarrow> execute_intents risk prices clock intents g l))"

section \<open>Reasons of a decision\<close>

definition decision_reasons ::
    "universe_policy \<Rightarrow> candidate list \<Rightarrow> selected_asset list \<Rightarrow> order_plan list \<Rightarrow> selection_input
     \<Rightarrow> string list \<Rightarrow> string list \<Rightarrow> string list \<Rightarrow> string list" where
  "decision_reasons p assessments selected plans si risk_violations sel_reasons turnover_reasons =
     (if plans \<noteq> []
      then dict_fromkeys (turnover_reasons @ [''ORDERS_CREATED_FOR_TARGET_WEIGHT_CHANGES''])
      else let threshold = effective_entry_score_hurdle p;
               waiting = list_ex (\<lambda>c. ca_eligible c \<and> ca_pair c \<notin> si_held_pairs si
                   \<and> score_above c threshold
                   \<and> prior_count p si (ca_pair c) < dp_required_entry_confirmations p - 1) assessments;
               reasons = sel_reasons @ turnover_reasons
                 @ (if risk_violations \<noteq> [] then [''NEW_BUYS_BLOCKED_BY_DAILY_RISK_BUDGET''] else [])
                 @ (if selected \<noteq> [] \<and> list_all (\<lambda>s. sa_pair s \<in> si_held_pairs si) selected
                    then [''HELD_ASSETS_REMAIN_WITHIN_EXIT_HYSTERESIS'',
                          ''TARGET_WEIGHT_CHANGES_BELOW_REBALANCE_THRESHOLD''] else [])
                 @ (if waiting then [''NEW_ENTRY_WAITING_FOR_SECOND_CONFIRMATION''] else [])
                 @ (if selected = [] then [''NO_ASSET_PASSED_ENTRY_OR_HOLD_RULES''] else [])
           in dict_fromkeys (if reasons = [] then [''NO_ACTION_REQUIRED''] else reasons))"

section \<open>The run\<close>

record rebalance_command =
  rc_portfolio_id :: string
  rc_as_of :: datetime
  rc_execute :: bool
  rc_persist_decision :: bool
  rc_execution_deadline :: "datetime option"

record rebalance_result =
  rr_portfolio_id :: string
  rr_as_of :: utc
  rr_universe_observed_at :: utc
  rr_dry_run :: bool
  rr_equity :: decimal
  rr_selected :: "selected_asset list"
  rr_assessments :: "candidate list"
  rr_orders :: "order_plan list"
  rr_final_portfolio :: portfolio_snapshot
  rr_risk_violations :: "string list"
  rr_decision_reasons :: "string list"
  rr_derivatives_overlay :: "decision_overlay option"
  rr_selection_variants :: "selection_variant list"
  rr_decision_diagnostics :: "(string \<times> json) list"
  rr_execution_model_version :: string
  rr_execution_fee_rate :: decimal
  rr_execution_slippage_rate :: decimal

record environment =
  env_policy :: universe_policy
  env_history :: universe_history
  env_fetch :: fetch
  env_log_std :: "pyfloat list \<Rightarrow> pyfloat"
  env_provider :: "overlay_provider option"
  env_factory :: gateway_factory
  env_sha256 :: digest
  env_now :: utc
  env_fill_clock :: "nat \<Rightarrow> utc"

section \<open>Recording the decision\<close>

definition candidate_json :: "candidate \<Rightarrow> json" where
  "candidate_json c = JObj
     [(''pair'', JStr (ca_pair c)),
      (''eligible'', JBool (ca_eligible c)),
      (''reason'', JStr (ca_reason c)),
      (''score'', json_opt JNum (ca_score c)),
      (''rawScore'', json_opt JNum (ca_raw_score c)),
      (''scorePenalty'', json_opt JNum (ca_score_penalty c)),
      (''expectedRelativeReturn1h'', json_opt JNum (ca_expected_relative_return_1h c)),
      (''expectedRelativeReturn4h'', json_opt JNum (ca_expected_relative_return_4h c)),
      (''feeAdjustedExpectedReturn'', json_opt JNum (ca_fee_adjusted_expected_return c)),
      (''decisionReasons'', JList (map JStr (ca_decision_reasons c))),
      (''momentum1h'', json_opt JNum (ca_momentum_1h c)),
      (''momentum4h'', json_opt JNum (ca_momentum_4h c)),
      (''momentum24h'', json_opt JNum (ca_momentum_24h c)),
      (''volatility'', json_opt JNum (ca_volatility c)),
      (''referenceAt'', json_opt JTime (ca_reference_at c)),
      (''referenceAgeSeconds'', json_opt JNum (ca_reference_age_seconds c)),
      (''candidateConfirmationCount'', JInt (ca_candidate_confirmation_count c)),
      (''entrySignalEligible'', JBool (ca_entry_signal_eligible c)),
      (''entryEligibleConfirmationCount'', JInt (ca_entry_eligible_confirmation_count c)),
      (''averageQuoteVolume'', json_opt JDec (ca_average_quote_volume c)),
      (''latestPrice'', json_opt JDec (ca_latest_price c))]"

definition selected_json :: "selected_asset \<Rightarrow> json" where
  "selected_json s = JObj
     [(''pair'', JStr (sa_pair s)), (''score'', JNum (sa_score s)),
      (''targetWeight'', JDec (sa_target_weight s)), (''reason'', JStr (sa_reason s))]"

definition order_json :: "order_plan \<Rightarrow> json" where
  "order_json r = JObj
     [(''intentId'', JStr (op_intent_id r)), (''pair'', JStr (op_pair r)),
      (''side'', JStr (side_value (op_side r))), (''quantity'', JDec (op_quantity r)),
      (''notional'', JDec (op_notional r)), (''status'', JStr (op_status r))]"

definition decision_id :: "digest \<Rightarrow> string \<Rightarrow> utc \<Rightarrow> string \<Rightarrow> string" where
  "decision_id sha256 pid as_of version = take 24 (sha256 (JList [JStr pid, JTime as_of, JStr version]))"

definition decision_record :: "environment \<Rightarrow> rebalance_result \<Rightarrow> bool \<Rightarrow> rebalance_decision" where
  "decision_record env r execute =
     \<lparr>rd_decision_id = decision_id (env_sha256 env) (rr_portfolio_id r) (rr_as_of r)
                         (dp_strategy_version (env_policy env)),
      rd_portfolio_id = rr_portfolio_id r,
      rd_strategy_version = dp_strategy_version (env_policy env),
      rd_as_of = rr_as_of r,
      rd_universe_observed_at = rr_universe_observed_at r,
      rd_execute = execute,
      rd_equity = rr_equity r,
      rd_assessments_json = JList (map candidate_json (rr_assessments r)),
      rd_selected_json = JList (map selected_json (rr_selected r)),
      rd_orders_json = JList (map order_json (rr_orders r)),
      rd_risk_violations = rr_risk_violations r,
      rd_decision_reasons = rr_decision_reasons r,
      rd_status = (if execute then ''EXECUTED'' else ''DRY_RUN''),
      rd_created_at = env_now env,
      rd_market_context_json = JObj
        ((case rr_derivatives_overlay r of None \<Rightarrow> [] | Some ov \<Rightarrow> overlay_to_dict ov)
         @ [(''decisionDiagnostics'', JObj (rr_decision_diagnostics r)),
            (''executionModelVersion'', JStr (rr_execution_model_version r)),
            (''feeRate'', JDec (rr_execution_fee_rate r)),
            (''slippageRate'', JDec (rr_execution_slippage_rate r))])\<rparr>"

section \<open>Composition\<close>

text \<open>The derivatives surcharge is subtracted from every fee-adjusted return.\<close>

definition with_penalty :: "pyfloat \<Rightarrow> candidate list \<Rightarrow> candidate list" where
  "with_penalty penalty cs =
     (if penalty = 0 then cs
      else map (\<lambda>c. c\<lparr>ca_fee_adjusted_expected_return :=
                  map_option (\<lambda>r. fsub r penalty) (ca_fee_adjusted_expected_return c)\<rparr>) cs)"

definition prices_of :: "(string \<rightharpoonup> candle list) \<Rightarrow> string \<rightharpoonup> decimal" where
  "prices_of candles symbol = Option.bind (candles symbol) last_close"

definition marked_equity :: "portfolio_snapshot \<Rightarrow> (string \<rightharpoonup> decimal) \<Rightarrow> decimal" where
  "marked_equity s prices =
     dadd (ps_cash_balance s)
       (dsum 0 (map (\<lambda>pos. dmul (pp_quantity pos)
                  (case prices (held_symbol s pos) of None \<Rightarrow> 0 | Some pr \<Rightarrow> pr)) (ps_positions s)))"

text \<open>What the selection knows about a candidate is written back into its assessment.\<close>

definition annotate ::
    "universe_policy \<Rightarrow> evidence \<Rightarrow> (string \<rightharpoonup> int) \<Rightarrow> (string \<rightharpoonup> int) \<Rightarrow> string set \<Rightarrow> candidate \<Rightarrow> candidate"
where
  "annotate p ev counts eligible_counts signal_eligible c =
     c\<lparr>ca_decision_reasons := ev (ca_pair c),
       ca_candidate_confirmation_count :=
         (if score_above c (effective_entry_score_hurdle p)
          then (case counts (ca_pair c) of None \<Rightarrow> 0 | Some n \<Rightarrow> n) + 1 else 0),
       ca_entry_signal_eligible := (ca_pair c \<in> signal_eligible),
       ca_entry_eligible_confirmation_count :=
         (if ca_pair c \<in> signal_eligible
          then (case eligible_counts (ca_pair c) of None \<Rightarrow> 0 | Some n \<Rightarrow> n) + 1 else 0)\<rparr>"

text \<open>Everything \<^verbatim>\<open>run\<close> computes before it may execute: no state is changed up to here.\<close>

record decision =
  dc_portfolio :: portfolio_snapshot
  dc_snapshot :: universe_snapshot
  dc_prices :: "string \<rightharpoonup> decimal"
  dc_equity :: decimal
  dc_overlay :: "decision_overlay option"
  dc_selected :: "selected_asset list"
  dc_candidates :: "candidate list"
  dc_plans :: "order_plan list"
  dc_intents :: "order_intent list"
  dc_risk_violations :: "string list"
  dc_reasons :: "string list"
  dc_variants :: "selection_variant list"

definition selection_input_of ::
    "environment \<Rightarrow> ledger \<Rightarrow> string \<Rightarrow> string list \<Rightarrow> decimal \<Rightarrow> utc \<Rightarrow> decision_overlay option
     \<Rightarrow> (selection_input \<times> (string \<rightharpoonup> int)) result" where
  "selection_input_of env l pid held equity as_of overlay =
     (let p = env_policy env
      in bind_result (previous_scores p l pid) (\<lambda>prev.
         bind_result (prior_confirmation_counts p l pid) (\<lambda>counts.
         bind_result (prior_entry_eligible_confirmation_counts p l pid) (\<lambda>eligible_counts.
         bind_result (recent_exits p l pid as_of) (\<lambda>exits.
         bind_result (expired_holdings p l pid held as_of) (\<lambda>expired.
         bind_result (selection_concentration_blocked p l pid as_of) (\<lambda>concentrated.
         bind_result (rolling_loss_blocked p l pid equity as_of) (\<lambda>losing.
           Inr (\<lparr>si_held_pairs = set held, si_previous_scores = prev, si_recent_exits = exits,
                 si_expired = expired, si_confirmation_counts = Some counts,
                 si_concentration_blocked = concentrated, si_rolling_loss_blocked = losing,
                 si_entry_block_reason = derivatives_entry_block_reason p overlay\<rparr>,
                eligible_counts)))))))))"

definition decide :: "environment \<Rightarrow> ledger \<Rightarrow> string \<Rightarrow> utc \<Rightarrow> decision result" where
  "decide env l pid as_of =
     (let p = env_policy env
      in bind_result (derivatives_overlay p (env_provider env) as_of) (\<lambda>overlay.
         bind_result (history_known_at (env_history env) (Aware as_of)) (\<lambda>found.
         case found of
           None \<Rightarrow> Inl (ValueError ''no universe snapshot was known at the rebalance time'')
         | Some snapshot \<Rightarrow>
         bind_result (get_portfolio pid l) (\<lambda>portfolio.
         (let held = map (held_symbol portfolio) (ps_positions portfolio)
          in bind_result (assess p (env_fetch env) (env_log_std env) snapshot as_of (set held))
               (\<lambda>(cs0, candles).
             (let cs = with_penalty (derivatives_cost_penalty p overlay) cs0;
                  prices = prices_of candles;
                  missing = filter (\<lambda>s. prices s = None) held;
                  equity = marked_equity portfolio prices
              in if missing \<noteq> []
                 then Inl (ValueError (''cannot value held assets without 15m data: '' @
                        list_repr (sorted_list_of_set (set missing))))
                 else bind_result (selection_input_of env l pid held equity as_of overlay)
                        (\<lambda>(si, eligible_counts).
                 bind_result (select_detailed p cs si) (\<lambda>(selected, sel_reasons, ev).
                 bind_result (selection_variants p cs si overlay) (\<lambda>variants.
                 (let signal_eligible = entry_signal_eligibility p cs (si_entry_block_reason si);
                      counts = (case si_confirmation_counts si of None \<Rightarrow> Map.empty | Some m \<Rightarrow> m);
                      candidates = map (annotate p ev counts eligible_counts signal_eligible) cs
                  in bind_result (turnover_budget p candidates) (\<lambda>(turnover_fraction, turnover_reasons).
                     bind_result (daily_risk_violations p l pid equity as_of (Some turnover_fraction))
                       (\<lambda>violations.
                     bind_result (plan p (env_sha256 env)
                         \<lparr>pi_snapshot = snapshot, pi_portfolio = portfolio, pi_equity = equity,
                          pi_prices = prices,
                          pi_targets = map (\<lambda>s. (sa_pair s, sa_target_weight s)) selected,
                          pi_as_of = as_of, pi_block_buys = (violations \<noteq> []),
                          pi_blocked_buy_pairs = si_rolling_loss_blocked si\<rparr>) (\<lambda>(plans, intents).
                       Inr \<lparr>dc_portfolio = portfolio, dc_snapshot = snapshot, dc_prices = prices,
                            dc_equity = equity, dc_overlay = overlay, dc_selected = selected,
                            dc_candidates = candidates, dc_plans = plans, dc_intents = intents,
                            dc_risk_violations = violations,
                            dc_reasons = dict_fromkeys
                              (decision_reasons p candidates selected plans si violations
                                 sel_reasons turnover_reasons
                               @ derivatives_overlay_reasons p overlay),
                            dc_variants = variants\<rparr>))))))))))))))"

definition result_of ::
    "environment \<Rightarrow> utc \<Rightarrow> bool \<Rightarrow> decision \<Rightarrow> order_plan list \<Rightarrow> portfolio_snapshot \<Rightarrow> rebalance_result"
where
  "result_of env as_of execute d plans final =
     \<lparr>rr_portfolio_id = ps_portfolio_id (dc_portfolio d), rr_as_of = as_of,
      rr_universe_observed_at = snapshot_observed_at (dc_snapshot d),
      rr_dry_run = (\<not> execute), rr_equity = dc_equity d, rr_selected = dc_selected d,
      rr_assessments = dc_candidates d, rr_orders = plans, rr_final_portfolio = final,
      rr_risk_violations = dc_risk_violations d, rr_decision_reasons = dc_reasons d,
      rr_derivatives_overlay = dc_overlay d, rr_selection_variants = dc_variants d,
      rr_decision_diagnostics = decision_diagnostics (env_policy env) (dc_overlay d),
      rr_execution_model_version = gf_model_version (env_factory env),
      rr_execution_fee_rate = gf_fee_rate (env_factory env),
      rr_execution_slippage_rate = gf_slippage_rate (env_factory env)\<rparr>"

definition persist ::
    "environment \<Rightarrow> rebalance_command \<Rightarrow> rebalance_result \<Rightarrow> ledger \<Rightarrow> ledger \<times> rebalance_result result"
where
  "persist env cmd r l =
     (if rc_persist_decision cmd
      then (case save_rebalance_decision (decision_record env r (rc_execute cmd)) l of
              Inl e \<Rightarrow> (l, Inl e)
            | Inr l' \<Rightarrow> (l', Inr r))
      else (l, Inr r))"

definition past_deadline :: "environment \<Rightarrow> rebalance_command \<Rightarrow> bool result" where
  "past_deadline env cmd =
     (case rc_execution_deadline cmd of
        None \<Rightarrow> Inr False
      | Some d \<Rightarrow> bind_result (require_utc d ''execution_deadline'') (\<lambda>t. Inr (t \<le> env_now env)))"

definition run ::
    "environment \<Rightarrow> rebalance_command \<Rightarrow> ledger \<Rightarrow> ledger \<times> rebalance_result result" where
  "run env cmd l =
     (case bind_result (require_utc (rc_as_of cmd) ''as_of'') (\<lambda>as_of.
             bind_result (decide env l (rc_portfolio_id cmd) as_of) (\<lambda>d. Inr (as_of, d))) of
        Inl e \<Rightarrow> (l, Inl e)
      | Inr (as_of, d) \<Rightarrow>
          if \<not> rc_execute cmd
          then persist env cmd (result_of env as_of False d (dc_plans d) (dc_portfolio d)) l
          else (case past_deadline env cmd of
                  Inl e \<Rightarrow> (l, Inl e)
                | Inr True \<Rightarrow> (l, Inl (ValueError ''paper experiment deadline elapsed before execution''))
                | Inr False \<Rightarrow>
                    (case execute_plan (env_policy env) (env_factory env) (env_fill_clock env)
                            (dc_intents d) (dc_prices d) (dc_equity d) l of
                       (l', Inl e) \<Rightarrow> (l', Inl e)
                     | (l', Inr _) \<Rightarrow>
                         (case get_portfolio (rc_portfolio_id cmd) l' of
                            Inl e \<Rightarrow> (l', Inl e)
                          | Inr final \<Rightarrow>
                              persist env cmd
                                (result_of env as_of True d
                                   (map (\<lambda>r. r\<lparr>op_status := ''PAPER_FILLED''\<rparr>) (dc_plans d)) final) l'))))"

section \<open>Properties\<close>

text \<open>Every published profile can execute exactly when the marked equity reaches its minimum order of 5000: below that the risk policy of the execution is refused before any order is approved.\<close>

lemma execution_needs_minimum_equity:
  assumes "dynamic_policy_for_version v = Inr p"
  shows "is_ok (execution_risk_policy p equity) \<longleftrightarrow> 5000 \<le> equity"
  using policy_limits [OF assms]
  by (auto simp: published_limits_def execution_risk_policy_def check_risk_policy_def default_risk_policy_def min_def)

end
