(* ===== verification/Profiles.thy ===== *)
theory Profiles
  imports Rebalance
begin

text \<open>
  Which fields of a strategy profile a computation depends on: the V2.9 suite changes entry
  rules only (the comment in \<^verbatim>\<open>dynamic_policy_for_version\<close>), and the hold hurdle is read nowhere.
\<close>

section \<open>What the entry fields do not touch\<close>

lemma reset_defs:
  fixes p c :: universe_policy
  defines "q \<equiv> entry_fields_reset c p"
  shows "score_assessments q = score_assessments p"
    and "most_liquid q = most_liquid p"
    and "hold_guard_reason q = hold_guard_reason p"
    and "is_retained q = is_retained p"
    and "equal_target_weight q = equal_target_weight p"
    and "plan q = plan p"
    and "execute_plan q = execute_plan p"
    and "derivatives_overlay q = derivatives_overlay p"
    and "derivatives_entry_block_reason q = derivatives_entry_block_reason p"
    and "expired_holdings q = expired_holdings p"
    and "daily_risk_violations q = daily_risk_violations p"
    and "turnover_budget q = turnover_budget p"
proof -
  note f = reset_fields [of c p, folded q_def]
  have "round_trip_cost_hurdle q = round_trip_cost_hurdle p" by (simp only: round_trip_cost_hurdle_def f)
  moreover have "expected_relative_returns q = expected_relative_returns p" "penalised_score q = penalised_score p"
    by (intro ext, simp only: expected_relative_returns_def penalised_score_def f)+
  ultimately have ev: "with_score_evidence q = with_score_evidence p" by (intro ext) (simp only: with_score_evidence_def)
  show ml: "most_liquid q = most_liquid p" by (intro ext) (simp only: most_liquid_def f)
  have "calm_pullback_score q = calm_pullback_score p" by (intro ext) (simp only: calm_pullback_score_def f)
  then show "score_assessments q = score_assessments p" by (intro ext) (simp only: score_assessments_def ev ml f)
  show hg: "hold_guard_reason q = hold_guard_reason p" by (intro ext) (simp only: hold_guard_reason_def f)
  have "expected_hold_return_passes q = expected_hold_return_passes p"
    by (intro ext) (simp only: expected_hold_return_passes_def f)
  then show "is_retained q = is_retained p" by (intro ext) (simp only: is_retained_def hg f)
  show "equal_target_weight q = equal_target_weight p" by (intro ext) (simp only: equal_target_weight_def f)
  have "plan_row q = plan_row p" by (intro ext) (simp only: plan_row_def f)
  then show "plan q = plan p" by (intro ext) (simp only: plan_def plan_over_def)
  have "execution_risk_policy q = execution_risk_policy p" by (intro ext) (simp only: execution_risk_policy_def f)
  then show "execute_plan q = execute_plan p" by (intro ext) (simp only: execute_plan_def)
  have "overlay_query_of q = overlay_query_of p" "missing_overlay q = missing_overlay p"
    by (intro ext, simp only: overlay_query_of_def missing_overlay_def f)+
  then show "derivatives_overlay q = derivatives_overlay p" by (intro ext) (simp only: derivatives_overlay_def f)
  have "regime_checks q = regime_checks p" "crowding_entry_block_reason q = crowding_entry_block_reason p"
    by (intro ext, simp only: crowding_entry_block_reason_def regime_checks_def f)+
  moreover from this have "raw_derivatives_entry_block_reason q = raw_derivatives_entry_block_reason p"
    by (intro ext) (simp only: raw_derivatives_entry_block_reason_def f)
  ultimately show "derivatives_entry_block_reason q = derivatives_entry_block_reason p"
    by (intro ext) (simp only: derivatives_entry_block_reason_def)
  show "expired_holdings q = expired_holdings p" by (intro ext) (simp only: expired_holdings_def f)
  have "execution_turnover q = execution_turnover p" by (intro ext) (simp only: execution_turnover_def f)
  then show "daily_risk_violations q = daily_risk_violations p" by (intro ext) (simp only: daily_risk_violations_def f)
  have "is_bullish q = is_bullish p" by (intro ext) (simp only: is_bullish_def ml f)
  then show "turnover_budget q = turnover_budget p" by (intro ext) (simp only: turnover_budget_def f)
qed

text \<open>The V2.9 challengers change what may enter and nothing else, as the suite promises: with any of them the ranking, the retention of holdings and their exits, the market gates, the sizing, the daily budgets, the order plan and the execution are those of the V2.8 production control.\<close>

lemma v29_changes_entries_only:
  assumes "v \<in> set v29_versions" "dynamic_policy_for_version v = Inr p"
  shows "score_assessments p = score_assessments policy_v28_control
    \<and> most_liquid p = most_liquid policy_v28_control
    \<and> is_retained p = is_retained policy_v28_control
    \<and> expired_holdings p = expired_holdings policy_v28_control
    \<and> derivatives_overlay p = derivatives_overlay policy_v28_control
    \<and> derivatives_entry_block_reason p = derivatives_entry_block_reason policy_v28_control
    \<and> equal_target_weight p = equal_target_weight policy_v28_control
    \<and> daily_risk_violations p = daily_risk_violations policy_v28_control
    \<and> turnover_budget p = turnover_budget policy_v28_control
    \<and> plan p = plan policy_v28_control
    \<and> execute_plan p = execute_plan policy_v28_control"
  using reset_defs [of policy_v28_control p] unfolding v29_reset [OF assms] by simp

section \<open>The hold hurdle\<close>

lemma hold_fields:
  shows "dp_strategy_version (p\<lparr>dp_hold_score_hurdle := x\<rparr>) = dp_strategy_version p"
    and "dp_minimum_history_bars (p\<lparr>dp_hold_score_hurdle := x\<rparr>) = dp_minimum_history_bars p"
    and "dp_liquidity_lookback_bars (p\<lparr>dp_hold_score_hurdle := x\<rparr>) = dp_liquidity_lookback_bars p"
    and "dp_maximum_candidates (p\<lparr>dp_hold_score_hurdle := x\<rparr>) = dp_maximum_candidates p"
    and "dp_maximum_positions (p\<lparr>dp_hold_score_hurdle := x\<rparr>) = dp_maximum_positions p"
    and "dp_invested_fraction (p\<lparr>dp_hold_score_hurdle := x\<rparr>) = dp_invested_fraction p"
    and "dp_maximum_asset_weight (p\<lparr>dp_hold_score_hurdle := x\<rparr>) = dp_maximum_asset_weight p"
    and "dp_minimum_order_notional (p\<lparr>dp_hold_score_hurdle := x\<rparr>) = dp_minimum_order_notional p"
    and "dp_minimum_rebalance_fraction (p\<lparr>dp_hold_score_hurdle := x\<rparr>) = dp_minimum_rebalance_fraction p"
    and "dp_exchange_fee_rate (p\<lparr>dp_hold_score_hurdle := x\<rparr>) = dp_exchange_fee_rate p"
    and "dp_estimated_slippage_rate (p\<lparr>dp_hold_score_hurdle := x\<rparr>) = dp_estimated_slippage_rate p"
    and "dp_entry_score_hurdle (p\<lparr>dp_hold_score_hurdle := x\<rparr>) = dp_entry_score_hurdle p"
    and "dp_exit_score_hurdle (p\<lparr>dp_hold_score_hurdle := x\<rparr>) = dp_exit_score_hurdle p"
    and "dp_maximum_hold_rank (p\<lparr>dp_hold_score_hurdle := x\<rparr>) = dp_maximum_hold_rank p"
    and "dp_required_entry_confirmations (p\<lparr>dp_hold_score_hurdle := x\<rparr>) = dp_required_entry_confirmations p"
    and "dp_reentry_cooldown (p\<lparr>dp_hold_score_hurdle := x\<rparr>) = dp_reentry_cooldown p"
    and "dp_minimum_replacement_score_advantage (p\<lparr>dp_hold_score_hurdle := x\<rparr>) = dp_minimum_replacement_score_advantage p"
    and "dp_maximum_daily_turnover_fraction (p\<lparr>dp_hold_score_hurdle := x\<rparr>) = dp_maximum_daily_turnover_fraction p"
    and "dp_turnover_sell_weight (p\<lparr>dp_hold_score_hurdle := x\<rparr>) = dp_turnover_sell_weight p"
    and "dp_turnover_budget_mode (p\<lparr>dp_hold_score_hurdle := x\<rparr>) = dp_turnover_budget_mode p"
    and "dp_bullish_daily_turnover_fraction (p\<lparr>dp_hold_score_hurdle := x\<rparr>) = dp_bullish_daily_turnover_fraction p"
    and "dp_bullish_btc_minimum_momentum_4h (p\<lparr>dp_hold_score_hurdle := x\<rparr>) = dp_bullish_btc_minimum_momentum_4h p"
    and "dp_bullish_btc_minimum_momentum_24h (p\<lparr>dp_hold_score_hurdle := x\<rparr>) = dp_bullish_btc_minimum_momentum_24h p"
    and "dp_bullish_market_breadth_minimum (p\<lparr>dp_hold_score_hurdle := x\<rparr>) = dp_bullish_market_breadth_minimum p"
    and "dp_bullish_market_breadth_minimum_candidates (p\<lparr>dp_hold_score_hurdle := x\<rparr>) = dp_bullish_market_breadth_minimum_candidates p"
    and "dp_maximum_daily_fee_fraction (p\<lparr>dp_hold_score_hurdle := x\<rparr>) = dp_maximum_daily_fee_fraction p"
    and "dp_maximum_daily_realized_loss_fraction (p\<lparr>dp_hold_score_hurdle := x\<rparr>) = dp_maximum_daily_realized_loss_fraction p"
    and "dp_scoring_method (p\<lparr>dp_hold_score_hurdle := x\<rparr>) = dp_scoring_method p"
    and "dp_score_scale (p\<lparr>dp_hold_score_hurdle := x\<rparr>) = dp_score_scale p"
    and "dp_momentum_1h_weight (p\<lparr>dp_hold_score_hurdle := x\<rparr>) = dp_momentum_1h_weight p"
    and "dp_momentum_4h_weight (p\<lparr>dp_hold_score_hurdle := x\<rparr>) = dp_momentum_4h_weight p"
    and "dp_momentum_24h_weight (p\<lparr>dp_hold_score_hurdle := x\<rparr>) = dp_momentum_24h_weight p"
    and "dp_volatility_weight (p\<lparr>dp_hold_score_hurdle := x\<rparr>) = dp_volatility_weight p"
    and "dp_minimum_entry_momentum_1h (p\<lparr>dp_hold_score_hurdle := x\<rparr>) = dp_minimum_entry_momentum_1h p"
    and "dp_maximum_entry_momentum_1h (p\<lparr>dp_hold_score_hurdle := x\<rparr>) = dp_maximum_entry_momentum_1h p"
    and "dp_minimum_entry_momentum_4h (p\<lparr>dp_hold_score_hurdle := x\<rparr>) = dp_minimum_entry_momentum_4h p"
    and "dp_maximum_entry_momentum_4h (p\<lparr>dp_hold_score_hurdle := x\<rparr>) = dp_maximum_entry_momentum_4h p"
    and "dp_minimum_entry_momentum_24h (p\<lparr>dp_hold_score_hurdle := x\<rparr>) = dp_minimum_entry_momentum_24h p"
    and "dp_maximum_entry_momentum_24h (p\<lparr>dp_hold_score_hurdle := x\<rparr>) = dp_maximum_entry_momentum_24h p"
    and "dp_maximum_entry_volatility (p\<lparr>dp_hold_score_hurdle := x\<rparr>) = dp_maximum_entry_volatility p"
    and "dp_maximum_entry_volatility_quantile (p\<lparr>dp_hold_score_hurdle := x\<rparr>) = dp_maximum_entry_volatility_quantile p"
    and "dp_minimum_hold_momentum_1h (p\<lparr>dp_hold_score_hurdle := x\<rparr>) = dp_minimum_hold_momentum_1h p"
    and "dp_minimum_hold_momentum_24h (p\<lparr>dp_hold_score_hurdle := x\<rparr>) = dp_minimum_hold_momentum_24h p"
    and "dp_maximum_hold_volatility (p\<lparr>dp_hold_score_hurdle := x\<rparr>) = dp_maximum_hold_volatility p"
    and "dp_maximum_holding_period (p\<lparr>dp_hold_score_hurdle := x\<rparr>) = dp_maximum_holding_period p"
    and "dp_excluded_base_assets (p\<lparr>dp_hold_score_hurdle := x\<rparr>) = dp_excluded_base_assets p"
    and "dp_maximum_market_data_age (p\<lparr>dp_hold_score_hurdle := x\<rparr>) = dp_maximum_market_data_age p"
    and "dp_extreme_score_penalty_threshold (p\<lparr>dp_hold_score_hurdle := x\<rparr>) = dp_extreme_score_penalty_threshold p"
    and "dp_extreme_score_maximum_penalty (p\<lparr>dp_hold_score_hurdle := x\<rparr>) = dp_extreme_score_maximum_penalty p"
    and "dp_expected_return_calibration_mode (p\<lparr>dp_hold_score_hurdle := x\<rparr>) = dp_expected_return_calibration_mode p"
    and "dp_expected_return_1h_intercept (p\<lparr>dp_hold_score_hurdle := x\<rparr>) = dp_expected_return_1h_intercept p"
    and "dp_expected_return_1h_score_slope (p\<lparr>dp_hold_score_hurdle := x\<rparr>) = dp_expected_return_1h_score_slope p"
    and "dp_expected_return_4h_intercept (p\<lparr>dp_hold_score_hurdle := x\<rparr>) = dp_expected_return_4h_intercept p"
    and "dp_expected_return_4h_score_slope (p\<lparr>dp_hold_score_hurdle := x\<rparr>) = dp_expected_return_4h_score_slope p"
    and "dp_minimum_fee_adjusted_entry_return (p\<lparr>dp_hold_score_hurdle := x\<rparr>) = dp_minimum_fee_adjusted_entry_return p"
    and "dp_minimum_expected_hold_return (p\<lparr>dp_hold_score_hurdle := x\<rparr>) = dp_minimum_expected_hold_return p"
    and "dp_minimum_fee_adjusted_replacement_advantage (p\<lparr>dp_hold_score_hurdle := x\<rparr>) = dp_minimum_fee_adjusted_replacement_advantage p"
    and "dp_selection_concentration_lookback (p\<lparr>dp_hold_score_hurdle := x\<rparr>) = dp_selection_concentration_lookback p"
    and "dp_maximum_selection_concentration (p\<lparr>dp_hold_score_hurdle := x\<rparr>) = dp_maximum_selection_concentration p"
    and "dp_selection_concentration_minimum_cohorts (p\<lparr>dp_hold_score_hurdle := x\<rparr>) = dp_selection_concentration_minimum_cohorts p"
    and "dp_rolling_asset_performance_lookback (p\<lparr>dp_hold_score_hurdle := x\<rparr>) = dp_rolling_asset_performance_lookback p"
    and "dp_rolling_asset_minimum_sells (p\<lparr>dp_hold_score_hurdle := x\<rparr>) = dp_rolling_asset_minimum_sells p"
    and "dp_maximum_rolling_asset_realized_loss_fraction (p\<lparr>dp_hold_score_hurdle := x\<rparr>) = dp_maximum_rolling_asset_realized_loss_fraction p"
    and "dp_derivatives_overlay_mode (p\<lparr>dp_hold_score_hurdle := x\<rparr>) = dp_derivatives_overlay_mode p"
    and "dp_derivatives_feature_version (p\<lparr>dp_hold_score_hurdle := x\<rparr>) = dp_derivatives_feature_version p"
    and "dp_derivatives_maximum_age (p\<lparr>dp_hold_score_hurdle := x\<rparr>) = dp_derivatives_maximum_age p"
    and "dp_derivatives_minimum_funding_rate (p\<lparr>dp_hold_score_hurdle := x\<rparr>) = dp_derivatives_minimum_funding_rate p"
    and "dp_derivatives_minimum_basis_input_rate (p\<lparr>dp_hold_score_hurdle := x\<rparr>) = dp_derivatives_minimum_basis_input_rate p"
    and "dp_derivatives_minimum_global_long_short_ratio (p\<lparr>dp_hold_score_hurdle := x\<rparr>) = dp_derivatives_minimum_global_long_short_ratio p"
    and "dp_crowding_overlay_mode (p\<lparr>dp_hold_score_hurdle := x\<rparr>) = dp_crowding_overlay_mode p"
    and "dp_crowding_feature_version (p\<lparr>dp_hold_score_hurdle := x\<rparr>) = dp_crowding_feature_version p"
    and "dp_crowding_maximum_age (p\<lparr>dp_hold_score_hurdle := x\<rparr>) = dp_crowding_maximum_age p"
    and "dp_crowding_maximum_long_score (p\<lparr>dp_hold_score_hurdle := x\<rparr>) = dp_crowding_maximum_long_score p"
    and "dp_crowding_maximum_bearish_unwind_score (p\<lparr>dp_hold_score_hurdle := x\<rparr>) = dp_crowding_maximum_bearish_unwind_score p"
    and "dp_maximum_entry_market_data_age (p\<lparr>dp_hold_score_hurdle := x\<rparr>) = dp_maximum_entry_market_data_age p"
  by simp_all

lemmas hold_assess_defs =
  round_trip_cost_hurdle_def effective_entry_score_hurdle_def maximum_age_def average_liquidity_def
  raw_momentum_score_def eligible_candidate_def assess_known_def assess_member_def
  expected_relative_returns_def penalised_score_def with_score_evidence_def most_liquid_def
  calm_pullback_score_def score_assessments_def assess_start_def assess_def

lemmas hold_gates_defs =
  missing_overlay_def overlay_query_of_def derivatives_overlay_def derivatives_overlay_reasons_def
  regime_checks_def raw_derivatives_entry_block_reason_def crowding_entry_block_reason_def
  derivatives_entry_block_reason_def breach_count_def derivatives_cost_penalty_def decision_diagnostics_def

lemmas hold_select_defs =
  round_trip_cost_hurdle_def effective_entry_score_hurdle_def most_liquid_def
  entry_guard_reason_def hold_guard_reason_def entry_volatility_cap_def fee_adjusted_entry_return_passes_def
  expected_hold_return_passes_def fee_adjusted_replacement_passes_def prior_count_def scored_candidates_def
  is_retained_def is_entrant_def hold_evidence_def entry_evidence_def initial_evidence_def guard_reasons_def
  selection_reasons_def selected_reason_def equal_target_weight_def ranked_candidates_def select_detailed_def
  entry_signal_eligibility_def

lemma hold_member: "assess_member (p\<lparr>dp_hold_score_hurdle := x\<rparr>) = assess_member p"
  by (intro ext) (simp only: hold_assess_defs hold_fields)

lemma hold_assess:
  "assess (p\<lparr>dp_hold_score_hurdle := x\<rparr>) = assess p"
  "with_score_evidence (p\<lparr>dp_hold_score_hurdle := x\<rparr>) = with_score_evidence p"
  by (intro ext, simp only: hold_member hold_assess_defs hold_fields)+

lemma hold_gates:
  "derivatives_overlay (p\<lparr>dp_hold_score_hurdle := x\<rparr>) = derivatives_overlay p"
  "derivatives_overlay_reasons (p\<lparr>dp_hold_score_hurdle := x\<rparr>) = derivatives_overlay_reasons p"
  "raw_derivatives_entry_block_reason (p\<lparr>dp_hold_score_hurdle := x\<rparr>) = raw_derivatives_entry_block_reason p"
  "crowding_entry_block_reason (p\<lparr>dp_hold_score_hurdle := x\<rparr>) = crowding_entry_block_reason p"
  "derivatives_entry_block_reason (p\<lparr>dp_hold_score_hurdle := x\<rparr>) = derivatives_entry_block_reason p"
  "derivatives_cost_penalty (p\<lparr>dp_hold_score_hurdle := x\<rparr>) = derivatives_cost_penalty p"
  "decision_diagnostics (p\<lparr>dp_hold_score_hurdle := x\<rparr>) = decision_diagnostics p"
  by (intro ext, simp only: hold_gates_defs hold_fields)+

lemma hold_fill: "fill_positions (p\<lparr>dp_hold_score_hurdle := x\<rparr>) = fill_positions p"
proof -
  have "fill_one (p\<lparr>dp_hold_score_hurdle := x\<rparr>) = fill_one p"
    by (intro ext) (simp only: fill_one_def replacement_score_passes_def fee_adjusted_replacement_passes_def
        round_trip_cost_hurdle_def hold_fields)
  then have "fill_positions (p\<lparr>dp_hold_score_hurdle := x\<rparr>) es = fill_positions p es" for es
    by (induction es) (intro ext, simp)+
  then show ?thesis by blast
qed

lemma hold_rules:
  "is_retained (p\<lparr>dp_hold_score_hurdle := x\<rparr>) = is_retained p"
  "is_entrant (p\<lparr>dp_hold_score_hurdle := x\<rparr>) = is_entrant p"
  "entry_guard_reason (p\<lparr>dp_hold_score_hurdle := x\<rparr>) = entry_guard_reason p"
  "hold_guard_reason (p\<lparr>dp_hold_score_hurdle := x\<rparr>) = hold_guard_reason p"
  by (intro ext, simp only: hold_select_defs hold_fields)+

lemma hold_select:
  "select_detailed (p\<lparr>dp_hold_score_hurdle := x\<rparr>) = select_detailed p"
  "entry_signal_eligibility (p\<lparr>dp_hold_score_hurdle := x\<rparr>) = entry_signal_eligibility p"
  by (intro ext, simp only: hold_rules hold_select_defs hold_fill hold_fields)+

lemma hold_variants: "selection_variants (p\<lparr>dp_hold_score_hurdle := x\<rparr>) = selection_variants p"
proof -
  let ?q = "p\<lparr>dp_hold_score_hurdle := x\<rparr>"
  have v: "variant_of (r\<lparr>dp_hold_score_hurdle := x\<rparr>) = variant_of r" for r
    by (intro ext) (simp only: variant_of_def hold_select)
  have r: "repenalised (r\<lparr>dp_hold_score_hurdle := x\<rparr>) = repenalised r" for r
    by (intro ext) (simp only: repenalised_def hold_assess)
  have c: "v25_control_policy ?q = (v25_control_policy p)\<lparr>dp_hold_score_hurdle := x\<rparr>"
    "?q\<lparr>dp_minimum_entry_momentum_4h := y\<rparr> = p\<lparr>dp_minimum_entry_momentum_4h := y\<rparr>\<lparr>dp_hold_score_hurdle := x\<rparr>" for y
    by (simp_all add: v25_control_policy_def)
  show ?thesis by (intro ext) (simp only: selection_variants_def c v r hold_gates hold_fields Let_def)
qed

lemmas hold_history_defs =
  recent_exits_def expired_holdings_def rolling_loss_blocked_def own_decisions_def previous_scores_def
  prior_counts_def passing_scores_def prior_confirmation_counts_def prior_entry_eligible_confirmation_counts_def
  selection_concentration_blocked_def execution_turnover_def daily_risk_violations_def is_bullish_def
  turnover_budget_def effective_entry_score_hurdle_def round_trip_cost_hurdle_def most_liquid_def

lemma hold_rows:
  "execution_turnover (p\<lparr>dp_hold_score_hurdle := x\<rparr>) = execution_turnover p"
  "passing_scores (p\<lparr>dp_hold_score_hurdle := x\<rparr>) = passing_scores p"
  "plan_row (p\<lparr>dp_hold_score_hurdle := x\<rparr>) = plan_row p"
  by (intro ext, simp only: hold_history_defs plan_row_def hold_fields)+

lemma hold_history:
  "recent_exits (p\<lparr>dp_hold_score_hurdle := x\<rparr>) = recent_exits p"
  "expired_holdings (p\<lparr>dp_hold_score_hurdle := x\<rparr>) = expired_holdings p"
  "rolling_loss_blocked (p\<lparr>dp_hold_score_hurdle := x\<rparr>) = rolling_loss_blocked p"
  "previous_scores (p\<lparr>dp_hold_score_hurdle := x\<rparr>) = previous_scores p"
  "prior_confirmation_counts (p\<lparr>dp_hold_score_hurdle := x\<rparr>) = prior_confirmation_counts p"
  "prior_entry_eligible_confirmation_counts (p\<lparr>dp_hold_score_hurdle := x\<rparr>) = prior_entry_eligible_confirmation_counts p"
  "selection_concentration_blocked (p\<lparr>dp_hold_score_hurdle := x\<rparr>) = selection_concentration_blocked p"
  "daily_risk_violations (p\<lparr>dp_hold_score_hurdle := x\<rparr>) = daily_risk_violations p"
  "turnover_budget (p\<lparr>dp_hold_score_hurdle := x\<rparr>) = turnover_budget p"
  by (intro ext, simp only: hold_rows hold_history_defs hold_fields)+

lemma hold_rebalance:
  "plan (p\<lparr>dp_hold_score_hurdle := x\<rparr>) = plan p"
  "execute_plan (p\<lparr>dp_hold_score_hurdle := x\<rparr>) = execute_plan p"
  "decision_reasons (p\<lparr>dp_hold_score_hurdle := x\<rparr>) = decision_reasons p"
  "annotate (p\<lparr>dp_hold_score_hurdle := x\<rparr>) = annotate p"
  by (intro ext, simp only: hold_rows plan_def plan_over_def execute_plan_def execution_risk_policy_def
      decision_reasons_def annotate_def prior_count_def effective_entry_score_hurdle_def
      round_trip_cost_hurdle_def hold_fields)+

text \<open>C40: The hold score hurdle of a profile is dead: a run returns the same result and leaves the same ledger whatever its value, so there is no hold threshold between the entry hurdle and the exit hurdle.\<close>

theorem hold_score_hurdle_unused:
  "run (env\<lparr>env_policy := (env_policy env)\<lparr>dp_hold_score_hurdle := x\<rparr>\<rparr>) = run env"
proof -
  let ?e = "env\<lparr>env_policy := (env_policy env)\<lparr>dp_hold_score_hurdle := x\<rparr>\<rparr>"
  have e: "env_policy ?e = (env_policy env)\<lparr>dp_hold_score_hurdle := x\<rparr>" "env_history ?e = env_history env"
    "env_fetch ?e = env_fetch env" "env_log_std ?e = env_log_std env" "env_provider ?e = env_provider env"
    "env_factory ?e = env_factory env" "env_sha256 ?e = env_sha256 env" "env_now ?e = env_now env"
    "env_fill_clock ?e = env_fill_clock env" by simp_all
  have "selection_input_of ?e = selection_input_of env"
    by (intro ext) (simp only: selection_input_of_def e hold_history hold_gates Let_def)
  then have "decide ?e = decide env"
    by (intro ext) (simp only: decide_def e hold_assess hold_gates hold_select hold_variants hold_history
        hold_rebalance Let_def)
  then show ?thesis
    by (intro ext) (simp only: run_def persist_def decision_record_def past_deadline_def result_of_def e
        hold_rebalance hold_gates hold_fields)
qed

end
