(* ===== verification/Plans.thy ===== *)
theory Plans
  imports Rebalance
begin

text \<open>
  What \<^verbatim>\<open>DynamicPaperRebalanceService._plan\<close> guarantees: the rows of a plan, its independence of
  the order in which the set of symbols is enumerated, the safety of the planned orders, and the
  exact liquidation of a market that lost its target.
\<close>

section \<open>The rows of a plan\<close>

lemma mk_order_intent_Inr:
  "mk_order_intent pid purpose pair side q t iid = Inr o' \<longleftrightarrow>
     (\<exists>u. t = Aware u \<and> 0 < q \<and> py_strip iid \<noteq> []
       \<and> o' = \<lparr>oi_portfolio_id = pid, oi_purpose = purpose, oi_pair = pair, oi_side = side, oi_quantity = q,
              oi_created_at = u, oi_intent_id = iid\<rparr>)"
  by (cases t) (auto simp: mk_order_intent_def not_le)

text \<open>The threshold a difference must reach to be traded.\<close>

definition trade_threshold :: "universe_policy \<Rightarrow> plan_input \<Rightarrow> decimal" where
  "trade_threshold p i = max (dp_minimum_order_notional p) (dmul (pi_equity i) (dp_minimum_rebalance_fraction p))"

abbreviation held_of :: "plan_input \<Rightarrow> string \<Rightarrow> decimal" where
  "held_of i symbol \<equiv> lookup0 (current_quantities (pi_portfolio i)) symbol"

abbreviation target_of :: "plan_input \<Rightarrow> string \<Rightarrow> decimal" where
  "target_of i symbol \<equiv> dmul (pi_equity i) (lookup0 (pi_targets i) symbol)"

definition gap_of :: "plan_input \<Rightarrow> string \<Rightarrow> decimal \<Rightarrow> decimal" where
  "gap_of i symbol price = dsub (target_of i symbol) (dmul (held_of i symbol) price)"

lemma plan_row_trades:
  assumes "pi_prices i symbol = Some price" "\<not> dabs (gap_of i symbol price) < trade_threshold p i"
  shows "plan_row p sha i symbol =
    (case find (\<lambda>m. pair_symbol (member_pair m) = symbol) (snapshot_members (pi_snapshot i)) of
       None \<Rightarrow> Inl StopIteration
     | Some m \<Rightarrow>
    (let side = (if 0 < gap_of i symbol price then BUY else SELL)
     in if side = BUY \<and> (pi_block_buys i \<or> symbol \<in> pi_blocked_buy_pairs i) then Inr None
        else bind_result (order_quantity side (target_of i symbol) (gap_of i symbol price) price (held_of i symbol))
          (\<lambda>quantity. bind_result (mk_order_intent (ps_portfolio_id (pi_portfolio i)) (ps_purpose (pi_portfolio i))
              (member_pair m) side quantity (Aware (pi_as_of i))
              (intent_identity sha (ps_portfolio_id (pi_portfolio i)) (pi_as_of i) symbol side)) (\<lambda>intent.
           bind_result (ddiv (dmul (held_of i symbol) price) (pi_equity i)) (\<lambda>current_weight.
             Inr (Some (\<lparr>op_intent_id = oi_intent_id intent, op_pair = symbol,
                op_side = side, op_quantity = quantity, op_reference_price = price,
                op_notional = dabs (gap_of i symbol price), op_current_weight = current_weight,
                op_target_weight = lookup0 (pi_targets i) symbol, op_status = ''DRY_RUN''\<rparr>, intent)))))))"
  using assms
  unfolding plan_row_def gap_of_def trade_threshold_def Let_def by (simp only: option.case if_False)

lemma plan_row_Some:
  assumes "plan_row p sha i symbol = Inr (Some (r, intent))"
  obtains price m where "pi_prices i symbol = Some price" "m \<in> set (snapshot_members (pi_snapshot i))"
    "pair_symbol (member_pair m) = symbol" "oi_pair intent = member_pair m"
    "oi_side intent = (if 0 < gap_of i symbol price then BUY else SELL)"
    "trade_threshold p i \<le> dabs (gap_of i symbol price)"
    "order_quantity (oi_side intent) (target_of i symbol) (gap_of i symbol price) price (held_of i symbol)
       = Inr (oi_quantity intent)"
    "0 < oi_quantity intent"
    "oi_side intent = BUY \<Longrightarrow> \<not> pi_block_buys i \<and> symbol \<notin> pi_blocked_buy_pairs i"
    "oi_portfolio_id intent = ps_portfolio_id (pi_portfolio i)" "oi_purpose intent = ps_purpose (pi_portfolio i)"
    "oi_created_at intent = pi_as_of i"
    "oi_intent_id intent = intent_identity sha (ps_portfolio_id (pi_portfolio i)) (pi_as_of i) symbol (oi_side intent)"
    "op_pair r = symbol" "op_side r = oi_side intent" "op_quantity r = oi_quantity intent"
    "op_intent_id r = oi_intent_id intent" "op_reference_price r = price"
    "op_notional r = dabs (gap_of i symbol price)"
proof -
  obtain price where price: "pi_prices i symbol = Some price"
    using assms by (auto simp: plan_row_def split: option.splits)
  have thr: "\<not> dabs (gap_of i symbol price) < trade_threshold p i"
    using assms price by (auto simp: plan_row_def gap_of_def trade_threshold_def Let_def split: if_splits)
  obtain m where find: "find (\<lambda>m. pair_symbol (member_pair m) = symbol) (snapshot_members (pi_snapshot i)) = Some m"
    using assms plan_row_trades [OF price thr, of sha]
    by (cases "find (\<lambda>m. pair_symbol (member_pair m) = symbol) (snapshot_members (pi_snapshot i))") simp_all
  note m = find_Some_in [OF find]
  note row = plan_row_trades [OF price thr, unfolded find option.case]
  show ?thesis
    by (rule that [of price m])
      (use assms price thr m in \<open>auto simp: row Let_def py_result mk_order_intent_Inr split: if_splits\<close>)
qed

section \<open>Sample plans\<close>

definition sample_plan_input :: "decimal \<Rightarrow> decimal \<Rightarrow> (string \<times> decimal) list \<Rightarrow> plan_input" where
  "sample_plan_input held price targets =
     \<lparr>pi_snapshot = \<lparr>snapshot_observed_at = 0, snapshot_source = ''UPBIT'', snapshot_members =
          [\<lparr>member_pair = btc_krw, member_warning = False, member_source = ''UPBIT'', member_observed_at = 0\<rparr>]\<rparr>,
      pi_portfolio = \<lparr>ps_portfolio_id = ''paper'', ps_purpose = PAPER_TRADING,
          ps_cash_asset = \<lparr>asset_symbol = ''KRW'', asset_kind = CASH\<rparr>, ps_cash_balance = 20000,
          ps_positions = (if held = 0 then [] else
            [\<lparr>pp_asset = pair_base btc_krw, pp_quantity = held, pp_average_cost = 0\<rparr>]), ps_updated_at = 0\<rparr>,
      pi_equity = 20000, pi_prices = [''BTCKRW'' \<mapsto> price], pi_targets = targets, pi_as_of = 7,
      pi_block_buys = False, pi_blocked_buy_pairs = {}\<rparr>"

lemma dec_19:
  "dec (50000 / 19) = 2631578947368421052631578947 / 10 ^ 24"
  "dec (49999999999999999999999999993 / 10000000000000000000000000) = 4999999999999999999999999999 / 10 ^ 24"
  using dec_eval [of "50000 / 19" 24 2631578947368421052631578947]
    dec_eval [of "49999999999999999999999999993 / 10000000000000000000000000" 24 4999999999999999999999999999]
  by simp_all

lemma strip_intent [simp]: "py_strip (''dynamic-rebalance-'' @ s) \<noteq> []"
proof -
  have d: "\<not> py_isspace CHR ''d''" by (simp add: py_isspace_def)
  then have "dropWhile py_isspace (''dynamic-rebalance-'' @ s) = ''dynamic-rebalance-'' @ s" by simp
  moreover have "dropWhile py_isspace (rev (''dynamic-rebalance-'' @ s)) \<noteq> []"
    using d by (auto simp: dropWhile_eq_Nil_conv)
  ultimately show ?thesis unfolding py_strip_def by simp
qed

lemma sample_sale:
  "\<exists>plans intents. plan_over policy_v22 (\<lambda>_. ''digest'') (sample_plan_input 10 1000 []) [''BTCKRW''] = Inr (plans, intents)"
proof -
  let ?i = "sample_plan_input 10 1000 []"
  have d: "dec 10000 = 10000" "dec (- 10000) = - 10000" "dec 400 = 400" "dec (1 / 2) = 1 / 2"
    using dec_of_int [of 10000] dec_of_int [of "- 10000"] dec_of_int [of 400] dec_tenths by simp_all
  have p: "dp_minimum_order_notional policy_v22 = 5000" "dp_minimum_rebalance_fraction policy_v22 = 2 / 100"
    by (simp_all add: policy_v22_def policy_v21_def)
  have sym: "pair_symbol btc_krw = ''BTCKRW''" by (simp add: btc_krw_def pair_symbol_def)
  have h: "held_of ?i ''BTCKRW'' = 10"
    by (simp add: sample_plan_input_def lookup0_def current_quantities_def held_symbol_def btc_krw_def)
  have g: "gap_of ?i ''BTCKRW'' 1000 = - 10000"
    unfolding gap_of_def h by (simp add: sample_plan_input_def lookup0_def decimal_defs d)
  have t: "trade_threshold policy_v22 ?i = 5000"
    by (simp add: trade_threshold_def p sample_plan_input_def decimal_defs d)
  have pr: "pi_prices ?i ''BTCKRW'' = Some 1000" by (simp add: sample_plan_input_def)
  have thr: "\<not> dabs (gap_of ?i ''BTCKRW'' 1000) < trade_threshold policy_v22 ?i"
    by (simp add: g t dabs_def d)
  have fnd: "find (\<lambda>m. pair_symbol (member_pair m) = ''BTCKRW'') (snapshot_members (pi_snapshot ?i)) =
      Some \<lparr>member_pair = btc_krw, member_warning = False, member_source = ''UPBIT'', member_observed_at = 0\<rparr>"
    by (simp add: sample_plan_input_def sym)
  have st: "py_strip ''dynamic-rebalance-digest'' \<noteq> []" by (simp add: py_strip_def py_isspace_def)
  have sel: "pi_targets ?i = []" "pi_equity ?i = 20000" by (simp_all add: sample_plan_input_def)
  have "\<exists>row. plan_row policy_v22 (\<lambda>_. ''digest'') ?i ''BTCKRW'' = Inr (Some row)"
    unfolding plan_row_trades [OF pr thr] fnd option.case g h
    by (simp add: sel sym order_quantity_def ddiv_def decimal_defs d mk_order_intent_def intent_identity_def st lookup0_def)
  then show ?thesis by (auto simp: plan_over_def Let_def)
qed

section \<open>Order of the symbols\<close>

lemma row_key_symbol:
  "plan_row p sha i symbol = Inr (Some row) \<Longrightarrow> snd (row_key row) = symbol"
  by (cases row) (auto elim!: plan_row_Some simp: row_key_def)

lemma rows_keys_distinct:
  "map_result (plan_row p sha i) symbols = Inr rows \<Longrightarrow> distinct symbols \<Longrightarrow>
   distinct (map row_key (List.map_filter id rows))"
proof (induction symbols arbitrary: rows)
  case (Cons s ss)
  then obtain r rs where r: "plan_row p sha i s = Inr r" "map_result (plan_row p sha i) ss = Inr rs" "rows = r # rs"
    by (auto simp: py_result)
  have IH: "distinct (map row_key (List.map_filter id rs))"
    by (rule Cons.IH [OF r(2)]) (use Cons.prems in simp)
  show ?case
  proof (cases r)
    case (Some row)
    have "row_key row \<notin> row_key ` set (List.map_filter id rs)"
    proof
      assume "row_key row \<in> row_key ` set (List.map_filter id rs)"
      then obtain row' where row': "row' \<in> set (List.map_filter id rs)" "row_key row' = row_key row" by auto
      then obtain s' where "s' \<in> set ss" "plan_row p sha i s' = Inr (Some row')"
        using map_result_filter_set [OF r(2)] by auto
      then show False
        using row_key_symbol [of p sha i s row] row_key_symbol [of p sha i s' row'] r(1) Some row'(2) Cons.prems(2)
        by auto
    qed
    then show ?thesis using IH unfolding r(3) Some map_filter_id by simp
  next
    case None
    then show ?thesis using IH unfolding r(3) None map_filter_id by simp
  qed
qed (simp add: map_filter_id)

lemma plan_over_Inr:
  "plan_over p sha i symbols = Inr (plans, intents) \<longleftrightarrow>
    (\<exists>rows. map_result (plan_row p sha i) symbols = Inr rows
      \<and> plans = map fst (sort_on row_key (List.map_filter id rows))
      \<and> intents = map snd (sort_on row_key (List.map_filter id rows)))"
  by (auto simp: plan_over_def py_result Let_def)

lemma plan_over_rows:
  assumes "plan_over p sha i symbols = Inr (plans, intents)"
  obtains rows where "plans = map fst rows" "intents = map snd rows"
    "sorted_wrt (\<lambda>a b. key_le (row_key a) (row_key b)) rows"
    "set rows = {row. \<exists>s \<in> set symbols. plan_row p sha i s = Inr (Some row)}"
  using assms that [of "sort_on row_key (List.map_filter id rows)" for rows]
  by (auto simp: plan_over_Inr map_result_filter_set sorted_sort_on)

text \<open>The order in which the set of symbols is enumerated never shows: two enumerations of the same symbols give the same plan, or neither gives one.\<close>

lemma plan_order_independent:
  assumes "distinct symbols" "distinct symbols'" "set symbols = set symbols'"
  shows "plan_over p sha i symbols = Inr result \<longleftrightarrow> plan_over p sha i symbols' = Inr result"
proof -
  have one: "plan_over p sha i ys = Inr result"
    if d: "distinct xs" "distinct ys" "set xs = set ys" and r: "plan_over p sha i xs = Inr result" for xs ys
  proof -
    obtain plans intents where res: "result = (plans, intents)" by (cases result)
    obtain rx where rx: "map_result (plan_row p sha i) xs = Inr rx" using r by (auto simp: res plan_over_Inr)
    then obtain ry where ry: "map_result (plan_row p sha i) ys = Inr ry"
      using map_result_ok_iff [of "plan_row p sha i"] d(3) by metis
    have "set (List.map_filter id rx) = set (List.map_filter id ry)"
      using map_result_filter_set [OF rx] map_result_filter_set [OF ry] d(3) by simp
    then have "sort_on row_key (List.map_filter id rx) = sort_on row_key (List.map_filter id ry)"
      by (intro sort_on_unique rows_keys_distinct [OF rx d(1)] rows_keys_distinct [OF ry d(2)])
    then show ?thesis using r rx ry by (simp add: res plan_over_Inr)
  qed
  show ?thesis using one [OF assms] one [OF assms(2,1) assms(3) [symmetric]] by blast
qed

section \<open>Safety\<close>

lemma side_split:
  "sorted_wrt (\<lambda>a b. key_le (row_key a) (row_key b)) rows \<Longrightarrow>
   map snd rows = filter (\<lambda>o'. oi_side o' = SELL) (map snd rows) @ filter (\<lambda>o'. oi_side o' = BUY) (map snd rows)"
proof (induction rows)
  case (Cons r rows)
  show ?case
  proof (cases "oi_side (snd r)")
    case SELL
    have "map snd rows = filter (\<lambda>o'. oi_side o' = SELL) (map snd rows) @ filter (\<lambda>o'. oi_side o' = BUY) (map snd rows)"
      using Cons.prems by (intro Cons.IH) simp
    then show ?thesis by (simp only: list.map filter.simps SELL order_side.distinct if_True if_False append_Cons simp_thms)
  next
    case BUY
    have buy: "oi_side (snd x) = BUY" if "x \<in> set rows" for x
    proof (rule ccontr)
      assume "oi_side (snd x) \<noteq> BUY"
      then have "fst (row_key x) < fst (row_key r)" using BUY by (simp add: row_key_def)
      moreover have "key_le (row_key r) (row_key x)" using Cons.prems that by simp
      ultimately show False by (simp add: key_le_def)
    qed
    have none: "filter (\<lambda>o'. oi_side o' = SELL) (map snd rows) = []"
      unfolding filter_empty_conv
    proof
      fix o' assume "o' \<in> set (map snd rows)"
      then obtain x where "x \<in> set rows" "o' = snd x" by (auto simp del: split_paired_Ex)
      with buy show "oi_side o' \<noteq> SELL" by simp
    qed
    have "filter (\<lambda>o'. oi_side o' = BUY) (map snd rows) = map snd rows"
      using Cons.IH Cons.prems none by (metis append_Nil sorted_wrt.simps(2))
    then show ?thesis by (simp only: list.map filter.simps none BUY order_side.distinct if_True if_False append_Nil simp_thms)
  qed
qed simp

lemma order_quantity_sell:
  "order_quantity SELL t g price held = Inr q \<Longrightarrow> q \<le> held \<and> (t = 0 \<longrightarrow> q = held)"
  by (auto simp: order_quantity_def py_result split: if_splits)

text \<open>C7: A plan is safe to execute: all sales come before all purchases; every order has a positive quantity and a difference of at least the trading threshold on a market of the snapshot with a known price; no sale exceeds the position; and no purchase is planned while purchases are blocked, for all markets or for that one.\<close>

theorem plan_safe:
  assumes "plan_over p sha i symbols = Inr (plans, intents)"
  shows "intents = filter (\<lambda>o'. oi_side o' = SELL) intents @ filter (\<lambda>o'. oi_side o' = BUY) intents
    \<and> map op_intent_id plans = map oi_intent_id intents
    \<and> (\<forall>o' \<in> set intents. \<exists>symbol \<in> set symbols. \<exists>price. pair_symbol (oi_pair o') = symbol
        \<and> oi_pair o' \<in> member_pair ` set (snapshot_members (pi_snapshot i))
        \<and> pi_prices i symbol = Some price \<and> 0 < oi_quantity o'
        \<and> trade_threshold p i \<le> dabs (gap_of i symbol price)
        \<and> (oi_side o' = SELL \<longrightarrow> gap_of i symbol price \<le> 0 \<and> oi_quantity o' \<le> held_of i symbol)
        \<and> (oi_side o' = BUY \<longrightarrow> 0 < gap_of i symbol price \<and> \<not> pi_block_buys i \<and> symbol \<notin> pi_blocked_buy_pairs i))"
proof -
  obtain rows where rows: "plans = map fst rows" "intents = map snd rows"
    "sorted_wrt (\<lambda>a b. key_le (row_key a) (row_key b)) rows"
    "set rows = {row. \<exists>s \<in> set symbols. plan_row p sha i s = Inr (Some row)}"
    using assms by (rule plan_over_rows)
  have "op_intent_id (fst row) = oi_intent_id (snd row)" if "row \<in> set rows" for row
    using that unfolding rows(4) by (cases row) (auto elim!: plan_row_Some)
  moreover have "\<exists>symbol \<in> set symbols. \<exists>price. pair_symbol (oi_pair o') = symbol
        \<and> oi_pair o' \<in> member_pair ` set (snapshot_members (pi_snapshot i))
        \<and> pi_prices i symbol = Some price \<and> 0 < oi_quantity o'
        \<and> trade_threshold p i \<le> dabs (gap_of i symbol price)
        \<and> (oi_side o' = SELL \<longrightarrow> gap_of i symbol price \<le> 0 \<and> oi_quantity o' \<le> held_of i symbol)
        \<and> (oi_side o' = BUY \<longrightarrow> 0 < gap_of i symbol price \<and> \<not> pi_block_buys i \<and> symbol \<notin> pi_blocked_buy_pairs i)"
    if o: "o' \<in> set intents" for o'
  proof -
    obtain r s where s: "s \<in> set symbols" "plan_row p sha i s = Inr (Some (r, o'))"
      using o rows(2,4) by auto
    from s(2) show ?thesis
    proof (cases rule: plan_row_Some)
      case (1 price m)
      then show ?thesis using s(1) order_quantity_sell
        by (intro bexI [of _ s] exI [of _ price]) (auto simp: not_less split: if_splits)
    qed
  qed
  ultimately show ?thesis
    using side_split [OF rows(3)] rows(1,2) by simp
qed

lemma plan_safe_witness:
  "\<exists>plans intents. plan_over policy_v22 (\<lambda>_. ''digest'') (sample_plan_input 10 1000 []) [''BTCKRW''] = Inr (plans, intents)
     \<and> map op_intent_id plans = map oi_intent_id intents"
  using sample_sale plan_safe by blast

text \<open>A held market without a target is sold exactly: whenever its value reaches the trading threshold the plan sells the whole position, to the last digit, and leaves no remainder.\<close>

lemma plan_liquidates_exactly:
  assumes plan: "plan_over p sha i symbols = Inr (plans, intents)"
    and s: "symbol \<in> set symbols" "pi_prices i symbol = Some price" "0 < price"
    and held: "0 < held_of i symbol" and no_target: "lookup0 (pi_targets i) symbol = 0"
    and large: "trade_threshold p i \<le> dmul (held_of i symbol) price"
  shows "\<exists>o' \<in> set intents. pair_symbol (oi_pair o') = symbol \<and> oi_side o' = SELL
    \<and> oi_quantity o' = held_of i symbol"
proof -
  have t0: "target_of i symbol = 0" by (simp add: no_target dmul_def)
  have val: "0 < dmul (held_of i symbol) price" using held s(3) by (rule dmul_pos)
  have gap: "gap_of i symbol price = - dmul (held_of i symbol) price"
    unfolding gap_of_def t0 by (simp only: dsub_def dmul_def diff_0 dec.rnd_minus dec.rnd_idem)
  have thr: "\<not> dabs (gap_of i symbol price) < trade_threshold p i"
    using large val by (simp add: gap dabs_def dmul_def)
  obtain rows where rows: "plans = map fst rows" "intents = map snd rows"
    "sorted_wrt (\<lambda>a b. key_le (row_key a) (row_key b)) rows"
    "set rows = {row. \<exists>s \<in> set symbols. plan_row p sha i s = Inr (Some row)}"
    using plan by (rule plan_over_rows)
  obtain x where x: "plan_row p sha i symbol = Inr x"
    using plan s(1) map_result_ok_iff [of "plan_row p sha i" symbols] by (auto simp: plan_over_Inr)
  have not_buy: "\<not> 0 < gap_of i symbol price" using gap val by simp
  have "x \<noteq> None"
  proof
    assume "x = None"
    then show False
      using x plan_row_trades [OF s(2) thr, of sha] not_buy by (auto simp: Let_def py_result split: option.splits)
  qed
  then obtain r o' where ro: "plan_row p sha i symbol = Inr (Some (r, o'))" using x by auto
  then have "o' \<in> set intents" using s(1) rows(2,4) by force
  moreover from ro have "pair_symbol (oi_pair o') = symbol \<and> oi_side o' = SELL \<and> oi_quantity o' = held_of i symbol"
  proof (cases rule: plan_row_Some)
    case (1 price' m)
    then have "oi_side o' = SELL" using s(2) not_buy by auto
    with 1 show ?thesis using order_quantity_sell t0 by auto
  qed
  ultimately show ?thesis by blast
qed

section \<open>The minimum order\<close>

text \<open>C39: The plan and the risk engine disagree at the minimum order: with an equity of 20000 and a target of a quarter, the difference of exactly 5000 passes the planning threshold of the published V2.2 profile, but at a price of 1.9 the rounded quantity is worth 4999.999999999999999999999999, and the risk engine of the execution refuses the planned order.\<close>

theorem planned_minimum_order_refused:
  "\<exists>row intent risk. plan_row policy_v22 (\<lambda>_. ''digest'') (sample_plan_input 0 (19 / 10) [(''BTCKRW'', 1 / 4)]) ''BTCKRW''
      = Inr (Some (row, intent))
    \<and> op_notional row = 5000 \<and> dp_minimum_order_notional policy_v22 = 5000
    \<and> execution_risk_policy policy_v22 20000 = Inr risk
    \<and> approve_intent risk [''BTCKRW'' \<mapsto> 19 / 10] intent = Inl (ValueError ''order is below the minimum notional'')"
proof -
  let ?i = "sample_plan_input 0 (19 / 10) [(''BTCKRW'', 1 / 4)]"
  have p: "dp_minimum_order_notional policy_v22 = 5000" "dp_minimum_rebalance_fraction policy_v22 = 2 / 100"
    by (simp_all add: policy_v22_def policy_v21_def)
  have d: "dec 5000 = 5000" "dec 400 = 400" using dec_of_int [of 5000] dec_of_int [of 400] by simp_all
  have sym: "pair_symbol btc_krw = ''BTCKRW''" by (simp add: btc_krw_def pair_symbol_def)
  have g: "gap_of ?i ''BTCKRW'' (19 / 10) = 5000"
    by (simp add: gap_of_def sample_plan_input_def lookup0_def current_quantities_def decimal_defs d)
  have t: "trade_threshold policy_v22 ?i = 5000"
    by (simp add: trade_threshold_def p sample_plan_input_def decimal_defs d)
  have pr: "pi_prices ?i ''BTCKRW'' = Some (19 / 10)" by (simp add: sample_plan_input_def)
  have thr: "\<not> dabs (gap_of ?i ''BTCKRW'' (19 / 10)) < trade_threshold policy_v22 ?i"
    by (simp add: g t dabs_def d)
  have fnd: "find (\<lambda>m. pair_symbol (member_pair m) = ''BTCKRW'') (snapshot_members (pi_snapshot ?i)) =
      Some \<lparr>member_pair = btc_krw, member_warning = False, member_source = ''UPBIT'', member_observed_at = 0\<rparr>"
    by (simp add: sample_plan_input_def sym)
  have st: "py_strip ''dynamic-rebalance-digest'' \<noteq> []" by (simp add: py_strip_def py_isspace_def)
  have h: "held_of ?i ''BTCKRW'' = 0" by (simp add: sample_plan_input_def lookup0_def current_quantities_def)
  have sel: "pi_block_buys ?i = False" "pi_blocked_buy_pairs ?i = {}" "pi_as_of ?i = 7" "pi_equity ?i = 20000"
    "ps_purpose (pi_portfolio ?i) = PAPER_TRADING"
    by (simp_all add: sample_plan_input_def)
  obtain row intent where row: "plan_row policy_v22 (\<lambda>_. ''digest'') ?i ''BTCKRW'' = Inr (Some (row, intent))"
    "op_notional row = 5000" "oi_quantity intent = dec (50000 / 19)" "oi_pair intent = btc_krw" "oi_purpose intent = PAPER_TRADING"
    unfolding plan_row_trades [OF pr thr] fnd option.case g h
    by (simp add: sel sym order_quantity_def ddiv_def decimal_defs d mk_order_intent_def intent_identity_def dec_19 st)
  have risk: "execution_risk_policy policy_v22 20000 = Inr (default_risk_policy
       \<lparr>rp_maximum_positions := 2, rp_maximum_asset_fraction := 25 / 100,
        rp_maximum_single_order_notional := 20000, rp_minimum_order_notional := 5000\<rparr>)"
    by (simp add: execution_risk_policy_def check_risk_policy_def default_risk_policy_def policy_v22_def policy_v21_def)
  have "approve_intent (default_risk_policy
       \<lparr>rp_maximum_positions := 2, rp_maximum_asset_fraction := 25 / 100,
        rp_maximum_single_order_notional := 20000, rp_minimum_order_notional := 5000\<rparr>) [''BTCKRW'' \<mapsto> 19 / 10] intent
      = Inl (ValueError ''order is below the minimum notional'')"
    by (simp add: approve_intent_def row(3,4,5) sym approve_order_def default_risk_policy_def dmul_def dec_19 Let_def)
  with row risk p show ?thesis by blast
qed

end
