(* ===== verification/Runs.thy ===== *)
theory Runs
  imports Plans
begin

text \<open>
  What \<^verbatim>\<open>DynamicPaperRebalanceService._execute\<close> and \<^verbatim>\<open>run\<close> guarantee for the ledger: sound books on every
  outcome, exactly-once bookings, isolation of portfolios, and dry runs that never trade.
\<close>

definition history_ok :: "universe_history \<Rightarrow> bool" where
  "history_ok h = (\<forall>s \<in> set (history_snapshots h). \<forall>m \<in> set (snapshot_members s). wf_pair (member_pair m))"

section \<open>Executing a plan\<close>

lemma approve_intent_Inr:
  "approve_intent risk prices intent = Inr a \<Longrightarrow> ao_intent a = intent"
  by (auto simp: approve_intent_def approve_order_def mk_approved_order_def Let_def split: option.splits if_splits)

definition intents_ok :: "order_intent list \<Rightarrow> bool" where
  "intents_ok intents = (\<forall>i \<in> set intents. wf_pair (oi_pair i))"

lemma execute_intents_relates:
  assumes "\<And>x. R x x" "\<And>x y z. R x y \<Longrightarrow> R y z \<Longrightarrow> R x z"
    and "\<And>a r x x' b. ao_intent a \<in> set intents \<Longrightarrow> apply_execution a r x = Inr (b, x') \<Longrightarrow> R x x'"
  shows "R l (fst (execute_intents risk prices clock intents g l))"
  unfolding execute_intents_def
  by (rule execution_loop_relates [of R]) (use assms approve_intent_Inr in \<open>blast+\<close>)

lemma execute_plan_relates:
  assumes "\<And>x. R x x" "\<And>x y z. R x y \<Longrightarrow> R y z \<Longrightarrow> R x z"
    and "\<And>a r x x' b. ao_intent a \<in> set intents \<Longrightarrow> apply_execution a r x = Inr (b, x') \<Longrightarrow> R x x'"
  shows "R l (fst (execute_plan p factory clock intents prices equity l))"
  using execute_intents_relates [of R, OF assms] assms(1)
  by (auto simp: execute_plan_def split: sum.splits)

lemma approved_ok:
  "intents_ok intents \<Longrightarrow> i \<in> set intents \<Longrightarrow> approve_intent risk prices i = Inr a \<Longrightarrow> order_ok a \<and> ao_intent a = i"
  by (auto simp: intents_ok_def order_ok_def dest: approve_intent_Inr)

lemma execute_plan_books:
  assumes "gf_fee_rate factory \<le> 1" "intents_ok intents" "ledger_ok l"
  shows "ledger_ok (fst (execute_plan p factory clock intents prices equity l))"
proof (cases "factory_create factory prices")
  case (Inr g)
  have "ledger_ok (fst (execute_intents risk prices clock intents g l))" for risk
    unfolding execute_intents_def
    by (rule paper.loop_books [OF factory_gateway_ok [OF Inr assms(1)] assms(3)])
      (use approved_ok [OF assms(2)] in blast)
  then show ?thesis using assms(3) by (auto simp: execute_plan_def Inr split: sum.splits)
qed (use assms in \<open>simp add: execute_plan_def\<close>)

section \<open>Sample values\<close>

definition sample_env :: environment where
  "sample_env =
     \<lparr>env_policy = policy_v22, env_history = sample_history, env_fetch = (\<lambda>_ _ _. Inl (FileNotFoundError ''BTCKRW'')),
      env_log_std = (\<lambda>_. 0), env_provider = None, env_factory = default_gateway_factory,
      env_sha256 = (\<lambda>_. ''digest''), env_now = minutes 91, env_fill_clock = (\<lambda>n. minutes 92 + int n)\<rparr>"

definition sample_command :: "bool \<Rightarrow> rebalance_command" where
  "sample_command execute =
     \<lparr>rc_portfolio_id = ''paper'', rc_as_of = Aware (minutes 90), rc_execute = execute,
      rc_persist_decision = True, rc_execution_deadline = None\<rparr>"

lemma sample_history_ok: "history_ok sample_history"
  by (simp add: history_ok_def sample_history_def)

lemma sample_fee: "gf_fee_rate default_gateway_factory \<le> 1"
  by (simp add: default_gateway_factory_def)

lemma sample_intents_ok: "intents_ok [sample_intent BUY 6 ''a'']"
  using sample_order_ok [of BUY 6 "''a''"] by (simp add: intents_ok_def order_ok_def sample_order_def)

lemma dec_fee: "dec (1 / 2000) = 1 / 2000" "dec (2001 / 2) = 2001 / 2"
  using dec_exact [of 5 "- 4"] dec_exact [of 10005 "- 1"] by (simp_all add: power_int_minus field_simps)

lemma sample_execution:
  "snd (execute_plan policy_v22 default_gateway_factory (\<lambda>_. 7) [sample_intent BUY 6 ''a''] [''BTCKRW'' \<mapsto> 1000]
     100000 sample_ledger) = Inr ()"
proof -
  have v: "py_strip ''paper-fill-v1'' = ''paper-fill-v1''" by (simp add: py_strip_def py_isspace_def)
  have d: "dec 6000 = 6000" "dec 3 = 3" "dec 6003 = 6003" "dec 6 = 6" "dec 93997 = 93997"
    using dec_of_int [of 6000] dec_of_int [of 3] dec_of_int [of 6003] dec_of_int [of 6] dec_of_int [of 93997] by simp_all
  have r: "execution_risk_policy policy_v22 100000 = Inr (default_risk_policy
       \<lparr>rp_maximum_positions := 2, rp_maximum_asset_fraction := 25 / 100,
        rp_maximum_single_order_notional := 100000, rp_minimum_order_notional := 5000\<rparr>)"
    by (simp add: execution_risk_policy_def check_risk_policy_def default_risk_policy_def policy_v22_def policy_v21_def)
  show ?thesis
    by (simp add: execute_plan_def factory_create_def mk_paper_gateway_def default_gateway_factory_def v r
      execute_intents_def approve_intent_def approve_order_def default_risk_policy_def sample_intent_def btc_krw_def
      pair_symbol_def dmul_def d mk_approved_order_def submit_def fill_price_def fill_fee_def mk_execution_report_def
      apply_execution_def is_duplicate_def sample_ledger_def empty_ledger_def find_position_def settle_def
      settle_buy_def dadd_def dsub_def ddiv_def Let_def)
qed

section \<open>Exactly once\<close>

text \<open>C2: Executing a plan keeps the books in order whether it completes or stops at an exception, books only intents of the plan, and books all of them when it completes; executing the same intents once more, with any prices, equity, profile and clock, then changes nothing.\<close>

theorem execute_plan_exactly_once:
  assumes fee: "gf_fee_rate factory \<le> 1" and ok: "intents_ok intents" and l: "ledger_ok l"
    and run: "execute_plan p factory clock intents prices equity l = (l', res)"
  shows "ledger_ok l'
    \<and> (\<forall>k. recorded l k \<longrightarrow> recorded l' k)
    \<and> (\<forall>k. recorded l' k \<longrightarrow> recorded l k \<or> k \<in> oi_intent_id ` set intents)
    \<and> (res = Inr () \<longrightarrow> (\<forall>k \<in> oi_intent_id ` set intents. recorded l' k)
        \<and> fst (execute_plan p' factory clock' intents prices' equity' l') = l')"
proof -
  have books: "ledger_ok l'" using execute_plan_books [OF fee ok l] run by (metis fst_conv)
  have rec: "(recorded l k \<longrightarrow> recorded l' k) \<and> (recorded l' k \<longrightarrow> recorded l k \<or> k \<in> oi_intent_id ` set intents)
    \<and> (res = Inr () \<longrightarrow> k \<in> oi_intent_id ` set intents \<longrightarrow> recorded l' k)" for k
  proof (cases "factory_create factory prices")
    case (Inl e)
    then show ?thesis using run by (auto simp: execute_plan_def)
  next
    case g: (Inr g)
    show ?thesis
    proof (cases "execution_risk_policy p equity")
      case (Inl e)
      then show ?thesis using run g by (auto simp: execute_plan_def)
    next
      case (Inr risk)
      have "execution_loop (approve_intent risk prices) (\<lambda>n. submit (clock n)) apply_execution 0 intents g l = (l', res)"
        using run g Inr by (simp add: execute_plan_def execute_intents_def)
      then show ?thesis
        by (rule paper.loop_recorded [OF factory_gateway_ok [OF g fee] l, rotated]) (use approved_ok [OF ok] in blast)
    qed
  qed
  have "fst (execute_plan p' factory clock' intents prices' equity' l') = l'" if "res = Inr ()"
  proof (cases "factory_create factory prices'")
    case (Inr g)
    have "recorded l' (oi_intent_id i)" if "i \<in> set intents" for i
      using rec \<open>res = Inr ()\<close> that by blast
    then have "fst (execute_intents risk prices' clock' intents g l') = l'" for risk
      unfolding execute_intents_def
      by (intro paper.loop_replay [OF factory_gateway_ok [OF Inr fee] books]) (use approved_ok [OF ok] in blast)+
    then show ?thesis by (auto simp: execute_plan_def Inr split: sum.splits)
  qed (simp add: execute_plan_def)
  then show ?thesis using books rec by blast
qed

lemma execute_plan_exactly_once_witness:
  "\<exists>l'. execute_plan policy_v22 default_gateway_factory (\<lambda>_. 7) [sample_intent BUY 6 ''a''] [''BTCKRW'' \<mapsto> 1000]
      100000 sample_ledger = (l', Inr ()) \<and> recorded l' ''a''"
proof -
  obtain l' where e: "execute_plan policy_v22 default_gateway_factory (\<lambda>_. 7) [sample_intent BUY 6 ''a'']
      [''BTCKRW'' \<mapsto> 1000] 100000 sample_ledger = (l', Inr ())"
    using sample_execution by (metis prod.collapse)
  from execute_plan_exactly_once [OF sample_fee sample_intents_ok sample_ledger_ok e] e show ?thesis
    by (auto simp: sample_intent_def)
qed

section \<open>The run\<close>

lemma decide_Inr:
  assumes "decide env l pid as_of = Inr d"
  obtains snapshot portfolio i where
    "history_known_at (env_history env) (Aware as_of) = Inr (Some snapshot)"
    "get_portfolio pid l = Inr portfolio" "dc_portfolio d = portfolio" "dc_snapshot d = snapshot"
    "plan (env_policy env) (env_sha256 env) i = Inr (dc_plans d, dc_intents d)"
    "pi_snapshot i = snapshot" "pi_portfolio i = portfolio" "pi_as_of i = as_of" "pi_equity i = dc_equity d"
    "pi_prices i = dc_prices d" "pi_block_buys i = (dc_risk_violations d \<noteq> [])"
    "pi_targets i = map (\<lambda>s. (sa_pair s, sa_target_weight s)) (dc_selected d)"
proof -
  obtain snapshot where s: "history_known_at (env_history env) (Aware as_of) = Inr (Some snapshot)"
    using assms by (auto simp: decide_def Let_def py_result split: option.splits)
  obtain portfolio where po: "get_portfolio pid l = Inr portfolio"
    using assms s by (auto simp: decide_def Let_def py_result)
  show thesis
    using assms
    by (auto simp: decide_def Let_def py_result s po split: if_splits prod.splits intro!: that [OF s po])
qed


lemma get_portfolio_id: "get_portfolio pid l = Inr s \<Longrightarrow> ps_portfolio_id s = pid"
  by (auto simp: get_portfolio_def py_result split: option.splits)

lemma persist_cases:
  "fst (persist env cmd r l) = l
   \<or> save_rebalance_decision (decision_record env r (rc_execute cmd)) l = Inr (fst (persist env cmd r l))"
  by (auto simp: persist_def split: sum.splits)

text \<open>The three ways a run can leave the ledger.\<close>

lemma run_cases:
  obtains (nothing) "fst (run env cmd l) = l"
  | (dry) as_of d where "decide env l (rc_portfolio_id cmd) as_of = Inr d" "\<not> rc_execute cmd"
      "run env cmd l = persist env cmd (result_of env as_of False d (dc_plans d) (dc_portfolio d)) l"
  | (stopped) as_of d where "decide env l (rc_portfolio_id cmd) as_of = Inr d" "rc_execute cmd"
      "fst (run env cmd l) = fst (execute_plan (env_policy env) (env_factory env) (env_fill_clock env)
          (dc_intents d) (dc_prices d) (dc_equity d) l)"
  | (executed) as_of d l1 r where "decide env l (rc_portfolio_id cmd) as_of = Inr d" "rc_execute cmd"
      "execute_plan (env_policy env) (env_factory env) (env_fill_clock env)
          (dc_intents d) (dc_prices d) (dc_equity d) l = (l1, Inr ())"
      "run env cmd l = persist env cmd r l1" "rr_portfolio_id r = ps_portfolio_id (dc_portfolio d)"
proof (cases "rc_as_of cmd")
  case (Naive t)
  show thesis by (rule nothing) (simp add: run_def Naive)
next
  case as_of: (Aware t)
  show thesis
  proof (cases "decide env l (rc_portfolio_id cmd) t")
    case (Inl e)
    show thesis by (rule nothing) (simp add: run_def as_of Inl)
  next
    case d: (Inr d)
    show thesis
    proof (cases "rc_execute cmd")
      case False
      show thesis by (rule dry [OF d]) (simp_all add: run_def as_of d False)
    next
      case ex: True
      show thesis
      proof (cases "past_deadline env cmd = Inr False")
        case False
        show thesis
          by (rule nothing) (use False ex in \<open>auto simp: run_def as_of d split: sum.splits bool.splits\<close>)
      next
        case True
        obtain l1 res where e: "execute_plan (env_policy env) (env_factory env) (env_fill_clock env)
          (dc_intents d) (dc_prices d) (dc_equity d) l = (l1, res)"
          by fastforce
        show thesis
        proof (cases res)
          case (Inl err)
          show thesis by (rule stopped [OF d]) (simp_all add: run_def as_of d ex True e Inl)
        next
          case (Inr u)
          show thesis
          proof (cases "get_portfolio (rc_portfolio_id cmd) l1")
            case err: (Inl err)
            show thesis by (rule stopped [OF d]) (simp_all add: run_def as_of d ex True e Inr err)
          next
            case final: (Inr final)
            show thesis
              by (rule executed [OF d], rule ex, rule e [unfolded Inr, simplified])
                (simp_all add: run_def as_of d ex True e Inr final, simp add: result_of_def)
          qed
        qed
      qed
    qed
  qed
qed

lemma run_relates:
  assumes refl: "\<And>x. R x x" and trans: "\<And>x y z. R x y \<Longrightarrow> R y z \<Longrightarrow> R x z"
    and save: "\<And>d x x'. rd_portfolio_id d = rc_portfolio_id cmd \<Longrightarrow> save_rebalance_decision d x = Inr x' \<Longrightarrow> R x x'"
    and step: "\<And>as_of d a r x x' b. decide env l (rc_portfolio_id cmd) as_of = Inr d \<Longrightarrow>
      ao_intent a \<in> set (dc_intents d) \<Longrightarrow> apply_execution a r x = Inr (b, x') \<Longrightarrow> R x x'"
  shows "R l (fst (run env cmd l))"
proof -
  have id: "ps_portfolio_id (dc_portfolio d) = rc_portfolio_id cmd"
    if "decide env l (rc_portfolio_id cmd) as_of = Inr d" for as_of d
    using that by (rule decide_Inr) (simp add: get_portfolio_id)
  have per: "R x (fst (persist env cmd r x))" if "rr_portfolio_id r = rc_portfolio_id cmd" for r x
    using persist_cases [of env cmd r x] save [of "decision_record env r (rc_execute cmd)"] refl that
    by (auto simp: decision_record_def)
  have exe: "R l (fst (execute_plan (env_policy env) (env_factory env) (env_fill_clock env)
      (dc_intents d) (dc_prices d) (dc_equity d) l))" if "decide env l (rc_portfolio_id cmd) as_of = Inr d" for as_of d
    by (rule execute_plan_relates [of R]) (use refl trans step [OF that] in \<open>blast+\<close>)
  show ?thesis
  proof (cases rule: run_cases [of env cmd l])
    case nothing
    then show ?thesis by (simp add: refl)
  next
    case (dry as_of d)
    then show ?thesis using per id by (simp add: result_of_def)
  next
    case (stopped as_of d)
    then show ?thesis using exe by simp
  next
    case (executed as_of d l1 r)
    have "R l l1" using exe [OF executed(1)] executed(3) by simp
    moreover have "R l1 (fst (run env cmd l))" using per [of r l1] executed(4,5) id [OF executed(1)] by simp
    ultimately show ?thesis by (rule trans)
  qed
qed

lemma history_member: "history_known_at h (Aware t) = Inr (Some s) \<Longrightarrow> s \<in> set (history_snapshots h)"
  by (auto simp: history_known_at_def last_option_def visible_snapshots_def split: if_splits dest: last_in_set)

lemma plan_intents:
  assumes "plan p sha i = Inr (plans, intents)" "o' \<in> set intents"
  shows "oi_pair o' \<in> member_pair ` set (snapshot_members (pi_snapshot i))
    \<and> oi_portfolio_id o' = ps_portfolio_id (pi_portfolio i)"
proof -
  obtain rows where rows: "intents = map snd rows"
    "set rows = {row. \<exists>s \<in> set (plan_symbols i). plan_row p sha i s = Inr (Some row)}"
    using assms(1) unfolding plan_def by (rule plan_over_rows)
  then obtain r s where "plan_row p sha i s = Inr (Some (r, o'))" using assms(2) by auto
  then show ?thesis by (rule plan_row_Some) auto
qed

lemma decided_intents:
  assumes "decide env l pid as_of = Inr d" "o' \<in> set (dc_intents d)"
  shows "oi_portfolio_id o' = pid" and "history_ok (env_history env) \<Longrightarrow> wf_pair (oi_pair o')"
proof -
  obtain snapshot portfolio i where d:
    "history_known_at (env_history env) (Aware as_of) = Inr (Some snapshot)"
    "get_portfolio pid l = Inr portfolio"
    "plan (env_policy env) (env_sha256 env) i = Inr (dc_plans d, dc_intents d)"
    "pi_snapshot i = snapshot" "pi_portfolio i = portfolio"
    using assms(1) by (rule decide_Inr)
  note o = plan_intents [OF d(3) assms(2)]
  show "oi_portfolio_id o' = pid" using o get_portfolio_id [OF d(2)] d(5) by simp
  show "wf_pair (oi_pair o')" if "history_ok (env_history env)"
    using o d(4) history_member [OF d(1)] that by (auto simp: history_ok_def)
qed

text \<open>C1: A run keeps the books in order however it ends: on a sound ledger, with a universe of validated pairs and a fee rate of at most one, the ledger after the run is sound, also when the run raises in the middle of its execution.\<close>

theorem run_keeps_books:
  assumes h: "history_ok (env_history env)" and fee: "gf_fee_rate (env_factory env) \<le> 1" and l: "ledger_ok l"
  shows "ledger_ok (fst (run env cmd l))"
proof -
  have exe: "ledger_ok (fst (execute_plan p (env_factory env) clock (dc_intents d) prices equity l))"
    if "decide env l (rc_portfolio_id cmd) as_of = Inr d" for as_of d p clock prices equity
    by (rule execute_plan_books [OF fee _ l]) (use decided_intents(2) [OF that _ h] in \<open>simp add: intents_ok_def\<close>)
  have per: "ledger_ok (fst (persist env cmd r x))" if "ledger_ok x" for r x
    using persist_cases [of env cmd r x] save_rebalance_decision_ok [OF that] that by auto
  show ?thesis
  proof (cases rule: run_cases [of env cmd l])
    case nothing
    then show ?thesis using l by simp
  next
    case (dry as_of d)
    then show ?thesis using per [OF l] by simp
  next
    case (stopped as_of d)
    then show ?thesis using exe [OF stopped(1)] by simp
  next
    case (executed as_of d l1 r)
    then have "ledger_ok l1" using exe [OF executed(1)] by (metis fst_conv)
    then show ?thesis using per executed(4) by simp
  qed
qed

lemma run_keeps_books_witness: "ledger_ok (fst (run sample_env (sample_command True) sample_ledger))"
  by (rule run_keeps_books) (simp_all add: sample_env_def sample_history_ok sample_fee sample_ledger_ok)

text \<open>C3: Portfolios are isolated: a run for one portfolio, whether it executes, previews or fails, leaves every other portfolio, its executions and its recorded decisions exactly as they were.\<close>

theorem run_isolated:
  fixes env :: environment and l :: ledger
  assumes "pid \<noteq> rc_portfolio_id cmd"
  defines "l' \<equiv> fst (run env cmd l)"
  shows "get_portfolio pid l' = get_portfolio pid l
    \<and> list_executions pid limit l' = list_executions pid limit l
    \<and> list_rebalance_decisions pid limit l' = list_rebalance_decisions pid limit l"
  unfolding l'_def
proof (rule run_relates [where R = "\<lambda>x y. get_portfolio pid y = get_portfolio pid x
    \<and> list_executions pid limit y = list_executions pid limit x
    \<and> list_rebalance_decisions pid limit y = list_rebalance_decisions pid limit x"])
  fix as_of d a r x x' b
  assume "decide env l (rc_portfolio_id cmd) as_of = Inr d" "ao_intent a \<in> set (dc_intents d)"
    and ap: "apply_execution a r x = Inr (b, x')"
  then have "oi_portfolio_id (ao_intent a) = rc_portfolio_id cmd" by (blast dest: decided_intents(1))
  then show "get_portfolio pid x' = get_portfolio pid x
    \<and> list_executions pid limit x' = list_executions pid limit x
    \<and> list_rebalance_decisions pid limit x' = list_rebalance_decisions pid limit x"
    using assms ap by (intro apply_execution_frame) auto
next
  fix d x x'
  assume d: "rd_portfolio_id d = rc_portfolio_id cmd" and s: "save_rebalance_decision d x = Inr x'"
  have t: "tbl_portfolio x' = tbl_portfolio x" "tbl_position x' = tbl_position x" "tbl_execution x' = tbl_execution x"
    "filter (\<lambda>d. rd_portfolio_id d = pid) (tbl_decision x') = filter (\<lambda>d. rd_portfolio_id d = pid) (tbl_decision x)"
    using s d assms(1) by (auto simp: save_rebalance_decision_Inr split: if_splits)
  have g: "get_portfolio pid x' = get_portfolio pid x" by (simp only: get_portfolio_def rows_of_def t)
  show "get_portfolio pid x' = get_portfolio pid x
    \<and> list_executions pid limit x' = list_executions pid limit x
    \<and> list_rebalance_decisions pid limit x' = list_rebalance_decisions pid limit x"
    by (simp add: list_executions_def list_rebalance_decisions_def g t)
qed auto

lemma run_isolated_witness:
  "get_portfolio ''other'' (fst (run sample_env (sample_command True) sample_ledger)) = get_portfolio ''other'' sample_ledger"
  by (rule conjunct1 [OF run_isolated]) (simp add: sample_command_def)

text \<open>C4: A dry run never trades: it leaves portfolios, positions and executions as they are, adds at most its own decision to the audit, and adds nothing when it is not asked to persist.\<close>

theorem dry_run_never_trades:
  fixes env :: environment and l :: ledger
  assumes "\<not> rc_execute cmd"
  defines "l' \<equiv> fst (run env cmd l)"
  shows "tbl_portfolio l' = tbl_portfolio l \<and> tbl_position l' = tbl_position l \<and> tbl_execution l' = tbl_execution l
    \<and> (tbl_decision l' = tbl_decision l
       \<or> rc_persist_decision cmd \<and> (\<exists>d. tbl_decision l' = tbl_decision l @ [d] \<and> \<not> rd_execute d
            \<and> rd_portfolio_id d = rc_portfolio_id cmd))"
proof (cases rule: run_cases [of env cmd l])
  case (dry as_of d)
  let ?r = "result_of env as_of False d (dc_plans d) (dc_portfolio d)"
  have id: "rr_portfolio_id ?r = rc_portfolio_id cmd"
    using dry(1) by (rule decide_Inr) (simp add: get_portfolio_id result_of_def)
  show ?thesis
  proof (cases "rc_persist_decision cmd")
    case True
    have "rd_portfolio_id (decision_record env ?r False) = rc_portfolio_id cmd"
      "\<not> rd_execute (decision_record env ?r False)" using id by (simp_all add: decision_record_def)
    moreover have "l' = l \<or> save_rebalance_decision (decision_record env ?r False) l = Inr l'"
      using persist_cases [of env cmd ?r l] dry(2,3) by (simp add: l'_def)
    ultimately show ?thesis using True by (auto simp: save_rebalance_decision_Inr split: if_splits)
  qed (use dry(3) in \<open>simp add: l'_def persist_def\<close>)
qed (use assms in \<open>simp_all add: l'_def\<close>)

lemma dry_run_never_trades_witness:
  "tbl_position (fst (run sample_env (sample_command False) sample_ledger)) = tbl_position sample_ledger"
  by (rule conjunct1 [OF conjunct2 [OF dry_run_never_trades]]) (simp add: sample_command_def)

end
