(* ===== verification/Strategies.thy ===== *)
theory Strategies
  imports Domain
begin

text \<open>
  The models a backtest composes: the BTC trend regimes (\<^verbatim>\<open>regime/btc_trend.py\<close>,
  \<^verbatim>\<open>regime/intraday_btc.py\<close>), cross-sectional momentum (\<^verbatim>\<open>strategy/momentum.py\<close>), the ranking of
  model scores (\<^verbatim>\<open>strategy/ml_ranking.py\<close>) and the point-in-time liquidity universe
  (\<^verbatim>\<open>universe/liquidity.py\<close>).

  NumPy is third-party code: its mean, sample standard deviation, logarithm and square root are
  the fields of a record that every definition using them takes as an argument.  The arithmetic
  the sources do themselves is \<^verbatim>\<open>float\<close> or \<^verbatim>\<open>Decimal\<close> arithmetic as in theory PyNumbers.

  What a model may look at is the contract \<open>causal\<close> at the end: its value at an instant depends on
  the candles available by then and on nothing else.
\<close>

section \<open>Numerical primitives\<close>

record numpy =
  np_mean :: "pyfloat list \<Rightarrow> pyfloat"
  np_std1 :: "pyfloat list \<Rightarrow> pyfloat"
  np_log :: "pyfloat \<Rightarrow> pyfloat"
  np_sqrt :: "pyfloat \<Rightarrow> pyfloat"
  py_pow :: "pyfloat \<Rightarrow> pyfloat \<Rightarrow> pyfloat"

definition np_diff :: "pyfloat list \<Rightarrow> pyfloat list" where
  "np_diff xs = map (\<lambda>(a, b). fsub b a) (zip xs (tl xs))"

text \<open>The annualised sample volatility of a list of returns.\<close>

definition annualized_volatility :: "numpy \<Rightarrow> pyfloat \<Rightarrow> pyfloat list \<Rightarrow> pyfloat" where
  "annualized_volatility np periods returns =
     (if 1 < length returns then fmul (np_std1 np returns) (np_sqrt np periods) else 0)"

section \<open>The daily BTC trend\<close>

record btc_trend_model =
  bt_short_window :: int
  bt_long_window :: int
  bt_maximum_risk_on_volatility :: pyfloat

definition default_btc_trend :: btc_trend_model where
  "default_btc_trend =
     \<lparr>bt_short_window = 50, bt_long_window = 200, bt_maximum_risk_on_volatility = flt (80 / 100)\<rparr>"

definition check_btc_trend :: "btc_trend_model \<Rightarrow> btc_trend_model result" where
  "check_btc_trend m =
     (if bt_short_window m \<le> 1 \<or> bt_long_window m \<le> bt_short_window m
      then Inl (ValueError ''regime windows require 1 < short_window < long_window'')
      else if bt_maximum_risk_on_volatility m < 0
      then Inl (ValueError ''volatility threshold cannot be negative'')
      else Inr m)"

definition trend_regime ::
    "pyfloat \<Rightarrow> pyfloat \<Rightarrow> pyfloat \<Rightarrow> pyfloat \<Rightarrow> pyfloat \<Rightarrow> market_regime" where
  "trend_regime limit latest short_average long_average volatility =
     (if long_average < latest \<and> long_average < short_average \<and> volatility \<le> limit then RISK_ON
      else if latest < long_average then RISK_OFF
      else NEUTRAL)"

definition btc_pair_of :: "trading_universe \<Rightarrow> trading_pair option" where
  "btc_pair_of u = find (\<lambda>p. asset_symbol (pair_base p) = ''BTC'') (universe_pairs u)"

definition btc_trend_evaluate ::
    "numpy \<Rightarrow> btc_trend_model \<Rightarrow> market_data_bundle \<Rightarrow> utc \<Rightarrow> market_regime_result result" where
  "btc_trend_evaluate np m market_data as_of =
     bind_result (bundle_known_at market_data (Aware as_of)) (\<lambda>known.
     case btc_pair_of (bundle_universe known) of
       None \<Rightarrow> Inr \<lparr>regime_of = NEUTRAL, regime_as_of = as_of, regime_model = ''btc_trend_v1'',
                     regime_evidence = []\<rparr>
     | Some btc_pair \<Rightarrow>
     bind_result (candles_of (pair_symbol btc_pair) known) (\<lambda>candles.
     if int (length candles) < bt_long_window m
     then Inr \<lparr>regime_of = NEUTRAL, regime_as_of = as_of, regime_model = ''btc_trend_v1'',
               regime_evidence = [(''observations'', flt (of_nat (length candles)))]\<rparr>
     else
       (let closes = map (\<lambda>c. flt (close_price c)) candles;
            latest = last closes;
            short_average = np_mean np (py_last (bt_short_window m) closes);
            long_average = np_mean np (py_last (bt_long_window m) closes);
            returns = np_diff (map (np_log np) (py_last (bt_short_window m + 1) closes));
            volatility = annualized_volatility np 365 returns
        in Inr \<lparr>regime_of = trend_regime (bt_maximum_risk_on_volatility m) latest short_average
                              long_average volatility,
                regime_as_of = as_of, regime_model = ''btc_trend_v1'',
                regime_evidence =
                  [(''btc_close'', latest), (''btc_ma_short'', short_average),
                   (''btc_ma_long'', long_average), (''btc_realized_volatility'', volatility)]\<rparr>)))"

section \<open>The four-hour BTC trend\<close>

record intraday_btc_model =
  ib_bars_per_regime_period :: int
  ib_short_periods :: int
  ib_long_periods :: int
  ib_maximum_risk_on_volatility :: pyfloat

definition default_intraday_btc :: intraday_btc_model where
  "default_intraday_btc =
     \<lparr>ib_bars_per_regime_period = 16, ib_short_periods = 12, ib_long_periods = 42,
      ib_maximum_risk_on_volatility = 3 / 2\<rparr>"

text \<open>The start of the four-hour block of an instant: blocks start at multiples of four hours of the UTC day.\<close>

definition bucket_of :: "utc \<Rightarrow> utc" where
  "bucket_of t = t - t mod hours 4"

definition completed_buckets :: "utc \<Rightarrow> candle list \<Rightarrow> (utc \<times> decimal) list" where
  "completed_buckets as_of candles =
     fold (\<lambda>c d. if bucket_of (open_time c) + hours 4 \<le> as_of
                 then dict_set (bucket_of (open_time c)) (close_price c) d else d) candles []"

definition intraday_btc_evaluate ::
    "numpy \<Rightarrow> intraday_btc_model \<Rightarrow> market_data_bundle \<Rightarrow> utc \<Rightarrow> market_regime_result result" where
  "intraday_btc_evaluate np m market_data as_of =
     bind_result (bundle_known_at market_data (Aware as_of)) (\<lambda>known.
     case btc_pair_of (bundle_universe known) of
       None \<Rightarrow> Inr \<lparr>regime_of = NEUTRAL, regime_as_of = as_of, regime_model = ''btc_4h_trend_v1'',
                     regime_evidence = []\<rparr>
     | Some pair \<Rightarrow>
     bind_result (candles_of (pair_symbol pair) known) (\<lambda>candles.
       (let closes = map (\<lambda>b. flt (snd b))
                       (sort_by (\<lambda>a b. fst a \<le> fst b) (completed_buckets as_of candles))
        in if int (length closes) < ib_long_periods m
           then Inr \<lparr>regime_of = NEUTRAL, regime_as_of = as_of, regime_model = ''btc_4h_trend_v1'',
                     regime_evidence = [(''completed_4h_bars'', flt (of_nat (length closes)))]\<rparr>
           else
             bind_result (from_end 1 closes) (\<lambda>latest.
             (let short = np_mean np (py_last (ib_short_periods m) closes);
                  long = np_mean np (py_last (ib_long_periods m) closes);
                  returns = np_diff (map (np_log np) (py_last (ib_short_periods m + 1) closes));
                  volatility = annualized_volatility np (6 * 365) returns
              in Inr \<lparr>regime_of = trend_regime (ib_maximum_risk_on_volatility m) latest short long volatility,
                      regime_as_of = as_of, regime_model = ''btc_4h_trend_v1'',
                      regime_evidence =
                        [(''btc_close'', latest), (''btc_4h_ma_short'', short), (''btc_4h_ma_long'', long),
                         (''btc_4h_annualized_volatility'', volatility)]\<rparr>)))))"

section \<open>Cross-sectional momentum\<close>

record strategy_context =
  sc_as_of :: utc
  sc_market_data :: market_data_bundle
  sc_regime :: market_regime_result
  sc_eligible_assets :: "asset list option"

record momentum_strategy =
  ms_lookback_days :: int
  ms_maximum_assets :: int
  ms_minimum_average_quote_volume :: decimal
  ms_lookback_unit :: string

definition default_momentum :: momentum_strategy where
  "default_momentum =
     \<lparr>ms_lookback_days = 30, ms_maximum_assets = 3, ms_minimum_average_quote_volume = 0,
      ms_lookback_unit = ''d''\<rparr>"

definition check_momentum :: "momentum_strategy \<Rightarrow> momentum_strategy result" where
  "check_momentum s =
     (if ms_lookback_days s \<le> 0 \<or> ms_maximum_assets s \<le> 0
      then Inl (ValueError ''lookback and maximum_assets must be positive'')
      else if ms_minimum_average_quote_volume s < 0
      then Inl (ValueError ''minimum liquidity cannot be negative'')
      else Inr s)"

text \<open>The mean quote volume of a window of candles.\<close>

definition mean_quote_volume :: "candle list \<Rightarrow> decimal result" where
  "mean_quote_volume window =
     ddiv (dsum 0 (map (\<lambda>c. dmul (close_price c) (volume c)) window)) (of_nat (length window))"

text \<open>The score of one pair, if it is a candidate.\<close>

definition momentum_score :: "momentum_strategy \<Rightarrow> candle list \<Rightarrow> decimal option result" where
  "momentum_score s candles =
     (if int (length candles) < ms_lookback_days s + 1 then Inr None
      else bind_result (mean_quote_volume (py_last (ms_lookback_days s) candles)) (\<lambda>liquidity.
        if liquidity < ms_minimum_average_quote_volume s then Inr None
        else bind_result (from_end 1 candles) (\<lambda>now.
             bind_result (from_end (nat (ms_lookback_days s) + 1) candles) (\<lambda>before.
             bind_result (ddiv (close_price now) (close_price before)) (\<lambda>ratio.
               (let score = dsub ratio 1 in Inr (if 0 < score then Some score else None)))))))"

definition momentum_candidate ::
    "momentum_strategy \<Rightarrow> strategy_context \<Rightarrow> market_data_bundle \<Rightarrow> trading_pair \<Rightarrow> (decimal \<times> asset) option result"
where
  "momentum_candidate s ctx known pair =
     (if (case sc_eligible_assets ctx of None \<Rightarrow> False | Some assets \<Rightarrow> pair_base pair \<notin> set assets)
      then Inr None
      else bind_result (candles_of (pair_symbol pair) known) (\<lambda>candles.
           bind_result (momentum_score s candles) (\<lambda>score.
             Inr (map_option (\<lambda>v. (v, pair_base pair)) score))))"

definition momentum_signal ::
    "momentum_strategy \<Rightarrow> utc \<Rightarrow> decimal \<Rightarrow> decimal \<times> asset \<Rightarrow> signal result" where
  "momentum_signal s as_of maximum r =
     bind_result (if maximum \<noteq> 0 then bind_result (ddiv (fst r) maximum) (\<lambda>q. Inr (min q 1)) else Inr 0)
       (\<lambda>strength.
         mk_signal (snd r) LONG strength (Aware as_of)
           (''positive_'' @ int_text (ms_lookback_days s) @ ms_lookback_unit s @ ''_cross_sectional_momentum''))"

definition ranked_scores :: "momentum_strategy \<Rightarrow> (decimal \<times> asset) list \<Rightarrow> (decimal \<times> asset) list" where
  "ranked_scores s candidates =
     py_take (ms_maximum_assets s) (sort_on (\<lambda>r. (dneg (fst r), asset_symbol (snd r))) candidates)"

definition momentum_generate :: "momentum_strategy \<Rightarrow> strategy_context \<Rightarrow> strategy_result result" where
  "momentum_generate s ctx =
     bind_result (bundle_known_at (sc_market_data ctx) (Aware (sc_as_of ctx))) (\<lambda>known.
       if regime_of (sc_regime ctx) = RISK_OFF
       then mk_strategy_result ''cross_sectional_momentum'' ''v1'' (Aware (sc_as_of ctx)) RISK_OFF []
       else
         bind_result (map_result (momentum_candidate s ctx known) (universe_pairs (bundle_universe known)))
           (\<lambda>found.
           (let ranked = ranked_scores s (List.map_filter id found);
                maximum = foldr max (map fst ranked) 0
            in bind_result (map_result (momentum_signal s (sc_as_of ctx) maximum) ranked) (\<lambda>signals.
                 mk_strategy_result ''cross_sectional_momentum'' ''v1'' (Aware (sc_as_of ctx))
                   (regime_of (sc_regime ctx)) signals))))"

section \<open>Ranking of model scores\<close>

text \<open>
  \<^verbatim>\<open>Decimal(str(x))\<close> of a float: the decimal number with the fewest significant digits, at most 17,
  that reads back as the float.
\<close>

definition decimal_of_repr :: "pyfloat \<Rightarrow> decimal" where
  "decimal_of_repr x =
     (case find (\<lambda>n. flt (sig_round 10 n x) = x) [1..<17] of
        None \<Rightarrow> sig_round 10 17 x
      | Some n \<Rightarrow> sig_round 10 n x)"

text \<open>\<^verbatim>\<open>f"{x:.8f}"\<close>: the value rounded half to even to eight decimal places.\<close>

definition fixed8_text :: "pyfloat \<Rightarrow> string" where
  "fixed8_text x =
     (let m = \<bar>round_half_even (x * 10 ^ 8)\<bar>; frac = digits_text (m mod 10 ^ 8)
      in (if x < 0 then ''-'' else []) @ digits_text (m div 10 ^ 8) @ ''.''
         @ replicate (8 - length frac) CHR ''0'' @ frac)"

record ranked_return =
  rk_asset :: string
  rk_expected_return :: pyfloat

record ml_ranking =
  ml_maximum_assets :: int
  ml_minimum_expected_return :: pyfloat

definition default_ml_ranking :: ml_ranking where
  "default_ml_ranking = \<lparr>ml_maximum_assets = 3, ml_minimum_expected_return = 0\<rparr>"

definition check_ml_ranking :: "ml_ranking \<Rightarrow> ml_ranking result" where
  "check_ml_ranking s =
     (if ml_maximum_assets s \<le> 0 then Inl (ValueError ''maximum_assets must be positive'') else Inr s)"

definition positive_predictions :: "ml_ranking \<Rightarrow> ranked_return list \<Rightarrow> ranked_return list" where
  "positive_predictions s predictions =
     py_take (ml_maximum_assets s)
       (filter (\<lambda>r. ml_minimum_expected_return s < rk_expected_return r) predictions)"

text \<open>\<^verbatim>\<open>max(values, default=0.0)\<close>.\<close>

definition max_default0 :: "rat list \<Rightarrow> rat" where
  "max_default0 xs = (case xs of [] \<Rightarrow> 0 | y # ys \<Rightarrow> fold max ys y)"

definition ml_signal :: "string \<Rightarrow> utc \<Rightarrow> pyfloat \<Rightarrow> ranked_return \<Rightarrow> signal result" where
  "ml_signal model_id as_of maximum r =
     bind_result (mk_asset (rk_asset r) CRYPTO) (\<lambda>a.
     bind_result (if 0 < maximum
                  then bind_result (fdiv (rk_expected_return r) maximum) (\<lambda>q. Inr (decimal_of_repr q))
                  else Inr 0) (\<lambda>strength.
       mk_signal a LONG strength (Aware as_of)
         (''model='' @ model_id @ ''; expected_return='' @ fixed8_text (rk_expected_return r))))"

definition ml_ranking_generate ::
    "ml_ranking \<Rightarrow> ranked_return list \<Rightarrow> string \<Rightarrow> utc \<Rightarrow> market_regime \<Rightarrow> strategy_result result" where
  "ml_ranking_generate s predictions model_id as_of reg =
     (let positive = positive_predictions s predictions;
          maximum = max_default0 (map rk_expected_return positive)
      in bind_result (map_result (ml_signal model_id as_of maximum) positive) (\<lambda>signals.
           mk_strategy_result ''ml_return_ranking'' ''1.0.0'' (Aware as_of) reg signals))"

section \<open>The liquidity universe\<close>

record liquidity_universe =
  lu_history :: universe_history
  lu_lookback_days :: int
  lu_minimum_average_quote_volume :: decimal
  lu_maximum_assets :: int
  lu_require_btc :: bool

definition default_liquidity_universe :: "universe_history \<Rightarrow> liquidity_universe" where
  "default_liquidity_universe h =
     \<lparr>lu_history = h, lu_lookback_days = 30, lu_minimum_average_quote_volume = 1000000000,
      lu_maximum_assets = 30, lu_require_btc = True\<rparr>"

definition check_liquidity_universe :: "liquidity_universe \<Rightarrow> liquidity_universe result" where
  "check_liquidity_universe u =
     (if lu_lookback_days u \<le> 0 \<or> lu_maximum_assets u \<le> 0
      then Inl (ValueError ''universe lookback and maximum assets must be positive'')
      else if lu_minimum_average_quote_volume u < 0
      then Inl (ValueError ''minimum liquidity cannot be negative'')
      else Inr u)"

text \<open>
  What the loop over the pairs finds for one of them: its average volume if it was computed, and
  the reason of its exclusion if it is excluded.
\<close>

record verdict =
  vd_pair :: trading_pair
  vd_liquidity :: "decimal option"
  vd_exclusion :: "string option"

definition liquidity_verdict ::
    "liquidity_universe \<Rightarrow> universe_snapshot \<Rightarrow> market_data_bundle \<Rightarrow> trading_pair \<Rightarrow> verdict result" where
  "liquidity_verdict u snapshot known pair =
     (case map_of (rev (map (\<lambda>m. (pair_symbol (member_pair m), m)) (snapshot_members snapshot)))
             (pair_symbol pair) of
        None \<Rightarrow> Inr \<lparr>vd_pair = pair, vd_liquidity = None, vd_exclusion = Some ''NOT_IN_LATEST_KNOWN_SNAPSHOT''\<rparr>
      | Some m \<Rightarrow>
          if member_warning m
          then Inr \<lparr>vd_pair = pair, vd_liquidity = None, vd_exclusion = Some ''MARKET_WARNING''\<rparr>
          else bind_result (candles_of (pair_symbol pair) known) (\<lambda>candles.
            if int (length candles) < lu_lookback_days u
            then Inr \<lparr>vd_pair = pair, vd_liquidity = None, vd_exclusion = Some ''INSUFFICIENT_HISTORY''\<rparr>
            else bind_result (mean_quote_volume (py_last (lu_lookback_days u) candles)) (\<lambda>average.
              Inr \<lparr>vd_pair = pair, vd_liquidity = Some average,
                   vd_exclusion = (if average < lu_minimum_average_quote_volume u
                                   then Some ''INSUFFICIENT_LIQUIDITY'' else None)\<rparr>)))"

definition rank_by_liquidity :: "verdict list \<Rightarrow> trading_pair list" where
  "rank_by_liquidity eligible =
     map vd_pair (sort_on (\<lambda>v. (dneg (case vd_liquidity v of None \<Rightarrow> 0 | Some x \<Rightarrow> x), pair_symbol (vd_pair v)))
       eligible)"

text \<open>The cutoff, and BTC in the last place when it is eligible and below the cutoff.\<close>

definition cut_universe :: "liquidity_universe \<Rightarrow> trading_pair list \<Rightarrow> trading_pair list" where
  "cut_universe u ranked =
     (let selected = py_take (lu_maximum_assets u) ranked
      in if \<not> lu_require_btc u then selected
         else case find (\<lambda>p. asset_symbol (pair_base p) = ''BTC'') ranked of
                None \<Rightarrow> selected
              | Some btc \<Rightarrow>
                  if btc \<in> set selected then selected
                  else if selected \<noteq> [] then butlast selected @ [btc] else [btc])"

definition liquidity_evaluate ::
    "liquidity_universe \<Rightarrow> market_data_bundle \<Rightarrow> utc \<Rightarrow> universe_eligibility_result result" where
  "liquidity_evaluate u market_data as_of =
     bind_result (history_known_at (lu_history u) (Aware as_of)) (\<lambda>found.
     case found of
       None \<Rightarrow> Inr \<lparr>elig_as_of = as_of, elig_snapshot_observed_at = None, elig_eligible_pairs = [],
                     elig_average_quote_volume = [],
                     elig_exclusions = map (\<lambda>p. (pair_symbol p, ''NO_MEMBERSHIP_SNAPSHOT''))
                       (universe_pairs (bundle_universe market_data))\<rparr>
     | Some snapshot \<Rightarrow>
     bind_result (bundle_known_at market_data (Aware as_of)) (\<lambda>known.
     bind_result (map_result (liquidity_verdict u snapshot known) (universe_pairs (bundle_universe market_data)))
       (\<lambda>verdicts.
       (let eligible = filter (\<lambda>v. vd_exclusion v = None) verdicts;
            selected = cut_universe u (rank_by_liquidity eligible);
            selected_symbols = set (map pair_symbol selected);
            excluded = List.map_filter (\<lambda>v. map_option (Pair (pair_symbol (vd_pair v))) (vd_exclusion v)) verdicts;
            below = filter (\<lambda>v. pair_symbol (vd_pair v) \<notin> selected_symbols) eligible
        in Inr \<lparr>elig_as_of = as_of, elig_snapshot_observed_at = Some (snapshot_observed_at snapshot),
                elig_eligible_pairs = selected,
                elig_average_quote_volume =
                  List.map_filter (\<lambda>v. map_option (Pair (pair_symbol (vd_pair v))) (vd_liquidity v)) verdicts,
                elig_exclusions = excluded
                  @ map (\<lambda>v. (pair_symbol (vd_pair v), ''BELOW_LIQUIDITY_RANK_CUTOFF'')) below\<rparr>))))"

section \<open>Causality\<close>

text \<open>
  Two bundles that cannot be told apart at an instant: the same universe and the same candles
  available by then.
\<close>

definition same_known :: "utc \<Rightarrow> market_data_bundle \<Rightarrow> market_data_bundle \<Rightarrow> bool" where
  "same_known t a b =
     (bundle_universe a = bundle_universe b
      \<and> candles_known_at t (bundle_candles a) = candles_known_at t (bundle_candles b))"

lemma same_known_refl [simp]: "same_known t a a"
  by (simp add: same_known_def)

lemma same_known_earlier: "same_known t a b \<Longrightarrow> s \<le> t \<Longrightarrow> same_known s a b"
  unfolding same_known_def by (metis candles_known_at_again)

lemma same_known_universe: "same_known t a b \<Longrightarrow> bundle_universe a = bundle_universe b"
  by (simp add: same_known_def)

lemma same_known_view: "same_known t a b \<Longrightarrow> bundle_known_at a (Aware t) = bundle_known_at b (Aware t)"
  by (simp add: same_known_def bundle_known_at_def)

locale causal =
  fixes value_at :: "market_data_bundle \<Rightarrow> utc \<Rightarrow> 'a"
  assumes same_value: "same_known t a b \<Longrightarrow> value_at a t = value_at b t"
begin

text \<open>A causal value is that of the view at the instant: hiding later candles does not change it.\<close>

lemma value_of_view:
  assumes "bundle_known_at a (Aware t) = Inr known"
  shows "value_at known t = value_at a t"
proof (rule same_value)
  show "same_known t known a"
    using assms by (auto simp: bundle_known_at_def same_known_def mk_market_data_bundle_Inr candles_known_at_again)
qed

text \<open>Candles that become available later do not change it either.\<close>

lemma value_at_later:
  "same_known u a b \<Longrightarrow> t \<le> u \<Longrightarrow> value_at a t = value_at b t"
  by (rule same_value) (rule same_known_earlier)

end

interpretation btc_trend: causal "btc_trend_evaluate np m"
  by unfold_locales (simp add: btc_trend_evaluate_def same_known_view)

interpretation intraday_btc: causal "intraday_btc_evaluate np m"
  by unfold_locales (simp add: intraday_btc_evaluate_def same_known_view)

interpretation momentum: causal
  "\<lambda>b t. momentum_generate s \<lparr>sc_as_of = t, sc_market_data = b, sc_regime = r, sc_eligible_assets = assets\<rparr>"
proof unfold_locales
  fix t and a b :: market_data_bundle
  assume same: "same_known t a b"
  have "momentum_candidate s \<lparr>sc_as_of = t, sc_market_data = a, sc_regime = r, sc_eligible_assets = assets\<rparr>
      = momentum_candidate s \<lparr>sc_as_of = t, sc_market_data = b, sc_regime = r, sc_eligible_assets = assets\<rparr>"
    by (intro ext) (simp add: momentum_candidate_def)
  then show "momentum_generate s \<lparr>sc_as_of = t, sc_market_data = a, sc_regime = r, sc_eligible_assets = assets\<rparr>
      = momentum_generate s \<lparr>sc_as_of = t, sc_market_data = b, sc_regime = r, sc_eligible_assets = assets\<rparr>"
    by (simp add: momentum_generate_def same_known_view [OF same] cong: if_cong)
qed

interpretation liquidity: causal "liquidity_evaluate u"
  by unfold_locales
    (simp add: liquidity_evaluate_def same_known_view same_known_universe cong: option.case_cong)

end
