(* ===== verification/Backtest.thy ===== *)
theory Backtest
  imports Strategies Risk
begin

text \<open>
  The spot backtester (\<^verbatim>\<open>crypto/backtest\<close>) and the services that run it
  (\<^verbatim>\<open>application/backtest_service.py\<close>, \<^verbatim>\<open>application/intraday_service.py\<close>).

  The engine composes a regime model, a strategy, the equal-weight constructor, the risk engine and
  an optional eligibility model; the ports are functions of the engine record, as the source's
  protocols are.  Two things the source leaves open are arguments: NumPy (theory Strategies) and the
  order in which Python iterates over the set of assets of a turnover, \<open>enum\<close>.
\<close>

section \<open>Configuration and results\<close>

record backtest_config =
  bc_start :: utc
  bc_end :: utc
  bc_initial_capital :: decimal
  bc_rebalance_days :: int
  bc_fee_rate :: decimal
  bc_slippage_rate :: decimal
  bc_portfolio_id :: string
  bc_purpose :: portfolio_purpose
  bc_periods_per_year :: pyfloat

definition default_backtest_config :: backtest_config where
  "default_backtest_config =
     \<lparr>bc_start = 0, bc_end = 0, bc_initial_capital = 100000, bc_rebalance_days = 7,
      bc_fee_rate = 5 / 10000, bc_slippage_rate = 1 / 1000, bc_portfolio_id = ''crypto-paper'',
      bc_purpose = PAPER_TRADING, bc_periods_per_year = 365\<rparr>"

text \<open>The constructor: the two times, which have no default, and the other fields.\<close>

definition mk_backtest_config :: "datetime \<Rightarrow> datetime \<Rightarrow> backtest_config \<Rightarrow> backtest_config result" where
  "mk_backtest_config start_time end_time c =
     (case (start_time, end_time) of
        (Aware s, Aware e) \<Rightarrow>
          if e \<le> s then Inl (ValueError ''backtest start must precede end'')
          else if bc_initial_capital c \<le> 0 \<or> bc_rebalance_days c \<le> 0
          then Inl (ValueError ''capital and rebalance_days must be positive'')
          else if min (bc_fee_rate c) (bc_slippage_rate c) < 0
          then Inl (ValueError ''cost rates cannot be negative'')
          else if bc_periods_per_year c \<le> 0
          then Inl (ValueError ''periods_per_year must be positive'')
          else if bc_purpose c = CORE_INVESTMENT
          then Inl (ValueError ''core investment capital cannot be backtested by crypto trading'')
          else Inr (c\<lparr>bc_start := s, bc_end := e\<rparr>)
      | _ \<Rightarrow> Inl (ValueError ''backtest timestamps must be timezone-aware''))"

record equity_point =
  ep_timestamp :: utc
  ep_equity :: decimal
  ep_gross_equity :: decimal
  ep_cash_weight :: decimal

record performance_metrics =
  pm_total_return :: pyfloat
  pm_gross_total_return :: pyfloat
  pm_fee_adjusted_return :: pyfloat
  pm_slippage_adjusted_return :: pyfloat
  pm_cagr :: pyfloat
  pm_sharpe_ratio :: "pyfloat option"
  pm_sortino_ratio :: "pyfloat option"
  pm_maximum_drawdown :: pyfloat
  pm_volatility :: pyfloat
  pm_hit_rate :: pyfloat
  pm_turnover :: pyfloat
  pm_total_fee_impact :: pyfloat
  pm_total_slippage_impact :: pyfloat
  pm_buy_and_hold_return :: pyfloat
  pm_cash_benchmark_return :: pyfloat

record backtest_result =
  br_strategy_name :: string
  br_strategy_version :: string
  br_portfolio_id :: string
  br_purpose :: portfolio_purpose
  br_start :: utc
  br_end :: utc
  br_metrics :: performance_metrics
  br_equity_curve :: "equity_point list"
  br_rebalance_count :: int
  br_rejected_rebalances :: int

section \<open>The engine\<close>

record backtest_engine =
  be_regime_model :: "market_data_bundle \<Rightarrow> utc \<Rightarrow> market_regime_result result"
  be_strategy_name :: string
  be_strategy_version :: string
  be_strategy :: "strategy_context \<Rightarrow> strategy_result result"
  be_portfolio_constructor :: equal_weight
  be_risk_policy :: risk_policy
  be_universe_eligibility :: "(market_data_bundle \<Rightarrow> utc \<Rightarrow> universe_eligibility_result result) option"

text \<open>The proposal of a rebalance, as the three ports and the constructor produce it.\<close>

definition proposal_at ::
    "backtest_engine \<Rightarrow> trading_portfolio \<Rightarrow> market_data_bundle \<Rightarrow> utc \<Rightarrow> portfolio_allocation result" where
  "proposal_at e portfolio market_data timestamp =
     bind_result (be_regime_model e market_data timestamp) (\<lambda>reg.
     bind_result (case be_universe_eligibility e of
                    None \<Rightarrow> Inr None
                  | Some f \<Rightarrow> bind_result (f market_data timestamp) (\<lambda>r.
                      Inr (Some (map pair_base (elig_eligible_pairs r))))) (\<lambda>eligible.
     bind_result (be_strategy e \<lparr>sc_as_of = timestamp, sc_market_data = market_data,
                                 sc_regime = reg, sc_eligible_assets = eligible\<rparr>) (\<lambda>sr.
       construct_allocation (be_portfolio_constructor e) portfolio sr)))"

type_synonym weights = "(string \<times> decimal) list"

text \<open>\<^verbatim>\<open>new_weights\<close>: a later allocation of the same symbol replaces an earlier one.\<close>

definition weights_of :: "asset_allocation list \<Rightarrow> weights" where
  "weights_of allocations =
     fold (\<lambda>a d. dict_set (asset_symbol (alloc_asset a)) (alloc_weight a) d) allocations []"

definition weight_in :: "weights \<Rightarrow> string \<Rightarrow> decimal" where
  "weight_in w k = (case map_of w k of None \<Rightarrow> 0 | Some v \<Rightarrow> v)"

definition turnover_of :: "(string set \<Rightarrow> string list) \<Rightarrow> weights \<Rightarrow> weights \<Rightarrow> decimal" where
  "turnover_of enum new old =
     dsum 0 (map (\<lambda>k. dabs (dsub (weight_in new k) (weight_in old k)))
       (enum (set (dict_keys new) \<union> set (dict_keys old))))"

record backtest_state =
  bs_equity :: decimal
  bs_fee_only_equity :: decimal
  bs_gross_equity :: decimal
  bs_weights :: weights
  bs_turnover :: decimal
  bs_fee_impact :: decimal
  bs_slippage_impact :: decimal
  bs_rejected :: int
  bs_rebalances :: int
  bs_returns :: "pyfloat list"
  bs_curve :: "equity_point list"

definition start_state :: "backtest_config \<Rightarrow> utc \<Rightarrow> backtest_state" where
  "start_state c t0 =
     \<lparr>bs_equity = bc_initial_capital c, bs_fee_only_equity = bc_initial_capital c,
      bs_gross_equity = bc_initial_capital c, bs_weights = [], bs_turnover = 0, bs_fee_impact = 0,
      bs_slippage_impact = 0, bs_rejected = 0, bs_rebalances = 0, bs_returns = [],
      bs_curve = [\<lparr>ep_timestamp = t0, ep_equity = bc_initial_capital c,
                    ep_gross_equity = bc_initial_capital c, ep_cash_weight = 1\<rparr>]\<rparr>"

text \<open>A rebalance that the risk engine approved: costs are taken from the equities, the weights change.\<close>

definition trade_to ::
    "(string set \<Rightarrow> string list) \<Rightarrow> backtest_config \<Rightarrow> asset_allocation list \<Rightarrow> backtest_state \<Rightarrow> backtest_state" where
  "trade_to enum c allocations st =
     (let new_weights = weights_of allocations;
          turnover = turnover_of enum new_weights (bs_weights st);
          fee_impact = dmul turnover (bc_fee_rate c);
          slippage_impact = dmul turnover (bc_slippage_rate c)
      in st\<lparr>bs_equity := dmul (bs_equity st) (dsub (dsub 1 fee_impact) slippage_impact),
            bs_fee_only_equity := dmul (bs_fee_only_equity st) (dsub 1 fee_impact),
            bs_fee_impact := dadd (bs_fee_impact st) fee_impact,
            bs_slippage_impact := dadd (bs_slippage_impact st) slippage_impact,
            bs_turnover := dadd (bs_turnover st) turnover,
            bs_weights := new_weights,
            bs_rebalances := bs_rebalances st + 1\<rparr>)"

definition rebalance_at ::
    "(string set \<Rightarrow> string list) \<Rightarrow> backtest_engine \<Rightarrow> backtest_config \<Rightarrow> trading_portfolio \<Rightarrow> market_data_bundle
     \<Rightarrow> utc \<Rightarrow> backtest_state \<Rightarrow> backtest_state result" where
  "rebalance_at enum e c portfolio market_data timestamp st =
     bind_result (proposal_at e portfolio market_data timestamp) (\<lambda>proposal.
       Inr (if rdec_approved (evaluate_allocation (be_risk_policy e) proposal portfolio)
            then trade_to enum c (pa_allocations proposal) st
            else st\<lparr>bs_rejected := bs_rejected st + 1\<rparr>))"

text \<open>\<^verbatim>\<open>lookup[symbol][timestamp]\<close>: the candle of a pair that opens at an instant.\<close>

definition candle_at :: "market_data_bundle \<Rightarrow> string \<Rightarrow> utc \<Rightarrow> candle result" where
  "candle_at market_data symbol t =
     bind_result (candles_of symbol market_data) (\<lambda>candles.
       case map_of (rev (map (\<lambda>c. (open_time c, c)) candles)) t of
         None \<Rightarrow> Inl (KeyError ''timestamp'')
       | Some c \<Rightarrow> Inr c)"

definition pair_of_symbol :: "market_data_bundle \<Rightarrow> string \<Rightarrow> trading_pair result" where
  "pair_of_symbol market_data symbol =
     (case find (\<lambda>a. asset_symbol a = symbol) (universe_assets (bundle_universe market_data)) of
        None \<Rightarrow> Inl StopIteration
      | Some a \<Rightarrow> pair_for (bundle_universe market_data) a)"

text \<open>The open-to-open return of one weight, and of the portfolio.\<close>

definition asset_return :: "market_data_bundle \<Rightarrow> utc \<Rightarrow> utc \<Rightarrow> string \<times> decimal \<Rightarrow> decimal result" where
  "asset_return market_data t t' w =
     bind_result (pair_of_symbol market_data (fst w)) (\<lambda>pair.
     bind_result (candle_at market_data (pair_symbol pair) t) (\<lambda>current.
     bind_result (candle_at market_data (pair_symbol pair) t') (\<lambda>following.
     bind_result (ddiv (open_price following) (open_price current)) (\<lambda>ratio.
       Inr (dmul (snd w) (dsub ratio 1))))))"

definition portfolio_return_of :: "market_data_bundle \<Rightarrow> utc \<Rightarrow> utc \<Rightarrow> weights \<Rightarrow> decimal result" where
  "portfolio_return_of market_data t t' w =
     bind_result (map_result (asset_return market_data t t') w) (\<lambda>rs. Inr (dsum 0 rs))"

definition hold_to :: "utc \<Rightarrow> decimal \<Rightarrow> backtest_state \<Rightarrow> backtest_state" where
  "hold_to t' portfolio_return st =
     (let equity = dmul (bs_equity st) (dadd 1 portfolio_return);
          gross_equity = dmul (bs_gross_equity st) (dadd 1 portfolio_return)
      in st\<lparr>bs_equity := equity,
            bs_fee_only_equity := dmul (bs_fee_only_equity st) (dadd 1 portfolio_return),
            bs_gross_equity := gross_equity,
            bs_returns := bs_returns st @ [flt portfolio_return],
            bs_curve := bs_curve st @
              [\<lparr>ep_timestamp = t', ep_equity = equity, ep_gross_equity = gross_equity,
                ep_cash_weight = dsub 1 (dsum 0 (map snd (bs_weights st)))\<rparr>]\<rparr>)"

text \<open>One turn of the loop: index, timestamp and the timestamp after it.\<close>

definition backtest_step ::
    "(string set \<Rightarrow> string list) \<Rightarrow> backtest_engine \<Rightarrow> backtest_config \<Rightarrow> trading_portfolio \<Rightarrow> market_data_bundle
     \<Rightarrow> int \<Rightarrow> utc \<Rightarrow> utc \<Rightarrow> backtest_state \<Rightarrow> backtest_state result" where
  "backtest_step enum e c portfolio market_data index t t' st =
     bind_result (if index mod bc_rebalance_days c = 0
                  then rebalance_at enum e c portfolio market_data t st else Inr st) (\<lambda>st1.
     bind_result (portfolio_return_of market_data t t' (bs_weights st1)) (\<lambda>r.
       Inr (hold_to t' r st1)))"

fun backtest_loop ::
    "(string set \<Rightarrow> string list) \<Rightarrow> backtest_engine \<Rightarrow> backtest_config \<Rightarrow> trading_portfolio \<Rightarrow> market_data_bundle
     \<Rightarrow> int \<Rightarrow> utc list \<Rightarrow> backtest_state \<Rightarrow> backtest_state result" where
  "backtest_loop enum e c portfolio market_data index (t # t' # ts) st =
     bind_result (backtest_step enum e c portfolio market_data index t t' st)
       (backtest_loop enum e c portfolio market_data (index + 1) (t' # ts))"
| "backtest_loop enum e c portfolio market_data index ts st = Inr st"

section \<open>Timeline and metrics\<close>

text \<open>The instants at which a candle of every pair opens, in the period of the backtest.\<close>

definition timeline_of :: "market_data_bundle \<Rightarrow> utc \<Rightarrow> utc \<Rightarrow> utc list result" where
  "timeline_of market_data s e =
     bind_result (map_result (\<lambda>p. candles_of (pair_symbol p) market_data)
        (universe_pairs (bundle_universe market_data))) (\<lambda>series.
       case map (map open_time) series of
         [] \<Rightarrow> Inl (TypeError ''unbound method set.intersection() needs an argument'')
       | ts # rest \<Rightarrow>
           Inr (sort_by (\<le>) (remdups (filter (\<lambda>t. s \<le> t \<and> t < e \<and> list_all (\<lambda>r. t \<in> set r) rest) ts))))"

fun running_max :: "rat list \<Rightarrow> rat list" where
  "running_max [] = []"
| "running_max [x] = [x]"
| "running_max (x # y # ys) = x # running_max (max x y # ys)"

definition drawdowns_of :: "pyfloat list \<Rightarrow> pyfloat list" where
  "drawdowns_of values = map (\<lambda>(v, m). fsub (fquot v m) 1) (zip values (running_max values))"

fun min_of :: "rat list \<Rightarrow> rat" where
  "min_of [] = 0"
| "min_of (x # xs) = fold min xs x"

definition total_return_of :: "decimal \<Rightarrow> decimal \<Rightarrow> pyfloat result" where
  "total_return_of final initial = bind_result (ddiv final initial) (\<lambda>q. Inr (flt (dsub q 1)))"

definition backtest_metrics ::
    "numpy \<Rightarrow> market_data_bundle \<Rightarrow> utc list \<Rightarrow> backtest_config \<Rightarrow> backtest_state \<Rightarrow> performance_metrics result"
where
  "backtest_metrics np market_data timeline c st =
     (let initial = bc_initial_capital c; final = last (bs_curve st); returns = bs_returns st;
          years = max (fquot (total_seconds (last timeline - hd timeline)) 31557600) (fquot 1 (36525 / 100));
          annual = np_sqrt np (bc_periods_per_year c);
          volatility = (if 1 < length returns then fmul (np_std1 np returns) annual else 0);
          mean = (if returns \<noteq> [] then np_mean np returns else 0);
          std = (if 1 < length returns then np_std1 np returns else 0);
          downside = filter (\<lambda>r. r < 0) returns;
          downside_std = (if 1 < length downside then np_std1 np downside else 0);
          pairs = universe_pairs (bundle_universe market_data)
      in bind_result (total_return_of (ep_equity final) initial) (\<lambda>total_return.
         bind_result (total_return_of (ep_gross_equity final) initial) (\<lambda>gross_return.
         bind_result (total_return_of (bs_fee_only_equity st) initial) (\<lambda>fee_adjusted.
         bind_result (ddiv (ep_equity final) initial) (\<lambda>growth.
         bind_result (case btc_pair_of (bundle_universe market_data) of
                        Some p \<Rightarrow> Inr p
                      | None \<Rightarrow> (case pairs of [] \<Rightarrow> Inl IndexError | p # _ \<Rightarrow> Inr p)) (\<lambda>benchmark.
         bind_result (candle_at market_data (pair_symbol benchmark) (hd timeline)) (\<lambda>first_candle.
         bind_result (candle_at market_data (pair_symbol benchmark) (last timeline)) (\<lambda>last_candle.
         bind_result (total_return_of (open_price last_candle) (open_price first_candle)) (\<lambda>buy_hold.
           Inr \<lparr>pm_total_return = total_return, pm_gross_total_return = gross_return,
                pm_fee_adjusted_return = fee_adjusted, pm_slippage_adjusted_return = total_return,
                pm_cagr = fsub (py_pow np (flt growth) (fquot 1 years)) 1,
                pm_sharpe_ratio = (if 0 < std then Some (fmul (fquot mean std) annual) else None),
                pm_sortino_ratio = (if 0 < downside_std then Some (fmul (fquot mean downside_std) annual) else None),
                pm_maximum_drawdown = min_of (drawdowns_of (map (\<lambda>p. flt (ep_equity p)) (bs_curve st))),
                pm_volatility = volatility,
                pm_hit_rate = (if returns \<noteq> []
                               then np_mean np (map (\<lambda>r. if 0 < r then 1 else 0) returns) else 0),
                pm_turnover = flt (bs_turnover st), pm_total_fee_impact = flt (bs_fee_impact st),
                pm_total_slippage_impact = flt (bs_slippage_impact st),
                pm_buy_and_hold_return = buy_hold, pm_cash_benchmark_return = 0\<rparr>)))))))))"

definition backtest_run ::
    "numpy \<Rightarrow> (string set \<Rightarrow> string list) \<Rightarrow> backtest_engine \<Rightarrow> market_data_bundle \<Rightarrow> backtest_config
     \<Rightarrow> backtest_result result" where
  "backtest_run np enum e market_data c =
     bind_result (timeline_of market_data (bc_start c) (bc_end c)) (\<lambda>timeline.
       if length timeline < 2
       then Inl (ValueError ''backtest requires at least two common trading timestamps'')
       else
         bind_result (universe_quote_asset (bundle_universe market_data)) (\<lambda>quote.
         bind_result (mk_trading_portfolio (bc_portfolio_id c) (bc_purpose c) quote (bc_initial_capital c) [])
           (\<lambda>portfolio.
         bind_result (backtest_loop enum e c portfolio market_data 0 timeline (start_state c (hd timeline)))
           (\<lambda>st.
         bind_result (backtest_metrics np market_data timeline c st) (\<lambda>metrics.
           Inr \<lparr>br_strategy_name = be_strategy_name e, br_strategy_version = be_strategy_version e,
                br_portfolio_id = bc_portfolio_id c, br_purpose = bc_purpose c,
                br_start = hd timeline, br_end = last timeline, br_metrics = metrics,
                br_equity_curve = bs_curve st, br_rebalance_count = bs_rebalances st,
                br_rejected_rebalances = bs_rejected st\<rparr>)))))"

section \<open>The engines of the services\<close>

definition momentum_backtester ::
    "(market_data_bundle \<Rightarrow> utc \<Rightarrow> market_regime_result result) \<Rightarrow> momentum_strategy \<Rightarrow> equal_weight \<Rightarrow> risk_policy
     \<Rightarrow> (market_data_bundle \<Rightarrow> utc \<Rightarrow> universe_eligibility_result result) option \<Rightarrow> backtest_engine" where
  "momentum_backtester reg s ew rp elig =
     \<lparr>be_regime_model = reg, be_strategy_name = ''cross_sectional_momentum'', be_strategy_version = ''v1'',
      be_strategy = momentum_generate s, be_portfolio_constructor = ew, be_risk_policy = rp,
      be_universe_eligibility = elig\<rparr>"

text \<open>The same with the checks of the constructors.\<close>

definition momentum_engine ::
    "(market_data_bundle \<Rightarrow> utc \<Rightarrow> market_regime_result result) \<Rightarrow> momentum_strategy \<Rightarrow> equal_weight \<Rightarrow> risk_policy
     \<Rightarrow> (market_data_bundle \<Rightarrow> utc \<Rightarrow> universe_eligibility_result result) option \<Rightarrow> backtest_engine result" where
  "momentum_engine reg s ew rp elig =
     bind_result (check_momentum s) (\<lambda>s.
     bind_result (check_equal_weight ew) (\<lambda>ew.
     bind_result (check_risk_policy rp) (\<lambda>rp.
       Inr (momentum_backtester reg s ew rp elig))))"

definition build_universe :: "string list \<Rightarrow> trading_universe result" where
  "build_universe pair_symbols =
     bind_result (map_result parse_trading_pair pair_symbols) mk_trading_universe"

record momentum_command =
  mc_pair_symbols :: "string list"
  mc_start :: utc
  mc_end :: utc
  mc_initial_capital :: decimal
  mc_purpose :: portfolio_purpose
  mc_lookback_days :: int
  mc_maximum_positions :: int
  mc_rebalance_days :: int
  mc_minimum_average_quote_volume :: decimal
  mc_fee_rate :: decimal
  mc_slippage_rate :: decimal

type_synonym market_fetch = "trading_universe \<Rightarrow> utc \<Rightarrow> utc \<Rightarrow> market_data_bundle result"

definition run_momentum ::
    "numpy \<Rightarrow> (string set \<Rightarrow> string list) \<Rightarrow> market_fetch \<Rightarrow> liquidity_universe option \<Rightarrow> momentum_command
     \<Rightarrow> backtest_result result" where
  "run_momentum np enum fetch eligibility cmd =
     bind_result (build_universe (mc_pair_symbols cmd)) (\<lambda>universe.
     (let warmup_days = max (mc_lookback_days cmd + 1) (bt_long_window default_btc_trend + 1)
      in bind_result (fetch universe (mc_start cmd - days (warmup_days * 2)) (mc_end cmd)) (\<lambda>market_data.
         bind_result
           (momentum_engine (btc_trend_evaluate np default_btc_trend)
              (default_momentum\<lparr>ms_lookback_days := mc_lookback_days cmd,
                 ms_maximum_assets := mc_maximum_positions cmd,
                 ms_minimum_average_quote_volume := mc_minimum_average_quote_volume cmd\<rparr>)
              (default_equal_weight\<lparr>ew_maximum_positions := mc_maximum_positions cmd,
                 ew_maximum_asset_weight := 5 / 10\<rparr>)
              (default_risk_policy\<lparr>rp_maximum_positions := mc_maximum_positions cmd,
                 rp_maximum_asset_fraction := 5 / 10\<rparr>)
              (map_option liquidity_evaluate eligibility)) (\<lambda>engine.
         bind_result
           (mk_backtest_config (Aware (mc_start cmd)) (Aware (mc_end cmd))
              (default_backtest_config\<lparr>bc_initial_capital := mc_initial_capital cmd,
                 bc_rebalance_days := mc_rebalance_days cmd, bc_fee_rate := mc_fee_rate cmd,
                 bc_slippage_rate := mc_slippage_rate cmd, bc_purpose := mc_purpose cmd\<rparr>)) (\<lambda>c.
           backtest_run np enum engine market_data c)))))"

record intraday_command =
  ic_pair_symbols :: "string list"
  ic_start :: utc
  ic_end :: utc
  ic_initial_capital :: decimal
  ic_signal_lookback_bars :: int
  ic_rebalance_bars :: int
  ic_maximum_positions :: int
  ic_fee_rate :: decimal
  ic_slippage_rate :: decimal

definition run_intraday ::
    "numpy \<Rightarrow> (string set \<Rightarrow> string list) \<Rightarrow> market_fetch \<Rightarrow> intraday_command \<Rightarrow> backtest_result result" where
  "run_intraday np enum fetch cmd =
     bind_result (build_universe (ic_pair_symbols cmd)) (\<lambda>universe.
     (let warmup_bars = 16 * 42 + 1
      in bind_result (fetch universe (ic_start cmd - minutes (15 * warmup_bars)) (ic_end cmd)) (\<lambda>market_data.
         bind_result
           (momentum_engine (intraday_btc_evaluate np default_intraday_btc)
              (default_momentum\<lparr>ms_lookback_days := ic_signal_lookback_bars cmd,
                 ms_maximum_assets := ic_maximum_positions cmd, ms_lookback_unit := ''bars''\<rparr>)
              (default_equal_weight\<lparr>ew_maximum_positions := ic_maximum_positions cmd,
                 ew_maximum_asset_weight := 5 / 10\<rparr>)
              (default_risk_policy\<lparr>rp_maximum_positions := ic_maximum_positions cmd,
                 rp_maximum_asset_fraction := 5 / 10\<rparr>) None) (\<lambda>engine.
         bind_result
           (mk_backtest_config (Aware (ic_start cmd)) (Aware (ic_end cmd))
              (default_backtest_config\<lparr>bc_initial_capital := ic_initial_capital cmd,
                 bc_rebalance_days := ic_rebalance_bars cmd, bc_fee_rate := ic_fee_rate cmd,
                 bc_slippage_rate := ic_slippage_rate cmd,
                 bc_portfolio_id := ''crypto-intraday-paper'', bc_purpose := PAPER_TRADING,
                 bc_periods_per_year := 96 * 365\<rparr>)) (\<lambda>c.
           backtest_run np enum engine market_data c)))))"

end
