(* ===== verification/Research.thy ===== *)
theory Research
  imports Backtest
begin

text \<open>
  The domain of the research lifecycle: experiments and their status machine, strategy versions, runs
  (\<^verbatim>\<open>crypto/domain/research.py\<close>), the champion/challenger policy
  (\<^verbatim>\<open>crypto/research/candidate.py\<close>) and the time-ordered validation methods
  (\<^verbatim>\<open>crypto/research/validation.py\<close>).

  \<^verbatim>\<open>parameters_json\<close> holds the value its JSON text denotes (section on JSON in theory Prelude).
\<close>

section \<open>Enumerations\<close>

datatype experiment_status =
  DRAFT | READY | RUNNING | COMPLETED | FAILED | REJECTED | CANDIDATE | PROMOTED

datatype run_status = RUN_RUNNING | RUN_SUCCEEDED | RUN_FAILED

datatype version_status =
  VERSION_CHALLENGER | VERSION_CANDIDATE | VERSION_ACTIVE | VERSION_REJECTED | VERSION_RETIRED

datatype experiment_type = STRATEGY | MODEL | STRATEGY_AND_MODEL

datatype validation_method = HOLDOUT | WALK_FORWARD

fun experiment_status_value :: "experiment_status \<Rightarrow> string" where
  "experiment_status_value DRAFT = ''DRAFT''"
| "experiment_status_value READY = ''READY''"
| "experiment_status_value RUNNING = ''RUNNING''"
| "experiment_status_value COMPLETED = ''COMPLETED''"
| "experiment_status_value FAILED = ''FAILED''"
| "experiment_status_value REJECTED = ''REJECTED''"
| "experiment_status_value CANDIDATE = ''CANDIDATE''"
| "experiment_status_value PROMOTED = ''PROMOTED''"

fun run_status_value :: "run_status \<Rightarrow> string" where
  "run_status_value RUN_RUNNING = ''RUNNING''"
| "run_status_value RUN_SUCCEEDED = ''SUCCEEDED''"
| "run_status_value RUN_FAILED = ''FAILED''"

fun version_status_value :: "version_status \<Rightarrow> string" where
  "version_status_value VERSION_CHALLENGER = ''CHALLENGER''"
| "version_status_value VERSION_CANDIDATE = ''CANDIDATE''"
| "version_status_value VERSION_ACTIVE = ''ACTIVE''"
| "version_status_value VERSION_REJECTED = ''REJECTED''"
| "version_status_value VERSION_RETIRED = ''RETIRED''"

fun experiment_type_value :: "experiment_type \<Rightarrow> string" where
  "experiment_type_value STRATEGY = ''STRATEGY''"
| "experiment_type_value MODEL = ''MODEL''"
| "experiment_type_value STRATEGY_AND_MODEL = ''STRATEGY_AND_MODEL''"

fun validation_method_value :: "validation_method \<Rightarrow> string" where
  "validation_method_value HOLDOUT = ''HOLDOUT''"
| "validation_method_value WALK_FORWARD = ''WALK_FORWARD''"

section \<open>Records\<close>

record research_period =
  period_start :: utc
  period_end :: utc

fun mk_research_period :: "datetime \<Rightarrow> datetime \<Rightarrow> research_period result" where
  "mk_research_period (Aware s) (Aware e) =
     (if e \<le> s then Inl (ValueError ''research period requires aware, increasing timestamps'')
      else Inr \<lparr>period_start = s, period_end = e\<rparr>)"
| "mk_research_period _ _ = Inl (ValueError ''research period requires aware, increasing timestamps'')"

record strategy_version =
  sv_version_id :: string
  sv_strategy_name :: string
  sv_version :: int
  sv_parameters_json :: json
  sv_status :: version_status
  sv_created_at :: utc
  sv_source_experiment_id :: "string option"

text \<open>\<^verbatim>\<open>StrategyVersion.parameters\<close>: the decoded object.\<close>

definition strategy_parameters :: "strategy_version \<Rightarrow> json result" where
  "strategy_parameters v =
     (case sv_parameters_json v of
        JObj kvs \<Rightarrow> Inr (JObj kvs)
      | _ \<Rightarrow> Inl (ValueError ''strategy parameters must be a JSON object''))"

definition with_status :: "strategy_version \<Rightarrow> version_status \<Rightarrow> strategy_version" where
  "with_status v status = v\<lparr>sv_status := status\<rparr>"

record model_version =
  mv_version_id :: string
  mv_model_name :: string
  mv_version :: int
  mv_artifact_id :: string
  mv_status :: version_status
  mv_created_at :: utc
  mv_source_experiment_id :: string

record dataset_snapshot =
  ds_snapshot_id :: string
  ds_data_start :: utc
  ds_data_end :: utc
  ds_universe_version :: string
  ds_feature_version :: string
  ds_source :: string
  ds_checksum :: string
  ds_created_at :: utc

record training_run =
  tr_run_id :: string
  tr_experiment_id :: string
  tr_dataset_snapshot_id :: string
  tr_model_version_id :: string
  tr_status :: run_status
  tr_started_at :: utc
  tr_completed_at :: "utc option"
  tr_metrics_json :: string
  tr_error :: "string option"

record backtest_run_record =
  bt_run_id :: string
  bt_experiment_id :: string
  bt_strategy_version_id :: string
  bt_dataset_snapshot_id :: string
  bt_fee_rate :: string
  bt_slippage_rate :: string
  bt_status :: run_status
  bt_started_at :: utc
  bt_completed_at :: "utc option"
  bt_metrics :: "performance_metrics option"
  bt_error :: "string option"

record validation_run =
  vr_run_id :: string
  vr_experiment_id :: string
  vr_dataset_snapshot_id :: string
  vr_method :: validation_method
  vr_status :: run_status
  vr_successful :: bool
  vr_checks :: "string list"
  vr_started_at :: utc
  vr_completed_at :: utc

record candidate_evaluation =
  ce_passed :: bool
  ce_policy_version :: string
  ce_reasons :: "string list"

record research_experiment =
  ex_experiment_id :: string
  ex_hypothesis :: string
  ex_experiment_type :: experiment_type
  ex_base_strategy_version :: "string option"
  ex_base_model_version :: "string option"
  ex_candidate_strategy_version :: "string option"
  ex_candidate_model_version :: "string option"
  ex_parameters_json :: json
  ex_feature_changes :: "string list"
  ex_train_period :: research_period
  ex_validation_period :: research_period
  ex_validation_method :: validation_method
  ex_requested_metrics :: "string list"
  ex_status :: experiment_status
  ex_created_at :: utc
  ex_started_at :: "utc option"
  ex_completed_at :: "utc option"
  ex_dataset_snapshot_id :: "string option"
  ex_run_ids :: "string list"
  ex_evaluation :: "candidate_evaluation option"
  ex_approved_by :: "string option"

section \<open>The status machine\<close>

fun allowed_targets :: "experiment_status \<Rightarrow> experiment_status list" where
  "allowed_targets DRAFT = [READY, REJECTED]"
| "allowed_targets READY = [RUNNING, REJECTED]"
| "allowed_targets RUNNING = [COMPLETED, FAILED]"
| "allowed_targets COMPLETED = [CANDIDATE, REJECTED]"
| "allowed_targets CANDIDATE = [PROMOTED, REJECTED]"
| "allowed_targets _ = []"

text \<open>\<open>timestamp\<close> is the reading of the clock that the method takes.\<close>

definition transition :: "research_experiment \<Rightarrow> experiment_status \<Rightarrow> utc \<Rightarrow> research_experiment result" where
  "transition e target timestamp =
     (if target \<notin> set (allowed_targets (ex_status e))
      then Inl (ValueError (''invalid experiment transition: '' @ experiment_status_value (ex_status e)
                            @ '' -> '' @ experiment_status_value target))
      else Inr (e\<lparr>ex_status := target,
                  ex_started_at := (if target = RUNNING then Some timestamp else ex_started_at e),
                  ex_completed_at :=
                    (if target \<in> {COMPLETED, FAILED} then Some timestamp else ex_completed_at e)\<rparr>))"

text \<open>
  \<^verbatim>\<open>canonical_parameters\<close> writes the keys of every object in order, so its text depends on the
  members of an object only; \<open>digest\<close> is the hash of a text (theory Prelude).
\<close>

fun canonical_parameters :: "json \<Rightarrow> json" where
  "canonical_parameters (JObj kvs) = JObj (sort_key fst (map (\<lambda>(k, v). (k, canonical_parameters v)) kvs))"
| "canonical_parameters (JList xs) = JList (map canonical_parameters xs)"
| "canonical_parameters v = v"

definition deterministic_id :: "digest \<Rightarrow> string \<Rightarrow> json \<Rightarrow> string" where
  "deterministic_id sha256 prefix payload = prefix @ ''-'' @ take 16 (sha256 payload)"

section \<open>Evaluation of a candidate\<close>

definition evaluate_candidate ::
    "string \<Rightarrow> performance_metrics \<Rightarrow> performance_metrics \<Rightarrow> bool \<Rightarrow> candidate_evaluation" where
  "evaluate_candidate version champion challenger validation_successful =
     (let reasons =
        (if \<not> validation_successful then [''VALIDATION_FAILED''] else [])
        @ (case pm_sharpe_ratio champion of
             None \<Rightarrow> []
           | Some c \<Rightarrow>
               (case pm_sharpe_ratio challenger of
                  None \<Rightarrow> [''SHARPE_BELOW_CHAMPION'']
                | Some s \<Rightarrow> if s < c then [''SHARPE_BELOW_CHAMPION''] else []))
        @ (if pm_maximum_drawdown challenger < pm_maximum_drawdown champion
           then [''DRAWDOWN_WORSE_THAN_CHAMPION''] else [])
        @ (if pm_fee_adjusted_return challenger \<le> 0 then [''FEE_ADJUSTED_RETURN_NOT_POSITIVE''] else [])
      in \<lparr>ce_passed = (reasons = []), ce_policy_version = version, ce_reasons = reasons\<rparr>)"

section \<open>Validation of the periods\<close>

definition holdout_checks :: "research_period \<Rightarrow> research_period \<Rightarrow> string list" where
  "holdout_checks train validation =
     (if period_end train \<le> period_start validation then [] else [''TRAIN_OVERLAPS_VALIDATION''])"

definition check_walk_forward :: "int \<Rightarrow> int result" where
  "check_walk_forward purge_days =
     (if purge_days \<le> 0 then Inl (ValueError ''purge_days must be positive'') else Inr purge_days)"

definition walk_forward_checks :: "int \<Rightarrow> research_period \<Rightarrow> research_period \<Rightarrow> string list" where
  "walk_forward_checks purge_days train validation =
     (let minimum_start = period_end train + days purge_days
      in if minimum_start \<le> period_start validation then [] else [''PURGE_GAP_VIOLATION''])"

section \<open>The status machine makes progress\<close>

text \<open>How many transitions an experiment still has before it.\<close>

fun remaining :: "experiment_status \<Rightarrow> nat" where
  "remaining DRAFT = 5"
| "remaining READY = 4"
| "remaining RUNNING = 3"
| "remaining COMPLETED = 2"
| "remaining CANDIDATE = 1"
| "remaining _ = 0"

lemma allowed_remaining: "t \<in> set (allowed_targets s) \<Longrightarrow> remaining t < remaining s"
  by (cases s) auto

lemma transition_Inr:
  "transition e target now = Inr e' \<Longrightarrow>
   ex_status e' = target \<and> target \<in> set (allowed_targets (ex_status e)) \<and> ex_experiment_id e' = ex_experiment_id e
   \<and> ex_base_strategy_version e' = ex_base_strategy_version e
   \<and> ex_candidate_strategy_version e' = ex_candidate_strategy_version e
   \<and> ex_evaluation e' = ex_evaluation e \<and> ex_approved_by e' = ex_approved_by e"
  by (auto simp: transition_def split: if_splits)

lemma transition_ok: "target \<in> set (allowed_targets (ex_status e)) \<Longrightarrow> \<exists>e'. transition e target now = Inr e'"
  by (simp add: transition_def)

text \<open>What a passed evaluation says of the challenger.\<close>

lemma evaluate_candidate_passed:
  "ce_passed (evaluate_candidate version champion challenger ok) \<longleftrightarrow>
   ok \<and> (\<forall>c. pm_sharpe_ratio champion = Some c \<longrightarrow> (\<exists>s. pm_sharpe_ratio challenger = Some s \<and> c \<le> s))
   \<and> pm_maximum_drawdown champion \<le> pm_maximum_drawdown challenger
   \<and> 0 < pm_fee_adjusted_return challenger"
  by (auto simp: evaluate_candidate_def Let_def split: option.splits)

end
