(* ===== verification/Actions.thy ===== *)
theory Actions
  imports Prelude
begin

text \<open>
  Operations on a stored state that may raise: an action returns the state it leaves, also when it
  raises, since what was written before an exception stays written.
\<close>

named_theorems act "actions on a state that may raise"

type_synonym ('s, 'a) act = "'s \<Rightarrow> 's \<times> 'a result"

definition act_bind :: "('s, 'a) act \<Rightarrow> ('a \<Rightarrow> ('s, 'b) act) \<Rightarrow> ('s, 'b) act" where
  "act_bind m f r =
     (case m r of (r', Inl e) \<Rightarrow> (r', Inl e) | (r', Inr x) \<Rightarrow> f x r')"

definition act_lift :: "'a result \<Rightarrow> ('s, 'a) act" where
  "act_lift res r = (r, res)"

definition act_read :: "('s \<Rightarrow> 'a result) \<Rightarrow> ('s, 'a) act" where
  "act_read f r = (r, f r)"

definition act_save :: "('s \<Rightarrow> 's result) \<Rightarrow> ('s, unit) act" where
  "act_save f r = (case f r of Inl e \<Rightarrow> (r, Inl e) | Inr r' \<Rightarrow> (r', Inr ()))"

text \<open>\<^verbatim>\<open>try: m; except Exception: handler; raise\<close>.\<close>

definition act_reraise :: "('s, 'a) act \<Rightarrow> ('s, unit) act \<Rightarrow> ('s, 'a) act" where
  "act_reraise m handler r =
     (case m r of
        (r', Inr x) \<Rightarrow> (r', Inr x)
      | (r', Inl e) \<Rightarrow> (case handler r' of (r'', Inl e') \<Rightarrow> (r'', Inl e') | (r'', Inr _) \<Rightarrow> (r'', Inl e)))"

lemma act_bind_eq [act]:
  "act_bind m f r = (r', res) \<longleftrightarrow>
     (\<exists>e. m r = (r', Inl e) \<and> res = Inl e) \<or> (\<exists>r1 x. m r = (r1, Inr x) \<and> f x r1 = (r', res))"
  by (auto simp: act_bind_def split: prod.split sum.split)

lemma act_lift_eq [act]: "act_lift a r = (r', res) \<longleftrightarrow> r' = r \<and> a = res"
  by (auto simp: act_lift_def)

lemma act_read_eq [act]: "act_read f r = (r', res) \<longleftrightarrow> r' = r \<and> f r = res"
  by (auto simp: act_read_def)

lemma act_save_eq [act]:
  "act_save f r = (r', res) \<longleftrightarrow> (\<exists>e. f r = Inl e \<and> r' = r \<and> res = Inl e) \<or> (f r = Inr r' \<and> res = Inr ())"
  by (auto simp: act_save_def split: sum.split)

lemma act_reraise_eq [act]:
  "act_reraise m h r = (r', res) \<longleftrightarrow>
     (\<exists>x. m r = (r', Inr x) \<and> res = Inr x)
     \<or> (\<exists>e r1. m r = (r1, Inl e) \<and> ((\<exists>e'. h r1 = (r', Inl e') \<and> res = Inl e') \<or> (\<exists>u. h r1 = (r', Inr u) \<and> res = Inl e)))"
  by (auto simp: act_reraise_def split: prod.split sum.split)

lemma act_bind_elim:
  "act_bind m f r = (r', res) \<Longrightarrow> (\<And>e. m r = (r', Inl e) \<Longrightarrow> res = Inl e \<Longrightarrow> P) \<Longrightarrow>
   (\<And>r1 x. m r = (r1, Inr x) \<Longrightarrow> f x r1 = (r', res) \<Longrightarrow> P) \<Longrightarrow> P"
  by (auto simp: act)

end
