(* ===== verification/Lifecycle.thy ===== *)
theory Lifecycle
  imports ResearchStore Actions
begin

text \<open>
  The research lifecycle service (\<^verbatim>\<open>application/research_lifecycle_service.py\<close>): champion and challenger
  strategies, experiments that are created, marked ready, run as two backtests and a validation of
  the periods, and promoted or rejected by hand.

  Every use case is an action on the repository: it returns the repository it leaves, also when it
  raises, since what was written before an exception stays written.  The clock is a numbering of
  the readings an action takes.
\<close>

section \<open>Actions\<close>

type_synonym 'a action = "(research_repository, 'a) act"

section \<open>Parameters\<close>

text \<open>\<^verbatim>\<open>parameters.get(name, default)\<close>: a key that is present with \<^verbatim>\<open>null\<close> gives \<^verbatim>\<open>None\<close>.\<close>

fun param_get :: "json \<Rightarrow> string \<Rightarrow> json \<Rightarrow> json" where
  "param_get (JObj kvs) name fallback = (case map_of kvs name of None \<Rightarrow> fallback | Some v \<Rightarrow> v)"
| "param_get _ name fallback = fallback"

definition int_parameter :: "json \<Rightarrow> string \<Rightarrow> int \<Rightarrow> int result" where
  "int_parameter parameters name fallback =
     (case param_get parameters name (JInt fallback) of
        JInt n \<Rightarrow> Inr n
      | JBool b \<Rightarrow> Inr (if b then 1 else 0)
      | JStr s \<Rightarrow> int_of_text s
      | _ \<Rightarrow> Inl (ValueError (name @ '' must be an integer'')))"

definition decimal_parameter :: "json \<Rightarrow> string \<Rightarrow> string \<Rightarrow> decimal result" where
  "decimal_parameter parameters name fallback =
     (case py_str (param_get parameters name (JStr fallback)) of
        Inl _ \<Rightarrow> Inl ArithmeticError
      | Inr s \<Rightarrow> decimal_of_text s)"

definition experiment_payload :: "research_experiment \<Rightarrow> json result" where
  "experiment_payload e =
     (case ex_parameters_json e of
        JObj kvs \<Rightarrow> Inr (JObj kvs)
      | _ \<Rightarrow> Inl (ValueError ''invalid experiment parameters''))"

section \<open>The service and its commands\<close>

record research_env =
  rn_numpy :: numpy
  rn_enum :: "string set \<Rightarrow> string list"
  rn_fetch :: market_fetch
  rn_sha256 :: digest
  rn_policy_version :: string
  rn_clock :: "nat \<Rightarrow> utc"

record create_experiment_command =
  cx_hypothesis :: string
  cx_strategy_name :: string
  cx_candidate_parameters :: json
  cx_pair_symbols :: "string list"
  cx_train_period :: research_period
  cx_validation_period :: research_period
  cx_validation_method :: validation_method
  cx_feature_changes :: "string list"
  cx_requested_metrics :: "string list"

record run_experiment_result =
  rx_experiment :: research_experiment
  rx_champion_run :: backtest_run_record
  rx_challenger_run :: backtest_run_record
  rx_validation_run :: validation_run

section \<open>Creating an experiment\<close>

definition version_id_of :: "string \<Rightarrow> int \<Rightarrow> string" where
  "version_id_of name number = name @ '':v'' @ int_text number"

definition initialize_strategy :: "research_env \<Rightarrow> string \<Rightarrow> json \<Rightarrow> strategy_version action" where
  "initialize_strategy env name parameters =
     act_bind (act_read list_strategies) (\<lambda>vs.
       if vs \<noteq> [] then act_lift (Inl (ValueError ''strategy registry is already initialized''))
       else
         (let v = \<lparr>sv_version_id = version_id_of name 1, sv_strategy_name = name, sv_version = 1,
                   sv_parameters_json = canonical_parameters parameters, sv_status = VERSION_ACTIVE,
                   sv_created_at = rn_clock env 0, sv_source_experiment_id = None\<rparr>
          in act_bind (act_save (save_strategy v True)) (\<lambda>_. act_lift (Inr v))))"

definition creation_payload :: "create_experiment_command \<Rightarrow> string \<Rightarrow> json" where
  "creation_payload cmd base = canonical_parameters (JObj
     [(''hypothesis'', JStr (cx_hypothesis cmd)), (''base'', JStr base),
      (''candidate'', cx_candidate_parameters cmd), (''pairs'', strings_json (cx_pair_symbols cmd)),
      (''train_start'', JTime (period_start (cx_train_period cmd))),
      (''train_end'', JTime (period_end (cx_train_period cmd))),
      (''validation_start'', JTime (period_start (cx_validation_period cmd))),
      (''validation_end'', JTime (period_end (cx_validation_period cmd))),
      (''validation_method'', JStr (validation_method_value (cx_validation_method cmd))),
      (''feature_changes'', strings_json (cx_feature_changes cmd)),
      (''requested_metrics'', strings_json (cx_requested_metrics cmd))])"

definition next_version :: "string \<Rightarrow> strategy_version \<Rightarrow> strategy_version list \<Rightarrow> int" where
  "next_version name champion vs =
     (let numbers = map sv_version (filter (\<lambda>v. sv_strategy_name v = name) vs)
      in (if numbers = [] then sv_version champion else fold max (tl numbers) (hd numbers)) + 1)"

definition new_candidate ::
    "research_env \<Rightarrow> create_experiment_command \<Rightarrow> int \<Rightarrow> string \<Rightarrow> strategy_version" where
  "new_candidate env cmd number experiment_id =
     \<lparr>sv_version_id = version_id_of (cx_strategy_name cmd) number, sv_strategy_name = cx_strategy_name cmd,
      sv_version = number, sv_parameters_json = canonical_parameters (cx_candidate_parameters cmd),
      sv_status = VERSION_CHALLENGER, sv_created_at = rn_clock env 0,
      sv_source_experiment_id = Some experiment_id\<rparr>"

definition new_experiment ::
    "research_env \<Rightarrow> create_experiment_command \<Rightarrow> string \<Rightarrow> string \<Rightarrow> string \<Rightarrow> research_experiment" where
  "new_experiment env cmd experiment_id base candidate =
     \<lparr>ex_experiment_id = experiment_id, ex_hypothesis = cx_hypothesis cmd, ex_experiment_type = STRATEGY,
      ex_base_strategy_version = Some base, ex_base_model_version = None,
      ex_candidate_strategy_version = Some candidate, ex_candidate_model_version = None,
      ex_parameters_json = creation_payload cmd base, ex_feature_changes = cx_feature_changes cmd,
      ex_train_period = cx_train_period cmd, ex_validation_period = cx_validation_period cmd,
      ex_validation_method = cx_validation_method cmd, ex_requested_metrics = cx_requested_metrics cmd,
      ex_status = DRAFT, ex_created_at = rn_clock env 1, ex_started_at = None, ex_completed_at = None,
      ex_dataset_snapshot_id = None, ex_run_ids = [], ex_evaluation = None, ex_approved_by = None\<rparr>"

definition create_experiment ::
    "research_env \<Rightarrow> create_experiment_command \<Rightarrow> research_experiment action" where
  "create_experiment env cmd =
     act_bind (act_read (\<lambda>r. active_strategy r (cx_strategy_name cmd))) (\<lambda>champion.
     act_bind (act_read list_strategies) (\<lambda>vs.
       (let number = next_version (cx_strategy_name cmd) champion vs;
            experiment_id = deterministic_id (rn_sha256 env) ''crypto-exp''
              (creation_payload cmd (sv_version_id champion));
            candidate = new_candidate env cmd number experiment_id;
            e = new_experiment env cmd experiment_id (sv_version_id champion) (sv_version_id candidate)
        in act_bind (act_save (save_strategy candidate True)) (\<lambda>_.
           act_bind (act_save (save_experiment e True)) (\<lambda>_. act_lift (Inr e))))))"

definition mark_ready :: "research_env \<Rightarrow> string \<Rightarrow> research_experiment action" where
  "mark_ready env experiment_id =
     act_bind (act_read (\<lambda>r. get_experiment r experiment_id)) (\<lambda>e.
     act_bind (act_lift (transition e READY (rn_clock env 0))) (\<lambda>e.
     act_bind (act_save (save_experiment e False)) (\<lambda>_. act_lift (Inr e))))"

section \<open>Running an experiment\<close>

definition research_engine :: "research_env \<Rightarrow> json \<Rightarrow> backtest_engine result" where
  "research_engine env parameters =
     bind_result (int_parameter parameters ''maximum_positions'' 3) (\<lambda>maximum_positions.
     bind_result (decimal_parameter parameters ''maximum_asset_weight'' ''0.5'') (\<lambda>maximum_weight.
     bind_result (int_parameter parameters ''momentum_window_days'' 30) (\<lambda>window.
     bind_result (decimal_parameter parameters ''minimum_average_quote_volume'' ''0'') (\<lambda>volume.
       momentum_engine (btc_trend_evaluate (rn_numpy env) default_btc_trend)
         (default_momentum\<lparr>ms_lookback_days := window, ms_maximum_assets := maximum_positions,
            ms_minimum_average_quote_volume := volume\<rparr>)
         (default_equal_weight\<lparr>ew_maximum_positions := maximum_positions,
            ew_maximum_asset_weight := maximum_weight\<rparr>)
         (default_risk_policy\<lparr>rp_maximum_positions := maximum_positions,
            rp_maximum_asset_fraction := maximum_weight\<rparr>) None))))"

definition research_config :: "research_experiment \<Rightarrow> json \<Rightarrow> backtest_config result" where
  "research_config e parameters =
     bind_result (decimal_parameter parameters ''initial_capital'' ''100000'') (\<lambda>capital.
     bind_result (int_parameter parameters ''rebalance_days'' 7) (\<lambda>rebalance.
     bind_result (decimal_parameter parameters ''fee_rate'' ''0.0005'') (\<lambda>fee.
     bind_result (decimal_parameter parameters ''slippage_rate'' ''0.001'') (\<lambda>slippage.
       mk_backtest_config (Aware (period_start (ex_validation_period e)))
         (Aware (period_end (ex_validation_period e)))
         (default_backtest_config\<lparr>bc_initial_capital := capital, bc_rebalance_days := rebalance,
            bc_fee_rate := fee, bc_slippage_rate := slippage\<rparr>)))))"

definition research_snapshot :: "research_env \<Rightarrow> market_data_bundle \<Rightarrow> research_experiment \<Rightarrow> dataset_snapshot" where
  "research_snapshot env bundle e =
     (let checksum = rn_sha256 env (JList (concat (map (\<lambda>(symbol, candles).
            map (\<lambda>c. JList [JStr symbol, JTime (open_time c), JTime (available_at c), JDec (open_price c),
                 JDec (high_price c), JDec (low_price c), JDec (close_price c), JDec (volume c)]) candles)
            (sort_key fst (bundle_candles bundle)))))
      in \<lparr>ds_snapshot_id = deterministic_id (rn_sha256 env) ''crypto-snapshot''
            (JList [JStr checksum, JTime (period_start (ex_train_period e)),
               JTime (period_end (ex_validation_period e))]),
          ds_data_start = period_start (ex_train_period e), ds_data_end = period_end (ex_validation_period e),
          ds_universe_version = ''point-in-time-universe-v1'',
          ds_feature_version = ''momentum-strategy-features-v1'', ds_source = ''normalized-parquet'',
          ds_checksum = checksum, ds_created_at = rn_clock env 1\<rparr>)"

text \<open>\<open>n\<close> is the number of the first of the two readings of the clock.\<close>

definition research_backtest ::
    "research_env \<Rightarrow> nat \<Rightarrow> research_experiment \<Rightarrow> strategy_version \<Rightarrow> dataset_snapshot \<Rightarrow> market_data_bundle
     \<Rightarrow> (backtest_run_record \<times> backtest_result) action" where
  "research_backtest env n e version snapshot bundle =
     act_bind (act_lift (strategy_parameters version)) (\<lambda>parameters.
     act_bind (act_lift (research_engine env parameters)) (\<lambda>engine.
     act_bind (act_lift (research_config e parameters)) (\<lambda>config.
     act_bind (act_lift (backtest_run (rn_numpy env) (rn_enum env) engine bundle config)) (\<lambda>result.
     act_bind (act_lift (py_str (param_get parameters ''fee_rate'' (JStr ''0.0005'')))) (\<lambda>fee.
     act_bind (act_lift (py_str (param_get parameters ''slippage_rate'' (JStr ''0.001'')))) (\<lambda>slippage.
       (let run = \<lparr>bt_run_id = deterministic_id (rn_sha256 env) ''backtest-run''
                     (JStr (ex_experiment_id e @ '':'' @ sv_version_id version)),
                   bt_experiment_id = ex_experiment_id e, bt_strategy_version_id = sv_version_id version,
                   bt_dataset_snapshot_id = ds_snapshot_id snapshot, bt_fee_rate = fee,
                   bt_slippage_rate = slippage, bt_status = RUN_SUCCEEDED,
                   bt_started_at = rn_clock env n, bt_completed_at = Some (rn_clock env (n + 1)),
                   bt_metrics = Some (br_metrics result), bt_error = None\<rparr>
        in act_bind (act_save (save_backtest_run run True)) (\<lambda>_. act_lift (Inr (run, result))))))))))"

definition validation_checks :: "research_experiment \<Rightarrow> string list result" where
  "validation_checks e =
     (case ex_validation_method e of
        WALK_FORWARD \<Rightarrow>
          bind_result (experiment_payload e) (\<lambda>payload.
          bind_result (int_parameter payload ''purge_days'' 1) (\<lambda>n.
          bind_result (check_walk_forward n) (\<lambda>n.
            Inr (walk_forward_checks n (ex_train_period e) (ex_validation_period e)))))
      | HOLDOUT \<Rightarrow> Inr (holdout_checks (ex_train_period e) (ex_validation_period e)))"

definition experiment_pairs :: "research_experiment \<Rightarrow> string list result" where
  "experiment_pairs e =
     bind_result (experiment_payload e) (\<lambda>payload.
     bind_result (json_field ''pairs'' payload) (\<lambda>pairs.
       case pairs of
         JList xs \<Rightarrow> map_result py_str xs
       | _ \<Rightarrow> Inl (ValueError ''experiment pairs must be a list'')))"

definition new_validation_run ::
    "research_env \<Rightarrow> research_experiment \<Rightarrow> dataset_snapshot \<Rightarrow> string list \<Rightarrow> validation_run" where
  "new_validation_run env e snapshot checks =
     \<lparr>vr_run_id = deterministic_id (rn_sha256 env) ''validation-run'' (JStr (ex_experiment_id e @ '':1'')),
      vr_experiment_id = ex_experiment_id e, vr_dataset_snapshot_id = ds_snapshot_id snapshot,
      vr_method = ex_validation_method e, vr_status = RUN_SUCCEEDED, vr_successful = (checks = []),
      vr_checks = checks, vr_started_at = rn_clock env 6, vr_completed_at = rn_clock env 6\<rparr>"

text \<open>The verdict: the completed experiment goes on to its final status, and so does its candidate.\<close>

definition conclude ::
    "research_env \<Rightarrow> research_experiment \<Rightarrow> strategy_version \<Rightarrow> dataset_snapshot \<Rightarrow> backtest_run_record
     \<Rightarrow> backtest_run_record \<Rightarrow> validation_run \<Rightarrow> candidate_evaluation \<Rightarrow> run_experiment_result action" where
  "conclude env e challenger snapshot champion_run challenger_run validation evaluation =
     act_bind (act_lift (transition e COMPLETED (rn_clock env 7))) (\<lambda>c.
       (let completed = c\<lparr>ex_dataset_snapshot_id := Some (ds_snapshot_id snapshot),
              ex_run_ids := [bt_run_id champion_run, bt_run_id challenger_run, vr_run_id validation],
              ex_evaluation := Some evaluation\<rparr>
        in act_bind (act_lift (transition completed (if ce_passed evaluation then CANDIDATE else REJECTED)
               (rn_clock env 8))) (\<lambda>final.
           act_bind (act_save (save_strategy (with_status challenger
               (if ce_passed evaluation then VERSION_CANDIDATE else VERSION_REJECTED)) False)) (\<lambda>_.
           act_bind (act_save (save_experiment final False)) (\<lambda>_.
             act_lift (Inr \<lparr>rx_experiment = final, rx_champion_run = champion_run,
               rx_challenger_run = challenger_run, rx_validation_run = validation\<rparr>))))))"

definition execute_experiment :: "research_env \<Rightarrow> research_experiment \<Rightarrow> run_experiment_result action" where
  "execute_experiment env e =
     (case (ex_base_strategy_version e, ex_candidate_strategy_version e) of
        (Some base, Some candidate) \<Rightarrow>
          act_bind (act_read (\<lambda>r. get_strategy r base)) (\<lambda>champion.
          act_bind (act_read (\<lambda>r. get_strategy r candidate)) (\<lambda>challenger.
          act_bind (act_lift (experiment_pairs e)) (\<lambda>pairs.
          act_bind (act_lift (build_universe pairs)) (\<lambda>universe.
          act_bind (act_lift (rn_fetch env universe (period_start (ex_train_period e) - days 420)
              (period_end (ex_validation_period e)))) (\<lambda>bundle.
          (let snapshot = research_snapshot env bundle e
           in act_bind (act_save (save_snapshot snapshot)) (\<lambda>_.
              act_bind (research_backtest env 2 e champion snapshot bundle) (\<lambda>(champion_run, champion_result).
              act_bind (research_backtest env 4 e challenger snapshot bundle) (\<lambda>(challenger_run, challenger_result).
              act_bind (act_lift (validation_checks e)) (\<lambda>checks.
              (let validation = new_validation_run env e snapshot checks
               in act_bind (act_save (save_validation_run validation True)) (\<lambda>_.
                  conclude env e challenger snapshot champion_run challenger_run validation
                    (evaluate_candidate (rn_policy_version env) (br_metrics champion_result)
                       (br_metrics challenger_result) (vr_successful validation))))))))))))))
      | _ \<Rightarrow> act_lift (Inl (ValueError ''strategy experiment is incomplete'')))"

definition run_experiment :: "research_env \<Rightarrow> string \<Rightarrow> run_experiment_result action" where
  "run_experiment env experiment_id =
     act_bind (act_read (\<lambda>r. get_experiment r experiment_id)) (\<lambda>e.
     act_bind (act_lift (transition e RUNNING (rn_clock env 0))) (\<lambda>running.
     act_bind (act_save (save_experiment running False)) (\<lambda>_.
       act_reraise (execute_experiment env running)
         (act_bind (act_lift (transition running FAILED (rn_clock env 9))) (\<lambda>failed.
            act_save (save_experiment failed False))))))"

section \<open>Promotion and rejection\<close>

definition promote :: "research_env \<Rightarrow> string \<Rightarrow> string \<Rightarrow> research_experiment action" where
  "promote env experiment_id approved_by =
     (if py_strip approved_by = []
      then act_lift (Inl (ValueError ''approved_by is required for manual promotion''))
      else act_bind (act_read (\<lambda>r. get_experiment r experiment_id)) (\<lambda>e.
        if ex_status e \<noteq> CANDIDATE then act_lift (Inl (ValueError ''only a validated candidate can be promoted''))
        else (case (ex_base_strategy_version e, ex_candidate_strategy_version e) of
            (Some base, Some candidate) \<Rightarrow>
              act_bind (act_read (\<lambda>r. get_strategy r base)) (\<lambda>champion.
              act_bind (act_read (\<lambda>r. get_strategy r candidate)) (\<lambda>challenger.
              act_bind (act_save (save_strategy (with_status champion VERSION_RETIRED) False)) (\<lambda>_.
              act_bind (act_save (save_strategy (with_status challenger VERSION_ACTIVE) False)) (\<lambda>_.
              act_bind (act_lift (transition e PROMOTED (rn_clock env 0))) (\<lambda>e'.
              (let promoted = e'\<lparr>ex_approved_by := Some (py_strip approved_by)\<rparr>
               in act_bind (act_save (save_experiment promoted False)) (\<lambda>_. act_lift (Inr promoted))))))))
          | _ \<Rightarrow> act_lift (Inl (ValueError ''strategy candidate references are missing'')))))"

definition reject :: "research_env \<Rightarrow> string \<Rightarrow> research_experiment action" where
  "reject env experiment_id =
     act_bind (act_read (\<lambda>r. get_experiment r experiment_id)) (\<lambda>e.
     act_bind (act_lift (transition e REJECTED (rn_clock env 0))) (\<lambda>rejected.
     act_bind
       (case ex_candidate_strategy_version rejected of
          None \<Rightarrow> act_lift (Inr ())
        | Some candidate \<Rightarrow>
            act_bind (act_read (\<lambda>r. get_strategy r candidate)) (\<lambda>v.
              act_save (save_strategy (with_status v VERSION_REJECTED) False))) (\<lambda>_.
     act_bind (act_save (save_experiment rejected False)) (\<lambda>_. act_lift (Inr rejected)))))"

end
