(* ===== verification/BacktestProofs.thy ===== *)
theory BacktestProofs
  imports Backtest
begin

text \<open>
  Two facts about crypto/backtest/engine.py with the momentum strategies: its equity curve uses no
  price that was not yet known, and costs and prices bound its results.  Each is proved in a locale over
  the promise of the proposal function it needs, which the momentum engine is shown to keep.
\<close>

section \<open>Agreement until an instant\<close>

text \<open>
  Two bundles that agree until an instant: they cannot be told apart at it, and the candles that
  open by then open at the same times and prices; what a candle that is still open at the instant
  will show later may differ.
\<close>

definition opens_until :: "utc \<Rightarrow> candle list \<Rightarrow> (utc \<times> decimal) list" where
  "opens_until T candles =
     map (\<lambda>c. (open_time c, open_price c)) (filter (\<lambda>c. open_time c \<le> T) candles)"

definition agree_until :: "utc \<Rightarrow> market_data_bundle \<Rightarrow> market_data_bundle \<Rightarrow> bool" where
  "agree_until T a b =
     (same_known T a b
      \<and> (\<forall>p \<in> set (universe_pairs (bundle_universe a)).
           map_sum id (opens_until T) (candles_of (pair_symbol p) a)
           = map_sum id (opens_until T) (candles_of (pair_symbol p) b)))"

lemma agree_known: "agree_until T a b \<Longrightarrow> t \<le> T \<Longrightarrow> same_known t a b"
  by (auto simp: agree_until_def dest: same_known_earlier)

lemma agree_universe: "agree_until T a b \<Longrightarrow> bundle_universe b = bundle_universe a"
  by (simp add: agree_until_def same_known_def)

text \<open>The open price at an instant, of which the candle itself shows more.\<close>

lemma map_of_open:
  assumes "t \<le> T"
  shows "map_option open_price (map_of (rev (map (\<lambda>c. (open_time c, c)) cs)) t)
       = map_of (rev (opens_until T cs)) t"
proof -
  have "map_option open_price (map_of (map (\<lambda>c. (open_time c, c)) cs) t)
      = map_of (opens_until T cs) t" for cs
    using assms by (induction cs) (auto simp: opens_until_def)
  from this [of "rev cs"] show ?thesis by (simp add: rev_map opens_until_def rev_filter)
qed

lemma candle_at_open:
  assumes agree: "agree_until T a b" and p: "p \<in> set (universe_pairs (bundle_universe a))" and t: "t \<le> T"
  shows "bind_result (candle_at a (pair_symbol p) t) (\<lambda>c. f (open_price c))
       = bind_result (candle_at b (pair_symbol p) t) (\<lambda>c. f (open_price c))"
proof -
  have "bind_result (candle_at m (pair_symbol p) t) (\<lambda>c. f (open_price c))
      = (case map_sum id (opens_until T) (candles_of (pair_symbol p) m) of
           Inl e \<Rightarrow> Inl e
         | Inr os \<Rightarrow> (case map_of (rev os) t of None \<Rightarrow> Inl (KeyError ''timestamp'') | Some x \<Rightarrow> f x))" for m
    by (cases "candles_of (pair_symbol p) m")
      (auto simp: candle_at_def map_of_open [OF t, symmetric] split: option.split)
  then show ?thesis using agree p by (simp add: agree_until_def)
qed

lemma pair_of_symbol_in:
  "pair_of_symbol m s = Inr p \<Longrightarrow> p \<in> set (universe_pairs (bundle_universe m))"
  by (auto simp: pair_of_symbol_def pair_for_def split: option.splits dest: find_Some_in)

lemma asset_return_agrees:
  assumes agree: "agree_until T a b" and t: "t \<le> T" "t' \<le> T"
  shows "asset_return a t t' w = asset_return b t t' w"
proof (cases "pair_of_symbol a (fst w)")
  case (Inl e)
  moreover have "pair_of_symbol b (fst w) = pair_of_symbol a (fst w)"
    by (simp add: pair_of_symbol_def agree_universe [OF agree] cong: option.case_cong)
  ultimately show ?thesis by (simp add: asset_return_def)
next
  case (Inr p)
  then have pb: "pair_of_symbol b (fst w) = Inr p"
    by (simp add: pair_of_symbol_def agree_universe [OF agree] cong: option.case_cong)
  note p = pair_of_symbol_in [OF Inr]
  define g where "g = (\<lambda>m o1. bind_result (candle_at m (pair_symbol p) t') (\<lambda>following.
     bind_result (ddiv (open_price following) o1) (\<lambda>ratio. Inr (dmul (snd w) (dsub ratio 1)))))"
  have g: "g a o1 = g b o1" for o1
    unfolding g_def by (rule candle_at_open [OF agree p t(2)])
  have "asset_return a t t' w = bind_result (candle_at a (pair_symbol p) t) (\<lambda>c. g a (open_price c))"
    by (simp add: asset_return_def Inr g_def)
  also have "\<dots> = bind_result (candle_at b (pair_symbol p) t) (\<lambda>c. g a (open_price c))"
    by (rule candle_at_open [OF agree p t(1)])
  also have "\<dots> = asset_return b t t' w"
    by (simp add: asset_return_def pb g) (simp add: g_def)
  finally show ?thesis .
qed

text \<open>The interface: an engine whose ports are causal.\<close>

locale causal_engine =
  fixes e :: backtest_engine
  assumes regime_same: "same_known t a b \<Longrightarrow> be_regime_model e a t = be_regime_model e b t"
    and strategy_same: "same_known t a b \<Longrightarrow>
      be_strategy e \<lparr>sc_as_of = t, sc_market_data = a, sc_regime = r, sc_eligible_assets = assets\<rparr>
      = be_strategy e \<lparr>sc_as_of = t, sc_market_data = b, sc_regime = r, sc_eligible_assets = assets\<rparr>"
    and eligibility_same: "be_universe_eligibility e = Some f \<Longrightarrow> same_known t a b \<Longrightarrow> f a t = f b t"
begin

lemma proposal_same: "same_known t a b \<Longrightarrow> proposal_at e portfolio a t = proposal_at e portfolio b t"
  unfolding proposal_at_def
  by (cases "be_universe_eligibility e") (simp_all add: regime_same strategy_same eligibility_same)

lemma step_same:
  assumes "agree_until T a b" "t \<le> T" "t' \<le> T"
  shows "backtest_step enum e c portfolio a index t t' st = backtest_step enum e c portfolio b index t t' st"
proof -
  have r: "rebalance_at enum e c portfolio a t st = rebalance_at enum e c portfolio b t st"
    by (simp add: rebalance_at_def proposal_same [OF agree_known [OF assms(1,2)]])
  have "asset_return a t t' = asset_return b t t'"
    using asset_return_agrees [OF assms] by blast
  then show ?thesis by (simp add: backtest_step_def r portfolio_return_of_def)
qed

end

text \<open>The curve only grows, by one point per step, at the later time of the step.\<close>

lemma hold_to_curve: "\<exists>p. bs_curve (hold_to t' r st) = bs_curve st @ [p] \<and> ep_timestamp p = t'"
  by (simp add: hold_to_def Let_def)

lemma rebalance_curve: "rebalance_at enum e c portfolio m t st = Inr st1 \<Longrightarrow> bs_curve st1 = bs_curve st"
  by (auto simp: rebalance_at_def trade_to_def Let_def py_result split: if_splits)

lemma step_curve:
  assumes "backtest_step enum e c portfolio m index t t' st = Inr st1"
  shows "\<exists>p. bs_curve st1 = bs_curve st @ [p] \<and> ep_timestamp p = t'"
  using assms hold_to_curve
  by (auto simp: backtest_step_def py_result dest!: rebalance_curve split: if_splits) (metis)+

lemma loop_later:
  "backtest_loop enum e c portfolio m index ts st = Inr st1 \<Longrightarrow> \<forall>t \<in> set (tl ts). T < t \<Longrightarrow>
   filter (\<lambda>p. ep_timestamp p \<le> T) (bs_curve st1) = filter (\<lambda>p. ep_timestamp p \<le> T) (bs_curve st)"
proof (induction enum e c portfolio m index ts st rule: backtest_loop.induct)
  case (1 enum e c portfolio m index t t' ts st)
  then obtain st2 where st2: "backtest_step enum e c portfolio m index t t' st = Inr st2"
    "backtest_loop enum e c portfolio m (index + 1) (t' # ts) st2 = Inr st1"
    by (auto simp: py_result)
  obtain p where "bs_curve st2 = bs_curve st @ [p]" "ep_timestamp p = t'" using step_curve [OF st2(1)] by blast
  then show ?case using "1.IH" [OF st2(2)] "1.prems"(2) by simp
qed simp_all

lemma takeWhile_Cons_le:
  "takeWhile (\<lambda>t. t \<le> (T::int)) (x # xs) = takeWhile (\<lambda>t. t \<le> T) ys \<Longrightarrow> x \<le> T \<Longrightarrow>
   \<exists>ys'. ys = x # ys' \<and> takeWhile (\<lambda>t. t \<le> T) xs = takeWhile (\<lambda>t. t \<le> T) ys'"
  by (cases ys) (auto split: if_splits)

lemma all_later: "sorted_wrt (<) (t # ts) \<Longrightarrow> T < (t::int) \<Longrightarrow> \<forall>u \<in> set (t # ts). T < u"
  by auto

context causal_engine
begin

lemma loop_same:
  assumes agree: "agree_until T a b"
  shows "backtest_loop enum e c portfolio a index ts st = Inr sa \<Longrightarrow>
    backtest_loop enum e c portfolio b index ts' st = Inr sb \<Longrightarrow>
    sorted_wrt (<) ts \<Longrightarrow> sorted_wrt (<) ts' \<Longrightarrow>
    takeWhile (\<lambda>t. t \<le> T) ts = takeWhile (\<lambda>t. t \<le> T) ts' \<Longrightarrow>
    filter (\<lambda>p. ep_timestamp p \<le> T) (bs_curve sa) = filter (\<lambda>p. ep_timestamp p \<le> T) (bs_curve sb)"
proof (induction ts arbitrary: index ts' st)
  case Nil
  then have "ts' = [] \<or> T < hd ts'" by (cases ts') (auto split: if_splits)
  then have "\<forall>t \<in> set (tl ts'). T < t" using Nil.prems(4) by (cases ts') auto
  from loop_later [OF Nil.prems(2) this] Nil.prems(1) show ?case by simp
next
  case (Cons t ts)
  show ?case
  proof (cases "t \<le> T \<and> ts \<noteq> [] \<and> hd ts \<le> T")
    case True
    then obtain t1 us where ts: "ts = t1 # us" "t1 \<le> T" by (cases ts) auto
    obtain ts1 where ts1: "ts' = t # ts1" "takeWhile (\<lambda>t. t \<le> T) ts = takeWhile (\<lambda>t. t \<le> T) ts1"
      using takeWhile_Cons_le Cons.prems(5) True by blast
    obtain us' where us': "ts1 = t1 # us'"
      using takeWhile_Cons_le ts1(2) ts by blast
    have tT: "t \<le> T" using True by simp
    obtain s1 where s1: "backtest_step enum e c portfolio a index t t1 st = Inr s1"
      "backtest_loop enum e c portfolio a (index + 1) ts s1 = Inr sa"
      using Cons.prems(1) by (auto simp: ts py_result)
    moreover have "backtest_step enum e c portfolio b index t t1 st = Inr s1"
      using s1(1) step_same [OF agree tT ts(2)] by metis
    moreover from this have "backtest_loop enum e c portfolio b (index + 1) ts1 s1 = Inr sb"
      using Cons.prems(2) by (simp add: ts1 us')
    ultimately show ?thesis using Cons.IH [of "index + 1" s1 ts1] Cons.prems(3,4) ts1 by simp
  next
    case False
    have later: "\<forall>u \<in> set (tl xs). T < u"
      if "sorted_wrt (<) xs" "takeWhile (\<lambda>t. t \<le> T) xs = takeWhile (\<lambda>t. t \<le> T) (t # ts)" for xs
    proof (cases xs)
      case xs: (Cons x xs')
      show ?thesis
      proof (cases "x \<le> T")
        case xT: True
        have "takeWhile (\<lambda>t. t \<le> T) ts = []" if "t \<le> T" using False that by (cases ts) auto
        then have "takeWhile (\<lambda>t. t \<le> T) xs' = []"
          using that(2) xT by (auto simp: xs split: if_splits)
        then show ?thesis using that(1) by (cases xs') (auto simp: xs split: if_splits)
      next
        case xT: False
        then show ?thesis using that(1) by (auto simp: xs)
      qed
    qed simp
    have "filter (\<lambda>p. ep_timestamp p \<le> T) (bs_curve sa) = filter (\<lambda>p. ep_timestamp p \<le> T) (bs_curve st)"
      by (rule loop_later [OF Cons.prems(1)]) (rule later [OF Cons.prems(3)], simp)
    moreover have "filter (\<lambda>p. ep_timestamp p \<le> T) (bs_curve sb) = filter (\<lambda>p. ep_timestamp p \<le> T) (bs_curve st)"
      by (rule loop_later [OF Cons.prems(2)]) (rule later [OF Cons.prems(4) Cons.prems(5) [symmetric]])
    ultimately show ?thesis by simp
  qed
qed

end

text \<open>The timeline up to the instant is the same in both bundles.\<close>

lemma sorted_sort_by_int: "distinct ts \<Longrightarrow> sorted_wrt (<) (sort_by (\<le>) (ts :: int list))"
proof -
  assume d: "distinct ts"
  have "sorted_wrt (\<le>) (sort_by (\<le>) ts)" by (rule sorted_sort_by) auto
  moreover have "distinct (sort_by (\<le>) ts)" using d by simp
  ultimately show ?thesis by (simp add: strict_sorted_iff)
qed

lemma takeWhile_sorted:
  "sorted_wrt (<) ts \<Longrightarrow> takeWhile (\<lambda>t. t \<le> T) ts = filter (\<lambda>t. t \<le> (T::int)) ts"
proof (induction ts)
  case (Cons t ts)
  have "filter (\<lambda>t. t \<le> T) ts = []" if "T < t" using Cons.prems that by (auto simp: filter_empty_conv)
  then show ?case using Cons by auto
qed simp

lemma sorted_same_set:
  "sorted_wrt (<) xs \<Longrightarrow> sorted_wrt (<) ys \<Longrightarrow> set xs = set ys \<Longrightarrow> xs = (ys :: int list)"
  by (metis sorted_list_of_set.idem_if_sorted_distinct strict_sorted_iff)

lemma timeline_of_set:
  assumes "timeline_of m s e = Inr ts"
  shows "sorted_wrt (<) ts"
    and "set ts = {t. s \<le> t \<and> t < e \<and> (\<forall>p \<in> set (universe_pairs (bundle_universe m)).
        \<exists>cs. candles_of (pair_symbol p) m = Inr cs \<and> t \<in> open_time ` set cs)}"
proof -
  obtain series where series: "map_result (\<lambda>p. candles_of (pair_symbol p) m)
      (universe_pairs (bundle_universe m)) = Inr series"
    using assms by (auto simp: timeline_of_def py_result)
  obtain first rest where fr: "series = first # rest"
    using assms series by (cases series) (auto simp: timeline_of_def)
  have ts: "ts = sort_by (\<le>) (remdups (filter (\<lambda>t. s \<le> t \<and> t < e \<and> list_all (\<lambda>r. t \<in> set r) (map (map open_time) rest))
      (map open_time first)))"
    using assms series by (simp add: timeline_of_def fr)
  show "sorted_wrt (<) ts" unfolding ts by (rule sorted_sort_by_int) simp
  have all: "(\<forall>p \<in> set (universe_pairs (bundle_universe m)). \<exists>cs. candles_of (pair_symbol p) m = Inr cs \<and> t \<in> open_time ` set cs)
      \<longleftrightarrow> (\<forall>cs \<in> set series. t \<in> open_time ` set cs)" for t
    using map_result_Inr_set [OF series] map_result_Inr_set2 [OF series] by (metis sum.inject(2))
  show "set ts = {t. s \<le> t \<and> t < e \<and> (\<forall>p \<in> set (universe_pairs (bundle_universe m)).
        \<exists>cs. candles_of (pair_symbol p) m = Inr cs \<and> t \<in> open_time ` set cs)}"
    unfolding all ts by (auto simp: fr list_all_iff)
qed

lemma opens_until_times: "fst ` set (opens_until T cs) = {t \<in> open_time ` set cs. t \<le> T}"
  by (auto simp: opens_until_def image_iff)

lemma timeline_agrees:
  assumes agree: "agree_until T a b" and "timeline_of a s e = Inr ta" "timeline_of b s e = Inr tb"
  shows "takeWhile (\<lambda>t. t \<le> T) ta = takeWhile (\<lambda>t. t \<le> T) tb"
proof -
  note A = timeline_of_set [OF assms(2)] and B = timeline_of_set [OF assms(3)]
  have same: "(\<exists>cs. candles_of (pair_symbol p) a = Inr cs \<and> t \<in> open_time ` set cs)
      \<longleftrightarrow> (\<exists>cs. candles_of (pair_symbol p) b = Inr cs \<and> t \<in> open_time ` set cs)"
    if p: "p \<in> set (universe_pairs (bundle_universe a))" and t: "t \<le> T" for p t
  proof -
    have "(\<exists>cs. candles_of (pair_symbol p) m = Inr cs \<and> t \<in> open_time ` set cs)
        \<longleftrightarrow> (\<exists>os. map_sum id (opens_until T) (candles_of (pair_symbol p) m) = Inr os \<and> t \<in> fst ` set os)" for m
      using t by (cases "candles_of (pair_symbol p) m") (auto simp: opens_until_times)
    then show ?thesis using agree p by (simp add: agree_until_def)
  qed
  have "set (takeWhile (\<lambda>t. t \<le> T) ta) = set (takeWhile (\<lambda>t. t \<le> T) tb)"
    unfolding takeWhile_sorted [OF A(1)] takeWhile_sorted [OF B(1)] set_filter A(2) B(2) agree_universe [OF agree]
    using same by blast
  then show ?thesis
    by (intro sorted_same_set) (use A(1) B(1) in \<open>simp_all add: takeWhile_sorted sorted_wrt_filter\<close>)
qed

lemma backtest_run_Inr:
  assumes "backtest_run np enum e m c = Inr r"
  obtains ts q portfolio st metrics where "timeline_of m (bc_start c) (bc_end c) = Inr ts" "2 \<le> length ts"
    "universe_quote_asset (bundle_universe m) = Inr q"
    "mk_trading_portfolio (bc_portfolio_id c) (bc_purpose c) q (bc_initial_capital c) [] = Inr portfolio"
    "backtest_loop enum e c portfolio m 0 ts (start_state c (hd ts)) = Inr st"
    "backtest_metrics np m ts c st = Inr metrics" "br_equity_curve r = bs_curve st" "br_metrics r = metrics"
proof -
  obtain ts where ts: "timeline_of m (bc_start c) (bc_end c) = Inr ts" "\<not> length ts < 2"
    using assms by (auto simp: backtest_run_def py_result split: if_splits)
  have len: "2 \<le> length ts" using ts(2) by simp
  show thesis
    using assms ts(2)
    by (auto simp: backtest_run_def ts(1) py_result intro: that [OF ts(1) len])
qed

context causal_engine
begin

lemma run_same:
  assumes agree: "agree_until T a b"
    and run: "backtest_run np enum e a c = Inr ra" "backtest_run np enum e b c = Inr rb"
  shows "filter (\<lambda>p. ep_timestamp p \<le> T) (br_equity_curve ra) = filter (\<lambda>p. ep_timestamp p \<le> T) (br_equity_curve rb)"
proof -
  obtain ta q pa sa where A: "timeline_of a (bc_start c) (bc_end c) = Inr ta" "2 \<le> length ta"
    "universe_quote_asset (bundle_universe a) = Inr q"
    "mk_trading_portfolio (bc_portfolio_id c) (bc_purpose c) q (bc_initial_capital c) [] = Inr pa"
    "backtest_loop enum e c pa a 0 ta (start_state c (hd ta)) = Inr sa" "br_equity_curve ra = bs_curve sa"
    using run(1) by (rule backtest_run_Inr)
  obtain tb q' pb sb where B: "timeline_of b (bc_start c) (bc_end c) = Inr tb" "2 \<le> length tb"
    "universe_quote_asset (bundle_universe b) = Inr q'"
    "mk_trading_portfolio (bc_portfolio_id c) (bc_purpose c) q' (bc_initial_capital c) [] = Inr pb"
    "backtest_loop enum e c pb b 0 tb (start_state c (hd tb)) = Inr sb" "br_equity_curve rb = bs_curve sb"
    using run(2) by (rule backtest_run_Inr)
  have q: "q' = q" "pb = pa"
    using A(3,4) B(3,4) by (auto simp: agree_universe [OF agree] simp del: universe_quote_asset.simps)
  note sorted = timeline_of_set(1) [OF A(1)] timeline_of_set(1) [OF B(1)]
  have tw: "takeWhile (\<lambda>t. t \<le> T) ta = takeWhile (\<lambda>t. t \<le> T) tb"
    by (rule timeline_agrees [OF agree A(1) B(1)])
  obtain x xs where x: "ta = x # xs" using A(2) by (cases ta) auto
  obtain y ys where y: "tb = y # ys" using B(2) by (cases tb) auto
  show ?thesis
  proof (cases "x \<le> T")
    case True
    then have "y = x" using tw by (auto simp: x y split: if_splits)
    then have "hd tb = hd ta" by (simp add: x y)
    from loop_same [OF agree A(5) B(5) [unfolded q this] sorted tw] show ?thesis
      by (simp add: A(6) B(6))
  next
    case False
    then have "T < x" "T < y" using tw by (auto simp: x y split: if_splits)
    then have "\<forall>t \<in> set (tl ta). T < t" "\<forall>t \<in> set (tl tb). T < t" using sorted by (auto simp: x y)
    from loop_later [OF A(5) this(1)] loop_later [OF B(5) this(2)] \<open>T < x\<close> \<open>T < y\<close> show ?thesis
      by (simp add: A(6) B(6) x y start_state_def)
  qed
qed

end

text \<open>The engines of the two services are causal.\<close>

interpretation daily: causal_engine
  "momentum_backtester (btc_trend_evaluate np m) s ew rp (map_option liquidity_evaluate elig)"
proof unfold_locales
  fix t and a b :: market_data_bundle and f
  assume same: "same_known t a b"
    and "be_universe_eligibility (momentum_backtester (btc_trend_evaluate np m) s ew rp (map_option liquidity_evaluate elig)) = Some f"
  then show "f a t = f b t" by (auto simp: momentum_backtester_def liquidity.same_value)
qed (simp_all add: momentum_backtester_def btc_trend.same_value momentum.same_value)

interpretation intraday: causal_engine
  "momentum_backtester (intraday_btc_evaluate np m) s ew rp (map_option liquidity_evaluate elig)"
proof unfold_locales
  fix t and a b :: market_data_bundle and f
  assume same: "same_known t a b"
    and "be_universe_eligibility (momentum_backtester (intraday_btc_evaluate np m) s ew rp (map_option liquidity_evaluate elig)) = Some f"
  then show "f a t = f b t" by (auto simp: momentum_backtester_def liquidity.same_value)
qed (simp_all add: momentum_backtester_def intraday_btc.same_value momentum.same_value)

lemma momentum_engine_Inr:
  "momentum_engine reg s ew rp elig = Inr e \<longleftrightarrow>
     check_momentum s = Inr s \<and> check_equal_weight ew = Inr ew \<and> check_risk_policy rp = Inr rp
     \<and> e = momentum_backtester reg s ew rp elig"
  by (auto simp: momentum_engine_def py_result check_momentum_def check_equal_weight_def check_risk_policy_def
      split: if_splits)

section \<open>Sample values\<close>

text \<open>Two daily candles of BTC, and the same history with another second close.\<close>

definition daily_candle :: "int \<Rightarrow> decimal \<Rightarrow> candle" where
  "daily_candle d close =
     \<lparr>candle_pair = btc_krw, open_time = days d, available_at = days (d + 1), open_price = 100,
      high_price = 200, low_price = 50, close_price = close, volume = 10\<rparr>"

definition daily_bundle :: "decimal \<Rightarrow> market_data_bundle" where
  "daily_bundle close =
     \<lparr>bundle_universe = \<lparr>universe_pairs = [btc_krw]\<rparr>,
      bundle_candles = [(''BTCKRW'', [daily_candle 0 100, daily_candle 1 close])]\<rparr>"

definition plain_numpy :: numpy where
  "plain_numpy = \<lparr>np_mean = (\<lambda>xs. sum_list xs), np_std1 = (\<lambda>_. 0), np_log = (\<lambda>x. x), np_sqrt = (\<lambda>x. x),
     py_pow = (\<lambda>x y. x)\<rparr>"

definition sample_config :: backtest_config where
  "sample_config = default_backtest_config\<lparr>bc_start := 0, bc_end := days 10\<rparr>"

definition sample_enum :: "string set \<Rightarrow> string list" where
  "sample_enum S = sorted_list_of_set S"

definition sample_engine :: backtest_engine where
  "sample_engine = momentum_backtester (btc_trend_evaluate plain_numpy default_btc_trend) default_momentum
     default_equal_weight default_risk_policy (map_option liquidity_evaluate None)"

lemma sample_momentum_engine:
  "momentum_engine (btc_trend_evaluate plain_numpy default_btc_trend) default_momentum default_equal_weight
     default_risk_policy (map_option liquidity_evaluate None) = Inr sample_engine"
  by (simp add: momentum_engine_Inr sample_engine_def check_momentum_def default_momentum_def check_equal_weight_def
      default_equal_weight_def check_risk_policy_def default_risk_policy_def)

lemma daily_known:
  "bundle_known_at (daily_bundle x) (Aware 0) =
     Inr \<lparr>bundle_universe = \<lparr>universe_pairs = [btc_krw]\<rparr>, bundle_candles = [(''BTCKRW'', [])]\<rparr>"
  by (simp add: bundle_known_at_def daily_bundle_def candles_known_at_def visible_candles_def daily_candle_def days_def
      mk_market_data_bundle_def btc_krw_def pair_symbol_def dict_keys_def)

lemma daily_timeline: "timeline_of (daily_bundle x) 0 (days 10) = Inr [0, days 1]"
  by (simp add: timeline_of_def daily_bundle_def candles_of_def daily_candle_def days_def btc_krw_def pair_symbol_def
      sort_by_def)

lemma daily_proposal:
  "tp_purpose portfolio = PAPER_TRADING \<Longrightarrow> proposal_at sample_engine portfolio (daily_bundle x) 0 =
     Inr \<lparr>pa_portfolio_id = tp_id portfolio, pa_purpose = PAPER_TRADING, pa_allocations = [], pa_cash_weight = 1\<rparr>"
  by (simp add: proposal_at_def sample_engine_def momentum_backtester_def btc_trend_evaluate_def daily_known btc_pair_of_def
      candles_of_def btc_krw_def pair_symbol_def default_btc_trend_def momentum_generate_def momentum_candidate_def
      momentum_score_def default_momentum_def map_filter_id Let_def ranked_scores_def sort_on_def sort_by_def py_take_def
      mk_strategy_result_def construct_allocation_def selected_signals_def mk_portfolio_allocation_def)

lemma daily_run: "\<exists>r. backtest_run plain_numpy sample_enum sample_engine (daily_bundle x) sample_config = Inr r"
proof -
  have d: "dec 100000 = 100000" using dec_of_int [of 100000] by simp
  have f: "flt 365 = 365" using flt_of_int [of 365] by simp
  have c: "bc_start sample_config = 0" "bc_end sample_config = days 10" "bc_initial_capital sample_config = 100000"
    "bc_purpose sample_config = PAPER_TRADING" "bc_rebalance_days sample_config = 7" "bc_fee_rate sample_config = 5 / 10000"
    "bc_slippage_rate sample_config = 1 / 1000" "bc_portfolio_id sample_config = ''crypto-paper''"
    by (simp_all add: sample_config_def default_backtest_config_def)
  have q: "universe_pairs (bundle_universe (daily_bundle x)) = [btc_krw]"
    by (simp add: daily_bundle_def)
  have at: "candle_at (daily_bundle x) ''BTCKRW'' 0 = Inr (daily_candle 0 100)"
    "candle_at (daily_bundle x) ''BTCKRW'' (days 1) = Inr (daily_candle 1 x)"
    by (simp_all add: candle_at_def candles_of_def daily_bundle_def daily_candle_def days_def)
  have b: "btc_pair_of (bundle_universe (daily_bundle x)) = Some btc_krw" "pair_symbol btc_krw = ''BTCKRW''"
    by (simp_all add: btc_pair_of_def daily_bundle_def btc_krw_def pair_symbol_def)
  have risk: "be_risk_policy sample_engine = default_risk_policy" by (simp add: sample_engine_def momentum_backtester_def)
  have "is_ok (backtest_run plain_numpy sample_enum sample_engine (daily_bundle x) sample_config)"
    by (simp add: backtest_run_def c daily_timeline q mk_trading_portfolio_def backtest_step_def rebalance_at_def
        daily_proposal evaluate_allocation_def risk default_risk_policy_def trade_to_def weights_of_def turnover_of_def
        sample_enum_def dict_keys_def start_state_def portfolio_return_of_def hold_to_def decimal_defs d Let_def
        backtest_metrics_def total_return_of_def ddiv_def b at daily_candle_def is_ok_bind)
  then show ?thesis by (simp only: is_ok_iff)
qed

lemma daily_agree: "agree_until (days 1) (daily_bundle x) (daily_bundle y)"
  by (simp add: agree_until_def same_known_def daily_bundle_def candles_known_at_def visible_candles_def daily_candle_def
      days_def candles_of_def opens_until_def btc_krw_def pair_symbol_def)

section \<open>A backtest never looks ahead\<close>

text \<open>C13: A backtest never looks ahead: if two market histories agree until an instant, in the candles available by then and in the openings up to it, the daily and the intraday momentum backtests of them have the same equity curve up to that instant, whatever happens later.\<close>

theorem backtest_no_look_ahead:
  assumes agree: "agree_until T a b"
    and regime: "reg \<in> {btc_trend_evaluate np m, intraday_btc_evaluate np m'}"
    and engine: "momentum_engine reg s ew rp (map_option liquidity_evaluate elig) = Inr e"
    and run: "backtest_run np enum e a c = Inr ra" "backtest_run np enum e b c = Inr rb"
  shows "filter (\<lambda>p. ep_timestamp p \<le> T) (br_equity_curve ra) = filter (\<lambda>p. ep_timestamp p \<le> T) (br_equity_curve rb)"
proof -
  have e: "e = momentum_backtester reg s ew rp (map_option liquidity_evaluate elig)"
    using engine by (simp only: momentum_engine_Inr)
  from regime consider "reg = btc_trend_evaluate np m" | "reg = intraday_btc_evaluate np m'" by blast
  then show ?thesis
  proof cases
    case 1
    show ?thesis by (rule daily.run_same [OF agree run [unfolded e 1]])
  next
    case 2
    show ?thesis by (rule intraday.run_same [OF agree run [unfolded e 2]])
  qed
qed

lemma backtest_no_look_ahead_witness:
  "\<exists>ra rb. backtest_run plain_numpy sample_enum sample_engine (daily_bundle 100) sample_config = Inr ra
     \<and> backtest_run plain_numpy sample_enum sample_engine (daily_bundle 150) sample_config = Inr rb
     \<and> filter (\<lambda>p. ep_timestamp p \<le> days 1) (br_equity_curve ra) = filter (\<lambda>p. ep_timestamp p \<le> days 1) (br_equity_curve rb)"
proof -
  obtain ra rb where r: "backtest_run plain_numpy sample_enum sample_engine (daily_bundle 100) sample_config = Inr ra"
    "backtest_run plain_numpy sample_enum sample_engine (daily_bundle 150) sample_config = Inr rb"
    using daily_run by meson
  from backtest_no_look_ahead [OF daily_agree _ sample_momentum_engine r] r show ?thesis by blast
qed

section \<open>Costs never help\<close>

text \<open>Portfolio weights: one per asset, each within [0, 1], and together at most one.\<close>

definition weights_ok :: "weights \<Rightarrow> bool" where
  "weights_ok w = (distinct (map fst w) \<and> (\<forall>v \<in> set (map snd w). 0 \<le> v \<and> v \<le> 1 \<and> dec v = v) \<and> dsum 0 (map snd w) \<le> 1)"

lemma dsum_mono_start: "s \<le> s' \<Longrightarrow> dsum s xs \<le> dsum s' xs"
  by (induction xs arbitrary: s s') (simp_all add: dadd_def dec.rnd_mono)

lemma weights_of_distinct:
  assumes "distinct (map (\<lambda>a. asset_symbol (alloc_asset a)) as)"
  shows "weights_of as = map (\<lambda>a. (asset_symbol (alloc_asset a), alloc_weight a)) as"
proof -
  have set_new: "dict_set k v d = d @ [(k, v)]" if "k \<notin> set (map fst d)" for k :: string and v :: decimal and d
    using that by (induction k v d rule: dict_set.induct) auto
  have "fold (\<lambda>a d. dict_set (asset_symbol (alloc_asset a)) (alloc_weight a) d) as d
      = d @ map (\<lambda>a. (asset_symbol (alloc_asset a), alloc_weight a)) as"
    if "distinct (map fst d @ map (\<lambda>a. asset_symbol (alloc_asset a)) as)" for d
    using that by (induction as arbitrary: d) (auto simp: set_new)
  from this [of "[]"] assms show ?thesis by (simp add: weights_of_def)
qed

text \<open>What the constructors of an allocation guarantee.\<close>

definition allocation_ok :: "portfolio_allocation \<Rightarrow> bool" where
  "allocation_ok p =
     (0 \<le> pa_cash_weight p \<and> dsum (pa_cash_weight p) (map alloc_weight (pa_allocations p)) = 1
      \<and> (\<forall>a \<in> set (pa_allocations p). 0 \<le> alloc_weight a \<and> alloc_weight a \<le> 1
           \<and> dec (alloc_weight a) = alloc_weight a))"

lemma allocate_weights_ok:
  "allocate_weights i b a ss = Inr as \<Longrightarrow> dec b = b \<Longrightarrow>
    (\<forall>a \<in> set as. 0 \<le> alloc_weight a \<and> alloc_weight a \<le> 1 \<and> dec (alloc_weight a) = alloc_weight a) \<and> map alloc_asset as = map signal_asset ss"
  by (induction i b a ss arbitrary: as rule: allocate_weights.induct)
    (auto simp: Let_def py_result mk_asset_allocation_def dsub_def split: if_splits)

lemma construct_allocation_ok:
  assumes "construct_allocation ew portfolio r = Inr p"
  shows "allocation_ok p \<and> map alloc_asset (pa_allocations p) \<in> {[], map signal_asset (selected_signals ew r)}"
  using assms
  by (auto simp: construct_allocation_def Let_def py_result mk_portfolio_allocation_def allocation_ok_def
      dquot_def dest!: allocate_weights_ok split: if_splits)

lemma allocation_weights_ok:
  assumes "allocation_ok p" "distinct (map (\<lambda>a. asset_symbol (alloc_asset a)) (pa_allocations p))"
  shows "weights_ok (weights_of (pa_allocations p))"
proof -
  have "dsum 0 (map alloc_weight (pa_allocations p)) \<le> dsum (pa_cash_weight p) (map alloc_weight (pa_allocations p))"
    using assms(1) by (intro dsum_mono_start) (simp add: allocation_ok_def)
  then show ?thesis
    using assms by (auto simp: weights_ok_def weights_of_distinct allocation_ok_def comp_def)
qed

text \<open>A long-only portfolio loses at most everything.\<close>

lemma dsum_lower:
  assumes "list_all2 (\<lambda>r w. - w \<le> r) rs ws"
  shows "- dsum s ws \<le> dsum (- s) rs"
  using assms
proof (induction rs ws arbitrary: s rule: list_all2_induct)
  case (Cons r rs w ws)
  have "- dadd s w \<le> dadd (- s) r"
    using Cons.hyps(1) dec.rnd_mono [of "- (s + w)" "- s + r"] unfolding dec.rnd_minus dadd_def by simp
  then have "dsum (- dadd s w) rs \<le> dsum (dadd (- s) r) rs" by (rule dsum_mono_start)
  with Cons.IH [of "dadd s w"] show ?case by simp
qed simp

lemma asset_return_lower:
  assumes "asset_return m t t' w = Inr r" "0 \<le> snd w" "dec (snd w) = snd w"
    and opens: "\<And>p c u. candle_at m p u = Inr c \<Longrightarrow> 0 < open_price c"
  shows "- snd w \<le> r"
proof -
  obtain pair current following where "candle_at m (pair_symbol pair) t = Inr current"
      "candle_at m (pair_symbol pair) t' = Inr following"
    and r: "r = dmul (snd w) (dsub (dquot (open_price following) (open_price current)) 1)"
    using assms(1) by (auto simp: asset_return_def py_result)
  then have c: "0 < open_price current" "0 < open_price following" using opens by blast+
  have "-1 \<le> dsub (dquot (open_price following) (open_price current)) 1"
    using dquot_nonneg [of "open_price following" "open_price current"] c dec.rnd_mono [of "-1" "dquot (open_price following) (open_price current) - 1"]
    by (simp add: dsub_def dec.rnd_minus)
  then have "snd w * -1 \<le> snd w * dsub (dquot (open_price following) (open_price current)) 1"
    using assms(2) by (rule mult_left_mono)
  then have "dec (- snd w) \<le> r" unfolding r dmul_def by (intro dec.rnd_mono) simp
  then show ?thesis using assms(3) by (simp add: dec.rnd_minus)
qed

definition opens_positive :: "market_data_bundle \<Rightarrow> bool" where
  "opens_positive m = (\<forall>(s, cs) \<in> set (bundle_candles m). \<forall>c \<in> set cs. 0 < open_price c)"

lemma candle_at_positive: "opens_positive m \<Longrightarrow> candle_at m p u = Inr c \<Longrightarrow> 0 < open_price c"
  by (fastforce simp: candle_at_def candles_of_def opens_positive_def py_result split: option.splits
      dest!: map_of_SomeD)

lemma map_result_list_all2:
  "map_result f xs = Inr ys \<Longrightarrow> (\<And>x y. x \<in> set xs \<Longrightarrow> f x = Inr y \<Longrightarrow> P y x) \<Longrightarrow> list_all2 P ys xs"
  by (induction xs arbitrary: ys) (auto simp: py_result)

lemma portfolio_return_lower:
  assumes "opens_positive m" "weights_ok w" "portfolio_return_of m t t' w = Inr r"
  shows "0 \<le> dadd 1 r"
proof -
  obtain rs where rs: "map_result (asset_return m t t') w = Inr rs" "r = dsum 0 rs"
    using assms(3) by (auto simp: portfolio_return_of_def py_result)
  have "list_all2 (\<lambda>r x. - snd x \<le> r) rs w"
  proof (rule map_result_list_all2 [OF rs(1)])
    fix x r assume "x \<in> set w" "asset_return m t t' x = Inr r"
    then show "- snd x \<le> r"
      using assms(2) by (intro asset_return_lower [OF _ _ _ candle_at_positive [OF assms(1)]])
        (auto simp: weights_ok_def)
  qed
  then have "list_all2 (\<lambda>r w. - w \<le> r) rs (map snd w)" by (simp add: list_all2_map2)
  from dsum_lower [OF this, of 0] have "-1 \<le> r" using assms(2) by (simp add: weights_ok_def rs(2))
  then show ?thesis by (simp add: dadd_def dec.rnd_nonneg)
qed

text \<open>Turnover: at most one for every asset that the old or the new weights name.\<close>

definition enumerates :: "(string set \<Rightarrow> string list) \<Rightarrow> bool" where
  "enumerates enum = (\<forall>S. finite S \<longrightarrow> set (enum S) = S \<and> distinct (enum S))"

lemma dsum_at_most_length:
  assumes "\<forall>x \<in> set xs. x \<le> 1" "of_nat (k + length xs) \<le> (10 ^ 28 :: rat)" "s \<le> of_nat k"
  shows "dsum s xs \<le> of_nat (k + length xs)"
  using assms
proof (induction xs arbitrary: k s)
  case (Cons x xs)
  have le: "s + x \<le> of_nat (Suc k)" using Cons.prems(1,3) by simp
  have "int (Suc k) \<le> 10 ^ 28"
  proof -
    have "of_int (int (Suc k)) \<le> (of_int (10 ^ 28) :: rat)" using Cons.prems(2) by simp
    then show ?thesis by (simp only: of_int_le_iff)
  qed
  then have "dec (of_int (int (Suc k))) = of_int (int (Suc k))" by (intro dec_of_int) simp
  then have "dadd s x \<le> of_nat (Suc k)" using dec.rnd_mono [OF le] by (simp add: dadd_def)
  from Cons.IH [OF _ _ this] Cons.prems show ?case by simp
qed simp

lemma turnover_bounds:
  assumes enum: "enumerates enum" and w: "weights_ok new" "weights_ok old"
    and n: "length new \<le> n" "length old \<le> n" "n \<le> 10 ^ 9"
  shows "0 \<le> turnover_of enum new old \<and> turnover_of enum new old \<le> of_nat (2 * n)"
proof -
  let ?S = "set (dict_keys new) \<union> set (dict_keys old)"
  have S: "set (enum ?S) = ?S" "distinct (enum ?S)" using enum by (auto simp: enumerates_def)
  have card: "length (enum ?S) \<le> 2 * n"
  proof -
    have "length (enum ?S) = card ?S" using S distinct_card by metis
    also have "\<dots> \<le> length (dict_keys new) + length (dict_keys old)"
      by (meson card_Un_le card_length add_mono le_trans)
    finally show ?thesis using n by (simp add: dict_keys_def)
  qed
  have in01: "0 \<le> weight_in d k \<and> weight_in d k \<le> 1" if "weights_ok d" for d k
    using that by (auto simp: weight_in_def weights_ok_def split: option.split dest!: map_of_SomeD)
  have abs1: "dabs (dsub (weight_in new k) (weight_in old k)) \<le> 1" for k
  proof -
    have "dec \<bar>weight_in new k - weight_in old k\<bar> \<le> 1"
      using in01 [OF w(1), of k] in01 [OF w(2), of k] by (intro dec.rnd_le_fixed) auto
    then show ?thesis by (simp add: dsub_def dec.rnd_abs dabs_def)
  qed
  have "of_nat (0 + length (enum ?S)) \<le> (of_nat (10 ^ 28) :: rat)" using card n by (simp only: of_nat_le_iff) simp
  then have "dsum 0 (map (\<lambda>k. dabs (dsub (weight_in new k) (weight_in old k))) (enum ?S)) \<le> of_nat (0 + length (enum ?S))"
    using dsum_at_most_length [of "map (\<lambda>k. dabs (dsub (weight_in new k) (weight_in old k))) (enum ?S)" 0 0] abs1
    by (simp del: dabs_dsub)
  moreover have "of_nat (0 + length (enum ?S)) \<le> (of_nat (2 * n) :: rat)" using card by simp
  ultimately have "turnover_of enum new old \<le> of_nat (2 * n)" by (simp add: turnover_of_def)
  moreover have "0 \<le> turnover_of enum new old" unfolding turnover_of_def by (rule dsum_nonneg) auto
  ultimately show ?thesis by blast
qed

text \<open>The order of the three equities, which every step of the loop keeps.\<close>

definition state_ok :: "nat \<Rightarrow> backtest_state \<Rightarrow> bool" where
  "state_ok n st =
     (0 \<le> bs_equity st \<and> bs_equity st \<le> bs_fee_only_equity st \<and> bs_fee_only_equity st \<le> bs_gross_equity st
      \<and> dec (bs_gross_equity st) = bs_gross_equity st
      \<and> weights_ok (bs_weights st) \<and> length (bs_weights st) \<le> n
      \<and> bs_curve st \<noteq> []
      \<and> ep_equity (last (bs_curve st)) = bs_equity st \<and> ep_gross_equity (last (bs_curve st)) = bs_gross_equity st
      \<and> (\<forall>p \<in> set (bs_curve st). 0 \<le> ep_equity p \<and> ep_equity p \<le> ep_gross_equity p))"

text \<open>Costs small enough that even a complete exchange of every position leaves something.\<close>

definition rates_ok :: "nat \<Rightarrow> backtest_config \<Rightarrow> bool" where
  "rates_ok n c =
     (n \<le> 10 ^ 9 \<and> 0 \<le> bc_fee_rate c \<and> 0 \<le> bc_slippage_rate c
      \<and> of_nat (4 * n) * bc_fee_rate c \<le> 1 \<and> of_nat (4 * n) * bc_slippage_rate c \<le> 1)"

lemma cost_factors:
  assumes T: "0 \<le> T" "T \<le> of_nat (2 * n)" and r: "rates_ok n c"
  shows "0 \<le> dsub (dsub 1 (dmul T (bc_fee_rate c))) (dmul T (bc_slippage_rate c))"
    and "dsub (dsub 1 (dmul T (bc_fee_rate c))) (dmul T (bc_slippage_rate c)) \<le> dsub 1 (dmul T (bc_fee_rate c))"
    and "dsub 1 (dmul T (bc_fee_rate c)) \<le> 1"
proof -
  have half: "dec (1 / 2) = 1 / 2" by (rule dec_default_weights(1))
  have small: "0 \<le> dmul T q \<and> dmul T q \<le> 1 / 2" if "0 \<le> q" "of_nat (4 * n) * q \<le> 1" for q
  proof -
    have "T * q \<le> of_nat (2 * n) * q" using T that(1) by (intro mult_right_mono) auto
    also have "\<dots> \<le> 1 / 2" using that(2) by simp
    finally have "dec (T * q) \<le> 1 / 2" using half by (rule dec.rnd_le_fixed)
    then show ?thesis using T that(1) by (simp add: dmul_def dec.rnd_nonneg)
  qed
  have f: "0 \<le> dmul T (bc_fee_rate c)" "dmul T (bc_fee_rate c) \<le> 1 / 2"
    and s: "0 \<le> dmul T (bc_slippage_rate c)" "dmul T (bc_slippage_rate c) \<le> 1 / 2"
    using small r by (auto simp: rates_ok_def)
  have "1 / 2 \<le> dsub 1 (dmul T (bc_fee_rate c))"
    unfolding dsub_def using f half by (intro dec.rnd_ge_fixed) auto
  then show "0 \<le> dsub (dsub 1 (dmul T (bc_fee_rate c))) (dmul T (bc_slippage_rate c))"
    using s by simp
  show "dsub 1 (dmul T (bc_fee_rate c)) \<le> 1"
    unfolding dsub_def using f by (intro dec.rnd_le_fixed) auto
  have "dec (dsub 1 (dmul T (bc_fee_rate c)) - dmul T (bc_slippage_rate c)) \<le> dsub 1 (dmul T (bc_fee_rate c))"
    by (rule dec.rnd_le_fixed) (use s in \<open>simp_all add: dsub_def\<close>)
  then show "dsub (dsub 1 (dmul T (bc_fee_rate c))) (dmul T (bc_slippage_rate c)) \<le> dsub 1 (dmul T (bc_fee_rate c))"
    by (simp only: dsub_def)
qed

lemma dmul_le: "0 \<le> a \<Longrightarrow> a \<le> b \<Longrightarrow> 0 \<le> x \<Longrightarrow> x \<le> y \<Longrightarrow> dmul a x \<le> dmul b y"
  unfolding dmul_def by (intro dec.rnd_mono mult_mono) auto

lemma trade_to_ok:
  assumes enum: "enumerates enum" and st: "state_ok n st" and r: "rates_ok n c"
    and new: "weights_ok (weights_of as)" "length (weights_of as) \<le> n"
  shows "0 \<le> bs_equity (trade_to enum c as st)
    \<and> bs_equity (trade_to enum c as st) \<le> bs_fee_only_equity (trade_to enum c as st)
    \<and> bs_fee_only_equity (trade_to enum c as st) \<le> bs_gross_equity (trade_to enum c as st)"
proof -
  let ?T = "turnover_of enum (weights_of as) (bs_weights st)"
  have T: "0 \<le> ?T" "?T \<le> of_nat (2 * n)"
    using turnover_bounds [OF enum new(1) _ new(2)] st r by (auto simp: state_ok_def rates_ok_def)
  note F = cost_factors [OF T r]
  have le: "0 \<le> bs_equity st" "bs_equity st \<le> bs_fee_only_equity st" "bs_fee_only_equity st \<le> bs_gross_equity st"
    "dec (bs_gross_equity st) = bs_gross_equity st" using st by (auto simp: state_ok_def)
  have "0 \<le> dsub 1 (dmul ?T (bc_fee_rate c))" using F(1,2) by linarith
  then have "dmul (bs_fee_only_equity st) (dsub 1 (dmul ?T (bc_fee_rate c))) \<le> dmul (bs_gross_equity st) 1"
    using le F(3) by (intro dmul_le) auto
  moreover have "dmul (bs_equity st) (dsub (dsub 1 (dmul ?T (bc_fee_rate c))) (dmul ?T (bc_slippage_rate c)))
      \<le> dmul (bs_fee_only_equity st) (dsub 1 (dmul ?T (bc_fee_rate c)))"
    using le F(1,2) by (intro dmul_le) auto
  ultimately show ?thesis
    using le F(1) by (simp add: trade_to_def Let_def dmul_nonneg) (simp add: dmul_def)
qed

lemma hold_to_ok:
  assumes eq: "0 \<le> bs_equity st" "bs_equity st \<le> bs_fee_only_equity st" "bs_fee_only_equity st \<le> bs_gross_equity st"
    and w: "weights_ok (bs_weights st)" "length (bs_weights st) \<le> n"
    and curve: "\<forall>p \<in> set (bs_curve st). 0 \<le> ep_equity p \<and> ep_equity p \<le> ep_gross_equity p"
    and r: "0 \<le> dadd 1 r"
  shows "state_ok n (hold_to t' r st)"
proof -
  have "0 \<le> dmul (bs_equity st) (dadd 1 r)" "dmul (bs_equity st) (dadd 1 r) \<le> dmul (bs_fee_only_equity st) (dadd 1 r)"
    "dmul (bs_fee_only_equity st) (dadd 1 r) \<le> dmul (bs_gross_equity st) (dadd 1 r)"
    using eq r by (auto intro: dmul_nonneg dmul_mono)
  then show ?thesis using w curve by (auto simp: state_ok_def hold_to_def Let_def dmul_def)
qed

lemma evaluate_approved:
  "rdec_approved (evaluate_allocation rp p portfolio) \<Longrightarrow> int (length (pa_allocations p)) \<le> rp_maximum_positions rp"
  by (auto simp: evaluate_allocation_def Let_def split: if_splits)

text \<open>The interface of the accounting: every proposal names an asset at most once.\<close>

definition valid_universe :: "trading_universe \<Rightarrow> bool" where
  "valid_universe u = (mk_trading_universe (universe_pairs u) = Inr u)"

locale sound_engine =
  fixes e :: backtest_engine
  assumes distinct_proposal: "valid_universe (bundle_universe m) \<Longrightarrow> proposal_at e portfolio m t = Inr p \<Longrightarrow>
    distinct (map (\<lambda>a. asset_symbol (alloc_asset a)) (pa_allocations p))"
begin

lemma proposal_weights:
  assumes u: "valid_universe (bundle_universe m)" and "proposal_at e portfolio m t = Inr p"
  shows "weights_ok (weights_of (pa_allocations p)) \<and> length (weights_of (pa_allocations p)) = length (pa_allocations p)"
proof -
  obtain sr where "construct_allocation (be_portfolio_constructor e) portfolio sr = Inr p"
    using assms(2) by (auto simp: proposal_at_def py_result)
  then have "allocation_ok p" using construct_allocation_ok by blast
  then show ?thesis
    using allocation_weights_ok distinct_proposal [OF assms] by (simp add: weights_of_distinct)
qed

lemma step_ok:
  assumes u: "valid_universe (bundle_universe m)" and enum: "enumerates enum" and opens: "opens_positive m"
    and r: "rates_ok n c" and n: "n = nat (rp_maximum_positions (be_risk_policy e))"
    and step: "backtest_step enum e c portfolio m index t t' st = Inr st'" and st: "state_ok n st"
  shows "state_ok n st'"
proof -
  obtain st1 ret where st1: "(if index mod bc_rebalance_days c = 0 then rebalance_at enum e c portfolio m t st else Inr st) = Inr st1"
    and ret: "portfolio_return_of m t t' (bs_weights st1) = Inr ret" and st': "st' = hold_to t' ret st1"
    using step by (auto simp: backtest_step_def py_result)
  have "0 \<le> bs_equity st1 \<and> bs_equity st1 \<le> bs_fee_only_equity st1 \<and> bs_fee_only_equity st1 \<le> bs_gross_equity st1
    \<and> weights_ok (bs_weights st1) \<and> length (bs_weights st1) \<le> n \<and> bs_curve st1 = bs_curve st"
  proof (cases "st1 = st \<or> st1 = st\<lparr>bs_rejected := bs_rejected st + 1\<rparr>")
    case True
    then show ?thesis using st by (auto simp: state_ok_def)
  next
    case False
    then obtain p where p: "proposal_at e portfolio m t = Inr p"
      "rdec_approved (evaluate_allocation (be_risk_policy e) p portfolio)" "st1 = trade_to enum c (pa_allocations p) st"
      using st1 by (auto simp: rebalance_at_def py_result split: if_splits)
    have new: "weights_ok (weights_of (pa_allocations p))" "length (weights_of (pa_allocations p)) \<le> n"
      using proposal_weights [OF u p(1)] evaluate_approved [OF p(2)] n by auto
    have "bs_weights st1 = weights_of (pa_allocations p)" "bs_curve st1 = bs_curve st"
      by (simp_all add: p(3) trade_to_def Let_def)
    then show ?thesis using trade_to_ok [OF enum st r new] new p(3) by simp
  qed
  then show ?thesis
    unfolding st' using st portfolio_return_lower [OF opens _ ret]
    by (intro hold_to_ok) (auto simp: state_ok_def)
qed

lemma loop_ok:
  assumes u: "valid_universe (bundle_universe m)" and enum: "enumerates enum" and opens: "opens_positive m"
    and r: "rates_ok n c" and n: "n = nat (rp_maximum_positions (be_risk_policy e))"
  shows "backtest_loop enum e c portfolio m index ts st = Inr st' \<Longrightarrow> state_ok n st \<Longrightarrow> state_ok n st'"
proof (induction ts arbitrary: index st)
  case (Cons t ts)
  show ?case
  proof (cases ts)
    case Nil
    then show ?thesis using Cons.prems by simp
  next
    case ts: (Cons t' us)
    then obtain st1 where "backtest_step enum e c portfolio m index t t' st = Inr st1"
      "backtest_loop enum e c portfolio m (index + 1) ts st1 = Inr st'"
      using Cons.prems(1) by (auto simp: py_result)
    then show ?thesis using Cons.IH step_ok [OF u enum opens r n _ Cons.prems(2)] by blast
  qed
qed simp

end

text \<open>The momentum engine is sound: pairs of one quote asset have different base assets.\<close>

lemma valid_universe_bases:
  assumes "valid_universe u" shows "distinct (map (\<lambda>p. asset_symbol (pair_base p)) (universe_pairs u))"
proof -
  have d: "distinct (map pair_symbol (universe_pairs u))" and q: "card (set (map pair_quote (universe_pairs u))) = 1"
    using assms by (auto simp: valid_universe_def mk_trading_universe_def split: if_splits)
  obtain a where a: "\<forall>p \<in> set (universe_pairs u). pair_quote p = a"
    using q by (metis card_1_singletonE image_eqI list.set_map singletonD)
  have "inj_on (\<lambda>p. asset_symbol (pair_base p)) (set (universe_pairs u))"
  proof (rule inj_onI)
    fix p p' assume p: "p \<in> set (universe_pairs u)" "p' \<in> set (universe_pairs u)"
      and "asset_symbol (pair_base p) = asset_symbol (pair_base p')"
    then have "pair_symbol p = pair_symbol p'" using a by (simp add: pair_symbol_def)
    then show "p = p'" using d p by (auto simp: distinct_map dest: inj_onD)
  qed
  then show ?thesis using d by (simp add: distinct_map)
qed

lemma momentum_found_distinct:
  "map_result (momentum_candidate s ctx known) ps = Inr found \<Longrightarrow>
   distinct (map (\<lambda>p. asset_symbol (pair_base p)) ps) \<Longrightarrow>
   distinct (map (\<lambda>r. asset_symbol (snd r)) (List.map_filter id found))
   \<and> (\<lambda>r. asset_symbol (snd r)) ` set (List.map_filter id found) \<subseteq> (\<lambda>p. asset_symbol (pair_base p)) ` set ps"
proof (induction ps arbitrary: found)
  case (Cons p ps)
  then obtain x xs where x: "momentum_candidate s ctx known p = Inr x"
    "map_result (momentum_candidate s ctx known) ps = Inr xs" "found = x # xs"
    by (auto simp: py_result)
  have IH: "distinct (map (\<lambda>r. asset_symbol (snd r)) (List.map_filter id xs))"
    "(\<lambda>r. asset_symbol (snd r)) ` set (List.map_filter id xs) \<subseteq> (\<lambda>p. asset_symbol (pair_base p)) ` set ps"
    using Cons.IH [OF x(2)] Cons.prems(2) unfolding list.map distinct.simps by blast+
  show ?case
  proof (cases x)
    case None
    show ?thesis unfolding x(3) None map_filter_id using IH by auto
  next
    case (Some r)
    then have "snd r = pair_base p"
      using x(1) by (auto simp: momentum_candidate_def py_result split: if_splits)
    then show ?thesis unfolding x(3) Some map_filter_id using IH Cons.prems(2) by auto
  qed
qed (simp add: map_filter_id)

lemma momentum_signals_assets:
  "map_result (momentum_signal s as_of maximum) ranked = Inr signals \<Longrightarrow> map signal_asset signals = map snd ranked"
  by (induction ranked arbitrary: signals) (auto simp: py_result momentum_signal_def mk_signal_def split: if_splits)

lemma momentum_generate_distinct:
  assumes "momentum_generate s ctx = Inr sr" "valid_universe (bundle_universe (sc_market_data ctx))"
  shows "distinct (map (\<lambda>x. asset_symbol (signal_asset x)) (sr_signals sr))"
proof -
  obtain known where known: "bundle_known_at (sc_market_data ctx) (Aware (sc_as_of ctx)) = Inr known"
    using assms(1) by (auto simp: momentum_generate_def py_result)
  have u: "bundle_universe known = bundle_universe (sc_market_data ctx)"
    using known by (auto simp: bundle_known_at_def mk_market_data_bundle_Inr)
  show ?thesis
  proof (cases "regime_of (sc_regime ctx) = RISK_OFF")
    case True
    then show ?thesis using assms(1) known by (auto simp: momentum_generate_def mk_strategy_result_def)
  next
    case False
    then have gen: "bind_result (map_result (momentum_candidate s ctx known) (universe_pairs (bundle_universe known)))
        (\<lambda>found. let ranked = ranked_scores s (List.map_filter id found); maximum = foldr max (map fst ranked) 0
          in bind_result (map_result (momentum_signal s (sc_as_of ctx) maximum) ranked) (\<lambda>signals.
               mk_strategy_result ''cross_sectional_momentum'' ''v1'' (Aware (sc_as_of ctx))
                 (regime_of (sc_regime ctx)) signals)) = Inr sr"
      using assms(1) by (simp only: momentum_generate_def known bind_result.simps if_False)
    then obtain found where f: "map_result (momentum_candidate s ctx known) (universe_pairs (bundle_universe known)) = Inr found"
      unfolding bind_result_Inr by blast
    obtain signals where f2: "map_result (momentum_signal s (sc_as_of ctx)
        (foldr max (map fst (ranked_scores s (List.map_filter id found))) 0)) (ranked_scores s (List.map_filter id found)) = Inr signals"
      "mk_strategy_result ''cross_sectional_momentum'' ''v1'' (Aware (sc_as_of ctx)) (regime_of (sc_regime ctx)) signals = Inr sr"
      using gen unfolding f bind_result.simps Let_def bind_result_Inr by blast
    then have sr: "sr_signals sr = signals" by (auto simp: mk_strategy_result_def)
    have "distinct (map (\<lambda>r. asset_symbol (snd r)) (ranked_scores s (List.map_filter id found)))"
      unfolding ranked_scores_def
      using momentum_found_distinct [OF f] valid_universe_bases [OF assms(2)] u
      by (intro distinct_map_py_take) simp
    moreover have "map (\<lambda>x. asset_symbol (signal_asset x)) signals = map asset_symbol (map snd (ranked_scores s (List.map_filter id found)))"
      unfolding momentum_signals_assets [OF f2(1), symmetric] by (simp add: comp_def)
    ultimately show ?thesis by (simp add: sr comp_def)
  qed
qed

interpretation momentum_accounting: sound_engine "momentum_backtester reg s ew rp elig"
proof unfold_locales
  fix m portfolio t p
  assume u: "valid_universe (bundle_universe m)"
    and p: "proposal_at (momentum_backtester reg s ew rp elig) portfolio m t = Inr p"
  obtain ctx sr where sr: "momentum_generate s ctx = Inr sr" "sc_market_data ctx = m"
    "construct_allocation ew portfolio sr = Inr p"
    using p by (auto simp: proposal_at_def py_result momentum_backtester_def)
  have d: "distinct (map (\<lambda>x. asset_symbol (signal_asset x)) (selected_signals ew sr))"
    using momentum_generate_distinct [OF sr(1)] u sr(2)
    by (auto simp: selected_signals_def take_map [symmetric] intro: distinct_take distinct_map_filter)
  consider "map alloc_asset (pa_allocations p) = []" | "map alloc_asset (pa_allocations p) = map signal_asset (selected_signals ew sr)"
    using construct_allocation_ok [OF sr(3)] by blast
  then have "map asset_symbol (map alloc_asset (pa_allocations p)) \<in> {[], map asset_symbol (map signal_asset (selected_signals ew sr))}"
    by cases simp_all
  with d show "distinct (map (\<lambda>a. asset_symbol (alloc_asset a)) (pa_allocations p))"
    by (auto simp: comp_def)
qed

text \<open>Drawdowns of a curve that starts positive and is never negative.\<close>

lemma running_max_bounds:
  "\<forall>x \<in> set xs. 0 \<le> x \<Longrightarrow> xs \<noteq> [] \<Longrightarrow> 0 < hd xs \<Longrightarrow>
   list_all2 (\<lambda>v m. 0 \<le> v \<and> v \<le> m \<and> 0 < m) xs (running_max xs)"
proof (induction xs rule: running_max.induct)
  case (3 x y ys)
  have "list_all2 (\<lambda>v m. 0 \<le> v \<and> v \<le> m \<and> 0 < m) (max x y # ys) (running_max (max x y # ys))"
    using 3 by (auto simp: max_def)
  moreover obtain z zs where "running_max (max x y # ys) = z # zs"
    by (cases ys) auto
  ultimately show ?case using 3 by auto
qed simp_all

lemma drawdowns_bounds:
  assumes "\<forall>x \<in> set xs. 0 \<le> x" "xs \<noteq> []" "0 < hd xs"
  shows "drawdowns_of xs \<noteq> [] \<and> (\<forall>d \<in> set (drawdowns_of xs). -1 \<le> d \<and> d \<le> 0)"
proof -
  note L = running_max_bounds [OF assms]
  have one: "-1 \<le> fsub (fquot v m) 1 \<and> fsub (fquot v m) 1 \<le> 0" if "0 \<le> v" "v \<le> m" "0 < m" for v m
  proof -
    have "0 \<le> fquot v m" "fquot v m \<le> 1"
      unfolding fquot_def using that by (auto intro: flt.rnd_nonneg flt.rnd_le_fixed)
    then show ?thesis
      using flt.rnd_mono [of "-1" "fquot v m - 1"] flt.rnd_nonpos [of "fquot v m - 1"]
      by (simp add: fsub_def flt.rnd_minus)
  qed
  have "running_max xs \<noteq> []" using L assms(2) by (cases xs) auto
  then show ?thesis using L one assms(2)
    by (auto simp: drawdowns_of_def list_all2_iff)
qed

lemma min_of_in: "xs \<noteq> [] \<Longrightarrow> min_of xs \<in> set xs"
proof (cases xs)
  case (Cons x ys)
  have "fold min ys x \<in> insert x (set ys)" for x :: rat
    by (induction ys arbitrary: x) (auto simp: min_def)
  then show ?thesis by (simp add: Cons)
qed simp

lemma total_return_mono:
  assumes "total_return_of a i = Inr x" "total_return_of b i = Inr y" "a \<le> b" "0 < i"
  shows "x \<le> y"
proof -
  have "dquot a i \<le> dquot b i" using assms(3,4) by (auto simp: dquot_def intro!: dec.rnd_mono divide_right_mono)
  then show ?thesis
    using assms(1,2) by (auto simp: total_return_of_def py_result dsub_def intro!: flt.rnd_mono dec.rnd_mono)
qed

lemma total_return_lower:
  assumes "total_return_of a i = Inr x" "0 \<le> a" "0 < i"
  shows "-1 \<le> x"
proof -
  have "dec (-1) \<le> dsub (dquot a i) 1" unfolding dsub_def using assms(2,3) by (intro dec.rnd_mono) (simp add: dquot_nonneg)
  then have "flt (-1) \<le> flt (dsub (dquot a i) 1)" by (intro flt.rnd_mono) (simp add: dec.rnd_minus)
  then show ?thesis using assms(1) by (auto simp: total_return_of_def py_result flt.rnd_minus)
qed

lemma loop_start:
  "backtest_loop enum e c portfolio m index ts st = Inr st' \<Longrightarrow> \<exists>ps. bs_curve st' = bs_curve st @ ps"
proof (induction enum e c portfolio m index ts st rule: backtest_loop.induct)
  case (1 enum e c portfolio m index t t' ts st)
  then obtain st2 where st2: "backtest_step enum e c portfolio m index t t' st = Inr st2"
    "backtest_loop enum e c portfolio m (index + 1) (t' # ts) st2 = Inr st'"
    by (auto simp: py_result)
  then show ?case using "1.IH" [OF st2(2)] step_curve [OF st2(1)] by auto
qed simp_all

text \<open>C14: Costs never help and nothing is lost that was not there: with a common quote asset, positive opening prices and cost rates that leave at least half of the equity in a complete exchange of the positions, at every point of the curve of the momentum backtests the equity is not negative and not above the equity without costs, the total, fee-adjusted and gross returns are ordered, no return is below minus one, and the maximum drawdown is within [-1, 0].\<close>

theorem backtest_costs_never_help:
  assumes engine: "momentum_engine reg s ew rp elig = Inr e"
    and run: "backtest_run np enum e m c = Inr r"
    and u: "valid_universe (bundle_universe m)" and opens: "opens_positive m" and enum: "enumerates enum"
    and capital: "0 < bc_initial_capital c" "dec (bc_initial_capital c) = bc_initial_capital c"
    and rates: "rates_ok (nat (rp_maximum_positions rp)) c"
  shows "(\<forall>p \<in> set (br_equity_curve r). 0 \<le> ep_equity p \<and> ep_equity p \<le> ep_gross_equity p)
    \<and> -1 \<le> pm_total_return (br_metrics r)
    \<and> pm_total_return (br_metrics r) \<le> pm_fee_adjusted_return (br_metrics r)
    \<and> pm_fee_adjusted_return (br_metrics r) \<le> pm_gross_total_return (br_metrics r)
    \<and> -1 \<le> pm_maximum_drawdown (br_metrics r) \<and> pm_maximum_drawdown (br_metrics r) \<le> 0"
proof -
  have e: "e = momentum_backtester reg s ew rp elig" using engine by (simp only: momentum_engine_Inr)
  obtain ts portfolio st metrics where loop: "backtest_loop enum e c portfolio m 0 ts (start_state c (hd ts)) = Inr st"
    and metrics: "backtest_metrics np m ts c st = Inr metrics" and r: "br_equity_curve r = bs_curve st" "br_metrics r = metrics"
    using run by (rule backtest_run_Inr)
  let ?n = "nat (rp_maximum_positions rp)"
  have "state_ok ?n (start_state c (hd ts))"
    using capital by (simp add: state_ok_def start_state_def weights_ok_def)
  then have st: "state_ok ?n st"
    using momentum_accounting.loop_ok [OF u enum opens rates _ loop [unfolded e]] by (simp add: momentum_backtester_def)
  have curve: "\<forall>p \<in> set (bs_curve st). 0 \<le> ep_equity p \<and> ep_equity p \<le> ep_gross_equity p"
    and ends: "0 \<le> ep_equity (last (bs_curve st))" "ep_equity (last (bs_curve st)) \<le> bs_fee_only_equity st"
      "bs_fee_only_equity st \<le> ep_gross_equity (last (bs_curve st))"
    using st by (auto simp: state_ok_def)
  have m: "total_return_of (ep_equity (last (bs_curve st))) (bc_initial_capital c) = Inr (pm_total_return metrics)"
    "total_return_of (ep_gross_equity (last (bs_curve st))) (bc_initial_capital c) = Inr (pm_gross_total_return metrics)"
    "total_return_of (bs_fee_only_equity st) (bc_initial_capital c) = Inr (pm_fee_adjusted_return metrics)"
    "pm_maximum_drawdown metrics = min_of (drawdowns_of (map (\<lambda>p. flt (ep_equity p)) (bs_curve st)))"
    using metrics by (auto simp: backtest_metrics_def Let_def py_result)
  obtain ps where "bs_curve st = bs_curve (start_state c (hd ts)) @ ps" using loop_start [OF loop] by blast
  then have "0 < hd (map (\<lambda>p. flt (ep_equity p)) (bs_curve st))"
    using capital by (simp add: start_state_def flt.rnd_pos_iff)
  then have "drawdowns_of (map (\<lambda>p. flt (ep_equity p)) (bs_curve st)) \<noteq> []
      \<and> (\<forall>d \<in> set (drawdowns_of (map (\<lambda>p. flt (ep_equity p)) (bs_curve st))). -1 \<le> d \<and> d \<le> 0)"
    using curve st by (intro drawdowns_bounds) (auto simp: state_ok_def flt.rnd_nonneg)
  then have "-1 \<le> pm_maximum_drawdown metrics \<and> pm_maximum_drawdown metrics \<le> 0"
    using min_of_in m(4) by metis
  then show ?thesis
    using curve total_return_mono [OF m(1,3) ends(2) capital(1)] total_return_mono [OF m(3,2) ends(3) capital(1)]
      total_return_lower [OF m(1) ends(1) capital(1)] by (simp add: r)
qed

lemma sample_rates: "rates_ok (nat (rp_maximum_positions default_risk_policy)) sample_config"
  by (simp add: rates_ok_def default_risk_policy_def sample_config_def default_backtest_config_def)

lemma backtest_costs_never_help_witness:
  "\<exists>r. backtest_run plain_numpy sample_enum sample_engine (daily_bundle 100) sample_config = Inr r
     \<and> pm_maximum_drawdown (br_metrics r) \<le> 0"
proof -
  obtain r where r: "backtest_run plain_numpy sample_enum sample_engine (daily_bundle 100) sample_config = Inr r"
    using daily_run by blast
  have "valid_universe (bundle_universe (daily_bundle 100))"
    by (simp add: valid_universe_def daily_bundle_def mk_trading_universe_def)
  moreover have "opens_positive (daily_bundle 100)" by (simp add: opens_positive_def daily_bundle_def daily_candle_def)
  moreover have "enumerates sample_enum" by (simp add: enumerates_def sample_enum_def)
  moreover have "0 < bc_initial_capital sample_config" "dec (bc_initial_capital sample_config) = bc_initial_capital sample_config"
    using dec_of_int [of 100000] by (simp_all add: sample_config_def default_backtest_config_def)
  ultimately show ?thesis
    using backtest_costs_never_help [OF sample_momentum_engine r _ _ _ _ _ sample_rates] r by blast
qed

section \<open>The liquidity universe partitions the pairs\<close>

lemma valid_universe_symbols:
  "mk_trading_universe (universe_pairs u) = Inr u \<Longrightarrow> distinct (map pair_symbol (universe_pairs u))"
  by (auto simp: mk_trading_universe_def split: if_splits)

lemma liquidity_verdict_pair: "liquidity_verdict u snapshot known p = Inr v \<Longrightarrow> vd_pair v = p"
  by (auto simp: liquidity_verdict_def py_result split: option.splits if_splits)

lemma liquidity_verdict_volume:
  "liquidity_verdict u snapshot known p = Inr v \<Longrightarrow> vd_exclusion v = None \<Longrightarrow>
   \<exists>x. vd_liquidity v = Some x \<and> lu_minimum_average_quote_volume u \<le> x"
  by (auto simp: liquidity_verdict_def py_result split: option.splits if_splits)

lemma verdict_pairs: "map_result (liquidity_verdict u snapshot known) ps = Inr vs \<Longrightarrow> map vd_pair vs = ps"
  by (induction ps arbitrary: vs) (auto simp: py_result liquidity_verdict_pair)

lemma cut_universe_facts:
  assumes "distinct ranked" "0 < lu_maximum_assets u"
  shows "set (cut_universe u ranked) \<subseteq> set ranked" and "distinct (cut_universe u ranked)"
    and "int (length (cut_universe u ranked)) \<le> lu_maximum_assets u"
    and "lu_require_btc u \<Longrightarrow> find (\<lambda>p. asset_symbol (pair_base p) = ''BTC'') ranked = Some p \<Longrightarrow> p \<in> set (cut_universe u ranked)"
proof -
  let ?s = "py_take (lu_maximum_assets u) ranked"
  have s: "set ?s \<subseteq> set ranked" "distinct ?s" "int (length ?s) \<le> lu_maximum_assets u"
    using assms set_py_take [of "lu_maximum_assets u" ranked] distinct_map_py_take [of "\<lambda>x. x" ranked]
      length_py_take [of "lu_maximum_assets u" ranked] by auto
  have b: "set (butlast ?s) \<subseteq> set ?s" "distinct (butlast ?s)" "length (butlast ?s) = length ?s - 1"
    using s(2) by (auto dest: in_set_butlastD simp: distinct_butlast)
  show "set (cut_universe u ranked) \<subseteq> set ranked"
    using s b by (auto simp: cut_universe_def Let_def split: option.split dest: find_Some_in)
  show "distinct (cut_universe u ranked)"
    using s b by (auto simp: cut_universe_def Let_def split: option.split)
  show "int (length (cut_universe u ranked)) \<le> lu_maximum_assets u"
    using s(3) b(3) assms(2) by (cases ?s) (auto simp: cut_universe_def Let_def split: option.split)
  show "p \<in> set (cut_universe u ranked)"
    if "lu_require_btc u" "find (\<lambda>p. asset_symbol (pair_base p) = ''BTC'') ranked = Some p"
    using that by (simp add: cut_universe_def Let_def)
qed

lemma liquidity_verdict_reason:
  "liquidity_verdict u snapshot known p = Inr v \<Longrightarrow> vd_exclusion v \<noteq> Some ''BELOW_LIQUIDITY_RANK_CUTOFF''"
  by (auto simp: liquidity_verdict_def py_result split: option.splits if_splits)

lemma keys_map_filter:
  "map fst (List.map_filter (\<lambda>v. map_option (Pair (f v)) (g v)) vs) = map f (filter (\<lambda>v. g v \<noteq> None) vs)"
  by (induction vs) (auto simp: map_filter_simps split: option.split)

lemma set_map_filter_pairs:
  "(k, x) \<in> set (List.map_filter (\<lambda>v. map_option (Pair (f v)) (g v)) vs) \<longleftrightarrow> (\<exists>v \<in> set vs. f v = k \<and> g v = Some x)"
  by (induction vs) (auto simp: map_filter_simps split: option.split)

lemma distinct_append3:
  "distinct a \<Longrightarrow> distinct b \<Longrightarrow> distinct c \<Longrightarrow> set a \<inter> set b = {} \<Longrightarrow> set a \<inter> set c = {} \<Longrightarrow> set b \<inter> set c = {} \<Longrightarrow>
   distinct (a @ b @ c)"
  by auto

lemma images_cover:
  "s \<subseteq> g ` a \<Longrightarrow> s \<union> (g ` {x \<in> a. \<exists>y. p x = Some y} \<union> g ` {x \<in> a. p x = None \<and> g x \<notin> s}) = g ` a"
  by (auto simp: image_iff) (metis not_None_eq)

lemma liquidity_evaluate_cases:
  assumes "liquidity_evaluate lu m t = Inr r"
  obtains (no_snapshot) "elig_eligible_pairs r = []"
      "elig_exclusions r = map (\<lambda>p. (pair_symbol p, ''NO_MEMBERSHIP_SNAPSHOT'')) (universe_pairs (bundle_universe m))"
  | (snapshot) snapshot known vs where
      "map_result (liquidity_verdict lu snapshot known) (universe_pairs (bundle_universe m)) = Inr vs"
      "elig_eligible_pairs r = cut_universe lu (rank_by_liquidity (filter (\<lambda>v. vd_exclusion v = None) vs))"
      "elig_average_quote_volume r = List.map_filter (\<lambda>v. map_option (Pair (pair_symbol (vd_pair v))) (vd_liquidity v)) vs"
      "elig_exclusions r = List.map_filter (\<lambda>v. map_option (Pair (pair_symbol (vd_pair v))) (vd_exclusion v)) vs
         @ map (\<lambda>v. (pair_symbol (vd_pair v), ''BELOW_LIQUIDITY_RANK_CUTOFF''))
             (filter (\<lambda>v. pair_symbol (vd_pair v) \<notin> set (map pair_symbol (elig_eligible_pairs r)))
               (filter (\<lambda>v. vd_exclusion v = None) vs))"
proof -
  obtain found where f: "history_known_at (lu_history lu) (Aware t) = Inr found"
    using assms by (auto simp: liquidity_evaluate_def py_result)
  show thesis
  proof (cases found)
    case None
    then show thesis using assms f by (intro no_snapshot) (auto simp: liquidity_evaluate_def)
  next
    case (Some snap)
    then obtain known where k: "bundle_known_at m (Aware t) = Inr known"
      using assms f by (auto simp: liquidity_evaluate_def py_result)
    obtain vs where vs: "map_result (liquidity_verdict lu snap known) (universe_pairs (bundle_universe m)) = Inr vs"
      using assms f Some k by (auto simp: liquidity_evaluate_def py_result)
    show thesis
      by (rule snapshot [OF vs]) (use assms in \<open>auto simp: liquidity_evaluate_def f Some k vs Let_def\<close>)
  qed
qed

lemma btc_pair_unique:
  assumes u: "mk_trading_universe (universe_pairs u) = Inr u" and p: "p \<in> set (universe_pairs u)" "p' \<in> set (universe_pairs u)"
    and b: "asset_symbol (pair_base p) = asset_symbol (pair_base p')"
  shows "p = p'"
proof -
  have q: "card (set (map pair_quote (universe_pairs u))) = 1" and d: "distinct (map pair_symbol (universe_pairs u))"
    using u by (auto simp: mk_trading_universe_def split: if_splits)
  have "pair_quote p \<in> set (map pair_quote (universe_pairs u))" "pair_quote p' \<in> set (map pair_quote (universe_pairs u))"
    using p by simp_all
  then have "pair_quote p = pair_quote p'" using q by (metis card_1_singletonE singletonD)
  then have "pair_symbol p = pair_symbol p'" using b by (simp add: pair_symbol_def)
  then show ?thesis using d p by (auto simp: distinct_map dest: inj_onD)
qed

lemma partition_distinct:
  assumes d: "distinct (map key vs)" and ds: "distinct s" and s: "set s \<subseteq> key ` {v \<in> set vs. g v = None}"
  shows "distinct (s @ map key (filter (\<lambda>v. g v \<noteq> None) vs)
      @ map key (filter (\<lambda>v. key v \<notin> set s) (filter (\<lambda>v. g v = None) vs)))"
proof (intro distinct_append3 ds distinct_map_filter d)
  have "inj_on key (set vs)" using d by (simp add: distinct_map)
  then have "key ` {v \<in> set vs. g v = None} \<inter> key ` {v \<in> set vs. g v \<noteq> None} = {}"
    using inj_on_image_Int [of key "set vs" "{v \<in> set vs. g v = None}" "{v \<in> set vs. g v \<noteq> None}"] by auto
  then show "set s \<inter> set (map key (filter (\<lambda>v. g v \<noteq> None) vs)) = {}"
    "set (map key (filter (\<lambda>v. g v \<noteq> None) vs)) \<inter> set (map key (filter (\<lambda>v. key v \<notin> set s) (filter (\<lambda>v. g v = None) vs))) = {}"
    using s unfolding set_map set_filter mem_Collect_eq by blast+
qed auto

text \<open>The pair whose base is BTC is in the selection whenever it is eligible.\<close>

lemma btc_selected:
  assumes u: "mk_trading_universe (universe_pairs (bundle_universe m)) = Inr (bundle_universe m)"
    and lu: "0 < lu_maximum_assets lu" "lu_require_btc lu"
    and ranked: "distinct ranked" "set ranked \<subseteq> set (universe_pairs (bundle_universe m))"
    and p: "p \<in> set ranked" "asset_symbol (pair_base p) = ''BTC''"
  shows "p \<in> set (cut_universe lu ranked)"
proof -
  let ?btc = "\<lambda>p. asset_symbol (pair_base p) = ''BTC''"
  obtain q where q: "find ?btc ranked = Some q" using p find_None_all [of ?btc ranked] by (cases "find ?btc ranked") auto
  then have "q \<in> set ranked" "?btc q" using find_Some_in [OF q] by simp_all
  then have "q = p" using btc_pair_unique [OF u, of q p] ranked(2) p by auto
  then show ?thesis using cut_universe_facts(4) [OF ranked(1) lu(1,2) q] by simp
qed

text \<open>What the ranking of the verdicts keeps of the universe.\<close>

lemma ranked_facts:
  assumes u: "mk_trading_universe (universe_pairs (bundle_universe m)) = Inr (bundle_universe m)"
    and vs: "map_result (liquidity_verdict lu snapshot known) (universe_pairs (bundle_universe m)) = Inr vs"
  shows "distinct (rank_by_liquidity (filter (\<lambda>v. vd_exclusion v = None) vs))"
    "set (rank_by_liquidity (filter (\<lambda>v. vd_exclusion v = None) vs)) = vd_pair ` {v \<in> set vs. vd_exclusion v = None}"
    "vd_pair ` set vs = set (universe_pairs (bundle_universe m))" "distinct (map (\<lambda>v. pair_symbol (vd_pair v)) vs)"
proof -
  have pairs: "map vd_pair vs = universe_pairs (bundle_universe m)" by (rule verdict_pairs [OF vs])
  then show "vd_pair ` set vs = set (universe_pairs (bundle_universe m))" by (metis set_map)
  show "distinct (map (\<lambda>v. pair_symbol (vd_pair v)) vs)"
    using valid_universe_symbols [OF u] unfolding pairs [symmetric] by (simp add: comp_def)
  have "distinct (map vd_pair vs)" using valid_universe_symbols [OF u] unfolding pairs by (simp add: distinct_map)
  then have "distinct (map vd_pair (filter (\<lambda>v. vd_exclusion v = None) vs))" by (rule distinct_map_filter)
  then show "distinct (rank_by_liquidity (filter (\<lambda>v. vd_exclusion v = None) vs))"
    "set (rank_by_liquidity (filter (\<lambda>v. vd_exclusion v = None) vs)) = vd_pair ` {v \<in> set vs. vd_exclusion v = None}"
    by (simp_all add: rank_by_liquidity_def distinct_map_sort_on)
qed

text \<open>C15: The liquidity universe decides every pair once: each pair of the universe is either eligible or excluded for one reason, never both; at most the maximum are eligible, each with an average volume of at least the minimum; and when BTC is required, BTC is never lost to the cutoff.\<close>

theorem liquidity_universe_partition:
  assumes u: "mk_trading_universe (universe_pairs (bundle_universe m)) = Inr (bundle_universe m)"
    and ok: "check_liquidity_universe lu = Inr lu" and r: "liquidity_evaluate lu m t = Inr r"
  shows "distinct (map pair_symbol (elig_eligible_pairs r) @ map fst (elig_exclusions r))
    \<and> set (map pair_symbol (elig_eligible_pairs r)) \<union> set (map fst (elig_exclusions r))
        = set (map pair_symbol (universe_pairs (bundle_universe m)))
    \<and> int (length (elig_eligible_pairs r)) \<le> lu_maximum_assets lu
    \<and> (\<forall>p \<in> set (elig_eligible_pairs r). \<exists>x. (pair_symbol p, x) \<in> set (elig_average_quote_volume r)
          \<and> lu_minimum_average_quote_volume lu \<le> x)
    \<and> (lu_require_btc lu \<longrightarrow> (\<forall>p \<in> set (universe_pairs (bundle_universe m)). asset_symbol (pair_base p) = ''BTC''
          \<longrightarrow> (pair_symbol p, ''BELOW_LIQUIDITY_RANK_CUTOFF'') \<notin> set (elig_exclusions r)))"
  using r
proof (cases rule: liquidity_evaluate_cases)
  case no_snapshot
  then show ?thesis using valid_universe_symbols [OF u] length_0_conv ok
    by (auto simp: comp_def check_liquidity_universe_def split: if_splits)
next
  case (snapshot snap known vs)
  let ?sym = "\<lambda>v. pair_symbol (vd_pair v)" and ?sel = "elig_eligible_pairs r" and ?U = "set (universe_pairs (bundle_universe m))"
  have max: "0 < lu_maximum_assets lu" using ok by (auto simp: check_liquidity_universe_def split: if_splits)
  note ranked = ranked_facts [OF u snapshot(1)]
  note cut = cut_universe_facts [OF ranked(1) max, folded snapshot(2)]
  have sel: "set ?sel \<subseteq> vd_pair ` {v \<in> set vs. vd_exclusion v = None}" using cut(1) ranked(2) by simp
  then have "set ?sel \<subseteq> ?U" using ranked(3) by auto
  then have dsel: "distinct (map pair_symbol ?sel)"
    using cut(2) valid_universe_symbols [OF u] by (auto simp: distinct_map intro: inj_on_subset)
  have keys: "map fst (elig_exclusions r) = map ?sym (filter (\<lambda>v. vd_exclusion v \<noteq> None) vs)
      @ map ?sym (filter (\<lambda>v. ?sym v \<notin> set (map pair_symbol ?sel)) (filter (\<lambda>v. vd_exclusion v = None) vs))"
    unfolding snapshot(4) map_append keys_map_filter by (simp add: comp_def)
  have ssel: "set (map pair_symbol ?sel) \<subseteq> ?sym ` {v \<in> set vs. vd_exclusion v = None}" using sel by fastforce
  have U: "set (map pair_symbol (universe_pairs (bundle_universe m))) = ?sym ` set vs" unfolding set_map ranked(3) [symmetric] image_image ..
  have "distinct (map pair_symbol ?sel @ map fst (elig_exclusions r))"
    unfolding keys by (rule partition_distinct [OF ranked(4) dsel ssel])
  moreover have "set (map pair_symbol ?sel) \<subseteq> ?sym ` set vs" using ssel by auto
  then have "set (map pair_symbol ?sel) \<union> set (map fst (elig_exclusions r)) = set (map pair_symbol (universe_pairs (bundle_universe m)))"
    unfolding U unfolding keys set_append set_map set_filter mem_Collect_eq by (simp add: images_cover)
  moreover have "\<exists>x. (pair_symbol p, x) \<in> set (elig_average_quote_volume r) \<and> lu_minimum_average_quote_volume lu \<le> x"
    if "p \<in> set ?sel" for p
  proof -
    obtain v where v: "v \<in> set vs" "vd_exclusion v = None" "vd_pair v = p" using \<open>p \<in> set ?sel\<close> sel by auto
    then show ?thesis using map_result_Inr_set [OF snapshot(1)] liquidity_verdict_volume
      unfolding snapshot(3) set_map_filter_pairs by metis
  qed
  moreover have "(pair_symbol p, ''BELOW_LIQUIDITY_RANK_CUTOFF'') \<notin> set (elig_exclusions r)"
    if btc: "lu_require_btc lu" "p \<in> ?U" "asset_symbol (pair_base p) = ''BTC''" for p
  proof
    assume "(pair_symbol p, ''BELOW_LIQUIDITY_RANK_CUTOFF'') \<in> set (elig_exclusions r)"
    then obtain v where v: "v \<in> set vs" "vd_exclusion v = None" "?sym v = pair_symbol p" "?sym v \<notin> set (map pair_symbol ?sel)"
      unfolding snapshot(4) set_append Un_iff set_map_filter_pairs
      using map_result_Inr_set [OF snapshot(1)] liquidity_verdict_reason by fastforce
    then have "vd_pair v = p" using btc(2) ranked(3) valid_universe_symbols [OF u] by (auto simp: distinct_map dest: inj_onD)
    then have "p \<in> set ?sel"
      unfolding snapshot(2) using v ranked(3) btc(3) by (intro btc_selected [OF u max btc(1) ranked(1)]) (auto simp: ranked(2))
    then show False using v by auto
  qed
  ultimately show ?thesis using cut(3) by blast
qed

definition sample_liquidity :: liquidity_universe where
  "sample_liquidity = default_liquidity_universe
     \<lparr>history_snapshots = [\<lparr>snapshot_observed_at = 0, snapshot_source = ''UPBIT'',
        snapshot_members = [\<lparr>member_pair = btc_krw, member_warning = False, member_source = ''UPBIT'', member_observed_at = 0\<rparr>]\<rparr>]\<rparr>"

lemma liquidity_universe_partition_witness:
  "\<exists>r. liquidity_evaluate sample_liquidity (daily_bundle 100) (days 1) = Inr r
     \<and> set (map pair_symbol (elig_eligible_pairs r)) \<union> set (map fst (elig_exclusions r)) = {''BTCKRW''}"
proof -
  have u: "mk_trading_universe (universe_pairs (bundle_universe (daily_bundle 100))) = Inr (bundle_universe (daily_bundle 100))"
    by (simp add: daily_bundle_def mk_trading_universe_def)
  have ok: "check_liquidity_universe sample_liquidity = Inr sample_liquidity"
    by (simp add: check_liquidity_universe_def sample_liquidity_def default_liquidity_universe_def)
  have "is_ok (liquidity_evaluate sample_liquidity (daily_bundle 100) (days 1))"
    by (simp add: liquidity_evaluate_def sample_liquidity_def default_liquidity_universe_def history_known_at_def
        last_option_def visible_snapshots_def daily_bundle_def bundle_known_at_def candles_known_at_def visible_candles_def
        days_def mk_market_data_bundle_def dict_keys_def liquidity_verdict_def btc_krw_def pair_symbol_def candles_of_def
        daily_candle_def is_ok_bind Let_def)
  then obtain r where r: "liquidity_evaluate sample_liquidity (daily_bundle 100) (days 1) = Inr r"
    by (auto simp only: is_ok_iff)
  have "set (map pair_symbol (universe_pairs (bundle_universe (daily_bundle 100)))) = {''BTCKRW''}"
    by (simp add: daily_bundle_def btc_krw_def pair_symbol_def)
  then show ?thesis using liquidity_universe_partition [OF u ok r] r by auto
qed

end
