(* ===== verification/LifecycleProofs.thy ===== *)
theory LifecycleProofs
  imports Lifecycle BacktestProofs
begin

text \<open>
  Theorems on the research lifecycle: the invariant of the reachable repositories, that runs settle
  their experiment, what promotion does to the registry, and two defects: promotions on a stale
  champion leave two active strategies, and creating an experiment is not atomic.
\<close>

section \<open>Experiments and strategies a use case does not touch\<close>

definition same_core :: "research_repository \<Rightarrow> research_repository \<Rightarrow> bool" where
  "same_core r r' = (rr_experiments r' = rr_experiments r \<and> rr_strategies r' = rr_strategies r)"

lemma same_core_refl [simp]: "same_core r r"
  by (simp add: same_core_def)

lemma same_core_trans: "same_core a b \<Longrightarrow> same_core b c \<Longrightarrow> same_core a c"
  by (simp add: same_core_def)

lemma same_core_get:
  "same_core r r' \<Longrightarrow> get_experiment r' = get_experiment r \<and> get_strategy r' = get_strategy r
    \<and> list_strategies r' = list_strategies r"
  by (simp add: same_core_def fun_eq_iff get_experiment_def get_strategy_def list_strategies_def)

lemma save_frames:
  "save_snapshot a r = Inr r' \<Longrightarrow> same_core r r'"
  "save_backtest_run b c r = Inr r' \<Longrightarrow> same_core r r'"
  "save_validation_run v c r = Inr r' \<Longrightarrow> same_core r r'"
  by (auto simp: same_core_def save_snapshot_def save_backtest_run_def save_validation_run_def py_result)

lemma save_strategy_experiments: "save_strategy v c r = Inr r' \<Longrightarrow> get_experiment r' = get_experiment r"
  by (auto simp: save_strategy_def get_experiment_def fun_eq_iff py_result)

lemma save_experiment_strategies:
  "save_experiment e c r = Inr r' \<Longrightarrow> get_strategy r' = get_strategy r \<and> list_strategies r' = list_strategies r"
  by (auto simp: save_experiment_def get_strategy_def list_strategies_def fun_eq_iff py_result)

lemma get_after_strategy:
  "save_strategy v c r = Inr r' \<Longrightarrow> get_strategy r' k = (if k = sv_version_id v then Inr v else get_strategy r k)"
  using strategies.get_saved [of v c r r'] strategies.get_other [of k v c r r'] by auto

lemma get_after_experiment:
  "save_experiment e c r = Inr r' \<Longrightarrow> wf_experiment e \<Longrightarrow>
   get_experiment r' k = (if k = ex_experiment_id e then Inr e else get_experiment r k)"
  using experiments.get_saved [of e c r r'] experiments.get_other [of k e c r r'] by auto

lemma backtest_frame: "research_backtest env n e v s b r = (r', res) \<Longrightarrow> same_core r r'"
  unfolding research_backtest_def Let_def act by (auto dest: save_frames)

section \<open>What running an experiment does\<close>

lemma transition_wf: "transition e t now = Inr e' \<Longrightarrow> wf_experiment e' \<longleftrightarrow> wf_experiment e"
  by (auto simp: transition_def wf_experiment_def split: if_splits)

text \<open>The conclusion of a run never fails: both saves replace what is there.\<close>

lemma conclude_effect:
  assumes "ex_status e = RUNNING" "conclude env e ch s a b v ev r = (r', res)"
  shows "\<exists>x final r1. res = Inr x \<and> rx_experiment x = final \<and> rx_champion_run x = a \<and> rx_challenger_run x = b
    \<and> save_strategy (with_status ch (if ce_passed ev then VERSION_CANDIDATE else VERSION_REJECTED)) False r = Inr r1
    \<and> save_experiment final False r1 = Inr r'
    \<and> ex_status final = (if ce_passed ev then CANDIDATE else REJECTED) \<and> ex_evaluation final = Some ev
    \<and> ex_experiment_id final = ex_experiment_id e \<and> ex_base_strategy_version final = ex_base_strategy_version e
    \<and> ex_candidate_strategy_version final = ex_candidate_strategy_version e
    \<and> ex_approved_by final = ex_approved_by e \<and> (wf_experiment final \<longleftrightarrow> wf_experiment e)"
proof -
  obtain c where c: "transition e COMPLETED (rn_clock env 7) = Inr c"
    using transition_ok [of COMPLETED e] assms(1) by auto
  let ?completed = "c\<lparr>ex_dataset_snapshot_id := Some (ds_snapshot_id s), ex_run_ids := [bt_run_id a, bt_run_id b, vr_run_id v],
       ex_evaluation := Some ev\<rparr>"
  let ?t = "if ce_passed ev then CANDIDATE else REJECTED"
  have "?t \<in> set (allowed_targets (ex_status ?completed))" using transition_Inr [OF c] by simp
  then obtain final where f: "transition ?completed ?t (rn_clock env 8) = Inr final" using transition_ok by blast
  obtain r1 where r1: "save_strategy (with_status ch (if ce_passed ev then VERSION_CANDIDATE else VERSION_REJECTED)) False r = Inr r1"
    using strategies.save_overwrites by blast
  obtain r2 where r2: "save_experiment final False r1 = Inr r2" using experiments.save_overwrites by blast
  have "conclude env e ch s a b v ev r = (r2, Inr \<lparr>rx_experiment = final, rx_champion_run = a, rx_challenger_run = b, rx_validation_run = v\<rparr>)"
    by (simp only: conclude_def act_bind_def act_lift_def act_save_def c f r1 r2 Let_def prod.case sum.case)
  moreover have "wf_experiment final \<longleftrightarrow> wf_experiment e"
    using transition_wf [OF f] transition_wf [OF c] by (simp add: wf_experiment_def)
  ultimately show ?thesis using assms(2) transition_Inr [OF c] transition_Inr [OF f] r1 r2 by auto
qed

lemma backtest_Inr:
  "research_backtest env n e v s b r = (r', Inr (run, result)) \<Longrightarrow> bt_metrics run = Some (br_metrics result)"
  unfolding research_backtest_def Let_def act by auto

lemma validation_run_verdict [simp]:
  "vr_successful (new_validation_run env e s checks) = (checks = [])" "vr_checks (new_validation_run env e s checks) = checks"
  by (simp_all add: new_validation_run_def)

lemma runs_effect:
  assumes tail: "act_bind (research_backtest env 2 e champion s b) (\<lambda>(champion_run, champion_result).
      act_bind (research_backtest env 4 e challenger s b) (\<lambda>(challenger_run, challenger_result).
      act_bind (act_lift (validation_checks e)) (\<lambda>checks.
      (let validation = new_validation_run env e s checks
       in act_bind (act_save (save_validation_run validation True)) (\<lambda>_.
          conclude env e challenger s champion_run challenger_run validation
            (evaluate_candidate (rn_policy_version env) (br_metrics champion_result)
               (br_metrics challenger_result) (vr_successful validation))))))) r = (r', res)"
    and stop: "\<nexists>err. res = Inl err \<and> same_core r r'"
  obtains cr hr ma mb checks r0 where "bt_metrics cr = Some ma" "bt_metrics hr = Some mb" "validation_checks e = Inr checks"
    "same_core r r0"
    "conclude env e challenger s cr hr (new_validation_run env e s checks)
       (evaluate_candidate (rn_policy_version env) ma mb (checks = [])) r0 = (r', res)"
proof -
  from tail stop obtain r1 cr cres where 1: "research_backtest env 2 e champion s b r = (r1, Inr (cr, cres))"
    and tail: "act_bind (research_backtest env 4 e challenger s b) (\<lambda>(challenger_run, challenger_result).
      act_bind (act_lift (validation_checks e)) (\<lambda>checks.
      (let validation = new_validation_run env e s checks
       in act_bind (act_save (save_validation_run validation True)) (\<lambda>_.
          conclude env e challenger s cr challenger_run validation
            (evaluate_candidate (rn_policy_version env) (br_metrics cres)
               (br_metrics challenger_result) (vr_successful validation)))))) r1 = (r', res)"
    by (elim act_bind_elim) (auto dest: backtest_frame)
  from tail stop 1 obtain r2 hr hres where 2: "research_backtest env 4 e challenger s b r1 = (r2, Inr (hr, hres))"
    and tail: "act_bind (act_lift (validation_checks e)) (\<lambda>checks.
      (let validation = new_validation_run env e s checks
       in act_bind (act_save (save_validation_run validation True)) (\<lambda>_.
          conclude env e challenger s cr hr validation
            (evaluate_candidate (rn_policy_version env) (br_metrics cres)
               (br_metrics hres) (vr_successful validation))))) r2 = (r', res)"
    by (elim act_bind_elim) (auto dest!: backtest_frame intro: same_core_trans)
  have core: "same_core r r2" using 1 2 by (meson backtest_frame same_core_trans)
  from tail stop core obtain checks where 3: "validation_checks e = Inr checks"
    and tail: "act_bind (act_save (save_validation_run (new_validation_run env e s checks) True)) (\<lambda>_.
          conclude env e challenger s cr hr (new_validation_run env e s checks)
            (evaluate_candidate (rn_policy_version env) (br_metrics cres) (br_metrics hres) (checks = []))) r2 = (r', res)"
    by (elim act_bind_elim) (auto simp: act_lift_eq Let_def)
  from tail stop core obtain r3 where "same_core r r3"
    "conclude env e challenger s cr hr (new_validation_run env e s checks)
            (evaluate_candidate (rn_policy_version env) (br_metrics cres) (br_metrics hres) (checks = [])) r3 = (r', res)"
    by (elim act_bind_elim) (auto simp: act_save_eq dest!: save_frames intro: same_core_trans)
  then show thesis using that backtest_Inr [OF 1] backtest_Inr [OF 2] 3 by blast
qed

lemma execute_effect:
  assumes run: "ex_status e = RUNNING" and exec: "execute_experiment env e r = (r', res)"
  shows "(\<exists>err. res = Inl err \<and> same_core r r')
    \<or> (\<exists>x final ev candidate challenger r0 r1. res = Inr x \<and> rx_experiment x = final
        \<and> ex_candidate_strategy_version e = Some candidate \<and> get_strategy r candidate = Inr challenger \<and> same_core r r0
        \<and> save_strategy (with_status challenger (if ce_passed ev then VERSION_CANDIDATE else VERSION_REJECTED)) False r0 = Inr r1
        \<and> save_experiment final False r1 = Inr r'
        \<and> ex_status final = (if ce_passed ev then CANDIDATE else REJECTED) \<and> ex_evaluation final = Some ev
        \<and> (\<exists>ma mb checks. bt_metrics (rx_champion_run x) = Some ma \<and> bt_metrics (rx_challenger_run x) = Some mb
             \<and> validation_checks e = Inr checks \<and> ev = evaluate_candidate (rn_policy_version env) ma mb (checks = []))
        \<and> ex_experiment_id final = ex_experiment_id e \<and> ex_base_strategy_version final = ex_base_strategy_version e
        \<and> ex_candidate_strategy_version final = ex_candidate_strategy_version e
        \<and> ex_approved_by final = ex_approved_by e \<and> (wf_experiment final \<longleftrightarrow> wf_experiment e))"
proof (cases "\<exists>err. res = Inl err \<and> same_core r r'")
  case False
  note stop = False
  obtain base candidate where ids: "ex_base_strategy_version e = Some base" "ex_candidate_strategy_version e = Some candidate"
    using exec stop by (auto simp: execute_experiment_def act_lift_eq split: option.splits)
  note exec = exec [unfolded execute_experiment_def ids prod.case option.case]
  from exec stop obtain champion challenger market where e1: "get_strategy r candidate = Inr challenger"
    and tail: "(let snapshot = research_snapshot env market e
           in act_bind (act_save (save_snapshot snapshot)) (\<lambda>_.
              act_bind (research_backtest env 2 e champion snapshot market) (\<lambda>(champion_run, champion_result).
              act_bind (research_backtest env 4 e challenger snapshot market) (\<lambda>(challenger_run, challenger_result).
              act_bind (act_lift (validation_checks e)) (\<lambda>checks.
              (let validation = new_validation_run env e snapshot checks
               in act_bind (act_save (save_validation_run validation True)) (\<lambda>_.
                  conclude env e challenger snapshot champion_run challenger_run validation
                    (evaluate_candidate (rn_policy_version env) (br_metrics champion_result)
                       (br_metrics challenger_result) (vr_successful validation))))))))) r = (r', res)"
    by (elim act_bind_elim) (auto simp: act_read_eq act_lift_eq)
  let ?s = "research_snapshot env market e"
  obtain r1 where core: "same_core r r1"
    and tail: "act_bind (research_backtest env 2 e champion ?s market) (\<lambda>(champion_run, champion_result).
              act_bind (research_backtest env 4 e challenger ?s market) (\<lambda>(challenger_run, challenger_result).
              act_bind (act_lift (validation_checks e)) (\<lambda>checks.
              (let validation = new_validation_run env e ?s checks
               in act_bind (act_save (save_validation_run validation True)) (\<lambda>_.
                  conclude env e challenger ?s champion_run challenger_run validation
                    (evaluate_candidate (rn_policy_version env) (br_metrics champion_result)
                       (br_metrics challenger_result) (vr_successful validation))))))) r1 = (r', res)"
    by (rule act_bind_elim [OF tail [unfolded Let_def [of ?s]]]) (use stop in \<open>auto simp: act_save_eq dest: save_frames\<close>)
  have "\<nexists>err. res = Inl err \<and> same_core r1 r'" using stop core same_core_trans by blast
  then obtain cr hr ma mb checks r0 where runs: "bt_metrics cr = Some ma" "bt_metrics hr = Some mb"
    "validation_checks e = Inr checks" "same_core r1 r0"
    and last: "conclude env e challenger ?s cr hr (new_validation_run env e ?s checks)
       (evaluate_candidate (rn_policy_version env) ma mb (checks = [])) r0 = (r', res)"
    by (rule runs_effect [OF tail])
  have "same_core r r0" using core runs(4) by (rule same_core_trans)
  let ?ev = "evaluate_candidate (rn_policy_version env) ma mb (checks = [])"
  from conclude_effect [OF run last] obtain x final r2 where c: "res = Inr x" "rx_experiment x = final"
    "rx_champion_run x = cr" "rx_challenger_run x = hr"
    "save_strategy (with_status challenger (if ce_passed ?ev then VERSION_CANDIDATE else VERSION_REJECTED)) False r0 = Inr r2"
    "save_experiment final False r2 = Inr r'" "ex_status final = (if ce_passed ?ev then CANDIDATE else REJECTED)"
    "ex_evaluation final = Some ?ev" "ex_experiment_id final = ex_experiment_id e"
    "ex_base_strategy_version final = ex_base_strategy_version e"
    "ex_candidate_strategy_version final = ex_candidate_strategy_version e" "ex_approved_by final = ex_approved_by e"
    "wf_experiment final \<longleftrightarrow> wf_experiment e" by blast
  show ?thesis
    apply (rule disjI2, rule exI [of _ x], rule exI [of _ final], rule exI [of _ ?ev], rule exI [of _ candidate],
        rule exI [of _ challenger], rule exI [of _ r0], rule exI [of _ r2])
    using c ids(2) e1 \<open>same_core r r0\<close> runs(1-3) by (intro conjI) (simp_all only:, blast)
qed blast

section \<open>Listing and the active strategy\<close>

lemma map_result_set:
  "map_result f xs = Inr ys \<Longrightarrow> set ys = {y. \<exists>x \<in> set xs. f x = Inr y}"
  by (induction xs arbitrary: ys) (auto simp: py_result)

lemma list_strategies_set:
  "list_strategies r = Inr vs \<Longrightarrow> set vs = {v. \<exists>k. get_strategy r k = Inr v}"
proof -
  assume "list_strategies r = Inr vs"
  then obtain docs where d: "map_result (read_record (rr_strategies r)) (sort_key (\<lambda>i. i @ ''.json'') (remdups (dict_keys (rr_strategies r)))) = Inr docs"
    and v: "map_result strategy_of_json docs = Inr vs"
    by (auto simp: list_strategies_def read_all_def py_result)
  have "k \<in> set (dict_keys (rr_strategies r))" if "read_record (rr_strategies r) k = Inr x" for k x
    using that read_missing [of k "rr_strategies r"] by auto
  then show ?thesis
    using map_result_set [OF d] map_result_set [OF v] by (auto simp: get_strategy_def py_result)
qed

lemma single_case: "(case xs of [v] \<Rightarrow> Inr v | _ \<Rightarrow> Inl e) = Inr y \<longleftrightarrow> xs = [y]"
  by (auto split: list.splits)

lemma active_strategy_Inr:
  assumes "active_strategy r name = Inr v"
  shows "\<exists>k. get_strategy r k = Inr v" "sv_strategy_name v = name" "sv_status v = VERSION_ACTIVE"
proof -
  obtain vs where vs: "list_strategies r = Inr vs"
    and f: "filter (\<lambda>v. sv_strategy_name v = name \<and> sv_status v = VERSION_ACTIVE) vs = [v]"
    using assms unfolding active_strategy_def bind_result_Inr single_case by blast
  have "v \<in> set (filter (\<lambda>v. sv_strategy_name v = name \<and> sv_status v = VERSION_ACTIVE) vs)" unfolding f by simp
  then show "\<exists>k. get_strategy r k = Inr v" "sv_strategy_name v = name" "sv_status v = VERSION_ACTIVE"
    using list_strategies_set [OF vs] by auto
qed

section \<open>The invariant\<close>

fun candidate_statuses :: "experiment_status \<Rightarrow> version_status list" where
  "candidate_statuses CANDIDATE = [VERSION_CANDIDATE]"
| "candidate_statuses REJECTED = [VERSION_REJECTED]"
| "candidate_statuses PROMOTED = [VERSION_ACTIVE, VERSION_RETIRED]"
| "candidate_statuses COMPLETED = []"
| "candidate_statuses _ = [VERSION_CHALLENGER]"

definition in_service :: "strategy_version \<Rightarrow> bool" where
  "in_service v = (sv_status v \<in> {VERSION_ACTIVE, VERSION_RETIRED})"

text \<open>The evidence an experiment must carry in its status.\<close>

definition evidence_ok :: "research_experiment \<Rightarrow> bool" where
  "evidence_ok e =
     ((ex_status e \<in> {CANDIDATE, PROMOTED} \<longrightarrow> (\<exists>ev. ex_evaluation e = Some ev \<and> ce_passed ev))
      \<and> (ex_status e = PROMOTED \<longrightarrow> (\<exists>a. ex_approved_by e = Some a \<and> a \<noteq> [])))"

type_synonym experiments_map = "string \<Rightarrow> research_experiment option"
type_synonym strategies_map = "string \<Rightarrow> strategy_version option"

definition experiment_ok :: "experiments_map \<Rightarrow> strategies_map \<Rightarrow> string \<Rightarrow> research_experiment \<Rightarrow> bool" where
  "experiment_ok es ss i e =
     (ex_experiment_id e = i \<and> wf_experiment e \<and> evidence_ok e
      \<and> (\<exists>c v. ex_candidate_strategy_version e = Some c \<and> ss c = Some v \<and> sv_source_experiment_id v = Some i
            \<and> sv_status v \<in> set (candidate_statuses (ex_status e)))
      \<and> (\<exists>b w. ex_base_strategy_version e = Some b \<and> ss b = Some w \<and> in_service w))"

definition strategy_ok :: "experiments_map \<Rightarrow> string \<Rightarrow> strategy_version \<Rightarrow> bool" where
  "strategy_ok es k v =
     (sv_version_id v = k
      \<and> (in_service v \<longrightarrow> sv_source_experiment_id v = None
           \<or> (\<exists>i e. sv_source_experiment_id v = Some i \<and> es i = Some e \<and> ex_status e = PROMOTED
                  \<and> ex_candidate_strategy_version e = Some k)))"

definition core_ok :: "experiments_map \<Rightarrow> strategies_map \<Rightarrow> bool" where
  "core_ok es ss =
     ((\<forall>i e. es i = Some e \<longrightarrow> experiment_ok es ss i e) \<and> (\<forall>k v. ss k = Some v \<longrightarrow> strategy_ok es k v))"

lemma core_okD:
  "core_ok es ss \<Longrightarrow> es i = Some e \<Longrightarrow> experiment_ok es ss i e"
  "core_ok es ss \<Longrightarrow> ss k = Some v \<Longrightarrow> strategy_ok es k v"
  by (auto simp: core_ok_def)

lemma experiment_ok_elim:
  assumes "experiment_ok es ss i e"
  obtains c v b w where "ex_experiment_id e = i" "wf_experiment e" "evidence_ok e"
    "ex_candidate_strategy_version e = Some c" "ss c = Some v" "sv_source_experiment_id v = Some i"
    "sv_status v \<in> set (candidate_statuses (ex_status e))"
    "ex_base_strategy_version e = Some b" "ss b = Some w" "in_service w"
  using assms unfolding experiment_ok_def by blast

lemma experiment_ok_intro:
  "ex_experiment_id e = i \<Longrightarrow> wf_experiment e \<Longrightarrow> evidence_ok e \<Longrightarrow> ex_candidate_strategy_version e = Some c \<Longrightarrow>
   ss c = Some v \<Longrightarrow> sv_source_experiment_id v = Some i \<Longrightarrow> sv_status v \<in> set (candidate_statuses (ex_status e)) \<Longrightarrow>
   ex_base_strategy_version e = Some b \<Longrightarrow> ss b = Some w \<Longrightarrow> in_service w \<Longrightarrow> experiment_ok es ss i e"
  unfolding experiment_ok_def by blast

lemma strategy_ok_mono:
  "strategy_ok es k v \<Longrightarrow> (\<And>i e. es i = Some e \<Longrightarrow> ex_status e = PROMOTED \<Longrightarrow> es' i = Some e) \<Longrightarrow> strategy_ok es' k v"
  unfolding strategy_ok_def by blast

lemma in_service_status [simp]:
  "in_service (with_status v s) = (s \<in> {VERSION_ACTIVE, VERSION_RETIRED})"
  "sv_source_experiment_id (with_status v s) = sv_source_experiment_id v"
  "sv_version_id (with_status v s) = sv_version_id v" "sv_status (with_status v s) = s"
  by (simp_all add: in_service_def with_status_def)

text \<open>Moving an experiment that is not yet promoted, and its candidate, to a status out of service.\<close>

lemma core_move:
  assumes ok: "core_ok es ss" and e: "es i = Some e" "ex_status e \<noteq> PROMOTED"
    and c: "ex_candidate_strategy_version e = Some c" "ss c = Some v"
    and e': "ex_experiment_id e' = i" "wf_experiment e'" "evidence_ok e'"
      "ex_candidate_strategy_version e' = Some c" "ex_base_strategy_version e' = ex_base_strategy_version e"
    and v': "sv_version_id v' = c" "sv_source_experiment_id v' = Some i" "\<not> in_service v'"
      "sv_status v' \<in> set (candidate_statuses (ex_status e'))"
  shows "core_ok (es(i \<mapsto> e')) (ss(c \<mapsto> v'))"
proof -
  obtain b w where src: "sv_source_experiment_id v = Some i" "sv_status v \<in> set (candidate_statuses (ex_status e))"
    and b: "ex_base_strategy_version e = Some b" "ss b = Some w" "in_service w"
    by (rule experiment_ok_elim [OF core_okD(1) [OF ok e(1)]]) (use c in simp)
  have out: "\<not> in_service v" using src(2) e(2) by (cases "ex_status e") (auto simp: in_service_def)
  have "experiment_ok (es(i \<mapsto> e')) (ss(c \<mapsto> v')) j f" if j: "(es(i \<mapsto> e')) j = Some f" for j f
  proof (cases "j = i")
    case True
    then have f: "f = e'" using j by simp
    have "b \<noteq> c" using b out c by auto
    then show ?thesis using f True e' v' b by (intro experiment_ok_intro [of _ _ c _ v' b w]) simp_all
  next
    case False
    then have "experiment_ok es ss j f" using core_okD(1) [OF ok, of j f] j by simp
    then show ?thesis
    proof (cases rule: experiment_ok_elim)
      case (1 c' v2 b' w')
      have "c' \<noteq> c" "b' \<noteq> c" using 1 src(1) out c(2) False by auto
      then show ?thesis using 1 by (intro experiment_ok_intro [of _ _ c' _ v2 b' w']) simp_all
    qed
  qed
  moreover have "strategy_ok (es(i \<mapsto> e')) k x" if k: "(ss(c \<mapsto> v')) k = Some x" for k x
  proof (cases "k = c")
    case False
    then have "strategy_ok es k x" using core_okD(2) [OF ok, of k x] k by simp
    then show ?thesis by (rule strategy_ok_mono) (use e in auto)
  qed (use k v' in \<open>simp add: strategy_ok_def\<close>)
  ultimately show ?thesis by (simp add: core_ok_def)
qed

lemma core_promote:
  assumes ok: "core_ok es ss" and e: "es i = Some e" "ex_status e = CANDIDATE"
    and b: "ex_base_strategy_version e = Some b" "ss b = Some w"
    and c: "ex_candidate_strategy_version e = Some c" "ss c = Some v"
    and e': "ex_experiment_id e' = i" "wf_experiment e'" "evidence_ok e'" "ex_status e' = PROMOTED"
      "ex_candidate_strategy_version e' = Some c" "ex_base_strategy_version e' = Some b"
  shows "b \<noteq> c" and "core_ok (es(i \<mapsto> e')) (ss(b \<mapsto> with_status w VERSION_RETIRED, c \<mapsto> with_status v VERSION_ACTIVE))"
proof -
  have src: "sv_source_experiment_id v = Some i" "\<not> in_service v" "in_service w"
    by (rule experiment_ok_elim [OF core_okD(1) [OF ok e(1)]], use b c e(2) in \<open>simp add: in_service_def\<close>)+
  then show bc: "b \<noteq> c" using b(2) c(2) by auto
  let ?ss = "ss(b \<mapsto> with_status w VERSION_RETIRED, c \<mapsto> with_status v VERSION_ACTIVE)"
  have serve: "\<exists>y. ?ss k = Some y \<and> in_service y" if "ss k = Some x" "in_service x" for k x
    using that src bc c by (cases "k = c"; cases "k = b") auto
  have "experiment_ok (es(i \<mapsto> e')) ?ss j f" if j: "(es(i \<mapsto> e')) j = Some f" for j f
  proof (cases "j = i")
    case True
    then have f: "f = e'" using j by simp
    show ?thesis
      using f True e' src bc
      by (intro experiment_ok_intro [of _ _ c _ "with_status v VERSION_ACTIVE" b "with_status w VERSION_RETIRED"]) simp_all
  next
    case False
    then have "experiment_ok es ss j f" using core_okD(1) [OF ok, of j f] j by simp
    then show ?thesis
    proof (cases rule: experiment_ok_elim)
      case (1 c' v' b' w')
      have c': "c' \<noteq> c" using 1 src(1) c(2) False by auto
      have "sv_status w \<noteq> VERSION_CHALLENGER" "sv_status w \<noteq> VERSION_CANDIDATE" "sv_status w \<noteq> VERSION_REJECTED"
        using src(3) by (auto simp: in_service_def)
      then have "\<exists>x. ?ss c' = Some x \<and> sv_source_experiment_id x = Some j \<and> sv_status x \<in> set (candidate_statuses (ex_status f))"
        using 1 c' b(2) bc by (cases "c' = b"; cases "ex_status f") auto
      then obtain x y where "?ss c' = Some x" "sv_source_experiment_id x = Some j" "?ss b' = Some y" "in_service y"
        "sv_status x \<in> set (candidate_statuses (ex_status f))"
        using serve 1 by blast
      then show ?thesis using 1 by (intro experiment_ok_intro [of _ _ c' _ x b' y])
    qed
  qed
  moreover have "strategy_ok (es(i \<mapsto> e')) k x" if k: "?ss k = Some x" for k x
  proof -
    have old: "strategy_ok (es(i \<mapsto> e')) k y" if "ss k = Some y" "k \<noteq> c" for y
      using core_okD(2) [OF ok that(1)] by (rule strategy_ok_mono) (use e in auto)
    consider "k = c" | "k = b" | "k \<noteq> c" "k \<noteq> b" by blast
    then show ?thesis
    proof cases
      case 1
      then show ?thesis using k core_okD(2) [OF ok c(2)] src(1) e' by (simp add: strategy_ok_def) (auto simp: with_status_def)
    next
      case 2
      then have "x = with_status w VERSION_RETIRED" using k bc by simp
      then show ?thesis using old [of w] 2 b(2) bc src(3) by (simp add: strategy_ok_def)
    qed (use k old in auto)
  qed
  ultimately show "core_ok (es(i \<mapsto> e')) ?ss" by (simp add: core_ok_def)
qed

lemma core_new_strategy:
  assumes ok: "core_ok es ss" and v: "ss c = None" "sv_version_id v = c" "\<not> in_service v"
  shows "core_ok es (ss(c \<mapsto> v))"
proof -
  have "experiment_ok es (ss(c \<mapsto> v)) j f" if "es j = Some f" for j f
    using core_okD(1) [OF ok that]
  proof (cases rule: experiment_ok_elim)
    case (1 c' v' b' w')
    have "c' \<noteq> c" "b' \<noteq> c" using 1 v by auto
    with 1 show ?thesis by (intro experiment_ok_intro [of _ _ c' _ v' b' w']) simp_all
  qed
  moreover have "strategy_ok es k x" if "(ss(c \<mapsto> v)) k = Some x" for k x
    using that v core_okD(2) [OF ok] by (auto simp: strategy_ok_def split: if_splits)
  ultimately show ?thesis by (simp add: core_ok_def)
qed

lemma core_new_experiment:
  assumes ok: "core_ok es ss" and e: "es i = None" "experiment_ok es ss i e"
  shows "core_ok (es(i \<mapsto> e)) ss"
proof -
  have "experiment_ok (es(i \<mapsto> e)) ss j f" if "(es(i \<mapsto> e)) j = Some f" for j f
    using that e(2) core_okD(1) [OF ok, of j f] by (cases "j = i") (simp_all add: experiment_ok_def)
  moreover have "strategy_ok (es(i \<mapsto> e)) k x" if "ss k = Some x" for k x
    using core_okD(2) [OF ok that] by (rule strategy_ok_mono) (use e in auto)
  ultimately show ?thesis by (simp add: core_ok_def)
qed

section \<open>Every use case keeps the invariant\<close>

abbreviation exps :: "research_repository \<Rightarrow> experiments_map" where "exps \<equiv> experiments.contents"
abbreviation strats :: "research_repository \<Rightarrow> strategies_map" where "strats \<equiv> strategies.contents"

definition core :: "research_repository \<Rightarrow> bool" where
  "core r = (core_ok (exps r) (strats r) \<and> (\<forall>i e. exps r i = Some e \<longrightarrow> ex_status e \<notin> {RUNNING, COMPLETED}))"

lemma exps_get: "exps r i = Some e \<longleftrightarrow> get_experiment r i = Inr e"
  using experiments.contents_get by metis

lemma strats_get: "strats r i = Some v \<longleftrightarrow> get_strategy r i = Inr v"
  using strategies.contents_get by metis

lemma same_core_contents: "same_core r r' \<Longrightarrow> exps r' = exps r \<and> strats r' = strats r"
  using same_core_get [of r r'] by (simp add: experiments.contents_def strategies.contents_def fun_eq_iff)

lemma saved_strategy: "save_strategy v c r = Inr r' \<Longrightarrow> exps r' = exps r \<and> strats r' = (strats r)(sv_version_id v \<mapsto> v)"
  using strategies.contents_save [OF TrueI] save_strategy_experiments
  by (metis experiments.contents_def fun_eq_iff)

lemma saved_experiment:
  "save_experiment e c r = Inr r' \<Longrightarrow> wf_experiment e \<Longrightarrow>
   exps r' = (exps r)(ex_experiment_id e \<mapsto> e) \<and> strats r' = strats r"
  using experiments.contents_save [of e c r r'] save_experiment_strategies [of e c r r']
  by (metis strategies.contents_def fun_eq_iff)

lemma core_statuses: "core r \<Longrightarrow> core_ok (exps r) (strats r)"
  by (simp add: core_def)

lemma core_same: "same_core r r' \<Longrightarrow> core r \<Longrightarrow> core r'"
  using same_core_contents [of r r'] by (simp add: core_def)

lemma core_initialize:
  assumes "core r" "initialize_strategy env name p r = (r', res)" shows "core r'"
proof (cases "r' = r")
  case False
  then obtain v where l: "list_strategies r = Inr []" and s: "save_strategy v True r = Inr r'"
    and v: "sv_source_experiment_id v = None"
    using assms(2) by (auto simp: initialize_strategy_def Let_def act split: if_splits)
  have "strats r = Map.empty"
    using list_strategies_set [OF l] by (auto simp: fun_eq_iff strategies.contents_def split: sum.split)
  moreover from this have "exps r = Map.empty"
    using core_okD(1) [OF core_statuses [OF assms(1)]] not_None_eq
    by (metis experiment_ok_elim option.discI)
  ultimately show ?thesis
    using saved_strategy [OF s] v by (simp add: core_def core_ok_def strategy_ok_def)
qed (use assms in simp)

lemma active_strategy_core:
  assumes "core r" "active_strategy r name = Inr v"
  shows "strats r (sv_version_id v) = Some v" "in_service v"
proof -
  obtain k where "strats r k = Some v" using active_strategy_Inr(1) [OF assms(2)] by (auto simp: strats_get)
  then show "strats r (sv_version_id v) = Some v"
    using core_okD(2) [OF core_statuses [OF assms(1)], of k v] by (simp add: strategy_ok_def)
  show "in_service v" using active_strategy_Inr(3) [OF assms(2)] by (simp add: in_service_def)
qed

definition wf_command :: "create_experiment_command \<Rightarrow> bool" where
  "wf_command cmd =
     (period_start (cx_train_period cmd) < period_end (cx_train_period cmd)
      \<and> period_start (cx_validation_period cmd) < period_end (cx_validation_period cmd))"

lemma created_none:
  "save_strategy v True r = Inr r' \<Longrightarrow> strats r (sv_version_id v) = None"
  "save_experiment e True r = Inr r' \<Longrightarrow> exps r (ex_experiment_id e) = None"
  using strategies.create_Inr [of v r r'] experiments.create_Inr [of e r r']
  by (simp_all add: strategies.contents_def experiments.contents_def)

lemma core_create:
  assumes c: "core r" and cmd: "wf_command cmd" and run: "create_experiment env cmd r = (r', res)"
  shows "core r'"
proof (cases "r' = r")
  case False
  then obtain champion r1 number i where a: "active_strategy r (cx_strategy_name cmd) = Inr champion"
    and s: "save_strategy (new_candidate env cmd number i) True r = Inr r1"
    and e: "r' = r1 \<or> save_experiment (new_experiment env cmd i (sv_version_id champion)
        (sv_version_id (new_candidate env cmd number i))) True r1 = Inr r'"
    using run unfolding create_experiment_def Let_def act by blast
  let ?v = "new_candidate env cmd number i"
  let ?e = "new_experiment env cmd i (sv_version_id champion) (sv_version_id ?v)"
  note champ = active_strategy_core [OF c a]
  have v: "\<not> in_service ?v" "sv_source_experiment_id ?v = Some i" "sv_status ?v = VERSION_CHALLENGER"
    by (simp_all add: new_candidate_def in_service_def)
  have ok: "core_ok (exps r1) (strats r1)"
    using core_new_strategy [OF core_statuses [OF c] created_none(1) [OF s] refl v(1)] saved_strategy [OF s] by simp
  have r1: "core r1" using ok c saved_strategy [OF s] by (simp add: core_def)
  show ?thesis
  proof (cases "r' = r1")
    case False
    then have s2: "save_experiment ?e True r1 = Inr r'" using e by simp
    have w: "wf_experiment ?e" using cmd by (simp add: wf_experiment_def wf_command_def new_experiment_def)
    have id: "ex_experiment_id ?e = i" by (simp add: new_experiment_def)
    have ne: "sv_version_id champion \<noteq> sv_version_id ?v" using champ(1) created_none(1) [OF s] by auto
    have "experiment_ok (exps r1) (strats r1) i ?e"
      using v champ ne saved_strategy [OF s] w
      by (intro experiment_ok_intro [of _ _ "sv_version_id ?v" _ ?v "sv_version_id champion" champion])
        (simp_all add: new_experiment_def evidence_ok_def)
    then have "core_ok (exps r') (strats r')"
      using core_new_experiment [OF ok _, of i ?e] created_none(2) [OF s2] saved_experiment [OF s2 w] id by simp
    then show ?thesis using r1 saved_experiment [OF s2 w] by (simp add: core_def new_experiment_def)
  qed (use r1 in simp)
qed (use c in simp)

text \<open>A move of one experiment, with or without its candidate.\<close>

lemma move_experiment:
  assumes ok: "core_ok (exps r) (strats r)" and e: "get_experiment r i = Inr e" "ex_status e \<noteq> PROMOTED"
    and t: "transition e s now = Inr e'" and st: "s \<in> {READY, RUNNING, FAILED}"
      "candidate_statuses s = candidate_statuses (ex_status e)"
    and sv: "save_experiment e' False r = Inr r'"
  shows "core_ok (exps r') (strats r')" "exps r' = (exps r)(i \<mapsto> e')" "wf_experiment e'" "ex_experiment_id e' = i"
proof -
  have e1: "exps r i = Some e" using e(1) by (simp add: exps_get)
  from core_okD(1) [OF ok e1] obtain c v b w where x: "ex_experiment_id e = i" "wf_experiment e" "evidence_ok e"
    "ex_candidate_strategy_version e = Some c" "strats r c = Some v" "sv_source_experiment_id v = Some i"
    "sv_status v \<in> set (candidate_statuses (ex_status e))" "ex_base_strategy_version e = Some b"
    by (auto elim: experiment_ok_elim)
  have w: "wf_experiment e'" using transition_wf [OF t] x(2) by simp
  have "\<not> in_service v" using x(7) e(2) by (cases "ex_status e") (auto simp: in_service_def)
  moreover have "sv_version_id v = c" using core_okD(2) [OF ok x(5)] by (simp add: strategy_ok_def)
  moreover have "evidence_ok e'" using transition_Inr [OF t] st(1) by (auto simp: evidence_ok_def)
  ultimately have m: "core_ok ((exps r)(i \<mapsto> e')) ((strats r)(c \<mapsto> v))"
    using core_move [OF ok e1 e(2) x(4,5), of e' v] transition_Inr [OF t] x w e(1) st(2) by simp
  have "(strats r)(c \<mapsto> v) = strats r" using x(5) by (simp only: fun_upd_triv flip: x(5))
  then show "core_ok (exps r') (strats r')" "exps r' = (exps r)(i \<mapsto> e')" "wf_experiment e'" "ex_experiment_id e' = i"
    using m w saved_experiment [OF sv w] transition_Inr [OF t] x(1) by simp_all
qed

lemma core_move_ready:
  assumes c: "core r" and run: "mark_ready env i r = (r', res)" shows "core r'"
proof (cases "r' = r")
  case False
  then obtain e e' where e: "get_experiment r i = Inr e" and t: "transition e READY (rn_clock env 0) = Inr e'"
    and s: "save_experiment e' False r = Inr r'"
    using run unfolding mark_ready_def act by auto
  have d: "ex_status e = DRAFT" using transition_Inr [OF t] by (cases "ex_status e") auto
  note m = move_experiment [OF core_statuses [OF c] e _ t _ _ s]
  have "core_ok (exps r') (strats r')" "exps r' = (exps r)(i \<mapsto> e')" using m d by simp_all
  then show ?thesis using c transition_Inr [OF t] by (simp add: core_def)
qed (use c in simp)

text \<open>The three ways a run ends: refused, failed, or concluded.\<close>

lemma run_experiment_cases:
  assumes run: "run_experiment env i r = (r', res)"
  obtains (refused) err where "res = Inl err" "r' = r"
      "\<And>e. get_experiment r i = Inr e \<Longrightarrow> ex_status e \<noteq> READY"
  | (failed) e running r1 r2 err failed where "get_experiment r i = Inr e" "transition e RUNNING (rn_clock env 0) = Inr running"
      "save_experiment running False r = Inr r1" "res = Inl err" "same_core r1 r2"
      "transition running FAILED (rn_clock env 9) = Inr failed" "save_experiment failed False r2 = Inr r'"
  | (concluded) e running r1 x where "get_experiment r i = Inr e" "transition e RUNNING (rn_clock env 0) = Inr running"
      "save_experiment running False r = Inr r1" "res = Inr x" "execute_experiment env running r1 = (r', Inr x)"
proof -
  consider "\<exists>err. res = Inl err \<and> r' = r \<and> (\<forall>e. get_experiment r i = Inr e \<longrightarrow> ex_status e \<noteq> READY)"
    | e running where "get_experiment r i = Inr e" "transition e RUNNING (rn_clock env 0) = Inr running"
  proof (cases "get_experiment r i")
    case (Inl err)
    then show thesis using run that(1) by (auto simp: run_experiment_def act_bind_def act_read_def)
  next
    case (Inr e)
    show thesis
    proof (cases "transition e RUNNING (rn_clock env 0)")
      case err: (Inl err)
      have "ex_status e \<noteq> READY" using err by (auto simp: transition_def)
      moreover have "res = Inl err" "r' = r"
        using run by (auto simp: run_experiment_def act_bind_def act_read_def act_lift_def Inr err)
      ultimately show thesis using that(1) Inr by simp
    qed (use that(2) Inr in blast)
  qed
  then show thesis
  proof cases
    case 1
    then show thesis using refused by blast
  next
    case (2 e running)
    obtain r1 where r1: "save_experiment running False r = Inr r1" using experiments.save_overwrites by blast
    let ?h = "act_bind (act_lift (transition running FAILED (rn_clock env 9))) (\<lambda>failed. act_save (save_experiment failed False))"
    have ex: "act_reraise (execute_experiment env running) ?h r1 = (r', res)"
      using run by (simp add: run_experiment_def act_bind_def act_read_def act_lift_def act_save_def 2 r1)
    have run: "ex_status running = RUNNING" using transition_Inr [OF 2(2)] by simp
    show thesis
    proof (cases "execute_experiment env running r1")
      case (Pair r2 out)
      show thesis
      proof (cases out)
        case (Inl err)
        have same: "same_core r1 r2" using execute_effect [OF run] Pair Inl by blast
        obtain failed where f: "transition running FAILED (rn_clock env 9) = Inr failed"
          using transition_ok [of FAILED running] run by auto
        obtain r3 where r3: "save_experiment failed False r2 = Inr r3" using experiments.save_overwrites by blast
        have "r' = r3" "res = Inl err"
          using ex by (simp_all add: act_reraise_def Pair Inl act_bind_def act_lift_def act_save_def f r3)
        then show thesis using that(2) [OF 2 r1 _ same f] r3 by simp
      next
        case (Inr x)
        then have "r' = r2" "res = Inr x" using ex Pair by (simp_all add: act_reraise_def)
        then show thesis using concluded [OF 2 r1, of x] Pair Inr by simp
      qed
    qed
  qed
qed

text \<open>A concluded run: the experiment and its candidate get the verdict together.\<close>

lemma concluded_core:
  assumes ok: "core_ok (exps r) (strats r)" and e: "get_experiment r i = Inr e" "ex_status e = RUNNING"
    and x: "execute_experiment env e r = (r', Inr x)"
  shows "core_ok (exps r') (strats r') \<and> exps r' = (exps r)(i \<mapsto> rx_experiment x)
    \<and> ex_status (rx_experiment x) \<in> {CANDIDATE, REJECTED}"
proof -
  from execute_effect [OF e(2) x] obtain final ev c v r0 r1 where f: "rx_experiment x = final"
    "ex_candidate_strategy_version e = Some c" "get_strategy r c = Inr v" "same_core r r0"
    and sv: "save_strategy (with_status v (if ce_passed ev then VERSION_CANDIDATE else VERSION_REJECTED)) False r0 = Inr r1"
    and se: "save_experiment final False r1 = Inr r'"
    and st: "ex_status final = (if ce_passed ev then CANDIDATE else REJECTED)" "ex_evaluation final = Some ev"
      "ex_experiment_id final = ex_experiment_id e" "ex_base_strategy_version final = ex_base_strategy_version e"
      "ex_candidate_strategy_version final = ex_candidate_strategy_version e"
      "ex_approved_by final = ex_approved_by e" "wf_experiment final \<longleftrightarrow> wf_experiment e" by auto
  have e1: "exps r i = Some e" and v: "strats r c = Some v" using e f by (simp_all add: exps_get strats_get)
  from core_okD(1) [OF ok e1] have id: "ex_experiment_id e = i" "wf_experiment e" "sv_source_experiment_id v = Some i"
    using f(2) v by (auto elim: experiment_ok_elim)
  have vid: "sv_version_id v = c" using core_okD(2) [OF ok v] by (simp add: strategy_ok_def)
  let ?v = "with_status v (if ce_passed ev then VERSION_CANDIDATE else VERSION_REJECTED)"
  have w: "wf_experiment final" using st(7) id by simp
  have "core_ok ((exps r)(i \<mapsto> final)) ((strats r)(c \<mapsto> ?v))"
    by (rule core_move [OF ok e1 _ f(2) v]) (use st id vid w e f in \<open>simp_all add: evidence_ok_def\<close>)
  moreover have "exps r1 = exps r" "strats r1 = (strats r)(c \<mapsto> ?v)"
    using saved_strategy [OF sv] same_core_contents [OF f(4)] vid by simp_all
  moreover have "exps r' = (exps r1)(i \<mapsto> final)" "strats r' = strats r1"
    using saved_experiment [OF se w] st(3) id(1) by simp_all
  ultimately show ?thesis using f(1) st(1) by simp
qed

lemma core_run:
  assumes c: "core r" and run: "run_experiment env i r = (r', res)" shows "core r'"
  using run
proof (cases rule: run_experiment_cases)
  case (failed e running r1 r2 err failed)
  have "ex_status e = READY" using transition_Inr [OF failed(2)] by (cases "ex_status e") auto
  then have m: "core_ok (exps r1) (strats r1)" "exps r1 = (exps r)(i \<mapsto> running)"
    using move_experiment [OF core_statuses [OF c] failed(1) _ failed(2) _ _ failed(3)] by simp_all
  have r2: "exps r2 = exps r1" "strats r2 = strats r1" using same_core_contents [OF failed(5)] by simp_all
  have "get_experiment r2 i = Inr running" using m(2) r2(1) exps_get [of r2 i running] by simp
  then have m2: "core_ok (exps r') (strats r')" "exps r' = (exps r2)(i \<mapsto> failed)"
    using move_experiment [of r2 i running FAILED "rn_clock env 9" failed r'] m(1) r2 failed(6,7) transition_Inr [OF failed(2)]
    by simp_all
  then show ?thesis using c m(2) r2 transition_Inr [OF failed(6)] by (auto simp: core_def split: if_splits)
next
  case (concluded e running r1 x)
  have "ex_status e = READY" using transition_Inr [OF concluded(2)] by (cases "ex_status e") auto
  then have m: "core_ok (exps r1) (strats r1)" "exps r1 = (exps r)(i \<mapsto> running)"
    using move_experiment [OF core_statuses [OF c] concluded(1) _ concluded(2) _ _ concluded(3)] by simp_all
  have "get_experiment r1 i = Inr running" using m(2) exps_get [of r1 i running] by simp
  from concluded_core [OF m(1) this _ concluded(5)] transition_Inr [OF concluded(2)] m(2) c
  show ?thesis by (auto simp: core_def split: if_splits)
qed (use c in simp)

lemma promote_cases:
  assumes "promote env i approver r = (r', res)"
  obtains (refused) err where "res = Inl err" "r' = r"
  | (promoted) e e' b w c v r1 r2 where "get_experiment r i = Inr e" "ex_status e = CANDIDATE"
      "ex_base_strategy_version e = Some b" "get_strategy r b = Inr w"
      "ex_candidate_strategy_version e = Some c" "get_strategy r c = Inr v"
      "save_strategy (with_status w VERSION_RETIRED) False r = Inr r1"
      "save_strategy (with_status v VERSION_ACTIVE) False r1 = Inr r2"
      "transition e PROMOTED (rn_clock env 0) = Inr e'" "py_strip approver \<noteq> []"
      "save_experiment (e'\<lparr>ex_approved_by := Some (py_strip approver)\<rparr>) False r2 = Inr r'"
      "res = Inr (e'\<lparr>ex_approved_by := Some (py_strip approver)\<rparr>)"
proof -
  consider (no) err where "res = Inl err" "r' = r"
    | (yes) e b w c v where "get_experiment r i = Inr e" "ex_status e = CANDIDATE" "py_strip approver \<noteq> []"
      "ex_base_strategy_version e = Some b" "get_strategy r b = Inr w"
      "ex_candidate_strategy_version e = Some c" "get_strategy r c = Inr v"
  proof -
    show thesis
    proof (cases "get_experiment r i")
      case (Inl err)
      have "(\<exists>x. res = Inl x) \<and> r' = r"
        using assms by (cases "py_strip approver = []") (auto simp: promote_def act_bind_def act_read_def act_lift_def Inl)
      then show thesis using no by blast
    next
      case e: (Inr e)
      show thesis
      proof (cases "py_strip approver = [] \<or> ex_status e \<noteq> CANDIDATE \<or> ex_base_strategy_version e = None \<or> ex_candidate_strategy_version e = None")
        case True
        then show thesis using assms no e
          by (auto simp: promote_def act_bind_def act_read_def act_lift_def split: if_splits option.splits)
      next
        case False
        then obtain b c where bc: "ex_base_strategy_version e = Some b" "ex_candidate_strategy_version e = Some c" by auto
        show thesis
        proof (cases "get_strategy r b"; cases "get_strategy r c")
          fix w v assume "get_strategy r b = Inr w" "get_strategy r c = Inr v"
          then show thesis using yes e False bc by blast
        qed (use assms no e False bc in \<open>auto simp: promote_def act_bind_def act_read_def act_lift_def\<close>)
      qed
    qed
  qed
  then show thesis
  proof cases
    case no
    then show thesis by (rule refused)
  next
    case yes
    obtain e' where t: "transition e PROMOTED (rn_clock env 0) = Inr e'" using transition_ok [of PROMOTED e] yes(2) by auto
    obtain r1 where 1: "save_strategy (with_status w VERSION_RETIRED) False r = Inr r1" using strategies.save_overwrites by blast
    obtain r2 where 2: "save_strategy (with_status v VERSION_ACTIVE) False r1 = Inr r2" using strategies.save_overwrites by blast
    obtain r3 where 3: "save_experiment (e'\<lparr>ex_approved_by := Some (py_strip approver)\<rparr>) False r2 = Inr r3"
      using experiments.save_overwrites by blast
    have "promote env i approver r = (r3, Inr (e'\<lparr>ex_approved_by := Some (py_strip approver)\<rparr>))"
      by (simp add: promote_def act_bind_def act_read_def act_lift_def act_save_def yes t 1 2 3 Let_def)
    then show thesis using promoted [OF yes(1,2,4,5,6,7) 1 2 t yes(3)] 3 assms by simp
  qed
qed

lemma core_promoted:
  assumes c: "core r" and run: "promote env i approver r = (r', res)" shows "core r'"
  using run
proof (cases rule: promote_cases)
  case (promoted e e' b w c' v r1 r2)
  have ok: "core_ok (exps r) (strats r)" by (rule core_statuses [OF c])
  have g: "exps r i = Some e" "strats r b = Some w" "strats r c' = Some v"
    using promoted(1,4,6) by (simp_all add: exps_get strats_get)
  let ?e = "e'\<lparr>ex_approved_by := Some (py_strip approver)\<rparr>"
  from core_okD(1) [OF ok g(1)] have e: "ex_experiment_id e = i" "wf_experiment e" "evidence_ok e"
    by (auto elim: experiment_ok_elim)
  have w: "wf_experiment ?e" using transition_wf [OF promoted(9)] e(2) by (simp add: wf_experiment_def)
  note t = transition_Inr [OF promoted(9)]
  have id: "sv_version_id w = b" "sv_version_id v = c'"
    using core_okD(2) [OF ok g(2)] core_okD(2) [OF ok g(3)] by (simp_all add: strategy_ok_def)
  have "evidence_ok ?e" using e(3) t promoted(2,10) by (auto simp: evidence_ok_def)
  then have "core_ok ((exps r)(i \<mapsto> ?e)) ((strats r)(b \<mapsto> with_status w VERSION_RETIRED, c' \<mapsto> with_status v VERSION_ACTIVE))"
    by (intro core_promote [OF ok g(1) promoted(2,3) g(2) promoted(5) g(3)])
      (use w t e promoted in simp_all)
  moreover have "exps r2 = exps r" "strats r2 = (strats r)(b \<mapsto> with_status w VERSION_RETIRED, c' \<mapsto> with_status v VERSION_ACTIVE)"
    using saved_strategy [OF promoted(7)] saved_strategy [OF promoted(8)] id by simp_all
  moreover have "exps r' = (exps r2)(i \<mapsto> ?e)" "strats r' = strats r2"
    using saved_experiment [OF promoted(11) w] t e(1) by simp_all
  ultimately show ?thesis using c t by (simp add: core_def)
qed (use c in simp)

lemma core_reject:
  assumes c: "core r" and run: "reject env i r = (r', res)" shows "core r'"
proof (cases "r' = r")
  case False
  then obtain e e' where e: "get_experiment r i = Inr e" and t: "transition e REJECTED (rn_clock env 0) = Inr e'"
    using run unfolding reject_def act by auto
  have ok: "core_ok (exps r) (strats r)" by (rule core_statuses [OF c])
  have e1: "exps r i = Some e" using e by (simp add: exps_get)
  from core_okD(1) [OF ok e1] obtain k v where x: "ex_experiment_id e = i" "wf_experiment e"
    "ex_candidate_strategy_version e = Some k" "strats r k = Some v" "sv_source_experiment_id v = Some i"
    by (auto elim: experiment_ok_elim)
  note tt = transition_Inr [OF t]
  have v: "get_strategy r k = Inr v" "sv_version_id v = k"
    using x(4) core_okD(2) [OF ok x(4)] by (simp_all add: strats_get strategy_ok_def)
  obtain r1 where 1: "save_strategy (with_status v VERSION_REJECTED) False r = Inr r1"
    using strategies.save_overwrites by blast
  obtain r2 where 2: "save_experiment e' False r1 = Inr r2" using experiments.save_overwrites by blast
  have r2: "r' = r2" using run by (simp add: reject_def act_bind_def act_read_def act_lift_def act_save_def e t tt x v 1 2)
  have w: "wf_experiment e'" using transition_wf [OF t] x(2) by simp
  have "ex_status e \<noteq> PROMOTED" using tt by auto
  then have "core_ok ((exps r)(i \<mapsto> e')) ((strats r)(k \<mapsto> with_status v VERSION_REJECTED))"
    by (rule core_move [OF ok e1 _ x(3,4)]) (use tt w v x in \<open>simp_all add: evidence_ok_def\<close>)
  then show ?thesis
    using saved_strategy [OF 1] saved_experiment [OF 2 w] c tt x(1) v(2) unfolding r2 by (auto simp: core_def split: if_splits)
qed (use c in simp)

section \<open>Reachable repositories\<close>

text \<open>
  Every use case may be called in any order, each time with its own market data, clock and
  evaluation version, and it may raise; the repository it leaves is the next one.
\<close>

inductive research_reachable :: "research_repository \<Rightarrow> bool" where
  research_empty: "research_reachable empty_repository"
| research_initialize: "research_reachable r \<Longrightarrow> research_reachable (fst (initialize_strategy env name parameters r))"
| research_create: "research_reachable r \<Longrightarrow> wf_command cmd \<Longrightarrow> research_reachable (fst (create_experiment env cmd r))"
| research_ready: "research_reachable r \<Longrightarrow> research_reachable (fst (mark_ready env i r))"
| research_run: "research_reachable r \<Longrightarrow> research_reachable (fst (run_experiment env i r))"
| research_promote: "research_reachable r \<Longrightarrow> research_reachable (fst (promote env i approver r))"
| research_reject: "research_reachable r \<Longrightarrow> research_reachable (fst (reject env i r))"

lemma core_empty: "core empty_repository"
  by (simp add: core_def core_ok_def exps_get strats_get get_experiment_def get_strategy_def empty_repository_def read_record_def)

lemma reachable_core: "research_reachable r \<Longrightarrow> core r"
proof (induction rule: research_reachable.induct)
  case research_empty
  show ?case by (rule core_empty)
next
  case (research_initialize r env name parameters)
  then show ?case by (auto intro: core_initialize prod.collapse [symmetric])
next
  case (research_create r cmd env)
  then show ?case by (auto intro: core_create prod.collapse [symmetric])
next
  case (research_ready r env i)
  then show ?case by (auto intro: core_move_ready prod.collapse [symmetric])
next
  case (research_run r env i)
  then show ?case by (auto intro: core_run prod.collapse [symmetric])
next
  case (research_promote r env i approver)
  then show ?case by (auto intro: core_promoted prod.collapse [symmetric])
next
  case (research_reject r env i)
  then show ?case by (auto intro: core_reject prod.collapse [symmetric])
qed

section \<open>Properties\<close>

text \<open>C16: In every reachable repository, a strategy other than the initial one is or was active only because its experiment was promoted: the experiment is stored with a passed evaluation and a non-blank approver and names this strategy as its candidate; and no experiment is left RUNNING or COMPLETED.\<close>

theorem active_only_by_promotion:
  assumes "research_reachable r"
  shows "(\<forall>k v. get_strategy r k = Inr v \<and> sv_status v \<in> {VERSION_ACTIVE, VERSION_RETIRED}
            \<and> sv_source_experiment_id v \<noteq> None \<longrightarrow>
          (\<exists>i e ev a. sv_source_experiment_id v = Some i \<and> get_experiment r i = Inr e \<and> ex_status e = PROMOTED
             \<and> ex_candidate_strategy_version e = Some k \<and> ex_evaluation e = Some ev \<and> ce_passed ev
             \<and> ex_approved_by e = Some a \<and> a \<noteq> []))
    \<and> (\<forall>i e. get_experiment r i = Inr e \<longrightarrow> ex_status e \<notin> {RUNNING, COMPLETED})"
proof -
  have c: "core r" by (rule reachable_core [OF assms])
  have "\<exists>i e ev a. sv_source_experiment_id v = Some i \<and> get_experiment r i = Inr e \<and> ex_status e = PROMOTED
             \<and> ex_candidate_strategy_version e = Some k \<and> ex_evaluation e = Some ev \<and> ce_passed ev
             \<and> ex_approved_by e = Some a \<and> a \<noteq> []"
    if served: "get_strategy r k = Inr v" "in_service v" "sv_source_experiment_id v \<noteq> None" for k v
  proof -
    obtain i e where e: "sv_source_experiment_id v = Some i" "exps r i = Some e" "ex_status e = PROMOTED"
      "ex_candidate_strategy_version e = Some k"
      using core_okD(2) [OF core_statuses [OF c], of k v] served by (auto simp: strategy_ok_def strats_get)
    then have "evidence_ok e" using core_okD(1) [OF core_statuses [OF c] e(2)] by (simp add: experiment_ok_def)
    then show ?thesis using e unfolding evidence_ok_def exps_get by blast
  qed
  moreover have "\<forall>i e. get_experiment r i = Inr e \<longrightarrow> ex_status e \<notin> {RUNNING, COMPLETED}"
    using c unfolding core_def exps_get by blast
  ultimately show ?thesis by (auto simp: in_service_def)
qed

text \<open>An experiment that is not READY is refused at once.\<close>

lemma run_refused:
  assumes "get_experiment r i = Inr e" "ex_status e \<noteq> READY"
  shows "\<exists>err. run_experiment env i r = (r, Inl err)"
proof (cases "run_experiment env i r")
  case (Pair r2 res2)
  then show ?thesis
  proof (cases rule: run_experiment_cases)
    case (failed f running)
    then show ?thesis using assms transition_Inr [OF failed(2)] by (cases "ex_status f") auto
  next
    case (concluded f running)
    then show ?thesis using assms transition_Inr [OF concluded(2)] by (cases "ex_status f") auto
  qed (simp add: Pair)
qed

text \<open>C17: A run always settles its experiment: a READY experiment ends as FAILED, when the run raises, or with the verdict that the validation of its periods and the metrics of the two backtests give, and it can never be run again.\<close>

theorem run_settles:
  assumes "research_reachable r" and e: "get_experiment r i = Inr e" "ex_status e = READY"
    and run: "run_experiment env i r = (r', res)"
  shows "\<exists>e'. get_experiment r' i = Inr e'
    \<and> (case res of
         Inl _ \<Rightarrow> ex_status e' = FAILED
       | Inr x \<Rightarrow> rx_experiment x = e' \<and>
           (\<exists>champion challenger checks running. bt_metrics (rx_champion_run x) = Some champion
              \<and> bt_metrics (rx_challenger_run x) = Some challenger
              \<and> transition e RUNNING (rn_clock env 0) = Inr running \<and> validation_checks running = Inr checks
              \<and> ex_status e' = (if checks = []
                    \<and> (\<forall>c. pm_sharpe_ratio champion = Some c \<longrightarrow> (\<exists>s. pm_sharpe_ratio challenger = Some s \<and> c \<le> s))
                    \<and> pm_maximum_drawdown champion \<le> pm_maximum_drawdown challenger
                    \<and> 0 < pm_fee_adjusted_return challenger
                  then CANDIDATE else REJECTED)))
    \<and> (\<forall>env'. \<exists>err. run_experiment env' i r' = (r', Inl err))"
proof -
  have c: "core r" by (rule reachable_core [OF assms(1)])
  note again = run_refused [of r' i]
  from run show ?thesis
  proof (cases rule: run_experiment_cases)
    case (failed e2 running r1 r2 err failed)
    then have m: "exps r1 = (exps r)(i \<mapsto> running)" "core_ok (exps r1) (strats r1)"
      using move_experiment [OF core_statuses [OF c] failed(1) _ failed(2) _ _ failed(3)] e by simp_all
    have r2: "exps r2 = exps r1" "strats r2 = strats r1" using same_core_contents [OF failed(5)] by simp_all
    have "get_experiment r2 i = Inr running" using m r2 exps_get [of r2 i running] by simp
    then have "exps r' = (exps r2)(i \<mapsto> failed)"
      using move_experiment [of r2 i running FAILED "rn_clock env 9" failed r'] m r2 failed(6,7) transition_Inr [OF failed(2)]
      by simp
    then have g: "get_experiment r' i = Inr failed" using exps_get [of r' i failed] by simp
    then show ?thesis using failed(4) transition_Inr [OF failed(6)] again [OF g] by simp
  next
    case (concluded e2 running r1 x)
    have e2: "e2 = e" using concluded(1) e by simp
    have m: "exps r1 = (exps r)(i \<mapsto> running)" "core_ok (exps r1) (strats r1)"
      using move_experiment [OF core_statuses [OF c] concluded(1) _ concluded(2) _ _ concluded(3)] e e2 by simp_all
    have g1: "get_experiment r1 i = Inr running" using m exps_get [of r1 i running] by simp
    have st: "ex_status running = RUNNING" using transition_Inr [OF concluded(2)] by simp
    have "exps r' = (exps r1)(i \<mapsto> rx_experiment x)" "ex_status (rx_experiment x) \<noteq> READY"
      using concluded_core [OF m(2) g1 st concluded(5)] by auto
    then have g: "get_experiment r' i = Inr (rx_experiment x)" "ex_status (rx_experiment x) \<noteq> READY"
      using exps_get [of r' i "rx_experiment x"] by simp_all
    obtain ma mb checks where ev: "bt_metrics (rx_champion_run x) = Some ma" "bt_metrics (rx_challenger_run x) = Some mb"
      "validation_checks running = Inr checks"
      "ex_status (rx_experiment x) = (if ce_passed (evaluate_candidate (rn_policy_version env) ma mb (checks = [])) then CANDIDATE else REJECTED)"
      using execute_effect [OF st concluded(5)] by auto
    then show ?thesis
      unfolding concluded(4) sum.case
      using g(1) again [OF g] concluded(2) e2 unfolding evaluate_candidate_passed by blast
  next
    case refused
    then show ?thesis using e by blast
  qed
qed

section \<open>Who is active after a promotion\<close>

lemma map_result_compose:
  "bind_result (map_result f ks) (map_result g) = Inr ws \<longleftrightarrow> map_result (\<lambda>k. bind_result (f k) g) ks = Inr ws"
proof (induction ks arbitrary: ws)
  case (Cons k ks)
  have "bind_result (map_result f (k # ks)) (map_result g) = Inr ws \<longleftrightarrow>
      (\<exists>d w ws'. f k = Inr d \<and> g d = Inr w \<and> bind_result (map_result f ks) (map_result g) = Inr ws' \<and> ws = w # ws')"
    by (auto simp: py_result)
  also have "\<dots> \<longleftrightarrow> map_result (\<lambda>k. bind_result (f k) g) (k # ks) = Inr ws"
    unfolding Cons.IH by (auto simp: py_result)
  finally show ?case .
qed simp

lemma list_strategies_map:
  "list_strategies r = Inr vs \<longleftrightarrow>
   map_result (get_strategy r) (sort_key (\<lambda>i. i @ ''.json'') (remdups (dict_keys (rr_strategies r)))) = Inr vs"
  unfolding list_strategies_def read_all_def map_result_compose get_strategy_def [abs_def] ..

lemma list_strategies_iff:
  "(\<exists>vs. list_strategies r = Inr vs) \<longleftrightarrow> (\<forall>k \<in> set (dict_keys (rr_strategies r)). \<exists>v. get_strategy r k = Inr v)"
  unfolding list_strategies_map map_result_ok_iff by simp

lemma list_after_save:
  assumes "list_strategies r = Inr vs" "save_strategy v c r = Inr r'"
  shows "\<exists>vs'. list_strategies r' = Inr vs'"
  using assms list_strategies_iff [of r] list_strategies_iff [of r'] get_after_strategy [OF assms(2)]
    strategies.has_saved [OF assms(2)] by auto

lemma list_strategies_distinct:
  assumes "core r" "list_strategies r = Inr vs" shows "distinct vs"
proof -
  have "map_result (get_strategy r) (sort_key (\<lambda>i. i @ ''.json'') (remdups (dict_keys (rr_strategies r)))) = Inr vs"
    using assms(2) by (simp only: list_strategies_map)
  moreover have "map_result (get_strategy r) ks = Inr ws \<Longrightarrow> map sv_version_id ws = ks" for ks ws
    using core_okD(2) [OF core_statuses [OF assms(1)]]
    by (induction ks arbitrary: ws) (auto simp: py_result strats_get strategy_ok_def)
  ultimately have "map sv_version_id vs = sort_key (\<lambda>i. i @ ''.json'') (remdups (dict_keys (rr_strategies r)))" by blast
  then have "distinct (map sv_version_id vs)" by simp
  then show ?thesis by (simp add: distinct_map)
qed

lemma singleton_list: "distinct xs \<Longrightarrow> xs = [x] \<longleftrightarrow> set xs = {x}"
  by (cases xs; cases "tl xs") auto

lemma active_strategy_iff:
  assumes "core r" "list_strategies r = Inr vs"
  shows "active_strategy r name = Inr v \<longleftrightarrow>
    {w. \<exists>k. get_strategy r k = Inr w \<and> sv_strategy_name w = name \<and> sv_status w = VERSION_ACTIVE} = {v}"
proof -
  let ?f = "filter (\<lambda>v. sv_strategy_name v = name \<and> sv_status v = VERSION_ACTIVE) vs"
  have "set ?f = {w. \<exists>k. get_strategy r k = Inr w \<and> sv_strategy_name w = name \<and> sv_status w = VERSION_ACTIVE}"
    using list_strategies_set [OF assms(2)] by auto
  moreover have "?f = [v] \<longleftrightarrow> set ?f = {v}"
    by (rule singleton_list) (simp add: list_strategies_distinct [OF assms])
  moreover have "active_strategy r name = Inr v \<longleftrightarrow> ?f = [v]"
    unfolding active_strategy_def assms(2) bind_result.simps single_case ..
  ultimately show ?thesis by simp
qed

lemma promoted_strategies:
  assumes c: "core r" and p: "promote env i approver r = (r', Inr x)"
    and e: "get_experiment r i = Inr e" "ex_base_strategy_version e = Some b" "ex_candidate_strategy_version e = Some k"
      "get_strategy r b = Inr w" "get_strategy r k = Inr v"
  shows "get_strategy r' l = (if l = k then Inr (with_status v VERSION_ACTIVE)
      else if l = b then Inr (with_status w VERSION_RETIRED) else get_strategy r l)"
    and "list_strategies r = Inr vs \<Longrightarrow> \<exists>vs'. list_strategies r' = Inr vs'" and "ex_status e = CANDIDATE"
proof -
  have ok: "core_ok (exps r) (strats r)" by (rule core_statuses [OF c])
  have id: "sv_version_id w = b" "sv_version_id v = k"
    using core_okD(2) [OF ok, of b w] core_okD(2) [OF ok, of k v] e by (auto simp: strategy_ok_def strats_get)
  from p obtain r1 r2 f where s: "save_strategy (with_status w VERSION_RETIRED) False r = Inr r1"
    "save_strategy (with_status v VERSION_ACTIVE) False r1 = Inr r2" "save_experiment f False r2 = Inr r'"
    "ex_status e = CANDIDATE"
    by (cases rule: promote_cases) (use e in auto)
  show "get_strategy r' l = (if l = k then Inr (with_status v VERSION_ACTIVE)
      else if l = b then Inr (with_status w VERSION_RETIRED) else get_strategy r l)"
    using get_after_strategy [OF s(1), of l] get_after_strategy [OF s(2), of l] save_experiment_strategies [OF s(3)] id by simp
  show "\<exists>vs'. list_strategies r' = Inr vs'" if l: "list_strategies r = Inr vs"
    using list_after_save [OF l s(1)] list_after_save [OF _ s(2)] save_experiment_strategies [OF s(3)] by auto
  show "ex_status e = CANDIDATE" by (rule s(4))
qed

lemma candidate_promotes:
  assumes "core r" "get_experiment r i = Inr e" "ex_status e = CANDIDATE" "py_strip approver \<noteq> []"
  shows "\<exists>r' x. promote env i approver r = (r', Inr x)"
proof -
  have "exps r i = Some e" using assms(2) by (simp add: exps_get)
  from core_okD(1) [OF core_statuses [OF assms(1)] this] obtain c v b w where
    "ex_candidate_strategy_version e = Some c" "get_strategy r c = Inr v" "ex_base_strategy_version e = Some b" "get_strategy r b = Inr w"
    by (auto elim!: experiment_ok_elim simp: strats_get)
  moreover obtain r1 where "save_strategy (with_status w VERSION_RETIRED) False r = Inr r1" using strategies.save_overwrites by blast
  moreover obtain r2 where "save_strategy (with_status v VERSION_ACTIVE) False r1 = Inr r2" using strategies.save_overwrites by blast
  moreover obtain e' where "transition e PROMOTED (rn_clock env 0) = Inr e'" using transition_ok [of PROMOTED e] assms(3) by auto
  moreover obtain r3 where "save_experiment (e'\<lparr>ex_approved_by := Some (py_strip approver)\<rparr>) False r2 = Inr r3"
    using experiments.save_overwrites by blast
  ultimately have "promote env i approver r = (r3, Inr (e'\<lparr>ex_approved_by := Some (py_strip approver)\<rparr>))"
    using assms by (simp add: promote_def act_bind_def act_read_def act_lift_def act_save_def Let_def)
  then show ?thesis by blast
qed

text \<open>A candidate is another version than any that is in service.\<close>

lemma candidate_not_in_service:
  assumes c: "core r" and e: "get_experiment r i = Inr e" "ex_status e = CANDIDATE"
    and k: "ex_candidate_strategy_version e = Some k" "get_strategy r k = Inr v"
  shows "\<not> in_service v"
proof -
  have "exps r i = Some e" using e(1) by (simp add: exps_get)
  then show ?thesis
    using core_okD(1) [OF core_statuses [OF c], of i e] k e(2) by (auto elim!: experiment_ok_elim simp: strats_get in_service_def)
qed

text \<open>C18: Promotion hands the registry over: promoting a candidate of the strategy that is active succeeds, retires that strategy, and leaves the candidate as the one active strategy of its name.\<close>

theorem promotion_hands_over:
  assumes c: "core r" and e: "get_experiment r i = Inr e" "ex_status e = CANDIDATE" "py_strip approver \<noteq> []"
    and b: "ex_base_strategy_version e = Some b" "active_strategy r name = Inr w" "sv_version_id w = b"
    and k: "ex_candidate_strategy_version e = Some k" "get_strategy r k = Inr v" "sv_strategy_name v = name"
  shows "\<exists>r' e'. promote env i approver r = (r', Inr e') \<and> ex_status e' = PROMOTED
    \<and> ex_approved_by e' = Some (py_strip approver) \<and> get_strategy r' b = Inr (with_status w VERSION_RETIRED)
    \<and> active_strategy r' name = Inr (with_status v VERSION_ACTIVE)"
proof -
  obtain r' x where p: "promote env i approver r = (r', Inr x)" using candidate_promotes [OF c e] by blast
  obtain vs where l: "list_strategies r = Inr vs" using b(2) by (auto simp: active_strategy_def py_result)
  have w: "get_strategy r b = Inr w" using active_strategy_core(1) [OF c b(2)] b(3) by (simp add: strats_get)
  note g = promoted_strategies(1) [OF c p e(1) b(1) k(1) w k(2)]
  obtain vs' where l': "list_strategies r' = Inr vs'" using promoted_strategies(2) [OF c p e(1) b(1) k(1) w k(2) l] by blast
  have ne: "b \<noteq> k"
    using candidate_not_in_service [OF c e(1,2) k(1,2)] active_strategy_core(2) [OF c b(2)] w k(2) by auto
  have only: "{u. \<exists>k. get_strategy r k = Inr u \<and> sv_strategy_name u = name \<and> sv_status u = VERSION_ACTIVE} = {w}"
    using active_strategy_iff [OF c l] b(2) by simp
  have id: "l = sv_version_id u" if "get_strategy r l = Inr u" for l u
    using core_okD(2) [OF core_statuses [OF c], of l u] that by (simp add: strategy_ok_def strats_get)
  have "{u. \<exists>l. get_strategy r' l = Inr u \<and> sv_strategy_name u = name \<and> sv_status u = VERSION_ACTIVE} = {with_status v VERSION_ACTIVE}"
  proof (intro equalityI subsetI)
    fix u assume "u \<in> {u. \<exists>l. get_strategy r' l = Inr u \<and> sv_strategy_name u = name \<and> sv_status u = VERSION_ACTIVE}"
    then obtain l where u: "get_strategy r' l = Inr u" "sv_strategy_name u = name" "sv_status u = VERSION_ACTIVE" by auto
    show "u \<in> {with_status v VERSION_ACTIVE}"
    proof (cases "l = k")
      case False
      then have "l \<noteq> b" "get_strategy r l = Inr u" using u g [of l] by (auto split: if_splits)
      then have "u = w" using only u by blast
      then show ?thesis using \<open>l \<noteq> b\<close> id [OF \<open>get_strategy r l = Inr u\<close>] b(3) by simp
    qed (use u g [of l] in simp)
  next
    fix u assume "u \<in> {with_status v VERSION_ACTIVE}"
    then have "get_strategy r' k = Inr u \<and> sv_strategy_name u = name \<and> sv_status u = VERSION_ACTIVE"
      using g [of k] k(3) by (simp add: with_status_def)
    then show "u \<in> {u. \<exists>l. get_strategy r' l = Inr u \<and> sv_strategy_name u = name \<and> sv_status u = VERSION_ACTIVE}" by blast
  qed
  then have "active_strategy r' name = Inr (with_status v VERSION_ACTIVE)"
    using active_strategy_iff [OF core_promoted [OF c p] l'] by simp
  moreover have "ex_status x = PROMOTED \<and> ex_approved_by x = Some (py_strip approver)"
    using p by (cases rule: promote_cases) (auto dest: transition_Inr)
  ultimately show ?thesis using p g [of b] ne by auto
qed

text \<open>Two active versions of one name leave no readable active strategy.\<close>

lemma two_active_unreadable:
  assumes c: "core r" and v: "get_strategy r k = Inr v" "get_strategy r l = Inr u" "k \<noteq> l"
    and active: "sv_status v = VERSION_ACTIVE" "sv_status u = VERSION_ACTIVE" "sv_strategy_name v = name" "sv_strategy_name u = name"
  shows "\<exists>err. active_strategy r name = Inl err"
proof (rule ccontr)
  assume "\<not> ?thesis"
  then obtain z where z: "active_strategy r name = Inr z" by (cases "active_strategy r name") auto
  then obtain vs where "list_strategies r = Inr vs" by (auto simp: active_strategy_def py_result)
  from active_strategy_iff [OF c this] z
  have only: "{u. \<exists>k. get_strategy r k = Inr u \<and> sv_strategy_name u = name \<and> sv_status u = VERSION_ACTIVE} = {z}" by simp
  have "v \<in> {z}" "u \<in> {z}" unfolding only [symmetric] using v active by auto
  moreover have "sv_version_id v = k" "sv_version_id u = l"
    using core_okD(2) [OF core_statuses [OF c], of k v] core_okD(2) [OF core_statuses [OF c], of l u] v
    by (simp_all add: strategy_ok_def strats_get)
  ultimately show False using v(3) by simp
qed

lemma promote_keeps_experiment:
  assumes p: "promote env i approver r = (r1, Inr x)" and e: "get_experiment r i = Inr e" "ex_experiment_id e = i" and ij: "i \<noteq> j"
  shows "get_experiment r1 j = get_experiment r j"
  using p
proof (cases rule: promote_cases)
  case (promoted e2 e3 b2 w2 c2 v2 r3 r4)
  have "ex_experiment_id (e3\<lparr>ex_approved_by := Some (py_strip approver)\<rparr>) = i"
    using transition_Inr [OF promoted(9)] promoted(1) e by simp
  then have "get_experiment r1 j = get_experiment r4 j"
    using experiments.get_other [OF _ promoted(11), of j] ij by simp
  then show ?thesis
    using save_strategy_experiments [OF promoted(7)] save_strategy_experiments [OF promoted(8)] by simp
qed simp

text \<open>C19: Two experiments on the same champion can both be promoted, and then the registry is broken: both candidates are active, so reading the active strategy raises, and so does creating any further experiment for it.\<close>

theorem stale_promotion_breaks_registry:
  assumes c: "core r" and ij: "i \<noteq> j"
    and e: "get_experiment r i = Inr e" "ex_status e = CANDIDATE" "ex_base_strategy_version e = Some b"
      "ex_candidate_strategy_version e = Some k" "get_strategy r k = Inr v" "sv_strategy_name v = name"
    and f: "get_experiment r j = Inr f" "ex_status f = CANDIDATE" "ex_base_strategy_version f = Some b"
      "ex_candidate_strategy_version f = Some l" "get_strategy r l = Inr u" "sv_strategy_name u = name"
    and a: "py_strip approver \<noteq> []" and cmd: "cx_strategy_name cmd = name"
  shows "\<exists>r1 e' r2 f' err. promote env i approver r = (r1, Inr e') \<and> promote env j approver r1 = (r2, Inr f')
    \<and> active_strategy r2 name = Inl err \<and> create_experiment env cmd r2 = (r2, Inl err)"
proof -
  have xs: "exps r i = Some e" "exps r j = Some f" using e(1) f(1) by (simp_all add: exps_get)
  note oke = core_okD(1) [OF core_statuses [OF c] xs(1)] and okf = core_okD(1) [OF core_statuses [OF c] xs(2)]
  have src: "sv_source_experiment_id v = Some i" "sv_source_experiment_id u = Some j" "ex_experiment_id e = i"
      "\<not> in_service v" "\<not> in_service u"
    using oke okf e f by (auto elim!: experiment_ok_elim simp: strats_get in_service_def)
  obtain w where w: "get_strategy r b = Inr w" "in_service w" using oke e(3) by (auto elim!: experiment_ok_elim simp: strats_get)
  have ne: "k \<noteq> l" "k \<noteq> b" "l \<noteq> b" using src ij e(5) f(5) w by auto
  obtain r1 x where p: "promote env i approver r = (r1, Inr x)" using candidate_promotes [OF c e(1,2) a] by blast
  note g1 = promoted_strategies(1) [OF c p e(1,3,4) w(1) e(5)]
  have c1: "core r1" by (rule core_promoted [OF c p])
  have f1: "get_experiment r1 j = Inr f" using promote_keeps_experiment [OF p e(1) src(3) ij] f(1) by simp
  obtain r2 y where p2: "promote env j approver r1 = (r2, Inr y)" using candidate_promotes [OF c1 f1 f(2) a] by blast
  note g2 = promoted_strategies(1) [OF c1 p2 f1 f(3,4), of "with_status w VERSION_RETIRED" u]
  have two: "get_strategy r2 k = Inr (with_status v VERSION_ACTIVE)" "get_strategy r2 l = Inr (with_status u VERSION_ACTIVE)"
    using g2 [of k] g2 [of l] g1 [of b] g1 [of l] g1 [of k] ne w f(5) by simp_all
  then obtain err where err: "active_strategy r2 name = Inl err"
    using two_active_unreadable [OF core_promoted [OF c1 p2] two ne(1)] e(6) f(6) by (auto simp: with_status_def)
  then have "create_experiment env cmd r2 = (r2, Inl err)"
    by (simp add: create_experiment_def act_bind_def act_read_def cmd)
  then show ?thesis using p p2 err by blast
qed

section \<open>Sample values\<close>

definition sample_research_env :: research_env where
  "sample_research_env =
     \<lparr>rn_numpy = plain_numpy, rn_enum = sample_enum, rn_fetch = (\<lambda>_ _ _. Inl (FileNotFoundError ''BTCKRW'')),
      rn_sha256 = (\<lambda>_. ''0123456789abcdef0123''), rn_policy_version = ''candidate-policy-v1'', rn_clock = int\<rparr>"
definition sample_creation :: create_experiment_command where
  "sample_creation =
     \<lparr>cx_hypothesis = ''shorter window'', cx_strategy_name = ''momentum'',
      cx_candidate_parameters = JObj [(''momentum_window_days'', JInt 20)], cx_pair_symbols = [''KRW-BTC''],
      cx_train_period = \<lparr>period_start = 0, period_end = days 100\<rparr>,
      cx_validation_period = \<lparr>period_start = days 102, period_end = days 200\<rparr>,
      cx_validation_method = WALK_FORWARD, cx_feature_changes = [], cx_requested_metrics = [''sharpe_ratio'']\<rparr>"

definition sample_started :: research_repository where
  "sample_started = fst (initialize_strategy sample_research_env ''momentum'' (JObj []) empty_repository)"

definition sample_drafted :: research_repository where
  "sample_drafted = fst (create_experiment sample_research_env sample_creation sample_started)"

definition sample_ready :: research_repository where
  "sample_ready = fst (mark_ready sample_research_env ''crypto-exp-0123456789abcdef'' sample_drafted)"

lemma sample_ready_experiment:
  "case get_experiment sample_ready ''crypto-exp-0123456789abcdef'' of Inl _ \<Rightarrow> False | Inr e \<Rightarrow> ex_status e = READY"
  by code_simp

lemma sample_ready_reachable: "research_reachable sample_ready"
  unfolding sample_ready_def sample_drafted_def sample_started_def
  by (intro research_ready research_create research_initialize research_empty)
    (simp add: wf_command_def sample_creation_def days_def)

lemma run_settles_witness:
  "\<exists>e'. get_experiment (fst (run_experiment sample_research_env ''crypto-exp-0123456789abcdef'' sample_ready))
     ''crypto-exp-0123456789abcdef'' = Inr e' \<and> ex_status e' \<in> {FAILED, CANDIDATE, REJECTED}"
proof -
  obtain e where e: "get_experiment sample_ready ''crypto-exp-0123456789abcdef'' = Inr e" "ex_status e = READY"
    using sample_ready_experiment by (auto split: sum.splits)
  obtain r' res where run: "run_experiment sample_research_env ''crypto-exp-0123456789abcdef'' sample_ready = (r', res)"
    by (cases "run_experiment sample_research_env ''crypto-exp-0123456789abcdef'' sample_ready")
  show ?thesis
    using run_settles [OF sample_ready_reachable e run] by (cases res) (auto simp: run split: if_splits)
qed

lemma active_only_by_promotion_witness:
  "\<exists>e. get_experiment sample_ready ''crypto-exp-0123456789abcdef'' = Inr e
     \<and> ex_status e \<noteq> RUNNING \<and> ex_status e \<noteq> COMPLETED"
proof -
  obtain e where "get_experiment sample_ready ''crypto-exp-0123456789abcdef'' = Inr e"
    using sample_ready_experiment by (auto split: sum.splits)
  then show ?thesis using active_only_by_promotion [OF sample_ready_reachable] by blast
qed

text \<open>A registry with one champion and two candidates for it.\<close>

definition stored_strategy :: "strategy_version \<Rightarrow> research_repository \<Rightarrow> research_repository" where
  "stored_strategy v r = (case save_strategy v False r of Inl _ \<Rightarrow> r | Inr r' \<Rightarrow> r')"

definition stored_experiment :: "research_experiment \<Rightarrow> research_repository \<Rightarrow> research_repository" where
  "stored_experiment e r = (case save_experiment e False r of Inl _ \<Rightarrow> r | Inr r' \<Rightarrow> r')"

definition sample_version :: "string \<Rightarrow> version_status \<Rightarrow> string option \<Rightarrow> strategy_version" where
  "sample_version i s x =
     \<lparr>sv_version_id = i, sv_strategy_name = ''momentum'', sv_version = 1, sv_parameters_json = JObj [], sv_status = s,
      sv_created_at = 0, sv_source_experiment_id = x\<rparr>"

definition sample_candidate :: "string \<Rightarrow> string \<Rightarrow> research_experiment" where
  "sample_candidate i k =
     (new_experiment sample_research_env sample_creation i ''v1'' k)\<lparr>ex_status := CANDIDATE,
        ex_evaluation := Some \<lparr>ce_passed = True, ce_policy_version = ''candidate-policy-v1'', ce_reasons = []\<rparr>\<rparr>"

definition sample_registry :: research_repository where
  "sample_registry =
     stored_experiment (sample_candidate ''x3'' ''v3'') (stored_experiment (sample_candidate ''x2'' ''v2'')
       (stored_strategy (sample_version ''v3'' VERSION_CANDIDATE (Some ''x3''))
         (stored_strategy (sample_version ''v2'' VERSION_CANDIDATE (Some ''x2''))
           (stored_strategy (sample_version ''v1'' VERSION_ACTIVE None) empty_repository))))"

lemma stored_maps:
  "exps (stored_strategy v r) = exps r" "strats (stored_strategy v r) = (strats r)(sv_version_id v \<mapsto> v)"
  "wf_experiment e \<Longrightarrow> exps (stored_experiment e r) = (exps r)(ex_experiment_id e \<mapsto> e)"
  "wf_experiment e \<Longrightarrow> strats (stored_experiment e r) = strats r"
proof -
  obtain r1 r2 where s: "save_strategy v False r = Inr r1" "save_experiment e False r = Inr r2"
    using strategies.save_overwrites experiments.save_overwrites by metis
  show "exps (stored_strategy v r) = exps r" "strats (stored_strategy v r) = (strats r)(sv_version_id v \<mapsto> v)"
    using saved_strategy [OF s(1)] by (simp_all add: stored_strategy_def s)
  show "wf_experiment e \<Longrightarrow> exps (stored_experiment e r) = (exps r)(ex_experiment_id e \<mapsto> e)"
    "wf_experiment e \<Longrightarrow> strats (stored_experiment e r) = strats r"
    using saved_experiment [OF s(2)] by (simp_all add: stored_experiment_def s)
qed

lemma sample_candidate_facts [simp]:
  "wf_experiment (sample_candidate i k)" "ex_experiment_id (sample_candidate i k) = i"
  "ex_status (sample_candidate i k) = CANDIDATE" "ex_base_strategy_version (sample_candidate i k) = Some ''v1''"
  "ex_candidate_strategy_version (sample_candidate i k) = Some k" "evidence_ok (sample_candidate i k)"
  by (simp_all add: sample_candidate_def new_experiment_def wf_experiment_def sample_creation_def days_def evidence_ok_def)

lemma sample_version_facts [simp]:
  "sv_version_id (sample_version i s x) = i" "sv_strategy_name (sample_version i s x) = ''momentum''"
  "sv_status (sample_version i s x) = s" "sv_source_experiment_id (sample_version i s x) = x"
  by (simp_all add: sample_version_def)

lemma empty_maps: "exps empty_repository = Map.empty" "strats empty_repository = Map.empty"
  by (auto simp: fun_eq_iff experiments.contents_def strategies.contents_def get_experiment_def get_strategy_def
      empty_repository_def read_record_def)

lemma sample_registry_maps:
  "exps sample_registry = [''x2'' \<mapsto> sample_candidate ''x2'' ''v2'', ''x3'' \<mapsto> sample_candidate ''x3'' ''v3'']"
  "strats sample_registry = [''v1'' \<mapsto> sample_version ''v1'' VERSION_ACTIVE None,
     ''v2'' \<mapsto> sample_version ''v2'' VERSION_CANDIDATE (Some ''x2''), ''v3'' \<mapsto> sample_version ''v3'' VERSION_CANDIDATE (Some ''x3'')]"
  by (simp_all add: sample_registry_def stored_maps empty_maps)

lemma core_sample_registry: "core sample_registry"
  unfolding core_def core_ok_def sample_registry_maps
  by (auto simp: experiment_ok_def strategy_ok_def in_service_def split: if_splits)

lemma sample_registry_get:
  "get_experiment sample_registry ''x2'' = Inr (sample_candidate ''x2'' ''v2'')"
  "get_experiment sample_registry ''x3'' = Inr (sample_candidate ''x3'' ''v3'')"
  "get_strategy sample_registry ''v1'' = Inr (sample_version ''v1'' VERSION_ACTIVE None)"
  "get_strategy sample_registry ''v2'' = Inr (sample_version ''v2'' VERSION_CANDIDATE (Some ''x2''))"
  "get_strategy sample_registry ''v3'' = Inr (sample_version ''v3'' VERSION_CANDIDATE (Some ''x3''))"
  unfolding exps_get [symmetric] strats_get [symmetric] sample_registry_maps by simp_all

lemma sample_active:
  "active_strategy sample_registry ''momentum'' = Inr (sample_version ''v1'' VERSION_ACTIVE None)"
proof -
  have "\<forall>k \<in> set (dict_keys (rr_strategies sample_registry)). is_ok (get_strategy sample_registry k)"
    by code_simp
  then have "\<forall>k \<in> set (dict_keys (rr_strategies sample_registry)). \<exists>v. get_strategy sample_registry k = Inr v"
    by (simp only: is_ok_iff)
  then obtain vs where vs: "list_strategies sample_registry = Inr vs" using list_strategies_iff by blast
  show ?thesis
    unfolding active_strategy_iff [OF core_sample_registry vs] strats_get [symmetric] sample_registry_maps
    by (auto split: if_splits)
qed

lemma promotion_hands_over_witness:
  "\<exists>r' v. active_strategy r' ''momentum'' = Inr v \<and> sv_version_id v = ''v2''
     \<and> r' = fst (promote sample_research_env ''x2'' ''reviewer'' sample_registry)"
  using promotion_hands_over [OF core_sample_registry sample_registry_get(1) _ _ _ sample_active _ _ sample_registry_get(4),
      of "''reviewer''" "''v1''" sample_research_env]
  by (auto simp: py_strip_def py_isspace_def)

lemma stale_promotion_breaks_registry_witness:
  "\<exists>r1 e r2 f err. promote sample_research_env ''x2'' ''reviewer'' sample_registry = (r1, Inr e)
     \<and> promote sample_research_env ''x3'' ''reviewer'' r1 = (r2, Inr f) \<and> active_strategy r2 ''momentum'' = Inl err"
  using stale_promotion_breaks_registry [OF core_sample_registry _ sample_registry_get(1) _ _ _ sample_registry_get(4) _
      sample_registry_get(2) _ _ _ sample_registry_get(5), where name = "''momentum''" and b = "''v1''" and
      approver = "''reviewer''" and cmd = sample_creation and env = sample_research_env]
  by (auto simp: py_strip_def py_isspace_def sample_creation_def)

text \<open>C20: The JSON files are a faithful store: saving a record updates the map of records that reading sees at that identity and nowhere else, for every experiment and strategy, and only creating an identity that exists is refused.\<close>

theorem research_store_refines_maps:
  assumes "wf_experiment e"
  shows "(case save_experiment e create r of
            Inl err \<Rightarrow> create \<and> ex_experiment_id e \<in> set (dict_keys (rr_experiments r))
          | Inr r' \<Rightarrow> exps r' = (exps r)(ex_experiment_id e \<mapsto> e) \<and> strats r' = strats r)
    \<and> (case save_strategy v create r of
            Inl err \<Rightarrow> create \<and> sv_version_id v \<in> set (dict_keys (rr_strategies r))
          | Inr r' \<Rightarrow> strats r' = (strats r)(sv_version_id v \<mapsto> v) \<and> exps r' = exps r)"
  using saved_experiment [OF _ assms, of create r] saved_strategy [of v create r]
    experiments.save_fails [of e create r] strategies.save_fails [of v create r]
  by (auto split: sum.split)

lemma research_store_refines_maps_witness:
  "case save_experiment (sample_candidate ''x4'' ''v4'') True sample_registry of
     Inl err \<Rightarrow> False | Inr r' \<Rightarrow> exps r' ''x4'' = Some (sample_candidate ''x4'' ''v4'')"
proof -
  have "''x4'' \<notin> set (dict_keys (rr_experiments sample_registry))" by code_simp
  then show ?thesis
    using research_store_refines_maps [OF sample_candidate_facts(1) [of "''x4''" "''v4''"], where create = True and r = sample_registry]
    by (auto split: sum.splits)
qed

text \<open>C21: Experiments come to an end: no experiment has an infinite sequence of transitions, and it can take no further one exactly when it is FAILED, REJECTED or PROMOTED.\<close>

theorem lifecycle_terminates:
  "wf {(e', e). \<exists>target now. transition e target now = Inr e'}
   \<and> ((\<forall>target now. \<not> is_ok (transition e target now)) \<longleftrightarrow> ex_status e \<in> {FAILED, REJECTED, PROMOTED})"
proof
  show "wf {(e', e). \<exists>target now. transition e target now = Inr e'}"
  proof (rule wf_subset [OF wf_measure])
    show "{(e', e). \<exists>target now. transition e target now = Inr e'} \<subseteq> measure (\<lambda>e. remaining (ex_status e))"
      using transition_Inr allowed_remaining by fastforce
  qed
  have "(\<exists>target now. is_ok (transition e target now)) \<longleftrightarrow> allowed_targets (ex_status e) \<noteq> []"
    unfolding is_ok_iff using transition_Inr [of e] transition_ok [of _ e] by (metis list.set_intros(1) list.exhaust empty_iff list.set(1))
  then show "(\<forall>target now. \<not> is_ok (transition e target now)) \<longleftrightarrow> ex_status e \<in> {FAILED, REJECTED, PROMOTED}"
    by (cases "ex_status e") auto
qed

text \<open>
  Creating an experiment is not atomic: the same command again is refused, since its experiment
  exists, but only after a further challenger has been registered that no experiment names.
\<close>

lemma recreation_leaves_orphan:
  "case create_experiment sample_research_env sample_creation sample_drafted of
     (r', Inl (FileExistsError _)) \<Rightarrow>
       dict_keys (rr_experiments r') = dict_keys (rr_experiments sample_drafted)
       \<and> dict_keys (rr_strategies sample_drafted) = [''momentum:v1'', ''momentum:v2'']
       \<and> dict_keys (rr_strategies r') = [''momentum:v1'', ''momentum:v2'', ''momentum:v3'']
   | _ \<Rightarrow> False"
  by code_simp

end
