(* ===== verification/DerivStore.thy ===== *)
theory DerivStore
  imports Derivatives Domain
begin

text \<open>
  The SQLite repository of the derivatives observer (\<^verbatim>\<open>derivatives/repository.py\<close>) and the mark price
  observation (\<^verbatim>\<open>derivatives/mark_price.py\<close>).

  A table is the list of its rows in the order of insertion.  Values are stored as the text of a
  \<^verbatim>\<open>Decimal\<close>, an ISO time in UTC or a \<^verbatim>\<open>REAL\<close>, all of which read back exactly, so a row holds the
  value itself; the order of the ISO texts is the order of the instants.  Reading a row builds the
  domain object again and so runs its checks again.  Where a query orders by a column with an index,
  SQLite walks the index: equal values come in the order of insertion, or backwards when the order is
  descending.
\<close>

section \<open>Mark prices\<close>

record mark_price_observation =
  mp_symbol :: string
  mp_event_at :: utc
  mp_received_at :: utc
  mp_mark_price :: decimal
  mp_index_price :: decimal
  mp_funding_rate :: decimal
  mp_next_funding_at :: utc

definition check_mark_price :: "mark_price_observation \<Rightarrow> mark_price_observation result" where
  "check_mark_price m =
     (if mp_mark_price m \<le> 0 \<or> mp_index_price m \<le> 0
      then Inl (ValueError ''mark/index price must be positive'')
      else if mp_received_at m < mp_event_at m then Inl (ValueError ''future mark price event'')
      else Inr m)"

section \<open>The tables\<close>

record derivatives_store =
  ds_snapshots :: "(string \<times> derivatives_snapshot) list"
  ds_signals :: "squeeze_signal list"
  ds_crowding :: "crowding_signal list"
  ds_liquidations :: "(string \<times> liquidation_event) list"
  ds_coinbase :: "(string \<times> coinbase_price_observation) list"
  ds_mark_prices :: "mark_price_observation list"
  ds_streams :: "market_stream_status list"

definition empty_store :: derivatives_store where
  "empty_store =
     \<lparr>ds_snapshots = [], ds_signals = [], ds_crowding = [], ds_liquidations = [], ds_coinbase = [],
      ds_mark_prices = [], ds_streams = []\<rparr>"

text \<open>\<^verbatim>\<open>INSERT OR IGNORE\<close>: the row of a primary key that exists is not replaced.\<close>

definition insert_or_ignore :: "('r \<Rightarrow> 'k) \<Rightarrow> 'r \<Rightarrow> 'r list \<Rightarrow> 'r list" where
  "insert_or_ignore key row rows = (if key row \<in> set (map key rows) then rows else rows @ [row])"

text \<open>\<^verbatim>\<open>ORDER BY key DESC\<close>.\<close>

definition newest_first :: "('r \<Rightarrow> 'k :: linorder) \<Rightarrow> 'r list \<Rightarrow> 'r list" where
  "newest_first key rows = rev (sort_key key rows)"

definition row_limit :: "int \<Rightarrow> 'r list \<Rightarrow> 'r list" where
  "row_limit n rows = take (nat n) rows"

section \<open>Writing\<close>

definition save_mark_price :: "mark_price_observation \<Rightarrow> derivatives_store \<Rightarrow> derivatives_store" where
  "save_mark_price v db =
     db\<lparr>ds_mark_prices := insert_or_ignore (\<lambda>m. (mp_symbol m, mp_event_at m)) v (ds_mark_prices db)\<rparr>"

definition save_snapshot :: "digest \<Rightarrow> derivatives_snapshot \<Rightarrow> derivatives_store \<Rightarrow> derivatives_store" where
  "save_snapshot sha256 v db =
     db\<lparr>ds_snapshots := insert_or_ignore fst (snapshot_id sha256 v, v) (ds_snapshots db)\<rparr>"

definition save_liquidation :: "digest \<Rightarrow> liquidation_event \<Rightarrow> derivatives_store \<Rightarrow> derivatives_store" where
  "save_liquidation sha256 v db =
     db\<lparr>ds_liquidations := insert_or_ignore fst (liquidation_event_id sha256 v, v) (ds_liquidations db)\<rparr>"

definition save_coinbase_price ::
    "digest \<Rightarrow> coinbase_price_observation \<Rightarrow> derivatives_store \<Rightarrow> derivatives_store" where
  "save_coinbase_price sha256 v db =
     db\<lparr>ds_coinbase := insert_or_ignore fst (coinbase_observation_id sha256 v, v) (ds_coinbase db)\<rparr>"

text \<open>
  Signals refer to a stored snapshot.  A row that is ignored is not checked against the foreign key;
  one that is inserted is, and a violation is not ignored.
\<close>

definition save_signal :: "squeeze_signal \<Rightarrow> derivatives_store \<Rightarrow> derivatives_store result" where
  "save_signal v db =
     (let rows = insert_or_ignore (\<lambda>s. (sq_snapshot_id s, sq_feature_version s)) v (ds_signals db)
      in if rows \<noteq> ds_signals db \<and> sq_snapshot_id v \<notin> set (map fst (ds_snapshots db))
         then Inl (IntegrityError ''FOREIGN KEY constraint failed'')
         else Inr (db\<lparr>ds_signals := rows\<rparr>))"

definition save_crowding_signal :: "crowding_signal \<Rightarrow> derivatives_store \<Rightarrow> derivatives_store result" where
  "save_crowding_signal v db =
     (let rows = insert_or_ignore (\<lambda>s. (cr_snapshot_id s, cr_feature_version s)) v (ds_crowding db)
      in if rows \<noteq> ds_crowding db \<and> cr_snapshot_id v \<notin> set (map fst (ds_snapshots db))
         then Inl (IntegrityError ''FOREIGN KEY constraint failed'')
         else Inr (db\<lparr>ds_crowding := rows\<rparr>))"

text \<open>The status row of a stream: \<^verbatim>\<open>ON CONFLICT(stream_name) DO UPDATE\<close>.\<close>

fun upsert_status ::
    "market_stream_status \<Rightarrow> (market_stream_status \<Rightarrow> market_stream_status)
     \<Rightarrow> market_stream_status list \<Rightarrow> market_stream_status list" where
  "upsert_status fresh upd [] = [fresh]"
| "upsert_status fresh upd (s # ss) =
     (if ms_stream_name s = ms_stream_name fresh then upd s # ss else s # upsert_status fresh upd ss)"

definition mark_stream_connected :: "string \<Rightarrow> utc \<Rightarrow> derivatives_store \<Rightarrow> derivatives_store" where
  "mark_stream_connected stream_name t db =
     db\<lparr>ds_streams := upsert_status
          \<lparr>ms_stream_name = stream_name, ms_state = CONNECTED, ms_updated_at = t, ms_connected_since = Some t,
           ms_last_message_at = None, ms_last_error = None\<rparr>
          (\<lambda>s. s\<lparr>ms_state := CONNECTED, ms_updated_at := t, ms_connected_since := Some t\<rparr>) (ds_streams db)\<rparr>"

definition mark_stream_message :: "string \<Rightarrow> utc \<Rightarrow> derivatives_store \<Rightarrow> derivatives_store" where
  "mark_stream_message stream_name t db =
     db\<lparr>ds_streams := map (\<lambda>s. if ms_stream_name s = stream_name
          then s\<lparr>ms_state := CONNECTED, ms_updated_at := t, ms_last_message_at := Some t, ms_last_error := None\<rparr>
          else s) (ds_streams db)\<rparr>"

definition mark_stream_down ::
    "stream_state \<Rightarrow> string \<Rightarrow> utc \<Rightarrow> string option \<Rightarrow> derivatives_store \<Rightarrow> derivatives_store" where
  "mark_stream_down state stream_name t error db =
     db\<lparr>ds_streams := upsert_status
          \<lparr>ms_stream_name = stream_name, ms_state = state, ms_updated_at = t, ms_connected_since = None,
           ms_last_message_at = None, ms_last_error = error\<rparr>
          (\<lambda>s. s\<lparr>ms_state := state, ms_updated_at := t, ms_connected_since := None, ms_last_error := error\<rparr>)
          (ds_streams db)\<rparr>"

definition mark_stream_disconnected ::
    "string \<Rightarrow> utc \<Rightarrow> string option \<Rightarrow> derivatives_store \<Rightarrow> derivatives_store" where
  "mark_stream_disconnected stream_name t error = mark_stream_down DISCONNECTED stream_name t error"

definition mark_stream_stale :: "string \<Rightarrow> utc \<Rightarrow> string \<Rightarrow> derivatives_store \<Rightarrow> derivatives_store" where
  "mark_stream_stale stream_name t error = mark_stream_down STREAM_STALE stream_name t (Some error)"

section \<open>Reading\<close>

definition mark_price_known_at ::
    "string \<Rightarrow> datetime \<Rightarrow> derivatives_store \<Rightarrow> mark_price_observation option result" where
  "mark_price_known_at symbol as_of db =
     bind_result (require_utc as_of ''as_of'') (\<lambda>cutoff.
       case newest_first mp_event_at (filter (\<lambda>m. mp_symbol m = symbol \<and> mp_event_at m \<le> cutoff
              \<and> mp_received_at m \<le> cutoff) (ds_mark_prices db)) of
         [] \<Rightarrow> Inr None
       | m # _ \<Rightarrow> bind_result (check_mark_price m) (\<lambda>m. Inr (Some m)))"

definition stream_statuses :: "derivatives_store \<Rightarrow> market_stream_status list" where
  "stream_statuses db = sort_key ms_stream_name (ds_streams db)"

definition continuously_connected_since :: "string \<Rightarrow> utc \<Rightarrow> derivatives_store \<Rightarrow> bool" where
  "continuously_connected_since stream_name t db =
     (case find (\<lambda>s. ms_stream_name s = stream_name) (ds_streams db) of
        None \<Rightarrow> False
      | Some s \<Rightarrow> ms_state s = CONNECTED \<and> (case ms_connected_since s of None \<Rightarrow> False | Some u \<Rightarrow> u \<le> t))"

definition liquidation_notional ::
    "string \<Rightarrow> liquidated_position \<Rightarrow> utc \<Rightarrow> utc \<Rightarrow> derivatives_store \<Rightarrow> decimal" where
  "liquidation_notional symbol position start end_at db =
     dsum 0 (map (\<lambda>(i, e). notional_usd e) (sort_key (\<lambda>(i, e). le_event_time e)
       (filter (\<lambda>(i, e). le_symbol e = py_upper symbol \<and> le_position e = position
          \<and> start < le_event_time e \<and> le_event_time e \<le> end_at) (ds_liquidations db))))"

definition short_liquidation_notional :: "string \<Rightarrow> utc \<Rightarrow> utc \<Rightarrow> derivatives_store \<Rightarrow> decimal" where
  "short_liquidation_notional symbol start end_at db = liquidation_notional symbol LIQUIDATED_SHORT start end_at db"

definition liquidations :: "string \<Rightarrow> int \<Rightarrow> derivatives_store \<Rightarrow> liquidation_event list result" where
  "liquidations symbol limit db =
     (if limit \<le> 0 then Inl (ValueError ''liquidation limit must be positive'')
      else map_result check_liquidation_event (row_limit limit (newest_first le_event_time
             (filter (\<lambda>e. le_symbol e = py_upper symbol) (map snd (ds_liquidations db))))))"

definition latest_coinbase_price ::
    "string \<Rightarrow> utc \<Rightarrow> derivatives_store \<Rightarrow> coinbase_price_observation result" where
  "latest_coinbase_price product_id t db =
     (case newest_first cp_observed_at
             (filter (\<lambda>c. cp_product_id c = py_upper product_id \<and> cp_observed_at c \<le> t) (map snd (ds_coinbase db))) of
        [] \<Rightarrow> Inl (KeyError product_id)
      | c # _ \<Rightarrow> check_coinbase_price c)"

definition snapshots :: "string \<Rightarrow> int \<Rightarrow> derivatives_store \<Rightarrow> derivatives_snapshot list result" where
  "snapshots symbol limit db =
     (if limit \<le> 0 then Inl (ValueError ''snapshot limit must be positive'')
      else map_result check_snapshot (rev (row_limit limit (newest_first sn_available_at
             (filter (\<lambda>s. sn_symbol s = py_upper symbol) (map snd (ds_snapshots db)))))))"

definition signals ::
    "string \<Rightarrow> int \<Rightarrow> string option \<Rightarrow> derivatives_store \<Rightarrow> squeeze_signal list result" where
  "signals symbol limit feature_version db =
     (if limit \<le> 0 then Inl (ValueError ''signal limit must be positive'')
      else map_result check_squeeze_signal (row_limit limit (newest_first sq_as_of
             (filter (\<lambda>s. sq_symbol s = py_upper symbol
                \<and> (case feature_version of None \<Rightarrow> True | Some v \<Rightarrow> sq_feature_version s = py_strip v))
                (ds_signals db)))))"

definition crowding_signals ::
    "string \<Rightarrow> int \<Rightarrow> string \<Rightarrow> derivatives_store \<Rightarrow> crowding_signal list result" where
  "crowding_signals symbol limit feature_version db =
     (if limit \<le> 0 then Inl (ValueError ''crowding signal limit must be positive'')
      else map_result check_crowding_signal (row_limit limit (newest_first cr_as_of
             (filter (\<lambda>s. cr_symbol s = py_upper symbol \<and> cr_feature_version s = py_strip feature_version)
                (ds_crowding db)))))"

definition latest_snapshot :: "string \<Rightarrow> derivatives_store \<Rightarrow> derivatives_snapshot result" where
  "latest_snapshot symbol db =
     bind_result (snapshots symbol 1 db) (\<lambda>vs. case vs of [] \<Rightarrow> Inl (KeyError symbol) | v # _ \<Rightarrow> Inr v)"

definition latest_signal :: "string \<Rightarrow> string \<Rightarrow> derivatives_store \<Rightarrow> squeeze_signal result" where
  "latest_signal symbol feature_version db =
     bind_result (signals symbol 1 (Some feature_version) db) (\<lambda>vs. case vs of [] \<Rightarrow> Inl (KeyError symbol) | v # _ \<Rightarrow> Inr v)"

subsection \<open>What was known at an instant\<close>

text \<open>The snapshot a signal refers to is stored and was available by the cutoff (the \<^verbatim>\<open>JOIN\<close>).\<close>

definition source_available :: "derivatives_store \<Rightarrow> utc \<Rightarrow> string \<Rightarrow> bool" where
  "source_available db cutoff i =
     (case map_of (ds_snapshots db) i of None \<Rightarrow> False | Some s \<Rightarrow> sn_available_at s \<le> cutoff)"

text \<open>The latest of the rows known by the cutoff; ties by the greater snapshot identity.\<close>

definition latest_known :: "('r \<Rightarrow> utc) \<Rightarrow> ('r \<Rightarrow> string) \<Rightarrow> 'r list \<Rightarrow> 'r option" where
  "latest_known as_of sid rows =
     (case newest_first as_of (sort_key sid rows) of [] \<Rightarrow> None | r # _ \<Rightarrow> Some r)"

definition crowding_known_at ::
    "string \<Rightarrow> datetime \<Rightarrow> string \<Rightarrow> derivatives_store \<Rightarrow> (derivatives_snapshot \<times> crowding_signal) option result" where
  "crowding_known_at symbol as_of feature_version db =
     bind_result (require_utc as_of ''as_of'') (\<lambda>cutoff.
       case latest_known cr_as_of cr_snapshot_id (filter (\<lambda>c. cr_symbol c = py_upper symbol
              \<and> cr_feature_version c = py_strip feature_version
              \<and> cr_as_of c \<le> cutoff \<and> source_available db cutoff (cr_snapshot_id c)) (ds_crowding db)) of
         None \<Rightarrow> Inr None
       | Some c \<Rightarrow>
           (case map_of (ds_snapshots db) (cr_snapshot_id c) of
              None \<Rightarrow> Inr None
            | Some s \<Rightarrow> bind_result (check_snapshot s) (\<lambda>s. bind_result (check_crowding_signal c) (\<lambda>c. Inr (Some (s, c))))))"

definition observation_known_at ::
    "digest \<Rightarrow> string \<Rightarrow> datetime \<Rightarrow> string \<Rightarrow> derivatives_store
     \<Rightarrow> (derivatives_snapshot \<times> squeeze_signal) option result" where
  "observation_known_at sha256 symbol as_of feature_version db =
     bind_result (require_utc as_of ''as_of'') (\<lambda>cutoff.
       let sym = py_upper (py_strip symbol); version = py_strip feature_version
       in if sym = [] \<or> version = [] then Inl (ValueError ''symbol and feature version are required'')
          else case latest_known sq_as_of sq_snapshot_id (filter (\<lambda>s. sq_symbol s = sym \<and> sq_feature_version s = version
                      \<and> sq_as_of s \<le> cutoff \<and> source_available db cutoff (sq_snapshot_id s)) (ds_signals db)) of
                 None \<Rightarrow> Inr None
               | Some g \<Rightarrow>
                   (case map_of (ds_snapshots db) (sq_snapshot_id g) of
                      None \<Rightarrow> Inr None
                    | Some s \<Rightarrow>
                        bind_result (check_snapshot s) (\<lambda>s. bind_result (check_squeeze_signal g) (\<lambda>g.
                          if snapshot_id sha256 s \<noteq> sq_snapshot_id g \<or> sn_symbol s \<noteq> sq_symbol g
                          then Inl (ValueError ''derivatives signal does not match its source snapshot'')
                          else Inr (Some (s, g))))))"

section \<open>Append-only tables\<close>

locale append_only =
  fixes save :: "'v \<Rightarrow> 'db \<Rightarrow> 'db" and rows :: "'db \<Rightarrow> 'r list" and row :: "'v \<Rightarrow> 'r" and key :: "'r \<Rightarrow> 'k"
  assumes save_rows: "rows (save v db) = insert_or_ignore key (row v) (rows db)"
begin

lemma rows_kept: "\<exists>new. rows (save v db) = rows db @ new \<and> set new \<subseteq> {row v}"
  by (simp add: save_rows insert_or_ignore_def)

lemma kept: "set (rows db) \<subseteq> set (rows (save v db))"
  by (auto simp: save_rows insert_or_ignore_def)

lemma new_row: "r \<in> set (rows (save v db)) \<Longrightarrow> r \<in> set (rows db) \<or> r = row v"
  by (auto simp: save_rows insert_or_ignore_def split: if_splits)

lemma keys_distinct: "distinct (map key (rows db)) \<Longrightarrow> distinct (map key (rows (save v db)))"
  by (auto simp: save_rows insert_or_ignore_def)

lemma saved: "key (row v) \<in> key ` set (rows (save v db))"
  by (auto simp: save_rows insert_or_ignore_def)

lemma view_unchanged: "\<not> P (row v) \<Longrightarrow> filter P (rows (save v db)) = filter P (rows db)"
  by (simp add: save_rows insert_or_ignore_def)

lemma save_again: "key (row w) = key (row v) \<Longrightarrow> rows (save w (save v db)) = rows (save v db)"
  by (auto simp: save_rows insert_or_ignore_def)

end

text \<open>The signal tables without their foreign key.\<close>

definition put_signal :: "squeeze_signal \<Rightarrow> derivatives_store \<Rightarrow> derivatives_store" where
  "put_signal v db =
     db\<lparr>ds_signals := insert_or_ignore (\<lambda>s. (sq_snapshot_id s, sq_feature_version s)) v (ds_signals db)\<rparr>"

definition put_crowding :: "crowding_signal \<Rightarrow> derivatives_store \<Rightarrow> derivatives_store" where
  "put_crowding v db =
     db\<lparr>ds_crowding := insert_or_ignore (\<lambda>s. (cr_snapshot_id s, cr_feature_version s)) v (ds_crowding db)\<rparr>"

interpretation snapshot_table: append_only "save_snapshot sha256" ds_snapshots "\<lambda>v. (snapshot_id sha256 v, v)" fst for sha256
  by unfold_locales (simp add: save_snapshot_def)

interpretation liquidation_table: append_only "save_liquidation sha256" ds_liquidations
    "\<lambda>v. (liquidation_event_id sha256 v, v)" fst for sha256
  by unfold_locales (simp add: save_liquidation_def)

interpretation coinbase_table: append_only "save_coinbase_price sha256" ds_coinbase
    "\<lambda>v. (coinbase_observation_id sha256 v, v)" fst for sha256
  by unfold_locales (simp add: save_coinbase_price_def)

interpretation mark_price_table: append_only save_mark_price ds_mark_prices "\<lambda>v. v" "\<lambda>m. (mp_symbol m, mp_event_at m)"
  by unfold_locales (simp add: save_mark_price_def)

interpretation signal_table: append_only put_signal ds_signals "\<lambda>v. v" "\<lambda>s. (sq_snapshot_id s, sq_feature_version s)"
  by unfold_locales (simp add: put_signal_def)

interpretation crowding_table: append_only put_crowding ds_crowding "\<lambda>v. v" "\<lambda>s. (cr_snapshot_id s, cr_feature_version s)"
  by unfold_locales (simp add: put_crowding_def)

lemma save_signal_Inr: "save_signal v db = Inr db' \<Longrightarrow> db' = put_signal v db"
  by (auto simp: save_signal_def put_signal_def Let_def split: if_splits)

lemma save_crowding_Inr: "save_crowding_signal v db = Inr db' \<Longrightarrow> db' = put_crowding v db"
  by (auto simp: save_crowding_signal_def put_crowding_def Let_def split: if_splits)

lemma save_signal_known: "sq_snapshot_id v \<in> set (map fst (ds_snapshots db)) \<Longrightarrow> save_signal v db = Inr (put_signal v db)"
  by (simp add: save_signal_def put_signal_def Let_def)

lemma save_crowding_known:
  "cr_snapshot_id v \<in> set (map fst (ds_snapshots db)) \<Longrightarrow> save_crowding_signal v db = Inr (put_crowding v db)"
  by (simp add: save_crowding_signal_def put_crowding_def Let_def)

lemma put_frame [simp]:
  "ds_snapshots (put_signal v db) = ds_snapshots db" "ds_crowding (put_signal v db) = ds_crowding db"
  "ds_coinbase (put_signal v db) = ds_coinbase db"
  "ds_snapshots (put_crowding w db) = ds_snapshots db" "ds_signals (put_crowding w db) = ds_signals db"
  "ds_coinbase (put_crowding w db) = ds_coinbase db"
  "ds_signals (save_snapshot sha256 s db) = ds_signals db" "ds_crowding (save_snapshot sha256 s db) = ds_crowding db"
  "ds_coinbase (save_snapshot sha256 s db) = ds_coinbase db"
  by (simp_all add: put_signal_def put_crowding_def save_snapshot_def)

section \<open>The newest row\<close>

lemma newest_first_hd:
  assumes "newest_first key rows = r # rs"
  shows "r \<in> set rows" "\<forall>x \<in> set rows. key x \<le> key r"
proof -
  have s: "sort_key key rows = rev rs @ [r]" using assms by (simp add: newest_first_def rev_swap)
  show "r \<in> set rows" using arg_cong [OF s, of set] by auto
  have "sorted (map key (rev rs @ [r]))" using s by (metis sorted_sort_key)
  then have "\<forall>x \<in> set (rev rs @ [r]). key x \<le> key r" by (auto simp: sorted_append)
  then show "\<forall>x \<in> set rows. key x \<le> key r" using arg_cong [OF s, of set] by auto
qed

lemma set_newest_first [simp]: "set (newest_first key rows) = set rows"
  by (simp add: newest_first_def)

lemma newest_first_empty [simp]: "newest_first key rows = [] \<longleftrightarrow> rows = []"
  by (metis set_empty set_newest_first)

lemma latest_known_None: "latest_known t i rows = None \<longleftrightarrow> rows = []"
proof -
  have "sort_key i rows = [] \<longleftrightarrow> rows = []" by (metis set_empty set_sort)
  then show ?thesis unfolding latest_known_def by (metis list.case(1) list.exhaust list.simps(5) newest_first_empty option.distinct(1))
qed

lemma latest_known_Nil [simp]: "latest_known t i [] = None"
  by (simp add: latest_known_None)

lemma latest_known_Some:
  assumes "latest_known t i rows = Some r"
  shows "r \<in> set rows" "\<forall>x \<in> set rows. t x \<le> t r"
proof -
  obtain rs where n: "newest_first t (sort_key i rows) = r # rs"
    using assms by (auto simp: latest_known_def split: list.splits)
  show "r \<in> set rows" "\<forall>x \<in> set rows. t x \<le> t r" using newest_first_hd [OF n] by simp_all
qed

lemma last_snapshots:
  assumes h: "snapshots symbol limit db = Inr hs" and valid: "\<forall>(i, v) \<in> set (ds_snapshots db). check_snapshot v = Inr v"
    and v: "(i, v) \<in> set (ds_snapshots db)" "sn_symbol v = py_upper symbol"
  shows "hs \<noteq> []" "set hs \<subseteq> snd ` set (ds_snapshots db)"
    "\<exists>u \<in> set hs. sn_available_at v \<le> sn_available_at u"
proof -
  let ?rows = "filter (\<lambda>s. sn_symbol s = py_upper symbol) (map snd (ds_snapshots db))"
  let ?n = "newest_first sn_available_at ?rows"
  have vin: "v \<in> set ?rows" using v by force
  have l: "0 < limit" using h by (auto simp: snapshots_def split: if_splits)
  have m: "map_result check_snapshot (rev (row_limit limit ?n)) = Inr hs" using h l by (simp add: snapshots_def)
  have sub: "set (row_limit limit ?n) \<subseteq> set ?rows" unfolding row_limit_def using set_take_subset by fastforce
  have id: "map_result check_snapshot xs = Inr xs" if "set xs \<subseteq> set ?rows" for xs
    using that valid by (induction xs) (auto simp: py_result)
  then have hs: "hs = rev (row_limit limit ?n)" using m id [of "rev (row_limit limit ?n)"] sub by simp
  obtain r rs where n: "?n = r # rs" using vin by (metis list.exhaust list.set(1) empty_iff set_newest_first)
  have r: "r \<in> set hs" unfolding hs n row_limit_def using l by (cases "nat limit") auto
  then show "hs \<noteq> []" by auto
  show "set hs \<subseteq> snd ` set (ds_snapshots db)" using hs sub by auto
  show "\<exists>u \<in> set hs. sn_available_at v \<le> sn_available_at u" using newest_first_hd(2) [OF n] vin r by blast
qed

lemma snapshots_ok:
  assumes valid: "\<forall>(i, v) \<in> set (ds_snapshots db). check_snapshot v = Inr v" and l: "0 < limit"
  shows "\<exists>hs. snapshots symbol limit db = Inr hs"
proof -
  let ?rows = "filter (\<lambda>s. sn_symbol s = py_upper symbol) (map snd (ds_snapshots db))"
  have "set (row_limit limit (newest_first sn_available_at ?rows)) \<subseteq> snd ` set (ds_snapshots db)"
    unfolding row_limit_def using set_take_subset [of "nat limit" "newest_first sn_available_at ?rows"] by auto
  then have "\<forall>s \<in> set (rev (row_limit limit (newest_first sn_available_at ?rows))). \<exists>y. check_snapshot s = Inr y"
    using valid by fastforce
  then have "\<exists>ys. map_result check_snapshot (rev (row_limit limit (newest_first sn_available_at ?rows))) = Inr ys"
    unfolding map_result_ok_iff .
  then show ?thesis using l by (simp add: snapshots_def)
qed

end
