(* ===== verification/Overlay.thy ===== *)
theory Overlay
  imports DerivStore Gates
begin

text \<open>
  The decision overlay of the derivatives observer (\<^verbatim>\<open>derivatives/overlay.py\<close>): what the stored
  observations say to a decision at an instant.
\<close>

fun recommendation_of :: "squeeze_state \<Rightarrow> overlay_recommendation \<times> string" where
  "recommendation_of SQ_NONE = (NO_CONFIRMATION, ''NO_DERIVATIVES_RISK_ON_CONFIRMATION'')"
| "recommendation_of SQ_FUEL = (WAIT_FOR_IGNITION, ''SHORT_FUEL_WAITING_FOR_IGNITION'')"
| "recommendation_of SQ_IGNITION = (CONFIRM_RISK_ON, ''DERIVATIVES_RISK_ON_CONFIRMED'')"
| "recommendation_of SQ_ACTIVE = (CONFIRM_RISK_ON, ''DERIVATIVES_RISK_ON_CONFIRMED'')"
| "recommendation_of SQ_INSUFFICIENT_DATA = (UNKNOWN, ''DERIVATIVES_SIGNAL_INCOMPLETE'')"

definition crowding_availability_of ::
    "utc \<Rightarrow> crowding_signal option \<Rightarrow> timedelta option \<Rightarrow> overlay_availability option" where
  "crowding_availability_of decision_as_of crowding maximum_age =
     (case maximum_age of
        None \<Rightarrow> None
      | Some m \<Rightarrow> Some (case crowding of
          None \<Rightarrow> MISSING
        | Some c \<Rightarrow> if m < decision_as_of - cr_as_of c then STALE
                    else if cr_state c = CS_INSUFFICIENT_DATA then INCOMPLETE else AVAILABLE))"

definition crowding_age_of :: "utc \<Rightarrow> crowding_signal option \<Rightarrow> timedelta option \<Rightarrow> pyfloat option" where
  "crowding_age_of decision_as_of crowding maximum_age =
     (case (maximum_age, crowding) of
        (Some m, Some c) \<Rightarrow> Some (total_seconds (decision_as_of - cr_as_of c))
      | _ \<Rightarrow> None)"

definition overlay_of ::
    "digest \<Rightarrow> utc \<Rightarrow> derivatives_snapshot \<Rightarrow> squeeze_signal \<Rightarrow> pyfloat \<Rightarrow> overlay_availability
     \<Rightarrow> overlay_recommendation \<Rightarrow> string list \<Rightarrow> (derivatives_snapshot \<times> crowding_signal) option
     \<Rightarrow> timedelta option \<Rightarrow> decision_overlay result" where
  "overlay_of sha256 decision_as_of s g age availability recommendation reasons crowding_observation crowding_maximum_age =
     (let c = map_option snd crowding_observation;
          opt = (\<lambda>f. case c of None \<Rightarrow> None | Some x \<Rightarrow> f x)
      in bind_result (mark_index_basis_rate s) (\<lambda>mark_index.
           check_overlay
             \<lparr>ov_decision_as_of = decision_as_of, ov_availability = availability, ov_recommendation = recommendation,
              ov_reason_codes = reasons, ov_symbol = sn_symbol s, ov_snapshot_id = Some (snapshot_id sha256 s),
              ov_snapshot_available_at = Some (sn_available_at s), ov_signal_as_of = Some (sq_as_of g),
              ov_age_seconds = Some age, ov_feature_version = Some (sq_feature_version g), ov_state = Some (sq_state g),
              ov_fuel_score = sq_fuel_score g, ov_ignition_score = sq_ignition_score g,
              ov_open_interest_change_15m = sq_open_interest_change_15m g,
              ov_open_interest_change_1h = sq_open_interest_change_1h g,
              ov_futures_price_change_15m = sq_futures_price_change_15m g,
              ov_futures_price_change_1h = sq_futures_price_change_1h g,
              ov_spot_return_15m = sq_spot_return_15m g, ov_spot_volume_ratio = sq_spot_volume_ratio g,
              ov_spot_breakout = sq_spot_breakout g, ov_short_liquidation_usd_15m = sq_short_liquidation_usd_15m g,
              ov_liquidation_confirmed = Some (sq_liquidation_confirmed g), ov_mark_price = Some (sn_mark_price s),
              ov_index_price = Some (sn_index_price s), ov_open_interest_usd = Some (sn_open_interest_usd s),
              ov_funding_rate = Some (sn_funding_rate s), ov_basis_rate = sn_basis_rate s,
              ov_mark_index_basis_rate = Some mark_index, ov_basis_input_rate = sq_basis_input_rate g,
              ov_basis_input_source = sq_basis_input_source g,
              ov_global_long_short_ratio = Some (sn_global_long_short_ratio s),
              ov_top_position_long_short_ratio = Some (sn_top_position_long_short_ratio s),
              ov_taker_buy_sell_ratio = Some (sn_taker_buy_sell_ratio s),
              ov_coinbase_price_usd = sn_coinbase_price_usd s, ov_coinbase_premium_rate = sn_coinbase_premium_rate s,
              ov_coinbase_observed_at = sn_coinbase_observed_at s, ov_missing_fields = sn_missing_fields s,
              ov_crowding_availability = crowding_availability_of decision_as_of c crowding_maximum_age,
              ov_crowding_snapshot_id = map_option cr_snapshot_id c, ov_crowding_signal_as_of = map_option cr_as_of c,
              ov_crowding_age_seconds = crowding_age_of decision_as_of c crowding_maximum_age,
              ov_crowding_feature_version = map_option cr_feature_version c, ov_crowding_state = map_option cr_state c,
              ov_crowding_dominant_side = map_option cr_dominant_side c,
              ov_long_crowding_score = opt cr_long_crowding_score, ov_short_crowding_score = opt cr_short_crowding_score,
              ov_crowding_intensity = opt cr_crowding_intensity, ov_bullish_unwind_score = opt cr_bullish_unwind_score,
              ov_bearish_unwind_score = opt cr_bearish_unwind_score, ov_crowding_confidence = map_option cr_confidence c,
              ov_long_liquidation_usd_15m = opt cr_long_liquidation_usd_15m\<rparr>))"

text \<open>The constructor of the provider: the normalised symbol.\<close>

definition provider_symbol :: "string \<Rightarrow> string result" where
  "provider_symbol symbol =
     (let s = py_upper (py_strip symbol)
      in if s = [] then Inl (ValueError ''overlay symbol is required'') else Inr s)"

definition observation_reasons ::
    "derivatives_snapshot \<Rightarrow> squeeze_signal \<Rightarrow> string list \<Rightarrow> string list" where
  "observation_reasons s g reasons =
     dict_fromkeys (reasons
       @ (if ''coinbase_premium_rate'' \<in> sn_missing_fields s then [''OPTIONAL_COINBASE_PREMIUM_MISSING''] else [])
       @ (if \<not> sq_liquidation_confirmed g then [''LIQUIDATION_COVERAGE_UNCONFIRMED''] else []))"

text \<open>Availability, recommendation and reasons of an observation of a given age.\<close>

definition judge_observation ::
    "squeeze_signal \<Rightarrow> pyfloat \<Rightarrow> timedelta \<Rightarrow> overlay_availability \<times> overlay_recommendation \<times> string list" where
  "judge_observation g age maximum_age =
     (if total_seconds maximum_age < age then (STALE, UNKNOWN, [''DERIVATIVES_SIGNAL_STALE''])
      else if sq_state g = SQ_INSUFFICIENT_DATA
      then (INCOMPLETE, UNKNOWN, dict_fromkeys (''DERIVATIVES_SIGNAL_INCOMPLETE'' # sq_evidence g))
      else case recommendation_of (sq_state g) of
             (r, primary) \<Rightarrow> (AVAILABLE, r, dict_fromkeys (primary # sq_evidence g)))"

definition overlay_known_at ::
    "digest \<Rightarrow> string \<Rightarrow> derivatives_store \<Rightarrow> datetime \<Rightarrow> string \<Rightarrow> timedelta \<Rightarrow> string option \<Rightarrow> timedelta option
     \<Rightarrow> decision_overlay result" where
  "overlay_known_at sha256 symbol db as_of feature_version maximum_age crowding_version crowding_maximum_age =
     bind_result (require_utc as_of ''as_of'') (\<lambda>cutoff.
       let version = py_strip feature_version
       in if version = [] then Inl (ValueError ''overlay feature version is required'')
          else if maximum_age \<le> 0 then Inl (ValueError ''overlay maximum age must be positive'')
          else if (case crowding_version of None \<Rightarrow> False
                   | Some v \<Rightarrow> py_strip v = [] \<or> (case crowding_maximum_age of None \<Rightarrow> True | Some m \<Rightarrow> m \<le> 0))
          then Inl (ValueError ''crowding feature version and positive maximum age are required'')
          else bind_result (observation_known_at sha256 symbol (Aware cutoff) version db) (\<lambda>observation.
            case observation of
              None \<Rightarrow> check_overlay (bare_overlay cutoff MISSING UNKNOWN [''NO_COMPATIBLE_DERIVATIVES_SIGNAL''] symbol version)
            | Some (s, g) \<Rightarrow>
                (let age = total_seconds (cutoff - max (sn_available_at s) (sq_as_of g));
                     (availability, recommendation, reasons) = judge_observation g age maximum_age
                 in bind_result (case crowding_version of None \<Rightarrow> Inr None
                                 | Some v \<Rightarrow> crowding_known_at symbol (Aware cutoff) v db) (\<lambda>crowding.
                      overlay_of sha256 cutoff s g age availability recommendation (observation_reasons s g reasons)
                        crowding crowding_maximum_age))))"

text \<open>The provider as the rebalance service calls it.\<close>

definition stored_overlays :: "digest \<Rightarrow> string \<Rightarrow> derivatives_store \<Rightarrow> overlay_provider" where
  "stored_overlays sha256 symbol db q =
     overlay_known_at sha256 symbol db (Aware (oq_as_of q)) (oq_feature_version q) (oq_maximum_age q)
       (oq_crowding_feature_version q) (oq_crowding_maximum_age q)"

end
