(* ===== verification/Signals.thy ===== *)
theory Signals
  imports Derivatives Domain
begin

text \<open>
  The scores of the derivatives observer: the squeeze calculators of \<^verbatim>\<open>derivatives/service.py\<close> (the frozen
  version 2 and the basis-proxy version 3) and the crowding calculator of \<^verbatim>\<open>derivatives/crowding.py\<close>.

  Scores are \<^verbatim>\<open>float\<close> arithmetic in the order the source does it.  \<^verbatim>\<open>math.log1p\<close> is the argument
  \<open>log1p\<close>; a sum of floats is the compensated sum of CPython 3.12, the version the project requires.
\<close>

section \<open>Float primitives\<close>

text \<open>\<^verbatim>\<open>sum\<close> of floats: the running sum and the compensation (Neumaier).\<close>

fun compensated_sum :: "pyfloat \<Rightarrow> pyfloat \<Rightarrow> pyfloat list \<Rightarrow> pyfloat" where
  "compensated_sum s c [] = fadd s c"
| "compensated_sum s c (x # xs) =
     (let t = fadd s x
      in compensated_sum t
           (if \<bar>x\<bar> \<le> \<bar>s\<bar> then fadd c (fadd (fsub s t) x) else fadd c (fadd (fsub x t) s)) xs)"

fun float_sum :: "pyfloat list \<Rightarrow> pyfloat" where
  "float_sum [] = 0"
| "float_sum (x # xs) = compensated_sum x 0 xs"

text \<open>\<^verbatim>\<open>round(x, 6)\<close>.\<close>

definition round6 :: "pyfloat \<Rightarrow> pyfloat" where
  "round6 x = flt (of_int (round_half_even (x * 10 ^ 6)) / 10 ^ 6)"

definition clamp :: "pyfloat \<Rightarrow> pyfloat" where
  "clamp v = max 0 (min 1 v)"

text \<open>\<^verbatim>\<open>statistics.median\<close> of a list that is not empty.\<close>

definition float_median :: "pyfloat list \<Rightarrow> pyfloat" where
  "float_median xs =
     (let s = sort xs; n = length s
      in if odd n then s ! (n div 2) else fquot (fadd (s ! (n div 2 - 1)) (s ! (n div 2))) 2)"

section \<open>The squeeze calculators\<close>

datatype squeeze_calculator = SQUEEZE_V2 | SQUEEZE_V3_PROXY

fun squeeze_feature_version :: "squeeze_calculator \<Rightarrow> string" where
  "squeeze_feature_version SQUEEZE_V2 = ''btc-squeeze-v2-market-streams''"
| "squeeze_feature_version SQUEEZE_V3_PROXY = ''btc-squeeze-v3-mark-index-basis-proxy''"

fun uses_proxy :: "squeeze_calculator \<Rightarrow> bool" where
  "uses_proxy SQUEEZE_V2 = False"
| "uses_proxy SQUEEZE_V3_PROXY = True"

text \<open>The relative change of a field over a delay, from the latest observation at least that old.\<close>

definition change_of :: "(derivatives_snapshot \<Rightarrow> decimal) \<Rightarrow> timedelta \<Rightarrow> derivatives_snapshot list \<Rightarrow> pyfloat option" where
  "change_of field delay values =
     (let latest = last values;
          target = sn_available_at latest - delay;
          candidates = filter (\<lambda>s. sn_available_at s \<le> target) (butlast values)
      in if candidates = [] then None
         else let previous = last candidates
              in if minutes 20 < target - sn_available_at previous then None
                 else let current_value = flt (field latest); previous_value = flt (field previous)
                      in if previous_value = 0 then None
                         else Some (fsub (fquot current_value previous_value) 1))"

definition basis_input ::
    "squeeze_calculator \<Rightarrow> derivatives_snapshot \<Rightarrow> (decimal option \<times> basis_source option) result" where
  "basis_input k latest =
     (if uses_proxy k
      then bind_result (mark_index_basis_rate latest) (\<lambda>r. Inr (Some r, Some MARK_INDEX_PROXY))
      else Inr (case sn_basis_rate latest of None \<Rightarrow> (None, None) | Some r \<Rightarrow> (Some r, Some OFFICIAL)))"

definition with_basis_evidence :: "squeeze_calculator \<Rightarrow> string list \<Rightarrow> string list" where
  "with_basis_evidence k evidence =
     (if uses_proxy k then dict_fromkeys (evidence @ [''BASIS_INPUT_MARK_INDEX_PROXY'']) else evidence)"

definition fuel_score ::
    "derivatives_snapshot \<Rightarrow> decimal option \<Rightarrow> pyfloat option \<Rightarrow> pyfloat option \<Rightarrow> pyfloat option" where
  "fuel_score latest basis_input_rate oi_change_1h price_change_1h =
     (case (oi_change_1h, price_change_1h, basis_input_rate) of
        (Some oi, Some price, Some basis) \<Rightarrow>
          (let oi_build = clamp (fquot oi (flt (3 / 100)));
               price_softness = clamp (fquot (fsub (flt (1 / 100)) price) (flt (2 / 100)));
               low_funding = clamp (fquot (fsub (flt (5 / 100000)) (flt (sn_funding_rate latest))) (flt (2 / 10000)));
               backwardation = clamp (fquot (- flt basis) (flt (1 / 1000)));
               short_crowding =
                 fquot (fadd (clamp (fquot (fsub 1 (flt (sn_global_long_short_ratio latest))) (flt (25 / 100))))
                          (clamp (fquot (fsub 1 (flt (sn_top_position_long_short_ratio latest))) (flt (25 / 100))))) 2;
               score = fadd (fadd (fadd (fadd (fmul (flt (35 / 100)) oi_build) (fmul (flt (20 / 100)) price_softness))
                          (fmul (flt (20 / 100)) low_funding)) (fmul (flt (15 / 100)) backwardation))
                          (fmul (flt (10 / 100)) short_crowding)
           in Some (round6 (if 0 < oi then score else 0)))
      | _ \<Rightarrow> None)"

text \<open>
  Return of the last bar, its volume against the median of the 16 before it, and whether it closed
  above them; \<^verbatim>\<open>None\<close> for all three with fewer than 17 bars available.
\<close>

definition spot_features ::
    "candle list \<Rightarrow> utc \<Rightarrow> (pyfloat option \<times> pyfloat option \<times> bool option) result" where
  "spot_features candles as_of =
     (let available = sort_key open_time (filter (\<lambda>c. available_at c \<le> as_of) candles); n = length available
      in if n < 17 then Inr (None, None, None)
         else let latest = available ! (n - 1); previous = available ! (n - 2);
                  lookback = take 16 (drop (n - 17) available);
                  baseline = float_median (map (\<lambda>c. flt (volume c)) lookback)
              in bind_result (ddiv (close_price latest) (close_price previous)) (\<lambda>q.
                   Inr (Some (flt (dsub q 1)),
                        (if 0 < baseline then Some (fquot (flt (volume latest)) baseline) else None),
                        Some (Max (set (map high_price lookback)) < close_price latest))))"

definition ignition_score ::
    "derivatives_snapshot \<Rightarrow> pyfloat option \<Rightarrow> pyfloat option \<Rightarrow> bool option \<Rightarrow> pyfloat option" where
  "ignition_score latest spot_return volume_ratio breakout =
     (case (spot_return, volume_ratio, breakout) of
        (Some r, Some v, Some b) \<Rightarrow>
          Some (round6
            (fadd (fadd (fadd (fmul (flt (40 / 100)) (if b then 1 else 0))
                          (fmul (flt (25 / 100)) (clamp (fquot (fsub v 1) (flt (15 / 10))))))
                    (fmul (flt (20 / 100)) (clamp (fquot r (flt (1 / 100))))))
              (fmul (flt (15 / 100))
                 (clamp (fquot (fsub (flt (sn_taker_buy_sell_ratio latest)) 1) (flt (30 / 100)))))))
      | _ \<Rightarrow> None)"

definition stream_evidence :: "bool \<Rightarrow> string" where
  "stream_evidence confirmed =
     (if confirmed then ''LIQUIDATION_STREAM_CONNECTED'' else ''LIQUIDATION_STREAM_NOT_CONTINUOUS_FOR_15M'')"

text \<open>\<^verbatim>\<open>x is not None and x >= bound\<close>, and its mirror image.\<close>

definition at_least :: "pyfloat option \<Rightarrow> pyfloat \<Rightarrow> bool" where
  "at_least x b = (case x of None \<Rightarrow> False | Some v \<Rightarrow> b \<le> v)"

definition at_most :: "pyfloat option \<Rightarrow> pyfloat \<Rightarrow> bool" where
  "at_most x b = (case x of None \<Rightarrow> False | Some v \<Rightarrow> v \<le> b)"

definition above_zero :: "pyfloat option \<Rightarrow> bool" where
  "above_zero x = (case x of None \<Rightarrow> False | Some v \<Rightarrow> 0 < v)"

definition active_proxy ::
    "pyfloat \<Rightarrow> pyfloat option \<Rightarrow> pyfloat option \<Rightarrow> pyfloat option \<Rightarrow> pyfloat option \<Rightarrow> bool option \<Rightarrow> bool" where
  "active_proxy fuel ignition oi_15m price_15m spot_return breakout =
     (flt (50 / 100) \<le> fuel \<and> at_least ignition (flt (55 / 100)) \<and> at_most oi_15m (flt (- (5 / 1000)))
      \<and> at_least price_15m (flt (4 / 1000)) \<and> above_zero spot_return \<and> breakout = Some True)"

definition squeeze_state_of ::
    "squeeze_calculator \<Rightarrow> derivatives_snapshot \<Rightarrow> pyfloat option \<Rightarrow> pyfloat option \<Rightarrow> pyfloat option \<Rightarrow> pyfloat option
     \<Rightarrow> pyfloat option \<Rightarrow> bool option \<Rightarrow> pyfloat option \<Rightarrow> bool \<Rightarrow> squeeze_state \<times> string list" where
  "squeeze_state_of k latest fuel ignition oi_15m price_15m spot_return breakout short_liquidation confirmed =
     (case fuel of
        None \<Rightarrow>
          (SQ_INSUFFICIENT_DATA,
           [stream_evidence confirmed,
            if ''basis_rate'' \<in> sn_missing_fields latest \<and> \<not> uses_proxy k then ''MISSING_DATA_BASIS_RATE''
            else ''WAITING_FOR_1H_DERIVATIVES_HISTORY''])
      | Some f \<Rightarrow>
          (let fueled = flt (50 / 100) \<le> f;
               ignited = at_least ignition (flt (55 / 100));
               evidence = (if fueled then [''SHORT_FUEL_CONDITIONS_PRESENT''] else [])
                 @ (if ignited then [''SPOT_IGNITION_CONDITIONS_PRESENT''] else [])
           in if active_proxy f ignition oi_15m price_15m spot_return breakout
              then (if confirmed \<and> above_zero short_liquidation
                    then (SQ_ACTIVE, evidence @ [''PRICE_UP_WITH_OI_UNWIND'', ''SHORT_LIQUIDATION_CONFIRMED'',
                            stream_evidence confirmed])
                    else (SQ_IGNITION, evidence @ [''PRICE_UP_WITH_OI_UNWIND'',
                            ''OI_UNWIND_PROXY_NOT_LIQUIDATION_CONFIRMED'', stream_evidence confirmed]))
              else if fueled \<and> ignited then (SQ_IGNITION, evidence @ [stream_evidence confirmed])
              else if fueled then (SQ_FUEL, evidence @ [''WAITING_FOR_SPOT_IGNITION'', stream_evidence confirmed])
              else (SQ_NONE, [''NO_SQUEEZE_SETUP'', stream_evidence confirmed])))"

definition squeeze_calculate ::
    "digest \<Rightarrow> squeeze_calculator \<Rightarrow> derivatives_snapshot list \<Rightarrow> candle list \<Rightarrow> pyfloat option \<Rightarrow> bool
     \<Rightarrow> squeeze_signal result" where
  "squeeze_calculate sha256 k snapshots candles short_liquidation confirmed =
     (if snapshots = [] then Inl (ValueError ''at least one derivatives snapshot is required'')
      else
        (let ordered = sort_key sn_available_at snapshots;
             latest = last ordered;
             oi_15m = change_of sn_open_interest_usd (minutes 15) ordered;
             oi_1h = change_of sn_open_interest_usd (hours 1) ordered;
             price_15m = change_of sn_mark_price (minutes 15) ordered;
             price_1h = change_of sn_mark_price (hours 1) ordered
         in bind_result (basis_input k latest) (\<lambda>(rate, source).
            (let fuel = fuel_score latest rate oi_1h price_1h
             in bind_result (spot_features candles (sn_available_at latest)) (\<lambda>(spot_return, volume_ratio, breakout).
                (let ignition = ignition_score latest spot_return volume_ratio breakout;
                     (state, evidence) = squeeze_state_of k latest fuel ignition oi_15m price_15m spot_return breakout
                       short_liquidation confirmed
                 in check_squeeze_signal
                      \<lparr>sq_snapshot_id = snapshot_id sha256 latest, sq_symbol = sn_symbol latest,
                       sq_as_of = sn_available_at latest, sq_state = state, sq_fuel_score = fuel,
                       sq_ignition_score = ignition, sq_open_interest_change_15m = oi_15m,
                       sq_open_interest_change_1h = oi_1h, sq_futures_price_change_15m = price_15m,
                       sq_futures_price_change_1h = price_1h, sq_spot_return_15m = spot_return,
                       sq_spot_volume_ratio = volume_ratio, sq_spot_breakout = breakout,
                       sq_short_liquidation_usd_15m = short_liquidation, sq_liquidation_confirmed = confirmed,
                       sq_evidence = with_basis_evidence k evidence,
                       sq_basis_input_rate = (if uses_proxy k then rate else None),
                       sq_basis_input_source = (if uses_proxy k then source else None),
                       sq_feature_version = squeeze_feature_version k\<rparr>))))))"

section \<open>The crowding calculator\<close>

definition positive_score :: "pyfloat \<Rightarrow> pyfloat \<Rightarrow> pyfloat" where
  "positive_score value scale = clamp (fquot value scale)"

definition mean2 :: "pyfloat \<Rightarrow> pyfloat \<Rightarrow> pyfloat" where
  "mean2 a b = fquot (float_sum [a, b]) 2"

definition liquidation_score :: "(pyfloat \<Rightarrow> pyfloat) \<Rightarrow> pyfloat option \<Rightarrow> bool \<Rightarrow> pyfloat option result" where
  "liquidation_score log1p notional confirmed =
     (case notional of
        None \<Rightarrow> Inr None
      | Some x \<Rightarrow>
          if \<not> confirmed then Inr None
          else bind_result (fdiv (log1p x) (log1p 10000000)) (\<lambda>q. Inr (Some (clamp q))))"

text \<open>The weights of the pressures that are known, and the weighted mean of their values.\<close>

definition unwind_weights ::
    "pyfloat \<Rightarrow> pyfloat \<Rightarrow> pyfloat \<Rightarrow> pyfloat option \<Rightarrow> pyfloat option \<Rightarrow> (pyfloat \<times> pyfloat) list" where
  "unwind_weights price_move oi_unwind taker_pressure premium_pressure liquidation_pressure =
     [(flt (30 / 100), price_move), (flt (25 / 100), oi_unwind), (flt (20 / 100), taker_pressure)]
     @ (case premium_pressure of None \<Rightarrow> [] | Some v \<Rightarrow> [(flt (10 / 100), v)])
     @ (case liquidation_pressure of None \<Rightarrow> [] | Some v \<Rightarrow> [(flt (15 / 100), v)])"

definition unwind_score ::
    "pyfloat \<Rightarrow> pyfloat \<Rightarrow> pyfloat \<Rightarrow> pyfloat option \<Rightarrow> pyfloat option \<Rightarrow> pyfloat result" where
  "unwind_score price_move oi_unwind taker_pressure premium_pressure liquidation_pressure =
     (let weighted = unwind_weights price_move oi_unwind taker_pressure premium_pressure liquidation_pressure
      in bind_result (fdiv (float_sum (map (\<lambda>(w, v). fmul w v) weighted)) (float_sum (map fst weighted)))
           (\<lambda>q. Inr (clamp q)))"

definition dominant_side :: "pyfloat \<Rightarrow> pyfloat \<Rightarrow> crowding_side" where
  "dominant_side long_score short_score =
     (if max long_score short_score < flt (50 / 100) \<or> \<bar>fsub long_score short_score\<bar> < flt (10 / 100)
      then SIDE_NONE else if short_score < long_score then SIDE_LONG else SIDE_SHORT)"

definition crowding_state_of ::
    "crowding_side \<Rightarrow> pyfloat \<Rightarrow> pyfloat \<Rightarrow> pyfloat \<Rightarrow> pyfloat \<Rightarrow> crowding_state" where
  "crowding_state_of side long_score short_score bullish bearish =
     (if flt (65 / 100) \<le> long_score \<and> flt (55 / 100) \<le> bearish then LONG_UNWIND
      else if flt (65 / 100) \<le> short_score \<and> flt (55 / 100) \<le> bullish then SHORT_UNWIND
      else if side = SIDE_LONG \<and> flt (65 / 100) \<le> long_score then LONG_CROWDED
      else if side = SIDE_SHORT \<and> flt (65 / 100) \<le> short_score then SHORT_CROWDED
      else CS_NEUTRAL)"

definition crowding_evidence ::
    "crowding_state \<Rightarrow> pyfloat \<Rightarrow> pyfloat \<Rightarrow> pyfloat \<Rightarrow> pyfloat \<Rightarrow> bool \<Rightarrow> bool \<Rightarrow> string list" where
  "crowding_evidence state long_score short_score bullish bearish coinbase_available confirmed =
     [''STATE_'' @ crowding_state_value state]
     @ (if flt (65 / 100) \<le> long_score then [''LONG_CROWDING_ELEVATED''] else [])
     @ (if flt (65 / 100) \<le> short_score then [''SHORT_CROWDING_ELEVATED''] else [])
     @ (if flt (55 / 100) \<le> bullish then [''BULLISH_UNWIND_TRIGGER''] else [])
     @ (if flt (55 / 100) \<le> bearish then [''BEARISH_UNWIND_TRIGGER''] else [])
     @ [if coinbase_available then ''COINBASE_PREMIUM_AVAILABLE'' else ''COINBASE_PREMIUM_MISSING'']
     @ [if confirmed then ''LIQUIDATION_STREAM_CONFIRMED'' else ''LIQUIDATION_STREAM_UNCONFIRMED'']"

definition side_score :: "pyfloat \<Rightarrow> pyfloat \<Rightarrow> pyfloat \<Rightarrow> pyfloat \<Rightarrow> pyfloat \<Rightarrow> pyfloat" where
  "side_score oi_build price funding basis positioning =
     clamp (fmul oi_build
       (fadd (fadd (fadd (fadd (flt (30 / 100)) (fmul (flt (20 / 100)) (positive_score price (flt (2 / 100)))))
                (fmul (flt (20 / 100)) (positive_score funding (flt (2 / 10000)))))
          (fmul (flt (15 / 100)) (positive_score basis (flt (1 / 1000)))))
          (fmul (flt (15 / 100)) positioning)))"

definition crowding_feature_version :: string where
  "crowding_feature_version = ''btc-crowding-v1''"

definition insufficient_crowding ::
    "digest \<Rightarrow> derivatives_snapshot \<Rightarrow> pyfloat option \<Rightarrow> pyfloat option \<Rightarrow> bool \<Rightarrow> string \<Rightarrow> crowding_signal result" where
  "insufficient_crowding sha256 snapshot long_liquidation short_liquidation confirmed reason =
     check_crowding_signal
       \<lparr>cr_snapshot_id = snapshot_id sha256 snapshot, cr_symbol = sn_symbol snapshot,
        cr_as_of = sn_available_at snapshot, cr_state = CS_INSUFFICIENT_DATA, cr_dominant_side = SIDE_NONE,
        cr_long_crowding_score = None, cr_short_crowding_score = None, cr_crowding_intensity = None,
        cr_bullish_unwind_score = None, cr_bearish_unwind_score = None, cr_confidence = 0,
        cr_long_liquidation_usd_15m = long_liquidation, cr_short_liquidation_usd_15m = short_liquidation,
        cr_liquidation_confirmed = confirmed, cr_evidence = [reason],
        cr_feature_version = crowding_feature_version\<rparr>"

definition confidence_of :: "bool \<Rightarrow> bool \<Rightarrow> pyfloat" where
  "confidence_of coinbase confirmed =
     (let c = (if coinbase then fadd (flt (80 / 100)) (flt (10 / 100)) else flt (80 / 100))
      in if confirmed then fadd c (flt (10 / 100)) else c)"

definition long_score_of :: "derivatives_snapshot \<Rightarrow> decimal \<Rightarrow> pyfloat \<Rightarrow> pyfloat \<Rightarrow> pyfloat" where
  "long_score_of s basis oi_1h price_1h =
     side_score (positive_score oi_1h (flt (3 / 100))) price_1h (flt (sn_funding_rate s)) (flt basis)
       (mean2 (positive_score (fsub (flt (sn_global_long_short_ratio s)) 1) (flt (50 / 100)))
              (positive_score (fsub (flt (sn_top_position_long_short_ratio s)) 1) (flt (50 / 100))))"

definition short_score_of :: "derivatives_snapshot \<Rightarrow> decimal \<Rightarrow> pyfloat \<Rightarrow> pyfloat \<Rightarrow> pyfloat" where
  "short_score_of s basis oi_1h price_1h =
     side_score (positive_score oi_1h (flt (3 / 100))) (- price_1h) (- flt (sn_funding_rate s)) (- flt basis)
       (mean2 (positive_score (fsub 1 (flt (sn_global_long_short_ratio s))) (flt (25 / 100)))
              (positive_score (fsub 1 (flt (sn_top_position_long_short_ratio s))) (flt (25 / 100))))"

definition crowding_calculate ::
    "(pyfloat \<Rightarrow> pyfloat) \<Rightarrow> digest \<Rightarrow> derivatives_snapshot \<Rightarrow> squeeze_signal \<Rightarrow> pyfloat option \<Rightarrow> pyfloat option
     \<Rightarrow> bool \<Rightarrow> crowding_signal result" where
  "crowding_calculate log1p sha256 s source long_liquidation short_liquidation confirmed =
     (if snapshot_id sha256 s \<noteq> sq_snapshot_id source
      then Inl (ValueError ''crowding source signal must match its derivatives snapshot'')
      else case sq_basis_input_rate source of
        None \<Rightarrow> insufficient_crowding sha256 s long_liquidation short_liquidation confirmed ''MISSING_BASIS_INPUT''
      | Some basis \<Rightarrow>
          (case (sq_open_interest_change_1h source, sq_futures_price_change_1h source,
                 sq_open_interest_change_15m source, sq_futures_price_change_15m source) of
             (Some oi_1h, Some price_1h, Some oi_15m, Some price_15m) \<Rightarrow>
               (let long_score = long_score_of s basis oi_1h price_1h;
                    short_score = short_score_of s basis oi_1h price_1h;
                    taker = flt (sn_taker_buy_sell_ratio s)
                in bind_result (liquidation_score log1p short_liquidation confirmed) (\<lambda>short_pressure.
                   bind_result
                     (unwind_score (positive_score price_15m (flt (1 / 100))) (positive_score (- oi_15m) (flt (2 / 100)))
                        (positive_score (fsub taker 1) (flt (30 / 100)))
                        (map_option (\<lambda>v. positive_score (flt v) (flt (1 / 1000))) (sn_coinbase_premium_rate s))
                        short_pressure) (\<lambda>bullish.
                   bind_result (liquidation_score log1p long_liquidation confirmed) (\<lambda>long_pressure.
                   bind_result
                     (unwind_score (positive_score (- price_15m) (flt (1 / 100))) (positive_score (- oi_15m) (flt (2 / 100)))
                        (positive_score (fsub 1 taker) (flt (30 / 100)))
                        (map_option (\<lambda>v. positive_score (- flt v) (flt (1 / 1000))) (sn_coinbase_premium_rate s))
                        long_pressure) (\<lambda>bearish.
                   (let side = dominant_side long_score short_score;
                        state = crowding_state_of side long_score short_score bullish bearish;
                        coinbase = (sn_coinbase_premium_rate s \<noteq> None)
                    in check_crowding_signal
                         \<lparr>cr_snapshot_id = snapshot_id sha256 s, cr_symbol = sn_symbol s,
                          cr_as_of = sn_available_at s, cr_state = state, cr_dominant_side = side,
                          cr_long_crowding_score = Some (round6 long_score),
                          cr_short_crowding_score = Some (round6 short_score),
                          cr_crowding_intensity = Some (round6 (max long_score short_score)),
                          cr_bullish_unwind_score = Some (round6 bullish),
                          cr_bearish_unwind_score = Some (round6 bearish),
                          cr_confidence = round6 (confidence_of coinbase confirmed),
                          cr_long_liquidation_usd_15m = long_liquidation,
                          cr_short_liquidation_usd_15m = short_liquidation,
                          cr_liquidation_confirmed = confirmed,
                          cr_evidence = crowding_evidence state long_score short_score bullish bearish coinbase confirmed,
                          cr_feature_version = crowding_feature_version\<rparr>))))))
           | _ \<Rightarrow> insufficient_crowding sha256 s long_liquidation short_liquidation confirmed
                    ''WAITING_FOR_DERIVATIVES_CHANGE_HISTORY''))"

section \<open>Bounds of the scores\<close>

lemma clamp_bounds [simp]: "0 \<le> clamp v" "clamp v \<le> 1"
  by (simp_all add: clamp_def)

lemma flt_le_dyadic: "x \<le> of_int m / 2 ^ 40 \<Longrightarrow> \<bar>m\<bar> \<le> 2 ^ 53 \<Longrightarrow> flt x \<le> of_int m / 2 ^ 40"
  using flt.rnd_le_fixed [of x "of_int m / 2 ^ 40"] flt_exact [of m "- 40"]
  by (simp add: power_int_minus field_simps)

lemma round6_nonneg: "0 \<le> x \<Longrightarrow> 0 \<le> round6 x"
  using round_half_even_mono [of 0 "x * 10 ^ 6"] round_half_even_of_int [of 0] by (simp add: round6_def flt.rnd_nonneg)

lemma round6_le_1:
  assumes "x \<le> 1 + 1 / 2 ^ 30" shows "round6 x \<le> 1"
proof -
  have "x * 10 ^ 6 \<le> (1 + 1 / 2 ^ 30) * 10 ^ 6" using assms by simp
  then have "round_half_even (x * 10 ^ 6) \<le> round_half_even ((1 + 1 / 2 ^ 30) * 10 ^ 6)" by (rule round_half_even_mono)
  also have "\<dots> = 10 ^ 6" by (rule round_half_even_near) simp
  finally have "of_int (round_half_even (x * 10 ^ 6)) / 10 ^ 6 \<le> (1 :: rat)" by simp
  then show ?thesis using flt_of_int [of 1] by (simp add: round6_def flt.rnd_le_fixed)
qed

lemma round6_unit: "0 \<le> x \<Longrightarrow> x \<le> 1 \<Longrightarrow> 0 \<le> round6 x \<and> round6 x \<le> 1"
  using round6_nonneg [of x] round6_le_1 [of x] by simp

text \<open>A weighted score: each weight is at most a multiple of 1/2^40, and so is the sum.\<close>

lemma weight_le:
  assumes "w \<le> of_int m / 2 ^ 40" "0 \<le> m" "m \<le> 2 ^ 53" "0 \<le> a" "a \<le> 1" "0 \<le> w"
  shows "fmul (flt w) a \<le> of_int m / 2 ^ 40" "0 \<le> fmul (flt w) a"
proof -
  have w: "flt w \<le> of_int m / 2 ^ 40" "0 \<le> flt w" using flt_le_dyadic [OF assms(1)] assms by (simp_all add: flt.rnd_nonneg)
  then have "flt w * a \<le> of_int m / 2 ^ 40 * 1" using assms by (intro mult_mono) simp_all
  then show "fmul (flt w) a \<le> of_int m / 2 ^ 40" unfolding fmul_def using assms by (intro flt_le_dyadic) simp_all
  show "0 \<le> fmul (flt w) a" using w assms by (simp add: fmul_nonneg)
qed

lemma sum_le:
  assumes "x \<le> of_int m / 2 ^ 40" "y \<le> of_int n / 2 ^ 40" "0 \<le> m" "0 \<le> n" "m + n \<le> 2 ^ 53" "0 \<le> x" "0 \<le> y"
  shows "fadd x y \<le> of_int (m + n) / 2 ^ 40" "0 \<le> fadd x y"
proof -
  have "x + y \<le> of_int (m + n) / 2 ^ 40" using assms(1,2) by (simp add: add_divide_distrib)
  then show "fadd x y \<le> of_int (m + n) / 2 ^ 40" unfolding fadd_def using assms by (intro flt_le_dyadic) simp_all
  show "0 \<le> fadd x y" using assms by (simp add: fadd_nonneg)
qed

lemma fuel_weights:
  assumes "0 \<le> a" "a \<le> 1" "0 \<le> b" "b \<le> 1" "0 \<le> c" "c \<le> 1" "0 \<le> d" "d \<le> 1" "0 \<le> e" "e \<le> 1"
  defines "score \<equiv> fadd (fadd (fadd (fadd (fmul (flt (35 / 100)) a) (fmul (flt (20 / 100)) b)) (fmul (flt (20 / 100)) c))
                    (fmul (flt (15 / 100)) d)) (fmul (flt (10 / 100)) e)"
  shows "0 \<le> score" "score \<le> 1 + 1 / 2 ^ 30"
proof -
  note w = weight_le [of "35 / 100" 384829069722 a] weight_le [of "20 / 100" 219902325556 b]
    weight_le [of "20 / 100" 219902325556 c] weight_le [of "15 / 100" 164926744167 d] weight_le [of "10 / 100" 109951162778 e]
  note s1 = sum_le [OF w(1) w(3) _ _ _ w(2) w(4)]
  note s2 = sum_le [OF s1(1) w(5) _ _ _ s1(2) w(6)]
  note s3 = sum_le [OF s2(1) w(7) _ _ _ s2(2) w(8)]
  note s4 = sum_le [OF s3(1) w(9) _ _ _ s3(2) w(10)]
  have "0 \<le> score" "score \<le> of_int (384829069722 + 219902325556 + 219902325556 + 164926744167 + 109951162778) / 2 ^ 40"
    unfolding score_def by ((rule s4; use assms in simp)+)
  then show "0 \<le> score" "score \<le> 1 + 1 / 2 ^ 30" by simp_all
qed

lemma ignition_weights:
  assumes "0 \<le> a" "a \<le> 1" "0 \<le> b" "b \<le> 1" "0 \<le> c" "c \<le> 1" "0 \<le> d" "d \<le> 1"
  defines "score \<equiv> fadd (fadd (fadd (fmul (flt (40 / 100)) a) (fmul (flt (25 / 100)) b)) (fmul (flt (20 / 100)) c))
                    (fmul (flt (15 / 100)) d)"
  shows "0 \<le> score" "score \<le> 1 + 1 / 2 ^ 30"
proof -
  note w = weight_le [of "40 / 100" 439804651111 a] weight_le [of "25 / 100" 274877906944 b]
    weight_le [of "20 / 100" 219902325556 c] weight_le [of "15 / 100" 164926744167 d]
  note s1 = sum_le [OF w(1) w(3) _ _ _ w(2) w(4)]
  note s2 = sum_le [OF s1(1) w(5) _ _ _ s1(2) w(6)]
  note s3 = sum_le [OF s2(1) w(7) _ _ _ s2(2) w(8)]
  have "0 \<le> score" "score \<le> of_int (439804651111 + 274877906944 + 219902325556 + 164926744167) / 2 ^ 40"
    unfolding score_def by ((rule s3; use assms in simp)+)
  then show "0 \<le> score" "score \<le> 1 + 1 / 2 ^ 30" by simp_all
qed

lemma half_sum: "0 \<le> a \<Longrightarrow> a \<le> 1 \<Longrightarrow> 0 \<le> b \<Longrightarrow> b \<le> 1 \<Longrightarrow> 0 \<le> fquot (fadd a b) 2 \<and> fquot (fadd a b) 2 \<le> 1"
proof -
  assume x: "0 \<le> a" "a \<le> 1" "0 \<le> b" "b \<le> 1"
  have "fadd a b \<le> 2" unfolding fadd_def using x flt_of_int [of 2] by (intro flt.rnd_le_fixed) simp_all
  then have "fquot (fadd a b) 2 \<le> 1" unfolding fquot_def using flt_of_int [of 1] by (intro flt.rnd_le_fixed) simp_all
  moreover have "0 \<le> fquot (fadd a b) 2" using fadd_nonneg [OF x(1,3)] by (simp add: fquot_def flt.rnd_nonneg)
  ultimately show ?thesis by blast
qed

lemma fuel_score_unit: "\<not> outside_unit (fuel_score s basis oi price)"
  using round6_nonneg [OF fuel_weights(1)] round6_le_1 [OF fuel_weights(2)] half_sum round6_nonneg [of 0] round6_le_1 [of 0]
  by (auto simp: fuel_score_def outside_unit_def Let_def split: option.splits)

lemma ignition_score_unit: "\<not> outside_unit (ignition_score s r v b)"
  using round6_nonneg [OF ignition_weights(1)] round6_le_1 [OF ignition_weights(2)]
  by (auto simp: ignition_score_def outside_unit_def split: option.splits)

section \<open>The calculators never fail\<close>

text \<open>The sums of the weights, evaluated.\<close>

lemma weight_sums:
  "flt (3 / 10) = 5404319552844595 / 18014398509481984"
  "flt (1 / 4) = 1 / 4"
  "flt (1 / 5) = 3602879701896397 / 18014398509481984"
  "flt (1 / 10) = 3602879701896397 / 36028797018963968"
  "flt (3 / 20) = 5404319552844595 / 36028797018963968"
  "flt (9907919180215091 / 18014398509481984) = 2476979795053773 / 4503599627370496"
  "flt (4503599627370497 / 18014398509481984) = 4503599627370497 / 18014398509481984"
  "flt (1 / 18014398509481984) = 1 / 18014398509481984"
  "flt (13510798882111489 / 18014398509481984) = 3 / 4"
  "flt (900719925474099 / 4503599627370496) = 900719925474099 / 4503599627370496"
  "flt (3 / 4) = 3 / 4"
  "flt (30624477466119373 / 36028797018963968) = 7656119366529843 / 9007199254740992"
  "flt (900719925474099 / 9007199254740992) = 900719925474099 / 9007199254740992"
  "flt (1 / 36028797018963968) = 1 / 36028797018963968"
  "flt (32425917317067571 / 36028797018963968) = 8106479329266893 / 9007199254740992"
  "flt (1351079888211149 / 9007199254740992) = 1351079888211149 / 9007199254740992"
  subgoal using flt_eval [of "3 / 10" 54 5404319552844595] by simp
  subgoal using flt_eval [of "1 / 4" 54 4503599627370496] by simp
  subgoal using flt_eval [of "1 / 5" 55 7205759403792794] by simp
  subgoal using flt_eval [of "1 / 10" 56 7205759403792794] by simp
  subgoal using flt_eval [of "3 / 20" 55 5404319552844595] by simp
  subgoal using flt_eval [of "9907919180215091 / 18014398509481984" 53 4953959590107546] by simp
  subgoal using flt_eval [of "4503599627370497 / 18014398509481984" 54 4503599627370497] by simp
  subgoal using flt_eval [of "1 / 18014398509481984" 106 4503599627370496] by simp
  subgoal using flt_eval [of "13510798882111489 / 18014398509481984" 53 6755399441055744] by simp
  subgoal using flt_eval [of "900719925474099 / 4503599627370496" 55 7205759403792792] by simp
  subgoal using flt_eval [of "3 / 4" 53 6755399441055744] by simp
  subgoal using flt_eval [of "30624477466119373 / 36028797018963968" 53 7656119366529843] by simp
  subgoal using flt_eval [of "900719925474099 / 9007199254740992" 56 7205759403792792] by simp
  subgoal using flt_eval [of "1 / 36028797018963968" 107 4503599627370496] by simp
  subgoal using flt_eval [of "32425917317067571 / 36028797018963968" 53 8106479329266893] by simp
  subgoal using flt_eval [of "1351079888211149 / 9007199254740992" 55 5404319552844596] by simp
  done

lemma weight_sum_1: "flt (36028797018963967 / 36028797018963968) = 1"
  by code_simp

lemma unwind_denominators:
  "0 < float_sum [flt (30 / 100), flt (25 / 100), flt (20 / 100)]"
  "0 < float_sum [flt (30 / 100), flt (25 / 100), flt (20 / 100), flt (10 / 100)]"
  "0 < float_sum [flt (30 / 100), flt (25 / 100), flt (20 / 100), flt (15 / 100)]"
  "0 < float_sum [flt (30 / 100), flt (25 / 100), flt (20 / 100), flt (10 / 100), flt (15 / 100)]"
  by (simp_all add: weight_sums weight_sum_1 fadd_def fsub_def Let_def flt.rnd_minus flt.rnd_pos_iff)
lemma unwind_score_unit: "\<exists>u. unwind_score a b c d e = Inr u \<and> 0 \<le> u \<and> u \<le> 1"
proof -
  have "float_sum (map fst (unwind_weights a b c d e)) \<noteq> 0"
    using unwind_denominators by (auto simp: unwind_weights_def simp del: float_sum.simps compensated_sum.simps split: option.split)
  then show ?thesis by (simp add: unwind_score_def fdiv_def Let_def)
qed

lemma liquidation_score_ok: "log1p 10000000 \<noteq> 0 \<Longrightarrow> \<exists>p. liquidation_score log1p x c = Inr p"
  by (simp add: liquidation_score_def fdiv_def split: option.split)

lemma side_score_unit: "0 \<le> side_score a b c d e \<and> side_score a b c d e \<le> 1"
  by (simp add: side_score_def)

lemma confidence_unit: "0 \<le> round6 (confidence_of a b) \<and> round6 (confidence_of a b) \<le> 1"
proof -
  define p q where pq: "p = flt (80 / 100)" "q = flt (10 / 100)"
  have 1: "fmul (flt x) 1 = flt x" for x by (simp add: fmul_def)
  have p: "p \<le> of_int 879609302221 / 2 ^ 40" "0 \<le> p" and q: "q \<le> of_int 109951162778 / 2 ^ 40" "0 \<le> q"
    using weight_le [of "80 / 100" 879609302221 1] weight_le [of "10 / 100" 109951162778 1] unfolding 1 pq by simp_all
  have pq1: "fadd p q \<le> of_int (879609302221 + 109951162778) / 2 ^ 40" "0 \<le> fadd p q"
    by (rule sum_le [OF p(1) q(1) _ _ _ p(2) q(2)]; simp)+
  have pq2: "fadd (fadd p q) q \<le> of_int (879609302221 + 109951162778 + 109951162778) / 2 ^ 40" "0 \<le> fadd (fadd p q) q"
    by (rule sum_le [OF pq1(1) q(1) _ _ _ pq1(2) q(2)]; simp)+
  have "confidence_of a b \<in> {p, fadd p q, fadd (fadd p q) q}"
    by (cases a; cases b) (simp_all only: confidence_of_def Let_def if_True if_False pq insert_iff simp_thms)
  moreover have "0 \<le> x \<and> x \<le> 1 + 1 / 2 ^ 30" if "x \<in> {p, fadd p q, fadd (fadd p q) q}" for x
    using that p pq1 pq2 by auto
  ultimately show ?thesis using round6_nonneg round6_le_1 by blast
qed

lemma check_snapshot_facts:
  assumes "check_snapshot s = Inr s'"
  shows "sn_symbol s' \<noteq> []" "0 < sn_index_price s" "sn_observed_at s \<le> sn_available_at s"
proof -
  have f: "py_upper (py_strip (sn_symbol s)) \<noteq> []" "\<not> sn_available_at s < sn_observed_at s"
    "\<not> Min (set [sn_mark_price s, sn_index_price s, sn_open_interest_usd s, sn_global_long_short_ratio s,
        sn_top_position_long_short_ratio s, sn_taker_buy_sell_ratio s]) \<le> 0"
    "s' = s\<lparr>sn_symbol := py_upper (py_strip (sn_symbol s)), sn_missing_fields := snapshot_missing_fields s\<rparr>"
    using assms unfolding check_snapshot_def Let_def raise_then de_Morgan_disj Inr_eq by blast+
  show "sn_symbol s' \<noteq> []" "sn_observed_at s \<le> sn_available_at s" using f(1,2,4) by simp_all
  have "Min (set [sn_mark_price s, sn_index_price s, sn_open_interest_usd s, sn_global_long_short_ratio s,
        sn_top_position_long_short_ratio s, sn_taker_buy_sell_ratio s]) \<le> sn_index_price s" by (rule Min_le) simp_all
  then show "0 < sn_index_price s" using f(3) by linarith
qed

lemma check_snapshot_symbol:
  assumes "check_snapshot s = Inr s"
  shows "py_upper (py_strip (sn_symbol s)) = sn_symbol s"
proof -
  have "s = s\<lparr>sn_symbol := py_upper (py_strip (sn_symbol s)), sn_missing_fields := snapshot_missing_fields s\<rparr>"
    using assms unfolding check_snapshot_def Let_def raise_then Inr_eq by blast
  from arg_cong [OF this, of sn_symbol] show ?thesis by simp
qed

lemma sorted_last: "sorted xs \<Longrightarrow> xs \<noteq> [] \<Longrightarrow> last xs = Max (set xs)"
proof -
  assume s: "sorted xs" "xs \<noteq> []"
  then have "sorted (butlast xs @ [last xs])" by simp
  then have "\<forall>x \<in> set (butlast xs @ [last xs]). x \<le> last xs" unfolding sorted_append by auto
  then have "\<forall>x \<in> set xs. x \<le> last xs" using s(2) by simp
  then show ?thesis using s(2) by (intro Max_eqI [symmetric]) auto
qed

lemma basis_input_ok:
  assumes "check_snapshot s = Inr s"
  shows "\<exists>rate source. basis_input k s = Inr (rate, source) \<and> (rate = None) = (source = None)"
  using check_snapshot_facts(2) [OF assms]
  by (cases k) (auto simp: basis_input_def mark_index_basis_rate_def ddiv_def split: option.split)

lemma spot_features_known:
  "filter (\<lambda>c. available_at c \<le> t) cs = filter (\<lambda>c. available_at c \<le> t) ds \<Longrightarrow> spot_features cs t = spot_features ds t"
  by (simp add: spot_features_def)

lemma spot_features_ok:
  assumes "\<forall>c \<in> set candles. 0 < close_price c"
  shows "\<exists>x. spot_features candles t = Inr x"
proof -
  let ?a = "sort_key open_time (filter (\<lambda>c. available_at c \<le> t) candles)"
  have "close_price (?a ! (length ?a - 2)) \<noteq> 0" if "\<not> length ?a < 17"
  proof -
    have "?a ! (length ?a - 2) \<in> set ?a" using that by (intro nth_mem) simp
    then show ?thesis using assms by auto
  qed
  then show ?thesis unfolding spot_features_def Let_def ddiv_def by auto
qed

lemma squeeze_state_active:
  "fst (squeeze_state_of k l fuel ign a b r br short confirmed) = SQ_ACTIVE \<Longrightarrow> confirmed \<and> above_zero short"
  by (auto simp: squeeze_state_of_def Let_def split: option.splits if_splits)

text \<open>The signal of valid snapshots is determined by the spot features at its instant.\<close>

lemma squeeze_calculated:
  fixes snapshots :: "derivatives_snapshot list"
  defines "t \<equiv> Max (sn_available_at ` set snapshots)"
  assumes snaps: "snapshots \<noteq> []" "\<forall>s \<in> set snapshots. check_snapshot s = Inr s"
    and sha: "\<forall>x. sha256 x \<noteq> []" and liq: "confirmed \<longrightarrow> short_liquidation \<noteq> None"
  shows "\<exists>sig. check_squeeze_signal sig = Inr sig \<and> \<not> outside_unit (sq_fuel_score sig) \<and> \<not> outside_unit (sq_ignition_score sig)
    \<and> sq_as_of sig = t \<and> (sq_state sig = SQ_ACTIVE \<longrightarrow> confirmed \<and> above_zero short_liquidation)
    \<and> (\<forall>cs. spot_features cs t = Inr (r, v, br) \<longrightarrow>
         squeeze_calculate sha256 k snapshots cs short_liquidation confirmed = Inr sig)"
proof -
  let ?o = "sort_key sn_available_at snapshots"
  let ?l = "last ?o"
  have o: "?o \<noteq> []" using snaps(1) by (metis length_0_conv length_sort)
  have l: "check_snapshot ?l = Inr ?l" using last_in_set [OF o] snaps(2) by auto
  have last: "sn_available_at ?l = Max (sn_available_at ` set snapshots)"
    using sorted_last [of "map sn_available_at ?o"] o by (simp add: last_map)
  obtain rate source where b: "basis_input k ?l = Inr (rate, source)" "(rate = None) = (source = None)"
    using basis_input_ok [OF l] by blast
  let ?fuel = "fuel_score ?l rate (change_of sn_open_interest_usd (hours 1) ?o) (change_of sn_mark_price (hours 1) ?o)"
  let ?ign = "ignition_score ?l r v br"
  obtain state evidence where st: "squeeze_state_of k ?l ?fuel ?ign (change_of sn_open_interest_usd (minutes 15) ?o)
      (change_of sn_mark_price (minutes 15) ?o) r br short_liquidation confirmed = (state, evidence)" by fastforce
  have active: "state = SQ_ACTIVE \<longrightarrow> confirmed \<and> above_zero short_liquidation"
    using squeeze_state_active [of k ?l ?fuel ?ign] st by (metis fst_conv)
  let ?sig = "\<lparr>sq_snapshot_id = snapshot_id sha256 ?l, sq_symbol = sn_symbol ?l,
      sq_as_of = sn_available_at ?l, sq_state = state, sq_fuel_score = ?fuel,
      sq_ignition_score = ?ign, sq_open_interest_change_15m = change_of sn_open_interest_usd (minutes 15) ?o,
      sq_open_interest_change_1h = change_of sn_open_interest_usd (hours 1) ?o,
      sq_futures_price_change_15m = change_of sn_mark_price (minutes 15) ?o,
      sq_futures_price_change_1h = change_of sn_mark_price (hours 1) ?o, sq_spot_return_15m = r,
      sq_spot_volume_ratio = v, sq_spot_breakout = br,
      sq_short_liquidation_usd_15m = short_liquidation, sq_liquidation_confirmed = confirmed,
      sq_evidence = with_basis_evidence k evidence,
      sq_basis_input_rate = (if uses_proxy k then rate else None),
      sq_basis_input_source = (if uses_proxy k then source else None),
      sq_feature_version = squeeze_feature_version k\<rparr>"
  have check: "check_squeeze_signal ?sig = Inr ?sig"
    using check_snapshot_facts(1) [OF l] sha liq b(2) fuel_score_unit ignition_score_unit
    by (cases k) (auto simp: check_squeeze_signal_def snapshot_id_def)
  have run: "squeeze_calculate sha256 k snapshots cs short_liquidation confirmed = Inr ?sig"
    if "spot_features cs (sn_available_at ?l) = Inr (r, v, br)" for cs
    using snaps(1) check unfolding squeeze_calculate_def Let_def b(1) that bind_result.simps prod.case st by simp
  show ?thesis
    unfolding t_def last [symmetric] using run check active fuel_score_unit ignition_score_unit by (intro exI [of _ ?sig]) simp
qed

lemma squeeze_total:
  assumes hs: "hs \<noteq> []" "\<forall>s \<in> set hs. check_snapshot s = Inr s" and cs: "\<forall>c \<in> set candles. 0 < close_price c"
    and r: "\<forall>x. sha256 x \<noteq> []" "confirmed \<longrightarrow> short_liquidation \<noteq> None"
  shows "\<exists>sig. squeeze_calculate sha256 k hs candles short_liquidation confirmed = Inr sig"
proof -
  obtain r v br where "spot_features candles (Max (sn_available_at ` set hs)) = Inr (r, v, br)"
    using spot_features_ok [OF cs] by (metis prod_cases3)
  then show ?thesis using squeeze_calculated [OF hs r] by blast
qed

text \<open>C25: The squeeze calculators are total and honest: on validated snapshots they always return a valid signal at the instant of the latest snapshot, with scores in [0, 1], ACTIVE only on a confirmed liquidation, and unchanged by spot candles that are not yet available at that instant.\<close>

theorem squeeze_sound:
  assumes snaps: "snapshots \<noteq> []" "\<forall>s \<in> set snapshots. check_snapshot s = Inr s"
    and candles: "\<forall>c \<in> set candles. 0 < close_price c" and sha: "\<forall>x. sha256 x \<noteq> []"
    and liq: "confirmed \<longrightarrow> short_liquidation \<noteq> None"
  shows "\<exists>sig. squeeze_calculate sha256 k snapshots candles short_liquidation confirmed = Inr sig
    \<and> check_squeeze_signal sig = Inr sig \<and> \<not> outside_unit (sq_fuel_score sig) \<and> \<not> outside_unit (sq_ignition_score sig)
    \<and> sq_as_of sig = Max (sn_available_at ` set snapshots)
    \<and> (sq_state sig = SQ_ACTIVE \<longrightarrow> confirmed \<and> above_zero short_liquidation)
    \<and> (\<forall>later. (\<forall>c \<in> set later. sq_as_of sig < available_at c) \<longrightarrow>
         squeeze_calculate sha256 k snapshots (candles @ later) short_liquidation confirmed = Inr sig)"
proof -
  let ?t = "Max (sn_available_at ` set snapshots)"
  obtain r v br where f: "spot_features candles ?t = Inr (r, v, br)" using spot_features_ok [OF candles] by (metis prod_cases3)
  obtain sig where sig: "check_squeeze_signal sig = Inr sig" "\<not> outside_unit (sq_fuel_score sig)"
      "\<not> outside_unit (sq_ignition_score sig)" "sq_as_of sig = ?t"
      "sq_state sig = SQ_ACTIVE \<longrightarrow> confirmed \<and> above_zero short_liquidation"
    and run: "\<And>cs. spot_features cs ?t = Inr (r, v, br) \<Longrightarrow>
      squeeze_calculate sha256 k snapshots cs short_liquidation confirmed = Inr sig"
    using squeeze_calculated [OF snaps sha liq, of r v br k] by blast
  have "spot_features (candles @ later) ?t = Inr (r, v, br)" if "\<forall>c \<in> set later. ?t < available_at c" for later
  proof -
    have "filter (\<lambda>c. available_at c \<le> ?t) later = []" using that by (auto simp: filter_empty_conv)
    then show ?thesis using f spot_features_known [of ?t "candles @ later" candles] by simp
  qed
  then show ?thesis using run [OF f] run sig by (intro exI [of _ sig]) simp
qed

definition sample_snapshot :: "utc \<Rightarrow> decimal \<Rightarrow> derivatives_snapshot" where
  "sample_snapshot t oi =
     \<lparr>sn_symbol = ''BTCUSDT'', sn_observed_at = t, sn_available_at = t, sn_mark_price = 100, sn_index_price = 101,
      sn_open_interest_usd = oi, sn_funding_rate = 0, sn_basis_rate = Some 1, sn_global_long_short_ratio = 1,
      sn_top_position_long_short_ratio = 1, sn_taker_buy_sell_ratio = 1, sn_coinbase_price_usd = Some 100,
      sn_coinbase_premium_rate = Some 0, sn_coinbase_observed_at = Some t, sn_missing_fields = {}, sn_source = ''b''\<rparr>"

lemma sample_snapshot_valid: "0 < oi \<Longrightarrow> check_snapshot (sample_snapshot t oi) = Inr (sample_snapshot t oi)"
proof -
  have "py_upper (py_strip ''BTCUSDT'') = ''BTCUSDT''" "py_isalnum ''BTCUSDT''" "py_strip ''b'' = ''b''" by code_simp+
  then show "0 < oi \<Longrightarrow> ?thesis" by (simp add: check_snapshot_def sample_snapshot_def snapshot_missing_fields_def Let_def min_le_iff_disj cong: if_cong)
qed

theorem squeeze_sound_witness:
  "\<exists>sig. squeeze_calculate (\<lambda>_. ''id'') SQUEEZE_V2 [sample_snapshot 0 1000, sample_snapshot (hours 1) 2000] [] (Some 5) True = Inr sig
     \<and> sq_as_of sig = hours 1"
proof -
  let ?xs = "[sample_snapshot 0 1000, sample_snapshot (hours 1) 2000]"
  have v: "?xs \<noteq> []" "\<forall>s \<in> set ?xs. check_snapshot s = Inr s" by (simp_all add: sample_snapshot_valid)
  have c: "\<forall>c \<in> set []. 0 < close_price c" "\<forall>x :: json. ''id'' \<noteq> []" "True \<longrightarrow> Some (5 :: pyfloat) \<noteq> None" by simp_all
  have m: "Max (sn_available_at ` set ?xs) = hours 1" by (simp add: sample_snapshot_def hours_def)
  show ?thesis using squeeze_sound [OF v c, of SQUEEZE_V2] unfolding m by blast
qed

section \<open>The crowding signal\<close>

lemma round6_mono: "x \<le> y \<Longrightarrow> round6 x \<le> round6 y"
  unfolding round6_def by (intro flt.rnd_mono divide_right_mono) (simp_all add: round_half_even_mono)

lemma round6_max: "round6 (max x y) = max (round6 x) (round6 y)"
  using round6_mono [of x y] round6_mono [of y x] by (auto simp: max_def)

lemma round6_unit_ok: "0 \<le> x \<Longrightarrow> x \<le> 1 \<Longrightarrow> \<not> outside_unit (Some (round6 x))"
  using round6_unit by (simp add: outside_unit_def)

lemma score_units:
  "0 \<le> long_score_of s b o1 p1" "long_score_of s b o1 p1 \<le> 1" "0 \<le> short_score_of s b o1 p1" "short_score_of s b o1 p1 \<le> 1"
  using side_score_unit unfolding long_score_of_def short_score_of_def by blast+

lemma crowding_state_side:
  "crowding_state_of side l r u d = LONG_CROWDED \<Longrightarrow> side = SIDE_LONG"
  "crowding_state_of side l r u d = SHORT_CROWDED \<Longrightarrow> side = SIDE_SHORT"
  "crowding_state_of side l r u d \<noteq> CS_INSUFFICIENT_DATA"
  by (simp_all add: crowding_state_of_def split: if_splits)

definition crowding_complete :: "squeeze_signal \<Rightarrow> bool" where
  "crowding_complete source =
     (sq_basis_input_rate source \<noteq> None \<and> sq_open_interest_change_1h source \<noteq> None
      \<and> sq_futures_price_change_1h source \<noteq> None \<and> sq_open_interest_change_15m source \<noteq> None
      \<and> sq_futures_price_change_15m source \<noteq> None)"

definition crowding_promise :: "squeeze_signal \<Rightarrow> crowding_signal \<Rightarrow> bool" where
  "crowding_promise source sig =
     (check_crowding_signal sig = Inr sig \<and> (cr_state sig = CS_INSUFFICIENT_DATA) = (\<not> crowding_complete source)
      \<and> (cr_state sig = LONG_CROWDED \<longrightarrow> cr_dominant_side sig = SIDE_LONG)
      \<and> (cr_state sig = SHORT_CROWDED \<longrightarrow> cr_dominant_side sig = SIDE_SHORT)
      \<and> list_all (\<lambda>v. \<not> outside_unit v) [cr_long_crowding_score sig, cr_short_crowding_score sig, cr_crowding_intensity sig,
           cr_bullish_unwind_score sig, cr_bearish_unwind_score sig, Some (cr_confidence sig)]
      \<and> cr_crowding_intensity sig = (case (cr_long_crowding_score sig, cr_short_crowding_score sig) of
           (Some l, Some r) \<Rightarrow> Some (max l r) | _ \<Rightarrow> None))"

lemma check_crowding_ok:
  assumes "cr_snapshot_id sig \<noteq> []" "cr_symbol sig \<noteq> []" "py_upper (py_strip (cr_symbol sig)) = cr_symbol sig"
    "cr_feature_version sig \<noteq> []" "cr_evidence sig \<noteq> []"
    and units: "list_all (\<lambda>v. \<not> outside_unit v) [cr_long_crowding_score sig, cr_short_crowding_score sig,
        cr_crowding_intensity sig, cr_bullish_unwind_score sig, cr_bearish_unwind_score sig, Some (cr_confidence sig)]"
    and liq: "list_all (\<lambda>v. case v of None \<Rightarrow> True | Some x \<Rightarrow> 0 \<le> x) [cr_long_liquidation_usd_15m sig, cr_short_liquidation_usd_15m sig]"
    and both: "cr_liquidation_confirmed sig \<longrightarrow> cr_long_liquidation_usd_15m sig \<noteq> None \<and> cr_short_liquidation_usd_15m sig \<noteq> None"
    and state: "if cr_state sig = CS_INSUFFICIENT_DATA then cr_dominant_side sig = SIDE_NONE
      else None \<notin> set [cr_long_crowding_score sig, cr_short_crowding_score sig, cr_crowding_intensity sig,
        cr_bullish_unwind_score sig, cr_bearish_unwind_score sig]"
  shows "check_crowding_signal sig = Inr sig"
proof -
  have "sig\<lparr>cr_symbol := py_upper (py_strip (cr_symbol sig))\<rparr> = sig" using assms(3) by simp
  moreover have "\<not> list_ex (\<lambda>v. case v of None \<Rightarrow> False | Some x \<Rightarrow> x < 0) [cr_long_liquidation_usd_15m sig, cr_short_liquidation_usd_15m sig]"
    using liq by (simp split: option.splits)
  moreover have "\<not> (cr_liquidation_confirmed sig \<and> (cr_long_liquidation_usd_15m sig = None \<or> cr_short_liquidation_usd_15m sig = None))"
    using both by blast
  ultimately show ?thesis using assms(1,2,4,5) units state
    by (cases "cr_state sig = CS_INSUFFICIENT_DATA") (simp_all add: check_crowding_signal_def)
qed

lemma insufficient_crowding_ok:
  assumes ids: "sn_symbol s \<noteq> []" "py_upper (py_strip (sn_symbol s)) = sn_symbol s"
    and id0: "sq_snapshot_id source \<noteq> []" and same: "snapshot_id sha256 s = sq_snapshot_id source"
    and liq: "list_all (\<lambda>v. case v of None \<Rightarrow> True | Some x \<Rightarrow> 0 \<le> x) [long_liquidation, short_liquidation]"
    and both: "confirmed \<longrightarrow> long_liquidation \<noteq> None \<and> short_liquidation \<noteq> None"
    and missing: "\<not> crowding_complete source"
  shows "\<exists>sig. insufficient_crowding sha256 s long_liquidation short_liquidation confirmed reason = Inr sig
      \<and> cr_snapshot_id sig = sq_snapshot_id source \<and> crowding_promise source sig"
proof -
  let ?sig = "\<lparr>cr_snapshot_id = snapshot_id sha256 s, cr_symbol = sn_symbol s,
      cr_as_of = sn_available_at s, cr_state = CS_INSUFFICIENT_DATA, cr_dominant_side = SIDE_NONE,
      cr_long_crowding_score = None, cr_short_crowding_score = None, cr_crowding_intensity = None,
      cr_bullish_unwind_score = None, cr_bearish_unwind_score = None, cr_confidence = 0,
      cr_long_liquidation_usd_15m = long_liquidation, cr_short_liquidation_usd_15m = short_liquidation,
      cr_liquidation_confirmed = confirmed, cr_evidence = [reason],
      cr_feature_version = crowding_feature_version\<rparr>"
  have "check_crowding_signal ?sig = Inr ?sig"
    using ids id0 same liq both by (intro check_crowding_ok) (simp_all add: crowding_feature_version_def outside_unit_def)
  then show ?thesis using missing same by (auto simp: insufficient_crowding_def crowding_promise_def outside_unit_def)
qed

lemma complete_crowding_ok:
  assumes ids: "sn_symbol s \<noteq> []" "py_upper (py_strip (sn_symbol s)) = sn_symbol s"
    and id0: "sq_snapshot_id source \<noteq> []" and same: "snapshot_id sha256 s = sq_snapshot_id source"
    and liq: "list_all (\<lambda>v. case v of None \<Rightarrow> True | Some x \<Rightarrow> 0 \<le> x) [long_liquidation, short_liquidation]"
    and both: "confirmed \<longrightarrow> long_liquidation \<noteq> None \<and> short_liquidation \<noteq> None"
    and log: "log1p 10000000 \<noteq> 0" and True: "crowding_complete source"
  shows "\<exists>sig. crowding_calculate log1p sha256 s source long_liquidation short_liquidation confirmed = Inr sig
      \<and> cr_snapshot_id sig = sq_snapshot_id source \<and> crowding_promise source sig"
proof -
  from True obtain basis o1 p1 o15 p15 where some: "sq_basis_input_rate source = Some basis"
      "sq_open_interest_change_1h source = Some o1" "sq_futures_price_change_1h source = Some p1"
      "sq_open_interest_change_15m source = Some o15" "sq_futures_price_change_15m source = Some p15"
    unfolding crowding_complete_def by blast
  note liquidation = liquidation_score_ok [of log1p, OF log]
  obtain sp lp where pressures: "liquidation_score log1p short_liquidation confirmed = Inr sp"
      "liquidation_score log1p long_liquidation confirmed = Inr lp" using liquidation by blast
  let ?t = "flt (sn_taker_buy_sell_ratio s)" and ?c = "sn_coinbase_premium_rate s"
  obtain bull bear where unwind:
      "unwind_score (positive_score p15 (flt (1 / 100))) (positive_score (- o15) (flt (2 / 100)))
         (positive_score (fsub ?t 1) (flt (30 / 100))) (map_option (\<lambda>v. positive_score (flt v) (flt (1 / 1000))) ?c) sp = Inr bull"
      "unwind_score (positive_score (- p15) (flt (1 / 100))) (positive_score (- o15) (flt (2 / 100)))
         (positive_score (fsub 1 ?t) (flt (30 / 100))) (map_option (\<lambda>v. positive_score (- flt v) (flt (1 / 1000))) ?c) lp = Inr bear"
      and units: "0 \<le> bull" "bull \<le> 1" "0 \<le> bear" "bear \<le> 1"
    using unwind_score_unit by metis
  let ?l = "long_score_of s basis o1 p1" and ?r = "short_score_of s basis o1 p1"
  let ?side = "dominant_side ?l ?r"
  let ?state = "crowding_state_of ?side ?l ?r bull bear"
  let ?sig = "\<lparr>cr_snapshot_id = snapshot_id sha256 s, cr_symbol = sn_symbol s,
      cr_as_of = sn_available_at s, cr_state = ?state, cr_dominant_side = ?side,
      cr_long_crowding_score = Some (round6 ?l), cr_short_crowding_score = Some (round6 ?r),
      cr_crowding_intensity = Some (round6 (max ?l ?r)), cr_bullish_unwind_score = Some (round6 bull),
      cr_bearish_unwind_score = Some (round6 bear), cr_confidence = round6 (confidence_of (?c \<noteq> None) confirmed),
      cr_long_liquidation_usd_15m = long_liquidation, cr_short_liquidation_usd_15m = short_liquidation,
      cr_liquidation_confirmed = confirmed, cr_evidence = crowding_evidence ?state ?l ?r bull bear (?c \<noteq> None) confirmed,
      cr_feature_version = crowding_feature_version\<rparr>"
  have run: "crowding_calculate log1p sha256 s source long_liquidation short_liquidation confirmed = check_crowding_signal ?sig"
    unfolding crowding_calculate_def Let_def some option.case prod.case pressures bind_result.simps unwind
    using same by simp
  have "0 \<le> max ?l ?r" "max ?l ?r \<le> 1" using score_units by (simp_all add: le_max_iff_disj)
  then have list: "list_all (\<lambda>v. \<not> outside_unit v) [cr_long_crowding_score ?sig, cr_short_crowding_score ?sig,
      cr_crowding_intensity ?sig, cr_bullish_unwind_score ?sig, cr_bearish_unwind_score ?sig, Some (cr_confidence ?sig)]"
    using round6_unit_ok units score_units confidence_unit by (simp add: outside_unit_def not_less)
  have check: "check_crowding_signal ?sig = Inr ?sig"
    using list ids id0 same liq both crowding_state_side(3)
    by (intro check_crowding_ok) (simp_all add: crowding_feature_version_def crowding_evidence_def)
  then show ?thesis
    using run list same True crowding_state_side
    by (intro exI [of _ ?sig]) (simp add: crowding_promise_def round6_max)
qed

text \<open>The crowding calculator never fails on a validated snapshot and its own signal: the result passes its checks, every score lies in [0, 1], the intensity is the larger of the two rounded sides, a crowded state agrees with the dominant side, and the state is INSUFFICIENT_DATA exactly when the basis or one of the four changes is missing.\<close>

lemma crowding_sound:
  assumes s: "check_snapshot s = Inr s" and same: "snapshot_id sha256 s = sq_snapshot_id source"
    and sha: "\<forall>x. sha256 x \<noteq> []" and log: "log1p 10000000 \<noteq> 0"
    and liq: "list_all (\<lambda>v. case v of None \<Rightarrow> True | Some x \<Rightarrow> 0 \<le> x) [long_liquidation, short_liquidation]"
    and both: "confirmed \<longrightarrow> long_liquidation \<noteq> None \<and> short_liquidation \<noteq> None"
  shows "\<exists>sig. crowding_calculate log1p sha256 s source long_liquidation short_liquidation confirmed = Inr sig
    \<and> cr_snapshot_id sig = sq_snapshot_id source \<and> crowding_promise source sig"
proof -
  note ids = check_snapshot_facts(1) [OF s] check_snapshot_symbol [OF s]
  have id0: "sq_snapshot_id source \<noteq> []" using sha unfolding same [symmetric] snapshot_id_def by simp
  show ?thesis
  proof (cases "crowding_complete source")
    case False
    then show ?thesis using insufficient_crowding_ok [OF ids id0 same liq both False] same
      by (auto simp: crowding_calculate_def crowding_complete_def split: option.split)
  next
    case True
    then show ?thesis by (rule complete_crowding_ok [of s source sha256 _ _ _ log1p, OF ids id0 same liq both log])
  qed
qed

definition sample_source :: squeeze_signal where
  "sample_source =
     \<lparr>sq_snapshot_id = ''id'', sq_symbol = ''BTCUSDT'', sq_as_of = 0, sq_state = SQ_NONE, sq_fuel_score = Some 0,
      sq_ignition_score = None, sq_open_interest_change_15m = Some 0, sq_open_interest_change_1h = Some 1,
      sq_futures_price_change_15m = Some 0, sq_futures_price_change_1h = Some 0, sq_spot_return_15m = None,
      sq_spot_volume_ratio = None, sq_spot_breakout = None, sq_short_liquidation_usd_15m = Some 5,
      sq_liquidation_confirmed = True, sq_evidence = [''NO_SQUEEZE_SETUP''], sq_basis_input_rate = Some 1,
      sq_basis_input_source = Some OFFICIAL, sq_feature_version = ''btc-squeeze-v2-market-streams''\<rparr>"

end
