(* ===== verification/Capture.thy ===== *)
theory Capture
  imports Overlay Signals Actions Backtest
begin

text \<open>
  The derivatives observation service (\<^verbatim>\<open>derivatives/service.py\<close>): one capture of a snapshot with its
  signals, and the queries over what was captured.

  The exchange client and the spot market data are arguments.  A capture writes as it goes: what was
  written before an exception stays written.
\<close>

record observer =
  ob_calculator :: squeeze_calculator
  ob_additional :: "squeeze_calculator list"
  ob_crowding :: bool
  ob_crowding_source_version :: string

text \<open>The constructor.\<close>

definition mk_observer ::
    "squeeze_calculator option \<Rightarrow> squeeze_calculator list \<Rightarrow> bool \<Rightarrow> string \<Rightarrow> observer result" where
  "mk_observer calculator additional crowding source_version =
     (let primary = (case calculator of None \<Rightarrow> SQUEEZE_V2 | Some k \<Rightarrow> k)
      in if \<not> distinct (map squeeze_feature_version (primary # additional))
         then Inl (ValueError ''derivatives signal calculators must use unique feature versions'')
         else Inr \<lparr>ob_calculator = primary, ob_additional = additional, ob_crowding = crowding,
                   ob_crowding_source_version = source_version\<rparr>)"

text \<open>The world of one capture: SHA-256, \<^verbatim>\<open>math.log1p\<close>, the exchange client and the spot market data.\<close>

record capture_env =
  ce_sha256 :: digest
  ce_log1p :: "pyfloat \<Rightarrow> pyfloat"
  ce_client :: "derivatives_snapshot result"
  ce_spot :: "trading_universe \<Rightarrow> utc \<Rightarrow> utc \<Rightarrow> market_data_bundle result"

definition with_coinbase_premium ::
    "derivatives_store \<Rightarrow> derivatives_snapshot \<Rightarrow> derivatives_snapshot result" where
  "with_coinbase_premium db s =
     (case latest_coinbase_price ''BTC-USD'' (sn_available_at s) db of
        Inl (KeyError _) \<Rightarrow> Inr s
      | Inl e \<Rightarrow> Inl e
      | Inr c \<Rightarrow>
          if minutes 2 < sn_available_at s - cp_observed_at c then Inr s
          else bind_result (ddiv (cp_price_usd c) (sn_index_price s)) (\<lambda>q.
            check_snapshot (s\<lparr>sn_coinbase_price_usd := Some (cp_price_usd c),
              sn_coinbase_premium_rate := Some (dsub q 1), sn_coinbase_observed_at := Some (cp_observed_at c),
              sn_missing_fields := sn_missing_fields s - {''coinbase_premium_rate''}\<rparr>)))"

definition spot_candles :: "capture_env \<Rightarrow> derivatives_snapshot \<Rightarrow> candle list result" where
  "spot_candles env s =
     (case bind_result (build_universe [''BTC/KRW'']) (\<lambda>u.
             ce_spot env u (sn_available_at s - hours 8) (sn_available_at s)) of
        Inl (FileNotFoundError _) \<Rightarrow> Inr []
      | Inl (ValueError _) \<Rightarrow> Inr []
      | Inl e \<Rightarrow> Inl e
      | Inr bundle \<Rightarrow> candles_of ''BTCKRW'' bundle)"

definition liquidation_stream :: string where
  "liquidation_stream = ''binance_btcusdt_force_order''"

text \<open>Liquidations of the last 15 minutes, known only when the stream was connected throughout.\<close>

definition liquidation_window :: "derivatives_snapshot \<Rightarrow> derivatives_store \<Rightarrow> bool \<times> pyfloat option \<times> pyfloat option" where
  "liquidation_window s db =
     (let start = sn_available_at s - minutes 15;
          notional = (\<lambda>p. flt (liquidation_notional (sn_symbol s) p start (sn_available_at s) db))
      in if continuously_connected_since liquidation_stream start db
         then (True, Some (notional LIQUIDATED_SHORT), Some (notional LIQUIDATED_LONG))
         else (False, None, None))"

text \<open>The auxiliary calculators: one that fails, or cannot be saved, is logged and skipped.\<close>

fun additional_signals ::
    "(squeeze_calculator \<Rightarrow> squeeze_signal result) \<Rightarrow> squeeze_calculator list
     \<Rightarrow> (string \<times> squeeze_signal) list \<Rightarrow> derivatives_store \<Rightarrow> derivatives_store \<times> (string \<times> squeeze_signal) list" where
  "additional_signals calc [] known db = (db, known)"
| "additional_signals calc (k # ks) known db =
     (case bind_result (calc k) (\<lambda>g. bind_result (save_signal g db) (\<lambda>db'. Inr (g, db'))) of
        Inl _ \<Rightarrow> additional_signals calc ks known db
      | Inr (g, db') \<Rightarrow> additional_signals calc ks ((sq_feature_version g, g) # known) db')"

definition capture_crowding ::
    "capture_env \<Rightarrow> observer \<Rightarrow> derivatives_snapshot \<Rightarrow> (string \<times> squeeze_signal) list
     \<Rightarrow> bool \<times> pyfloat option \<times> pyfloat option \<Rightarrow> derivatives_store \<Rightarrow> derivatives_store" where
  "capture_crowding env ob s known window db =
     (if \<not> ob_crowding ob then db
      else case map_of known (ob_crowding_source_version ob) of
             None \<Rightarrow> db
           | Some source \<Rightarrow>
               (case window of (confirmed, short_liquidation, long_liquidation) \<Rightarrow>
                 (case bind_result (crowding_calculate (ce_log1p env) (ce_sha256 env) s source long_liquidation
                         short_liquidation confirmed) (\<lambda>c. save_crowding_signal c db) of
                    Inl _ \<Rightarrow> db
                  | Inr db' \<Rightarrow> db')))"

definition capture_signals ::
    "capture_env \<Rightarrow> observer \<Rightarrow> derivatives_snapshot \<Rightarrow> derivatives_snapshot list \<Rightarrow> candle list
     \<Rightarrow> (derivatives_store, squeeze_signal) act" where
  "capture_signals env ob s history spot db =
     (let window = liquidation_window s db;
          calc = (\<lambda>k. squeeze_calculate (ce_sha256 env) k history spot (fst (snd window)) (fst window))
      in act_bind (act_lift (calc (ob_calculator ob))) (\<lambda>g.
         act_bind (act_save (save_signal g)) (\<lambda>_ db1.
           let (db2, known) = additional_signals calc (ob_additional ob) [(sq_feature_version g, g)] db1
           in (capture_crowding env ob s known window db2, Inr g))) db)"

definition capture :: "capture_env \<Rightarrow> observer \<Rightarrow> (derivatives_store, squeeze_signal) act" where
  "capture env ob =
     act_bind (act_lift (ce_client env)) (\<lambda>fetched.
     act_bind (act_read (\<lambda>db. with_coinbase_premium db fetched)) (\<lambda>s.
     act_bind (act_save (\<lambda>db. Inr (save_snapshot (ce_sha256 env) s db))) (\<lambda>_.
     act_bind (act_read (snapshots (sn_symbol s) 1000)) (\<lambda>history.
     act_bind (act_lift (spot_candles env s)) (\<lambda>spot.
       capture_signals env ob s history spot)))))"

section \<open>Queries\<close>

definition version_or_default :: "observer \<Rightarrow> string option \<Rightarrow> string" where
  "version_or_default ob version =
     (case version of None \<Rightarrow> squeeze_feature_version (ob_calculator ob)
      | Some v \<Rightarrow> if v = [] then squeeze_feature_version (ob_calculator ob) else v)"

definition observer_latest ::
    "digest \<Rightarrow> observer \<Rightarrow> string \<Rightarrow> string option \<Rightarrow> utc \<Rightarrow> derivatives_store
     \<Rightarrow> (derivatives_snapshot \<times> squeeze_signal) result" where
  "observer_latest sha256 ob symbol version now db =
     bind_result (observation_known_at sha256 symbol (Aware now) (version_or_default ob version) db) (\<lambda>found.
       case found of None \<Rightarrow> Inl (KeyError symbol) | Some x \<Rightarrow> Inr x)"

definition observer_history ::
    "observer \<Rightarrow> string \<Rightarrow> int \<Rightarrow> string option \<Rightarrow> derivatives_store \<Rightarrow> squeeze_signal list result" where
  "observer_history ob symbol limit version db = signals symbol limit (Some (version_or_default ob version)) db"

definition latest_crowding :: "string \<Rightarrow> string \<Rightarrow> derivatives_store \<Rightarrow> crowding_signal result" where
  "latest_crowding symbol version db =
     bind_result (crowding_signals symbol 1 version db) (\<lambda>vs. case vs of [] \<Rightarrow> Inl (KeyError symbol) | v # _ \<Rightarrow> Inr v)"

end
