(* ===== verification/ObserverProofs.thy ===== *)
theory ObserverProofs
  imports Capture
begin

text \<open>
  Theorems on the derivatives observer: what it stores later never changes what a decision at an
  earlier instant sees, overlays of reachable stores are total and fail closed, and a capture always
  succeeds once the exchange has answered.
\<close>

section \<open>What a calculated signal identifies\<close>

lemma check_squeeze_id: "check_squeeze_signal g = Inr g' \<Longrightarrow> g' = g"
  unfolding check_squeeze_signal_def raise_then Inr_eq by blast

lemma squeeze_identity:
  assumes "squeeze_calculate sha256 k hs cs liq confirmed = Inr g"
  shows "hs \<noteq> []" "sq_as_of g = sn_available_at (last (sort_key sn_available_at hs))"
    "sq_snapshot_id g = snapshot_id sha256 (last (sort_key sn_available_at hs))"
    "sq_symbol g = sn_symbol (last (sort_key sn_available_at hs))" "check_squeeze_signal g = Inr g"
    "sq_feature_version g = squeeze_feature_version k"
proof -
  show hs: "hs \<noteq> []" using assms by (auto simp: squeeze_calculate_def)
  have r: "squeeze_calculate sha256 k hs cs liq confirmed = Inr g" by fact
  obtain x where "check_squeeze_signal x = Inr g" and
    "sq_as_of x = sn_available_at (last (sort_key sn_available_at hs))"
    "sq_snapshot_id x = snapshot_id sha256 (last (sort_key sn_available_at hs))"
    "sq_symbol x = sn_symbol (last (sort_key sn_available_at hs))" "sq_feature_version x = squeeze_feature_version k"
    using r hs unfolding squeeze_calculate_def Let_def
    by (auto simp: bind_result_Inr case_prod_unfold)
  moreover from this(1) have "g = x" by (rule check_squeeze_id)
  ultimately show "sq_as_of g = sn_available_at (last (sort_key sn_available_at hs))"
    "sq_snapshot_id g = snapshot_id sha256 (last (sort_key sn_available_at hs))"
    "sq_symbol g = sn_symbol (last (sort_key sn_available_at hs))" "check_squeeze_signal g = Inr g"
    "sq_feature_version g = squeeze_feature_version k" by simp_all
qed

lemma last_by_time:
  assumes "hs \<noteq> []"
  shows "last (sort_key sn_available_at hs) \<in> set hs" "u \<in> set hs \<Longrightarrow> sn_available_at u \<le> sn_available_at (last (sort_key sn_available_at hs))"
proof -
  let ?o = "sort_key sn_available_at hs"
  have o: "?o \<noteq> []" using assms by (metis set_empty set_sort)
  show "last ?o \<in> set hs" using last_in_set [OF o] by simp
  have m: "sn_available_at (last ?o) = Max (set (map sn_available_at ?o))"
    using sorted_last [of "map sn_available_at ?o"] o by (simp add: last_map)
  show "sn_available_at u \<le> sn_available_at (last ?o)" if "u \<in> set hs" unfolding m using that by (intro Max_ge) auto
qed

lemma check_crowding_id:
  assumes "check_crowding_signal c = Inr c'"
  shows "cr_as_of c' = cr_as_of c" "cr_snapshot_id c' = cr_snapshot_id c" "cr_symbol c' = py_upper (py_strip (cr_symbol c))"
proof -
  have "c' = c\<lparr>cr_symbol := py_upper (py_strip (cr_symbol c))\<rparr>"
    using assms unfolding check_crowding_signal_def Let_def by (auto split: if_splits)
  then show "cr_as_of c' = cr_as_of c" "cr_snapshot_id c' = cr_snapshot_id c" "cr_symbol c' = py_upper (py_strip (cr_symbol c))" by simp_all
qed

lemma crowding_identity:
  assumes "crowding_calculate log1p sha256 s source ll sl confirmed = Inr c"
  shows "cr_as_of c = sn_available_at s" "cr_snapshot_id c = snapshot_id sha256 s"
    "cr_symbol c = py_upper (py_strip (sn_symbol s))" "snapshot_id sha256 s = sq_snapshot_id source"
proof -
  show "snapshot_id sha256 s = sq_snapshot_id source" using assms by (auto simp: crowding_calculate_def split: if_splits)
  obtain x where "check_crowding_signal x = Inr c" "cr_as_of x = sn_available_at s" "cr_snapshot_id x = snapshot_id sha256 s"
    "cr_symbol x = sn_symbol s"
    using assms unfolding crowding_calculate_def Let_def insufficient_crowding_def
    by (auto simp: bind_result_Inr split: if_splits option.splits prod.splits)
  then show "cr_as_of c = sn_available_at s" "cr_snapshot_id c = snapshot_id sha256 s"
    "cr_symbol c = py_upper (py_strip (sn_symbol s))" using check_crowding_id by simp_all
qed

section \<open>The view of an instant\<close>

definition known_signals :: "utc \<Rightarrow> derivatives_store \<Rightarrow> squeeze_signal list" where
  "known_signals t db = filter (\<lambda>g. sq_as_of g \<le> t \<and> source_available db t (sq_snapshot_id g)) (ds_signals db)"

definition known_crowding :: "utc \<Rightarrow> derivatives_store \<Rightarrow> crowding_signal list" where
  "known_crowding t db = filter (\<lambda>c. cr_as_of c \<le> t \<and> source_available db t (cr_snapshot_id c)) (ds_crowding db)"

definition same_view :: "utc \<Rightarrow> derivatives_store \<Rightarrow> derivatives_store \<Rightarrow> bool" where
  "same_view t db db' =
     (known_signals t db' = known_signals t db \<and> known_crowding t db' = known_crowding t db
      \<and> (\<forall>i. source_available db t i \<longrightarrow> map_of (ds_snapshots db') i = map_of (ds_snapshots db) i))"

lemma same_view_refl [simp]: "same_view t db db"
  by (simp add: same_view_def)

lemma same_view_trans: "same_view t a b \<Longrightarrow> same_view t b c \<Longrightarrow> same_view t a c"
  by (auto simp: same_view_def source_available_def split: option.splits)

lemma signals_known:
  "filter (\<lambda>s. sq_symbol s = nm \<and> sq_feature_version s = v \<and> sq_as_of s \<le> t \<and> source_available db t (sq_snapshot_id s)) (ds_signals db)
   = filter (\<lambda>s. sq_symbol s = nm \<and> sq_feature_version s = v) (known_signals t db)"
  by (simp add: known_signals_def conj_ac)

lemma crowding_known:
  "filter (\<lambda>s. cr_symbol s = nm \<and> cr_feature_version s = v \<and> cr_as_of s \<le> t \<and> source_available db t (cr_snapshot_id s)) (ds_crowding db)
   = filter (\<lambda>s. cr_symbol s = nm \<and> cr_feature_version s = v) (known_crowding t db)"
  by (simp add: known_crowding_def conj_ac)

lemma observation_view:
  assumes "same_view t db db'"
  shows "observation_known_at sha256 nm (Aware t) v db' = observation_known_at sha256 nm (Aware t) v db"
proof -
  have k: "known_signals t db' = known_signals t db" using assms by (simp add: same_view_def)
  have m: "map_of (ds_snapshots db') (sq_snapshot_id g) = map_of (ds_snapshots db) (sq_snapshot_id g)"
    if "latest_known sq_as_of sq_snapshot_id (filter P (known_signals t db)) = Some g" for g P
    using latest_known_Some(1) [OF that] assms by (auto simp: same_view_def known_signals_def)
  show ?thesis unfolding observation_known_at_def require_utc.simps bind_result.simps Let_def signals_known k
    by (auto simp: m split: option.split)
qed

lemma crowding_view:
  assumes "same_view t db db'"
  shows "crowding_known_at nm (Aware t) v db' = crowding_known_at nm (Aware t) v db"
proof -
  have k: "known_crowding t db' = known_crowding t db" using assms by (simp add: same_view_def)
  have m: "map_of (ds_snapshots db') (cr_snapshot_id g) = map_of (ds_snapshots db) (cr_snapshot_id g)"
    if "latest_known cr_as_of cr_snapshot_id (filter P (known_crowding t db)) = Some g" for g P
    using latest_known_Some(1) [OF that] assms by (auto simp: same_view_def known_crowding_def)
  show ?thesis unfolding crowding_known_at_def require_utc.simps bind_result.simps Let_def crowding_known k
    by (auto simp: m split: option.split)
qed

lemma overlay_view:
  assumes "same_view t db db'"
  shows "overlay_known_at sha256 nm db' (Aware t) v age cv cage = overlay_known_at sha256 nm db (Aware t) v age cv cage"
  unfolding overlay_known_at_def require_utc.simps bind_result.simps observation_view [OF assms] crowding_view [OF assms] ..

text \<open>Saving what becomes available later leaves the view of an earlier instant.\<close>

lemma snapshot_view:
  assumes "t < sn_available_at s" shows "same_view t db (save_snapshot sha256 s db)"
proof -
  let ?db' = "save_snapshot sha256 s db"
  have m: "map_of (ds_snapshots ?db') i = map_of (ds_snapshots db) i" if "source_available db t i" for i
    using that by (auto simp: save_snapshot_def insert_or_ignore_def source_available_def map_add_def split: option.splits)
  have a: "source_available ?db' t i = source_available db t i" for i
    using assms by (auto simp: save_snapshot_def insert_or_ignore_def source_available_def map_add_def split: option.splits)
  show ?thesis using m by (simp add: same_view_def known_signals_def known_crowding_def a)
qed

lemma signal_view: "t < sq_as_of g \<Longrightarrow> same_view t db (put_signal g db)"
  using signal_table.view_unchanged [of "\<lambda>g. sq_as_of g \<le> t \<and> source_available db t (sq_snapshot_id g)" g db]
  by (simp add: same_view_def known_signals_def known_crowding_def source_available_def)

lemma crowding_put_view: "t < cr_as_of c \<Longrightarrow> same_view t db (put_crowding c db)"
  using crowding_table.view_unchanged [of "\<lambda>c. cr_as_of c \<le> t \<and> source_available db t (cr_snapshot_id c)" c db]
  by (simp add: same_view_def known_signals_def known_crowding_def source_available_def)

lemma additional_view:
  assumes "\<And>k g. calc k = Inr g \<Longrightarrow> t < sq_as_of g" "additional_signals calc ks known db = (db', known')"
  shows "same_view t db db'"
  using assms(2)
proof (induction ks arbitrary: known db)
  case (Cons k ks)
  show ?case
  proof (cases "bind_result (calc k) (\<lambda>g. bind_result (save_signal g db) (\<lambda>db'. Inr (g, db')))")
    case (Inl e)
    then show ?thesis using Cons by simp
  next
    case (Inr x)
    obtain g db1 where x: "x = (g, db1)" by (cases x)
    then have c: "calc k = Inr g" "save_signal g db = Inr db1" using Inr by (auto simp: py_result)
    have "same_view t db db1" using signal_view [OF assms(1) [OF c(1)]] save_signal_Inr [OF c(2)] by simp
    then show ?thesis using Cons Inr x same_view_trans by (auto simp: Let_def)
  qed
qed simp

section \<open>A capture, step by step\<close>

lemma check_snapshot_record:
  assumes "check_snapshot s = Inr s'"
  shows "s' = s\<lparr>sn_symbol := py_upper (py_strip (sn_symbol s)), sn_missing_fields := snapshot_missing_fields s\<rparr>"
  using assms unfolding check_snapshot_def Let_def raise_then Inr_eq by blast

lemma premium_facts:
  assumes "with_coinbase_premium db s = Inr s'" and s: "check_snapshot s = Inr s"
  shows "sn_available_at s' = sn_available_at s" "sn_symbol s' = sn_symbol s"
proof -
  have y: "py_upper (py_strip (sn_symbol s)) = sn_symbol s" by (rule check_snapshot_symbol [OF s])
  have "s' = s \<or> (\<exists>x. check_snapshot x = Inr s' \<and> sn_available_at x = sn_available_at s \<and> sn_symbol x = sn_symbol s)"
    using assms(1) unfolding with_coinbase_premium_def
    by (auto simp: bind_result_Inr split: sum.splits if_splits py_error.splits)
  then show "sn_available_at s' = sn_available_at s" "sn_symbol s' = sn_symbol s"
    using y by (auto dest!: check_snapshot_record)
qed

lemma capture_cases:
  assumes "capture env ob db = (db', res)"
  obtains (unsaved) e where "db' = db" "res = Inl e"
  | (saved) s0 s where "ce_client env = Inr s0" "with_coinbase_premium db s0 = Inr s"
      "(\<exists>e. db' = save_snapshot (ce_sha256 env) s db \<and> res = Inl e)
       \<or> (\<exists>history spot. snapshots (sn_symbol s) 1000 (save_snapshot (ce_sha256 env) s db) = Inr history
            \<and> spot_candles env s = Inr spot
            \<and> capture_signals env ob s history spot (save_snapshot (ce_sha256 env) s db) = (db', res))"
proof -
  let ?t = "(\<exists>e. db' = db \<and> res = Inl e) \<or> (\<exists>s0 s. ce_client env = Inr s0 \<and> with_coinbase_premium db s0 = Inr s
    \<and> ((\<exists>e. db' = save_snapshot (ce_sha256 env) s db \<and> res = Inl e)
       \<or> (\<exists>history spot. snapshots (sn_symbol s) 1000 (save_snapshot (ce_sha256 env) s db) = Inr history
            \<and> spot_candles env s = Inr spot
            \<and> capture_signals env ob s history spot (save_snapshot (ce_sha256 env) s db) = (db', res))))"
  have ?t
  proof (cases "ce_client env")
    case (Inr s0)
    show ?thesis
    proof (cases "with_coinbase_premium db s0")
      case (Inr s)
      show ?thesis using assms \<open>ce_client env = Inr s0\<close> Inr unfolding capture_def act by auto
    qed (use assms Inr in \<open>auto simp: capture_def act\<close>)
  qed (use assms in \<open>auto simp: capture_def act\<close>)
  then show thesis
  proof (elim disjE exE)
    fix e assume "db' = db \<and> res = Inl e" then show thesis using unsaved by simp
  qed (elim conjE, rule saved)
qed

lemma capture_signals_cases:
  assumes "capture_signals env ob s history spot db = (db', res)"
  obtains (failed) e where "db' = db" "res = Inl e"
  | (calculated) g db2 known where
      "squeeze_calculate (ce_sha256 env) (ob_calculator ob) history spot (fst (snd (liquidation_window s db)))
         (fst (liquidation_window s db)) = Inr g" "save_signal g db = Inr (put_signal g db)" "res = Inr g"
      "additional_signals (\<lambda>k. squeeze_calculate (ce_sha256 env) k history spot (fst (snd (liquidation_window s db)))
         (fst (liquidation_window s db))) (ob_additional ob) [(sq_feature_version g, g)] (put_signal g db) = (db2, known)"
      "db' = capture_crowding env ob s known (liquidation_window s db) db2"
proof -
  let ?calc = "\<lambda>k. squeeze_calculate (ce_sha256 env) k history spot (fst (snd (liquidation_window s db))) (fst (liquidation_window s db))"
  show thesis
  proof (cases "?calc (ob_calculator ob)")
    case (Inl e)
    then show thesis using assms by (intro failed [of e]) (auto simp: capture_signals_def Let_def act)
  next
    case (Inr g)
    show thesis
    proof (cases "save_signal g db")
      case (Inl e)
      then show thesis using assms Inr by (intro failed [of e]) (auto simp: capture_signals_def Let_def act)
    next
      case saved: (Inr db1)
      have db1: "db1 = put_signal g db" by (rule save_signal_Inr [OF saved])
      obtain db2 known where a: "additional_signals ?calc (ob_additional ob) [(sq_feature_version g, g)] db1 = (db2, known)" by fastforce
      then have "db' = capture_crowding env ob s known (liquidation_window s db) db2 \<and> res = Inr g"
        using assms Inr saved by (auto simp: capture_signals_def Let_def act_bind_def act_lift_def act_save_def)
      then show thesis using Inr saved a unfolding db1 by (intro calculated) simp_all
    qed
  qed
qed

lemma capture_crowding_cases:
  "capture_crowding env ob s known window db = db
   \<or> (\<exists>source c ll sl confirmed. map_of known (ob_crowding_source_version ob) = Some source
        \<and> crowding_calculate (ce_log1p env) (ce_sha256 env) s source ll sl confirmed = Inr c
        \<and> save_crowding_signal c db = Inr (put_crowding c db) \<and> capture_crowding env ob s known window db = put_crowding c db)"
proof (cases window)
  case (fields confirmed sl ll)
  show ?thesis
  proof (cases "map_of known (ob_crowding_source_version ob)")
    case (Some source)
    show ?thesis
    proof (cases "bind_result (crowding_calculate (ce_log1p env) (ce_sha256 env) s source ll sl confirmed) (\<lambda>c. save_crowding_signal c db)")
      case (Inr db1)
      then obtain c where c: "crowding_calculate (ce_log1p env) (ce_sha256 env) s source ll sl confirmed = Inr c"
        "save_crowding_signal c db = Inr db1" by (auto simp: py_result)
      have "db1 = put_crowding c db" by (rule save_crowding_Inr [OF c(2)])
      then show ?thesis using Some c fields Inr by (cases "ob_crowding ob") (auto simp: capture_crowding_def)
    qed (simp add: capture_crowding_def Some fields)
  qed (simp add: capture_crowding_def)
qed

section \<open>Captures leave the past alone\<close>

definition capture_ok :: "utc \<Rightarrow> capture_env \<Rightarrow> derivatives_store \<Rightarrow> bool" where
  "capture_ok t env db =
     (case ce_client env of Inl _ \<Rightarrow> True
      | Inr s0 \<Rightarrow> check_snapshot s0 = Inr s0 \<and> t < sn_available_at s0
          \<and> (case with_coinbase_premium db s0 of Inl _ \<Rightarrow> True
             | Inr s \<Rightarrow> (case map_of (ds_snapshots db) (snapshot_id (ce_sha256 env) s) of None \<Rightarrow> True | Some v \<Rightarrow> v = s)))"

lemma snapshot_saved:
  assumes "case map_of (ds_snapshots db) (snapshot_id sha256 s) of None \<Rightarrow> True | Some v \<Rightarrow> v = s"
  shows "map_of (ds_snapshots (save_snapshot sha256 s db)) (snapshot_id sha256 s) = Some s"
proof (cases "map_of (ds_snapshots db) (snapshot_id sha256 s)")
  case None
  then have "snapshot_id sha256 s \<notin> set (map fst (ds_snapshots db))" by (simp add: map_of_eq_None_iff)
  then show ?thesis using None by (simp add: save_snapshot_def insert_or_ignore_def map_add_def)
next
  case (Some v)
  then have "snapshot_id sha256 s \<in> set (map fst (ds_snapshots db))" by (force dest: map_of_SomeD)
  then show ?thesis using Some assms by (simp add: save_snapshot_def insert_or_ignore_def)
qed

lemma check_snapshot_idem_map:
  "map_result check_snapshot xs = Inr ys \<Longrightarrow> map sn_available_at ys = map sn_available_at xs"
  by (induction xs arbitrary: ys) (auto simp: py_result dest!: check_snapshot_record)

text \<open>The newest snapshot of the history is at least as recent as the one just saved.\<close>

lemma history_recent:
  assumes h: "snapshots symbol limit db = Inr hs" and v: "(i, v) \<in> set (ds_snapshots db)" "sn_symbol v = py_upper symbol"
  shows "hs \<noteq> [] \<and> sn_available_at v \<le> sn_available_at (last (sort_key sn_available_at hs))"
proof -
  let ?rows = "filter (\<lambda>s. sn_symbol s = py_upper symbol) (map snd (ds_snapshots db))"
  let ?n = "newest_first sn_available_at ?rows"
  have vin: "v \<in> set ?rows" using v by force
  have l: "0 < limit" using h by (auto simp: snapshots_def split: if_splits)
  have m: "map_result check_snapshot (rev (row_limit limit ?n)) = Inr hs" using h l by (simp add: snapshots_def)
  obtain r rs where n: "?n = r # rs" using vin by (metis list.exhaust list.set(1) empty_iff set_newest_first)
  have "r \<in> set (rev (row_limit limit ?n))" unfolding n row_limit_def using l by (cases "nat limit") auto
  then have "sn_available_at r \<in> set (map sn_available_at hs)" unfolding check_snapshot_idem_map [OF m] by force
  then obtain u where u: "u \<in> set hs" "sn_available_at u = sn_available_at r" by auto
  then have "hs \<noteq> []" by auto
  then show ?thesis using last_by_time(2) [of hs u] u newest_first_hd(2) [OF n] vin by force
qed

lemma capture_view:
  assumes run: "capture env ob db = (db', res)" and ok: "capture_ok t env db"
  shows "same_view t db db'"
  using run
proof (cases rule: capture_cases)
  case (saved s0 s)
  let ?db1 = "save_snapshot (ce_sha256 env) s db"
  have s0: "check_snapshot s0 = Inr s0" "t < sn_available_at s0"
    and new: "case map_of (ds_snapshots db) (snapshot_id (ce_sha256 env) s) of None \<Rightarrow> True | Some v \<Rightarrow> v = s"
    using ok saved by (auto simp: capture_ok_def)
  note p = premium_facts [OF saved(2) s0(1)]
  have later: "t < sn_available_at s" using p s0(2) by simp
  have v1: "same_view t db ?db1" by (rule snapshot_view [OF later])
  have row: "(snapshot_id (ce_sha256 env) s, s) \<in> set (ds_snapshots ?db1)"
    using snapshot_saved [OF new] by (rule map_of_SomeD)
  have upper: "sn_symbol s = py_upper (sn_symbol s)"
  proof -
    have "py_upper (py_strip (sn_symbol s0)) = sn_symbol s0" by (rule check_snapshot_symbol [OF s0(1)])
    then show ?thesis using p(2) py_upper_idem by metis
  qed
  from saved(3) show ?thesis
  proof (elim disjE exE conjE)
    fix history spot
    assume h: "snapshots (sn_symbol s) 1000 ?db1 = Inr history"
      and sig: "capture_signals env ob s history spot ?db1 = (db', res)"
    have recent: "t < sn_available_at (last (sort_key sn_available_at history))"
      using history_recent [OF h row upper] later by simp
    from sig show ?thesis
    proof (cases rule: capture_signals_cases)
      case failed then show ?thesis using v1 by simp
    next
      case (calculated g db2 known)
      have "same_view t ?db1 (put_signal g ?db1)"
        using signal_view recent squeeze_identity(2) [OF calculated(1)] by simp
      moreover have "same_view t (put_signal g ?db1) db2"
        using additional_view [OF _ calculated(4)] squeeze_identity(2) recent by metis
      moreover have "same_view t db2 db'"
        using capture_crowding_cases [of env ob s known "liquidation_window s ?db1" db2] calculated(5)
          crowding_put_view crowding_identity(1) later by (metis same_view_refl)
      ultimately show ?thesis using v1 same_view_trans by blast
    qed
  qed (use v1 in simp)
qed simp

section \<open>The stores an observer reaches\<close>

inductive observer_step :: "digest \<Rightarrow> utc \<Rightarrow> derivatives_store \<Rightarrow> derivatives_store \<Rightarrow> bool" for sha256 t where
  step_capture: "ce_sha256 env = sha256 \<Longrightarrow> capture_ok t env db \<Longrightarrow> observer_step sha256 t db (fst (capture env ob db))"
| step_liquidation: "check_liquidation_event e = Inr e \<Longrightarrow> observer_step sha256 t db (save_liquidation sha256 e db)"
| step_coinbase: "check_coinbase_price c = Inr c \<Longrightarrow> observer_step sha256 t db (save_coinbase_price sha256 c db)"
| step_mark_price: "check_mark_price m = Inr m \<Longrightarrow> observer_step sha256 t db (save_mark_price m db)"
| step_connected: "observer_step sha256 t db (mark_stream_connected n u db)"
| step_message: "observer_step sha256 t db (mark_stream_message n u db)"
| step_disconnected: "observer_step sha256 t db (mark_stream_disconnected n u e db)"
| step_stale: "observer_step sha256 t db (mark_stream_stale n u err db)"

inductive observed :: "digest \<Rightarrow> derivatives_store \<Rightarrow> bool" for sha256 where
  observed_empty: "observed sha256 empty_store"
| observed_step: "observed sha256 db \<Longrightarrow> observer_step sha256 t db db' \<Longrightarrow> observed sha256 db'"

lemmas stream_ops = mark_stream_connected_def mark_stream_message_def mark_stream_disconnected_def
  mark_stream_stale_def mark_stream_down_def save_liquidation_def save_coinbase_price_def save_mark_price_def

lemma unrelated_view:
  "ds_snapshots db' = ds_snapshots db \<Longrightarrow> ds_signals db' = ds_signals db \<Longrightarrow> ds_crowding db' = ds_crowding db \<Longrightarrow> same_view t db db'"
  by (simp add: same_view_def known_signals_def known_crowding_def source_available_def)

lemma step_view: "observer_step sha256 t db db' \<Longrightarrow> same_view t db db'"
proof (induction rule: observer_step.induct)
  case (step_capture env db ob)
  then show ?case by (intro capture_view [of env ob db _ "snd (capture env ob db)"]) simp_all
qed (rule unrelated_view; simp add: stream_ops)+

lemma steps_view: "(observer_step sha256 t)\<^sup>*\<^sup>* db db' \<Longrightarrow> same_view t db db'"
  by (induction rule: rtranclp_induct) (auto intro: same_view_trans step_view)

text \<open>C22: Decisions are point in time: whatever the observer stores later, captures of snapshots that become available after an instant, prices, liquidations and stream events, the overlay of that instant, and with it what the derivatives gate of a rebalance sees, stays the same.\<close>

theorem overlay_point_in_time:
  assumes "(observer_step sha256 t)\<^sup>*\<^sup>* db db'"
  shows "overlay_known_at sha256 nm db' (Aware t) v age cv cage = overlay_known_at sha256 nm db (Aware t) v age cv cage
    \<and> derivatives_overlay p (Some (stored_overlays sha256 nm db')) t = derivatives_overlay p (Some (stored_overlays sha256 nm db)) t"
proof -
  have q: "oq_as_of (overlay_query_of p t) = t" by (simp add: overlay_query_of_def Let_def)
  have "stored_overlays sha256 nm db' (overlay_query_of p t) = stored_overlays sha256 nm db (overlay_query_of p t)"
    unfolding stored_overlays_def q by (rule overlay_view [OF steps_view [OF assms]])
  then show ?thesis unfolding overlay_view [OF steps_view [OF assms]] by (simp add: derivatives_overlay_def)
qed

section \<open>The invariant of the stores\<close>

definition store_ok :: "digest \<Rightarrow> derivatives_store \<Rightarrow> bool" where
  "store_ok sha256 db =
     (distinct (map fst (ds_snapshots db))
      \<and> (\<forall>(i, v) \<in> set (ds_snapshots db). check_snapshot v = Inr v \<and> i = snapshot_id sha256 v)
      \<and> (\<forall>g \<in> set (ds_signals db). check_squeeze_signal g = Inr g
           \<and> (\<exists>v. (sq_snapshot_id g, v) \<in> set (ds_snapshots db) \<and> sn_symbol v = sq_symbol g \<and> sn_available_at v = sq_as_of g))
      \<and> (\<forall>c \<in> set (ds_crowding db). check_crowding_signal c = Inr c
           \<and> (\<exists>v. (cr_snapshot_id c, v) \<in> set (ds_snapshots db) \<and> sn_symbol v = cr_symbol c \<and> sn_available_at v = cr_as_of c))
      \<and> (\<forall>(i, c) \<in> set (ds_coinbase db). check_coinbase_price c = Inr c))"

lemma check_snapshot_again:
  assumes "check_snapshot x = Inr s" "py_upper (py_strip (sn_symbol x)) = sn_symbol x"
  shows "check_snapshot s = Inr s"
proof -
  have s: "s = x\<lparr>sn_missing_fields := snapshot_missing_fields x\<rparr>" using check_snapshot_record [OF assms(1)] assms(2) by simp
  have m: "snapshot_missing_fields s = snapshot_missing_fields x" unfolding s by (auto simp: snapshot_missing_fields_def)
  have sub: "snapshot_missing_fields x - {''basis_rate'', ''coinbase_premium_rate''} \<subseteq> sn_missing_fields x - {''basis_rate'', ''coinbase_premium_rate''}"
    by (auto simp: snapshot_missing_fields_def)
  have mem: "''basis_rate'' \<in> snapshot_missing_fields x \<longleftrightarrow> ''basis_rate'' \<in> sn_missing_fields x \<or> sn_basis_rate x = None"
    "''coinbase_premium_rate'' \<in> snapshot_missing_fields x \<longleftrightarrow> ''coinbase_premium_rate'' \<in> sn_missing_fields x \<or> sn_coinbase_premium_rate x = None"
    by (auto simp: snapshot_missing_fields_def)
  have fields: "sn_symbol s = sn_symbol x" "sn_available_at s = sn_available_at x" "sn_observed_at s = sn_observed_at x"
    "sn_mark_price s = sn_mark_price x" "sn_index_price s = sn_index_price x" "sn_open_interest_usd s = sn_open_interest_usd x"
    "sn_global_long_short_ratio s = sn_global_long_short_ratio x" "sn_source s = sn_source x"
    "sn_top_position_long_short_ratio s = sn_top_position_long_short_ratio x" "sn_taker_buy_sell_ratio s = sn_taker_buy_sell_ratio x"
    "sn_coinbase_price_usd s = sn_coinbase_price_usd x" "sn_coinbase_premium_rate s = sn_coinbase_premium_rate x"
    "sn_coinbase_observed_at s = sn_coinbase_observed_at x" "sn_basis_rate s = sn_basis_rate x"
    "sn_missing_fields s = snapshot_missing_fields x" unfolding s by simp_all
  have last: "s = s\<lparr>sn_symbol := sn_symbol x, sn_missing_fields := snapshot_missing_fields x\<rparr>"
    unfolding s using assms(2) by simp
  have f: "sn_missing_fields x - {''basis_rate'', ''coinbase_premium_rate''} = {}"
    "\<not> (sn_basis_rate x \<noteq> None \<and> ''basis_rate'' \<in> sn_missing_fields x)"
    "\<not> (sn_coinbase_premium_rate x \<noteq> None \<and> ''coinbase_premium_rate'' \<in> sn_missing_fields x)"
    using assms(1) unfolding check_snapshot_def Let_def raise_then by blast+
  have new: "\<not> snapshot_missing_fields x - {''basis_rate'', ''coinbase_premium_rate''} \<noteq> {}"
    "\<not> (sn_basis_rate x \<noteq> None \<and> ''basis_rate'' \<in> snapshot_missing_fields x)"
    "\<not> (sn_coinbase_premium_rate x \<noteq> None \<and> ''coinbase_premium_rate'' \<in> snapshot_missing_fields x)"
    using f sub mem by auto
  show ?thesis
    using assms(1) unfolding check_snapshot_def Let_def raise_then Inr_eq assms(2) m fields
    by (elim conjE, intro conjI) (assumption | rule last new)+
qed

lemma premium_valid:
  assumes "with_coinbase_premium db s = Inr s'" and s: "check_snapshot s = Inr s"
  shows "check_snapshot s' = Inr s'"
proof -
  have y: "py_upper (py_strip (sn_symbol s)) = sn_symbol s" by (rule check_snapshot_symbol [OF s])
  have "s' = s \<or> (\<exists>x. check_snapshot x = Inr s' \<and> sn_symbol x = sn_symbol s)"
    using assms(1) unfolding with_coinbase_premium_def
    by (auto simp: bind_result_Inr split: sum.splits if_splits py_error.splits)
  then show ?thesis using s y check_snapshot_again by auto
qed

lemma check_crowding_again:
  assumes "check_crowding_signal x = Inr c" "py_upper (py_strip (cr_symbol x)) = cr_symbol x"
  shows "c = x"
  using assms(1) unfolding check_crowding_signal_def Let_def assms(2) by (auto split: if_splits)

lemma crowding_valid:
  assumes "crowding_calculate log1p sha256 s source ll sl confirmed = Inr c" "check_snapshot s = Inr s"
  shows "check_crowding_signal c = Inr c"
proof -
  obtain x where x: "check_crowding_signal x = Inr c" "cr_symbol x = sn_symbol s"
    using assms(1) unfolding crowding_calculate_def Let_def insufficient_crowding_def
    by (auto simp: bind_result_Inr split: if_splits option.splits prod.splits)
  have "c = x" using check_crowding_again [OF x(1)] check_snapshot_symbol [OF assms(2)] x(2) by simp
  then show ?thesis using x(1) by simp
qed

lemma store_ok_snapshot:
  assumes "store_ok sha256 db" "check_snapshot s = Inr s"
  shows "store_ok sha256 (save_snapshot sha256 s db)"
proof -
  have "distinct (map fst (ds_snapshots (save_snapshot sha256 s db)))"
    by (rule snapshot_table.keys_distinct) (use assms in \<open>simp add: store_ok_def\<close>)
  moreover have "check_snapshot v = Inr v \<and> i = snapshot_id sha256 v" if "(i, v) \<in> set (ds_snapshots (save_snapshot sha256 s db))" for i v
    using snapshot_table.new_row [OF that] assms by (auto simp: store_ok_def)
  ultimately show ?thesis
    using assms snapshot_table.kept [of db sha256 s] unfolding store_ok_def put_frame by blast
qed

lemma store_ok_signal:
  assumes "store_ok sha256 db" "check_squeeze_signal g = Inr g"
    "(sq_snapshot_id g, v) \<in> set (ds_snapshots db)" "sn_symbol v = sq_symbol g" "sn_available_at v = sq_as_of g"
  shows "store_ok sha256 (put_signal g db)"
  using assms signal_table.new_row [of _ g db] unfolding store_ok_def put_frame by blast

lemma store_ok_crowding:
  assumes "store_ok sha256 db" "check_crowding_signal c = Inr c"
    "(cr_snapshot_id c, v) \<in> set (ds_snapshots db)" "sn_symbol v = cr_symbol c" "sn_available_at v = cr_as_of c"
  shows "store_ok sha256 (put_crowding c db)"
  using assms crowding_table.new_row [of _ c db] unfolding store_ok_def put_frame by blast

lemma additional_ok:
  assumes "store_ok sha256 db" "\<And>k g. calc k = Inr g \<Longrightarrow> check_squeeze_signal g = Inr g
      \<and> (\<exists>v. (sq_snapshot_id g, v) \<in> set (ds_snapshots db) \<and> sn_symbol v = sq_symbol g \<and> sn_available_at v = sq_as_of g)"
    and "additional_signals calc ks known db = (db', known')"
  shows "store_ok sha256 db' \<and> ds_snapshots db' = ds_snapshots db"
  using assms
proof (induction ks arbitrary: known db)
  case (Cons k ks)
  show ?case
  proof (cases "bind_result (calc k) (\<lambda>g. bind_result (save_signal g db) (\<lambda>db'. Inr (g, db')))")
    case (Inl e)
    then show ?thesis using Cons by simp
  next
    case (Inr x)
    obtain g db1 where x: "x = (g, db1)" by (cases x)
    then have c: "calc k = Inr g" "save_signal g db = Inr db1" using Inr by (auto simp: py_result)
    have db1: "db1 = put_signal g db" by (rule save_signal_Inr [OF c(2)])
    then have "store_ok sha256 db1" using store_ok_signal [OF Cons.prems(1)] Cons.prems(2) [OF c(1)] by blast
    moreover have "additional_signals calc ks ((sq_feature_version g, g) # known) db1 = (db', known')"
      using Cons.prems(3) Inr x by simp
    ultimately show ?thesis using Cons.IH [of db1] Cons.prems(2) db1 by simp
  qed
qed simp

lemma history_valid:
  assumes ok: "store_ok sha256 db" and h: "snapshots symbol limit db = Inr hs" and u: "u \<in> set hs"
  shows "(snapshot_id sha256 u, u) \<in> set (ds_snapshots db)" "check_snapshot u = Inr u"
proof -
  let ?rows = "filter (\<lambda>s. sn_symbol s = py_upper symbol) (map snd (ds_snapshots db))"
  have m: "map_result check_snapshot (rev (row_limit limit (newest_first sn_available_at ?rows))) = Inr hs"
    using h by (auto simp: snapshots_def split: if_splits)
  obtain v where v: "v \<in> set (row_limit limit (newest_first sn_available_at ?rows))" "check_snapshot v = Inr u"
    using map_result_Inr_set [OF m u] by auto
  have "v \<in> set ?rows" using in_set_takeD [OF v(1) [unfolded row_limit_def]] by (simp del: set_filter)
  then obtain i where i: "(i, v) \<in> set (ds_snapshots db)" by auto
  then have vi: "check_snapshot v = Inr v" "i = snapshot_id sha256 v" using ok unfolding store_ok_def by blast+
  then have "u = v" using v(2) by simp
  then show "(snapshot_id sha256 u, u) \<in> set (ds_snapshots db)" "check_snapshot u = Inr u" using vi i by simp_all
qed

lemma capture_store_ok:
  assumes run: "capture env ob db = (db', res)" and ok: "store_ok (ce_sha256 env) db" and c: "capture_ok t env db"
  shows "store_ok (ce_sha256 env) db'"
  using run
proof (cases rule: capture_cases)
  case unsaved then show ?thesis using ok by simp
next
  case (saved s0 s)
  let ?db1 = "save_snapshot (ce_sha256 env) s db"
  have s0: "check_snapshot s0 = Inr s0"
    and new: "case map_of (ds_snapshots db) (snapshot_id (ce_sha256 env) s) of None \<Rightarrow> True | Some v \<Rightarrow> v = s"
    using c saved by (auto simp: capture_ok_def)
  have s: "check_snapshot s = Inr s" by (rule premium_valid [OF saved(2) s0])
  have row: "(snapshot_id (ce_sha256 env) s, s) \<in> set (ds_snapshots ?db1)"
    using snapshot_saved [OF new] by (rule map_of_SomeD)
  have ok1: "store_ok (ce_sha256 env) ?db1" by (rule store_ok_snapshot [OF ok s])
  from saved(3) show ?thesis
  proof (elim disjE exE conjE)
    fix history spot
    assume h: "snapshots (sn_symbol s) 1000 ?db1 = Inr history"
      and sig: "capture_signals env ob s history spot ?db1 = (db', res)"
    have stored: "\<exists>v. (sq_snapshot_id g, v) \<in> set (ds_snapshots ?db1) \<and> sn_symbol v = sq_symbol g \<and> sn_available_at v = sq_as_of g"
      if "squeeze_calculate (ce_sha256 env) k history spot liq confirmed = Inr g" for k liq confirmed g
      using history_valid(1) [OF ok1 h last_by_time(1) [OF squeeze_identity(1) [OF that]]] squeeze_identity [OF that] by auto
    from sig show ?thesis
    proof (cases rule: capture_signals_cases)
      case failed then show ?thesis using ok1 by simp
    next
      case (calculated g db2 known)
      have ok2: "store_ok (ce_sha256 env) (put_signal g ?db1)"
        using store_ok_signal [OF ok1 squeeze_identity(5) [OF calculated(1)]] stored [OF calculated(1)] by blast
      have a: "store_ok (ce_sha256 env) db2" "ds_snapshots db2 = ds_snapshots ?db1"
        using additional_ok [OF ok2 _ calculated(4)] stored squeeze_identity(5) by (auto simp del: additional_signals.simps)
      from capture_crowding_cases [of env ob s known "liquidation_window s ?db1" db2]
      show ?thesis
      proof (elim disjE exE conjE)
        fix source cr ll sl confirmed
        assume cr: "crowding_calculate (ce_log1p env) (ce_sha256 env) s source ll sl confirmed = Inr cr"
          and put: "capture_crowding env ob s known (liquidation_window s ?db1) db2 = put_crowding cr db2"
        have "cr_symbol cr = sn_symbol s" using crowding_identity(3) [OF cr] check_snapshot_symbol [OF s] by simp
        then show ?thesis
          unfolding calculated(5) put
          using store_ok_crowding [OF a(1) crowding_valid [OF cr s], of s] crowding_identity(1,2) [OF cr] row a(2) by simp
      qed (use a(1) calculated(5) in simp)
    qed
  qed (use ok1 in simp)
qed

lemma store_ok_frame:
  "store_ok sha256 db \<Longrightarrow> ds_snapshots db' = ds_snapshots db \<Longrightarrow> ds_signals db' = ds_signals db \<Longrightarrow>
   ds_crowding db' = ds_crowding db \<Longrightarrow> ds_coinbase db' = ds_coinbase db \<Longrightarrow> store_ok sha256 db'"
  by (simp add: store_ok_def)

lemma step_store_ok: "observer_step sha256 t db db' \<Longrightarrow> store_ok sha256 db \<Longrightarrow> store_ok sha256 db'"
proof (induction rule: observer_step.induct)
  case (step_capture env db ob)
  then show ?case using capture_store_ok [of env ob db _ "snd (capture env ob db)" t] by simp
next
  case (step_coinbase c db)
  have "check_coinbase_price c' = Inr c'" if "(i, c') \<in> set (ds_coinbase (save_coinbase_price sha256 c db))" for i c'
    using coinbase_table.new_row [OF that] step_coinbase by (auto simp: store_ok_def)
  moreover have "ds_snapshots (save_coinbase_price sha256 c db) = ds_snapshots db" "ds_signals (save_coinbase_price sha256 c db) = ds_signals db"
    "ds_crowding (save_coinbase_price sha256 c db) = ds_crowding db" by (simp_all add: save_coinbase_price_def)
  ultimately show ?case using step_coinbase(2) unfolding store_ok_def by auto
qed (rule store_ok_frame; simp add: stream_ops)+

lemma observed_ok: "observed sha256 db \<Longrightarrow> store_ok sha256 db"
proof (induction rule: observed.induct)
  case observed_empty
  show ?case by (simp add: store_ok_def empty_store_def)
qed (rule step_store_ok)

section \<open>Overlays of reachable stores\<close>

text \<open>The signals of a symbol and a version that were known at an instant.\<close>

definition compatible :: "string \<Rightarrow> string \<Rightarrow> utc \<Rightarrow> derivatives_store \<Rightarrow> squeeze_signal set" where
  "compatible nm v t db = {g \<in> set (ds_signals db). sq_symbol g = nm \<and> sq_feature_version g = v \<and> sq_as_of g \<le> t}"

lemma source_of_signal:
  assumes "store_ok sha256 db" "(i, v) \<in> set (ds_snapshots db)"
  shows "map_of (ds_snapshots db) i = Some v" "source_available db t i \<longleftrightarrow> sn_available_at v \<le> t"
proof -
  show "map_of (ds_snapshots db) i = Some v" using assms by (intro map_of_is_SomeI) (simp_all add: store_ok_def)
  then show "source_available db t i \<longleftrightarrow> sn_available_at v \<le> t" by (simp add: source_available_def)
qed

lemma compatible_rows:
  assumes ok: "store_ok sha256 db"
  shows "set (filter (\<lambda>s. sq_symbol s = nm \<and> sq_feature_version s = v \<and> sq_as_of s \<le> t \<and> source_available db t (sq_snapshot_id s)) (ds_signals db))
     = compatible nm v t db"
proof -
  have "source_available db t (sq_snapshot_id g) \<longleftrightarrow> sq_as_of g \<le> t" if "g \<in> set (ds_signals db)" for g
    using that ok source_of_signal(2) [OF ok] unfolding store_ok_def by metis
  then show ?thesis by (auto simp: compatible_def)
qed

lemma observation_ok:
  assumes ok: "store_ok sha256 db" and nm: "py_upper (py_strip nm) = nm" "nm \<noteq> []" and v: "py_strip v = v" "v \<noteq> []"
  shows "\<exists>r. observation_known_at sha256 nm (Aware t) v db = Inr r \<and> (case r of
       None \<Rightarrow> compatible nm v t db = {}
     | Some (s, g) \<Rightarrow> g \<in> compatible nm v t db \<and> (\<forall>g' \<in> compatible nm v t db. sq_as_of g' \<le> sq_as_of g)
         \<and> check_snapshot s = Inr s \<and> check_squeeze_signal g = Inr g \<and> snapshot_id sha256 s = sq_snapshot_id g
         \<and> sn_symbol s = nm \<and> sn_available_at s = sq_as_of g)"
proof -
  let ?rows = "filter (\<lambda>s. sq_symbol s = nm \<and> sq_feature_version s = v \<and> sq_as_of s \<le> t \<and> source_available db t (sq_snapshot_id s)) (ds_signals db)"
  note rows = compatible_rows [OF ok, of nm v t]
  show ?thesis
  proof (cases "latest_known sq_as_of sq_snapshot_id ?rows")
    case None
    then have e: "compatible nm v t db = {}" unfolding rows [symmetric] latest_known_None by simp
    have "observation_known_at sha256 nm (Aware t) v db = Inr None"
      using None nm v by (simp add: observation_known_at_def)
    then show ?thesis using e by (intro exI [of _ None]) simp
  next
    case (Some g)
    note g = latest_known_Some [OF Some, unfolded rows]
    have gs: "check_squeeze_signal g = Inr g" "sq_symbol g = nm" using g(1) ok by (auto simp: compatible_def store_ok_def)
    obtain s where s: "(sq_snapshot_id g, s) \<in> set (ds_snapshots db)" "sn_symbol s = sq_symbol g" "sn_available_at s = sq_as_of g"
      using g(1) ok by (auto simp: compatible_def store_ok_def)
    have sv: "check_snapshot s = Inr s" "sq_snapshot_id g = snapshot_id sha256 s" using s ok by (auto simp: store_ok_def)
    have "observation_known_at sha256 nm (Aware t) v db = Inr (Some (s, g))"
      using Some nm v gs sv s source_of_signal(1) [OF ok s(1)] by (simp add: observation_known_at_def)
    then show ?thesis using g gs sv s by (intro exI [of _ "Some (s, g)"]) simp
  qed
qed

lemma crowding_ok:
  assumes ok: "store_ok sha256 db"
  shows "\<exists>r. crowding_known_at nm (Aware t) v db = Inr r \<and> (case r of None \<Rightarrow> True | Some (s, c) \<Rightarrow> cr_as_of c \<le> t)"
proof -
  let ?rows = "filter (\<lambda>c. cr_symbol c = py_upper nm \<and> cr_feature_version c = py_strip v \<and> cr_as_of c \<le> t
      \<and> source_available db t (cr_snapshot_id c)) (ds_crowding db)"
  show ?thesis
  proof (cases "latest_known cr_as_of cr_snapshot_id ?rows")
    case None
    then show ?thesis by (intro exI [of _ None]) (simp add: crowding_known_at_def)
  next
    case (Some c)
    have c: "c \<in> set (ds_crowding db)" "cr_as_of c \<le> t" using latest_known_Some(1) [OF Some] by auto
    then obtain s where s: "(cr_snapshot_id c, s) \<in> set (ds_snapshots db)" "check_crowding_signal c = Inr c"
      using ok by (auto simp: store_ok_def)
    moreover have "check_snapshot s = Inr s" using s ok by (auto simp: store_ok_def)
    ultimately have "crowding_known_at nm (Aware t) v db = Inr (Some (s, c))"
      using Some source_of_signal(1) [OF ok s(1)] by (simp add: crowding_known_at_def)
    then show ?thesis using c by (intro exI [of _ "Some (s, c)"]) simp
  qed
qed

lemma total_seconds_nonneg: "0 \<le> d \<Longrightarrow> 0 \<le> total_seconds d"
  unfolding total_seconds_def by (intro flt.rnd_nonneg) simp

lemma observation_reasons_Nil: "rs \<noteq> [] \<Longrightarrow> observation_reasons s g rs \<noteq> []"
  by (simp add: observation_reasons_def dict_fromkeys_Nil)

lemma judge_reasons: "snd (snd (judge_observation g age m)) \<noteq> []"
  by (simp add: judge_observation_def dict_fromkeys_Nil split: prod.split)

lemma judge_facts:
  assumes "judge_observation g age m = (a, r, rs)"
  shows "a \<noteq> MISSING" "a \<noteq> AVAILABLE \<Longrightarrow> r = UNKNOWN" "a = AVAILABLE \<longleftrightarrow> age \<le> total_seconds m \<and> sq_state g \<noteq> SQ_INSUFFICIENT_DATA"
    "r = CONFIRM_RISK_ON \<Longrightarrow> a = AVAILABLE \<and> sq_state g \<in> {SQ_IGNITION, SQ_ACTIVE}"
  using assms by (auto simp: judge_observation_def split: if_splits prod.splits) (cases "sq_state g"; simp)+

lemma check_overlay_ok:
  assumes "ov_symbol ov \<noteq> []" "py_upper (py_strip (ov_symbol ov)) = ov_symbol ov" "ov_reason_codes ov \<noteq> []"
    "\<not> after (ov_signal_as_of ov) (ov_decision_as_of ov)" "\<not> after (ov_snapshot_available_at ov) (ov_decision_as_of ov)"
    "\<not> negative_age (ov_age_seconds ov)" "(ov_basis_input_rate ov = None) = (ov_basis_input_source ov = None)"
    "ov_availability ov \<noteq> MISSING" "ov_snapshot_id ov \<noteq> None" "ov_snapshot_available_at ov \<noteq> None"
    "ov_signal_as_of ov \<noteq> None" "ov_age_seconds ov \<noteq> None" "ov_feature_version ov \<noteq> None" "ov_state ov \<noteq> None"
    "ov_liquidation_confirmed ov \<noteq> None" "ov_availability ov \<noteq> AVAILABLE \<Longrightarrow> ov_recommendation ov = UNKNOWN"
    "\<not> after (ov_crowding_signal_as_of ov) (ov_decision_as_of ov)" "\<not> negative_age (ov_crowding_age_seconds ov)"
  shows "check_overlay ov = Inr ov"
proof -
  have "ov\<lparr>ov_symbol := ov_symbol ov\<rparr> = ov" by simp
  then show ?thesis unfolding check_overlay_def Let_def raise_then assms(2) using assms by auto
qed

text \<open>The overlay of an observation passes its own checks.\<close>

lemma overlay_of_ok:
  assumes s: "check_snapshot s = Inr s" and g: "check_squeeze_signal g = Inr g"
    and t: "sn_available_at s \<le> t" "sq_as_of g \<le> t" and age: "0 \<le> age" and rs: "reasons \<noteq> []"
    and a: "a \<noteq> MISSING" "a \<noteq> AVAILABLE \<Longrightarrow> r = UNKNOWN"
    and c: "case crowding of None \<Rightarrow> True | Some (x, c) \<Rightarrow> cr_as_of c \<le> t"
  shows "\<exists>ov. overlay_of sha256 t s g age a r reasons crowding cage = Inr ov \<and> ov_decision_as_of ov = t
    \<and> ov_availability ov = a \<and> ov_recommendation ov = r \<and> ov_snapshot_id ov = Some (snapshot_id sha256 s)
    \<and> ov_snapshot_available_at ov = Some (sn_available_at s) \<and> ov_signal_as_of ov = Some (sq_as_of g)
    \<and> ov_state ov = Some (sq_state g) \<and> ov_crowding_signal_as_of ov = map_option cr_as_of (map_option snd crowding)"
proof -
  have y: "py_upper (py_strip (sn_symbol s)) = sn_symbol s" "sn_symbol s \<noteq> []"
    using check_snapshot_symbol [OF s] check_snapshot_facts(1) [OF s] by simp_all
  obtain mi where mi: "mark_index_basis_rate s = Inr mi"
    using check_snapshot_facts(2) [OF s] by (auto simp: mark_index_basis_rate_def ddiv_def)
  have basis: "(sq_basis_input_rate g = None) = (sq_basis_input_source g = None)"
    using g unfolding check_squeeze_signal_def raise_then by blast
  have ca: "\<not> negative_age (crowding_age_of t (map_option snd crowding) cage)"
    "\<not> after (map_option cr_as_of (map_option snd crowding)) t"
    using c by (auto simp: crowding_age_of_def negative_age_def after_def not_less split: option.splits intro!: total_seconds_nonneg)
  have sig: "\<not> after (Some (sq_as_of g)) t" "\<not> after (Some (sn_available_at s)) t" "\<not> negative_age (Some age)"
    using t age by (simp_all add: after_def negative_age_def)
  let ?c = "map_option snd crowding"
  obtain ov where ov: "overlay_of sha256 t s g age a r reasons crowding cage = check_overlay ov"
    "ov_decision_as_of ov = t" "ov_availability ov = a" "ov_recommendation ov = r" "ov_snapshot_id ov = Some (snapshot_id sha256 s)"
    "ov_snapshot_available_at ov = Some (sn_available_at s)" "ov_signal_as_of ov = Some (sq_as_of g)"
    "ov_state ov = Some (sq_state g)" "ov_crowding_signal_as_of ov = map_option cr_as_of ?c" "ov_symbol ov = sn_symbol s"
    "ov_reason_codes ov = reasons" "ov_age_seconds ov = Some age" "ov_basis_input_rate ov = sq_basis_input_rate g"
    "ov_basis_input_source ov = sq_basis_input_source g" "ov_feature_version ov = Some (sq_feature_version g)"
    "ov_liquidation_confirmed ov = Some (sq_liquidation_confirmed g)" "ov_crowding_age_seconds ov = crowding_age_of t ?c cage"
    unfolding overlay_of_def Let_def mi bind_result.simps by simp
  have "check_overlay ov = Inr ov"
    by (rule check_overlay_ok; (unfold ov)?) (use y rs sig basis ca a in simp_all)
  then show ?thesis using ov by (intro exI [of _ ov]) simp
qed

text \<open>C23: The overlay is total, current and fails closed: on every reachable store a valid query returns an overlay of that instant that uses nothing later; it is MISSING exactly when no compatible signal was known, AVAILABLE only for the latest compatible signal, fresh and complete, and confirms risk only from an available IGNITION or ACTIVE state.\<close>

theorem overlay_sound:
  assumes db: "observed sha256 db" and nm: "provider_symbol raw = Inr nm" and v: "py_strip v \<noteq> []" and age: "0 < age"
    and c: "case cv of None \<Rightarrow> True | Some w \<Rightarrow> py_strip w \<noteq> [] \<and> (case cage of None \<Rightarrow> False | Some m \<Rightarrow> 0 < m)"
  shows "\<exists>ov. overlay_known_at sha256 nm db (Aware t) v age cv cage = Inr ov \<and> ov_decision_as_of ov = t
    \<and> (ov_availability ov = MISSING \<longleftrightarrow> compatible nm (py_strip v) t db = {})
    \<and> (ov_availability ov = AVAILABLE \<longrightarrow> (\<exists>g \<in> compatible nm (py_strip v) t db. ov_state ov = Some (sq_state g)
          \<and> ov_snapshot_id ov = Some (sq_snapshot_id g) \<and> (\<forall>g' \<in> compatible nm (py_strip v) t db. sq_as_of g' \<le> sq_as_of g)
          \<and> total_seconds (t - sq_as_of g) \<le> total_seconds age \<and> sq_state g \<noteq> SQ_INSUFFICIENT_DATA))
    \<and> (ov_recommendation ov = CONFIRM_RISK_ON \<longrightarrow> ov_availability ov = AVAILABLE \<and> ov_state ov \<in> {Some SQ_IGNITION, Some SQ_ACTIVE})
    \<and> (\<forall>u. Some u \<in> {ov_snapshot_available_at ov, ov_signal_as_of ov, ov_crowding_signal_as_of ov} \<longrightarrow> u \<le> t)"
proof -
  note ok = observed_ok [OF db]
  have y: "py_upper (py_strip nm) = nm" "nm \<noteq> []"
    using nm by (auto simp: provider_symbol_def Let_def py_strip_upper split: if_splits)
  obtain r where r: "observation_known_at sha256 nm (Aware t) (py_strip v) db = Inr r" "case r of
       None \<Rightarrow> compatible nm (py_strip v) t db = {}
     | Some (s, g) \<Rightarrow> g \<in> compatible nm (py_strip v) t db \<and> (\<forall>g' \<in> compatible nm (py_strip v) t db. sq_as_of g' \<le> sq_as_of g)
         \<and> check_snapshot s = Inr s \<and> check_squeeze_signal g = Inr g \<and> snapshot_id sha256 s = sq_snapshot_id g
         \<and> sn_symbol s = nm \<and> sn_available_at s = sq_as_of g"
    using observation_ok [OF ok y _ v, of t] by (metis (no_types, lifting) py_strip_idem)
  obtain cr where cr: "(case cv of None \<Rightarrow> Inr None | Some w \<Rightarrow> crowding_known_at nm (Aware t) w db) = Inr cr"
      "case cr of None \<Rightarrow> True | Some (s, c) \<Rightarrow> cr_as_of c \<le> t"
  proof (cases cv)
    case (Some w)
    then show thesis using crowding_ok [OF ok, of nm t w] that by (metis option.simps(5))
  qed (use that [of None] in simp)
  have guard: "\<not> (case cv of None \<Rightarrow> False | Some w \<Rightarrow> py_strip w = [] \<or> (case cage of None \<Rightarrow> True | Some m \<Rightarrow> m \<le> 0))"
    using c by (auto split: option.splits)
  note run = overlay_known_at_def [of sha256 nm db "Aware t" v age cv cage, unfolded require_utc.simps bind_result.simps Let_def r(1)]
  show ?thesis
  proof (cases r)
    case None
    let ?ov = "bare_overlay t MISSING UNKNOWN [''NO_COMPATIBLE_DERIVATIVES_SIGNAL''] nm (py_strip v)"
    have "check_overlay ?ov = Inr ?ov" using y by (simp add: check_overlay_def bare_overlay_def after_def negative_age_def)
    then have "overlay_known_at sha256 nm db (Aware t) v age cv cage = Inr ?ov"
      unfolding run None using v age guard by simp
    then show ?thesis using r(2) None by (intro exI [of _ ?ov]) (simp add: bare_overlay_def)
  next
    case (Some x)
    obtain s g where x: "x = (s, g)" by (cases x)
    note f = r(2) [unfolded Some x option.case prod.case]
    let ?age = "total_seconds (t - max (sn_available_at s) (sq_as_of g))"
    obtain a rec rs where j: "judge_observation g ?age age = (a, rec, rs)" by (metis prod_cases3)
    have le: "sq_as_of g \<le> t" using f by (simp add: compatible_def)
    have "\<exists>ov. overlay_of sha256 t s g ?age a rec (observation_reasons s g rs) cr cage = Inr ov \<and> ov_decision_as_of ov = t
      \<and> ov_availability ov = a \<and> ov_recommendation ov = rec \<and> ov_snapshot_id ov = Some (snapshot_id sha256 s)
      \<and> ov_snapshot_available_at ov = Some (sn_available_at s) \<and> ov_signal_as_of ov = Some (sq_as_of g)
      \<and> ov_state ov = Some (sq_state g) \<and> ov_crowding_signal_as_of ov = map_option cr_as_of (map_option snd cr)"
      using f le cr(2) judge_facts(1,2) [OF j] judge_reasons [of g ?age age] j
      by (intro overlay_of_ok observation_reasons_Nil total_seconds_nonneg) auto
    moreover have "overlay_known_at sha256 nm db (Aware t) v age cv cage
        = overlay_of sha256 t s g ?age a rec (observation_reasons s g rs) cr cage"
      unfolding run Some x option.case prod.case bind_result.simps j cr(1) using v age guard by simp
    ultimately obtain ov where ov: "overlay_known_at sha256 nm db (Aware t) v age cv cage = Inr ov" "ov_decision_as_of ov = t"
      "ov_availability ov = a" "ov_recommendation ov = rec" "ov_snapshot_id ov = Some (snapshot_id sha256 s)"
      "ov_snapshot_available_at ov = Some (sn_available_at s)" "ov_signal_as_of ov = Some (sq_as_of g)"
      "ov_state ov = Some (sq_state g)" "ov_crowding_signal_as_of ov = map_option cr_as_of (map_option snd cr)" by auto
    have "u \<le> t" if "Some u \<in> {ov_snapshot_available_at ov, ov_signal_as_of ov, ov_crowding_signal_as_of ov}" for u
      using that le f cr(2) ov by (cases cr) auto
    then show ?thesis
      using ov judge_facts [OF j] f le by (intro exI [of _ ov] conjI) auto
  qed
qed

section \<open>Captures always succeed\<close>

lemma latest_coinbase_cases:
  assumes "\<forall>(i, c) \<in> set (ds_coinbase db). check_coinbase_price c = Inr c"
  shows "latest_coinbase_price p t db = Inl (KeyError p) \<or> (\<exists>c. latest_coinbase_price p t db = Inr c \<and> 0 < cp_price_usd c)"
proof (cases "newest_first cp_observed_at (filter (\<lambda>c. cp_product_id c = py_upper p \<and> cp_observed_at c \<le> t) (map snd (ds_coinbase db)))")
  case Nil then show ?thesis by (simp only: latest_coinbase_price_def list.case simp_thms)
next
  case (Cons c cs)
  have "c \<in> snd ` set (ds_coinbase db)" using newest_first_hd(1) [OF Cons] by auto
  then have c: "check_coinbase_price c = Inr c" using assms by auto
  then have "0 < cp_price_usd c" unfolding check_coinbase_price_def Let_def raise_then by simp
  then show ?thesis using c Cons by (simp only: latest_coinbase_price_def list.case) blast
qed

lemma premium_checks:
  assumes s: "check_snapshot s = Inr s" and p: "0 < p"
    and x: "x = s\<lparr>sn_coinbase_price_usd := Some p, sn_coinbase_premium_rate := Some q, sn_coinbase_observed_at := Some t,
      sn_missing_fields := sn_missing_fields s - {''coinbase_premium_rate''}\<rparr>"
  shows "\<exists>s'. check_snapshot x = Inr s'"
proof -
  have y: "py_upper (py_strip (sn_symbol s)) = sn_symbol s" by (rule check_snapshot_symbol [OF s])
  have fields: "sn_symbol x = sn_symbol s" "sn_available_at x = sn_available_at s" "sn_observed_at x = sn_observed_at s"
    "sn_mark_price x = sn_mark_price s" "sn_index_price x = sn_index_price s" "sn_open_interest_usd x = sn_open_interest_usd s"
    "sn_global_long_short_ratio x = sn_global_long_short_ratio s" "sn_source x = sn_source s"
    "sn_top_position_long_short_ratio x = sn_top_position_long_short_ratio s" "sn_taker_buy_sell_ratio x = sn_taker_buy_sell_ratio s"
    "sn_coinbase_price_usd x = Some p" "sn_coinbase_premium_rate x = Some q"
    "sn_coinbase_observed_at x = Some t" "sn_basis_rate x = sn_basis_rate s"
    "sn_missing_fields x = sn_missing_fields s - {''coinbase_premium_rate''}" unfolding x by simp_all
  have new: "\<not> (Some p = None) \<noteq> (Some q = None)" "\<not> (case Some p of None \<Rightarrow> False | Some p \<Rightarrow> p \<le> 0)"
    "\<not> (Some p = None) \<noteq> (Some t = None)"
    "\<not> (Some q \<noteq> None \<and> ''coinbase_premium_rate'' \<in> sn_missing_fields s - {''coinbase_premium_rate''})" using p by simp_all
  have f: "sn_missing_fields s - {''basis_rate'', ''coinbase_premium_rate''} = {}"
    "\<not> (sn_basis_rate s \<noteq> None \<and> ''basis_rate'' \<in> sn_missing_fields s)"
    using s unfolding check_snapshot_def Let_def raise_then by blast+
  then have new2: "\<not> sn_missing_fields s - {''coinbase_premium_rate''} - {''basis_rate'', ''coinbase_premium_rate''} \<noteq> {}"
    "\<not> (sn_basis_rate s \<noteq> None \<and> ''basis_rate'' \<in> sn_missing_fields s - {''coinbase_premium_rate''})" by blast+
  show ?thesis
    using s unfolding check_snapshot_def Let_def raise_then y fields
    by (elim conjE, intro exI conjI) (assumption | rule new new2 refl)+
qed

lemma premium_total:
  assumes "store_ok sha256 db" and s: "check_snapshot s = Inr s"
  shows "\<exists>s'. with_coinbase_premium db s = Inr s'"
proof -
  have "\<forall>(i, c) \<in> set (ds_coinbase db). check_coinbase_price c = Inr c" using assms(1) by (simp add: store_ok_def)
  from latest_coinbase_cases [OF this, of "''BTC-USD''" "sn_available_at s"] show ?thesis
  proof (elim disjE exE conjE)
    fix c assume c: "latest_coinbase_price ''BTC-USD'' (sn_available_at s) db = Inr c" "0 < cp_price_usd c"
    have "sn_index_price s \<noteq> 0" using check_snapshot_facts(2) [OF s] by simp
    then have q: "ddiv (cp_price_usd c) (sn_index_price s) = Inr (dquot (cp_price_usd c) (sn_index_price s))" by (simp add: ddiv_def)
    show ?thesis
      unfolding with_coinbase_premium_def c sum.case q bind_result.simps using premium_checks [OF s c(2) refl] by auto
  qed (simp add: with_coinbase_premium_def)
qed

definition spot_ok :: "capture_env \<Rightarrow> bool" where
  "spot_ok env = (\<forall>u a b. case ce_spot env u a b of
     Inl (FileNotFoundError _) \<Rightarrow> True | Inl (ValueError _) \<Rightarrow> True | Inl _ \<Rightarrow> False
   | Inr m \<Rightarrow> (case candles_of ''BTCKRW'' m of Inl _ \<Rightarrow> False | Inr cs \<Rightarrow> list_all (\<lambda>c. 0 < close_price c) cs))"

lemma spot_total:
  assumes "spot_ok env" shows "\<exists>cs. spot_candles env s = Inr cs \<and> (\<forall>c \<in> set cs. 0 < close_price c)"
proof (cases "build_universe [''BTC/KRW'']")
  case (Inl e)
  have "is_ok (build_universe [''BTC/KRW''])" by code_simp
  then show ?thesis using Inl by simp
next
  case (Inr u)
  have o: "case ce_spot env u (sn_available_at s - hours 8) (sn_available_at s) of
     Inl (FileNotFoundError _) \<Rightarrow> True | Inl (ValueError _) \<Rightarrow> True | Inl _ \<Rightarrow> False
   | Inr m \<Rightarrow> (case candles_of ''BTCKRW'' m of Inl _ \<Rightarrow> False | Inr cs \<Rightarrow> list_all (\<lambda>c. 0 < close_price c) cs)"
    using assms unfolding spot_ok_def by blast
  show ?thesis
  proof (cases "ce_spot env u (sn_available_at s - hours 8) (sn_available_at s)")
    case (Inl e)
    then show ?thesis using o Inr by (cases e) (simp_all add: spot_candles_def)
  next
    case found: (Inr m)
    then show ?thesis using o Inr by (cases "candles_of ''BTCKRW'' m") (simp_all add: spot_candles_def list_all_iff)
  qed
qed

lemma window_confirmed: "fst (liquidation_window s db) \<longrightarrow> fst (snd (liquidation_window s db)) \<noteq> None"
  by (simp add: liquidation_window_def Let_def)

lemma additional_kept: "additional_signals calc ks known db = (db', known') \<Longrightarrow>
   set (ds_signals db) \<subseteq> set (ds_signals db') \<and> ds_snapshots db' = ds_snapshots db \<and> ds_crowding db' = ds_crowding db"
proof (induction ks arbitrary: known db)
  case (Cons k ks)
  show ?case
  proof (cases "bind_result (calc k) (\<lambda>g. bind_result (save_signal g db) (\<lambda>db'. Inr (g, db')))")
    case (Inr x)
    obtain g db1 where x: "x = (g, db1)" by (cases x)
    then have "save_signal g db = Inr db1" using Inr by (auto simp: py_result)
    then have db1: "db1 = put_signal g db" by (rule save_signal_Inr)
    show ?thesis using Cons.IH [of _ db1] Cons.prems Inr x signal_table.kept [of db g] unfolding db1 by auto
  qed (use Cons in simp)
qed simp

text \<open>C24: A capture always succeeds once the exchange has answered with a valid snapshot: whatever the auxiliary calculators, the crowding model and the spot market do, it returns a valid signal at least as recent as the snapshot, whose identity and version are then stored, and no stored row is lost.\<close>

theorem capture_total:
  assumes db: "observed (ce_sha256 env) db" and client: "ce_client env = Inr s0" and ok: "capture_ok t env db"
    and sha: "\<forall>x. ce_sha256 env x \<noteq> []" and spot: "spot_ok env"
  shows "\<exists>db' g. capture env ob db = (db', Inr g) \<and> check_squeeze_signal g = Inr g \<and> sn_available_at s0 \<le> sq_as_of g
    \<and> (sq_snapshot_id g, sq_feature_version g) \<in> (\<lambda>h. (sq_snapshot_id h, sq_feature_version h)) ` set (ds_signals db')
    \<and> set (ds_snapshots db) \<subseteq> set (ds_snapshots db') \<and> set (ds_signals db) \<subseteq> set (ds_signals db')
    \<and> set (ds_crowding db) \<subseteq> set (ds_crowding db')"
proof -
  note sok = observed_ok [OF db]
  have s0: "check_snapshot s0 = Inr s0" using ok client by (simp add: capture_ok_def)
  obtain s where p: "with_coinbase_premium db s0 = Inr s" using premium_total [OF sok s0] by blast
  note pf = premium_facts [OF p s0]
  have s: "check_snapshot s = Inr s" by (rule premium_valid [OF p s0])
  have new: "case map_of (ds_snapshots db) (snapshot_id (ce_sha256 env) s) of None \<Rightarrow> True | Some v \<Rightarrow> v = s"
    using ok client p by (simp add: capture_ok_def)
  let ?db1 = "save_snapshot (ce_sha256 env) s db"
  note ok1 = store_ok_snapshot [OF sok s]
  have row: "(snapshot_id (ce_sha256 env) s, s) \<in> set (ds_snapshots ?db1)" using snapshot_saved [OF new] by (rule map_of_SomeD)
  have upper: "sn_symbol s = py_upper (sn_symbol s)" by (metis check_snapshot_symbol [OF s] py_upper_idem)
  have "\<forall>(i, v) \<in> set (ds_snapshots ?db1). check_snapshot v = Inr v" using ok1 unfolding store_ok_def by blast
  then obtain hs where h: "snapshots (sn_symbol s) 1000 ?db1 = Inr hs" using snapshots_ok [of ?db1 1000 "sn_symbol s"] by auto
  note recent = history_recent [OF h row upper]
  have hv: "\<forall>u \<in> set hs. check_snapshot u = Inr u" using history_valid(2) [OF ok1 h] by blast
  obtain cs where cs: "spot_candles env s = Inr cs" "\<forall>c \<in> set cs. 0 < close_price c" using spot_total [OF spot] by blast
  let ?w = "liquidation_window s ?db1"
  obtain g where g: "squeeze_calculate (ce_sha256 env) (ob_calculator ob) hs cs (fst (snd ?w)) (fst ?w) = Inr g"
    using squeeze_total [OF conjunct1 [OF recent] hv cs(2) sha window_confirmed] by blast
  have known: "sq_snapshot_id g \<in> set (map fst (ds_snapshots ?db1))"
    using history_valid(1) [OF ok1 h last_by_time(1) [OF conjunct1 [OF recent]]] squeeze_identity(3) [OF g] by force
  let ?calc = "\<lambda>k. squeeze_calculate (ce_sha256 env) k hs cs (fst (snd ?w)) (fst ?w)"
  obtain db2 kn where a: "additional_signals ?calc (ob_additional ob) [(sq_feature_version g, g)] (put_signal g ?db1) = (db2, kn)" by fastforce
  let ?db3 = "capture_crowding env ob s kn ?w db2"
  have "capture_signals env ob s hs cs ?db1 = (?db3, Inr g)"
    using g a save_signal_known [OF known] by (simp add: capture_signals_def Let_def act_bind_def act_lift_def act_save_def)
  then have run: "capture env ob db = (?db3, Inr g)"
    by (simp add: capture_def client p h cs(1) act_bind_def act_lift_def act_read_def act_save_def)
  have k2: "set (ds_signals (put_signal g ?db1)) \<subseteq> set (ds_signals db2)" "ds_snapshots db2 = ds_snapshots ?db1" "ds_crowding db2 = ds_crowding db"
    using additional_kept [OF a] by simp_all
  have k3: "ds_signals ?db3 = ds_signals db2 \<and> ds_snapshots ?db3 = ds_snapshots db2 \<and> set (ds_crowding db2) \<subseteq> set (ds_crowding ?db3)"
    using capture_crowding_cases [of env ob s kn ?w db2] subsetD [OF crowding_table.kept [of db2]] by auto
  have "(sq_snapshot_id g, sq_feature_version g) \<in> (\<lambda>h. (sq_snapshot_id h, sq_feature_version h)) ` set (ds_signals ?db3)"
    using signal_table.saved [of g ?db1] k2(1) k3 by auto
  moreover have "set (ds_snapshots db) \<subseteq> set (ds_snapshots ?db3)" "set (ds_signals db) \<subseteq> set (ds_signals ?db3)"
    "set (ds_crowding db) \<subseteq> set (ds_crowding ?db3)"
    using k2 k3 snapshot_table.kept [of db "ce_sha256 env" s] signal_table.kept [of ?db1 g] by auto
  moreover have "sn_available_at s0 \<le> sq_as_of g" using recent pf(1) squeeze_identity(2) [OF g] by simp
  ultimately show ?thesis using run squeeze_identity(5) [OF g] by blast
qed


section \<open>Sample values\<close>

definition sample_capture_env :: "utc \<Rightarrow> decimal \<Rightarrow> capture_env" where
  "sample_capture_env t oi =
     \<lparr>ce_sha256 = (\<lambda>_. ''id''), ce_log1p = (\<lambda>x. x), ce_client = Inr (sample_snapshot t oi),
      ce_spot = (\<lambda>_ _ _. Inl (FileNotFoundError ''BTCKRW''))\<rparr>"

definition sample_observer :: observer where
  "sample_observer =
     \<lparr>ob_calculator = SQUEEZE_V2, ob_additional = [SQUEEZE_V3_PROXY], ob_crowding = True,
      ob_crowding_source_version = ''btc-squeeze-v3-mark-index-basis-proxy''\<rparr>"

lemma sample_capture_ok: "0 < oi \<Longrightarrow> u < t \<Longrightarrow> capture_ok u (sample_capture_env t oi) empty_store"
  using sample_snapshot_valid [of oi t]
  by (simp add: capture_ok_def sample_capture_env_def empty_store_def sample_snapshot_def split: sum.split)

definition sample_captured :: derivatives_store where
  "sample_captured = fst (capture (sample_capture_env 10 1000) sample_observer empty_store)"

lemma sample_step: "observer_step (\<lambda>_. ''id'') 5 empty_store sample_captured"
  unfolding sample_captured_def by (rule step_capture) (simp_all add: sample_capture_ok, simp add: sample_capture_env_def)

lemma overlay_point_in_time_witness:
  "overlay_known_at (\<lambda>_. ''id'') ''BTCUSDT'' sample_captured (Aware 5) ''btc-squeeze-v2-market-streams'' (hours 1) None None
     = overlay_known_at (\<lambda>_. ''id'') ''BTCUSDT'' empty_store (Aware 5) ''btc-squeeze-v2-market-streams'' (hours 1) None None"
proof -
  have "(observer_step (\<lambda>_. ''id'') 5)\<^sup>*\<^sup>* empty_store sample_captured" using sample_step by blast
  then show ?thesis by (rule conjunct1 [OF overlay_point_in_time])
qed

lemma overlay_sound_witness:
  "\<exists>ov. overlay_known_at (\<lambda>_. ''id'') ''BTCUSDT'' sample_captured (Aware 20) ''btc-squeeze-v2-market-streams'' (hours 1) None None = Inr ov
     \<and> ov_decision_as_of ov = 20"
proof -
  have o: "observed (\<lambda>_. ''id'') sample_captured" using observed_step [OF observed_empty sample_step] .
  have n: "provider_symbol ''btcusdt'' = Inr ''BTCUSDT''" "py_strip ''btc-squeeze-v2-market-streams'' \<noteq> []" by code_simp+
  have h: "0 < hours 1" by (simp add: hours_def)
  show ?thesis using overlay_sound [OF o n h, of None None 20] by fastforce
qed

lemma capture_total_witness:
  "\<exists>db' g. capture (sample_capture_env 10 1000) sample_observer empty_store = (db', Inr g) \<and> 10 \<le> sq_as_of g"
proof -
  have e: "ce_client (sample_capture_env 10 1000) = Inr (sample_snapshot 10 1000)" "\<forall>x. ce_sha256 (sample_capture_env 10 1000) x \<noteq> []"
    "spot_ok (sample_capture_env 10 1000)" "sn_available_at (sample_snapshot 10 1000) = 10"
    by (simp_all add: sample_capture_env_def spot_ok_def sample_snapshot_def)
  have k: "capture_ok 5 (sample_capture_env 10 1000) empty_store" by (simp add: sample_capture_ok)
  show ?thesis using capture_total [OF observed_empty e(1) k e(2,3), of sample_observer] unfolding e(4) by blast
qed

end
