(* ===== verification/StreamLock.thy ===== *)
theory StreamLock
  imports Prelude PyNumbers
begin

text \<open>
  The ownership lock of the stream collectors (\<^verbatim>\<open>DirectoryStreamOwnershipLock\<close> of
  \<^verbatim>\<open>derivatives/streams.py\<close>), by which the processes that share a volume agree which one of them
  runs the WebSocket workers.  A method is a sequence of file system calls, each of them atomic: the
  program counter of a process says which call comes next, and the other processes may take steps
  between any two of them.

  A directory is its modification time and the file its entry \<^verbatim>\<open>owner\<close> names; a file is the lines
  written to it.  A descriptor keeps naming its file when the directory is renamed.  The clock
  reading, and whether a call inside the \<^verbatim>\<open>try\<close> of \<^verbatim>\<open>_try_create\<close> fails with an \<^verbatim>\<open>OSError\<close>, are the
  inputs of a step.
\<close>

section \<open>The shared volume and the lock objects\<close>

record lock_directory =
  ld_mtime :: pyfloat
  ld_owner :: "nat option"

record lock_volume =
  lv_path :: "lock_directory option"
  lv_stale :: "(string \<times> lock_directory) list"
  lv_text :: "nat \<Rightarrow> string list"
  lv_next :: nat

datatype lock_value = Bool_Result bool | None_Result

text \<open>Where in \<^verbatim>\<open>acquire\<close> a call of \<^verbatim>\<open>_try_create\<close> stands.\<close>

datatype create_site = First_Try | Lock_Missing | Stale_Removed

datatype lock_pc =
    Idle
  | Make_Dir create_site
  | Stat_Path
  | Rename_Path
  | Open_Owner create_site
  | Write_Owner create_site nat
  | Touch_Created create_site
  | Abort_Owner create_site py_error
  | Abort_Dir create_site py_error
  | Clean_Owner "lock_value result"
  | Clean_Dir "lock_value result"
  | Check_Token lock_value
  | Touch_Owned lock_value
  | Release_Check
  | Release_Owner
  | Release_Dir

record stream_lock =
  sl_token :: string
  sl_stale_after :: pyfloat
  sl_owned :: bool
  sl_pc :: lock_pc
  sl_result :: "lock_value result"

definition new_stream_lock :: "string \<Rightarrow> pyfloat \<Rightarrow> stream_lock result" where
  "new_stream_lock token stale_after =
     (if stale_after \<le> 0 then Inl (ValueError ''stream ownership stale interval must be positive'')
      else Inr \<lparr>sl_token = token, sl_stale_after = stale_after, sl_owned = False, sl_pc = Idle,
                sl_result = Inr None_Result\<rparr>)"

section \<open>The methods\<close>

datatype lock_method = Acquire | Refresh | Release

definition returns :: "lock_value result \<Rightarrow> stream_lock \<Rightarrow> stream_lock" where
  "returns r l = l\<lparr>sl_pc := Idle, sl_result := r\<rparr>"

text \<open>A call of a method, up to its first file system call.\<close>

fun lock_call :: "lock_method \<Rightarrow> stream_lock \<Rightarrow> stream_lock" where
  "lock_call Acquire l =
     (if sl_owned l then l\<lparr>sl_pc := Check_Token (Bool_Result True)\<rparr>
      else l\<lparr>sl_pc := Make_Dir First_Try\<rparr>)"
| "lock_call Refresh l =
     (if sl_owned l then l\<lparr>sl_pc := Check_Token None_Result\<rparr> else returns (Inr None_Result) l)"
| "lock_call Release l =
     (if \<not> sl_owned l then returns (Inr None_Result) l
      else l\<lparr>sl_owned := False, sl_pc := Release_Check\<rparr>)"

text \<open>
  How \<^verbatim>\<open>acquire\<close> goes on when \<^verbatim>\<open>_try_create\<close> returns or raises: after the removal of a stale lock the
  renamed directory is deleted first (the \<^verbatim>\<open>finally\<close>).
\<close>

fun create_returns :: "create_site \<Rightarrow> lock_value result \<Rightarrow> stream_lock \<Rightarrow> stream_lock" where
  "create_returns Stale_Removed r l = l\<lparr>sl_pc := Clean_Owner r\<rparr>"
| "create_returns First_Try (Inr (Bool_Result False)) l = l\<lparr>sl_pc := Stat_Path\<rparr>"
| "create_returns _ r l = returns r l"

text \<open>\<^verbatim>\<open>owner.read_text().splitlines()[0]\<close>.\<close>

definition first_owner_line :: "lock_volume \<Rightarrow> string result" where
  "first_owner_line v =
     (case lv_path v of
        None \<Rightarrow> Inl (FileNotFoundError ''owner'')
      | Some d \<Rightarrow>
         (case ld_owner d of
            None \<Rightarrow> Inl (FileNotFoundError ''owner'')
          | Some f \<Rightarrow> (case lv_text v f of [] \<Rightarrow> Inl IndexError | line # _ \<Rightarrow> Inr line)))"

definition touch_path :: "pyfloat \<Rightarrow> lock_volume \<Rightarrow> lock_volume result" where
  "touch_path now v =
     (case lv_path v of
        None \<Rightarrow> Inl (FileNotFoundError ''lock'')
      | Some d \<Rightarrow> Inr (v\<lparr>lv_path := Some (d\<lparr>ld_mtime := now\<rparr>)\<rparr>))"

definition unlink_owner :: "pyfloat \<Rightarrow> lock_volume \<Rightarrow> lock_volume" where
  "unlink_owner now v =
     (case lv_path v of
        Some d \<Rightarrow>
          (case ld_owner d of
             Some _ \<Rightarrow> v\<lparr>lv_path := Some (d\<lparr>ld_mtime := now, ld_owner := None\<rparr>)\<rparr>
           | None \<Rightarrow> v)
      | None \<Rightarrow> v)"

text \<open>\<^verbatim>\<open>path.rmdir()\<close>: a directory with an entry is an \<^verbatim>\<open>OSError\<close>, a missing one is ignored by its callers.\<close>

definition remove_path :: "lock_volume \<Rightarrow> lock_volume result" where
  "remove_path v =
     (case lv_path v of
        None \<Rightarrow> Inr v
      | Some d \<Rightarrow>
          if ld_owner d = None then Inr (v\<lparr>lv_path := None\<rparr>)
          else Inl (OSError ''Directory not empty''))"

definition stale_at :: "pyfloat \<Rightarrow> stream_lock \<Rightarrow> lock_directory \<Rightarrow> bool" where
  "stale_at now l d \<longleftrightarrow> sl_stale_after l \<le> fsub now (ld_mtime d)"

section \<open>One file system call\<close>

definition make_dir_step :: "pyfloat \<Rightarrow> create_site \<Rightarrow> lock_volume \<Rightarrow> stream_lock \<Rightarrow> lock_volume \<times> stream_lock"
where
  "make_dir_step now site v l =
     (case lv_path v of
        Some _ \<Rightarrow> (v, create_returns site (Inr (Bool_Result False)) l)
      | None \<Rightarrow> (v\<lparr>lv_path := Some \<lparr>ld_mtime = now, ld_owner = None\<rparr>\<rparr>, l\<lparr>sl_pc := Open_Owner site\<rparr>))"

definition stat_step :: "pyfloat \<Rightarrow> lock_volume \<Rightarrow> stream_lock \<Rightarrow> lock_volume \<times> stream_lock" where
  "stat_step now v l =
     (case lv_path v of
        None \<Rightarrow> (v, l\<lparr>sl_pc := Make_Dir Lock_Missing\<rparr>)
      | Some d \<Rightarrow>
          if stale_at now l d then (v, l\<lparr>sl_pc := Rename_Path\<rparr>)
          else (v, returns (Inr (Bool_Result False)) l))"

definition rename_step :: "lock_volume \<Rightarrow> stream_lock \<Rightarrow> lock_volume \<times> stream_lock" where
  "rename_step v l =
     (case lv_path v of
        None \<Rightarrow> (v, returns (Inr (Bool_Result False)) l)
      | Some d \<Rightarrow>
          (v\<lparr>lv_path := None, lv_stale := dict_set (sl_token l) d (lv_stale v)\<rparr>,
           l\<lparr>sl_pc := Make_Dir Stale_Removed\<rparr>))"

definition open_step ::
  "pyfloat \<Rightarrow> bool \<Rightarrow> create_site \<Rightarrow> lock_volume \<Rightarrow> stream_lock \<Rightarrow> lock_volume \<times> stream_lock" where
  "open_step now fails site v l =
     (if fails then (v, l\<lparr>sl_pc := Abort_Owner site (OSError ''open'')\<rparr>)
      else
        case lv_path v of
          None \<Rightarrow> (v, l\<lparr>sl_pc := Abort_Owner site (FileNotFoundError ''owner'')\<rparr>)
        | Some d \<Rightarrow>
           (case ld_owner d of
              Some _ \<Rightarrow> (v, l\<lparr>sl_pc := Abort_Owner site (FileExistsError ''owner'')\<rparr>)
            | None \<Rightarrow>
                (v\<lparr>lv_path := Some (d\<lparr>ld_mtime := now, ld_owner := Some (lv_next v)\<rparr>),
                   lv_text := (lv_text v)(lv_next v := []), lv_next := Suc (lv_next v)\<rparr>,
                 l\<lparr>sl_pc := Write_Owner site (lv_next v)\<rparr>)))"

definition write_step ::
  "bool \<Rightarrow> create_site \<Rightarrow> nat \<Rightarrow> lock_volume \<Rightarrow> stream_lock \<Rightarrow> lock_volume \<times> stream_lock" where
  "write_step fails site f v l =
     (if fails then (v, l\<lparr>sl_pc := Abort_Owner site (OSError ''write'')\<rparr>)
      else (v\<lparr>lv_text := (lv_text v)(f := [sl_token l, ''pid''])\<rparr>, l\<lparr>sl_pc := Touch_Created site\<rparr>))"

definition touch_created_step ::
  "pyfloat \<Rightarrow> bool \<Rightarrow> create_site \<Rightarrow> lock_volume \<Rightarrow> stream_lock \<Rightarrow> lock_volume \<times> stream_lock" where
  "touch_created_step now fails site v l =
     (if fails then (v, l\<lparr>sl_pc := Abort_Owner site (OSError ''utime'')\<rparr>)
      else
        case touch_path now v of
          Inl e \<Rightarrow> (v, l\<lparr>sl_pc := Abort_Owner site e\<rparr>)
        | Inr v' \<Rightarrow> (v', create_returns site (Inr (Bool_Result True)) (l\<lparr>sl_owned := True\<rparr>)))"

definition abort_dir_step ::
  "create_site \<Rightarrow> py_error \<Rightarrow> lock_volume \<Rightarrow> stream_lock \<Rightarrow> lock_volume \<times> stream_lock" where
  "abort_dir_step site e v l =
     (case remove_path v of
        Inl e' \<Rightarrow> (v, create_returns site (Inl e') l)
      | Inr v' \<Rightarrow> (v', create_returns site (Inl e) l))"

text \<open>The deletion of the directory renamed away, whose name is this object's own.\<close>

definition clean_owner_step ::
  "pyfloat \<Rightarrow> lock_value result \<Rightarrow> lock_volume \<Rightarrow> stream_lock \<Rightarrow> lock_volume \<times> stream_lock" where
  "clean_owner_step now r v l =
     (case map_of (lv_stale v) (sl_token l) of
        None \<Rightarrow> (v, l\<lparr>sl_pc := Clean_Dir r\<rparr>)
      | Some d \<Rightarrow>
          (v\<lparr>lv_stale := dict_set (sl_token l) (d\<lparr>ld_mtime := now, ld_owner := None\<rparr>) (lv_stale v)\<rparr>,
           l\<lparr>sl_pc := Clean_Dir r\<rparr>))"

definition clean_dir_step :: "lock_value result \<Rightarrow> lock_volume \<Rightarrow> stream_lock \<Rightarrow> lock_volume \<times> stream_lock" where
  "clean_dir_step r v l =
     (v\<lparr>lv_stale := filter (\<lambda>(token, d). token \<noteq> sl_token l) (lv_stale v)\<rparr>, returns r l)"

definition check_token_step :: "lock_value \<Rightarrow> lock_volume \<Rightarrow> stream_lock \<Rightarrow> lock_volume \<times> stream_lock" where
  "check_token_step r v l =
     (case first_owner_line v of
        Inl e \<Rightarrow> (v, returns (Inl e) l)
      | Inr line \<Rightarrow>
          if line \<noteq> sl_token l
          then (v, returns (Inl (RuntimeError ''derivatives WebSocket ownership was lost''))
                     (l\<lparr>sl_owned := False\<rparr>))
          else (v, l\<lparr>sl_pc := Touch_Owned r\<rparr>))"

definition touch_owned_step ::
  "pyfloat \<Rightarrow> lock_value \<Rightarrow> lock_volume \<Rightarrow> stream_lock \<Rightarrow> lock_volume \<times> stream_lock" where
  "touch_owned_step now r v l =
     (case touch_path now v of
        Inl e \<Rightarrow> (v, returns (Inl e) l)
      | Inr v' \<Rightarrow> (v', returns (Inr r) l))"

definition release_check_step :: "lock_volume \<Rightarrow> stream_lock \<Rightarrow> lock_volume \<times> stream_lock" where
  "release_check_step v l =
     (case first_owner_line v of
        Inl (FileNotFoundError _) \<Rightarrow> (v, returns (Inr None_Result) l)
      | Inl e \<Rightarrow> (v, returns (Inl e) l)
      | Inr line \<Rightarrow>
          if line \<noteq> sl_token l then (v, returns (Inr None_Result) l)
          else (v, l\<lparr>sl_pc := Release_Owner\<rparr>))"

definition release_dir_step :: "lock_volume \<Rightarrow> stream_lock \<Rightarrow> lock_volume \<times> stream_lock" where
  "release_dir_step v l =
     (case remove_path v of
        Inl e \<Rightarrow> (v, returns (Inl e) l)
      | Inr v' \<Rightarrow> (v', returns (Inr None_Result) l))"

fun lock_step :: "pyfloat \<Rightarrow> bool \<Rightarrow> lock_pc \<Rightarrow> lock_volume \<Rightarrow> stream_lock \<Rightarrow> lock_volume \<times> stream_lock" where
  "lock_step now fails Idle v l = (v, l)"
| "lock_step now fails (Make_Dir site) v l = make_dir_step now site v l"
| "lock_step now fails Stat_Path v l = stat_step now v l"
| "lock_step now fails Rename_Path v l = rename_step v l"
| "lock_step now fails (Open_Owner site) v l = open_step now fails site v l"
| "lock_step now fails (Write_Owner site f) v l = write_step fails site f v l"
| "lock_step now fails (Touch_Created site) v l = touch_created_step now fails site v l"
| "lock_step now fails (Abort_Owner site e) v l = (unlink_owner now v, l\<lparr>sl_pc := Abort_Dir site e\<rparr>)"
| "lock_step now fails (Abort_Dir site e) v l = abort_dir_step site e v l"
| "lock_step now fails (Clean_Owner r) v l = clean_owner_step now r v l"
| "lock_step now fails (Clean_Dir r) v l = clean_dir_step r v l"
| "lock_step now fails (Check_Token r) v l = check_token_step r v l"
| "lock_step now fails (Touch_Owned r) v l = touch_owned_step now r v l"
| "lock_step now fails Release_Check v l = release_check_step v l"
| "lock_step now fails Release_Owner v l = (unlink_owner now v, l\<lparr>sl_pc := Release_Dir\<rparr>)"
| "lock_step now fails Release_Dir v l = release_dir_step v l"

section \<open>The processes together\<close>

record lock_system =
  ls_volume :: lock_volume
  ls_lock :: "nat \<Rightarrow> stream_lock"

datatype lock_event = Call lock_method | Step pyfloat bool

fun deliver :: "nat \<Rightarrow> lock_event \<Rightarrow> lock_system \<Rightarrow> lock_system" where
  "deliver p (Call m) s =
     (if sl_pc (ls_lock s p) = Idle
      then s\<lparr>ls_lock := (ls_lock s)(p := lock_call m (ls_lock s p))\<rparr> else s)"
| "deliver p (Step now fails) s =
     (let (v, l) = lock_step now fails (sl_pc (ls_lock s p)) (ls_volume s) (ls_lock s p)
      in \<lparr>ls_volume = v, ls_lock = (ls_lock s)(p := l)\<rparr>)"

fun run_schedule :: "(nat \<times> lock_event) list \<Rightarrow> lock_system \<Rightarrow> lock_system" where
  "run_schedule [] s = s"
| "run_schedule ((p, e) # es) s = run_schedule es (deliver p e s)"

definition owners :: "lock_system \<Rightarrow> nat set" where
  "owners s = {p. sl_owned (ls_lock s p)}"

text \<open>No process has found the lock stale.\<close>

definition none_takes_over :: "lock_system \<Rightarrow> bool" where
  "none_takes_over s \<longleftrightarrow> (\<forall>p. sl_pc (ls_lock s p) \<noteq> Rename_Path)"

inductive undisturbed :: "lock_system \<Rightarrow> lock_system \<Rightarrow> bool" for s0 where
  start: "undisturbed s0 s0"
| event: "undisturbed s0 s \<Longrightarrow> none_takes_over (deliver p e s) \<Longrightarrow> undisturbed s0 (deliver p e s)"


section \<open>Mutual exclusion\<close>

text \<open>What each program counter promises of the shared directory while no lock is taken over.\<close>

definition token_in_place :: "lock_volume \<Rightarrow> stream_lock \<Rightarrow> bool" where
  "token_in_place v l \<longleftrightarrow> first_owner_line v = Inr (sl_token l)"

definition owner_entry :: "lock_volume \<Rightarrow> nat option option" where
  "owner_entry v = map_option ld_owner (lv_path v)"

fun secure :: "lock_volume \<Rightarrow> stream_lock \<Rightarrow> lock_pc \<Rightarrow> bool" where
  "secure v l Idle \<longleftrightarrow> (sl_owned l \<longrightarrow> token_in_place v l)"
| "secure v l (Make_Dir site) \<longleftrightarrow> \<not> sl_owned l \<and> site \<noteq> Stale_Removed"
| "secure v l Stat_Path \<longleftrightarrow> \<not> sl_owned l"
| "secure v l Rename_Path \<longleftrightarrow> False"
| "secure v l (Open_Owner site) \<longleftrightarrow> \<not> sl_owned l \<and> site \<noteq> Stale_Removed \<and> owner_entry v = Some None"
| "secure v l (Write_Owner site f) \<longleftrightarrow>
     \<not> sl_owned l \<and> site \<noteq> Stale_Removed \<and> owner_entry v = Some (Some f)"
| "secure v l (Touch_Created site) \<longleftrightarrow> \<not> sl_owned l \<and> site \<noteq> Stale_Removed \<and> token_in_place v l"
| "secure v l (Abort_Owner site e) \<longleftrightarrow> \<not> sl_owned l \<and> site \<noteq> Stale_Removed \<and> lv_path v \<noteq> None"
| "secure v l (Abort_Dir site e) \<longleftrightarrow> \<not> sl_owned l \<and> site \<noteq> Stale_Removed \<and> owner_entry v = Some None"
| "secure v l (Clean_Owner r) \<longleftrightarrow> False"
| "secure v l (Clean_Dir r) \<longleftrightarrow> False"
| "secure v l (Check_Token r) \<longleftrightarrow> sl_owned l \<and> token_in_place v l"
| "secure v l (Touch_Owned r) \<longleftrightarrow> sl_owned l \<and> token_in_place v l"
| "secure v l Release_Check \<longleftrightarrow> \<not> sl_owned l \<and> token_in_place v l"
| "secure v l Release_Owner \<longleftrightarrow> \<not> sl_owned l \<and> token_in_place v l"
| "secure v l Release_Dir \<longleftrightarrow> \<not> sl_owned l \<and> owner_entry v = Some None"

fun in_section :: "lock_pc \<Rightarrow> bool" where
  "in_section (Open_Owner _) = True"
| "in_section (Write_Owner _ _) = True"
| "in_section (Touch_Created _) = True"
| "in_section (Abort_Owner _ _) = True"
| "in_section (Abort_Dir _ _) = True"
| "in_section Release_Check = True"
| "in_section Release_Owner = True"
| "in_section Release_Dir = True"
| "in_section _ = False"

definition holds_lock :: "stream_lock \<Rightarrow> bool" where
  "holds_lock l \<longleftrightarrow> sl_owned l \<or> in_section (sl_pc l)"

named_theorems lock_steps "the file system calls of the stream ownership lock"

lemmas lock_call_steps [lock_steps] =
  make_dir_step_def stat_step_def rename_step_def open_step_def write_step_def
  touch_created_step_def abort_dir_step_def clean_owner_step_def clean_dir_step_def
  touch_owned_step_def release_dir_step_def
  touch_path_def unlink_owner_def remove_path_def returns_def

lemma create_returns_True [lock_steps]:
  "site \<noteq> Stale_Removed \<Longrightarrow> create_returns site (Inr (Bool_Result True)) l = returns (Inr (Bool_Result True)) l"
  by (cases site) auto

lemma create_returns_False [lock_steps]:
  "site \<noteq> Stale_Removed \<Longrightarrow>
     create_returns site (Inr (Bool_Result False)) l =
       (if site = First_Try then l\<lparr>sl_pc := Stat_Path\<rparr> else returns (Inr (Bool_Result False)) l)"
  by (cases site) auto

lemma token_checked [lock_steps]:
  "token_in_place v l \<Longrightarrow> check_token_step r v l = (v, l\<lparr>sl_pc := Touch_Owned r\<rparr>)"
  "token_in_place v l \<Longrightarrow> release_check_step v l = (v, l\<lparr>sl_pc := Release_Owner\<rparr>)"
  by (auto simp: token_in_place_def check_token_step_def release_check_step_def)

lemma create_returns_raise [lock_steps]:
  "site \<noteq> Stale_Removed \<Longrightarrow> create_returns site (Inl e) l = returns (Inl e) l"
  by (cases site) auto

lemma first_owner_line_path:
  "first_owner_line v = Inr t \<longleftrightarrow>
     (\<exists>d f ls. lv_path v = Some d \<and> ld_owner d = Some f \<and> lv_text v f = t # ls)"
  by (auto simp: first_owner_line_def split: option.split list.split)

lemma secure_holds: "secure v l (sl_pc l) \<Longrightarrow> holds_lock l \<Longrightarrow> lv_path v \<noteq> None"
  by (cases "sl_pc l")
    (auto simp: holds_lock_def token_in_place_def owner_entry_def first_owner_line_path)

lemma secure_elsewhere: "secure v l (sl_pc l) \<Longrightarrow> \<not> holds_lock l \<Longrightarrow> secure v' l (sl_pc l)"
  by (cases "sl_pc l") (auto simp: holds_lock_def)

lemma call_secure: "sl_pc l = Idle \<Longrightarrow> secure v l (sl_pc l) \<Longrightarrow> secure v (lock_call m l) (sl_pc (lock_call m l))"
  by (cases m) (auto simp: returns_def token_in_place_def)

lemma call_holds: "sl_pc l = Idle \<Longrightarrow> holds_lock (lock_call m l) \<Longrightarrow> holds_lock l"
  by (cases m) (auto simp: returns_def holds_lock_def split: if_splits)

lemma step_secure:
  assumes "secure v l (sl_pc l)" "lock_step now fails (sl_pc l) v l = (v', l')" "sl_pc l' \<noteq> Rename_Path"
  shows "secure v' l' (sl_pc l')"
  using assms
  by (cases "sl_pc l")
    (auto simp: lock_steps token_in_place_def owner_entry_def first_owner_line_path split: if_splits option.splits sum.splits)

lemma step_outside:
  assumes "secure v l (sl_pc l)" "\<not> holds_lock l" "lock_step now fails (sl_pc l) v l = (v', l')"
  shows "lv_path v = None \<or> v' = v \<and> \<not> holds_lock l'"
  using assms
  by (cases "sl_pc l") (auto simp: lock_steps holds_lock_def split: if_splits option.splits sum.splits)


definition lock_invariant :: "lock_system \<Rightarrow> bool" where
  "lock_invariant s \<longleftrightarrow>
     (\<forall>p. secure (ls_volume s) (ls_lock s p) (sl_pc (ls_lock s p)))
     \<and> (\<forall>p q. holds_lock (ls_lock s p) \<longrightarrow> holds_lock (ls_lock s q) \<longrightarrow> p = q)"

lemma lock_invariant_step:
  assumes inv: "lock_invariant s"
    and step: "lock_step now fails (sl_pc (ls_lock s p)) (ls_volume s) (ls_lock s p) = (v', l')"
    and quiet: "sl_pc l' \<noteq> Rename_Path"
  shows "lock_invariant \<lparr>ls_volume = v', ls_lock = (ls_lock s)(p := l')\<rparr>"
proof -
  define v where "v = ls_volume s"
  define l where "l = ls_lock s p"
  have secure: "\<And>q. secure v (ls_lock s q) (sl_pc (ls_lock s q))"
    and sole: "\<And>q r. holds_lock (ls_lock s q) \<Longrightarrow> holds_lock (ls_lock s r) \<Longrightarrow> q = r"
    using inv by (auto simp: lock_invariant_def v_def)
  have own: "secure v' l' (sl_pc l')"
    using step_secure secure step quiet by (metis v_def)
  have "v' = v \<and> \<not> holds_lock l' \<or> (\<forall>q. q \<noteq> p \<longrightarrow> \<not> holds_lock (ls_lock s q))"
  proof (cases "holds_lock l")
    case True
    then show ?thesis using sole l_def by blast
  next
    case False
    have "lv_path v = None \<Longrightarrow> \<not> holds_lock (ls_lock s q)" for q
      using secure_holds secure by blast
    then show ?thesis
      using step_outside [of v l now fails v' l'] False secure [of p] step by (auto simp: v_def l_def)
  qed
  then show ?thesis
  proof
    assume "v' = v \<and> \<not> holds_lock l'"
    then show ?thesis using secure sole own by (auto simp: lock_invariant_def)
  next
    assume "\<forall>q. q \<noteq> p \<longrightarrow> \<not> holds_lock (ls_lock s q)"
    moreover from this have "secure v' (ls_lock s q) (sl_pc (ls_lock s q))" if "q \<noteq> p" for q
      using that secure secure_elsewhere by blast
    ultimately show ?thesis using own by (auto simp: lock_invariant_def)
  qed
qed

lemma lock_invariant_deliver:
  assumes "lock_invariant s" "none_takes_over (deliver p e s)"
  shows "lock_invariant (deliver p e s)"
proof (cases e)
  case (Step now fails)
  obtain v' l' where step: "lock_step now fails (sl_pc (ls_lock s p)) (ls_volume s) (ls_lock s p) = (v', l')"
    by fastforce
  have after: "deliver p e s = \<lparr>ls_volume = v', ls_lock = (ls_lock s)(p := l')\<rparr>"
    by (simp add: Step step)
  then have "sl_pc l' \<noteq> Rename_Path" using assms(2) unfolding none_takes_over_def
    by (metis fun_upd_same lock_system.select_convs(2))
  then show ?thesis using lock_invariant_step [OF assms(1) step] after by simp
next
  case (Call m)
  show ?thesis
  proof (cases "sl_pc (ls_lock s p) = Idle")
    case True
    then have "secure (ls_volume s) (lock_call m (ls_lock s p)) (sl_pc (lock_call m (ls_lock s p)))"
      using assms(1) call_secure unfolding lock_invariant_def by blast
    then show ?thesis
      using assms(1) call_holds [OF True] by (auto simp: Call lock_invariant_def simp del: lock_call.simps)
  qed (use Call assms(1) in simp)
qed

lemma undisturbed_invariant:
  "undisturbed s0 s \<Longrightarrow> lock_invariant s0 \<Longrightarrow> lock_invariant s"
  by (induction rule: undisturbed.induct) (auto intro: lock_invariant_deliver)

text \<open>No process is inside a method or holds the lock; a lock left by a dead process may exist.\<close>

definition all_idle :: "lock_system \<Rightarrow> bool" where
  "all_idle s \<longleftrightarrow> (\<forall>p. sl_pc (ls_lock s p) = Idle \<and> \<not> sl_owned (ls_lock s p))"

lemma all_idle_invariant: "all_idle s \<Longrightarrow> lock_invariant s"
  by (auto simp: all_idle_def lock_invariant_def holds_lock_def)

lemma secure_owned: "secure v l (sl_pc l) \<Longrightarrow> sl_owned l \<Longrightarrow> token_in_place v l"
  by (cases "sl_pc l") auto

text \<open>C26: of any number of contenders for the stream lock, interleaved file-system step by file-system step, at
  most one owns it, and its token is in the owner file, as long as no lock is taken over as stale.\<close>

theorem lock_mutual_exclusion:
  assumes "all_idle s0" "undisturbed s0 s"
  shows "owners s = {} \<or>
    (\<exists>p. owners s = {p} \<and> first_owner_line (ls_volume s) = Inr (sl_token (ls_lock s p)))"
proof (cases "owners s = {}")
  case False
  then obtain p where p: "sl_owned (ls_lock s p)" by (auto simp: owners_def)
  have inv: "lock_invariant s"
    using undisturbed_invariant [OF assms(2)] all_idle_invariant [OF assms(1)] by blast
  then have "q = p" if "sl_owned (ls_lock s q)" for q
    using p that unfolding lock_invariant_def holds_lock_def by blast
  then have "owners s = {p}" using p unfolding owners_def by blast
  moreover have "token_in_place (ls_volume s) (ls_lock s p)"
    using inv p secure_owned unfolding lock_invariant_def by blast
  ultimately show ?thesis by (auto simp: token_in_place_def)
qed simp

section \<open>Taking over a stale lock\<close>

definition call_alone :: "nat \<Rightarrow> lock_method \<Rightarrow> pyfloat list \<Rightarrow> (nat \<times> lock_event) list" where
  "call_alone p m clocks = (p, Call m) # map (\<lambda>t. (p, Step t False)) clocks"

fun solo :: "pyfloat list \<Rightarrow> lock_volume \<Rightarrow> stream_lock \<Rightarrow> lock_volume \<times> stream_lock" where
  "solo [] v l = (v, l)"
| "solo (t # ts) v l = (case lock_step t False (sl_pc l) v l of (v', l') \<Rightarrow> solo ts v' l')"

lemma run_solo:
  "run_schedule (map (\<lambda>t. (p, Step t False)) ts) s =
     (case solo ts (ls_volume s) (ls_lock s p) of (v, l) \<Rightarrow> \<lparr>ls_volume = v, ls_lock = (ls_lock s)(p := l)\<rparr>)"
proof (induction ts arbitrary: s)
  case (Cons t ts)
  obtain v l where "lock_step t False (sl_pc (ls_lock s p)) (ls_volume s) (ls_lock s p) = (v, l)" by fastforce
  then show ?case using Cons [of "\<lparr>ls_volume = v, ls_lock = (ls_lock s)(p := l)\<rparr>"] by (auto simp: fun_eq_iff split: prod.split)
qed simp

lemma run_schedule_append: "run_schedule (es @ fs) s = run_schedule fs (run_schedule es s)"
  by (induction es s rule: run_schedule.induct) auto

definition lock_of :: "pyfloat \<Rightarrow> lock_volume \<Rightarrow> stream_lock \<Rightarrow> lock_volume \<Rightarrow> bool" where
  "lock_of t v l v' \<longleftrightarrow>
     lv_path v' = Some \<lparr>ld_mtime = t, ld_owner = Some (lv_next v)\<rparr>
     \<and> lv_text v' = (lv_text v)(lv_next v := [sl_token l, ''pid'']) \<and> lv_next v' = Suc (lv_next v)"

lemma solo_takeover:
  assumes path: "lv_path v = Some d" and pc: "sl_pc l = Rename_Path" and "\<not> sl_owned l"
  shows "\<exists>v'. solo [t3, t4, t5, t6, t7, t8, t9] v l
                = (v', l\<lparr>sl_owned := True, sl_pc := Idle, sl_result := Inr (Bool_Result True)\<rparr>)
             \<and> lock_of t7 v l v'"
proof -
  let ?moved = "v\<lparr>lv_path := None, lv_stale := dict_set (sl_token l) d (lv_stale v)\<rparr>"
  let ?done = "l\<lparr>sl_owned := True, sl_pc := Clean_Owner (Inr (Bool_Result True))\<rparr>"
  let ?made = "\<lambda>t stale. v\<lparr>lv_stale := stale, lv_next := Suc (lv_next v),
                          lv_text := (lv_text v)(lv_next v := [sl_token l, ''pid'']),
                          lv_path := Some \<lparr>ld_mtime = t, ld_owner = Some (lv_next v)\<rparr>\<rparr>"
  have "solo [t3, t4, t5, t6, t7, t8, t9] v l
      = solo [t4, t5, t6, t7, t8, t9] ?moved (l\<lparr>sl_pc := Make_Dir Stale_Removed\<rparr>)"
    by (simp add: path pc rename_step_def)
  also have "\<dots> = solo [t8, t9] (?made t7 (lv_stale ?moved)) ?done"
    by (simp add: make_dir_step_def open_step_def write_step_def touch_created_step_def touch_path_def)
  also have "\<dots> = (?made t7 (filter (\<lambda>(token, d). token \<noteq> sl_token l) (dict_set (sl_token l)
                     (d\<lparr>ld_mtime := t8, ld_owner := None\<rparr>) (lv_stale ?moved))),
                   l\<lparr>sl_owned := True, sl_pc := Idle, sl_result := Inr (Bool_Result True)\<rparr>)"
    by (simp add: clean_owner_step_def clean_dir_step_def map_of_dict_set returns_def)
  finally show ?thesis by (simp add: lock_of_def)
qed

lemma stale_at_pc [lock_steps]: "stale_at t (l\<lparr>sl_pc := pc\<rparr>) d = stale_at t l d"
  by (simp add: stale_at_def)

lemma solo_stat:
  assumes "lv_path v = Some d" "stale_at t2 l d" "sl_pc l = Idle" "\<not> sl_owned l"
  shows "solo [t1, t2] v (lock_call Acquire l) = (v, l\<lparr>sl_pc := Rename_Path\<rparr>)"
  using assms by (cases l) (simp add: lock_call_steps stale_at_def)


lemma run_call:
  "sl_pc (ls_lock s p) = Idle \<Longrightarrow>
   run_schedule (call_alone p m ts) s =
     (case solo ts (ls_volume s) (lock_call m (ls_lock s p)) of
        (v, l) \<Rightarrow> \<lparr>ls_volume = v, ls_lock = (ls_lock s)(p := l)\<rparr>)"
  by (auto simp: call_alone_def run_solo fun_eq_iff split: prod.split)

lemma lock_of_token: "lock_of t v l v' \<Longrightarrow> first_owner_line v' = Inr (sl_token l)"
  by (simp add: lock_of_def first_owner_line_def)

lemma solo_acquire_stale:
  assumes "lv_path v = Some d" "stale_at t2 l d" "sl_pc l = Idle" "\<not> sl_owned l"
  shows "\<exists>v'. solo [t1, t2, t3, t4, t5, t6, t7, t8, t9] v (lock_call Acquire l)
                = (v', l\<lparr>sl_owned := True, sl_pc := Idle, sl_result := Inr (Bool_Result True)\<rparr>)
             \<and> lock_of t7 v l v'"
proof -
  have "solo [t1, t2, t3, t4, t5, t6, t7, t8, t9] v (lock_call Acquire l)
      = solo [t3, t4, t5, t6, t7, t8, t9] v (l\<lparr>sl_pc := Rename_Path\<rparr>)"
    using assms by (simp add: make_dir_step_def stat_step_def stale_at_pc)
  then show ?thesis
    using solo_takeover [OF assms(1), where l = "l\<lparr>sl_pc := Rename_Path\<rparr>"] assms(4) by (simp add: lock_of_def)
qed

lemma solo_refresh_lost:
  assumes "first_owner_line v = Inr t" "t \<noteq> sl_token l" "sl_pc l = Idle" "sl_owned l"
  shows "solo [u] v (lock_call Refresh l)
       = (v, l\<lparr>sl_owned := False, sl_pc := Idle,
               sl_result := Inl (RuntimeError ''derivatives WebSocket ownership was lost'')\<rparr>)"
  using assms by (simp add: check_token_step_def returns_def)

lemma solo_release_lost:
  assumes "first_owner_line v = Inr t" "t \<noteq> sl_token l" "sl_pc l = Idle" "sl_owned l"
  shows "solo [u] v (lock_call Release l)
       = (v, l\<lparr>sl_owned := False, sl_pc := Idle, sl_result := Inr None_Result\<rparr>)"
  using assms by (simp add: release_check_step_def returns_def)

theorem stale_lock_taken_over:
  assumes stale: "lv_path (ls_volume s) = Some d" "stale_at t2 (ls_lock s p) d"
    and p: "sl_pc (ls_lock s p) = Idle" "\<not> sl_owned (ls_lock s p)"
    and q: "q \<noteq> p" "sl_pc (ls_lock s q) = Idle" "sl_owned (ls_lock s q)"
      "sl_token (ls_lock s p) \<noteq> sl_token (ls_lock s q)"
  shows "let s1 = run_schedule (call_alone p Acquire [t1, t2, t3, t4, t5, t6, t7, t8, t9]) s;
             s2 = run_schedule (call_alone q Refresh [u]) s1;
             s3 = run_schedule (call_alone q Release [u]) s1
         in sl_result (ls_lock s1 p) = Inr (Bool_Result True) \<and> sl_owned (ls_lock s1 p)
            \<and> map_option ld_mtime (lv_path (ls_volume s1)) = Some t7
            \<and> first_owner_line (ls_volume s1) = Inr (sl_token (ls_lock s p))
            \<and> sl_result (ls_lock s2 q) = Inl (RuntimeError ''derivatives WebSocket ownership was lost'')
            \<and> owners s2 = insert p (owners s - {q})
            \<and> ls_volume s3 = ls_volume s1"
proof -
  obtain v' where v': "solo [t1, t2, t3, t4, t5, t6, t7, t8, t9] (ls_volume s) (lock_call Acquire (ls_lock s p))
        = (v', (ls_lock s p)\<lparr>sl_owned := True, sl_pc := Idle, sl_result := Inr (Bool_Result True)\<rparr>)"
      "lock_of t7 (ls_volume s) (ls_lock s p) v'"
    using solo_acquire_stale [OF stale p] by blast
  note token = lock_of_token [OF v'(2)]
  let ?p = "(ls_lock s p)\<lparr>sl_owned := True, sl_pc := Idle, sl_result := Inr (Bool_Result True)\<rparr>"
  let ?s1 = "\<lparr>ls_volume = v', ls_lock = (ls_lock s)(p := ?p)\<rparr>"
  have s1: "run_schedule (call_alone p Acquire [t1, t2, t3, t4, t5, t6, t7, t8, t9]) s = ?s1"
    using run_call [OF p(1)] v'(1) by (simp del: solo.simps lock_call.simps)
  have q1: "ls_lock ?s1 q = ls_lock s q" using q(1) by simp
  have path: "map_option ld_mtime (lv_path v') = Some t7" using v'(2) by (simp add: lock_of_def)
  have idle: "sl_pc (ls_lock ?s1 q) = Idle" using q by simp
  have s2: "run_schedule (call_alone q Refresh [u]) ?s1 =
      \<lparr>ls_volume = v', ls_lock = (ls_lock ?s1)(q := (ls_lock s q)\<lparr>sl_owned := False, sl_pc := Idle,
         sl_result := Inl (RuntimeError ''derivatives WebSocket ownership was lost'')\<rparr>)\<rparr>"
    unfolding run_call [OF idle] q1
    by (simp only: lock_system.select_convs solo_refresh_lost [OF token q(4) q(2) q(3)] prod.case)
  have s3: "ls_volume (run_schedule (call_alone q Release [u]) ?s1) = v'"
    unfolding run_call [OF idle] q1
    by (simp only: lock_system.select_convs solo_release_lost [OF token q(4) q(2) q(3)] prod.case)
  have "owners \<lparr>ls_volume = v', ls_lock = (ls_lock ?s1)(q := (ls_lock s q)\<lparr>sl_owned := False, sl_pc := Idle,
         sl_result := Inl (RuntimeError ''derivatives WebSocket ownership was lost'')\<rparr>)\<rparr>
      = insert p (owners s - {q})"
    using q(1) by (auto simp: owners_def)
  then show ?thesis
    unfolding Let_def s1 s2 s3 using token path q(1) by simp
qed

text \<open>
  Two processes that both read the age of the same stale lock: the second one renames away the lock
  the first one has just made.
\<close>

definition both_take_over :: "nat \<Rightarrow> nat \<Rightarrow> pyfloat list \<Rightarrow> pyfloat list \<Rightarrow> (nat \<times> lock_event) list" where
  "both_take_over p q ts us =
     call_alone p Acquire (take 2 ts) @ call_alone q Acquire (take 2 us)
     @ map (\<lambda>t. (p, Step t False)) (drop 2 ts) @ map (\<lambda>t. (q, Step t False)) (drop 2 us)"

text \<open>C27: two contenders that both saw the stale lock both acquire it: the second renames the fresh lock of
  the first away, and both calls return true.\<close>

theorem fresh_lock_stolen:
  assumes stale: "lv_path (ls_volume s) = Some d"
      "stale_at t2 (ls_lock s p) d" "stale_at u2 (ls_lock s q) d"
    and locks: "p \<noteq> q"
      "sl_pc (ls_lock s p) = Idle" "\<not> sl_owned (ls_lock s p)"
      "sl_pc (ls_lock s q) = Idle" "\<not> sl_owned (ls_lock s q)"
  shows "let s' = run_schedule (both_take_over p q [t1, t2, t3, t4, t5, t6, t7, t8, t9]
                                                   [u1, u2, u3, u4, u5, u6, u7, u8, u9]) s
         in sl_result (ls_lock s' p) = Inr (Bool_Result True)
            \<and> sl_result (ls_lock s' q) = Inr (Bool_Result True)
            \<and> {p, q} \<subseteq> owners s'"
proof -
  let ?v = "ls_volume s"
  let ?p = "(ls_lock s p)\<lparr>sl_pc := Rename_Path\<rparr>" and ?q = "(ls_lock s q)\<lparr>sl_pc := Rename_Path\<rparr>"
  obtain v1 where v1: "solo [t3, t4, t5, t6, t7, t8, t9] ?v ?p
      = (v1, (ls_lock s p)\<lparr>sl_owned := True, sl_pc := Idle, sl_result := Inr (Bool_Result True)\<rparr>)"
      "lock_of t7 ?v ?p v1"
    using solo_takeover [OF stale(1), of ?p] locks(3) by (simp del: solo.simps) blast
  then obtain d1 where "lv_path v1 = Some d1" by (auto simp: lock_of_def)
  then obtain v2 where v2: "solo [u3, u4, u5, u6, u7, u8, u9] v1 ?q
      = (v2, (ls_lock s q)\<lparr>sl_owned := True, sl_pc := Idle, sl_result := Inr (Bool_Result True)\<rparr>)"
    using solo_takeover [of v1 d1 ?q] locks(5) by (simp del: solo.simps) blast
  have p: "solo [t1, t2] ?v (lock_call Acquire (ls_lock s p)) = (?v, ?p)"
    and q: "solo [u1, u2] ?v (lock_call Acquire (ls_lock s q)) = (?v, ?q)"
    using solo_stat [OF stale(1)] stale locks by blast+
  let ?l1 = "(ls_lock s)(p := ?p, q := ?q)"
  have "run_schedule (call_alone p Acquire [t1, t2]) s = \<lparr>ls_volume = ?v, ls_lock = (ls_lock s)(p := ?p)\<rparr>"
    unfolding run_call [OF locks(2)] p by simp
  moreover have "run_schedule (call_alone q Acquire [u1, u2]) \<lparr>ls_volume = ?v, ls_lock = (ls_lock s)(p := ?p)\<rparr>
      = \<lparr>ls_volume = ?v, ls_lock = ?l1\<rparr>"
    using run_call [of "\<lparr>ls_volume = ?v, ls_lock = (ls_lock s)(p := ?p)\<rparr>" q Acquire "[u1, u2]"] q locks
    by (simp del: solo.simps lock_call.simps)
  ultimately show ?thesis
    using v1(1) v2 locks(1)
    by (simp add: both_take_over_def run_schedule_append run_solo owners_def Let_def
        del: solo.simps lock_call.simps list.map run_schedule.simps)
qed

subsection \<open>Concrete volumes\<close>

definition sample_lock :: "string \<Rightarrow> stream_lock" where
  "sample_lock token = \<lparr>sl_token = token, sl_stale_after = 30, sl_owned = False, sl_pc = Idle,
                        sl_result = Inr None_Result\<rparr>"

definition sample_locks :: "nat \<Rightarrow> stream_lock" where
  "sample_locks p = sample_lock (if p = 0 then ''a'' else if p = 1 then ''b'' else ''c'')"

definition empty_volume :: lock_volume where
  "empty_volume = \<lparr>lv_path = None, lv_stale = [], lv_text = (\<lambda>_. []), lv_next = 0\<rparr>"

definition fresh_system :: lock_system where
  "fresh_system = \<lparr>ls_volume = empty_volume, ls_lock = sample_locks\<rparr>"

definition abandoned_system :: lock_system where
  "abandoned_system =
     \<lparr>ls_volume = empty_volume\<lparr>lv_path := Some \<lparr>ld_mtime = 0, ld_owner = Some 0\<rparr>,
                               lv_text := (\<lambda>_. [''c'', ''pid'']), lv_next := 1\<rparr>,
      ls_lock = sample_locks(2 := (sample_lock ''c'')\<lparr>sl_owned := True\<rparr>)\<rparr>"

fun quiet_run :: "(nat \<times> lock_event) list \<Rightarrow> lock_system \<Rightarrow> bool" where
  "quiet_run [] s = True"
| "quiet_run ((p, e) # es) s \<longleftrightarrow>
     sl_pc (ls_lock (deliver p e s) p) \<noteq> Rename_Path \<and> quiet_run es (deliver p e s)"

lemma deliver_others: "q \<noteq> p \<Longrightarrow> ls_lock (deliver p e s) q = ls_lock s q"
  by (cases e) (auto simp: Let_def split: prod.split)

lemma quiet_run_undisturbed:
  "quiet_run es s \<Longrightarrow> none_takes_over s \<Longrightarrow> undisturbed s0 s \<Longrightarrow> undisturbed s0 (run_schedule es s)"
proof (induction es s rule: quiet_run.induct)
  case (2 p e es s)
  have "none_takes_over (deliver p e s)"
    using 2 deliver_others unfolding none_takes_over_def by (metis quiet_run.simps(2))
  then show ?case using 2 undisturbed.event by (simp add: Let_def)
qed simp

lemma sample_age: "fsub 40 0 = 40" "fsub 40 40 = 0"
  unfolding fsub_def using flt_eval [of 40 47 5629499534213120] by simp_all


lemma lock_mutual_exclusion_witness:
  "\<exists>s. undisturbed fresh_system s \<and> owners s = {0} \<and> sl_result (ls_lock s 1) = Inr (Bool_Result False)"
proof -
  let ?s = "run_schedule ([(0, Call Acquire), (1, Call Acquire), (0, Step 40 False), (1, Step 40 False)]
              @ map (\<lambda>t. (0, Step t False)) [40, 40, 40] @ [(1, Step 40 False)]) fresh_system"
  have run: "undisturbed fresh_system ?s"
    by (rule quiet_run_undisturbed)
      (simp_all add: fresh_system_def sample_locks_def sample_lock_def empty_volume_def lock_steps
        none_takes_over_def stale_at_def undisturbed.start sample_age)
  have "all_idle fresh_system"
    by (auto simp: fresh_system_def all_idle_def sample_locks_def sample_lock_def)
  from lock_mutual_exclusion [OF this run] have "owners ?s = {} \<or> (\<exists>p. owners ?s = {p})" by blast
  moreover have "0 \<in> owners ?s" "sl_result (ls_lock ?s 1) = Inr (Bool_Result False)"
    by (simp_all add: fresh_system_def owners_def sample_locks_def sample_lock_def empty_volume_def lock_steps
        stale_at_def sample_age)
  ultimately have "owners ?s = {0}" by (metis empty_iff singletonD)
  with run \<open>sl_result (ls_lock ?s 1) = Inr (Bool_Result False)\<close> show ?thesis by blast
qed

lemma abandoned_facts:
  "lv_path (ls_volume abandoned_system) = Some \<lparr>ld_mtime = 0, ld_owner = Some 0\<rparr>"
  "stale_at 40 (ls_lock abandoned_system 0) \<lparr>ld_mtime = 0, ld_owner = Some 0\<rparr>"
  "stale_at 40 (ls_lock abandoned_system 1) \<lparr>ld_mtime = 0, ld_owner = Some 0\<rparr>"
  "sl_pc (ls_lock abandoned_system p) = Idle"
  "sl_owned (ls_lock abandoned_system p) \<longleftrightarrow> p = 2"
  "sl_token (ls_lock abandoned_system 0) = ''a''" "sl_token (ls_lock abandoned_system 2) = ''c''"
  by (simp_all add: abandoned_system_def sample_locks_def sample_lock_def stale_at_def sample_age)

lemma stale_lock_taken_over_witness:
  "let s1 = run_schedule (call_alone 0 Acquire [40, 40, 40, 40, 40, 40, 40, 40, 40]) abandoned_system;
       s2 = run_schedule (call_alone 2 Refresh [40]) s1
   in first_owner_line (ls_volume s1) = Inr ''a'' \<and> owners s2 = {0}"
proof -
  have "owners abandoned_system = {2}" by (auto simp: owners_def abandoned_facts)
  then show ?thesis
    using stale_lock_taken_over [OF abandoned_facts(1,2,4), of 2] abandoned_facts
    unfolding Let_def by simp
qed

lemma fresh_lock_stolen_witness:
  "let s' = run_schedule (both_take_over 0 1 (replicate 9 40) (replicate 9 40)) abandoned_system
   in {0, 1} \<subseteq> owners s'"
proof -
  have "replicate 9 (40 :: pyfloat) = [40, 40, 40, 40, 40, 40, 40, 40, 40]" by (simp add: numeral_eq_Suc)
  then show ?thesis
    using fresh_lock_stolen [OF abandoned_facts(1-3)] abandoned_facts(4,5) unfolding Let_def by simp
qed

end
