(* ===== verification/Texts.thy ===== *)
theory Texts
  imports ResearchStore
begin

text \<open>
  Searching a text, and numbers as text: \<^verbatim>\<open>int\<close> undoes \<^verbatim>\<open>str\<close> on every integer, whatever its size and sign.
\<close>

lemma digits_induct:
  assumes "0 \<le> n" and small: "\<And>n. 0 \<le> n \<Longrightarrow> n < 10 \<Longrightarrow> P n"
    and large: "\<And>n. 10 \<le> n \<Longrightarrow> P (n div 10) \<Longrightarrow> P n"
  shows "P (n :: int)"
  using assms(1)
proof (induction n rule: digits_text.induct)
  case (1 n)
  then show ?case using small large by (cases "n < 10") auto
qed

lemma of_char_nat: "(of_char c :: int) = int (of_char c)"
  by (simp add: of_char_def)

lemma below_ten:
  "m < (10 :: nat) \<Longrightarrow> m = 0 \<or> m = 1 \<or> m = 2 \<or> m = 3 \<or> m = 4 \<or> m = 5 \<or> m = 6 \<or> m = 7 \<or> m = 8 \<or> m = 9"
  by presburger

lemma digit_of:
  assumes "0 \<le> k" "k < 10"
  shows "digit_char (char_of (48 + nat k))" "(of_char (char_of (48 + nat k)) :: int) = 48 + k"
proof -
  have k: "(of_char (char_of (48 + nat k)) :: nat) = 48 + nat k" using assms by simp
  then show "(of_char (char_of (48 + nat k)) :: int) = 48 + k" using assms by (simp add: of_char_nat)
  have "nat k < 10" using assms by simp
  from below_ten [OF this] show "digit_char (char_of (48 + nat k))"
    by (auto simp: digit_char_def less_eq_char_def less_char_def)
qed

lemma digits_value_snoc: "digits_value (s @ [c]) = 10 * digits_value s + (of_char c - 48)"
  by (simp add: digits_value_def)

lemma digits_text_facts:
  assumes "0 \<le> n"
  shows "digits_text n \<noteq> [] \<and> list_all digit_char (digits_text n) \<and> digits_value (digits_text n) = n"
  using assms
proof (induction n rule: digits_induct)
  case (2 n)
  then have "digits_text n = [] @ [char_of (48 + nat n)]" by (subst digits_text.simps) simp
  then show ?case using digit_of [of n] 2 digits_value_snoc [of "[]"] by (simp add: digits_value_def)
next
  case (3 n)
  have "digits_text n = digits_text (n div 10) @ [char_of (48 + nat (n mod 10))]"
    using 3(1) by (subst digits_text.simps) simp
  moreover have "0 \<le> n div 10" using 3 by simp
  ultimately show ?case using 3 digit_of [of "n mod 10"] by (simp add: digits_value_snoc)
qed (use assms in simp)

lemma digit_not: "digit_char c \<Longrightarrow> \<not> py_isspace c \<and> c \<noteq> CHR ''_'' \<and> c \<noteq> CHR ''-'' \<and> c \<noteq> CHR ''+''"
  by (auto simp: digit_char_def py_isspace_def less_eq_char_def less_char_def Let_def of_char_def)

lemma py_strip_clean: "list_all (\<lambda>c. \<not> py_isspace c) s \<Longrightarrow> py_strip s = s"
proof -
  have drop: "list_all (\<lambda>c. \<not> py_isspace c) xs \<Longrightarrow> dropWhile py_isspace xs = xs" for xs
    by (cases xs) auto
  assume "list_all (\<lambda>c. \<not> py_isspace c) s"
  then show ?thesis unfolding py_strip_def by (simp add: drop list_all_rev)
qed

lemma py_split_one: "list_all (\<lambda>c. c \<noteq> d) s \<Longrightarrow> py_split d s = [s]"
  by (induction s) auto

lemma int_of_int_text [simp]: "int_of_text (int_text n) = Inr n"
proof -
  define s where "s = digits_text \<bar>n\<bar>"
  have s: "s \<noteq> []" "list_all digit_char s" "digits_value s = \<bar>n\<bar>"
    using digits_text_facts [of "\<bar>n\<bar>"] by (auto simp: s_def)
  have clean: "list_all (\<lambda>c. \<not> py_isspace c) s" "list_all (\<lambda>c. c \<noteq> CHR ''_'') s"
    using s(2) by (auto simp: list_all_iff dest: digit_not)
  have sign: "sign_split s = (1, s)"
    using s(1,2) by (cases s) (auto dest: digit_not)
  have read: "int_of_text (if n < 0 then CHR ''-'' # s else s) = Inr ((if n < 0 then - 1 else 1) * \<bar>n\<bar>)"
    using s clean sign
    by (auto simp: int_of_text_def py_strip_clean py_split_one py_isspace_def)
  have "int_text n = (if n < 0 then CHR ''-'' # s else s)" by (simp add: int_text_def s_def)
  then show ?thesis using read by (auto split: if_splits)
qed

section \<open>Searching\<close>

text \<open>\<open>needle in haystack\<close>.\<close>

fun has_prefix :: "string \<Rightarrow> string \<Rightarrow> bool" where
  "has_prefix [] s = True"
| "has_prefix (c # cs) s = (case s of [] \<Rightarrow> False | d # ds \<Rightarrow> c = d \<and> has_prefix cs ds)"

fun has_infix :: "string \<Rightarrow> string \<Rightarrow> bool" where
  "has_infix needle [] = (needle = [])"
| "has_infix needle (c # cs) = (has_prefix needle (c # cs) \<or> has_infix needle cs)"

end
