(* ===== verification/Streams.thy ===== *)
theory Streams
  imports DerivStore Texts
begin

text \<open>
  The WebSocket collectors of \<^verbatim>\<open>derivatives/streams.py\<close> and the mark price parser of
  \<^verbatim>\<open>derivatives/mark_price.py\<close>: the parsers of the three kinds of message, the handlers that store what
  was parsed, and the worker that keeps one connection, as a step function over the inputs it may get
  (a connection, a message, a time-out, a failure, a tick of its watchdog, the stop request).

  A message is its JSON value, or a text that is not JSON, or bytes that are not UTF-8.  The instant
  \<^verbatim>\<open>datetime.fromisoformat\<close> reads is a \<^const>\<open>JTime\<close> of the document, which always has an offset.
\<close>

section \<open>Reading a message\<close>

datatype ws_message = Json json | Not_Json | Not_Utf8

fun json_object :: "ws_message \<Rightarrow> (string \<times> json) list result" where
  "json_object (Json (JObj kvs)) = Inr kvs"
| "json_object (Json _) = Inl (ValueError ''WebSocket message must be an object'')"
| "json_object _ = Inl (ValueError ''invalid JSON'')"

definition subscript :: "string \<Rightarrow> (string \<times> json) list \<Rightarrow> json result" where
  "subscript k kvs = (case map_of kvs k of None \<Rightarrow> Inl (KeyError k) | Some v \<Rightarrow> Inr v)"

definition dict_get :: "string \<Rightarrow> (string \<times> json) list \<Rightarrow> json" where
  "dict_get k kvs = (case map_of kvs k of None \<Rightarrow> JNull | Some v \<Rightarrow> v)"

fun hashable :: "json \<Rightarrow> bool" where
  "hashable (JList _) = False"
| "hashable (JObj _) = False"
| "hashable _ = True"

text \<open>
  \<^verbatim>\<open>datetime.fromtimestamp(seconds, UTC)\<close>: the fraction of a second is rounded to microseconds; the
  years outside 1 .. 9999 raise, and what the C library cannot represent is an \<^verbatim>\<open>OSError\<close> or an
  \<^verbatim>\<open>OverflowError\<close>.
\<close>

definition from_timestamp :: "pyfloat \<Rightarrow> utc result" where
  "from_timestamp t =
     (let whole = (if 0 \<le> t then \<lfloor>t\<rfloor> else - \<lfloor>- t\<rfloor>);
          micros = round_half_even (fmul (t - of_int whole) 1000000)
      in if \<bar>whole\<bar> \<ge> 2 ^ 63 then Inl OverflowError
         else if whole > 67768036191676799 \<or> whole < - 67768040609740800 then Inl (OSError ''gmtime'')
         else if whole * 1000000 + micros < - 62135596800000000
                 \<or> 253402300799999999 < whole * 1000000 + micros
         then Inl (ValueError ''year is out of range'')
         else Inr (whole * 1000000 + micros))"

definition from_milliseconds :: "int \<Rightarrow> utc result" where
  "from_milliseconds n = from_timestamp (flt (of_int n / 1000))"

definition timestamp_ms :: "json \<Rightarrow> utc result" where
  "timestamp_ms v = bind_result (py_str v) (\<lambda>s. bind_result (int_of_text s) from_milliseconds)"

definition positive_decimal :: "json \<Rightarrow> decimal option" where
  "positive_decimal v =
     (case bind_result (py_str v) decimal_of_text of
        Inl _ \<Rightarrow> None
      | Inr d \<Rightarrow> if 0 < d then Some d else None)"

definition required_positive_decimal :: "json \<Rightarrow> decimal result" where
  "required_positive_decimal v =
     (case positive_decimal v of
        None \<Rightarrow> Inl (ValueError ''WebSocket numeric field must be positive'')
      | Some d \<Rightarrow> Inr d)"

text \<open>\<^verbatim>\<open>_positive_decimal(first) or _required_positive_decimal(second)\<close>, with the second field looked up only then.\<close>

definition first_positive :: "json \<Rightarrow> json result \<Rightarrow> decimal result" where
  "first_positive first second =
     (case positive_decimal first of
        Some d \<Rightarrow> Inr d
      | None \<Rightarrow> bind_result second required_positive_decimal)"

definition side_is_buy :: "json \<Rightarrow> bool" where
  "side_is_buy v = (case py_str v of Inl _ \<Rightarrow> False | Inr s \<Rightarrow> py_upper s = ''BUY'')"

definition parse_binance_liquidation :: "ws_message \<Rightarrow> liquidation_event option result" where
  "parse_binance_liquidation message =
     bind_result (json_object message) (\<lambda>payload.
       case (dict_get ''e'' payload, dict_get ''o'' payload) of
         (JStr e, JObj order) \<Rightarrow>
           if e \<noteq> ''forceOrder'' then Inr None
           else
             bind_result (subscript ''S'' order) (\<lambda>side.
             bind_result (first_positive (dict_get ''ap'' order) (subscript ''p'' order)) (\<lambda>price.
             bind_result (first_positive (dict_get ''l'' order) (subscript ''z'' order)) (\<lambda>quantity.
             bind_result (bind_result (subscript ''s'' order) py_str) (\<lambda>symbol.
             bind_result (bind_result (subscript ''E'' payload) timestamp_ms) (\<lambda>event_time.
             bind_result (bind_result (subscript ''T'' order) timestamp_ms) (\<lambda>trade_time.
             bind_result (check_liquidation_event
                \<lparr>le_symbol = symbol, le_event_time = event_time, le_trade_time = trade_time,
                 le_position = (if side_is_buy side then LIQUIDATED_SHORT else LIQUIDATED_LONG),
                 le_price = price, le_quantity = quantity, le_source = ''binance_usdm_force_order''\<rparr>)
               (\<lambda>e. Inr (Some e))))))))
       | _ \<Rightarrow> Inr None)"

definition ticker_price :: "utc \<Rightarrow> int \<Rightarrow> json \<Rightarrow> coinbase_price_observation list result" where
  "ticker_price observed_at sequence ticker =
     (case ticker of
        JObj kvs \<Rightarrow>
          if dict_get ''product_id'' kvs \<noteq> JStr ''BTC-USD'' then Inr []
          else bind_result (bind_result (subscript ''price'' kvs) required_positive_decimal) (\<lambda>price.
               bind_result (check_coinbase_price
                 \<lparr>cp_product_id = ''BTC-USD'', cp_observed_at = observed_at, cp_price_usd = price,
                  cp_source_sequence = sequence, cp_source = ''coinbase_advanced_ticker_batch''\<rparr>)
                 (\<lambda>c. Inr [c]))
      | _ \<Rightarrow> Inr [])"

definition event_prices :: "utc \<Rightarrow> int \<Rightarrow> json \<Rightarrow> coinbase_price_observation list result" where
  "event_prices observed_at sequence event =
     (case event of
        JObj kvs \<Rightarrow>
          (case dict_get ''tickers'' kvs of
             JList tickers \<Rightarrow>
               bind_result (map_result (ticker_price observed_at sequence) tickers) (\<lambda>prices. Inr (concat prices))
           | _ \<Rightarrow> Inr [])
      | _ \<Rightarrow> Inr [])"

definition parse_coinbase_prices :: "ws_message \<Rightarrow> coinbase_price_observation list result" where
  "parse_coinbase_prices message =
     bind_result (json_object message) (\<lambda>payload.
       let channel = dict_get ''channel'' payload
       in if \<not> hashable channel then Inl (TypeError ''unhashable type'')
          else if channel \<noteq> JStr ''ticker'' \<and> channel \<noteq> JStr ''ticker_batch'' then Inr []
          else
            bind_result (bind_result (subscript ''timestamp'' payload) json_time) (\<lambda>observed_at.
            bind_result (case map_of payload ''sequence_num'' of None \<Rightarrow> Inr 0 | Some v \<Rightarrow> json_int v) (\<lambda>sequence.
            case dict_get ''events'' payload of
              JList events \<Rightarrow>
                bind_result (map_result (event_prices observed_at sequence) events) (\<lambda>prices. Inr (concat prices))
            | _ \<Rightarrow> Inl (ValueError ''Coinbase ticker events must be a list''))))"

definition is_coinbase_heartbeat :: "ws_message \<Rightarrow> bool result" where
  "is_coinbase_heartbeat message =
     bind_result (json_object message) (\<lambda>payload. Inr (dict_get ''channel'' payload = JStr ''heartbeats''))"

text \<open>\<^verbatim>\<open>parse_mark_price\<close>; the instant a message was received is aware.\<close>

fun mark_payload :: "(string \<times> json) list \<Rightarrow> (string \<times> json) list result" where
  "mark_payload kvs =
     (case map_of kvs ''data'' of
        None \<Rightarrow> Inr kvs
      | Some (JObj inner) \<Rightarrow> Inr inner
      | Some _ \<Rightarrow> Inl (ValueError ''mark price data must be an object''))"

definition json_decimal :: "json \<Rightarrow> decimal result" where
  "json_decimal v = bind_result (py_str v) decimal_of_text"

definition mark_price_of_payload ::
    "(string \<times> json) list \<Rightarrow> utc \<Rightarrow> mark_price_observation option result" where
  "mark_price_of_payload payload received_at =
     (if dict_get ''e'' payload \<noteq> JStr ''markPriceUpdate'' \<or> dict_get ''s'' payload \<noteq> JStr ''BTCUSDT'' then Inr None
      else if \<exists>k \<in> set [''E'', ''p'', ''i'', ''r'', ''T'']. map_of payload k = None then Inr None
      else
        bind_result (bind_result (bind_result (subscript ''E'' payload) json_int) from_milliseconds) (\<lambda>event_at.
        bind_result (raise_if (received_at < event_at \<and> 2 < total_seconds (event_at - received_at))
                       (ValueError ''mark price event is too far ahead of local clock'')) (\<lambda>_.
        bind_result (bind_result (subscript ''p'' payload) json_decimal) (\<lambda>mark_price.
        bind_result (bind_result (subscript ''i'' payload) json_decimal) (\<lambda>index_price.
        bind_result (bind_result (subscript ''r'' payload) json_decimal) (\<lambda>funding_rate.
        bind_result (bind_result (bind_result (subscript ''T'' payload) json_int) from_milliseconds) (\<lambda>next_funding_at.
        bind_result (check_mark_price
          \<lparr>mp_symbol = ''BTCUSDT'', mp_event_at = event_at, mp_received_at = max received_at event_at,
           mp_mark_price = mark_price, mp_index_price = index_price, mp_funding_rate = funding_rate,
           mp_next_funding_at = next_funding_at\<rparr>) (\<lambda>m. Inr (Some m)))))))))"

fun parse_mark_price :: "ws_message \<Rightarrow> utc \<Rightarrow> mark_price_observation option result" where
  "parse_mark_price Not_Json received_at = Inr None"
| "parse_mark_price Not_Utf8 received_at = Inl (ValueError ''invalid start byte'')"
| "parse_mark_price (Json (JObj kvs)) received_at =
     bind_result (mark_payload kvs) (\<lambda>payload. mark_price_of_payload payload received_at)"
| "parse_mark_price (Json _) received_at = Inl (ValueError ''mark price payload must be an object'')"

section \<open>Handlers\<close>

text \<open>A handler is given the reading of the clock at which it parses; its boolean says whether the message counts.\<close>

type_synonym stream_handler = "ws_message \<Rightarrow> utc \<Rightarrow> derivatives_store \<Rightarrow> (derivatives_store \<times> bool) result"

definition handle_binance :: "digest \<Rightarrow> stream_handler" where
  "handle_binance sha256 message now db =
     bind_result (parse_binance_liquidation message) (\<lambda>event.
       case event of None \<Rightarrow> Inr (db, False) | Some e \<Rightarrow> Inr (save_liquidation sha256 e db, True))"

definition handle_coinbase :: "digest \<Rightarrow> stream_handler" where
  "handle_coinbase sha256 message now db =
     bind_result (parse_coinbase_prices message) (\<lambda>observations.
       let db' = fold (save_coinbase_price sha256) observations db
       in if observations \<noteq> [] then Inr (db', True)
          else bind_result (is_coinbase_heartbeat message) (\<lambda>heartbeat. Inr (db', heartbeat)))"

definition handle_mark_price :: stream_handler where
  "handle_mark_price message now db =
     bind_result (parse_mark_price message now) (\<lambda>observation.
       case observation of None \<Rightarrow> Inr (db, False) | Some m \<Rightarrow> Inr (save_mark_price m db, True))"

text \<open>\<^verbatim>\<open>except (KeyError, TypeError, ValueError, InvalidOperation)\<close>.\<close>

fun malformed :: "py_error \<Rightarrow> bool" where
  "malformed (KeyError _) = True"
| "malformed (TypeError _) = True"
| "malformed (ValueError _) = True"
| "malformed ArithmeticError = True"
| "malformed _ = False"

section \<open>The worker of a stream\<close>

record stream_config =
  sc_name :: string
  sc_handler :: stream_handler
  sc_timeout :: "int option"
  sc_delays :: "pyfloat list"
  sc_error_text :: "py_error \<Rightarrow> string"

text \<open>\<^verbatim>\<open>DerivativesMarketStreams.__init__\<close>: the reconnect delays are checked, the workers share them.\<close>

definition check_delays :: "pyfloat list \<Rightarrow> unit result" where
  "check_delays delays =
     raise_if (delays = [] \<or> (\<exists>d \<in> set delays. d < 0)) (ValueError ''stream reconnect delays must be non-negative'')"

definition stream_workers ::
    "digest \<Rightarrow> pyfloat list \<Rightarrow> (py_error \<Rightarrow> string) \<Rightarrow> bool \<Rightarrow> stream_config list" where
  "stream_workers sha256 delays error_text with_mark_price =
     [\<lparr>sc_name = ''binance_btcusdt_force_order'', sc_handler = handle_binance sha256, sc_timeout = None,
       sc_delays = delays, sc_error_text = error_text\<rparr>,
      \<lparr>sc_name = ''coinbase_btc_usd_ticker_batch'', sc_handler = handle_coinbase sha256, sc_timeout = Some 15,
       sc_delays = delays, sc_error_text = error_text\<rparr>]
     @ (if with_mark_price
        then [\<lparr>sc_name = ''binance_btcusdt_mark_price'', sc_handler = handle_mark_price, sc_timeout = Some 15,
               sc_delays = delays, sc_error_text = error_text\<rparr>] else [])"

definition message_is_stale :: "utc \<Rightarrow> utc \<Rightarrow> int option \<Rightarrow> bool" where
  "message_is_stale last_received_at now timeout =
     (case timeout of None \<Rightarrow> False | Some n \<Rightarrow> seconds n \<le> now - last_received_at)"

definition stale_text :: "int \<Rightarrow> string" where
  "stale_text n = ''no application message for '' @ int_text n @ ''s''"

text \<open>
  Where the thread is.  \<open>Closed\<close> is an \<^verbatim>\<open>except\<close> clause: the exception has left the \<^verbatim>\<open>with\<close>, so the
  connection is closed, and the clause has not yet looked at the stop event or written the row.
  \<open>Leaving\<close> is the point after the outer loop, before its last write.  \<open>Died\<close> is a thread that ended with the
  exception of a status write.
\<close>

datatype closing = Stream_Stale int | Stream_Error string

datatype worker_phase = Connecting | Receiving | Closed closing | Waiting pyfloat | Leaving | Ended | Died

text \<open>What became of the last write of \<^verbatim>\<open>connected_since\<close> that this thread, or its watchdog, made.\<close>

datatype last_write = No_Write | Row_Written | Write_Failed

record stream_worker =
  sw_phase :: worker_phase
  sw_failures :: nat
  sw_last_received_at :: utc
  sw_stale_triggered :: bool
  sw_watched :: bool
  sw_stop :: bool
  sw_last_write :: last_write

text \<open>A thread begins with the row that it finds; \<open>sw_last_write\<close> is no state of the code.\<close>

definition new_worker :: stream_worker where
  "new_worker = \<lparr>sw_phase = Connecting, sw_failures = 0, sw_last_received_at = 0, sw_stale_triggered = False,
                 sw_watched = False, sw_stop = False, sw_last_write = No_Write\<rparr>"

text \<open>
  What a worker meets, with the readings of its clock.  A failure carries the text of the exception.  The
  reply of a status write is \<open>None\<close> when it succeeds, or the text of what it raises, which leaves the row as it
  was.  \<open>Receive_Fails\<close> is also a handler whose store raises.
  The watchdog closes the connection it finds silent; what was received before is still delivered.
\<close>

type_synonym write_reply = "string option"

datatype worker_input =
    Connects utc write_reply
  | Connect_Fails string
  | Subscribe_Fails utc write_reply string
  | Receives ws_message utc utc write_reply
  | Receive_Times_Out utc
  | Receive_Fails string
  | Watchdog_Ticks utc write_reply
  | Handles_Close utc write_reply
  | Wait_Ends
  | Stop_Requested
  | Loop_Ends
  | Last_Write utc write_reply

type_synonym worker_state = "derivatives_store \<times> stream_worker"

text \<open>\<^verbatim>\<open>self.reconnect_delays[min(failures, len(self.reconnect_delays) - 1)]\<close>.\<close>

definition next_delay :: "stream_config \<Rightarrow> nat \<Rightarrow> pyfloat" where
  "next_delay cfg failures = sc_delays cfg ! min failures (length (sc_delays cfg) - 1)"

definition back_off :: "stream_config \<Rightarrow> stream_worker \<Rightarrow> stream_worker" where
  "back_off cfg w = w\<lparr>sw_phase := Waiting (next_delay cfg (sw_failures w)), sw_failures := Suc (sw_failures w)\<rparr>"

text \<open>An exception leaves the \<^verbatim>\<open>with\<close> of the connection: the watchdog is stopped, the connection closed.\<close>

definition closes :: "closing \<Rightarrow> stream_worker \<Rightarrow> stream_worker" where
  "closes c w = w\<lparr>sw_phase := Closed c, sw_watched := False\<rparr>"

text \<open>A write of \<^verbatim>\<open>connected_since\<close>, which succeeds or not.\<close>

definition status_write ::
    "write_reply \<Rightarrow> (derivatives_store \<Rightarrow> derivatives_store) \<Rightarrow> worker_state \<Rightarrow> worker_state" where
  "status_write reply write = (\<lambda>(db, w).
     case reply of
       None \<Rightarrow> (write db, w\<lparr>sw_last_write := Row_Written\<rparr>)
     | Some text \<Rightarrow> (db, w\<lparr>sw_last_write := Write_Failed\<rparr>))"

text \<open>
  \<^verbatim>\<open>except StreamStaleError\<close> and \<^verbatim>\<open>except Exception\<close>: after a stop request the loop is left; otherwise the row
  is written, but not for an error after the watchdog has set its flag.  An exception of that write ends the
  thread.
\<close>

definition close_is_written :: "closing \<Rightarrow> stream_worker \<Rightarrow> bool" where
  "close_is_written c w = (case c of Stream_Stale n \<Rightarrow> True | Stream_Error text \<Rightarrow> \<not> sw_stale_triggered w)"

definition closing_write :: "stream_config \<Rightarrow> closing \<Rightarrow> utc \<Rightarrow> derivatives_store \<Rightarrow> derivatives_store" where
  "closing_write cfg c now =
     (case c of
        Stream_Stale n \<Rightarrow> mark_stream_stale (sc_name cfg) now (stale_text n)
      | Stream_Error text \<Rightarrow> mark_stream_disconnected (sc_name cfg) now (Some (take 500 text)))"

definition handle_close :: "stream_config \<Rightarrow> closing \<Rightarrow> utc \<Rightarrow> write_reply \<Rightarrow> worker_state \<Rightarrow> worker_state" where
  "handle_close cfg c now reply = (\<lambda>(db, w).
     if sw_stop w then (db, w\<lparr>sw_phase := Leaving\<rparr>)
     else if \<not> close_is_written c w then (db, back_off cfg w)
     else status_write reply (closing_write cfg c now)
            (db, if reply = None then back_off cfg w else w\<lparr>sw_phase := Died\<rparr>))"

text \<open>After the loop: the row is written once more.\<close>

definition last_row :: "stream_config \<Rightarrow> utc \<Rightarrow> write_reply \<Rightarrow> worker_state \<Rightarrow> worker_state" where
  "last_row cfg now reply = (\<lambda>(db, w).
     status_write reply (mark_stream_disconnected (sc_name cfg) now None)
       (db, w\<lparr>sw_phase := (if reply = None then Ended else Died)\<rparr>))"

definition raise_if_stale :: "stream_config \<Rightarrow> utc \<Rightarrow> worker_state \<Rightarrow> worker_state" where
  "raise_if_stale cfg now = (\<lambda>(db, w).
     case sc_timeout cfg of
       None \<Rightarrow> (db, w)
     | Some n \<Rightarrow>
         if message_is_stale (sw_last_received_at w) now (sc_timeout cfg) then (db, closes (Stream_Stale n) w)
         else (db, w))"

definition worker_receives ::
    "stream_config \<Rightarrow> ws_message \<Rightarrow> utc \<Rightarrow> utc \<Rightarrow> write_reply \<Rightarrow> worker_state \<Rightarrow> worker_state" where
  "worker_receives cfg message parsed_at now reply = (\<lambda>(db, w).
     case sc_handler cfg message parsed_at db of
       Inl e \<Rightarrow>
         if malformed e then raise_if_stale cfg now (db, w)
         else (db, closes (Stream_Error (sc_error_text cfg e)) w)
     | Inr (db', handled) \<Rightarrow>
         if handled
         then let heard = w\<lparr>sw_last_received_at := now\<rparr>
              in (case reply of
                    None \<Rightarrow> (mark_stream_message (sc_name cfg) now db', heard)
                  | Some text \<Rightarrow> (db', closes (Stream_Error text) heard))
         else raise_if_stale cfg now (db', w))"

text \<open>
  A connection: the row is written, then the subscriptions are sent, and only then the failures are
  forgotten and the watchdog starts.
\<close>

definition worker_connects :: "stream_config \<Rightarrow> utc \<Rightarrow> write_reply \<Rightarrow> string option \<Rightarrow> worker_state \<Rightarrow> worker_state" where
  "worker_connects cfg now reply subscription_error = (\<lambda>(db, w).
     let fresh = w\<lparr>sw_stale_triggered := False\<rparr>
     in status_write reply (mark_stream_connected (sc_name cfg) now)
          (db, case (reply, subscription_error) of
                 (Some text, _) \<Rightarrow> closes (Stream_Error text) fresh
               | (None, Some text) \<Rightarrow> closes (Stream_Error text) fresh
               | (None, None) \<Rightarrow> fresh\<lparr>sw_phase := Receiving, sw_failures := 0, sw_last_received_at := now,
                               sw_watched := (sc_timeout cfg \<noteq> None)\<rparr>))"

text \<open>
  The watchdog runs beside the worker: its tick may come between any two steps of the connection.  It sets
  its flag, writes the row, and closes the connection whether or not the write succeeds.  A tick after the
  exception and before the watchdog is stopped is one before the exception; the two seconds for which the worker
  waits for the watchdog are taken to be enough for its write.
\<close>

definition watchdog_ticks :: "stream_config \<Rightarrow> utc \<Rightarrow> write_reply \<Rightarrow> worker_state \<Rightarrow> worker_state" where
  "watchdog_ticks cfg now reply = (\<lambda>(db, w).
     case sc_timeout cfg of
       None \<Rightarrow> (db, w)
     | Some n \<Rightarrow>
         if sw_watched w \<and> \<not> sw_stop w \<and> message_is_stale (sw_last_received_at w) now (sc_timeout cfg)
         then status_write reply (mark_stream_stale (sc_name cfg) now (stale_text n))
                (db, w\<lparr>sw_stale_triggered := True, sw_watched := False\<rparr>)
         else (db, w))"

text \<open>
  One step of \<^verbatim>\<open>_run\<close>.  An input that cannot come in a phase changes nothing.  \<open>Loop_Ends\<close> is the test
  of a loop head after a stop request; the receiving loop closes the connection on its way out.
\<close>

fun worker_step :: "stream_config \<Rightarrow> worker_input \<Rightarrow> worker_state \<Rightarrow> worker_state" where
  "worker_step cfg Stop_Requested (db, w) = (db, w\<lparr>sw_stop := True\<rparr>)"
| "worker_step cfg (Watchdog_Ticks now reply) (db, w) =
     (if sw_phase w = Receiving then watchdog_ticks cfg now reply (db, w) else (db, w))"
| "worker_step cfg Loop_Ends (db, w) =
     (if sw_stop w \<and> sw_phase w \<in> {Connecting, Receiving}
      then (db, w\<lparr>sw_phase := Leaving, sw_watched := False\<rparr>) else (db, w))"
| "worker_step cfg (Last_Write now reply) (db, w) =
     (if sw_phase w = Leaving then last_row cfg now reply (db, w) else (db, w))"
| "worker_step cfg Wait_Ends (db, w) =
     (case sw_phase w of Waiting _ \<Rightarrow> (db, w\<lparr>sw_phase := Connecting\<rparr>) | _ \<Rightarrow> (db, w))"
| "worker_step cfg (Connects now reply) (db, w) =
     (if sw_phase w = Connecting \<and> \<not> sw_stop w then worker_connects cfg now reply None (db, w) else (db, w))"
| "worker_step cfg (Connect_Fails text) (db, w) =
     (if sw_phase w = Connecting \<and> \<not> sw_stop w
      then (db, closes (Stream_Error text) (w\<lparr>sw_stale_triggered := False\<rparr>)) else (db, w))"
| "worker_step cfg (Subscribe_Fails now reply text) (db, w) =
     (if sw_phase w = Connecting \<and> \<not> sw_stop w then worker_connects cfg now reply (Some text) (db, w)
      else (db, w))"
| "worker_step cfg (Receives message parsed_at now reply) (db, w) =
     (if sw_phase w = Receiving then worker_receives cfg message parsed_at now reply (db, w) else (db, w))"
| "worker_step cfg (Receive_Times_Out now) (db, w) =
     (if sw_phase w = Receiving
      then case sc_timeout cfg of
             None \<Rightarrow> (db, w)
           | Some n \<Rightarrow>
               if message_is_stale (sw_last_received_at w) now (sc_timeout cfg)
               then (db, closes (Stream_Stale n) (w\<lparr>sw_stale_triggered := True\<rparr>)) else (db, w)
      else (db, w))"
| "worker_step cfg (Receive_Fails text) (db, w) =
     (if sw_phase w = Receiving then (db, closes (Stream_Error text) w) else (db, w))"
| "worker_step cfg (Handles_Close now reply) (db, w) =
     (case sw_phase w of Closed c \<Rightarrow> handle_close cfg c now reply (db, w) | _ \<Rightarrow> (db, w))"


section \<open>Instants on the wire\<close>

lemma flt_error: "\<bar>flt x - x\<bar> \<le> \<bar>x\<bar> / 2 ^ 53"
  unfolding flt_def using sig_round_error_pow [of 2 52 x] by (simp add: field_simps)

lemma milliseconds_near:
  fixes n whole :: int
  assumes n: "0 \<le> n" "n < 4294967296000" and t: "t = flt (of_int n / 1000)" and whole: "whole = \<lfloor>t\<rfloor>"
  shows "round_half_even (fmul (t - of_int whole) 1000000) = 1000 * n - whole * 1000000"
proof -
  let ?x = "of_int n / 1000 :: rat" and ?z = "(t - of_int whole) * 1000000"
  have x: "0 \<le> ?x" "?x < 2 ^ 32"
    using n by (simp_all add: divide_less_eq)
  have "\<bar>t - ?x\<bar> \<le> ?x / 2 ^ 53" using flt_error [of ?x] x(1) t by simp
  also have "\<dots> \<le> 1 / 2 ^ 21" using x(2) by simp
  finally have drift: "\<bar>t - ?x\<bar> \<le> 1 / 2 ^ 21" .
  have frac: "0 \<le> t - of_int whole" "t - of_int whole < 1" unfolding whole by linarith+
  have "\<bar>flt ?z - ?z\<bar> \<le> \<bar>?z\<bar> / 2 ^ 53" by (rule flt_error)
  also have "\<dots> \<le> 1000000 / 2 ^ 53" using frac by (simp add: divide_right_mono)
  finally have round: "\<bar>flt ?z - ?z\<bar> \<le> 1000000 / 2 ^ 53" .
  have "?z - of_int (1000 * n - whole * 1000000) = (t - ?x) * 1000000" by (simp add: algebra_simps)
  then have "\<bar>?z - of_int (1000 * n - whole * 1000000)\<bar> \<le> 1000000 / 2 ^ 21"
    using drift by (simp only: abs_mult) simp
  then have "\<bar>flt ?z - of_int (1000 * n - whole * 1000000)\<bar> \<le> 1000000 / 2 ^ 53 + 1000000 / 2 ^ 21"
    using round by linarith
  then have "\<bar>flt ?z - of_int (1000 * n - whole * 1000000)\<bar> * 2 < 1" by simp
  then show ?thesis unfolding fmul_def by (rule round_half_even_near)
qed

lemma from_milliseconds_exact:
  assumes "0 \<le> n" "n < 4294967296000"
  shows "from_milliseconds n = Inr (1000 * n)"
proof -
  define t where "t = flt (of_int n / 1000)"
  have t: "0 \<le> t" unfolding t_def using assms(1) by (intro flt.rnd_nonneg) simp
  have "\<bar>t - of_int n / 1000\<bar> \<le> of_int n / 1000 / 2 ^ 53"
    using flt_error [of "of_int n / 1000"] assms(1) by (simp add: t_def)
  moreover have "of_int n / 1000 \<le> (4294967296 :: rat)" using assms by (simp add: divide_le_eq)
  moreover from this have "of_int n / 1000 / 2 ^ 53 < (1 :: rat)" by simp
  ultimately have "t < 4294967297" by linarith
  then have whole: "0 \<le> \<lfloor>t\<rfloor>" "\<lfloor>t\<rfloor> < 4294967297" using t by linarith+
  show ?thesis
    using milliseconds_near [OF assms t_def refl] t whole assms
    unfolding from_milliseconds_def from_timestamp_def Let_def t_def [symmetric] by simp
qed

section \<open>Messages\<close>

lemma first_positive_eval:
  "positive_decimal a = Some d \<Longrightarrow> first_positive a b = Inr d"
  by (simp add: first_positive_def)

lemma positive_decimal_pos: "positive_decimal v = Some d \<Longrightarrow> 0 < d"
  by (auto simp: positive_decimal_def split: sum.splits if_splits)

lemma timestamp_ms_exact:
  assumes "0 \<le> n" "n < 4294967296000"
  shows "timestamp_ms (JInt n) = Inr (1000 * n)"
  using assms by (simp add: timestamp_ms_def from_milliseconds_exact)

text \<open>A forced order of the documented shape is stored with its price, quantity and exact times, a forced
  purchase as the liquidation of a short position.\<close>

lemma liquidation_parsed:
  assumes payload: "map_of payload ''e'' = Some (JStr ''forceOrder'')" "map_of payload ''o'' = Some (JObj order)"
      "map_of payload ''E'' = Some (JInt sent)"
    and order: "map_of order ''S'' = Some (JStr side)" "map_of order ''s'' = Some (JStr symbol)"
      "map_of order ''T'' = Some (JInt traded)"
      "map_of order ''ap'' = Some average" "map_of order ''l'' = Some filled"
    and positive: "positive_decimal average = Some price" "positive_decimal filled = Some quantity"
    and symbol: "py_strip symbol \<noteq> []"
    and range: "0 \<le> sent" "sent < 4294967296000" "0 \<le> traded" "traded < 4294967296000"
  shows "parse_binance_liquidation (Json (JObj payload)) =
    Inr (Some \<lparr>le_symbol = py_upper (py_strip symbol), le_event_time = 1000 * sent, le_trade_time = 1000 * traded,
               le_position = (if py_upper side = ''BUY'' then LIQUIDATED_SHORT else LIQUIDATED_LONG),
               le_price = price, le_quantity = quantity, le_source = ''binance_usdm_force_order''\<rparr>)"
proof -
  have "py_upper (py_strip symbol) \<noteq> []" using symbol by (simp add: py_upper_def)
  then show ?thesis
    using payload order positive range positive_decimal_pos [OF positive(1)] positive_decimal_pos [OF positive(2)]
    by (simp add: parse_binance_liquidation_def dict_get_def subscript_def first_positive_def side_is_buy_def
        timestamp_ms_exact check_liquidation_event_def Let_def)
qed


section \<open>The rows a worker writes\<close>

definition stream_row :: "string \<Rightarrow> derivatives_store \<Rightarrow> market_stream_status option" where
  "stream_row stream_name db = find (\<lambda>s. ms_stream_name s = stream_name) (ds_streams db)"

named_theorems stream_rows "what the writers of a stream row leave in it"

lemma find_upsert:
  assumes "ms_stream_name fresh = k" "\<And>s. ms_stream_name (upd s) = ms_stream_name s"
  shows "find (\<lambda>s. ms_stream_name s = k) (upsert_status fresh upd ss)
       = Some (case find (\<lambda>s. ms_stream_name s = k) ss of None \<Rightarrow> fresh | Some s \<Rightarrow> upd s)"
  using assms by (induction ss) auto

lemma find_map_row:
  "(\<And>s. ms_stream_name (upd s) = ms_stream_name s) \<Longrightarrow>
   find (\<lambda>s. ms_stream_name s = k) (map (\<lambda>s. if ms_stream_name s = k then upd s else s) ss)
     = map_option upd (find (\<lambda>s. ms_stream_name s = k) ss)"
  by (induction ss) auto

lemma bind_map_same: "(\<And>x. g (f x) = g x) \<Longrightarrow> Option.bind (map_option f r) g = Option.bind r g"
  by (cases r) auto

definition connected_since :: "string \<Rightarrow> derivatives_store \<Rightarrow> utc option" where
  "connected_since stream_name db = Option.bind (stream_row stream_name db) ms_connected_since"

lemma connected_since_writers [stream_rows]:
  "connected_since k (mark_stream_connected k t db) = Some t"
  "connected_since k (mark_stream_message k t db) = connected_since k db"
  "connected_since k (mark_stream_disconnected k t e db) = None"
  "connected_since k (mark_stream_stale k t text db) = None"
  by (simp_all add: connected_since_def stream_row_def mark_stream_connected_def mark_stream_message_def
      mark_stream_disconnected_def mark_stream_stale_def mark_stream_down_def find_upsert find_map_row
      bind_map_same split: option.split)

lemma unconfirmed:
  "connected_since k db = None \<Longrightarrow> \<not> continuously_connected_since k t db"
  by (auto simp: connected_since_def stream_row_def continuously_connected_since_def split: option.splits)

lemma confirmed:
  "continuously_connected_since k t db \<Longrightarrow> \<exists>u \<le> t. connected_since k db = Some u"
  by (auto simp: connected_since_def stream_row_def continuously_connected_since_def split: option.splits)

text \<open>The handlers write observations and no row of a stream.\<close>

definition keeps_rows :: "stream_handler \<Rightarrow> bool" where
  "keeps_rows h \<longleftrightarrow> (\<forall>m t db db' b. h m t db = Inr (db', b) \<longrightarrow> ds_streams db' = ds_streams db)"

lemma fold_coinbase_rows: "ds_streams (fold (save_coinbase_price sha256) xs db) = ds_streams db"
  by (induction xs arbitrary: db) (auto simp: save_coinbase_price_def)

lemma handlers_keep_rows:
  "keeps_rows (handle_binance sha256)" "keeps_rows (handle_coinbase sha256)" "keeps_rows handle_mark_price"
  by (auto simp: keeps_rows_def handle_binance_def handle_coinbase_def handle_mark_price_def py_result
      save_liquidation_def save_mark_price_def fold_coinbase_rows Let_def split: option.splits if_splits)

lemma stream_workers_keep_rows:
  "cfg \<in> set (stream_workers sha256 delays texts b) \<Longrightarrow> keeps_rows (sc_handler cfg)"
  by (auto simp: stream_workers_def handlers_keep_rows split: if_splits)

section \<open>When a stream counts as covered\<close>

text \<open>
  The runs of a worker thread from the store \<open>db0\<close> it finds: after a kill of the process, or when the supervisor
  starts a thread again, that is whatever the last one left.  Other components write the store between the steps,
  but not the row of the stream.
\<close>

inductive stream_run :: "stream_config \<Rightarrow> derivatives_store \<Rightarrow> worker_state \<Rightarrow> bool" for cfg db0 where
  start: "stream_run cfg db0 (db0, new_worker)"
| step: "stream_run cfg db0 s \<Longrightarrow> stream_run cfg db0 (worker_step cfg i s)"
| elsewhere: "stream_run cfg db0 (db, w) \<Longrightarrow> stream_row (sc_name cfg) db' = stream_row (sc_name cfg) db
    \<Longrightarrow> stream_run cfg db0 (db', w)"

text \<open>The connection is closed, and the next step of the thread writes the row that says so.\<close>

definition write_pending :: "stream_worker \<Rightarrow> bool" where
  "write_pending w \<longleftrightarrow> sw_phase w = Leaving \<or> (\<exists>c. sw_phase w = Closed c \<and> close_is_written c w)"

definition on_connection :: "stream_worker \<Rightarrow> bool" where
  "on_connection w \<longleftrightarrow> sw_phase w = Receiving \<and> sw_last_write w = Row_Written \<and> \<not> sw_stale_triggered w"

text \<open>The row is the one that the thread has found: it has not yet tried to connect.\<close>

definition row_inherited :: "stream_config \<Rightarrow> derivatives_store \<Rightarrow> worker_state \<Rightarrow> bool" where
  "row_inherited cfg db0 = (\<lambda>(db, w). sw_last_write w = No_Write \<and> sw_phase w = Connecting
     \<and> stream_row (sc_name cfg) db = stream_row (sc_name cfg) db0)"

definition worker_invariant :: "stream_config \<Rightarrow> derivatives_store \<Rightarrow> worker_state \<Rightarrow> bool" where
  "worker_invariant cfg db0 = (\<lambda>(db, w).
     (sw_last_write w = No_Write \<longrightarrow> row_inherited cfg db0 (db, w) \<or> write_pending w)
     \<and> (connected_since (sc_name cfg) db \<noteq> None \<longrightarrow>
          on_connection w \<or> write_pending w \<or> sw_last_write w = Write_Failed \<or> row_inherited cfg db0 (db, w)))"

lemma connected_since_row:
  "stream_row k db' = stream_row k db \<Longrightarrow> connected_since k db' = connected_since k db"
  by (simp add: connected_since_def)

lemma handler_row:
  "keeps_rows h \<Longrightarrow> h m t db = Inr (db', b) \<Longrightarrow> stream_row k db' = stream_row k db"
  unfolding keeps_rows_def stream_row_def by metis

lemma close_is_written_same:
  "sw_stale_triggered w' = sw_stale_triggered w \<Longrightarrow> close_is_written c w' = close_is_written c w"
  by (cases c) (simp_all add: close_is_written_def)

lemma write_pending_same:
  "sw_phase w' = sw_phase w \<Longrightarrow> sw_stale_triggered w' = sw_stale_triggered w \<Longrightarrow> write_pending w' = write_pending w"
  by (simp add: write_pending_def close_is_written_same [of w' w])

lemma worker_invariant_same:
  assumes "sw_phase w' = sw_phase w" "sw_stale_triggered w' = sw_stale_triggered w" "sw_last_write w' = sw_last_write w"
    "stream_row (sc_name cfg) db' = stream_row (sc_name cfg) db"
  shows "worker_invariant cfg db0 (db', w') = worker_invariant cfg db0 (db, w)"
  using assms connected_since_row [OF assms(4)]
  by (simp add: worker_invariant_def row_inherited_def on_connection_def write_pending_same [OF assms(1,2)])

lemma receiving_invariant:
  assumes "sw_phase w = Receiving"
  shows "worker_invariant cfg db0 (db, w) \<longleftrightarrow> sw_last_write w \<noteq> No_Write
    \<and> (connected_since (sc_name cfg) db \<noteq> None \<longrightarrow>
         sw_last_write w = Write_Failed \<or> sw_last_write w = Row_Written \<and> \<not> sw_stale_triggered w)"
  using assms by (auto simp: worker_invariant_def row_inherited_def on_connection_def write_pending_def)

lemma message_invariant:
  "worker_invariant cfg db0 (db, w) \<Longrightarrow> sw_phase w = Receiving \<Longrightarrow>
   worker_invariant cfg db0 (mark_stream_message (sc_name cfg) t db, w)"
  by (simp add: receiving_invariant connected_since_writers)

lemma step_parts:
  "worker_invariant cfg db0 (last_row cfg now reply (db, w))"
  "worker_invariant cfg db0 (worker_connects cfg now reply e (db, w))"
  "worker_invariant cfg db0 (db, closes (Stream_Stale n) w)"
  by (auto simp: worker_invariant_def last_row_def worker_connects_def status_write_def closes_def stream_rows
      on_connection_def write_pending_def close_is_written_def Let_def split: option.split)

lemma raise_if_stale_invariant:
  "worker_invariant cfg db0 (db, w) \<Longrightarrow> worker_invariant cfg db0 (raise_if_stale cfg now (db, w))"
  by (auto simp: raise_if_stale_def step_parts split: option.split)

lemma error_invariant:
  "worker_invariant cfg db0 (db, w) \<Longrightarrow> sw_phase w = Receiving \<Longrightarrow>
   worker_invariant cfg db0 (db, closes (Stream_Error text) w)"
  by (auto simp: worker_invariant_def closes_def on_connection_def write_pending_def close_is_written_def
      row_inherited_def)

lemma handle_close_invariant:
  assumes "worker_invariant cfg db0 (db, w)" "sw_phase w = Closed c"
  shows "worker_invariant cfg db0 (handle_close cfg c now reply (db, w))"
  using assms
  by (cases c) (auto simp: worker_invariant_def handle_close_def status_write_def closing_write_def back_off_def
      stream_rows on_connection_def write_pending_def close_is_written_def row_inherited_def split: option.split)

lemma watchdog_invariant:
  "worker_invariant cfg db0 (db, w) \<Longrightarrow> sw_phase w = Receiving \<Longrightarrow>
   worker_invariant cfg db0 (watchdog_ticks cfg now reply (db, w))"
  by (auto simp: worker_invariant_def watchdog_ticks_def status_write_def stream_rows on_connection_def
      write_pending_def row_inherited_def split: option.split)

lemma receives_invariant:
  assumes "keeps_rows (sc_handler cfg)" "worker_invariant cfg db0 (db, w)" "sw_phase w = Receiving"
  shows "worker_invariant cfg db0 (worker_receives cfg m p now reply (db, w))"
proof (cases "sc_handler cfg m p db")
  case (Inl e)
  then show ?thesis
    using assms by (auto simp: worker_receives_def raise_if_stale_invariant error_invariant)
next
  case (Inr r)
  obtain db' handled where r: "r = (db', handled)" by (cases r)
  then have same: "stream_row (sc_name cfg) db' = stream_row (sc_name cfg) db"
    using Inr assms(1) handler_row by blast
  then have inv: "worker_invariant cfg db0 (db', w)"
    using assms(2) by (rule iffD2 [OF worker_invariant_same [OF refl refl refl]])
  then have heard: "worker_invariant cfg db0 (db', w\<lparr>sw_last_received_at := now\<rparr>)"
    by (subst worker_invariant_same [where w = w and db = db']) simp_all
  have "worker_invariant cfg db0 (mark_stream_message (sc_name cfg) now db', w\<lparr>sw_last_received_at := now\<rparr>)"
    using message_invariant [OF heard] assms(3) by simp
  then show ?thesis
    using Inr r raise_if_stale_invariant [OF inv] error_invariant [OF heard] assms(3)
    by (auto simp: worker_receives_def Let_def split: option.split)
qed

lemma worker_step_invariant:
  assumes "keeps_rows (sc_handler cfg)" "worker_invariant cfg db0 s"
  shows "worker_invariant cfg db0 (worker_step cfg i s)"
proof (cases s)
  case (Pair db w)
  have inv: "worker_invariant cfg db0 (db, w)" using assms(2) Pair by simp
  then have phases: "worker_invariant cfg db0 (db, w\<lparr>sw_stop := True\<rparr>)"
    "worker_invariant cfg db0 (db, w\<lparr>sw_phase := Leaving, sw_watched := False\<rparr>)"
    "sw_phase w = Waiting d \<Longrightarrow> worker_invariant cfg db0 (db, w\<lparr>sw_phase := Connecting\<rparr>)"
    "sw_phase w = Connecting \<Longrightarrow>
       worker_invariant cfg db0 (db, closes (Stream_Error e) (w\<lparr>sw_stale_triggered := False\<rparr>))" for d e
    by (auto simp: worker_invariant_def on_connection_def write_pending_def close_is_written_def row_inherited_def
        closes_def split: closing.splits)
  note parts = step_parts error_invariant handle_close_invariant watchdog_invariant receives_invariant [OF assms(1)]
  show ?thesis
  proof (cases i)
    case Wait_Ends
    then show ?thesis by (cases "sw_phase w") (simp_all add: Pair inv phases)
  next
    case (Handles_Close now reply)
    then show ?thesis by (cases "sw_phase w") (simp_all add: Pair inv parts)
  next
    case (Receive_Times_Out now)
    then show ?thesis by (cases "sc_timeout cfg") (simp_all add: Pair inv parts)
  qed (simp_all add: Pair inv phases parts)
qed

lemma stream_run_invariant:
  assumes "stream_run cfg db0 s" "keeps_rows (sc_handler cfg)"
  shows "worker_invariant cfg db0 s"
  using assms
proof (induction rule: stream_run.induct)
  case (step s i)
  then show ?case by (simp add: worker_step_invariant)
next
  case (elsewhere db w db')
  from iffD2 [OF worker_invariant_same [OF refl refl refl elsewhere(2)]] elsewhere show ?case by blast
qed (simp add: worker_invariant_def row_inherited_def new_worker_def)

text \<open>C28: whatever row a stream worker finds, whichever of its status writes fail and however it is interrupted,
  the store confirms the coverage of a stream only in four cases: the worker is on a connection whose opening it
  has recorded and that nothing has declared stale; the connection is closed and the next step of the thread
  writes that; the last write of the row failed; or the thread has not yet tried to connect, and the row is the
  one that was there before it.\<close>

theorem coverage_only_on_connection:
  assumes "cfg \<in> set (stream_workers sha256 delays texts with_mark_price)" "stream_run cfg db0 (db, w)"
    and "continuously_connected_since (sc_name cfg) t db"
  shows "on_connection w \<or> write_pending w \<or> sw_last_write w = Write_Failed \<or> row_inherited cfg db0 (db, w)"
  using stream_run_invariant [OF assms(2) stream_workers_keep_rows [OF assms(1)]] confirmed [OF assms(3)]
  by (auto simp: worker_invariant_def)


section \<open>Messages that are not understood\<close>

text \<open>No error of a Coinbase message ends the connection: the parser raises only what the worker ignores.\<close>

lemma malformed_bind:
  assumes "\<And>e. m = Inl e \<Longrightarrow> malformed e" "\<And>x e. m = Inr x \<Longrightarrow> f x = Inl e \<Longrightarrow> malformed e"
  shows "bind_result m f = Inl e \<Longrightarrow> malformed e"
  using assms by (cases m) auto

lemma malformed_map:
  "(\<And>x e. x \<in> set xs \<Longrightarrow> f x = Inl e \<Longrightarrow> malformed e) \<Longrightarrow> map_result f xs = Inl e \<Longrightarrow> malformed e"
  by (induction xs arbitrary: e) (auto simp: bind_result_Inl)

lemma malformed_subscript: "subscript k kvs = Inl e \<Longrightarrow> malformed e"
  by (auto simp: subscript_def split: option.splits)

lemma malformed_object: "json_object m = Inl e \<Longrightarrow> malformed e"
  by (cases m rule: json_object.cases) auto

lemma malformed_decimal: "required_positive_decimal v = Inl e \<Longrightarrow> malformed e"
  by (auto simp: required_positive_decimal_def split: option.splits)

lemma malformed_int: "json_int v = Inl e \<Longrightarrow> malformed e"
  by (cases v) (auto simp: int_of_text_def Let_def split: if_splits prod.splits)

lemma malformed_time: "json_time v = Inl e \<Longrightarrow> malformed e"
  by (cases v) auto

lemma malformed_ticker: "ticker_price t n v = Inl e \<Longrightarrow> malformed e"
  by (auto simp: ticker_price_def check_coinbase_price_def Let_def py_result
      dest: malformed_subscript malformed_decimal split: json.splits if_splits)

lemma malformed_event: "event_prices t n v = Inl e \<Longrightarrow> malformed e"
  by (auto simp: event_prices_def py_result
      dest: malformed_ticker malformed_map [rotated] split: json.splits if_splits)

lemma malformed_events: "map_result (event_prices t n) xs = Inl e \<Longrightarrow> malformed e"
  using malformed_map [of xs "event_prices t n"] malformed_event by blast

lemma malformed_prices: "parse_coinbase_prices m = Inl e \<Longrightarrow> malformed e"
  unfolding parse_coinbase_prices_def Let_def
proof (erule malformed_bind [rotated 2])
  fix payload e
  let ?events = "\<lambda>t n. case dict_get ''events'' payload of
      JList events \<Rightarrow> bind_result (map_result (event_prices t n) events) (\<lambda>prices. Inr (concat prices))
    | _ \<Rightarrow> Inl (ValueError ''Coinbase ticker events must be a list'')"
  have events: "?events t n = Inl e \<Longrightarrow> malformed e" for t n e
    by (auto simp: bind_result_Inl dest: malformed_events split: json.splits)
  have sequence: "(case map_of payload ''sequence_num'' of None \<Rightarrow> Inr 0 | Some v \<Rightarrow> json_int v) = Inl e
      \<Longrightarrow> malformed e" for e
    by (auto dest: malformed_int split: option.splits)
  have time: "bind_result (subscript ''timestamp'' payload) json_time = Inl e \<Longrightarrow> malformed e" for e
    by (auto simp: bind_result_Inl dest: malformed_subscript malformed_time)
  assume "(if \<not> hashable (dict_get ''channel'' payload) then Inl (TypeError ''unhashable type'')
     else if dict_get ''channel'' payload \<noteq> JStr ''ticker'' \<and> dict_get ''channel'' payload \<noteq> JStr ''ticker_batch''
     then Inr []
     else bind_result (bind_result (subscript ''timestamp'' payload) json_time) (\<lambda>observed_at.
          bind_result (case map_of payload ''sequence_num'' of None \<Rightarrow> Inr 0 | Some v \<Rightarrow> json_int v)
            (?events observed_at))) = Inl e"
  then show "malformed e"
    using malformed_bind [OF time malformed_bind [OF sequence events]] by (auto split: if_splits)
qed (rule malformed_object)

lemma malformed_coinbase: "handle_coinbase sha256 m now db = Inl e \<Longrightarrow> malformed e"
  by (auto simp: handle_coinbase_def is_coinbase_heartbeat_def Let_def py_result
      dest: malformed_prices malformed_object split: if_splits)

definition coinbase_worker :: "digest \<Rightarrow> pyfloat list \<Rightarrow> (py_error \<Rightarrow> string) \<Rightarrow> stream_config" where
  "coinbase_worker sha256 delays texts = stream_workers sha256 delays texts False ! 1"

lemma coinbase_worker_fields [simp]:
  "sc_handler (coinbase_worker sha256 delays texts) = handle_coinbase sha256"
  "sc_timeout (coinbase_worker sha256 delays texts) = Some 15"
  "sc_delays (coinbase_worker sha256 delays texts) = delays"
  by (simp_all add: coinbase_worker_def stream_workers_def)

theorem coinbase_message_keeps_connection:
  assumes "sw_phase w = Receiving" "now - sw_last_received_at w < seconds 15"
    and "worker_step (coinbase_worker sha256 delays texts) (Receives m parsed_at now None) (db, w) = (db', w')"
  shows "sw_phase w' = Receiving \<and> sw_failures w' = sw_failures w
    \<and> (case handle_coinbase sha256 m parsed_at db of
         Inl e \<Rightarrow> malformed e \<and> (db', w') = (db, w)
       | Inr (stored, True) \<Rightarrow>
           db' = mark_stream_message (sc_name (coinbase_worker sha256 delays texts)) now stored
           \<and> w' = w\<lparr>sw_last_received_at := now\<rparr>
       | Inr (stored, False) \<Rightarrow> (db', w') = (stored, w))"
proof (cases "handle_coinbase sha256 m parsed_at db")
  case (Inl e)
  then show ?thesis
    using assms malformed_coinbase [OF Inl] by (simp add: worker_receives_def raise_if_stale_def message_is_stale_def)
next
  case (Inr r)
  then show ?thesis
    using assms by (cases r) (auto simp: worker_receives_def raise_if_stale_def message_is_stale_def split: if_splits)
qed

text \<open>A time of the Binance stream beyond what the C library represents is not among the errors ignored.\<close>

definition sample_order :: "(string \<times> json) list" where
  "sample_order =
     [(''s'', JStr ''BTCUSDT''), (''S'', JStr ''SELL''), (''ap'', JStr ''9910''), (''l'', JStr ''0.014''),
      (''T'', JInt 1568014460893)]"

definition forced_order :: "int \<Rightarrow> ws_message" where
  "forced_order sent =
     Json (JObj [(''e'', JStr ''forceOrder''), (''E'', JInt sent), (''o'', JObj sample_order)])"

definition binance_worker :: "digest \<Rightarrow> pyfloat list \<Rightarrow> (py_error \<Rightarrow> string) \<Rightarrow> stream_config" where
  "binance_worker sha256 delays texts = stream_workers sha256 delays texts False ! 0"

lemma decimals_of_sample: "positive_decimal (JStr ''9910'') = Some 9910" "positive_decimal (JStr ''0.014'') = Some (7 / 500)"
  by code_simp+

lemma overflow_timestamp: "timestamp_ms (JInt (10 ^ 25)) = Inl OverflowError"
proof -
  have "flt (of_int (10 ^ 25) / 1000) = 10 ^ 22"
    using flt_exact [of "5 ^ 22" 22] by (simp add: power_int_def)
  then show ?thesis by (simp add: timestamp_ms_def from_milliseconds_def from_timestamp_def Let_def)
qed

theorem absurd_timestamp_drops_connection:
  assumes "sw_phase w = Receiving"
  shows "\<exists>text. worker_step (binance_worker sha256 delays texts)
                  (Receives (forced_order (10 ^ 25)) parsed_at now reply) (db, w) = (db, closes (Stream_Error text) w)"
proof -
  have "handle_binance sha256 (forced_order (10 ^ 25)) parsed_at db = Inl OverflowError"
    unfolding handle_binance_def parse_binance_liquidation_def forced_order_def sample_order_def
    by (simp add: dict_get_def subscript_def first_positive_def decimals_of_sample overflow_timestamp del: power_numeral)
  then show ?thesis
    using assms by (intro exI [of _ "texts OverflowError"]) (simp add: worker_receives_def binance_worker_def stream_workers_def)
qed

lemmas stream_demo_defs =
  coinbase_worker_def stream_workers_def worker_connects_def watchdog_ticks_def worker_receives_def handle_close_def
  status_write_def closes_def close_is_written_def back_off_def next_delay_def message_is_stale_def new_worker_def
  duration_defs connected_since_def stream_row_def

text \<open>The row a handler writes after the watchdog has found the stream stale is not corrected.\<close>

definition heartbeat :: ws_message where
  "heartbeat = Json (JObj [(''channel'', JStr ''heartbeats'')])"

definition late_heartbeat :: "worker_input list" where
  "late_heartbeat = [Connects 0 None, Watchdog_Ticks 15000000 None, Receives heartbeat 15000000 15000000 None,
                     Receive_Fails ''ConnectionClosedOK'', Handles_Close 15500000 None]"

theorem shown_connected_while_waiting:
  "let (db, w) = fold (worker_step (coinbase_worker sha256 [1, 5, 30] texts)) late_heartbeat (empty_store, new_worker)
   in sw_phase w = Waiting 1
      \<and> map_option ms_state (stream_row ''coinbase_btc_usd_ticker_batch'' db) = Some CONNECTED
      \<and> connected_since ''coinbase_btc_usd_ticker_batch'' db = None"
  by (simp add: late_heartbeat_def heartbeat_def stream_demo_defs empty_store_def handle_coinbase_def
      parse_coinbase_prices_def is_coinbase_heartbeat_def dict_get_def mark_stream_connected_def mark_stream_stale_def
      mark_stream_down_def mark_stream_message_def Let_def)

text \<open>
  When the status write of the watchdog fails, the worker believes the row written: it waits and tries to
  connect again while the store confirms the coverage.
\<close>

definition lost_stale_row :: "worker_input list" where
  "lost_stale_row = [Connects 0 None, Watchdog_Ticks 15000000 (Some ''database is locked''),
                     Receive_Fails ''ConnectionClosedOK'', Handles_Close 15500000 None]"

text \<open>The coverage of a stream outlives its connection: from every store, when the one write of the watchdog
  that finds a connection silent fails, the worker closes the connection and waits to connect again, and the store
  goes on confirming that the stream has been covered all along.\<close>

lemma coverage_outlives_connection:
  "let (db, w) = fold (worker_step (coinbase_worker sha256 [1, 5, 30] texts)) lost_stale_row (db0, new_worker)
   in sw_phase w = Waiting 1 \<and> continuously_connected_since ''coinbase_btc_usd_ticker_batch'' 0 db"
proof -
  have "continuously_connected_since k 0 (mark_stream_connected k 0 db0)" for k
  proof -
    have "stream_row k (mark_stream_connected k 0 db0)
        = Some (case stream_row k db0 of
            None \<Rightarrow> \<lparr>ms_stream_name = k, ms_state = CONNECTED, ms_updated_at = 0, ms_connected_since = Some 0,
                     ms_last_message_at = None, ms_last_error = None\<rparr>
          | Some s \<Rightarrow> s\<lparr>ms_state := CONNECTED, ms_updated_at := 0, ms_connected_since := Some 0\<rparr>)"
      by (simp add: stream_row_def mark_stream_connected_def find_upsert)
    then show ?thesis
      by (simp add: continuously_connected_since_def stream_row_def split: option.split)
  qed
  then show ?thesis by (simp add: lost_stale_row_def stream_demo_defs)
qed

section \<open>Concrete inputs\<close>

definition no_text :: "py_error \<Rightarrow> string" where "no_text e = []"

definition one_digest :: digest where "one_digest j = ''id''"

lemma coverage_only_on_connection_witness:
  "let (db, w) = worker_step (binance_worker one_digest [1, 5, 30] no_text) (Connects 5 None) (empty_store, new_worker)
   in continuously_connected_since ''binance_btcusdt_force_order'' 5 db \<and> on_connection w"
proof -
  let ?cfg = "binance_worker one_digest [1, 5, 30] no_text"
  obtain db w where s: "worker_step ?cfg (Connects 5 None) (empty_store, new_worker) = (db, w)" by fastforce
  have cfg: "?cfg \<in> set (stream_workers one_digest [1, 5, 30] no_text False)"
    and name: "sc_name ?cfg = ''binance_btcusdt_force_order''"
    by (simp_all add: binance_worker_def stream_workers_def)
  have run: "stream_run ?cfg empty_store (db, w)"
    using stream_run.step [OF stream_run.start, where i = "Connects 5 None"] s by metis
  have now: "sw_phase w = Receiving" "sw_last_write w = Row_Written"
    using s by (auto simp: worker_connects_def status_write_def new_worker_def Let_def)
  have "continuously_connected_since ''binance_btcusdt_force_order'' 5 db"
    using s name by (auto simp: worker_connects_def status_write_def new_worker_def continuously_connected_since_def
        mark_stream_connected_def empty_store_def Let_def)
  then show ?thesis
    using coverage_only_on_connection [OF cfg run] name s now by (auto simp: write_pending_def row_inherited_def)
qed

lemma coinbase_message_keeps_connection_witness:
  "\<exists>w'. worker_step (coinbase_worker one_digest [1, 5, 30] no_text) (Receives (Json (JInt 3)) 7 7 None)
          (empty_store, new_worker\<lparr>sw_phase := Receiving\<rparr>) = (empty_store, w') \<and> sw_phase w' = Receiving"
proof -
  have err: "handle_coinbase one_digest (Json (JInt 3)) 7 empty_store
      = Inl (ValueError ''WebSocket message must be an object'')"
    by (simp add: handle_coinbase_def parse_coinbase_prices_def)
  obtain db' w' where s: "worker_step (coinbase_worker one_digest [1, 5, 30] no_text) (Receives (Json (JInt 3)) 7 7 None)
          (empty_store, new_worker\<lparr>sw_phase := Receiving\<rparr>) = (db', w')" by fastforce
  have "sw_phase (new_worker\<lparr>sw_phase := Receiving\<rparr>) = Receiving"
    "7 - sw_last_received_at (new_worker\<lparr>sw_phase := Receiving\<rparr>) < seconds 15"
    by (simp_all add: new_worker_def duration_defs)
  from coinbase_message_keeps_connection [OF this s] s show ?thesis by (simp add: err)
qed

lemma absurd_timestamp_drops_connection_witness:
  "\<exists>text. worker_step (binance_worker one_digest [1, 5, 30] no_text) (Receives (forced_order (10 ^ 25)) 7 7 None)
      (empty_store, new_worker\<lparr>sw_phase := Receiving\<rparr>)
     = (empty_store, closes (Stream_Error text) (new_worker\<lparr>sw_phase := Receiving\<rparr>))"
  by (rule absurd_timestamp_drops_connection) (simp add: new_worker_def)

section \<open>The supervisor\<close>

text \<open>
  \<^verbatim>\<open>DerivativesMarketStreams.start\<close>, \<^verbatim>\<open>stop\<close> and the thread \<^verbatim>\<open>_supervise\<close>.  What the calls of the ownership
  lock return, and when a worker thread ends, are inputs; \<open>ss_alive\<close> says which worker threads run.
  \<open>Head\<close> is the test of the loop, \<open>Owning\<close> the point after the lock was found owned, \<open>Draining\<close> the
  \<^verbatim>\<open>finally\<close> that waits for the workers before it releases the lock.
\<close>

datatype supervisor_phase = Not_Started | Head | Owning | Draining | Supervisor_Ended

record stream_supervisor =
  ss_phase :: supervisor_phase
  ss_owns :: bool
  ss_stop :: bool
  ss_closed :: bool
  ss_alive :: "bool list"
  ss_released :: bool

definition new_supervisor :: "nat \<Rightarrow> stream_supervisor" where
  "new_supervisor workers =
     \<lparr>ss_phase = Not_Started, ss_owns = False, ss_stop = False, ss_closed = False,
      ss_alive = replicate workers False, ss_released = False\<rparr>"

definition supervisor_running :: "stream_supervisor \<Rightarrow> bool" where
  "supervisor_running s = (ss_phase s \<in> {Head, Owning, Draining})"

definition streams_start :: "stream_supervisor \<Rightarrow> stream_supervisor" where
  "streams_start s =
     (if ss_closed s \<or> supervisor_running s then s
      else s\<lparr>ss_phase := Head, ss_owns := False, ss_stop := False, ss_released := False\<rparr>)"

definition streams_stop :: "stream_supervisor \<Rightarrow> stream_supervisor" where
  "streams_stop s = s\<lparr>ss_closed := True, ss_stop := True\<rparr>"

text \<open>The \<^verbatim>\<open>finally\<close> sets the stop event; without the lock there is nothing to wait for.\<close>

definition supervisor_leaves :: "stream_supervisor \<Rightarrow> stream_supervisor" where
  "supervisor_leaves s =
     s\<lparr>ss_stop := True, ss_phase := (if ss_owns s then Draining else Supervisor_Ended)\<rparr>"

datatype supervisor_input =
    Start
  | Stop
  | Loop_Head
  | Acquire_Gives "bool result"
  | Refresh_Gives "unit result"
  | Worker_Ends nat
  | Workers_Joined

fun supervisor_step :: "supervisor_input \<Rightarrow> stream_supervisor \<Rightarrow> stream_supervisor" where
  "supervisor_step Start s = streams_start s"
| "supervisor_step Stop s = streams_stop s"
| "supervisor_step Loop_Head s =
     (if ss_phase s = Head
      then if ss_stop s then supervisor_leaves s
           else if ss_owns s then s\<lparr>ss_phase := Owning\<rparr> else s
      else if ss_phase s = Owning \<and> ss_stop s then supervisor_leaves s else s)"
| "supervisor_step (Acquire_Gives r) s =
     (if ss_phase s = Head \<and> \<not> ss_stop s \<and> \<not> ss_owns s
      then case r of
             Inl e \<Rightarrow> supervisor_leaves s
           | Inr owned \<Rightarrow> if owned then s\<lparr>ss_owns := True, ss_phase := Owning\<rparr> else s
      else s)"
| "supervisor_step (Refresh_Gives r) s =
     (if ss_phase s = Owning \<and> \<not> ss_stop s
      then case r of
             Inl e \<Rightarrow> supervisor_leaves s
           | Inr _ \<Rightarrow> s\<lparr>ss_alive := replicate (length (ss_alive s)) True, ss_phase := Head\<rparr>
      else s)"
| "supervisor_step (Worker_Ends i) s = s\<lparr>ss_alive := (ss_alive s)[i := False]\<rparr>"
| "supervisor_step Workers_Joined s =
     (if ss_phase s = Draining \<and> True \<notin> set (ss_alive s)
      then s\<lparr>ss_phase := Supervisor_Ended, ss_owns := False, ss_released := True\<rparr> else s)"

inductive supervised :: "stream_supervisor \<Rightarrow> bool" where
  created: "supervised (new_supervisor n)"
| input: "supervised s \<Longrightarrow> supervised (supervisor_step i s)"

lemma alive_after_end: "True \<in> set (xs[i := False]) \<Longrightarrow> True \<in> set xs"
  using set_update_subset_insert [of xs i False] by auto

lemma supervised_invariant:
  "supervised s \<Longrightarrow> (True \<in> set (ss_alive s) \<longrightarrow> ss_owns s \<and> ss_phase s \<in> {Head, Owning, Draining})
     \<and> (ss_owns s \<longrightarrow> \<not> ss_released s \<and> ss_phase s \<in> {Head, Owning, Draining})
     \<and> (ss_phase s \<in> {Head, Owning} \<longrightarrow> \<not> ss_released s) \<and> (ss_phase s = Owning \<longrightarrow> ss_owns s)"
proof (induction rule: supervised.induct)
  case (input s i)
  then show ?case
    by (cases i)
      (auto simp: streams_start_def streams_stop_def supervisor_leaves_def supervisor_running_def
        dest: alive_after_end split: sum.split if_splits)
qed (simp add: new_supervisor_def)

lemma workers_only_under_lock:
  assumes "supervised s" "True \<in> set (ss_alive s)"
  shows "ss_owns s \<and> \<not> ss_released s \<and> supervisor_running s"
  using supervised_invariant [OF assms(1)] assms(2) by (auto simp: supervisor_running_def)

end
