(* ===== verification/Registry.thy ===== *)
theory Registry
  imports Policy ResearchStore
begin

text \<open>
  The registry of strategy profiles (\<^verbatim>\<open>strategy_registry.py\<close>): profiles are published as TOML files
  named by their version, read back field by field against the annotations of
  \<^verbatim>\<open>DynamicUniversePolicy\<close>, and validated both ways.

  A TOML document is held as the value it denotes, as \<^verbatim>\<open>tomllib\<close> reads it; \<open>TDec\<close> is the quoted text of a
  \<^verbatim>\<open>Decimal\<close>, which \<^verbatim>\<open>Decimal\<close> reads back.  A \<^verbatim>\<open>StrategyConfigError\<close> is a \<^verbatim>\<open>ValueError\<close>; where its message lists
  the fields concerned, the model keeps the text before them.
\<close>

section \<open>Documents and field values\<close>

datatype toml =
    TInt int
  | TFloat pyfloat
  | TBool bool
  | TText string
  | TDec decimal
  | TArray "toml list"
  | TTable "(string \<times> toml) list"

datatype policy_value =
    PNone
  | PInt int
  | PDecimal decimal
  | PFloat pyfloat
  | PDuration timedelta
  | PText string
  | PTexts "string list"

datatype field_kind = FInt | FDecimal | FFloat | FDuration | FText | FTexts

definition optional_value :: "('a \<Rightarrow> policy_value) \<Rightarrow> 'a option \<Rightarrow> policy_value" where
  "optional_value f x = (case x of None \<Rightarrow> PNone | Some y \<Rightarrow> f y)"

definition value_option :: "(policy_value \<Rightarrow> 'a) \<Rightarrow> policy_value \<Rightarrow> 'a option" where
  "value_option f v = (if v = PNone then None else Some (f v))"

fun as_int :: "policy_value \<Rightarrow> int" where "as_int (PInt n) = n" | "as_int _ = 0"
fun as_decimal :: "policy_value \<Rightarrow> decimal" where "as_decimal (PDecimal d) = d" | "as_decimal _ = 0"
fun as_float :: "policy_value \<Rightarrow> pyfloat" where "as_float (PFloat r) = r" | "as_float _ = 0"
fun as_duration :: "policy_value \<Rightarrow> timedelta" where "as_duration (PDuration t) = t" | "as_duration _ = 0"
fun as_text :: "policy_value \<Rightarrow> string" where "as_text (PText s) = s" | "as_text _ = []"
fun as_texts :: "policy_value \<Rightarrow> string list" where "as_texts (PTexts ss) = ss" | "as_texts _ = []"

text \<open>The fields of the profile after the version: name, type and whether \<^verbatim>\<open>None\<close> is allowed.\<close>

definition policy_fields :: "(string \<times> field_kind \<times> bool) list" where
  "policy_fields =
     [(''minimum_history_bars'', FInt, False),
      (''liquidity_lookback_bars'', FInt, False),
      (''maximum_candidates'', FInt, False),
      (''maximum_positions'', FInt, False),
      (''invested_fraction'', FDecimal, False),
      (''maximum_asset_weight'', FDecimal, False),
      (''minimum_order_notional'', FDecimal, False),
      (''minimum_rebalance_fraction'', FDecimal, False),
      (''exchange_fee_rate'', FDecimal, False),
      (''estimated_slippage_rate'', FDecimal, False),
      (''entry_score_hurdle'', FFloat, False),
      (''hold_score_hurdle'', FFloat, False),
      (''exit_score_hurdle'', FFloat, False),
      (''maximum_hold_rank'', FInt, False),
      (''required_entry_confirmations'', FInt, False),
      (''reentry_cooldown'', FDuration, False),
      (''minimum_replacement_score_advantage'', FFloat, False),
      (''maximum_daily_turnover_fraction'', FDecimal, False),
      (''turnover_sell_weight'', FDecimal, False),
      (''turnover_budget_mode'', FText, False),
      (''bullish_daily_turnover_fraction'', FDecimal, True),
      (''bullish_btc_minimum_momentum_4h'', FFloat, False),
      (''bullish_btc_minimum_momentum_24h'', FFloat, False),
      (''bullish_market_breadth_minimum'', FFloat, False),
      (''bullish_market_breadth_minimum_candidates'', FInt, False),
      (''maximum_daily_fee_fraction'', FDecimal, False),
      (''maximum_daily_realized_loss_fraction'', FDecimal, False),
      (''scoring_method'', FText, False),
      (''score_scale'', FText, False),
      (''momentum_1h_weight'', FFloat, False),
      (''momentum_4h_weight'', FFloat, False),
      (''momentum_24h_weight'', FFloat, False),
      (''volatility_weight'', FFloat, False),
      (''minimum_entry_momentum_1h'', FFloat, True),
      (''maximum_entry_momentum_1h'', FFloat, True),
      (''minimum_entry_momentum_4h'', FFloat, True),
      (''maximum_entry_momentum_4h'', FFloat, True),
      (''minimum_entry_momentum_24h'', FFloat, True),
      (''maximum_entry_momentum_24h'', FFloat, True),
      (''maximum_entry_volatility'', FFloat, True),
      (''maximum_entry_volatility_quantile'', FFloat, True),
      (''minimum_hold_momentum_1h'', FFloat, True),
      (''minimum_hold_momentum_24h'', FFloat, True),
      (''maximum_hold_volatility'', FFloat, True),
      (''maximum_holding_period'', FDuration, True),
      (''excluded_base_assets'', FTexts, False),
      (''maximum_market_data_age'', FDuration, True),
      (''extreme_score_penalty_threshold'', FFloat, True),
      (''extreme_score_maximum_penalty'', FFloat, False),
      (''expected_return_calibration_mode'', FText, False),
      (''expected_return_1h_intercept'', FFloat, False),
      (''expected_return_1h_score_slope'', FFloat, False),
      (''expected_return_4h_intercept'', FFloat, False),
      (''expected_return_4h_score_slope'', FFloat, False),
      (''minimum_fee_adjusted_entry_return'', FFloat, False),
      (''minimum_expected_hold_return'', FFloat, False),
      (''minimum_fee_adjusted_replacement_advantage'', FFloat, False),
      (''selection_concentration_lookback'', FDuration, True),
      (''maximum_selection_concentration'', FFloat, True),
      (''selection_concentration_minimum_cohorts'', FInt, False),
      (''rolling_asset_performance_lookback'', FDuration, True),
      (''rolling_asset_minimum_sells'', FInt, False),
      (''maximum_rolling_asset_realized_loss_fraction'', FDecimal, True),
      (''derivatives_overlay_mode'', FText, False),
      (''derivatives_feature_version'', FText, False),
      (''derivatives_maximum_age'', FDuration, False),
      (''derivatives_minimum_funding_rate'', FDecimal, True),
      (''derivatives_minimum_basis_input_rate'', FDecimal, True),
      (''derivatives_minimum_global_long_short_ratio'', FDecimal, True),
      (''crowding_overlay_mode'', FText, False),
      (''crowding_feature_version'', FText, False),
      (''crowding_maximum_age'', FDuration, False),
      (''crowding_maximum_long_score'', FFloat, True),
      (''crowding_maximum_bearish_unwind_score'', FFloat, True),
      (''maximum_entry_market_data_age'', FDuration, True)]"

text \<open>\<^verbatim>\<open>getattr(policy, field.name)\<close> for every field, in their order.\<close>

definition field_values :: "universe_policy \<Rightarrow> policy_value list" where
  "field_values p =
     [PInt (dp_minimum_history_bars p),
      PInt (dp_liquidity_lookback_bars p),
      PInt (dp_maximum_candidates p),
      PInt (dp_maximum_positions p),
      PDecimal (dp_invested_fraction p),
      PDecimal (dp_maximum_asset_weight p),
      PDecimal (dp_minimum_order_notional p),
      PDecimal (dp_minimum_rebalance_fraction p),
      PDecimal (dp_exchange_fee_rate p),
      PDecimal (dp_estimated_slippage_rate p),
      PFloat (dp_entry_score_hurdle p),
      PFloat (dp_hold_score_hurdle p),
      PFloat (dp_exit_score_hurdle p),
      PInt (dp_maximum_hold_rank p),
      PInt (dp_required_entry_confirmations p),
      PDuration (dp_reentry_cooldown p),
      PFloat (dp_minimum_replacement_score_advantage p),
      PDecimal (dp_maximum_daily_turnover_fraction p),
      PDecimal (dp_turnover_sell_weight p),
      PText (dp_turnover_budget_mode p),
      optional_value PDecimal (dp_bullish_daily_turnover_fraction p),
      PFloat (dp_bullish_btc_minimum_momentum_4h p),
      PFloat (dp_bullish_btc_minimum_momentum_24h p),
      PFloat (dp_bullish_market_breadth_minimum p),
      PInt (dp_bullish_market_breadth_minimum_candidates p),
      PDecimal (dp_maximum_daily_fee_fraction p),
      PDecimal (dp_maximum_daily_realized_loss_fraction p),
      PText (dp_scoring_method p),
      PText (dp_score_scale p),
      PFloat (dp_momentum_1h_weight p),
      PFloat (dp_momentum_4h_weight p),
      PFloat (dp_momentum_24h_weight p),
      PFloat (dp_volatility_weight p),
      optional_value PFloat (dp_minimum_entry_momentum_1h p),
      optional_value PFloat (dp_maximum_entry_momentum_1h p),
      optional_value PFloat (dp_minimum_entry_momentum_4h p),
      optional_value PFloat (dp_maximum_entry_momentum_4h p),
      optional_value PFloat (dp_minimum_entry_momentum_24h p),
      optional_value PFloat (dp_maximum_entry_momentum_24h p),
      optional_value PFloat (dp_maximum_entry_volatility p),
      optional_value PFloat (dp_maximum_entry_volatility_quantile p),
      optional_value PFloat (dp_minimum_hold_momentum_1h p),
      optional_value PFloat (dp_minimum_hold_momentum_24h p),
      optional_value PFloat (dp_maximum_hold_volatility p),
      optional_value PDuration (dp_maximum_holding_period p),
      PTexts (dp_excluded_base_assets p),
      optional_value PDuration (dp_maximum_market_data_age p),
      optional_value PFloat (dp_extreme_score_penalty_threshold p),
      PFloat (dp_extreme_score_maximum_penalty p),
      PText (dp_expected_return_calibration_mode p),
      PFloat (dp_expected_return_1h_intercept p),
      PFloat (dp_expected_return_1h_score_slope p),
      PFloat (dp_expected_return_4h_intercept p),
      PFloat (dp_expected_return_4h_score_slope p),
      PFloat (dp_minimum_fee_adjusted_entry_return p),
      PFloat (dp_minimum_expected_hold_return p),
      PFloat (dp_minimum_fee_adjusted_replacement_advantage p),
      optional_value PDuration (dp_selection_concentration_lookback p),
      optional_value PFloat (dp_maximum_selection_concentration p),
      PInt (dp_selection_concentration_minimum_cohorts p),
      optional_value PDuration (dp_rolling_asset_performance_lookback p),
      PInt (dp_rolling_asset_minimum_sells p),
      optional_value PDecimal (dp_maximum_rolling_asset_realized_loss_fraction p),
      PText (dp_derivatives_overlay_mode p),
      PText (dp_derivatives_feature_version p),
      PDuration (dp_derivatives_maximum_age p),
      optional_value PDecimal (dp_derivatives_minimum_funding_rate p),
      optional_value PDecimal (dp_derivatives_minimum_basis_input_rate p),
      optional_value PDecimal (dp_derivatives_minimum_global_long_short_ratio p),
      PText (dp_crowding_overlay_mode p),
      PText (dp_crowding_feature_version p),
      PDuration (dp_crowding_maximum_age p),
      optional_value PFloat (dp_crowding_maximum_long_score p),
      optional_value PFloat (dp_crowding_maximum_bearish_unwind_score p),
      optional_value PDuration (dp_maximum_entry_market_data_age p)]"

text \<open>\<^verbatim>\<open>DynamicUniversePolicy(**values)\<close>.\<close>

definition policy_of_values :: "string \<Rightarrow> policy_value list \<Rightarrow> universe_policy" where
  "policy_of_values version vs =
     \<lparr>dp_strategy_version = version,
      dp_minimum_history_bars = as_int (vs ! 0),
      dp_liquidity_lookback_bars = as_int (vs ! 1),
      dp_maximum_candidates = as_int (vs ! 2),
      dp_maximum_positions = as_int (vs ! 3),
      dp_invested_fraction = as_decimal (vs ! 4),
      dp_maximum_asset_weight = as_decimal (vs ! 5),
      dp_minimum_order_notional = as_decimal (vs ! 6),
      dp_minimum_rebalance_fraction = as_decimal (vs ! 7),
      dp_exchange_fee_rate = as_decimal (vs ! 8),
      dp_estimated_slippage_rate = as_decimal (vs ! 9),
      dp_entry_score_hurdle = as_float (vs ! 10),
      dp_hold_score_hurdle = as_float (vs ! 11),
      dp_exit_score_hurdle = as_float (vs ! 12),
      dp_maximum_hold_rank = as_int (vs ! 13),
      dp_required_entry_confirmations = as_int (vs ! 14),
      dp_reentry_cooldown = as_duration (vs ! 15),
      dp_minimum_replacement_score_advantage = as_float (vs ! 16),
      dp_maximum_daily_turnover_fraction = as_decimal (vs ! 17),
      dp_turnover_sell_weight = as_decimal (vs ! 18),
      dp_turnover_budget_mode = as_text (vs ! 19),
      dp_bullish_daily_turnover_fraction = value_option as_decimal (vs ! 20),
      dp_bullish_btc_minimum_momentum_4h = as_float (vs ! 21),
      dp_bullish_btc_minimum_momentum_24h = as_float (vs ! 22),
      dp_bullish_market_breadth_minimum = as_float (vs ! 23),
      dp_bullish_market_breadth_minimum_candidates = as_int (vs ! 24),
      dp_maximum_daily_fee_fraction = as_decimal (vs ! 25),
      dp_maximum_daily_realized_loss_fraction = as_decimal (vs ! 26),
      dp_scoring_method = as_text (vs ! 27),
      dp_score_scale = as_text (vs ! 28),
      dp_momentum_1h_weight = as_float (vs ! 29),
      dp_momentum_4h_weight = as_float (vs ! 30),
      dp_momentum_24h_weight = as_float (vs ! 31),
      dp_volatility_weight = as_float (vs ! 32),
      dp_minimum_entry_momentum_1h = value_option as_float (vs ! 33),
      dp_maximum_entry_momentum_1h = value_option as_float (vs ! 34),
      dp_minimum_entry_momentum_4h = value_option as_float (vs ! 35),
      dp_maximum_entry_momentum_4h = value_option as_float (vs ! 36),
      dp_minimum_entry_momentum_24h = value_option as_float (vs ! 37),
      dp_maximum_entry_momentum_24h = value_option as_float (vs ! 38),
      dp_maximum_entry_volatility = value_option as_float (vs ! 39),
      dp_maximum_entry_volatility_quantile = value_option as_float (vs ! 40),
      dp_minimum_hold_momentum_1h = value_option as_float (vs ! 41),
      dp_minimum_hold_momentum_24h = value_option as_float (vs ! 42),
      dp_maximum_hold_volatility = value_option as_float (vs ! 43),
      dp_maximum_holding_period = value_option as_duration (vs ! 44),
      dp_excluded_base_assets = as_texts (vs ! 45),
      dp_maximum_market_data_age = value_option as_duration (vs ! 46),
      dp_extreme_score_penalty_threshold = value_option as_float (vs ! 47),
      dp_extreme_score_maximum_penalty = as_float (vs ! 48),
      dp_expected_return_calibration_mode = as_text (vs ! 49),
      dp_expected_return_1h_intercept = as_float (vs ! 50),
      dp_expected_return_1h_score_slope = as_float (vs ! 51),
      dp_expected_return_4h_intercept = as_float (vs ! 52),
      dp_expected_return_4h_score_slope = as_float (vs ! 53),
      dp_minimum_fee_adjusted_entry_return = as_float (vs ! 54),
      dp_minimum_expected_hold_return = as_float (vs ! 55),
      dp_minimum_fee_adjusted_replacement_advantage = as_float (vs ! 56),
      dp_selection_concentration_lookback = value_option as_duration (vs ! 57),
      dp_maximum_selection_concentration = value_option as_float (vs ! 58),
      dp_selection_concentration_minimum_cohorts = as_int (vs ! 59),
      dp_rolling_asset_performance_lookback = value_option as_duration (vs ! 60),
      dp_rolling_asset_minimum_sells = as_int (vs ! 61),
      dp_maximum_rolling_asset_realized_loss_fraction = value_option as_decimal (vs ! 62),
      dp_derivatives_overlay_mode = as_text (vs ! 63),
      dp_derivatives_feature_version = as_text (vs ! 64),
      dp_derivatives_maximum_age = as_duration (vs ! 65),
      dp_derivatives_minimum_funding_rate = value_option as_decimal (vs ! 66),
      dp_derivatives_minimum_basis_input_rate = value_option as_decimal (vs ! 67),
      dp_derivatives_minimum_global_long_short_ratio = value_option as_decimal (vs ! 68),
      dp_crowding_overlay_mode = as_text (vs ! 69),
      dp_crowding_feature_version = as_text (vs ! 70),
      dp_crowding_maximum_age = as_duration (vs ! 71),
      dp_crowding_maximum_long_score = value_option as_float (vs ! 72),
      dp_crowding_maximum_bearish_unwind_score = value_option as_float (vs ! 73),
      dp_maximum_entry_market_data_age = value_option as_duration (vs ! 74)\<rparr>"

definition field_names :: "string list" where
  "field_names = map fst policy_fields"

section \<open>Versions and schemas\<close>

definition digit_chars :: "string \<Rightarrow> bool" where
  "digit_chars s = (s \<noteq> [] \<and> list_all digit_char s)"

definition lower_alnum :: "char \<Rightarrow> bool" where
  "lower_alnum c = (digit_char c \<or> CHR ''a'' \<le> c \<and> c \<le> CHR ''z'')"

fun suffix_words :: "string \<Rightarrow> string list" where
  "suffix_words [] = [[]]"
| "suffix_words (c # cs) =
     (if c = CHR ''.'' \<or> c = CHR ''-'' then [] # suffix_words cs
      else case suffix_words cs of [] \<Rightarrow> [[c]] | w # ws \<Rightarrow> (c # w) # ws)"

text \<open>\<^verbatim>\<open>(?:-[a-z0-9]+(?:[.-][a-z0-9]+)*)?\<close>.\<close>

definition version_suffix :: "string \<Rightarrow> bool" where
  "version_suffix s =
     (case s of
        [] \<Rightarrow> True
      | c # cs \<Rightarrow> c = CHR ''-'' \<and> list_all (\<lambda>w. w \<noteq> [] \<and> list_all lower_alnum w) (suffix_words cs))"

text \<open>\<^verbatim>\<open>[1-9][0-9]*\.[0-9]+\<close> and the suffix, after the fixed prefix.\<close>

definition version_numbers :: "string \<Rightarrow> bool" where
  "version_numbers s =
     (let major = takeWhile digit_char s; rest = dropWhile digit_char s
      in major \<noteq> [] \<and> hd major \<noteq> CHR ''0''
         \<and> (case rest of
              [] \<Rightarrow> False
            | c # cs \<Rightarrow>
                c = CHR ''.'' \<and> takeWhile digit_char cs \<noteq> [] \<and> version_suffix (dropWhile digit_char cs)))"

definition version_prefix :: string where "version_prefix = ''dynamic-intraday-v''"

definition valid_version :: "string \<Rightarrow> bool" where
  "valid_version s =
     (take (length version_prefix) s = version_prefix \<and> version_numbers (drop (length version_prefix) s))"

definition validate_version :: "string \<Rightarrow> unit result" where
  "validate_version s = raise_if (\<not> valid_version s) (ValueError (''invalid strategy version: '' @ s))"

definition legacy_versions :: "string list" where
  "legacy_versions = [''dynamic-intraday-v2.1'', ''dynamic-intraday-v2.2'', ''dynamic-intraday-v2.3'']"

definition schema_v2_versions :: "string list" where
  "schema_v2_versions = [''dynamic-intraday-v2.4'', ''dynamic-intraday-v2.5'']"

definition schema_v3_versions :: "string list" where
  "schema_v3_versions = [''dynamic-intraday-v2.6'']"

definition schema_v4_versions :: "string list" where
  "schema_v4_versions = [''dynamic-intraday-v2.7'']"

definition schema_v1_fields :: "string list" where
  "schema_v1_fields =
     [''minimum_history_bars'', ''liquidity_lookback_bars'', ''maximum_candidates'', ''maximum_positions'',
      ''invested_fraction'', ''maximum_asset_weight'', ''minimum_order_notional'',
      ''minimum_rebalance_fraction'', ''exchange_fee_rate'', ''estimated_slippage_rate'',
      ''entry_score_hurdle'', ''hold_score_hurdle'', ''exit_score_hurdle'', ''maximum_hold_rank'',
      ''required_entry_confirmations'', ''reentry_cooldown'', ''minimum_replacement_score_advantage'',
      ''maximum_daily_turnover_fraction'', ''turnover_sell_weight'', ''turnover_budget_mode'',
      ''bullish_daily_turnover_fraction'', ''bullish_btc_minimum_momentum_4h'',
      ''bullish_btc_minimum_momentum_24h'', ''bullish_market_breadth_minimum'',
      ''bullish_market_breadth_minimum_candidates'', ''maximum_daily_fee_fraction'',
      ''maximum_daily_realized_loss_fraction'', ''scoring_method'', ''score_scale'',
      ''momentum_1h_weight'', ''momentum_4h_weight'', ''momentum_24h_weight'', ''volatility_weight'',
      ''minimum_entry_momentum_1h'', ''maximum_entry_momentum_1h'', ''minimum_entry_momentum_4h'',
      ''maximum_entry_momentum_4h'', ''minimum_entry_momentum_24h'', ''maximum_entry_momentum_24h'',
      ''maximum_entry_volatility'', ''maximum_entry_volatility_quantile'', ''minimum_hold_momentum_1h'',
      ''minimum_hold_momentum_24h'', ''maximum_hold_volatility'', ''maximum_holding_period'',
      ''excluded_base_assets'']"

definition schema_v2_fields :: "string list" where
  "schema_v2_fields = schema_v1_fields @
     [''maximum_market_data_age'', ''extreme_score_penalty_threshold'', ''extreme_score_maximum_penalty'',
      ''expected_return_calibration_mode'', ''expected_return_1h_intercept'',
      ''expected_return_1h_score_slope'', ''expected_return_4h_intercept'',
      ''expected_return_4h_score_slope'', ''minimum_fee_adjusted_entry_return'',
      ''minimum_expected_hold_return'', ''minimum_fee_adjusted_replacement_advantage'',
      ''selection_concentration_lookback'', ''maximum_selection_concentration'',
      ''selection_concentration_minimum_cohorts'', ''rolling_asset_performance_lookback'',
      ''rolling_asset_minimum_sells'', ''maximum_rolling_asset_realized_loss_fraction'',
      ''derivatives_overlay_mode'', ''derivatives_feature_version'', ''derivatives_maximum_age'']"

definition schema_v3_fields :: "string list" where
  "schema_v3_fields = schema_v2_fields @
     [''derivatives_minimum_funding_rate'', ''derivatives_minimum_basis_input_rate'',
      ''derivatives_minimum_global_long_short_ratio'']"

definition schema_v4_fields :: "string list" where
  "schema_v4_fields = schema_v3_fields @
     [''crowding_overlay_mode'', ''crowding_feature_version'', ''crowding_maximum_age'',
      ''crowding_maximum_long_score'', ''crowding_maximum_bearish_unwind_score'']"

definition policy_fields_for_schema :: "int \<Rightarrow> string list result" where
  "policy_fields_for_schema n =
     (if n = 1 then Inr schema_v1_fields
      else if n = 2 then Inr schema_v2_fields
      else if n = 3 then Inr schema_v3_fields
      else if n = 4 then Inr schema_v4_fields
      else if n = 5 then Inr field_names
      else Inl (ValueError ''unsupported strategy schema version''))"

text \<open>The fields outside a schema that do not have the value of \<^verbatim>\<open>DynamicUniversePolicy()\<close>.\<close>

definition changed_fields :: "string list \<Rightarrow> universe_policy \<Rightarrow> string list" where
  "changed_fields schema p =
     map fst (filter (\<lambda>(n, v, d). n \<notin> set schema \<and> v \<noteq> d)
       (zip field_names (zip (field_values p) (field_values policy_v21))))"

definition schema_version_for_policy :: "universe_policy \<Rightarrow> int result" where
  "schema_version_for_policy p =
     (let v = dp_strategy_version p
      in if v \<in> set schema_v2_versions
         then if changed_fields schema_v2_fields p \<noteq> []
              then Inl (ValueError ''published schema-2 strategy cannot configure schema-3 fields: '') else Inr 2
         else if v \<in> set schema_v3_versions
         then if changed_fields schema_v3_fields p \<noteq> []
              then Inl (ValueError ''published schema-3 strategy cannot configure schema-4 fields: '') else Inr 3
         else if v \<in> set schema_v4_versions
         then if changed_fields schema_v4_fields p \<noteq> []
              then Inl (ValueError ''published schema-4 strategy cannot configure schema-5 fields: '') else Inr 4
         else if v \<notin> set legacy_versions then Inr 5
         else if changed_fields schema_v1_fields p \<noteq> []
         then Inl (ValueError ''published legacy strategy cannot configure schema-2 fields: '')
         else Inr 1)"

section \<open>Validation\<close>

fun first_failure :: "(bool \<times> string) list \<Rightarrow> unit result" where
  "first_failure [] = Inr ()"
| "first_failure ((failed, message) # checks) =
     (if failed then Inl (ValueError message) else first_failure checks)"

definition not_positive :: "string \<Rightarrow> int \<Rightarrow> bool \<times> string" where
  "not_positive name n = (n \<le> 0, name @ '' must be greater than zero'')"

definition outside_decimal :: "string \<Rightarrow> decimal \<Rightarrow> bool \<Rightarrow> bool \<Rightarrow> bool \<times> string" where
  "outside_decimal name v lower_open upper_open =
     ((if lower_open then v \<le> 0 else v < 0) \<or> (if upper_open then 1 \<le> v else 1 < v),
      name @ '' must be in '' @ (if lower_open then ''('' else ''['') @ ''0, 1'' @ (if upper_open then '')'' else '']''))"

definition outside_float :: "string \<Rightarrow> pyfloat \<Rightarrow> bool \<times> string" where
  "outside_float name v = (v < 0 \<or> 1 < v, name @ '' must be between 0.0 and 1.0'')"

text \<open>A condition on an optional value, false when there is none.\<close>

definition some_value :: "('a \<Rightarrow> bool) \<Rightarrow> 'a option \<Rightarrow> bool" where
  "some_value f x = (case x of None \<Rightarrow> False | Some v \<Rightarrow> f v)"

definition some_float :: "string \<Rightarrow> pyfloat option \<Rightarrow> bool \<times> string" where
  "some_float name x = (some_value (\<lambda>v. v < 0 \<or> 1 < v) x, name @ '' must be between 0.0 and 1.0'')"

definition asset_char :: "char \<Rightarrow> bool" where
  "asset_char c = (digit_char c \<or> CHR ''A'' \<le> c \<and> c \<le> CHR ''Z'')"

definition valid_asset :: "string \<Rightarrow> bool" where
  "valid_asset s = (2 \<le> length s \<and> length s \<le> 20 \<and> list_all asset_char s)"

text \<open>The checks of \<^verbatim>\<open>_validate_policy\<close>, in its order; the types of the fields hold of every record.\<close>

definition size_checks :: "universe_policy \<Rightarrow> (bool \<times> string) list" where
  "size_checks p =
     [not_positive ''minimum_history_bars'' (dp_minimum_history_bars p),
      not_positive ''liquidity_lookback_bars'' (dp_liquidity_lookback_bars p),
      not_positive ''maximum_candidates'' (dp_maximum_candidates p),
      not_positive ''maximum_positions'' (dp_maximum_positions p),
      not_positive ''maximum_hold_rank'' (dp_maximum_hold_rank p),
      not_positive ''required_entry_confirmations'' (dp_required_entry_confirmations p),
      not_positive ''bullish_market_breadth_minimum_candidates'' (dp_bullish_market_breadth_minimum_candidates p),
      not_positive ''selection_concentration_minimum_cohorts'' (dp_selection_concentration_minimum_cohorts p),
      not_positive ''rolling_asset_minimum_sells'' (dp_rolling_asset_minimum_sells p),
      (dp_minimum_history_bars p < dp_liquidity_lookback_bars p, ''liquidity lookback cannot exceed minimum history''),
      (dp_maximum_candidates p < dp_maximum_positions p, ''maximum_positions cannot exceed maximum_candidates''),
      (dp_maximum_candidates p < dp_maximum_hold_rank p, ''maximum_hold_rank cannot exceed maximum_candidates''),
      (dp_maximum_candidates p < dp_bullish_market_breadth_minimum_candidates p,
       ''bullish breadth minimum candidates cannot exceed maximum_candidates'')]"

definition exposure_checks :: "universe_policy \<Rightarrow> (bool \<times> string) list" where
  "exposure_checks p =
     [outside_decimal ''invested_fraction'' (dp_invested_fraction p) True False,
      outside_decimal ''maximum_asset_weight'' (dp_maximum_asset_weight p) True False,
      (dmul (dp_maximum_asset_weight p) (of_int (dp_maximum_positions p)) < dp_invested_fraction p,
       ''position limits cannot reach invested_fraction''),
      (dp_minimum_order_notional p \<le> 0, ''minimum_order_notional must be greater than zero''),
      outside_decimal ''minimum_rebalance_fraction'' (dp_minimum_rebalance_fraction p) False False,
      outside_decimal ''exchange_fee_rate'' (dp_exchange_fee_rate p) False True,
      outside_decimal ''estimated_slippage_rate'' (dp_estimated_slippage_rate p) False True,
      outside_decimal ''maximum_daily_fee_fraction'' (dp_maximum_daily_fee_fraction p) False True,
      outside_decimal ''maximum_daily_realized_loss_fraction'' (dp_maximum_daily_realized_loss_fraction p) False True,
      (dp_maximum_daily_turnover_fraction p \<le> 0, ''maximum_daily_turnover_fraction must be greater than zero''),
      outside_decimal ''turnover_sell_weight'' (dp_turnover_sell_weight p) False False]"

definition mode_checks :: "universe_policy \<Rightarrow> (bool \<times> string) list" where
  "mode_checks p =
     (let mode = dp_turnover_budget_mode p; bullish = dp_bullish_daily_turnover_fraction p
      in [(mode \<notin> {''FIXED'', ''BULLISH_REGIME''}, ''unsupported turnover_budget_mode''),
          (mode = ''FIXED'' \<and> bullish \<noteq> None, ''FIXED turnover mode cannot define a bullish turnover limit''),
          (mode \<noteq> ''FIXED'' \<and> bullish = None, ''BULLISH_REGIME mode requires a bullish turnover limit''),
          (mode \<noteq> ''FIXED'' \<and> some_value (\<lambda>b. b < dp_maximum_daily_turnover_fraction p) bullish,
           ''bullish turnover limit cannot be below the base limit''),
          outside_float ''bullish_market_breadth_minimum'' (dp_bullish_market_breadth_minimum p),
          (dp_scoring_method p \<notin> {''RAW_MOMENTUM'', ''CALM_PULLBACK_RANK''}, ''unsupported scoring_method''),
          (dp_score_scale p \<notin> {''EXPECTED_RETURN'', ''UNIT_INTERVAL''}, ''unsupported score_scale''),
          (dp_expected_return_calibration_mode p \<notin> {''DISABLED'', ''SCORE_LINEAR''},
           ''unsupported expected_return_calibration_mode''),
          (dp_derivatives_overlay_mode p
             \<notin> {''DISABLED'', ''SHADOW'', ''ENTRY_GATE'', ''LONG_SHORT_GATE'', ''SOFT_PENALTY''},
           ''unsupported derivatives_overlay_mode''),
          (dp_crowding_overlay_mode p \<notin> {''DISABLED'', ''SHADOW'', ''ENTRY_GATE''},
           ''unsupported crowding_overlay_mode'')])"

definition gate_checks :: "universe_policy \<Rightarrow> (bool \<times> string) list" where
  "gate_checks p =
     (let funding = dp_derivatives_minimum_funding_rate p;
          basis = dp_derivatives_minimum_basis_input_rate p;
          ratio = dp_derivatives_minimum_global_long_short_ratio p;
          long = dp_crowding_maximum_long_score p;
          bearish = dp_crowding_maximum_bearish_unwind_score p;
          gated = dp_derivatives_overlay_mode p \<in> {''ENTRY_GATE'', ''LONG_SHORT_GATE'', ''SOFT_PENALTY''};
          crowding = (dp_crowding_overlay_mode p = ''ENTRY_GATE'')
      in [(py_strip (dp_derivatives_feature_version p) = [], ''derivatives_feature_version must not be blank''),
          (gated \<and> (funding = None \<or> basis = None \<or> ratio = None),
           ''ENTRY_GATE requires every derivatives regime threshold''),
          (gated \<and> some_value (\<lambda>r. r \<le> 0) ratio, ''derivatives_minimum_global_long_short_ratio must be positive''),
          (\<not> gated \<and> (funding \<noteq> None \<or> basis \<noteq> None \<or> ratio \<noteq> None),
           ''derivatives regime thresholds require derivatives_overlay_mode ENTRY_GATE''),
          (py_strip (dp_crowding_feature_version p) = [], ''crowding_feature_version must not be blank''),
          (crowding \<and> (long = None \<or> bearish = None), ''crowding ENTRY_GATE requires both risk thresholds''),
          (crowding \<and> some_value (\<lambda>v. v < 0 \<or> 1 < v) long,
           ''crowding_maximum_long_score must be between 0.0 and 1.0''),
          (crowding \<and> some_value (\<lambda>v. v < 0 \<or> 1 < v) bearish,
           ''crowding_maximum_bearish_unwind_score must be between 0.0 and 1.0''),
          (\<not> crowding \<and> (long \<noteq> None \<or> bearish \<noteq> None), ''crowding thresholds require crowding ENTRY_GATE'')])"

definition score_checks :: "universe_policy \<Rightarrow> (bool \<times> string) list" where
  "score_checks p =
     (if dp_score_scale p = ''UNIT_INTERVAL''
      then [outside_float ''entry_score_hurdle'' (dp_entry_score_hurdle p),
            outside_float ''hold_score_hurdle'' (dp_hold_score_hurdle p),
            outside_float ''exit_score_hurdle'' (dp_exit_score_hurdle p),
            outside_float ''minimum_replacement_score_advantage'' (dp_minimum_replacement_score_advantage p)]
      else [])
     @ (let threshold = dp_extreme_score_penalty_threshold p; penalty = dp_extreme_score_maximum_penalty p
        in [(threshold = None \<and> penalty \<noteq> 0, ''extreme_score_maximum_penalty requires an extreme score threshold''),
            (some_value (\<lambda>t. \<not> (0 \<le> t \<and> t < 1)) threshold, ''extreme_score_penalty_threshold must be in [0, 1)''),
            (threshold \<noteq> None \<and> \<not> (0 < penalty \<and> penalty \<le> 1),
             ''extreme_score_maximum_penalty must be in (0, 1] when enabled'')])
     @ (let disabled = (dp_expected_return_calibration_mode p = ''DISABLED'')
        in [(disabled \<and> (dp_expected_return_1h_intercept p \<noteq> 0 \<or> dp_expected_return_1h_score_slope p \<noteq> 0
                \<or> dp_expected_return_4h_intercept p \<noteq> 0 \<or> dp_expected_return_4h_score_slope p \<noteq> 0),
             ''disabled expected-return calibration requires zero coefficients''),
            (\<not> disabled \<and> (dp_expected_return_1h_score_slope p \<le> 0 \<or> dp_expected_return_4h_score_slope p \<le> 0),
             ''SCORE_LINEAR expected-return slopes must be positive'')])
     @ [(dp_minimum_fee_adjusted_entry_return p < 0, ''minimum_fee_adjusted_entry_return cannot be negative''),
        (dp_minimum_expected_hold_return p < 0, ''minimum_expected_hold_return cannot be negative''),
        (dp_minimum_fee_adjusted_replacement_advantage p < 0,
         ''minimum_fee_adjusted_replacement_advantage cannot be negative'')]"

definition history_checks :: "universe_policy \<Rightarrow> (bool \<times> string) list" where
  "history_checks p =
     (let concentration = dp_maximum_selection_concentration p;
          loss = dp_maximum_rolling_asset_realized_loss_fraction p
      in [((dp_selection_concentration_lookback p \<noteq> None) \<noteq> (concentration \<noteq> None),
           ''selection concentration lookback and maximum must be configured together''),
          (some_value (\<lambda>c. \<not> (0 < c \<and> c \<le> 1)) concentration, ''maximum_selection_concentration must be in (0, 1]''),
          ((dp_rolling_asset_performance_lookback p \<noteq> None) \<noteq> (loss \<noteq> None),
           ''rolling asset lookback and realized-loss fraction must be configured together''),
          (some_value (\<lambda>l. l \<le> 0 \<or> 1 \<le> l) loss, ''maximum_rolling_asset_realized_loss_fraction must be in (0, 1)''),
          (some_value (\<lambda>v. v < 0) (dp_maximum_entry_volatility p), ''maximum_entry_volatility cannot be negative''),
          (some_value (\<lambda>v. v < 0) (dp_maximum_hold_volatility p), ''maximum_hold_volatility cannot be negative''),
          some_float ''maximum_entry_volatility_quantile'' (dp_maximum_entry_volatility_quantile p)])"

definition crossed :: "pyfloat option \<Rightarrow> pyfloat option \<Rightarrow> bool" where
  "crossed minimum maximum = some_value (\<lambda>a. some_value (\<lambda>b. b < a) maximum) minimum"

definition duration_checks :: "universe_policy \<Rightarrow> (bool \<times> string) list" where
  "duration_checks p =
     [(crossed (dp_minimum_entry_momentum_1h p) (dp_maximum_entry_momentum_1h p),
       ''minimum_entry_momentum_1h cannot exceed maximum_entry_momentum_1h''),
      (crossed (dp_minimum_entry_momentum_4h p) (dp_maximum_entry_momentum_4h p),
       ''minimum_entry_momentum_4h cannot exceed maximum_entry_momentum_4h''),
      (crossed (dp_minimum_entry_momentum_24h p) (dp_maximum_entry_momentum_24h p),
       ''minimum_entry_momentum_24h cannot exceed maximum_entry_momentum_24h''),
      not_positive ''reentry_cooldown'' (dp_reentry_cooldown p),
      (some_value (\<lambda>t. t \<le> 0) (dp_maximum_holding_period p), ''maximum_holding_period must be greater than zero''),
      (some_value (\<lambda>t. t \<le> 0) (dp_maximum_market_data_age p), ''maximum_market_data_age must be greater than zero''),
      (some_value (\<lambda>t. t \<le> 0) (dp_maximum_entry_market_data_age p),
       ''maximum_entry_market_data_age must be greater than zero''),
      (some_value (\<lambda>t. t \<le> 0) (dp_selection_concentration_lookback p),
       ''selection_concentration_lookback must be greater than zero''),
      (some_value (\<lambda>t. t \<le> 0) (dp_rolling_asset_performance_lookback p),
       ''rolling_asset_performance_lookback must be greater than zero''),
      not_positive ''derivatives_maximum_age'' (dp_derivatives_maximum_age p),
      not_positive ''crowding_maximum_age'' (dp_crowding_maximum_age p),
      (\<not> distinct (dp_excluded_base_assets p), ''excluded_base_assets must not contain duplicates''),
      (\<not> list_all valid_asset (dp_excluded_base_assets p), ''invalid excluded_base_assets: '')]"

definition policy_checks :: "universe_policy \<Rightarrow> (bool \<times> string) list" where
  "policy_checks p =
     size_checks p @ exposure_checks p @ mode_checks p @ gate_checks p @ score_checks p @ history_checks p
     @ duration_checks p"

definition validate_policy :: "universe_policy \<Rightarrow> unit result" where
  "validate_policy p = first_failure (policy_checks p)"

section \<open>Writing a profile\<close>

definition replace_by :: "char \<Rightarrow> string \<Rightarrow> string \<Rightarrow> string" where
  "replace_by c r s = concat (map (\<lambda>x. if x = c then r else [x]) s)"

definition backslash :: char where "backslash = CHR 92"

definition quote_mark :: char where "quote_mark = CHR 34"

text \<open>\<^verbatim>\<open>_toml_string\<close>: the replacements one after the other.\<close>

definition toml_escape :: "string \<Rightarrow> string" where
  "toml_escape s =
     replace_by (CHR 13) [backslash, CHR ''r''] (replace_by (CHR 12) [backslash, CHR ''f'']
       (replace_by (CHR 10) [backslash, CHR ''n''] (replace_by (CHR 9) [backslash, CHR ''t'']
         (replace_by (CHR 8) [backslash, CHR ''b''] (replace_by quote_mark [backslash, quote_mark]
           (replace_by backslash [backslash, backslash] s))))))"

definition control_char :: "char \<Rightarrow> bool" where
  "control_char c = (let n = (of_char c :: nat) in n < 32 \<or> n = 127)"

definition toml_string :: "string \<Rightarrow> string result" where
  "toml_string s =
     (if list_ex control_char (toml_escape s)
      then Inl (ValueError ''strategy strings cannot contain control characters'')
      else Inr (quote_mark # toml_escape s @ [quote_mark]))"

text \<open>The value the text of a string denotes.\<close>

definition encode_text :: "string \<Rightarrow> toml result" where
  "encode_text s = bind_result (toml_string s) (\<lambda>_. Inr (TText s))"

fun encode_value :: "string \<Rightarrow> policy_value \<Rightarrow> toml result" where
  "encode_value name (PDecimal d) = Inr (TDec d)"
| "encode_value name (PDuration t) =
     (if t mod 1000000 \<noteq> 0 then Inl (ValueError (name @ '' must use whole-second precision''))
      else Inr (TInt (t div 1000000)))"
| "encode_value name (PTexts ss) = bind_result (map_result encode_text ss) (\<lambda>ts. Inr (TArray ts))"
| "encode_value name (PInt n) = Inr (TInt n)"
| "encode_value name (PFloat r) = Inr (TFloat r)"
| "encode_value name (PText s) = encode_text s"
| "encode_value name PNone = Inl (ValueError (''unsupported policy value for '' @ name))"

text \<open>The fields of a schema, with their values.\<close>

definition schema_values :: "string list \<Rightarrow> universe_policy \<Rightarrow> (string \<times> policy_value) list" where
  "schema_values schema p = filter (\<lambda>(n, v). n \<in> set schema) (zip field_names (field_values p))"

definition serialize_strategy_policy :: "universe_policy \<Rightarrow> (string \<times> toml) list result" where
  "serialize_strategy_policy p =
     bind_result (validate_version (dp_strategy_version p)) (\<lambda>_.
     bind_result (validate_policy p) (\<lambda>_.
     bind_result (schema_version_for_policy p) (\<lambda>schema_version.
     bind_result (policy_fields_for_schema schema_version) (\<lambda>schema.
     let values = schema_values schema p;
         null_fields = map fst (filter (\<lambda>(n, v). v = PNone) values);
         configured = filter (\<lambda>(n, v). v \<noteq> PNone) values
     in bind_result (map_result (\<lambda>(n, v). bind_result (encode_value n v) (\<lambda>t. Inr (n, t))) configured) (\<lambda>table.
        Inr [(''schema_version'', TInt schema_version), (''strategy_version'', TText (dp_strategy_version p)),
             (''null_fields'', TArray (map TText null_fields)), (''policy'', TTable table)])))))"

definition strategy_policy_config_values :: "universe_policy \<Rightarrow> (string \<times> policy_value) list result" where
  "strategy_policy_config_values p =
     bind_result (validate_version (dp_strategy_version p)) (\<lambda>_.
     bind_result (validate_policy p) (\<lambda>_.
     bind_result (schema_version_for_policy p) (\<lambda>schema_version.
     bind_result (policy_fields_for_schema schema_version) (\<lambda>schema.
       Inr ((''strategy_version'', PText (dp_strategy_version p)) # schema_values schema p)))))"

section \<open>Reading a profile\<close>

fun toml_texts :: "toml \<Rightarrow> string list option" where
  "toml_texts (TArray ts) =
     (if list_all (\<lambda>t. case t of TText _ \<Rightarrow> True | _ \<Rightarrow> False) ts
      then Some (map (\<lambda>t. case t of TText s \<Rightarrow> s | _ \<Rightarrow> []) ts) else None)"
| "toml_texts _ = None"

text \<open>\<^verbatim>\<open>timedelta(seconds=n)\<close> has at most 999999999 days.\<close>

definition duration_of_seconds :: "int \<Rightarrow> timedelta result" where
  "duration_of_seconds n =
     (if n < - 86399999913600 \<or> 86399999999999 < n then Inl OverflowError else Inr (seconds n))"

fun decode_value :: "string \<Rightarrow> toml \<Rightarrow> field_kind \<Rightarrow> policy_value result" where
  "decode_value name raw FDecimal =
     (case raw of
        TDec d \<Rightarrow> Inr (PDecimal d)
      | TText s \<Rightarrow>
          (case decimal_of_text s of
             Inl _ \<Rightarrow> Inl (ValueError (name @ '' is not a valid decimal''))
           | Inr d \<Rightarrow> Inr (PDecimal d))
      | _ \<Rightarrow> Inl (ValueError (name @ '' must be a quoted decimal string'')))"
| "decode_value name raw FDuration =
     (case raw of
        TInt n \<Rightarrow> bind_result (duration_of_seconds n) (\<lambda>t. Inr (PDuration t))
      | _ \<Rightarrow> Inl (ValueError (name @ '' must be an integer number of seconds'')))"
| "decode_value name raw FTexts =
     (case toml_texts raw of
        Some ss \<Rightarrow> Inr (PTexts ss)
      | None \<Rightarrow> Inl (ValueError (name @ '' must be an array of strings'')))"
| "decode_value name raw FInt =
     (case raw of TInt n \<Rightarrow> Inr (PInt n) | _ \<Rightarrow> Inl (ValueError (name @ '' must be an integer'')))"
| "decode_value name raw FFloat =
     (case raw of TFloat r \<Rightarrow> Inr (PFloat r) | _ \<Rightarrow> Inl (ValueError (name @ '' must be a finite TOML float'')))"
| "decode_value name raw FText =
     (case raw of TText s \<Rightarrow> Inr (PText s) | _ \<Rightarrow> Inl (ValueError (name @ '' must be a string'')))"

definition root_fields :: "string list" where
  "root_fields = [''schema_version'', ''strategy_version'', ''null_fields'', ''policy'']"

definition field_kind_of :: "string \<Rightarrow> field_kind" where
  "field_kind_of name = (case map_of policy_fields name of Some (k, _) \<Rightarrow> k | None \<Rightarrow> FText)"

definition optional_fields :: "string list" where
  "optional_fields = map fst (filter (\<lambda>(n, k, opt). opt) policy_fields)"

text \<open>Which versions may use which schema.\<close>

definition check_schema :: "int \<Rightarrow> string \<Rightarrow> unit result" where
  "check_schema n v = first_failure
     [(n = 1 \<and> v \<notin> set legacy_versions, ''schema_version 1 is reserved for published legacy strategies''),
      (n = 2 \<and> v \<notin> set schema_v2_versions, ''schema_version 2 is reserved for published V2.4/V2.5 strategies''),
      (n = 3 \<and> v \<notin> set schema_v3_versions, ''schema_version 3 is reserved for published V2.6 strategy''),
      (n = 4 \<and> v \<notin> set schema_v4_versions, ''schema_version 4 is reserved for published V2.7 strategy''),
      (n = 5 \<and> v \<in> set legacy_versions \<union> set schema_v2_versions \<union> set schema_v3_versions \<union> set schema_v4_versions,
       ''published older strategies must retain their original schema'')]"

text \<open>The names configured and null against those of the schema.\<close>

definition check_names :: "string list \<Rightarrow> string list \<Rightarrow> string list \<Rightarrow> unit result" where
  "check_names supplied nulls expected = first_failure
     [(set supplied \<inter> set nulls \<noteq> {}, ''fields cannot be both configured and null: ''),
      (set supplied \<union> set nulls - set expected \<noteq> {}, ''unknown policy fields: ''),
      (set expected - set supplied - set nulls \<noteq> {}, ''missing policy fields: ''),
      (set nulls - set optional_fields \<noteq> {}, ''non-optional fields cannot be null: '')]"

definition document_values ::
    "string list \<Rightarrow> (string \<times> policy_value) list \<Rightarrow> policy_value list" where
  "document_values nulls decoded =
     map (\<lambda>(n, d). case map_of decoded n of Some v \<Rightarrow> v | None \<Rightarrow> if n \<in> set nulls then PNone else d)
       (zip field_names (field_values policy_v21))"

definition policy_of_table ::
    "int \<Rightarrow> string \<Rightarrow> string list \<Rightarrow> (string \<times> toml) list \<Rightarrow> universe_policy result" where
  "policy_of_table schema_version strategy_version nulls table =
     bind_result (policy_fields_for_schema schema_version) (\<lambda>expected.
     bind_result (check_names (map fst table) nulls expected) (\<lambda>_.
     bind_result (map_result (\<lambda>(n, raw). bind_result (decode_value n raw (field_kind_of n)) (\<lambda>v. Inr (n, v))) table) (\<lambda>decoded.
     let p = policy_of_values strategy_version (document_values nulls decoded)
     in bind_result (validate_policy p) (\<lambda>_. Inr p))))"

definition check_root :: "(string \<times> toml) list \<Rightarrow> unit result" where
  "check_root document = first_failure
     [(set (map fst document) - set root_fields \<noteq> {}, ''unknown top-level fields: ''),
      (set root_fields - set (map fst document) \<noteq> {}, ''missing top-level fields: '')]"

definition read_schema_version :: "toml \<Rightarrow> int result" where
  "read_schema_version v =
     (case v of
        TInt n \<Rightarrow> if n \<in> {1, 2, 3, 4, 5} then Inr n else Inl (ValueError ''schema_version must be one of: 1, 2, 3, 4, 5'')
      | _ \<Rightarrow> Inl (ValueError ''schema_version must be one of: 1, 2, 3, 4, 5''))"

definition read_null_fields :: "toml \<Rightarrow> string list result" where
  "read_null_fields v =
     (case toml_texts v of
        None \<Rightarrow> Inl (ValueError ''null_fields must be an array of field-name strings'')
      | Some names \<Rightarrow>
          if \<not> distinct names then Inl (ValueError ''null_fields must not contain duplicates'') else Inr names)"

definition toml_field :: "string \<Rightarrow> (string \<times> toml) list \<Rightarrow> toml result" where
  "toml_field k document = (case map_of document k of None \<Rightarrow> Inl (KeyError k) | Some v \<Rightarrow> Inr v)"

definition policy_from_document :: "(string \<times> toml) list \<Rightarrow> string option \<Rightarrow> universe_policy result" where
  "policy_from_document document expected_version =
     bind_result (check_root document) (\<lambda>_.
     bind_result (bind_result (toml_field ''schema_version'' document) read_schema_version) (\<lambda>schema_version.
     bind_result (bind_result (toml_field ''strategy_version'' document) (\<lambda>v.
        case v of TText s \<Rightarrow> Inr s | _ \<Rightarrow> Inl (ValueError ''strategy_version must be a string''))) (\<lambda>version.
     bind_result (validate_version version) (\<lambda>_.
     bind_result (case expected_version of
          None \<Rightarrow> Inr ()
        | Some e \<Rightarrow> bind_result (validate_version e) (\<lambda>_.
            raise_if (version \<noteq> e) (ValueError ''strategy_version identity mismatch: ''))) (\<lambda>_.
     bind_result (check_schema schema_version version) (\<lambda>_.
     bind_result (bind_result (toml_field ''null_fields'' document) read_null_fields) (\<lambda>nulls.
     bind_result (toml_field ''policy'' document) (\<lambda>policy.
       case policy of
         TTable table \<Rightarrow> policy_of_table schema_version version nulls table
       | _ \<Rightarrow> Inl (ValueError ''policy must be a TOML table'')))))))))"

section \<open>The files of the registry\<close>

text \<open>A file is the canonical text of a document, another text that denotes one, or no TOML at all.\<close>

datatype file_text = Canonical "(string \<times> toml) list" | Handwritten "(string \<times> toml) list" | Not_Toml

datatype registry_entry = Regular_File nat file_text | Symbolic_Link | Other_Entry

type_synonym registry_directory = "(string \<times> registry_entry) list"

datatype registry_root = Root_Missing | Root_Not_Directory | Root_Directory registry_directory

definition toml_suffix :: string where "toml_suffix = ''.toml''"

text \<open>\<^verbatim>\<open>path.stem\<close> of a name whose \<^verbatim>\<open>path.suffix\<close> is \<^verbatim>\<open>.toml\<close>.\<close>

definition toml_stem :: "string \<Rightarrow> string option" where
  "toml_stem name =
     (let n = length name - length toml_suffix
      in if length toml_suffix < length name \<and> drop n name = toml_suffix then Some (take n name) else None)"

definition file_name :: "string \<Rightarrow> string" where "file_name version = version @ toml_suffix"

definition registry_versions :: "registry_root \<Rightarrow> string list result" where
  "registry_versions place =
     (case place of
        Root_Missing \<Rightarrow> Inr []
      | Root_Not_Directory \<Rightarrow> Inl (ValueError ''strategy registry is not a directory: '')
      | Root_Directory entries \<Rightarrow>
          bind_result (map_result (\<lambda>(name, entry).
             case toml_stem name of
               None \<Rightarrow> Inr []
             | Some version \<Rightarrow>
                 bind_result (case entry of
                     Regular_File _ _ \<Rightarrow> Inr ()
                   | _ \<Rightarrow> Inl (ValueError ''strategy configuration must be a regular file: '')) (\<lambda>_.
                 bind_result (validate_version version) (\<lambda>_. Inr [version]))) entries)
            (\<lambda>versions. Inr (sort (concat versions))))"

definition maximum_config_bytes :: nat where "maximum_config_bytes = 128 * 1024"

definition load_strategy_policy ::
    "registry_directory \<Rightarrow> string \<Rightarrow> string option \<Rightarrow> universe_policy result" where
  "load_strategy_policy entries name expected_version =
     (case toml_stem name of
        None \<Rightarrow> Inl (ValueError ''strategy configuration must use the .toml suffix'')
      | Some version \<Rightarrow>
          (case map_of entries name of
             Some Symbolic_Link \<Rightarrow> Inl (ValueError ''symbolic-link strategy configurations are not allowed'')
           | Some (Regular_File bytes text) \<Rightarrow>
               if maximum_config_bytes < bytes then Inl (ValueError ''strategy configuration exceeds the safe size limit'')
               else
                 bind_result (case text of
                     Canonical d \<Rightarrow> Inr d | Handwritten d \<Rightarrow> Inr d
                   | Not_Toml \<Rightarrow> Inl (ValueError ''invalid TOML strategy configuration: '')) (\<lambda>document.
                 bind_result (validate_version version) (\<lambda>_.
                 bind_result (raise_if (expected_version \<noteq> None \<and> expected_version \<noteq> Some version)
                                (ValueError ''strategy filename identity mismatch: '')) (\<lambda>_.
                 policy_from_document document (Some version))))
           | _ \<Rightarrow> Inl (ValueError ''strategy configuration not found: '')))"

text \<open>A version has no path separator, so the file is inside the root.\<close>

definition registry_load :: "registry_directory \<Rightarrow> string \<Rightarrow> universe_policy result" where
  "registry_load entries version =
     bind_result (validate_version version) (\<lambda>_.
       case map_of entries (file_name version) of
         Some Symbolic_Link \<Rightarrow> Inl (ValueError ''symbolic-link strategy configurations are not allowed'')
       | None \<Rightarrow> Inl (ValueError ''strategy configuration not found: '')
       | Some _ \<Rightarrow> load_strategy_policy entries (file_name version) (Some version))"

definition same_snapshot :: "(string \<times> toml) list \<Rightarrow> registry_entry \<Rightarrow> bool" where
  "same_snapshot document entry =
     (case entry of Regular_File _ (Canonical d) \<Rightarrow> d = document | _ \<Rightarrow> False)"

text \<open>
  \<^verbatim>\<open>os.link\<close> of the temporary file: the name is created with the whole text or not at all.
\<close>

definition link_snapshot ::
    "string \<Rightarrow> nat \<Rightarrow> (string \<times> toml) list \<Rightarrow> registry_directory \<Rightarrow> registry_directory \<times> unit result" where
  "link_snapshot name bytes document entries =
     (case map_of entries name of
        None \<Rightarrow> ((name, Regular_File bytes (Canonical document)) # entries, Inr ())
      | Some entry \<Rightarrow>
          (entries, if same_snapshot document entry then Inr ()
                    else Inl (ValueError ''strategy snapshot already exists: '')))"

text \<open>
  \<^verbatim>\<open>write_policy\<close>: \<open>before\<close> is the directory when the destination is tested, \<open>entries\<close> when the
  temporary file is linked; other writers may publish in between.
\<close>

definition write_policy ::
    "string \<Rightarrow> nat \<Rightarrow> universe_policy \<Rightarrow> registry_directory \<Rightarrow> registry_directory
     \<Rightarrow> registry_directory \<times> unit result" where
  "write_policy name bytes p before entries =
     (case toml_stem name of
        None \<Rightarrow> (entries, Inl (ValueError ''strategy configuration must use the .toml suffix''))
      | Some version \<Rightarrow>
          if version \<noteq> dp_strategy_version p
          then (entries, Inl (ValueError ''strategy filename identity mismatch: ''))
          else if map_of before name = Some Symbolic_Link
          then (entries, Inl (ValueError ''symbolic-link strategy configurations are not allowed''))
          else
            case serialize_strategy_policy p of
              Inl e \<Rightarrow> (entries, Inl e)
            | Inr document \<Rightarrow>
                (case map_of before name of
                   Some entry \<Rightarrow>
                     (entries, if same_snapshot document entry then Inr ()
                               else Inl (ValueError ''strategy snapshot already exists: ''))
                 | None \<Rightarrow> link_snapshot name bytes document entries))"

end
