(* ===== verification/Observation.thy ===== *)
theory Observation
  imports Rebalance Backtest Registry Signals Actions
begin

text \<open>
  The forward observation of a frozen strategy (\<^verbatim>\<open>observation/domain.py\<close>, \<^verbatim>\<open>observation/repository.py\<close>):
  experiments, the decision snapshots of every candidate, the market context of a decision, the
  counterfactual selections and the outcomes, each in a table of its own.

  A table is the list of its rows in the order of insertion; a row holds the values, which are read
  back as they were written.  A transaction that raises leaves the tables as they were.  Rows that are
  equal in the columns of an \<^verbatim>\<open>ORDER BY\<close> keep their order.
\<close>

section \<open>Domain\<close>

datatype observation_status = Obs_Created | Obs_Running | Obs_Completed | Obs_Interrupted | Obs_Invalidated

datatype decision_action =
  ENTRY | HOLD | EXIT | REPLACE | REJECTED_ENTRY | REJECTED_REPLACEMENT | NO_ACTION

datatype outcome_status = Outcome_Completed | MISSING_DATA

fun action_value :: "decision_action \<Rightarrow> string" where
  "action_value ENTRY = ''ENTRY''"
| "action_value HOLD = ''HOLD''"
| "action_value EXIT = ''EXIT''"
| "action_value REPLACE = ''REPLACE''"
| "action_value REJECTED_ENTRY = ''REJECTED_ENTRY''"
| "action_value REJECTED_REPLACEMENT = ''REJECTED_REPLACEMENT''"
| "action_value NO_ACTION = ''NO_ACTION''"

record observation_experiment =
  oe_experiment_id :: string
  oe_portfolio_id :: string
  oe_strategy_version :: string
  oe_config_hash :: string
  oe_started_at :: utc
  oe_planned_end_at :: utc
  oe_status :: observation_status
  oe_starting_equity :: pyfloat
  oe_completed_at :: "utc option"
  oe_interruption_reason :: "string option"

definition check_observation :: "observation_experiment \<Rightarrow> observation_experiment result" where
  "check_observation e =
     (if oe_planned_end_at e \<le> oe_started_at e
      then Inl (ValueError ''planned end must follow experiment start'') else Inr e)"

record decision_snapshot =
  dn_snapshot_id :: string
  dn_experiment_id :: string
  dn_decision_id :: string
  dn_strategy_version :: string
  dn_config_hash :: string
  dn_decision_time :: utc
  dn_asset :: string
  dn_market :: string
  dn_action :: decision_action
  dn_reason :: string
  dn_score :: "pyfloat option"
  dn_rank :: "int option"
  dn_eligible :: bool
  dn_selected :: bool
  dn_current_position :: pyfloat
  dn_target_position :: pyfloat
  dn_portfolio_cash :: pyfloat
  dn_portfolio_equity :: pyfloat
  dn_current_exposure :: pyfloat
  dn_target_exposure :: pyfloat
  dn_reference_price :: "pyfloat option"
  dn_liquidity :: "pyfloat option"
  dn_hour_of_day :: int
  dn_day_of_week :: int
  dn_momentum_1h :: "pyfloat option"
  dn_momentum_4h :: "pyfloat option"
  dn_momentum_24h :: "pyfloat option"
  dn_volatility :: "pyfloat option"
  dn_reference_at :: "utc option"
  dn_selected_rank :: "int option"
  dn_raw_score :: "pyfloat option"
  dn_score_penalty :: "pyfloat option"
  dn_expected_relative_return_1h :: "pyfloat option"
  dn_expected_relative_return_4h :: "pyfloat option"
  dn_fee_adjusted_expected_return :: "pyfloat option"
  dn_candidate_reasons_json :: json

record decision_selection_variant =
  dv_snapshot_id :: string
  dv_variant_id :: string
  dv_selected :: bool
  dv_target_position :: pyfloat
  dv_reason :: string

definition check_variant :: "decision_selection_variant \<Rightarrow> decision_selection_variant result" where
  "check_variant v =
     (if py_strip (dv_snapshot_id v) = [] \<or> py_strip (dv_variant_id v) = [] \<or> py_strip (dv_reason v) = []
      then Inl (ValueError ''selection variant identifiers and reason must be non-empty'')
      else if \<not> (0 \<le> dv_target_position v \<and> dv_target_position v \<le> 1)
      then Inl (ValueError ''selection variant target position must be finite and within [0, 1]'')
      else Inr v)"

record decision_market_context =
  mx_experiment_id :: string
  mx_decision_id :: string
  mx_strategy_version :: string
  mx_config_hash :: string
  mx_decision_time :: utc
  mx_context_json :: json

record decision_outcome =
  do_snapshot_id :: string
  do_horizon_minutes :: int
  do_target_at :: utc
  do_evaluated_at :: utc
  do_status :: outcome_status
  do_forward_return :: "pyfloat option"
  do_mfe :: "pyfloat option"
  do_mae :: "pyfloat option"
  do_missing_reason :: "string option"

definition horizon_hours :: "decision_outcome \<Rightarrow> pyfloat" where
  "horizon_hours v = fquot (of_int (do_horizon_minutes v)) 60"

section \<open>The tables\<close>

record observation_store =
  ot_experiments :: "observation_experiment list"
  ot_snapshots :: "decision_snapshot list"
  ot_contexts :: "decision_market_context list"
  ot_variants :: "decision_selection_variant list"
  ot_outcomes :: "decision_outcome list"

definition empty_observations :: observation_store where
  "empty_observations =
     \<lparr>ot_experiments = [], ot_snapshots = [], ot_contexts = [], ot_variants = [], ot_outcomes = []\<rparr>"

definition find_observation :: "string \<Rightarrow> observation_store \<Rightarrow> observation_experiment option" where
  "find_observation i db = find (\<lambda>e. oe_experiment_id e = i) (ot_experiments db)"

definition find_decision :: "string \<Rightarrow> observation_store \<Rightarrow> decision_snapshot option" where
  "find_decision i db = find (\<lambda>s. dn_snapshot_id s = i) (ot_snapshots db)"

section \<open>Writing\<close>

text \<open>\<^verbatim>\<open>ON CONFLICT(experiment_id) DO UPDATE\<close>: only the status, the completion and the reason change.\<close>

definition save_observation :: "observation_experiment \<Rightarrow> observation_store \<Rightarrow> observation_store" where
  "save_observation v db =
     db\<lparr>ot_experiments :=
          (if find_observation (oe_experiment_id v) db = None then ot_experiments db @ [v]
           else map (\<lambda>e. if oe_experiment_id e = oe_experiment_id v
                  then e\<lparr>oe_status := oe_status v, oe_completed_at := oe_completed_at v,
                         oe_interruption_reason := oe_interruption_reason v\<rparr>
                  else e) (ot_experiments db))\<rparr>"

text \<open>
  \<^verbatim>\<open>INSERT OR IGNORE\<close> counts the rows it inserts; a row that breaks a foreign key is not ignored.  A
  snapshot has a primary key and is unique in its decision and asset.
\<close>

definition snapshot_conflict :: "decision_snapshot \<Rightarrow> observation_store \<Rightarrow> bool" where
  "snapshot_conflict v db =
     list_ex (\<lambda>s. dn_snapshot_id s = dn_snapshot_id v
        \<or> dn_experiment_id s = dn_experiment_id v \<and> dn_decision_id s = dn_decision_id v \<and> dn_asset s = dn_asset v)
       (ot_snapshots db)"

fun insert_snapshots :: "decision_snapshot list \<Rightarrow> observation_store \<Rightarrow> (observation_store \<times> int) result" where
  "insert_snapshots [] db = Inr (db, 0)"
| "insert_snapshots (v # vs) db =
     (if snapshot_conflict v db then insert_snapshots vs db
      else if find_observation (dn_experiment_id v) db = None
           then Inl (IntegrityError ''FOREIGN KEY constraint failed'')
      else bind_result (insert_snapshots vs (db\<lparr>ot_snapshots := ot_snapshots db @ [v]\<rparr>)) (\<lambda>(db', n).
             Inr (db', n + 1)))"

definition insert_market_context ::
    "decision_market_context \<Rightarrow> observation_store \<Rightarrow> (observation_store \<times> bool) result" where
  "insert_market_context v db =
     (if list_ex (\<lambda>c. mx_experiment_id c = mx_experiment_id v \<and> mx_decision_id c = mx_decision_id v) (ot_contexts db)
      then Inr (db, False)
      else if find_observation (mx_experiment_id v) db = None
           then Inl (IntegrityError ''FOREIGN KEY constraint failed'')
      else Inr (db\<lparr>ot_contexts := ot_contexts db @ [v]\<rparr>, True))"

fun insert_selection_variants ::
    "decision_selection_variant list \<Rightarrow> observation_store \<Rightarrow> observation_store result" where
  "insert_selection_variants [] db = Inr db"
| "insert_selection_variants (v # vs) db =
     (if list_ex (\<lambda>w. dv_snapshot_id w = dv_snapshot_id v \<and> dv_variant_id w = dv_variant_id v) (ot_variants db)
      then insert_selection_variants vs db
      else if find_decision (dv_snapshot_id v) db = None
           then Inl (IntegrityError ''FOREIGN KEY constraint failed'')
      else insert_selection_variants vs (db\<lparr>ot_variants := ot_variants db @ [v]\<rparr>))"

definition save_snapshots :: "decision_snapshot list \<Rightarrow> (observation_store, int) act" where
  "save_snapshots vs db =
     (case insert_snapshots vs db of Inl e \<Rightarrow> (db, Inl e) | Inr (db', n) \<Rightarrow> (db', Inr n))"

definition same_identity :: "decision_market_context \<Rightarrow> decision_snapshot \<Rightarrow> bool" where
  "same_identity c v =
     (dn_experiment_id v = mx_experiment_id c \<and> dn_decision_id v = mx_decision_id c
      \<and> dn_strategy_version v = mx_strategy_version c \<and> dn_config_hash v = mx_config_hash c
      \<and> dn_decision_time v = mx_decision_time c)"

definition save_decision_bundle ::
    "decision_snapshot list \<Rightarrow> decision_market_context option \<Rightarrow> decision_selection_variant list
     \<Rightarrow> (observation_store, int) act" where
  "save_decision_bundle vs context variants db =
     (if (case context of None \<Rightarrow> False | Some c \<Rightarrow> list_ex (\<lambda>v. \<not> same_identity c v) vs)
      then (db, Inl (ValueError ''decision snapshots and market context identities must match''))
      else if list_ex (\<lambda>w. dv_snapshot_id w \<notin> set (map dn_snapshot_id vs)) variants
      then (db, Inl (ValueError ''selection variants must reference a snapshot in the same bundle''))
      else
        case bind_result (insert_snapshots vs db) (\<lambda>(db1, n).
             bind_result (case context of None \<Rightarrow> Inr (db1, False) | Some c \<Rightarrow> insert_market_context c db1) (\<lambda>(db2, _).
             bind_result (insert_selection_variants variants db2) (\<lambda>db3. Inr (db3, n)))) of
          Inl e \<Rightarrow> (db, Inl e)
        | Inr (db', n) \<Rightarrow> (db', Inr n))"

definition save_market_context :: "decision_market_context \<Rightarrow> (observation_store, bool) act" where
  "save_market_context v db =
     (case insert_market_context v db of Inl e \<Rightarrow> (db, Inl e) | Inr (db', new) \<Rightarrow> (db', Inr new))"

definition save_outcome :: "decision_outcome \<Rightarrow> (observation_store, bool) act" where
  "save_outcome v db =
     (if list_ex (\<lambda>w. do_snapshot_id w = do_snapshot_id v \<and> do_horizon_minutes w = do_horizon_minutes v)
           (ot_outcomes db)
      then (db, Inr False)
      else if find_decision (do_snapshot_id v) db = None
           then (db, Inl (IntegrityError ''FOREIGN KEY constraint failed''))
      else (db\<lparr>ot_outcomes := ot_outcomes db @ [v]\<rparr>, Inr True))"

section \<open>Reading\<close>

definition observation :: "string \<Rightarrow> observation_store \<Rightarrow> observation_experiment result" where
  "observation i db =
     (case find_observation i db of None \<Rightarrow> Inl (KeyError i) | Some e \<Rightarrow> check_observation e)"

definition current_observation :: "observation_store \<Rightarrow> observation_experiment option result" where
  "current_observation db =
     (case sort_key (\<lambda>e. - oe_started_at e)
             (filter (\<lambda>e. oe_status e \<in> {Obs_Created, Obs_Running}) (ot_experiments db)) of
        [] \<Rightarrow> Inr None
      | e # _ \<Rightarrow> bind_result (check_observation e) (\<lambda>e. Inr (Some e)))"

definition observations :: "observation_store \<Rightarrow> observation_experiment list result" where
  "observations db = map_result check_observation (sort_key (\<lambda>e. - oe_started_at e) (ot_experiments db))"

definition lane_snapshots :: "string \<Rightarrow> observation_store \<Rightarrow> decision_snapshot list" where
  "lane_snapshots i db = filter (\<lambda>s. dn_experiment_id s = i) (ot_snapshots db)"

text \<open>\<^verbatim>\<open>NULL\<close> comes before every rank.\<close>

definition rank_key :: "decision_snapshot \<Rightarrow> int list" where
  "rank_key s = (case dn_rank s of None \<Rightarrow> [] | Some r \<Rightarrow> [r])"

definition decision_snapshots :: "string \<Rightarrow> observation_store \<Rightarrow> decision_snapshot list" where
  "decision_snapshots i db = sort_key dn_decision_time (sort_key rank_key (lane_snapshots i db))"

definition latest_decision_snapshots :: "string \<Rightarrow> observation_store \<Rightarrow> decision_snapshot list" where
  "latest_decision_snapshots i db =
     (let rows = lane_snapshots i db
      in sort_key (\<lambda>s. if dn_eligible s then 0 else 1 :: int) (sort_key rank_key (sort_key dn_market
           (filter (\<lambda>s. \<forall>r \<in> set rows. dn_decision_time r \<le> dn_decision_time s) rows))))"

text \<open>The rows of a table joined with their snapshots of an experiment.\<close>

definition joined :: "('r \<Rightarrow> string) \<Rightarrow> string \<Rightarrow> observation_store \<Rightarrow> 'r list \<Rightarrow> ('r \<times> decision_snapshot) list" where
  "joined snapshot_of i db rows =
     List.map_filter (\<lambda>r. case find_decision (snapshot_of r) db of
        None \<Rightarrow> None
      | Some s \<Rightarrow> if dn_experiment_id s = i then Some (r, s) else None) rows"

definition selection_variant_rows ::
    "string \<Rightarrow> string option \<Rightarrow> observation_store \<Rightarrow> decision_selection_variant list result" where
  "selection_variant_rows i variant db =
     map_result check_variant (map fst
       (sort_key (\<lambda>(v, s). dn_decision_time s) (sort_key (\<lambda>(v, s). dn_decision_id s)
         (sort_key (\<lambda>(v, s). dn_market s) (sort_key (\<lambda>(v, s). dv_variant_id v)
           (filter (\<lambda>(v, s). variant = None \<or> variant = Some (dv_variant_id v))
             (joined dv_snapshot_id i db (ot_variants db))))))))"

definition decision_outcomes :: "string \<Rightarrow> observation_store \<Rightarrow> decision_outcome list" where
  "decision_outcomes i db =
     map fst (sort_key (\<lambda>(v, s). dn_decision_time s) (sort_key (\<lambda>(v, s). do_horizon_minutes v)
       (joined do_snapshot_id i db (ot_outcomes db))))"

definition market_contexts :: "string \<Rightarrow> observation_store \<Rightarrow> decision_market_context list result" where
  "market_contexts i db =
     bind_result (observation i db) (\<lambda>_.
       Inr (sort_key mx_decision_time (filter (\<lambda>c. mx_experiment_id c = i) (ot_contexts db))))"

text \<open>\<^verbatim>\<open>julianday\<close> of SQLite keeps the milliseconds of a time.\<close>

definition julian_ms :: "utc \<Rightarrow> int" where
  "julian_ms t = t div 1000"

definition matured_at :: "utc \<Rightarrow> decision_snapshot list \<Rightarrow> decision_snapshot list" where
  "matured_at cutoff = filter (\<lambda>s. dn_reference_price s \<noteq> None \<and> julian_ms (dn_decision_time s) \<le> julian_ms cutoff)"

record health_counts =
  hc_actual_decision_cycles :: nat
  hc_candidate_snapshots :: nat
  hc_matured_outcomes :: nat
  hc_outcome_rows :: nat
  hc_missing_data_outcomes :: nat
  hc_unresolved_decisions :: nat

definition health_cutoffs :: "utc \<Rightarrow> utc list" where
  "health_cutoffs current = map (\<lambda>m. current - minutes m) [15, 30, 60, 240, 720, 1440]"

definition health_counts_of :: "string \<Rightarrow> utc \<Rightarrow> observation_store \<Rightarrow> health_counts" where
  "health_counts_of i current db =
     (let rows = lane_snapshots i db; outs = map fst (joined do_snapshot_id i db (ot_outcomes db))
      in \<lparr>hc_actual_decision_cycles = length (remdups (map dn_decision_time rows)),
          hc_candidate_snapshots = length rows,
          hc_matured_outcomes = sum_list (map (\<lambda>c. length (matured_at c rows)) (health_cutoffs current)),
          hc_outcome_rows = length outs,
          hc_missing_data_outcomes = length (filter (\<lambda>v. do_status v = MISSING_DATA) outs),
          hc_unresolved_decisions = length (filter (\<lambda>s.
             \<not> list_ex (\<lambda>v. do_snapshot_id v = dn_snapshot_id s \<and> do_horizon_minutes v = 1440) (ot_outcomes db))
             (matured_at (last (health_cutoffs current)) rows))\<rparr>)"

definition missing_reason_of :: "decision_outcome \<Rightarrow> string" where
  "missing_reason_of v = (case do_missing_reason v of None \<Rightarrow> ''LEGACY_UNCLASSIFIED'' | Some r \<Rightarrow> r)"

definition missing_reason_counts :: "string \<Rightarrow> observation_store \<Rightarrow> (string \<times> nat) list" where
  "missing_reason_counts i db =
     (let reasons = map missing_reason_of (filter (\<lambda>v. do_status v = MISSING_DATA)
                      (map fst (joined do_snapshot_id i db (ot_outcomes db))))
      in sort_key (\<lambda>(r, n). - int n) (map (\<lambda>r. (r, count_list reasons r)) (sorted_list_of_set (set reasons))))"

end
