(* ===== verification/ObservationService.thy ===== *)
theory ObservationService
  imports Observation
begin

text \<open>
  The frozen observation service (\<^verbatim>\<open>observation/service.py\<close>): an experiment is started on a fingerprint of its
  policy, captures the decisions of the rebalance runs of its portfolio, is closed at its planned end
  or when the configuration changes, and evaluates every captured candidate at fixed horizons.

  An operation is an action on the tables: it returns the tables it leaves, also when it raises.  The
  market data, the paper ledger, the clock and SHA-256 are arguments.
\<close>

section \<open>The fingerprint of a configuration\<close>

text \<open>\<^verbatim>\<open>str(timedelta)\<close>.\<close>

definition two_digits :: "int \<Rightarrow> string" where
  "two_digits n = (if n < 10 then CHR ''0'' # int_text n else int_text n)"

definition timedelta_text :: "timedelta \<Rightarrow> string" where
  "timedelta_text t =
     (let d = t div 86400000000; s = t mod 86400000000 div 1000000; u = t mod 1000000; digits = int_text u
      in (if d = 0 then [] else int_text d @ (if \<bar>d\<bar> = 1 then '' day, '' else '' days, ''))
         @ int_text (s div 3600) @ '':'' @ two_digits (s mod 3600 div 60) @ '':'' @ two_digits (s mod 60)
         @ (if u = 0 then [] else ''.'' @ replicate (6 - length digits) CHR ''0'' @ digits))"

fun config_json :: "policy_value \<Rightarrow> json" where
  "config_json PNone = JNull"
| "config_json (PInt n) = JInt n"
| "config_json (PDecimal d) = JDec d"
| "config_json (PFloat r) = JNum r"
| "config_json (PDuration t) = JStr (timedelta_text t)"
| "config_json (PText s) = JStr s"
| "config_json (PTexts ss) = JList (map JStr ss)"

definition strategy_config_hash :: "digest \<Rightarrow> universe_policy \<Rightarrow> string result" where
  "strategy_config_hash sha256 p =
     bind_result (strategy_policy_config_values p) (\<lambda>vs.
       Inr (sha256 (JObj (map (\<lambda>(n, v). (n, config_json v)) (sort_key fst vs)))))"

section \<open>Starting and permitting\<close>

definition horizons :: "int list" where
  "horizons = [15, 30, 60, 120, 240, 720, 1440]"

definition outcome_data_grace :: timedelta where
  "outcome_data_grace = minutes 30"

definition portfolio_equity :: "string \<Rightarrow> utc \<Rightarrow> ledger \<Rightarrow> pyfloat result" where
  "portfolio_equity pid as_of l =
     bind_result (list_rebalance_decisions pid 1 l) (\<lambda>decisions.
       case decisions of
         d # _ \<Rightarrow>
           if rd_as_of d \<le> as_of then Inr (flt (rd_equity d))
           else bind_result (get_portfolio pid l) (\<lambda>s. Inr (flt (ps_cash_balance s)))
       | [] \<Rightarrow> bind_result (get_portfolio pid l) (\<lambda>s. Inr (flt (ps_cash_balance s))))"

definition time_or_now :: "datetime option \<Rightarrow> utc \<Rightarrow> string \<Rightarrow> utc result" where
  "time_or_now t now name = (case t of None \<Rightarrow> Inr now | Some d \<Rightarrow> require_utc d name)"

definition start_observation ::
    "digest \<Rightarrow> ledger \<Rightarrow> string \<Rightarrow> string \<Rightarrow> universe_policy \<Rightarrow> datetime option \<Rightarrow> utc
     \<Rightarrow> (observation_store, observation_experiment) act" where
  "start_observation sha256 l i pid p started_at now =
     act_bind (act_lift (time_or_now started_at now ''started_at'')) (\<lambda>start.
     act_bind (act_lift (strategy_config_hash sha256 p)) (\<lambda>fingerprint db.
       case observation i db of
         Inl (KeyError _) \<Rightarrow>
           act_bind (act_lift (get_portfolio pid l)) (\<lambda>_.
           act_bind (act_lift (portfolio_equity pid start l)) (\<lambda>equity.
           act_bind (act_lift (check_observation
             \<lparr>oe_experiment_id = i, oe_portfolio_id = pid, oe_strategy_version = dp_strategy_version p,
              oe_config_hash = fingerprint, oe_started_at = start, oe_planned_end_at = start + hours 168,
              oe_status = Obs_Running, oe_starting_equity = equity, oe_completed_at = None,
              oe_interruption_reason = None\<rparr>)) (\<lambda>e db. (save_observation e db, Inr e)))) db
       | Inl e \<Rightarrow> (db, Inl e)
       | Inr e \<Rightarrow>
           (db, if oe_portfolio_id e \<noteq> pid \<or> oe_strategy_version e \<noteq> dp_strategy_version p
                   \<or> oe_config_hash e \<noteq> fingerprint
                then Inl (ValueError ''existing observation identity does not match frozen strategy'')
                else Inr e)))"

definition closed_as ::
    "observation_status \<Rightarrow> utc \<Rightarrow> string option \<Rightarrow> observation_experiment \<Rightarrow> observation_experiment" where
  "closed_as status t reason e =
     e\<lparr>oe_status := status, oe_completed_at := Some t,
       oe_interruption_reason := (case reason of None \<Rightarrow> oe_interruption_reason e | r \<Rightarrow> r)\<rparr>"

definition permits_execution ::
    "digest \<Rightarrow> string \<Rightarrow> string \<Rightarrow> universe_policy \<Rightarrow> datetime \<Rightarrow> (observation_store, bool) act" where
  "permits_execution sha256 i pid p now =
     act_bind (act_lift (require_utc now ''now'')) (\<lambda>current.
     act_bind (act_read (observation i)) (\<lambda>e.
       if oe_status e \<noteq> Obs_Running then act_lift (Inr False)
       else
         act_bind (if oe_portfolio_id e \<noteq> pid \<or> oe_strategy_version e \<noteq> dp_strategy_version p
                   then act_lift (Inr False)
                   else act_lift (bind_result (strategy_config_hash sha256 p) (\<lambda>h. Inr (oe_config_hash e = h))))
           (\<lambda>matches db.
             if \<not> matches
             then (save_observation (closed_as Obs_Invalidated current
                     (Some ''execution identity does not match frozen experiment'') e) db,
                   Inl (ValueError ''execution identity does not match frozen experiment''))
             else if oe_planned_end_at e \<le> current
             then (save_observation (closed_as Obs_Completed (oe_planned_end_at e) None e) db, Inr False)
             else (db, Inr (oe_started_at e \<le> current)))))"

section \<open>Capturing a decision\<close>

text \<open>\<^verbatim>\<open>{key(item): item for item in items}\<close>: a later item takes the place of an earlier one.\<close>

definition dict_of :: "('a \<Rightarrow> string) \<Rightarrow> ('a \<Rightarrow> 'b) \<Rightarrow> 'a list \<Rightarrow> (string \<times> 'b) list" where
  "dict_of key f xs = fold (\<lambda>x. dict_set (key x) (f x)) xs []"

text \<open>\<^verbatim>\<open>text.removesuffix("KRW")\<close>.\<close>

definition base_symbol :: "string \<Rightarrow> string" where
  "base_symbol s =
     (let n = length s - 3 in if 3 \<le> length s \<and> drop n s = ''KRW'' then take n s else s)"

definition final_weights :: "rebalance_result \<Rightarrow> (string \<times> pyfloat) list result" where
  "final_weights r =
     (let prices = dict_of (\<lambda>c. base_symbol (ca_pair c)) (\<lambda>c. flt (the (ca_latest_price c)))
                     (filter (\<lambda>c. ca_latest_price c \<noteq> None) (rr_assessments r))
      in bind_result (map_result (\<lambda>pos.
           case map_of prices (asset_symbol (pp_asset pos)) of
             None \<Rightarrow> Inr []
           | Some price \<Rightarrow>
               bind_result (fdiv (fmul (flt (pp_quantity pos)) price) (flt (rr_equity r))) (\<lambda>w.
                 Inr [(asset_symbol (pp_asset pos) @ ''KRW'', w)])) (ps_positions (rr_final_portfolio r)))
         (\<lambda>rows. Inr (dict_of fst snd (concat rows))))"

definition score_or_zero :: "candidate \<Rightarrow> pyfloat" where
  "score_or_zero c = (case ca_score c of None \<Rightarrow> 0 | Some s \<Rightarrow> s)"

definition observed_ranking :: "candidate list \<Rightarrow> candidate list" where
  "observed_ranking cs =
     sort_on (\<lambda>c. (- score_or_zero c, ca_pair c)) (filter (\<lambda>c. ca_eligible c \<and> ca_score c \<noteq> None) cs)"

definition ranks_of :: "candidate list \<Rightarrow> (string \<times> int) list" where
  "ranks_of cs = dict_of (\<lambda>(n, c). ca_pair c) (\<lambda>(n, c). int n) (enumerate 1 (observed_ranking cs))"

definition action_reason ::
    "string \<Rightarrow> bool \<Rightarrow> pyfloat \<Rightarrow> (string \<times> selected_asset) list \<Rightarrow> (string \<times> order_plan) list \<Rightarrow> string list
     \<Rightarrow> string list \<Rightarrow> string \<Rightarrow> bool \<Rightarrow> decision_action \<times> string" where
  "action_reason pair eligible current selected orders candidate_reasons global_reasons assessment_reason has_sell =
     (case map_of orders pair of
        Some order \<Rightarrow>
          if op_side order = SELL then (EXIT, ''TARGET_POSITION_EXIT'')
          else (if has_sell then REPLACE else ENTRY, ''ORDER_CREATED_FOR_TARGET_WEIGHT'')
      | None \<Rightarrow>
          (case map_of selected pair of
             Some item \<Rightarrow>
               if 0 < current then (HOLD, sa_reason item)
               else (let reasons = join_with ''|'' (if candidate_reasons \<noteq> [] then candidate_reasons else global_reasons)
                     in (REJECTED_ENTRY, if reasons = [] then ''ORDER_NOT_CREATED'' else reasons))
           | None \<Rightarrow>
               if eligible
               then (let reasons = join_with ''|'' candidate_reasons
                     in (if ''REPLACEMENT_SCORE_ADVANTAGE_INSUFFICIENT'' \<in> set candidate_reasons \<and> current = 0
                         then REJECTED_REPLACEMENT else REJECTED_ENTRY,
                         if reasons = [] then ''NOT_SELECTED_BY_RANK'' else reasons))
               else (NO_ACTION, assessment_reason)))"

definition hour_of :: "utc \<Rightarrow> int" where
  "hour_of t = t mod 86400000000 div 3600000000"

text \<open>Monday is 0, and the first of January 1970 was a Thursday.\<close>

definition weekday_of :: "utc \<Rightarrow> int" where
  "weekday_of t = (t div 86400000000 + 3) mod 7"

definition observed_snapshot_id :: "digest \<Rightarrow> string \<Rightarrow> utc \<Rightarrow> string \<Rightarrow> string" where
  "observed_snapshot_id sha256 i as_of pair = take 32 (sha256 (JList [JStr i, JTime as_of, JStr pair]))"

text \<open>What \<^verbatim>\<open>capture\<close> computes once for all candidates.\<close>

record capture_frame =
  cf_selected :: "(string \<times> selected_asset) list"
  cf_orders :: "(string \<times> order_plan) list"
  cf_ranks :: "(string \<times> int) list"
  cf_weights :: "(string \<times> pyfloat) list"
  cf_has_sell :: bool
  cf_cash :: pyfloat
  cf_decision_id :: string

definition capture_frame_of ::
    "digest \<Rightarrow> universe_policy \<Rightarrow> rebalance_result \<Rightarrow> capture_frame result" where
  "capture_frame_of sha256 p r =
     bind_result (final_weights r) (\<lambda>finals.
       let orders = dict_of op_pair id (rr_orders r);
           weights = fold (\<lambda>(pair, order). dict_set pair (flt (op_current_weight order))) orders finals
       in Inr \<lparr>cf_selected = dict_of sa_pair id (rr_selected r), cf_orders = orders,
               cf_ranks = ranks_of (rr_assessments r), cf_weights = weights,
               cf_has_sell = list_ex (\<lambda>order. op_side order = SELL) (rr_orders r),
               cf_cash = max 0 (fmul (flt (rr_equity r)) (fsub 1 (float_sum (map snd weights)))),
               cf_decision_id = decision_id sha256 (rr_portfolio_id r) (rr_as_of r) (dp_strategy_version p)\<rparr>)"

definition snapshot_of ::
    "digest \<Rightarrow> observation_experiment \<Rightarrow> rebalance_result \<Rightarrow> capture_frame \<Rightarrow> candidate \<Rightarrow> decision_snapshot" where
  "snapshot_of sha256 e r f c =
     (let pair = ca_pair c;
          target = (case map_of (cf_selected f) pair of None \<Rightarrow> 0 | Some s \<Rightarrow> flt (sa_target_weight s));
          current = (case map_of (cf_weights f) pair of None \<Rightarrow> 0 | Some w \<Rightarrow> w);
          (action, reason) = action_reason pair (ca_eligible c) current (cf_selected f) (cf_orders f)
             (ca_decision_reasons c) (rr_decision_reasons r) (ca_reason c) (cf_has_sell f);
          selected = (map_of (cf_selected f) pair \<noteq> None)
      in \<lparr>dn_snapshot_id = observed_snapshot_id sha256 (oe_experiment_id e) (rr_as_of r) pair,
          dn_experiment_id = oe_experiment_id e,
          dn_decision_id = cf_decision_id f,
          dn_strategy_version = oe_strategy_version e,
          dn_config_hash = oe_config_hash e,
          dn_decision_time = rr_as_of r,
          dn_asset = base_symbol pair,
          dn_market = pair,
          dn_action = action,
          dn_reason = reason,
          dn_score = ca_score c,
          dn_rank = map_of (cf_ranks f) pair,
          dn_eligible = ca_eligible c,
          dn_selected = selected,
          dn_current_position = current,
          dn_target_position = target,
          dn_portfolio_cash = cf_cash f,
          dn_portfolio_equity = flt (rr_equity r),
          dn_current_exposure = float_sum (map snd (cf_weights f)),
          dn_target_exposure = float_sum (map (\<lambda>s. flt (sa_target_weight s)) (rr_selected r)),
          dn_reference_price = map_option flt (ca_latest_price c),
          dn_liquidity = map_option flt (ca_average_quote_volume c),
          dn_hour_of_day = hour_of (rr_as_of r),
          dn_day_of_week = weekday_of (rr_as_of r),
          dn_momentum_1h = ca_momentum_1h c,
          dn_momentum_4h = ca_momentum_4h c,
          dn_momentum_24h = ca_momentum_24h c,
          dn_volatility = ca_volatility c,
          dn_reference_at = ca_reference_at c,
          dn_selected_rank = (if selected then map_of (cf_ranks f) pair else None),
          dn_raw_score = ca_raw_score c,
          dn_score_penalty = ca_score_penalty c,
          dn_expected_relative_return_1h = ca_expected_relative_return_1h c,
          dn_expected_relative_return_4h = ca_expected_relative_return_4h c,
          dn_fee_adjusted_expected_return = ca_fee_adjusted_expected_return c,
          dn_candidate_reasons_json = JList (map JStr (ca_decision_reasons c))\<rparr>)"

definition context_of ::
    "observation_experiment \<Rightarrow> rebalance_result \<Rightarrow> capture_frame \<Rightarrow> decision_market_context option" where
  "context_of e r f =
     map_option (\<lambda>overlay.
       \<lparr>mx_experiment_id = oe_experiment_id e, mx_decision_id = cf_decision_id f,
        mx_strategy_version = oe_strategy_version e, mx_config_hash = oe_config_hash e,
        mx_decision_time = rr_as_of r,
        mx_context_json = JObj (sort_key fst (overlay_to_dict overlay
          @ [(''decisionDiagnostics'', JObj (rr_decision_diagnostics r)),
             (''executionModelVersion'', JStr (rr_execution_model_version r)),
             (''feeRate'', JDec (rr_execution_fee_rate r)),
             (''slippageRate'', JDec (rr_execution_slippage_rate r))]))\<rparr>) (rr_derivatives_overlay r)"

text \<open>A cohort control becomes one row for every candidate.\<close>

definition variant_row ::
    "string \<Rightarrow> (string \<times> selected_asset) list \<Rightarrow> string \<times> string \<Rightarrow> decision_selection_variant result" where
  "variant_row variant selected row =
     check_variant
       (case map_of selected (fst row) of
          None \<Rightarrow> \<lparr>dv_snapshot_id = snd row, dv_variant_id = variant, dv_selected = False, dv_target_position = 0,
                   dv_reason = ''NOT_SELECTED_BY_VARIANT''\<rparr>
        | Some s \<Rightarrow> \<lparr>dv_snapshot_id = snd row, dv_variant_id = variant, dv_selected = True,
                     dv_target_position = flt (sa_target_weight s), dv_reason = sa_reason s\<rparr>)"

definition variant_rows ::
    "(string \<times> string) list \<Rightarrow> selection_variant \<Rightarrow> decision_selection_variant list result" where
  "variant_rows ids v =
     (let selected = dict_of sa_pair id (sv_selected v); unknown = set (map fst selected) - set (map fst ids)
      in if length selected \<noteq> length (sv_selected v)
         then Inl (ValueError ''selection variant cannot select the same pair twice'')
         else if unknown \<noteq> {}
         then Inl (ValueError (''selection variant references a pair outside the frozen cohort: ''
                @ list_repr (sorted_list_of_set unknown)))
         else map_result (variant_row (sv_variant_id v) selected) ids)"

definition observed_variant_rows ::
    "selection_variant list \<Rightarrow> (string \<times> string) list \<Rightarrow> decision_selection_variant list result" where
  "observed_variant_rows variants ids =
     (if \<not> distinct (map sv_variant_id variants)
      then Inl (ValueError ''selection variant identifiers must be unique within a cohort'')
      else bind_result (map_result (variant_rows ids) variants) (\<lambda>rows. Inr (concat rows)))"

definition store_decision ::
    "digest \<Rightarrow> universe_policy \<Rightarrow> observation_experiment \<Rightarrow> rebalance_result \<Rightarrow> (observation_store, int) act" where
  "store_decision sha256 p e r =
     act_bind (act_lift (capture_frame_of sha256 p r)) (\<lambda>f.
     let rows = map (snapshot_of sha256 e r f) (rr_assessments r);
         ids = dict_of ca_pair (\<lambda>c. observed_snapshot_id sha256 (oe_experiment_id e) (rr_as_of r) (ca_pair c))
                 (rr_assessments r)
     in act_bind (act_lift (observed_variant_rows (rr_selection_variants r) ids)) (\<lambda>variants.
          save_decision_bundle rows (context_of e r f) variants))"

definition capture_decision ::
    "digest \<Rightarrow> string \<Rightarrow> rebalance_result \<Rightarrow> universe_policy \<Rightarrow> (observation_store, int) act" where
  "capture_decision sha256 i r p =
     act_bind (act_read (observation i)) (\<lambda>e.
       if oe_status e \<noteq> Obs_Running then act_lift (Inr 0)
       else if \<not> (oe_started_at e \<le> rr_as_of r \<and> rr_as_of r \<le> oe_planned_end_at e) then act_lift (Inr 0)
       else if rr_portfolio_id r \<noteq> oe_portfolio_id e
       then act_lift (Inl (ValueError ''decision portfolio does not match observation''))
       else
         act_bind (if dp_strategy_version p \<noteq> oe_strategy_version e then act_lift (Inr False)
                   else act_lift (bind_result (strategy_config_hash sha256 p) (\<lambda>h. Inr (h = oe_config_hash e))))
           (\<lambda>frozen db.
             if \<not> frozen
             then (save_observation (closed_as Obs_Invalidated (rr_as_of r)
                     (Some ''frozen strategy configuration changed'') e) db,
                   Inl (ValueError ''frozen strategy configuration changed; observation invalidated''))
             else store_decision sha256 p e r
                    (if oe_planned_end_at e \<le> rr_as_of r
                     then save_observation (closed_as Obs_Completed (rr_as_of r) None e) db else db)))"

definition interrupt_observation ::
    "string \<Rightarrow> string \<Rightarrow> datetime option \<Rightarrow> utc \<Rightarrow> (observation_store, observation_experiment) act" where
  "interrupt_observation i reason interrupted_at now =
     act_bind (act_read (observation i)) (\<lambda>e.
       if oe_status e \<noteq> Obs_Running then act_lift (Inr e)
       else act_bind (act_lift (time_or_now interrupted_at now ''interrupted_at'')) (\<lambda>t db.
         let closed = e\<lparr>oe_status := Obs_Interrupted, oe_completed_at := Some t, oe_interruption_reason := Some reason\<rparr>
         in (save_observation closed db, Inr closed)))"

section \<open>Evaluating\<close>

definition max_of :: "pyfloat \<Rightarrow> pyfloat list \<Rightarrow> pyfloat" where
  "max_of x xs = fold max xs x"

definition least_of :: "pyfloat \<Rightarrow> pyfloat list \<Rightarrow> pyfloat" where
  "least_of x xs = fold min xs x"

text \<open>The candles a decision is judged by, or why there are none.\<close>

definition outcome_candles ::
    "market_fetch \<Rightarrow> decision_snapshot \<Rightarrow> utc \<Rightarrow> string \<Rightarrow> (candle list \<times> string) result" where
  "outcome_candles fetch s target symbol =
     (case bind_result (build_universe [dn_asset s @ ''/KRW'']) (\<lambda>u.
           bind_result (fetch u (dn_decision_time s - minutes 15) target) (candles_of symbol)) of
        Inl (FileNotFoundError _) \<Rightarrow> Inr ([], ''MARKET_DATA_FILE_NOT_FOUND'')
      | Inl (ValueError _) \<Rightarrow> Inr ([], ''MARKET_DATA_INVALID'')
      | Inl e \<Rightarrow> Inl e
      | Inr cs \<Rightarrow>
          Inr (filter (\<lambda>c. dn_decision_time s < available_at c \<and> available_at c \<le> target) cs, ''NO_POST_DECISION_CANDLE''))"

definition missing_outcome :: "decision_snapshot \<Rightarrow> int \<Rightarrow> utc \<Rightarrow> utc \<Rightarrow> string \<Rightarrow> decision_outcome" where
  "missing_outcome s horizon target evaluated_at reason =
     \<lparr>do_snapshot_id = dn_snapshot_id s, do_horizon_minutes = horizon, do_target_at = target,
      do_evaluated_at = evaluated_at, do_status = MISSING_DATA, do_forward_return = None, do_mfe = None, do_mae = None,
      do_missing_reason = Some reason\<rparr>"

definition change_from :: "pyfloat \<Rightarrow> pyfloat \<Rightarrow> pyfloat result" where
  "change_from reference price = bind_result (fdiv price reference) (\<lambda>q. Inr (fsub q 1))"

definition outcome_from ::
    "decision_snapshot \<Rightarrow> int \<Rightarrow> utc \<Rightarrow> utc \<Rightarrow> candle list \<Rightarrow> string \<Rightarrow> decision_outcome result" where
  "outcome_from s horizon target evaluated_at candles missing =
     (case candles of
        [] \<Rightarrow> Inr (missing_outcome s horizon target evaluated_at missing)
      | c # cs \<Rightarrow>
          if minutes 30 < target - available_at (last candles)
          then Inr (missing_outcome s horizon target evaluated_at ''TARGET_CANDLE_STALE'')
          else
            (let reference = (case dn_reference_price s of None \<Rightarrow> 0 | Some r \<Rightarrow> r)
             in bind_result (change_from reference (flt (close_price (last candles)))) (\<lambda>forward.
                bind_result (change_from reference (max_of (flt (high_price c)) (map (\<lambda>c. flt (high_price c)) cs))) (\<lambda>mfe.
                bind_result (change_from reference (least_of (flt (low_price c)) (map (\<lambda>c. flt (low_price c)) cs))) (\<lambda>mae.
                  Inr \<lparr>do_snapshot_id = dn_snapshot_id s, do_horizon_minutes = horizon, do_target_at = target,
                       do_evaluated_at = evaluated_at, do_status = Outcome_Completed, do_forward_return = Some forward,
                       do_mfe = Some mfe, do_mae = Some mae, do_missing_reason = None\<rparr>)))))"

definition outcome_of ::
    "market_fetch \<Rightarrow> decision_snapshot \<Rightarrow> int \<Rightarrow> utc \<Rightarrow> utc \<Rightarrow> decision_outcome result" where
  "outcome_of fetch s horizon target evaluated_at =
     bind_result (build_universe [dn_asset s @ ''/KRW'']) (\<lambda>u.
     bind_result (case universe_pairs u of [] \<Rightarrow> Inl IndexError | pair # _ \<Rightarrow> Inr (pair_symbol pair)) (\<lambda>symbol.
     bind_result (outcome_candles fetch s target symbol) (\<lambda>(candles, missing).
       outcome_from s horizon target evaluated_at candles missing)))"

text \<open>One snapshot at one horizon: how many rows it adds.\<close>

definition evaluate_one ::
    "market_fetch \<Rightarrow> (string \<times> int) set \<Rightarrow> utc \<Rightarrow> decision_snapshot \<times> int \<Rightarrow> (observation_store, int) act" where
  "evaluate_one fetch existing evaluated_at row =
     (let (s, horizon) = row; target = dn_decision_time s + minutes horizon
      in if (dn_snapshot_id s, horizon) \<in> existing \<or> evaluated_at < target then act_lift (Inr 0)
         else act_bind (act_lift (outcome_of fetch s horizon target evaluated_at)) (\<lambda>v.
           if do_status v = MISSING_DATA \<and> evaluated_at < target + outcome_data_grace then act_lift (Inr 0)
           else act_bind (save_outcome v) (\<lambda>new. act_lift (Inr (if new then 1 else 0)))))"

fun evaluate_rows ::
    "market_fetch \<Rightarrow> (string \<times> int) set \<Rightarrow> utc \<Rightarrow> (decision_snapshot \<times> int) list \<Rightarrow> (observation_store, int) act" where
  "evaluate_rows fetch existing evaluated_at [] = act_lift (Inr 0)"
| "evaluate_rows fetch existing evaluated_at (row # rows) =
     act_bind (evaluate_one fetch existing evaluated_at row) (\<lambda>n.
     act_bind (evaluate_rows fetch existing evaluated_at rows) (\<lambda>m. act_lift (Inr (n + m))))"

text \<open>The snapshots with a usable reference price, each at every horizon.\<close>

definition pending_rows :: "string \<Rightarrow> observation_store \<Rightarrow> (decision_snapshot \<times> int) list" where
  "pending_rows i db =
     concat (map (\<lambda>s. map (\<lambda>h. (s, h)) horizons)
       (filter (\<lambda>s. case dn_reference_price s of None \<Rightarrow> False | Some r \<Rightarrow> 0 < r) (decision_snapshots i db)))"

definition evaluate_pending ::
    "market_fetch \<Rightarrow> string \<Rightarrow> datetime option \<Rightarrow> utc \<Rightarrow> (observation_store, int) act" where
  "evaluate_pending fetch i now_or_none now =
     act_bind (act_lift (time_or_now now_or_none now ''now'')) (\<lambda>evaluated_at.
     act_bind (act_read (observation i)) (\<lambda>e db.
       let db = (if oe_status e = Obs_Running \<and> oe_planned_end_at e \<le> evaluated_at
                 then save_observation (closed_as Obs_Completed (oe_planned_end_at e) None e) db else db);
           existing = set (map (\<lambda>v. (do_snapshot_id v, do_horizon_minutes v)) (decision_outcomes i db))
       in evaluate_rows fetch existing evaluated_at (pending_rows i db) db))"

end
