(* ===== verification/ObservationReport.thy ===== *)
theory ObservationReport
  imports ObservationService Texts
begin

text \<open>
  The health and evidence reports of an observation (\<^verbatim>\<open>health\<close>, \<^verbatim>\<open>report\<close>, \<^verbatim>\<open>diagnostics\<close> and their
  statistics in \<^verbatim>\<open>observation/service.py\<close>).  A report is a record with a field for every key the
  source puts into its dictionary; the fixed texts of the conventions are left out.
\<close>

section \<open>Statistics\<close>

text \<open>\<^verbatim>\<open>statistics.fmean\<close>: the correctly rounded sum divided by the number of values.\<close>

definition fmean :: "pyfloat list \<Rightarrow> pyfloat" where
  "fmean xs = fquot (flt (sum_list xs)) (of_nat (length xs))"

definition mean_or_none :: "pyfloat list \<Rightarrow> pyfloat option" where
  "mean_or_none xs = (if xs = [] then None else Some (fmean xs))"

definition decision_equity :: "decision_snapshot list \<Rightarrow> pyfloat list" where
  "decision_equity ss =
     (let by_time = fold (\<lambda>s. dict_set (dn_decision_time s) (dn_portfolio_equity s)) ss []
      in map snd (sort_key fst by_time))"

fun drawdown_from :: "pyfloat \<Rightarrow> pyfloat \<Rightarrow> pyfloat list \<Rightarrow> pyfloat" where
  "drawdown_from peak drawdown [] = drawdown"
| "drawdown_from peak drawdown (v # vs) =
     (let peak = max peak v
      in drawdown_from peak (if peak \<noteq> 0 then min drawdown (fsub (fquot v peak) 1) else drawdown) vs)"

definition max_drawdown :: "pyfloat list \<Rightarrow> pyfloat" where
  "max_drawdown vs = drawdown_from 0 0 vs"

text \<open>\<open>half_power\<close> is \<^verbatim>\<open>** 0.5\<close> of the C library; squares are correctly rounded.\<close>

definition correlation :: "(pyfloat \<Rightarrow> pyfloat) \<Rightarrow> (pyfloat \<times> pyfloat) list \<Rightarrow> pyfloat option" where
  "correlation half_power vs =
     (if length vs < 2 then None
      else
        let mean_x = fmean (map fst vs);
            mean_y = fmean (map snd vs);
            numerator = float_sum (map (\<lambda>(x, y). fmul (fsub x mean_x) (fsub y mean_y)) vs);
            denominator_x = float_sum (map (\<lambda>(x, y). fmul (fsub x mean_x) (fsub x mean_x)) vs);
            denominator_y = float_sum (map (\<lambda>(x, y). fmul (fsub y mean_y) (fsub y mean_y)) vs);
            denominator = half_power (fmul denominator_x denominator_y)
        in if denominator \<noteq> 0 then Some (fquot numerator denominator) else None)"

text \<open>Groups in a dictionary, listed in the order of their sorted keys.\<close>

definition group_add :: "'k \<Rightarrow> 'v \<Rightarrow> ('k \<times> 'v list) list \<Rightarrow> ('k \<times> 'v list) list" where
  "group_add k v groups = dict_set k ((case map_of groups k of None \<Rightarrow> [] | Some vs \<Rightarrow> vs) @ [v]) groups"

definition grouped :: "('k :: linorder \<times> 'v) list \<Rightarrow> ('k \<times> 'v list) list" where
  "grouped rows = sort_key fst (fold (\<lambda>(k, v). group_add k v) rows [])"

definition snapshot_in :: "decision_snapshot list \<Rightarrow> string \<Rightarrow> decision_snapshot result" where
  "snapshot_in ss i =
     (case map_of (rev (map (\<lambda>s. (dn_snapshot_id s, s)) ss)) i of None \<Rightarrow> Inl (KeyError i) | Some s \<Rightarrow> Inr s)"

datatype group_field = By_Score | By_Rank | By_Reason | By_Action

definition score_bucket :: "pyfloat option \<Rightarrow> string" where
  "score_bucket x =
     (case x of
        None \<Rightarrow> ''<0''
      | Some v \<Rightarrow>
          if v < 0 then ''<0'' else if v < flt (1 / 100) then ''0-1%''
          else if v < flt (3 / 100) then ''1-3%'' else ''>=3%'')"

fun group_text :: "group_field \<Rightarrow> decision_snapshot \<Rightarrow> string" where
  "group_text By_Score s = score_bucket (dn_score s)"
| "group_text By_Rank s = (case dn_rank s of None \<Rightarrow> ''None'' | Some r \<Rightarrow> int_text r)"
| "group_text By_Reason s = dn_reason s"
| "group_text By_Action s = action_value (dn_action s)"

record group_row =
  gr_group :: string
  gr_n :: nat
  gr_returns :: "(int \<times> pyfloat option) list"

definition returns_at :: "int \<Rightarrow> decision_outcome list \<Rightarrow> pyfloat list" where
  "returns_at h vs = List.map_filter (\<lambda>v. if do_horizon_minutes v = h then do_forward_return v else None) vs"

definition group_row_of :: "string \<times> decision_outcome list \<Rightarrow> group_row" where
  "group_row_of g =
     \<lparr>gr_group = fst g, gr_n = length (snd g),
      gr_returns = map (\<lambda>h. (h, mean_or_none (returns_at h (snd g)))) horizons\<rparr>"

definition group_analysis ::
    "decision_snapshot list \<Rightarrow> decision_outcome list \<Rightarrow> group_field \<Rightarrow> group_row list result" where
  "group_analysis ss outs field =
     bind_result (map_result (\<lambda>v. bind_result (snapshot_in ss (do_snapshot_id v)) (\<lambda>s. Inr (group_text field s, v)))
        (filter (\<lambda>v. do_status v = Outcome_Completed) outs)) (\<lambda>rows.
     Inr (map group_row_of (grouped rows)))"

text \<open>A pair of the horizon and another key, in the order of Python tuples.\<close>

definition horizon_grouped :: "((int \<times> 'k :: linorder) \<times> 'v) list \<Rightarrow> ((int \<times> 'k) \<times> 'v list) list" where
  "horizon_grouped rows =
     sort_key (\<lambda>g. fst (fst g)) (sort_key (\<lambda>g. snd (fst g)) (fold (\<lambda>(k, v). group_add k v) rows []))"

text \<open>The outcomes with a return, each with its snapshot, that a statistic is made of.\<close>

definition with_snapshots ::
    "decision_snapshot list \<Rightarrow> decision_outcome list \<Rightarrow> (decision_outcome \<times> decision_snapshot) list result" where
  "with_snapshots ss outs =
     map_result (\<lambda>v. bind_result (snapshot_in ss (do_snapshot_id v)) (\<lambda>s. Inr (v, s))) outs"

definition returned :: "decision_outcome \<Rightarrow> bool" where
  "returned v = (do_status v = Outcome_Completed \<and> do_forward_return v \<noteq> None)"

definition cohort_summary ::
    "decision_snapshot list \<Rightarrow> decision_outcome list \<Rightarrow> ((int \<times> string) \<times> nat \<times> pyfloat) list result" where
  "cohort_summary ss outs =
     bind_result (with_snapshots ss outs) (\<lambda>rows.
       Inr (map (\<lambda>(k, vs). (k, length vs, fmean vs))
         (horizon_grouped (map (\<lambda>(v, s). ((do_horizon_minutes v,
               if dn_selected s then ''selected'' else ''eligible-not-selected''), the (do_forward_return v)))
            (filter (\<lambda>(v, s). returned v \<and> dn_eligible s) rows)))))"

definition components_of :: "decision_snapshot \<Rightarrow> (string \<times> pyfloat) list" where
  "components_of s =
     List.map_filter (\<lambda>(name, v). map_option (Pair name) v)
       [(''score'', dn_score s), (''momentum_1h'', dn_momentum_1h s), (''momentum_4h'', dn_momentum_4h s),
        (''momentum_24h'', dn_momentum_24h s), (''volatility'', dn_volatility s)]"

text \<open>The snapshot of an outcome without a return is not looked up.\<close>

definition component_ic ::
    "(pyfloat \<Rightarrow> pyfloat) \<Rightarrow> decision_snapshot list \<Rightarrow> decision_outcome list
     \<Rightarrow> ((int \<times> string) \<times> nat \<times> pyfloat option) list result" where
  "component_ic half_power ss outs =
     bind_result (with_snapshots ss (filter returned outs)) (\<lambda>rows.
       Inr (map (\<lambda>(k, vs). (k, length vs, correlation half_power vs))
         (horizon_grouped (concat (map (\<lambda>(v, s). map (\<lambda>(name, x).
              ((do_horizon_minutes v, name), (x, the (do_forward_return v)))) (components_of s))
            (filter (\<lambda>(v, s). dn_eligible s) rows))))))"

definition eligible_count :: "decision_snapshot list \<Rightarrow> string \<Rightarrow> int" where
  "eligible_count ss i =
     int (length (filter (\<lambda>s. dn_eligible s \<and> dn_rank s \<noteq> None \<and> dn_decision_id s = i) ss))"

definition score_deciles ::
    "decision_snapshot list \<Rightarrow> decision_outcome list \<Rightarrow> ((int \<times> int) \<times> nat \<times> pyfloat) list result" where
  "score_deciles ss outs =
     bind_result (with_snapshots ss outs) (\<lambda>rows.
       Inr (map (\<lambda>(k, vs). (k, length vs, fmean vs))
         (horizon_grouped (List.map_filter (\<lambda>(v, s).
            let n = eligible_count ss (dn_decision_id s)
            in case dn_rank s of
                 Some r \<Rightarrow>
                   if returned v \<and> n \<noteq> 0
                   then Some ((do_horizon_minutes v, min 10 ((r - 1) * 10 div n + 1)), the (do_forward_return v))
                   else None
               | None \<Rightarrow> None) rows))))"

section \<open>Health\<close>

text \<open>A file of the scheduler's executions: unreadable, or a document.\<close>

datatype runtime_file = Unreadable | Runtime_Document json

definition effective_end :: "observation_experiment \<Rightarrow> utc \<Rightarrow> utc" where
  "effective_end e current =
     min current (case oe_completed_at e of None \<Rightarrow> oe_planned_end_at e | Some t \<Rightarrow> t)"

record runtime_health =
  rh_failed_cycles :: nat
  rh_runtime_errors :: nat
  rh_duplicate_execution_attempts :: nat
  rh_lock_contention_skips :: nat
  rh_reconciliation_errors :: nat

text \<open>The documents of the experiment's period; a file that does not tell its time is skipped.\<close>

definition runtime_executions :: "observation_experiment \<Rightarrow> utc \<Rightarrow> runtime_file list \<Rightarrow> json list" where
  "runtime_executions e now files =
     List.map_filter (\<lambda>f. case f of
        Unreadable \<Rightarrow> None
      | Runtime_Document v \<Rightarrow>
          (case time_at ''scheduled_at'' v of
             Inl _ \<Rightarrow> None
           | Inr t \<Rightarrow> if oe_started_at e \<le> t \<and> t \<le> effective_end e now then Some v else None)) files"

definition lane_job :: "(string \<rightharpoonup> string) \<Rightarrow> observation_experiment \<Rightarrow> string" where
  "lane_job names e =
     (case names (oe_strategy_version e) of None \<Rightarrow> ''crypto_dynamic_paper_rebalance'' | Some n \<Rightarrow> n)"

definition has_status :: "string \<Rightarrow> json \<Rightarrow> bool" where
  "has_status s v = (json_get ''status'' v = Some (JStr s))"

definition runtime_health_of ::
    "runtime_file list option \<Rightarrow> (string \<rightharpoonup> string) \<Rightarrow> utc \<Rightarrow> observation_experiment \<Rightarrow> runtime_health" where
  "runtime_health_of files names now e =
     (case files of
        None \<Rightarrow> \<lparr>rh_failed_cycles = 0, rh_runtime_errors = 0, rh_duplicate_execution_attempts = 0,
                 rh_lock_contention_skips = 0, rh_reconciliation_errors = 0\<rparr>
      | Some fs \<Rightarrow>
          (let lane = filter (\<lambda>v. json_get ''job_name'' v = Some (JStr (lane_job names e))) (runtime_executions e now fs);
               failed = filter (has_status ''FAILED'') lane
           in \<lparr>rh_failed_cycles = length failed, rh_runtime_errors = length failed,
               rh_duplicate_execution_attempts = length (filter (has_status ''SKIPPED_DUPLICATE'') lane),
               rh_lock_contention_skips = length (filter (has_status ''SKIPPED_LOCKED'') lane),
               rh_reconciliation_errors = length (filter (\<lambda>v.
                  has_infix ''reconciliation'' (case json_get ''job_name'' v of Some (JStr s) \<Rightarrow> s | _ \<Rightarrow> [])) failed)\<rparr>))"

record observation_health =
  oh_experiment_id :: string
  oh_status :: observation_status
  oh_expected_decision_cycles :: int
  oh_actual_decision_cycles :: int
  oh_missing_decision_cycles :: int
  oh_candidate_snapshots :: int
  oh_outcome_rows :: int
  oh_outcome_evaluation_backlog :: int
  oh_missing_data_outcomes :: int
  oh_unresolved_decisions :: int
  oh_quarantined_markets :: "string list"
  oh_missing_data_by_reason :: "(string \<times> nat) list"
  oh_runtime :: runtime_health

text \<open>What the reports read besides the tables; \<open>now\<close> is the second reading of the clock.\<close>

record report_sources =
  rs_files :: "runtime_file list option"
  rs_job_names :: "string \<rightharpoonup> string"
  rs_fetch :: market_fetch
  rs_ledger :: ledger
  rs_now :: utc
  rs_half_power :: "pyfloat \<Rightarrow> pyfloat"

definition observation_health_of ::
    "report_sources \<Rightarrow> string \<Rightarrow> utc \<Rightarrow> observation_store \<Rightarrow> observation_health result" where
  "observation_health_of src i current db =
     bind_result (observation i db) (\<lambda>e.
       let counts = health_counts_of i current db;
           expected = max 0 \<lfloor>total_seconds (effective_end e current - oe_started_at e) / 900\<rfloor>
       in Inr \<lparr>oh_experiment_id = i, oh_status = oe_status e,
               oh_expected_decision_cycles = expected,
               oh_actual_decision_cycles = int (hc_actual_decision_cycles counts),
               oh_missing_decision_cycles = max 0 (expected - int (hc_actual_decision_cycles counts)),
               oh_candidate_snapshots = int (hc_candidate_snapshots counts),
               oh_outcome_rows = int (hc_outcome_rows counts),
               oh_outcome_evaluation_backlog = max 0 (int (hc_matured_outcomes counts) - int (hc_outcome_rows counts)),
               oh_missing_data_outcomes = int (hc_missing_data_outcomes counts),
               oh_unresolved_decisions = int (hc_unresolved_decisions counts),
               oh_quarantined_markets = sort (map dn_market
                 (filter (\<lambda>s. dn_reason s = ''STALE_MARKET_DATA'') (latest_decision_snapshots i db))),
               oh_missing_data_by_reason = missing_reason_counts i db,
               oh_runtime = runtime_health_of (rs_files src) (rs_job_names src) (rs_now src) e\<rparr>)"

definition observation_health_at ::
    "report_sources \<Rightarrow> string \<Rightarrow> datetime option \<Rightarrow> observation_store \<Rightarrow> observation_health result" where
  "observation_health_at src i t db =
     bind_result (time_or_now t (rs_now src) ''now'') (\<lambda>current. observation_health_of src i current db)"

section \<open>The evidence report\<close>

definition benchmark_return :: "market_fetch \<Rightarrow> utc \<Rightarrow> utc \<Rightarrow> pyfloat option result" where
  "benchmark_return fetch start end_at =
     (if end_at \<le> start then Inr None
      else bind_result (build_universe [''BTC/KRW'']) (\<lambda>u.
        case bind_result (fetch u start end_at) (candles_of ''BTCKRW'') of
          Inl (FileNotFoundError _) \<Rightarrow> Inr None
        | Inl (ValueError _) \<Rightarrow> Inr None
        | Inl e \<Rightarrow> Inl e
        | Inr cs \<Rightarrow>
            if 2 \<le> length cs
            then bind_result (ddiv (close_price (last cs)) (close_price (hd cs))) (\<lambda>q. Inr (Some (flt (dsub q 1))))
            else Inr None))"

fun holding_hours ::
    "(string \<rightharpoonup> utc) \<Rightarrow> paper_execution list \<Rightarrow> pyfloat list" where
  "holding_hours opened [] = []"
| "holding_hours opened (x # xs) =
     (if pe_side x = BUY
      then holding_hours (if opened (pe_pair x) = None then opened(pe_pair x \<mapsto> pe_executed_at x) else opened) xs
      else case opened (pe_pair x) of
             None \<Rightarrow> holding_hours opened xs
           | Some t \<Rightarrow> fquot (total_seconds (pe_executed_at x - t)) 3600 # holding_hours (opened(pe_pair x := None)) xs)"

definition average_holding_hours :: "paper_execution list \<Rightarrow> pyfloat option" where
  "average_holding_hours xs = mean_or_none (holding_hours Map.empty (sort_key pe_executed_at xs))"

record observation_performance =
  of_starting_equity :: pyfloat
  of_ending_equity :: pyfloat
  of_gross_pnl :: pyfloat
  of_net_pnl :: pyfloat
  of_net_return :: pyfloat
  of_btc_benchmark_return :: "pyfloat option"
  of_excess_return_vs_btc :: "pyfloat option"
  of_maximum_drawdown :: pyfloat
  of_total_fees :: pyfloat
  of_total_turnover :: pyfloat

record observation_trades =
  tr_completed_trades :: nat
  tr_win_rate :: "pyfloat option"
  tr_average_winner :: "pyfloat option"
  tr_average_loser :: "pyfloat option"
  tr_profit_factor :: "pyfloat option"
  tr_expectancy_net_pnl :: "pyfloat option"
  tr_realized_pnl :: pyfloat
  tr_average_holding_hours :: "pyfloat option"

record observation_report =
  ob_duration_hours :: pyfloat
  ob_config_hash :: string
  ob_health :: observation_health
  ob_performance :: observation_performance
  ob_trades :: observation_trades
  ob_score_buckets :: "group_row list"
  ob_rank_analysis :: "group_row list"
  ob_reason_analysis :: "group_row list"
  ob_action_analysis :: "group_row list"

definition observed_performance ::
    "observation_experiment \<Rightarrow> pyfloat list \<Rightarrow> paper_execution list \<Rightarrow> pyfloat option \<Rightarrow> observation_performance" where
  "observed_performance e equity executions btc =
     (let ending = (if equity = [] then oe_starting_equity e else last equity);
          fees = float_sum (map (\<lambda>x. flt (pe_fee x)) executions);
          net = fsub ending (oe_starting_equity e);
          net_return = (if oe_starting_equity e \<noteq> 0 then fquot net (oe_starting_equity e) else 0)
      in \<lparr>of_starting_equity = oe_starting_equity e, of_ending_equity = ending, of_gross_pnl = fadd net fees,
          of_net_pnl = net, of_net_return = net_return, of_btc_benchmark_return = btc,
          of_excess_return_vs_btc = map_option (\<lambda>b. fsub net_return b) btc,
          of_maximum_drawdown = max_drawdown equity, of_total_fees = fees,
          of_total_turnover = float_sum (map (\<lambda>x. flt (dmul (pe_quantity x) (pe_price x))) executions)\<rparr>)"

definition observed_trades :: "paper_execution list \<Rightarrow> observation_trades" where
  "observed_trades executions =
     (let realized = map (\<lambda>x. flt (pe_realized_pnl x)) (filter (\<lambda>x. pe_side x = SELL) executions);
          winners = filter (\<lambda>x. 0 < x) realized;
          losers = filter (\<lambda>x. x < 0) realized
      in \<lparr>tr_completed_trades = length realized,
          tr_win_rate = (if realized = [] then None else Some (fquot (of_nat (length winners)) (of_nat (length realized)))),
          tr_average_winner = mean_or_none winners, tr_average_loser = mean_or_none losers,
          tr_profit_factor = (if losers = [] then None else Some (fquot (float_sum winners) (- float_sum losers))),
          tr_expectancy_net_pnl = mean_or_none realized, tr_realized_pnl = float_sum realized,
          tr_average_holding_hours = average_holding_hours executions\<rparr>)"

definition observation_report_of ::
    "report_sources \<Rightarrow> string \<Rightarrow> datetime option \<Rightarrow> observation_store \<Rightarrow> observation_report result" where
  "observation_report_of src i t db =
     bind_result (time_or_now t (rs_now src) ''now'') (\<lambda>current.
     bind_result (observation i db) (\<lambda>e.
     let ss = decision_snapshots i db;
         outs = decision_outcomes i db;
         finish = effective_end e current
     in bind_result (list_executions (oe_portfolio_id e) 10000 (rs_ledger src)) (\<lambda>all.
        let executions = filter (\<lambda>x. oe_started_at e \<le> pe_executed_at x \<and> pe_executed_at x \<le> finish) all
        in bind_result (benchmark_return (rs_fetch src) (oe_started_at e) finish) (\<lambda>btc.
           bind_result (observation_health_of src i current db) (\<lambda>health.
           bind_result (group_analysis ss outs By_Score) (\<lambda>by_score.
           bind_result (group_analysis ss outs By_Rank) (\<lambda>by_rank.
           bind_result (group_analysis ss outs By_Reason) (\<lambda>by_reason.
           bind_result (group_analysis ss outs By_Action) (\<lambda>by_action.
             Inr \<lparr>ob_duration_hours = fquot (total_seconds (finish - oe_started_at e)) 3600,
                  ob_config_hash = oe_config_hash e, ob_health = health,
                  ob_performance = observed_performance e (decision_equity ss) executions btc,
                  ob_trades = observed_trades executions,
                  ob_score_buckets = by_score, ob_rank_analysis = by_rank, ob_reason_analysis = by_reason,
                  ob_action_analysis = by_action\<rparr>)))))))))"

section \<open>Diagnostics\<close>

record observed_candidate =
  oc_snapshot :: decision_snapshot
  oc_reference_age_seconds :: "pyfloat option"
  oc_outcomes :: "(string \<times> decision_outcome) list"

record observation_diagnostics =
  og_experiment :: observation_experiment
  og_latest_decision_time :: "utc option"
  og_decision_times :: "utc list"
  og_recent_contexts :: "decision_market_context list"
  og_recent_candidates :: "observed_candidate list"
  og_horizon_summary :: "((int \<times> string) \<times> nat \<times> pyfloat) list"
  og_component_ic :: "((int \<times> string) \<times> nat \<times> pyfloat option) list"
  og_score_deciles :: "((int \<times> int) \<times> nat \<times> pyfloat) list"

definition recent_decision_times :: "decision_snapshot list \<Rightarrow> utc list" where
  "recent_decision_times ss = take 8 (rev (sorted_list_of_set (set (map dn_decision_time ss))))"

text \<open>\<^verbatim>\<open>rank or 9999\<close>.\<close>

definition candidate_order :: "decision_snapshot list \<Rightarrow> decision_snapshot list" where
  "candidate_order ss =
     sort_key (\<lambda>s. - dn_decision_time s) (sort_key (\<lambda>s. if dn_eligible s then 0 else 1 :: int)
       (sort_key (\<lambda>s. case dn_rank s of None \<Rightarrow> 9999 | Some r \<Rightarrow> if r = 0 then 9999 else r) (sort_key dn_market ss)))"

definition outcomes_by_horizon :: "decision_outcome list \<Rightarrow> string \<Rightarrow> (string \<times> decision_outcome) list" where
  "outcomes_by_horizon outs i =
     dict_of (\<lambda>v. int_text (do_horizon_minutes v)) id (filter (\<lambda>v. do_snapshot_id v = i) outs)"

definition observed_candidate_of :: "decision_outcome list \<Rightarrow> decision_snapshot \<Rightarrow> observed_candidate" where
  "observed_candidate_of outs s =
     \<lparr>oc_snapshot = s,
      oc_reference_age_seconds = map_option (\<lambda>t. total_seconds (dn_decision_time s - t)) (dn_reference_at s),
      oc_outcomes = outcomes_by_horizon outs (dn_snapshot_id s)\<rparr>"

definition observation_diagnostics_of ::
    "(pyfloat \<Rightarrow> pyfloat) \<Rightarrow> string \<Rightarrow> observation_store \<Rightarrow> observation_diagnostics result" where
  "observation_diagnostics_of half_power i db =
     bind_result (observation i db) (\<lambda>e.
     let ss = decision_snapshots i db;
         latest = latest_decision_snapshots i db;
         outs = decision_outcomes i db;
         decision_times = recent_decision_times ss
     in bind_result (market_contexts i db) (\<lambda>contexts.
        bind_result (cohort_summary ss outs) (\<lambda>summary.
        bind_result (component_ic half_power ss outs) (\<lambda>ic.
        bind_result (score_deciles ss outs) (\<lambda>deciles.
          Inr \<lparr>og_experiment = e,
               og_latest_decision_time = (case latest of [] \<Rightarrow> None | s # _ \<Rightarrow> Some (dn_decision_time s)),
               og_decision_times = decision_times,
               og_recent_contexts = sort_key (\<lambda>c. - mx_decision_time c)
                 (filter (\<lambda>c. mx_decision_time c \<in> set decision_times) contexts),
               og_recent_candidates = map (observed_candidate_of outs)
                 (candidate_order (filter (\<lambda>s. dn_decision_time s \<in> set decision_times) ss)),
               og_horizon_summary = summary, og_component_ic = ic, og_score_deciles = deciles\<rparr>)))))"

end
