(* ===== verification/RegistryProofs.thy ===== *)
theory RegistryProofs
  imports Registry
begin

text \<open>
  What the registry promises: a profile it publishes is the one it loads, a published file never
  changes, and what it loads has passed every check.
\<close>

section \<open>The field table\<close>

fun has_kind :: "field_kind \<Rightarrow> policy_value \<Rightarrow> bool" where
  "has_kind FInt v = (\<exists>n. v = PInt n)"
| "has_kind FDecimal v = (\<exists>d. v = PDecimal d)"
| "has_kind FFloat v = (\<exists>r. v = PFloat r)"
| "has_kind FDuration v = (\<exists>t. v = PDuration t)"
| "has_kind FText v = (\<exists>s. v = PText s)"
| "has_kind FTexts v = (\<exists>ss. v = PTexts ss)"

definition fits :: "field_kind \<times> bool \<Rightarrow> policy_value \<Rightarrow> bool" where
  "fits k v \<longleftrightarrow> has_kind (fst k) v \<or> snd k \<and> v = PNone"

lemma optional_fits [simp]:
  "fits (FDecimal, True) (optional_value PDecimal x)"
  "fits (FFloat, True) (optional_value PFloat y)"
  "fits (FDuration, True) (optional_value PDuration z)"
  by (simp_all add: fits_def optional_value_def split: option.split)

lemma plain_fits [simp]:
  "fits (FInt, b) (PInt n)" "fits (FDecimal, b) (PDecimal d)" "fits (FFloat, b) (PFloat r)"
  "fits (FDuration, b) (PDuration t)" "fits (FText, b) (PText s)" "fits (FTexts, b) (PTexts ss)"
  by (simp_all add: fits_def)

lemma option_back [simp]:
  "value_option as_decimal (optional_value PDecimal x) = x"
  "value_option as_float (optional_value PFloat x) = x"
  "value_option as_duration (optional_value PDuration y) = y"
  by (simp_all add: value_option_def optional_value_def split: option.split)

lemma field_values_fit: "list_all2 fits (map snd policy_fields) (field_values p)"
  by (simp add: policy_fields_def field_values_def)

lemma policy_of_field_values: "policy_of_values (dp_strategy_version p) (field_values p) = p"
  by (cases p) (simp add: policy_of_values_def field_values_def)

lemma field_values_length [simp]: "length (field_values p) = length field_names"
  using list_all2_lengthD [OF field_values_fit] by (simp add: field_names_def)

lemma field_names_distinct: "distinct field_names"
  by code_simp

lemma schema_subset:
  "set schema_v1_fields \<subseteq> set schema_v2_fields" "set schema_v2_fields \<subseteq> set schema_v3_fields"
  "set schema_v3_fields \<subseteq> set schema_v4_fields" "set schema_v4_fields \<subseteq> set field_names"
proof -
  have "list_all (\<lambda>n. List.member field_names n) schema_v4_fields" by code_simp
  then show "set schema_v4_fields \<subseteq> set field_names" by (auto simp: list_all_iff)
qed (auto simp: schema_v2_fields_def schema_v3_fields_def schema_v4_fields_def)

section \<open>Encoding and decoding\<close>

definition representable :: "policy_value \<Rightarrow> bool" where
  "representable v =
     (case v of PDuration t \<Rightarrow> - 86399999913600 \<le> t div 1000000 \<and> t div 1000000 \<le> 86399999999999 | _ \<Rightarrow> True)"

lemma encode_text_Inr: "encode_text s = Inr t \<Longrightarrow> t = TText s"
  by (auto simp: encode_text_def py_result)

lemma map_encode_text: "map_result encode_text ss = Inr ts \<Longrightarrow> ts = map TText ss"
  by (induction ss arbitrary: ts) (auto simp: py_result dest: encode_text_Inr)

lemma toml_texts_back: "toml_texts (TArray (map TText ss)) = Some ss"
  by (simp add: list_all_iff comp_def)

lemma decode_encode:
  assumes "encode_value name v = Inr t" "has_kind k v" "representable v"
  shows "decode_value name t k = Inr v"
proof (cases k)
  case FDuration
  then obtain d where v: "v = PDuration d" using assms(2) by auto
  then have d: "d mod 1000000 = 0" "t = TInt (d div 1000000)" using assms(1) by (auto split: if_splits)
  then have "1000000 * (d div 1000000) = d" using mult_div_mod_eq [of 1000000 d] by simp
  then show ?thesis
    using FDuration v d assms(3) by (simp add: duration_of_seconds_def representable_def seconds_def)
next
  case FTexts
  then obtain ss where v: "v = PTexts ss" using assms(2) by auto
  then obtain ts where ts: "map_result encode_text ss = Inr ts" "t = TArray ts"
    using assms(1) by (auto simp: py_result)
  then show ?thesis using FTexts v toml_texts_back map_encode_text [OF ts(1)] by simp
next
  case FText
  then obtain s where v: "v = PText s" using assms(2) by auto
  then have "t = TText s" using assms(1) encode_text_Inr by simp
  then show ?thesis using FText v by simp
qed (use assms(1,2) in \<open>auto\<close>)

definition encode_entry :: "string \<times> policy_value \<Rightarrow> (string \<times> toml) result" where
  "encode_entry = (\<lambda>(n, v). bind_result (encode_value n v) (\<lambda>t. Inr (n, t)))"

definition decode_entry :: "string \<times> toml \<Rightarrow> (string \<times> policy_value) result" where
  "decode_entry = (\<lambda>(n, raw). bind_result (decode_value n raw (field_kind_of n)) (\<lambda>v. Inr (n, v)))"

lemma decode_table:
  assumes "map_result encode_entry xs = Inr table"
    and "\<And>n v. (n, v) \<in> set xs \<Longrightarrow> has_kind (field_kind_of n) v \<and> representable v"
  shows "map_result decode_entry table = Inr xs \<and> map fst table = map fst xs"
  using assms
proof (induction xs arbitrary: table)
  case (Cons x xs)
  obtain n v where x: "x = (n, v)" by fastforce
  obtain t rest where t: "encode_value n v = Inr t" "map_result encode_entry xs = Inr rest" "table = (n, t) # rest"
    using Cons.prems(1) x by (auto simp: py_result encode_entry_def)
  have "decode_value n t (field_kind_of n) = Inr v" using decode_encode [OF t(1)] Cons.prems(2) [of n v] x by simp
  moreover have "has_kind (field_kind_of n) v \<and> representable v" if "(n, v) \<in> set xs" for n v
    using Cons.prems(2) list.set_intros(2) [OF that] by blast
  note Cons.IH [OF t(2) this]
  ultimately show ?case using t x by (simp add: decode_entry_def)
qed simp

lemma field_at:
  assumes "(n, v) \<in> set (zip field_names (field_values p))"
  shows "fits (field_kind_of n, n \<in> set optional_fields) v \<and> n \<in> set field_names"
proof -
  obtain i where i: "i < length field_names" "field_names ! i = n" "field_values p ! i = v"
    using assms by (auto simp: set_zip)
  obtain m k opt where f: "policy_fields ! i = (m, k, opt)" by (cases "policy_fields ! i") auto
  have len: "i < length policy_fields" using i(1) by (simp add: field_names_def)
  have m: "m = n" using f len i(2) by (simp add: field_names_def)
  have mem: "(n, k, opt) \<in> set policy_fields" using f m len nth_mem by metis
  have dist: "distinct (map fst policy_fields)" using field_names_distinct by (simp add: field_names_def)
  have k: "field_kind_of n = k"
    using map_of_is_SomeI [OF dist mem] by (simp add: field_kind_of_def)
  have "opt \<Longrightarrow> n \<in> set optional_fields" using mem by (force simp: optional_fields_def)
  moreover have "fits (k, opt) v"
    using list_all2_nthD2 [OF field_values_fit, of i p] i f len by (simp add: field_names_def)
  ultimately show ?thesis using k i nth_mem unfolding fits_def by auto
qed

section \<open>The fields a schema leaves out\<close>

lemma default_elsewhere:
  assumes "changed_fields schema p = []" "i < length field_names" "field_names ! i \<notin> set schema"
  shows "field_values p ! i = field_values policy_v21 ! i"
proof (rule ccontr)
  assume "field_values p ! i \<noteq> field_values policy_v21 ! i"
  moreover have "(field_names ! i, field_values p ! i, field_values policy_v21 ! i)
      \<in> set (zip field_names (zip (field_values p) (field_values policy_v21)))"
    using assms(2) by (auto simp: set_zip)
  ultimately show False
    using assms(1,3) by (auto simp: changed_fields_def filter_empty_conv)
qed

lemma schema_of_policy:
  assumes "schema_version_for_policy p = Inr n" "policy_fields_for_schema n = Inr schema"
  shows "n \<in> {1, 2, 3, 4, 5} \<and> check_schema n (dp_strategy_version p) = Inr ()
    \<and> set schema \<subseteq> set field_names
    \<and> (\<forall>i < length field_names. field_names ! i \<notin> set schema
         \<longrightarrow> field_values p ! i = field_values policy_v21 ! i)"
proof -
  have "set schema \<subseteq> set field_names" "n \<in> {1, 2, 3, 4, 5}"
    using assms(2) schema_subset by (auto simp: policy_fields_for_schema_def split: if_splits)
  moreover have "check_schema n (dp_strategy_version p) = Inr ()"
    using assms(1) unfolding schema_version_for_policy_def Let_def check_schema_def
    by (auto simp: legacy_versions_def schema_v2_versions_def schema_v3_versions_def schema_v4_versions_def
        split: if_splits)
  moreover have "changed_fields schema p = [] \<or> set schema = set field_names"
    using assms unfolding schema_version_for_policy_def Let_def policy_fields_for_schema_def
    by (auto split: if_splits)
  ultimately show ?thesis using default_elsewhere by (metis nth_mem)
qed

lemma document_values_back:
  assumes defaults: "\<forall>i < length field_names. field_names ! i \<notin> set schema
         \<longrightarrow> field_values p ! i = field_values policy_v21 ! i"
  defines "vs \<equiv> schema_values schema p"
  shows "document_values (map fst (filter (\<lambda>(n, v). v = PNone) vs)) (filter (\<lambda>(n, v). v \<noteq> PNone) vs) = field_values p"
proof (rule nth_equalityI)
  fix i
  assume "i < length (document_values (map fst (filter (\<lambda>(n, v). v = PNone) vs)) (filter (\<lambda>(n, v). v \<noteq> PNone) vs))"
  then have i: "i < length field_names" by (simp add: document_values_def)
  let ?n = "field_names ! i" and ?v = "field_values p ! i"
  have "distinct (map fst (zip field_names (field_values p)))" using field_names_distinct by simp
  then have dist: "distinct (map fst vs)" unfolding vs_def schema_values_def by (rule distinct_map_filter)
  have only: "(?n, v) \<in> set vs \<longleftrightarrow> ?n \<in> set schema \<and> v = ?v" for v
    using i field_names_distinct
    by (auto simp: vs_def schema_values_def set_zip nth_eq_iff_index_eq)
  have found: "map_of (filter (\<lambda>(n, v). v \<noteq> PNone) vs) ?n = (if ?n \<in> set schema \<and> ?v \<noteq> PNone then Some ?v else None)"
  proof (cases "?n \<in> set schema \<and> ?v \<noteq> PNone")
    case True
    then have "(?n, ?v) \<in> set (filter (\<lambda>(n, v). v \<noteq> PNone) vs)" using only by simp
    then show ?thesis using True map_of_is_SomeI [OF distinct_map_filter [OF dist]] by auto
  next
    case False
    then have "?n \<notin> fst ` set (filter (\<lambda>(n, v). v \<noteq> PNone) vs)" using only by auto
    then have "map_of (filter (\<lambda>(n, v). v \<noteq> PNone) vs) ?n = None" unfolding map_of_eq_None_iff .
    then show ?thesis using False by (simp only: if_False)
  qed
  have "?n \<in> set (map fst (filter (\<lambda>(n, v). v = PNone) vs)) \<longleftrightarrow> ?n \<in> set schema \<and> ?v = PNone"
    using only by force
  then show "document_values (map fst (filter (\<lambda>(n, v). v = PNone) vs)) (filter (\<lambda>(n, v). v \<noteq> PNone) vs) ! i = ?v"
    using found defaults i by (auto simp: document_values_def)
qed (simp add: document_values_def)

section \<open>Publishing and loading\<close>

lemma first_failure_Inr: "first_failure checks = Inr () \<longleftrightarrow> (\<forall>c \<in> set checks. \<not> fst c)"
  by (induction checks rule: first_failure.induct) auto

lemma first_failure_unit: "first_failure checks = Inr u \<longleftrightarrow> first_failure checks = Inr ()"
  by simp

lemma validate_version_ok: "validate_version v = Inr u \<longleftrightarrow> valid_version v"
  by (simp add: validate_version_def raise_if_def)

lemma validate_version_Inr: "valid_version v \<Longrightarrow> validate_version v = Inr ()"
  by (simp add: validate_version_ok)

lemma serialize_cases:
  assumes "serialize_strategy_policy p = Inr document"
  obtains n schema table where
    "valid_version (dp_strategy_version p)" "validate_policy p = Inr ()"
    "schema_version_for_policy p = Inr n" "policy_fields_for_schema n = Inr schema"
    "map_result encode_entry (filter (\<lambda>(n, v). v \<noteq> PNone) (schema_values schema p)) = Inr table"
    "document = [(''schema_version'', TInt n), (''strategy_version'', TText (dp_strategy_version p)),
       (''null_fields'', TArray (map TText (map fst (filter (\<lambda>(n, v). v = PNone) (schema_values schema p))))),
       (''policy'', TTable table)]"
  using assms unfolding serialize_strategy_policy_def Let_def encode_entry_def
  by (auto simp: bind_result_Inr validate_version_ok)

lemma schema_values_fit:
  assumes "(n, v) \<in> set (schema_values schema p)"
  shows "fits (field_kind_of n, n \<in> set optional_fields) v \<and> n \<in> set schema \<and> v \<in> set (field_values p)"
  using assms field_at [of n v p] by (auto simp: schema_values_def dest: set_zip_rightD)

lemma schema_values_names:
  assumes "set schema \<subseteq> set field_names"
  shows "fst ` set (schema_values schema p) = set schema" "distinct (map fst (schema_values schema p))"
proof -
  have "map fst (zip field_names (field_values p)) = field_names" by simp
  then have "fst ` set (zip field_names (field_values p)) = set field_names" by (metis list.set_map)
  moreover have "fst ` set (schema_values schema p) = fst ` set (zip field_names (field_values p)) \<inter> set schema"
    unfolding schema_values_def by (auto simp: image_iff)
  ultimately show "fst ` set (schema_values schema p) = set schema" using assms by blast
  show "distinct (map fst (schema_values schema p))"
    unfolding schema_values_def by (rule distinct_map_filter) (simp add: field_names_distinct)
qed

lemma check_names_Inr:
  "check_names a b c = Inr () \<longleftrightarrow>
     set a \<inter> set b = {} \<and> set a \<union> set b \<subseteq> set c \<and> set c \<subseteq> set a \<union> set b \<and> set b \<subseteq> set optional_fields"
  by (auto simp: check_names_def first_failure_Inr)

lemma names_checked:
  fixes p :: universe_policy
  assumes "set schema \<subseteq> set field_names"
  defines "vs \<equiv> schema_values schema p"
  shows "check_names (map fst (filter (\<lambda>(n, v). v \<noteq> PNone) vs)) (map fst (filter (\<lambda>(n, v). v = PNone) vs)) schema = Inr ()"
proof -
  let ?set = "fst ` set (filter (\<lambda>(n, v). v \<noteq> PNone) vs)" and ?null = "fst ` set (filter (\<lambda>(n, v). v = PNone) vs)"
  have names: "fst ` set vs = set schema" and dist: "distinct (map fst vs)"
    using schema_values_names [OF assms(1)] by (simp_all add: vs_def)
  have "?set \<inter> ?null = {}"
    using eq_key_imp_eq_value [OF dist] by (auto simp del: split_paired_All split_paired_Ex)
  moreover have "?set \<union> ?null = set schema" using names by (auto simp: image_iff)
  moreover have "n \<in> set optional_fields" if "n \<in> ?null" for n
    using that schema_values_fit [of n PNone schema p] has_kind.elims(2) [of _ PNone] by (force simp: vs_def fits_def)
  ultimately show ?thesis unfolding check_names_Inr set_map by blast
qed

lemma serialize_roundtrip:
  assumes serialized: "serialize_strategy_policy p = Inr document"
    and "list_all representable (field_values p)"
  shows "policy_from_document document (Some (dp_strategy_version p)) = Inr p"
proof -
  obtain n schema table where
    version: "valid_version (dp_strategy_version p)" and valid: "validate_policy p = Inr ()"
    and n: "schema_version_for_policy p = Inr n" "policy_fields_for_schema n = Inr schema"
    and table: "map_result encode_entry (filter (\<lambda>(n, v). v \<noteq> PNone) (schema_values schema p)) = Inr table"
    and document: "document = [(''schema_version'', TInt n), (''strategy_version'', TText (dp_strategy_version p)),
       (''null_fields'', TArray (map TText (map fst (filter (\<lambda>(n, v). v = PNone) (schema_values schema p))))),
       (''policy'', TTable table)]"
    using serialize_cases [OF serialized] by metis
  define vs where "vs = schema_values schema p"
  let ?null = "map fst (filter (\<lambda>(n, v). v = PNone) vs)"
  note schema = schema_of_policy [OF n]
  have names: "set schema \<subseteq> set field_names" using schema by blast
  have fit: "has_kind (field_kind_of m) v \<and> representable v"
    if "(m, v) \<in> set (filter (\<lambda>(n, v). v \<noteq> PNone) vs)" for m v
    using that schema_values_fit [of m v schema p] assms(2) by (auto simp: vs_def fits_def list_all_iff)
  have decoded: "map_result decode_entry table = Inr (filter (\<lambda>(n, v). v \<noteq> PNone) vs)"
    and keys: "map fst table = map fst (filter (\<lambda>(n, v). v \<noteq> PNone) vs)"
    using decode_table [OF table [folded vs_def] fit] by blast+
  have "distinct ?null"
    using schema_values_names(2) [OF names, of p] by (simp add: vs_def distinct_map_filter)
  then have nulls: "read_null_fields (TArray (map TText ?null)) = Inr ?null"
    unfolding read_null_fields_def toml_texts_back by simp
  have restored: "document_values ?null (filter (\<lambda>(n, v). v \<noteq> PNone) vs) = field_values p"
    using document_values_back [of schema p] schema unfolding vs_def by blast
  have "policy_of_table n (dp_strategy_version p) ?null table = Inr p"
    using n(2) names_checked [OF names, of p] decoded keys restored valid
    by (simp add: policy_of_table_def vs_def [symmetric] decode_entry_def policy_of_field_values)
  moreover have "check_root document = Inr ()"
    by (simp add: check_root_def document root_fields_def insert_Diff_if)
  moreover have "read_schema_version (TInt n) = Inr n" using schema by (auto simp: read_schema_version_def)
  ultimately show ?thesis
    using schema nulls version
    by (simp add: policy_from_document_def document toml_field_def validate_version_Inr raise_if_def vs_def [symmetric])
qed

lemma toml_stem_file_name: "v \<noteq> [] \<Longrightarrow> toml_stem (file_name v) = Some v"
  by (simp add: toml_stem_def file_name_def toml_suffix_def)

lemma valid_version_nonempty: "valid_version v \<Longrightarrow> v \<noteq> []"
  by (auto simp: valid_version_def version_prefix_def)

lemma written_fresh:
  assumes "write_policy (file_name (dp_strategy_version p)) bytes p before entries = (after, Inr ())"
    and "map_of before (file_name (dp_strategy_version p)) = None"
    and "map_of entries (file_name (dp_strategy_version p)) = None"
  obtains document where "serialize_strategy_policy p = Inr document"
    "after = (file_name (dp_strategy_version p), Regular_File bytes (Canonical document)) # entries"
  using assms unfolding write_policy_def link_snapshot_def
  by (auto split: option.splits if_splits sum.splits)

section \<open>Published files do not change\<close>

lemma link_keeps: "map_of entries k = Some e \<Longrightarrow> map_of (fst (link_snapshot name bytes d entries)) k = Some e"
  by (auto simp: link_snapshot_def split: option.split)

lemma write_keeps: "map_of entries k = Some e \<Longrightarrow> map_of (fst (write_policy name bytes p before entries)) k = Some e"
  using link_keeps by (auto simp: write_policy_def split: option.split sum.split)

text \<open>
  Any number of writers, each of which has tested a state of the directory of its own (the present one
  or an older one) before it links its file.
\<close>

inductive registry_history :: "registry_directory \<Rightarrow> registry_directory \<Rightarrow> bool" for entries0 where
  unwritten: "registry_history entries0 entries0"
| written: "registry_history entries0 entries \<Longrightarrow>
    registry_history entries0 (fst (write_policy name bytes p before entries))"

lemma load_file_depends:
  "map_of entries name = map_of entries' name \<Longrightarrow>
   load_strategy_policy entries name e = load_strategy_policy entries' name e"
  unfolding load_strategy_policy_def by (erule ssubst) (rule refl)

lemma load_depends:
  "map_of entries (file_name v) = map_of entries' (file_name v) \<Longrightarrow> registry_load entries v = registry_load entries' v"
proof -
  assume eq: "map_of entries (file_name v) = map_of entries' (file_name v)"
  show ?thesis unfolding registry_load_def eq load_file_depends [OF eq] by (rule refl)
qed

lemma load_present: "registry_load entries v = Inr p \<Longrightarrow> \<exists>e. map_of entries (file_name v) = Some e"
  by (cases "map_of entries (file_name v)") (simp_all add: registry_load_def bind_result_Inr)

lemma history_keeps: "registry_history entries0 entries \<Longrightarrow> map_of entries0 k = Some e \<Longrightarrow> map_of entries k = Some e"
  by (induction rule: registry_history.induct) (simp_all add: write_keeps)

section \<open>What a loaded profile satisfies\<close>

lemma loaded_valid:
  assumes "registry_load entries version = Inr p"
  shows "validate_policy p = Inr () \<and> dp_strategy_version p = version"
proof -
  have table: "policy_of_table n v nulls table = Inr q \<Longrightarrow> validate_policy q = Inr () \<and> dp_strategy_version q = v" for n v nulls table q
    by (auto simp: policy_of_table_def Let_def bind_result_Inr policy_of_values_def)
  have document: "policy_from_document d (Some v) = Inr q \<Longrightarrow> validate_policy q = Inr () \<and> dp_strategy_version q = v" for d v q
    unfolding policy_from_document_def
    by (auto simp: bind_result_Inr raise_if_def dest!: table split: if_splits toml.splits)
  have "valid_version version" using assms by (auto simp: registry_load_def bind_result_Inr validate_version_ok)
  then have "toml_stem (file_name version) = Some version" using valid_version_nonempty toml_stem_file_name by blast
  then show ?thesis
    using assms unfolding registry_load_def load_strategy_policy_def
    by (auto simp: bind_result_Inr dest!: document split: option.splits registry_entry.splits if_splits)
qed

named_theorems policy_check "the checks of a strategy profile"

lemmas policy_check_groups [policy_check] =
  policy_checks_def size_checks_def exposure_checks_def mode_checks_def gate_checks_def score_checks_def
  history_checks_def duration_checks_def not_positive_def outside_decimal_def outside_float_def some_float_def

lemma valid_policy_facts:
  assumes "validate_policy p = Inr ()"
  shows "\<forall>c \<in> set (size_checks p). \<not> fst c" "\<forall>c \<in> set (exposure_checks p). \<not> fst c"
    "\<forall>c \<in> set (mode_checks p). \<not> fst c" "\<forall>c \<in> set (gate_checks p). \<not> fst c"
    "\<forall>c \<in> set (score_checks p). \<not> fst c" "\<forall>c \<in> set (history_checks p). \<not> fst c"
    "\<forall>c \<in> set (duration_checks p). \<not> fst c"
  using assms unfolding validate_policy_def first_failure_Inr policy_checks_def by auto

end
