(* ===== verification/Publication.thy ===== *)
theory Publication
  imports RegistryProofs
begin

text \<open>
  The published profiles in the registry: all of them pass the checks of the registry and come back
  from their document, and the properties of publishing and loading.
\<close>

section \<open>The published profiles\<close>

lemma flt_le_1: "x \<le> 1 \<Longrightarrow> flt x \<le> 1"
  by (rule flt.rnd_le_fixed) simp_all

lemma flt_mono: "x \<le> y \<Longrightarrow> flt x \<le> flt y"
  unfolding flt_def by (rule sig_round_mono) simp_all

lemma flt_not_above: "x \<le> 1 \<Longrightarrow> \<not> 1 < flt x"
  using flt_le_1 by (simp add: not_less)

lemma flt_below_1: "x \<le> 9 / 10 \<Longrightarrow> flt x < 1"
proof -
  assume "x \<le> 9 / 10"
  then have "flt x \<le> flt (15 / 16)" by (intro flt_mono) simp
  also have "flt (15 / 16) = 15 / 16" using flt_exact [of 15 "-4"] by (simp add: power_int_def power_one_over)
  finally show ?thesis by simp
qed

lemma flt_signs [simp]: "0 \<le> flt x \<longleftrightarrow> 0 \<le> x" "0 < flt x \<longleftrightarrow> 0 < x" "flt x < 0 \<longleftrightarrow> x < 0" "flt x \<le> 0 \<longleftrightarrow> x \<le> 0"
  using flt.rnd_nonneg_iff [of x] flt.rnd_pos_iff [of x] by linarith+

lemma reach: "dmul (2 / 5) 3 = 6 / 5" "dmul (1 / 4) 2 = 1 / 2"
  unfolding dmul_def using dec_exact [of 12 "-1"] dec_exact [of 5 "-1"] by (simp_all add: power_int_def)

lemma not_blank:
  "py_strip ''btc-squeeze-v1'' \<noteq> []" "py_strip ''btc-crowding-v1'' \<noteq> []"
  "py_strip ''btc-squeeze-v2-market-streams'' \<noteq> []" "py_strip ''btc-squeeze-v3-mark-index-basis-proxy'' \<noteq> []"
  by code_simp+

lemma assets_ok:
  "valid_asset ''DAI''" "valid_asset ''RLUSD''" "valid_asset ''USD1''" "valid_asset ''USDC''"
  "valid_asset ''USDE''" "valid_asset ''USDG''" "valid_asset ''USDS''" "valid_asset ''USDT''"
  by code_simp+

lemma texts_ok:
  "is_ok (toml_string ''FIXED'')" "is_ok (toml_string ''BULLISH_REGIME'')" "is_ok (toml_string ''RAW_MOMENTUM'')"
  "is_ok (toml_string ''CALM_PULLBACK_RANK'')" "is_ok (toml_string ''EXPECTED_RETURN'')"
  "is_ok (toml_string ''UNIT_INTERVAL'')" "is_ok (toml_string ''DISABLED'')" "is_ok (toml_string ''SCORE_LINEAR'')"
  "is_ok (toml_string ''SHADOW'')" "is_ok (toml_string ''ENTRY_GATE'')" "is_ok (toml_string ''LONG_SHORT_GATE'')"
  "is_ok (toml_string ''SOFT_PENALTY'')" "is_ok (toml_string ''btc-squeeze-v1'')"
  "is_ok (toml_string ''btc-squeeze-v2-market-streams'')" "is_ok (toml_string ''btc-squeeze-v3-mark-index-basis-proxy'')"
  "is_ok (toml_string ''btc-crowding-v1'')" "is_ok (toml_string ''DAI'')" "is_ok (toml_string ''RLUSD'')"
  "is_ok (toml_string ''USD1'')" "is_ok (toml_string ''USDC'')" "is_ok (toml_string ''USDE'')"
  "is_ok (toml_string ''USDG'')" "is_ok (toml_string ''USDS'')" "is_ok (toml_string ''USDT'')"
  by code_simp+

definition encodable :: "policy_value \<Rightarrow> bool" where
  "encodable v \<longleftrightarrow> representable v \<and>
     (case v of PDuration t \<Rightarrow> t mod 1000000 = 0 | PText s \<Rightarrow> is_ok (toml_string s)
      | PTexts ss \<Rightarrow> list_all (\<lambda>s. is_ok (toml_string s)) ss | _ \<Rightarrow> True)"

definition publishable :: "universe_policy \<Rightarrow> bool" where
  "publishable p \<longleftrightarrow> valid_version (dp_strategy_version p) \<and> validate_policy p = Inr ()
     \<and> is_ok (schema_version_for_policy p) \<and> list_all encodable (field_values p)"

lemma encode_text_ok: "is_ok (toml_string s) \<Longrightarrow> \<exists>t. encode_text s = Inr t"
  by (auto simp: is_ok_def encode_text_def split: sum.splits)

lemma encode_texts_ok: "list_all (\<lambda>s. is_ok (toml_string s)) ss \<Longrightarrow> \<exists>ts. map_result encode_text ss = Inr ts"
  by (induction ss) (auto dest!: encode_text_ok)

lemma encode_ok: "encodable v \<Longrightarrow> v \<noteq> PNone \<Longrightarrow> \<exists>t. encode_value n v = Inr t"
  by (cases v) (auto simp: encodable_def dest!: encode_text_ok encode_texts_ok)

lemma encode_table_ok:
  "\<forall>(n, v) \<in> set xs. encodable v \<and> v \<noteq> PNone \<Longrightarrow> \<exists>table. map_result encode_entry xs = Inr table"
proof (induction xs)
  case (Cons x xs)
  then obtain n v rest where x: "x = (n, v)" "encodable v" "v \<noteq> PNone" and rest: "map_result encode_entry xs = Inr rest"
    by (cases x) auto
  obtain t where "encode_value n v = Inr t" using encode_ok x by blast
  then show ?case using x rest by (simp add: encode_entry_def)
qed simp

lemma publishable_serializes:
  assumes "publishable p"
  shows "\<exists>document. serialize_strategy_policy p = Inr document
    \<and> policy_from_document document (Some (dp_strategy_version p)) = Inr p"
proof -
  obtain n where n: "schema_version_for_policy p = Inr n"
    using assms by (auto simp: publishable_def is_ok_def split: sum.splits)
  have "n \<in> {1, 2, 3, 4, 5}"
    using n unfolding schema_version_for_policy_def Let_def by (auto split: if_splits)
  then obtain schema where schema: "policy_fields_for_schema n = Inr schema"
    by (auto simp: policy_fields_for_schema_def)
  have fields: "list_all encodable (field_values p)" using assms by (simp add: publishable_def)
  then have "\<forall>(n, v) \<in> set (filter (\<lambda>(n, v). v \<noteq> PNone) (schema_values schema p)). encodable v \<and> v \<noteq> PNone"
    using schema_values_fit by (fastforce simp: list_all_iff)
  then obtain table where
    table: "map_result encode_entry (filter (\<lambda>(n, v). v \<noteq> PNone) (schema_values schema p)) = Inr table"
    using encode_table_ok by blast
  have "\<exists>document. serialize_strategy_policy p = Inr document"
    using assms n schema table
    by (simp add: serialize_strategy_policy_def publishable_def validate_version_Inr encode_entry_def Let_def)
  moreover have "list_all representable (field_values p)"
    using fields by (auto simp: list_all_iff encodable_def)
  ultimately show ?thesis using serialize_roundtrip by blast
qed

lemma penalties_below: "\<not> 1 \<le> flt (4 / 5)" "\<not> 1 \<le> flt (7 / 10)"
  using flt_below_1 by (simp_all add: not_le)

lemmas profile_facts = penalties_below flt_not_above flt_below_1 flt_le_1 flt_mono reach not_blank assets_ok texts_ok
  some_value_def crossed_def duration_defs first_failure_Inr validate_policy_def Let_def not_less

lemma v21_valid: "validate_policy policy_v21 = Inr ()"
  and v22_valid: "validate_policy policy_v22 = Inr ()"
  and v23_valid: "validate_policy policy_v23 = Inr ()"
  by (simp_all add: profile_facts policy_check policy_defs)

lemma v24_valid: "validate_policy policy_v24 = Inr ()"
  and v25_valid: "validate_policy policy_v25 = Inr ()"
  by (simp_all add: profile_facts policy_check policy_defs)

lemma v26_valid: "validate_policy policy_v26 = Inr ()"
  and v27_valid: "validate_policy policy_v27 = Inr ()"
  and v27_accuracy_valid: "validate_policy policy_v27_accuracy = Inr ()"
  by (simp_all add: profile_facts policy_check policy_defs)

lemma encodable_simps [simp]:
  "encodable (PInt n)" "encodable (PDecimal d)" "encodable (PFloat r)"
  "encodable (PText s) \<longleftrightarrow> is_ok (toml_string s)"
  "encodable (PTexts ss) \<longleftrightarrow> list_all (\<lambda>s. is_ok (toml_string s)) ss"
  "encodable (optional_value PDecimal x)" "encodable (optional_value PFloat x)"
  "encodable (optional_value PDuration y) \<longleftrightarrow> (case y of None \<Rightarrow> True | Some t \<Rightarrow> encodable (PDuration t))"
  "encodable (PDuration t) \<longleftrightarrow>
     t mod 1000000 = 0 \<and> - 86399999913600 \<le> t div 1000000 \<and> t div 1000000 \<le> 86399999999999"
  by (auto simp: encodable_def representable_def optional_value_def split: option.split)

lemma fields_encodable:
  "list_all encodable (field_values p) \<longleftrightarrow>
     list_all (\<lambda>s. is_ok (toml_string s)) (dp_excluded_base_assets p @
       [dp_turnover_budget_mode p, dp_scoring_method p, dp_score_scale p, dp_expected_return_calibration_mode p,
        dp_derivatives_overlay_mode p, dp_derivatives_feature_version p, dp_crowding_overlay_mode p,
        dp_crowding_feature_version p])
     \<and> list_all (\<lambda>t. encodable (PDuration t))
         [dp_reentry_cooldown p, dp_derivatives_maximum_age p, dp_crowding_maximum_age p]
     \<and> list_all (\<lambda>y. case y of None \<Rightarrow> True | Some t \<Rightarrow> encodable (PDuration t))
         [dp_maximum_holding_period p, dp_maximum_market_data_age p, dp_selection_concentration_lookback p,
          dp_rolling_asset_performance_lookback p, dp_maximum_entry_market_data_age p]"
  by (simp add: field_values_def del: encodable_simps(9)) blast

text \<open>The fields of a schema are the first ones of the profile: later fields were added at the end.\<close>

lemma schema_prefixes:
  "schema_v1_fields = take 46 field_names" "schema_v2_fields = take 66 field_names"
  "schema_v3_fields = take 69 field_names" "schema_v4_fields = take 74 field_names"
  by code_simp+

lemma unchanged:
  assumes "schema = take k field_names" "drop k (field_values p) = drop k (field_values policy_v21)"
  shows "changed_fields schema p = []"
proof -
  have "field_names ! i \<in> set schema \<or> field_values p ! i = field_values policy_v21 ! i" if i: "i < length field_names" for i
  proof (cases "i < k")
    case True
    then show ?thesis using assms(1) i by (auto simp: in_set_conv_nth intro!: exI [of _ i])
  next
    case False
    have "drop k (field_values p) ! (i - k) = drop k (field_values policy_v21) ! (i - k)" using assms(2) by simp
    then show ?thesis using False i by simp
  qed
  then have "v = d" if "(n, v, d) \<in> set (zip field_names (zip (field_values p) (field_values policy_v21)))"
    and "n \<notin> set schema" for n v d
    using that by (clarsimp simp: in_set_zip) blast
  then show ?thesis unfolding changed_fields_def by (fastforce simp: filter_empty_conv)
qed

lemma schema_of_versions:
  "dp_strategy_version p \<in> set legacy_versions \<Longrightarrow> changed_fields schema_v1_fields p = [] \<Longrightarrow> schema_version_for_policy p = Inr 1"
  "dp_strategy_version p \<in> set schema_v2_versions \<Longrightarrow> changed_fields schema_v2_fields p = [] \<Longrightarrow> schema_version_for_policy p = Inr 2"
  "dp_strategy_version p \<in> set schema_v3_versions \<Longrightarrow> changed_fields schema_v3_fields p = [] \<Longrightarrow> schema_version_for_policy p = Inr 3"
  "dp_strategy_version p \<in> set schema_v4_versions \<Longrightarrow> changed_fields schema_v4_fields p = [] \<Longrightarrow> schema_version_for_policy p = Inr 4"
  "dp_strategy_version p \<notin> set (legacy_versions @ schema_v2_versions @ schema_v3_versions @ schema_v4_versions)
     \<Longrightarrow> schema_version_for_policy p = Inr 5"
  by (auto simp: schema_version_for_policy_def legacy_versions_def schema_v2_versions_def schema_v3_versions_def
      schema_v4_versions_def)

lemma old_fields:
  "drop 46 (field_values policy_v22) = drop 46 (field_values policy_v21)"
  "drop 46 (field_values policy_v23) = drop 46 (field_values policy_v21)"
  "drop 66 (field_values policy_v24) = drop 66 (field_values policy_v21)"
  "drop 66 (field_values policy_v25) = drop 66 (field_values policy_v21)"
  "drop 69 (field_values policy_v26) = drop 69 (field_values policy_v21)"
  "drop 74 (field_values policy_v27) = drop 74 (field_values policy_v21)"
  by (simp_all add: field_values_def policy_defs)

lemma old_schemas:
  "schema_version_for_policy policy_v21 = Inr 1" "schema_version_for_policy policy_v22 = Inr 1"
  "schema_version_for_policy policy_v23 = Inr 1" "schema_version_for_policy policy_v24 = Inr 2"
  "schema_version_for_policy policy_v25 = Inr 2" "schema_version_for_policy policy_v26 = Inr 3"
  "schema_version_for_policy policy_v27 = Inr 4"
  using unchanged [OF schema_prefixes(1) refl] unchanged [OF schema_prefixes(1) old_fields(1)]
    unchanged [OF schema_prefixes(1) old_fields(2)] unchanged [OF schema_prefixes(2) old_fields(3)]
    unchanged [OF schema_prefixes(2) old_fields(4)] unchanged [OF schema_prefixes(3) old_fields(5)]
    unchanged [OF schema_prefixes(4) old_fields(6)]
  by (auto intro!: schema_of_versions(1-4)
      simp: policy_defs legacy_versions_def schema_v2_versions_def schema_v3_versions_def schema_v4_versions_def)

lemma new_version:
  "dp_strategy_version p \<notin> set [''dynamic-intraday-v2.1'', ''dynamic-intraday-v2.2'', ''dynamic-intraday-v2.3'',
     ''dynamic-intraday-v2.4'', ''dynamic-intraday-v2.5'', ''dynamic-intraday-v2.6'', ''dynamic-intraday-v2.7'']
   \<Longrightarrow> schema_version_for_policy p = Inr 5"
  by (rule schema_of_versions(5))
    (simp add: legacy_versions_def schema_v2_versions_def schema_v3_versions_def schema_v4_versions_def)

lemma version_ok: "v \<in> set published_versions \<Longrightarrow> valid_version v"
proof -
  have "list_all valid_version published_versions" by code_simp
  then show "v \<in> set published_versions \<Longrightarrow> valid_version v" by (simp add: list_all_iff)
qed

lemma early_fields:
  "list_all encodable (field_values policy_v21)" "list_all encodable (field_values policy_v22)"
  "list_all encodable (field_values policy_v23)" "list_all encodable (field_values policy_v24)"
  "list_all encodable (field_values policy_v25)" "list_all encodable (field_values policy_v26)"
  "list_all encodable (field_values policy_v27)" "list_all encodable (field_values policy_v27_accuracy)"
  by (simp_all add: fields_encodable policy_defs texts_ok duration_defs)

lemma v28_profile:
  assumes "v \<in> set v28_versions"
  shows "validate_policy (policy_v28 v) = Inr () \<and> list_all encodable (field_values (policy_v28 v))"
  using assms unfolding v28_versions_def set_simps
  by (elim insertE emptyE)
    (simp_all add: policy_v28_def policy_defs profile_facts policy_check fields_encodable)

definition profile_ok :: "universe_policy \<Rightarrow> bool" where
  "profile_ok p \<longleftrightarrow> validate_policy p = Inr () \<and> list_all encodable (field_values p)"

lemma v29_control:
  "profile_ok (policy_v28_control\<lparr>dp_strategy_version := v\<rparr>)"
  by (simp add: profile_ok_def policy_defs profile_facts policy_check fields_encodable)

lemma v29_volatility:
  "profile_ok (policy_v28_control\<lparr>dp_strategy_version := v, dp_maximum_entry_volatility := Some (flt (18 / 1000)),
     dp_maximum_entry_volatility_quantile := None\<rparr>)"
  by (simp add: profile_ok_def policy_defs profile_facts policy_check fields_encodable)

lemma v29_pullback:
  "profile_ok (policy_v28_control\<lparr>dp_strategy_version := v,
     dp_minimum_entry_momentum_1h := Some (flt (- (3 / 100))), dp_maximum_entry_momentum_1h := Some (flt (- (7 / 1000))),
     dp_minimum_entry_momentum_4h := Some (flt (- (3 / 100))), dp_maximum_entry_momentum_4h := Some (flt (- (8 / 1000)))\<rparr>)"
  by (simp add: profile_ok_def policy_defs profile_facts policy_check fields_encodable)

lemma v29_concentration:
  "profile_ok (policy_v28_control\<lparr>dp_strategy_version := v, dp_maximum_selection_concentration := Some (flt (50 / 100))\<rparr>)"
  by (simp add: profile_ok_def policy_defs profile_facts policy_check fields_encodable)

lemmas v29_variants = v29_control v29_volatility v29_pullback v29_concentration

lemma v29_profile: "policy_v29 v = Inr p \<Longrightarrow> profile_ok p"
  unfolding policy_v29_def Let_def using v29_variants [of v] by (metis Inr_inject Inr_not_Inl)

lemma new_versions:
  "v \<in> set v28_versions \<Longrightarrow> schema_version_for_policy (policy_v28 v) = Inr 5"
  "v \<in> set v29_versions \<Longrightarrow> policy_v29 v = Inr p \<Longrightarrow> schema_version_for_policy p = Inr 5"
  "schema_version_for_policy policy_v27_accuracy = Inr 5"
  using policy_v28_version [of v] policy_v29_version [of v]
  by (auto intro!: new_version simp: v28_versions_def v29_versions_def policy_v27_accuracy_def)

lemma v28_publishable: "v \<in> set v28_versions \<Longrightarrow> publishable (policy_v28 v)"
  using v28_profile [of v] new_versions(1) [of v] policy_v28_version [of v] version_ok [of v]
  by (auto simp: publishable_def is_ok_def published_versions_def)

lemma v29_publishable: "v \<in> set v29_versions \<Longrightarrow> \<exists>p. policy_v29 v = Inr p \<and> publishable p"
  using v29_profile [of v] new_versions(2) [of v] policy_v29_version [of v] version_ok [of v]
  by (auto simp: profile_ok_def publishable_def is_ok_def published_versions_def)

lemma early_publishable:
  "publishable policy_v21" "publishable policy_v22" "publishable policy_v23" "publishable policy_v24"
  "publishable policy_v25" "publishable policy_v26" "publishable policy_v27" "publishable policy_v27_accuracy"
  using v21_valid v22_valid v23_valid v24_valid v25_valid v26_valid v27_valid v27_accuracy_valid
    early_fields old_schemas new_versions(3) version_ok
  by (simp_all add: publishable_def is_ok_def policy_defs published_versions_def)

section \<open>The registry as a whole\<close>

text \<open>What the registry publishes is what it loads.\<close>

theorem published_policy_loads:
  assumes written: "write_policy (file_name (dp_strategy_version p)) bytes p before entries = (after, Inr ())"
    and fresh: "map_of before (file_name (dp_strategy_version p)) = None"
      "map_of entries (file_name (dp_strategy_version p)) = None"
    and "bytes \<le> maximum_config_bytes" "list_all representable (field_values p)"
  shows "registry_load after (dp_strategy_version p) = Inr p"
proof -
  obtain document where d: "serialize_strategy_policy p = Inr document"
    "after = (file_name (dp_strategy_version p), Regular_File bytes (Canonical document)) # entries"
    using written_fresh [OF written fresh] .
  then have "valid_version (dp_strategy_version p)" using serialize_cases by metis
  then show ?thesis
    using d(2) serialize_roundtrip [OF d(1) assms(5)] assms(4) valid_version_nonempty toml_stem_file_name
    by (simp add: registry_load_def load_strategy_policy_def validate_version_Inr raise_if_def)
qed

text \<open>C35: a published snapshot never changes.\<close>

theorem published_policy_immutable:
  assumes "registry_history entries0 entries" "registry_load entries0 version = Inr p"
  shows "registry_load entries version = Inr p"
  using load_present [OF assms(2)] history_keeps [OF assms(1)] load_depends assms(2) by metis

text \<open>C36: every profile that is loaded is safe to run.\<close>

theorem loaded_policy_safe:
  assumes "registry_load entries version = Inr p"
  shows "dp_strategy_version p = version
    \<and> 1 \<le> dp_maximum_positions p \<and> dp_maximum_positions p \<le> dp_maximum_candidates p
    \<and> 1 \<le> dp_liquidity_lookback_bars p \<and> dp_liquidity_lookback_bars p \<le> dp_minimum_history_bars p
    \<and> 0 < dp_invested_fraction p \<and> dp_invested_fraction p \<le> 1
    \<and> dp_invested_fraction p \<le> dmul (dp_maximum_asset_weight p) (of_int (dp_maximum_positions p))
    \<and> 0 < dp_maximum_asset_weight p \<and> dp_maximum_asset_weight p \<le> 1
    \<and> 0 < dp_minimum_order_notional p
    \<and> 0 \<le> dp_exchange_fee_rate p \<and> dp_exchange_fee_rate p < 1
    \<and> 0 \<le> dp_estimated_slippage_rate p \<and> dp_estimated_slippage_rate p < 1
    \<and> 0 < dp_maximum_daily_turnover_fraction p \<and> 0 < dp_reentry_cooldown p
    \<and> (dp_derivatives_overlay_mode p = ''ENTRY_GATE''
        \<longrightarrow> dp_derivatives_minimum_funding_rate p \<noteq> None \<and> dp_derivatives_minimum_basis_input_rate p \<noteq> None
          \<and> (\<exists>r > 0. dp_derivatives_minimum_global_long_short_ratio p = Some r))
    \<and> (dp_crowding_overlay_mode p = ''ENTRY_GATE''
        \<longrightarrow> dp_crowding_maximum_long_score p \<noteq> None \<and> dp_crowding_maximum_bearish_unwind_score p \<noteq> None)
    \<and> distinct (dp_excluded_base_assets p)"
proof -
  have valid: "validate_policy p = Inr ()" and version: "dp_strategy_version p = version"
    using loaded_valid [OF assms] by blast+
  note facts = valid_policy_facts [OF valid]
  have sizes: "1 \<le> dp_maximum_positions p" "dp_maximum_positions p \<le> dp_maximum_candidates p"
    "1 \<le> dp_liquidity_lookback_bars p" "dp_liquidity_lookback_bars p \<le> dp_minimum_history_bars p"
    using facts(1) by (simp_all add: size_checks_def not_positive_def)
  have exposure: "0 < dp_invested_fraction p" "dp_invested_fraction p \<le> 1"
    "dp_invested_fraction p \<le> dmul (dp_maximum_asset_weight p) (of_int (dp_maximum_positions p))"
    "0 < dp_maximum_asset_weight p" "dp_maximum_asset_weight p \<le> 1" "0 < dp_minimum_order_notional p"
    "0 \<le> dp_exchange_fee_rate p" "dp_exchange_fee_rate p < 1"
    "0 \<le> dp_estimated_slippage_rate p" "dp_estimated_slippage_rate p < 1" "0 < dp_maximum_daily_turnover_fraction p"
    using facts(2) by (simp_all add: exposure_checks_def outside_decimal_def)
  have gates: "dp_derivatives_overlay_mode p = ''ENTRY_GATE''
        \<longrightarrow> dp_derivatives_minimum_funding_rate p \<noteq> None \<and> dp_derivatives_minimum_basis_input_rate p \<noteq> None
          \<and> (\<exists>r > 0. dp_derivatives_minimum_global_long_short_ratio p = Some r)"
    "dp_crowding_overlay_mode p = ''ENTRY_GATE''
        \<longrightarrow> dp_crowding_maximum_long_score p \<noteq> None \<and> dp_crowding_maximum_bearish_unwind_score p \<noteq> None"
    using facts(4) by (auto simp: gate_checks_def Let_def some_value_def)
  have "0 < dp_reentry_cooldown p" "distinct (dp_excluded_base_assets p)"
    using facts(7) by (simp_all add: duration_checks_def not_positive_def)
  with version sizes exposure gates show ?thesis by simp
qed

lemma early_lookup:
  "dynamic_policy_for_version ''dynamic-intraday-v2.1'' = Inr policy_v21"
  "dynamic_policy_for_version ''dynamic-intraday-v2.2'' = Inr policy_v22"
  "dynamic_policy_for_version ''dynamic-intraday-v2.3'' = Inr policy_v23"
  "dynamic_policy_for_version ''dynamic-intraday-v2.4'' = Inr policy_v24"
  "dynamic_policy_for_version ''dynamic-intraday-v2.5'' = Inr policy_v25"
  "dynamic_policy_for_version ''dynamic-intraday-v2.6'' = Inr policy_v26"
  "dynamic_policy_for_version ''dynamic-intraday-v2.7'' = Inr policy_v27"
  "dynamic_policy_for_version ''dynamic-intraday-v2.7-accuracy-v1'' = Inr policy_v27_accuracy"
  by (simp_all add: dynamic_policy_for_version_def)

lemma published_publishable:
  assumes "v \<in> set published_versions"
  shows "\<exists>p. dynamic_policy_for_version v = Inr p \<and> publishable p \<and> dp_strategy_version p = v"
proof -
  have "\<exists>p. dynamic_policy_for_version v = Inr p \<and> publishable p"
    using assms unfolding published_cases
  proof (elim disjE)
    assume "v \<in> set [''dynamic-intraday-v2.1'', ''dynamic-intraday-v2.2'', ''dynamic-intraday-v2.3'', ''dynamic-intraday-v2.4'',
      ''dynamic-intraday-v2.5'', ''dynamic-intraday-v2.6'', ''dynamic-intraday-v2.7'', ''dynamic-intraday-v2.7-accuracy-v1'']"
    then show ?thesis unfolding set_simps using early_lookup early_publishable by blast
  next
    assume "v \<in> set v28_versions"
    then show ?thesis using v28_lookup v28_publishable by blast
  next
    assume "v \<in> set v29_versions"
    then show ?thesis using v29_lookup v29_publishable by metis
  qed
  then show ?thesis using published_found [OF assms] by auto
qed

text \<open>C37: every published profile validates and survives its own TOML document.\<close>

theorem published_profiles_roundtrip:
  assumes "v \<in> set published_versions"
  shows "\<exists>p document. dynamic_policy_for_version v = Inr p \<and> validate_policy p = Inr ()
    \<and> serialize_strategy_policy p = Inr document \<and> policy_from_document document (Some v) = Inr p"
  using published_publishable [OF assms] publishable_serializes unfolding publishable_def by metis

lemma published_profiles_roundtrip_witness:
  "\<exists>document. serialize_strategy_policy policy_v27 = Inr document
    \<and> policy_from_document document (Some ''dynamic-intraday-v2.7'') = Inr policy_v27"
proof -
  have "''dynamic-intraday-v2.7'' \<in> set published_versions" by (simp add: published_versions_def)
  from published_profiles_roundtrip [OF this] show ?thesis using early_lookup(7) by auto
qed

subsection \<open>A published V2.7\<close>

lemma v27_version: "dp_strategy_version policy_v27 = ''dynamic-intraday-v2.7''"
  by (simp add: policy_v27_def)

lemma v27_representable: "list_all representable (field_values policy_v27)"
  using early_fields(7) by (auto simp: list_all_iff encodable_def)

lemma v27_written: "\<exists>after. write_policy (file_name (dp_strategy_version policy_v27)) 3000 policy_v27 [] [] = (after, Inr ())"
proof -
  have "toml_stem (file_name ''dynamic-intraday-v2.7'') = Some ''dynamic-intraday-v2.7''"
    by (rule toml_stem_file_name) simp
  then show ?thesis
    using publishable_serializes [OF early_publishable(7)]
    by (auto simp: write_policy_def link_snapshot_def v27_version)
qed

lemma published_policy_loads_witness:
  "\<exists>after. registry_load after ''dynamic-intraday-v2.7'' = Inr policy_v27"
proof -
  obtain after where w: "write_policy (file_name (dp_strategy_version policy_v27)) 3000 policy_v27 [] [] = (after, Inr ())"
    using v27_written by blast
  have "(3000 :: nat) \<le> maximum_config_bytes" by (simp add: maximum_config_bytes_def)
  from published_policy_loads [OF w _ _ this v27_representable] show ?thesis unfolding v27_version by auto
qed

definition v27_registry :: registry_directory where
  "v27_registry = fst (write_policy (file_name (dp_strategy_version policy_v27)) 3000 policy_v27 [] [])"

lemma v27_loads: "registry_load v27_registry ''dynamic-intraday-v2.7'' = Inr policy_v27"
proof -
  have stem: "toml_stem (file_name ''dynamic-intraday-v2.7'') = Some ''dynamic-intraday-v2.7''"
    by (rule toml_stem_file_name) simp
  obtain d where d: "serialize_strategy_policy policy_v27 = Inr d"
    "policy_from_document d (Some ''dynamic-intraday-v2.7'') = Inr policy_v27"
    using publishable_serializes [OF early_publishable(7)] v27_version by auto
  have "valid_version ''dynamic-intraday-v2.7''" using early_publishable(7) v27_version by (simp add: publishable_def)
  then show ?thesis
    using d stem
    by (simp add: v27_registry_def write_policy_def link_snapshot_def v27_version registry_load_def
        load_strategy_policy_def validate_version_Inr raise_if_def maximum_config_bytes_def)
qed

lemma published_policy_immutable_witness:
  "registry_load (fst (write_policy (file_name ''dynamic-intraday-v2.7'') 9 policy_v26 [] v27_registry))
     ''dynamic-intraday-v2.7'' = Inr policy_v27"
  by (rule published_policy_immutable [OF registry_history.written [OF registry_history.unwritten] v27_loads])

lemma loaded_policy_safe_witness: "0 < dp_invested_fraction policy_v27 \<and> dp_invested_fraction policy_v27 \<le> 1"
  using loaded_policy_safe [OF v27_loads] by blast

end
