(* ===== verification/ObservationProofs.thy ===== *)
theory ObservationProofs
  imports ObservationReport Publication
begin

text \<open>
  The observation as a whole: every operation keeps the tables sound and frozen, a capture is
  idempotent, an evaluation sees nothing after its horizon, and what the health report misses.
\<close>

section \<open>Sound tables\<close>

definition observation_ok :: "observation_experiment \<Rightarrow> bool" where
  "observation_ok e = (oe_started_at e < oe_planned_end_at e \<and> oe_status e \<noteq> Obs_Created
     \<and> (oe_status e = Obs_Running \<longleftrightarrow> oe_completed_at e = None))"

text \<open>A snapshot belongs to an experiment, carries its frozen configuration and lies in its period.\<close>

definition snapshot_of_experiment :: "decision_snapshot \<Rightarrow> observation_experiment \<Rightarrow> bool" where
  "snapshot_of_experiment s e =
     (dn_experiment_id s = oe_experiment_id e \<and> dn_strategy_version s = oe_strategy_version e
      \<and> dn_config_hash s = oe_config_hash e \<and> oe_started_at e \<le> dn_decision_time s
      \<and> dn_decision_time s \<le> oe_planned_end_at e)"

definition context_of_experiment :: "decision_market_context \<Rightarrow> observation_experiment \<Rightarrow> bool" where
  "context_of_experiment c e =
     (mx_experiment_id c = oe_experiment_id e \<and> mx_strategy_version c = oe_strategy_version e
      \<and> mx_config_hash c = oe_config_hash e)"

definition variant_ok :: "decision_selection_variant \<Rightarrow> bool" where
  "variant_ok v = (0 \<le> dv_target_position v \<and> dv_target_position v \<le> 1)"

text \<open>
  An outcome is one of the horizons of its snapshot, judged at or after it; data are declared missing only
  after the grace period, and a judged return lies between the excursions.
\<close>

definition outcome_judged :: "decision_outcome \<Rightarrow> bool" where
  "outcome_judged v =
     (case do_status v of
        MISSING_DATA \<Rightarrow> do_forward_return v = None \<and> do_target_at v + outcome_data_grace \<le> do_evaluated_at v
      | Outcome_Completed \<Rightarrow>
          (case (do_mae v, do_forward_return v, do_mfe v) of
             (Some a, Some f, Some m) \<Rightarrow> a \<le> f \<and> f \<le> m
           | _ \<Rightarrow> False))"

definition outcome_of_snapshot :: "decision_outcome \<Rightarrow> decision_snapshot \<Rightarrow> bool" where
  "outcome_of_snapshot v s =
     (do_snapshot_id v = dn_snapshot_id s \<and> do_horizon_minutes v \<in> set horizons
      \<and> do_target_at v = dn_decision_time s + minutes (do_horizon_minutes v)
      \<and> do_target_at v \<le> do_evaluated_at v \<and> outcome_judged v)"

definition observations_ok :: "observation_store \<Rightarrow> bool" where
  "observations_ok db =
     (distinct (map oe_experiment_id (ot_experiments db)) \<and> list_all observation_ok (ot_experiments db)
      \<and> distinct (map dn_snapshot_id (ot_snapshots db))
      \<and> distinct (map (\<lambda>s. (dn_experiment_id s, dn_decision_id s, dn_asset s)) (ot_snapshots db))
      \<and> list_all (\<lambda>s. list_ex (snapshot_of_experiment s) (ot_experiments db)) (ot_snapshots db)
      \<and> distinct (map (\<lambda>c. (mx_experiment_id c, mx_decision_id c)) (ot_contexts db))
      \<and> list_all (\<lambda>c. list_ex (context_of_experiment c) (ot_experiments db)) (ot_contexts db)
      \<and> distinct (map (\<lambda>v. (dv_snapshot_id v, dv_variant_id v)) (ot_variants db))
      \<and> list_all (\<lambda>v. variant_ok v \<and> dv_snapshot_id v \<in> set (map dn_snapshot_id (ot_snapshots db))) (ot_variants db)
      \<and> distinct (map (\<lambda>v. (do_snapshot_id v, do_horizon_minutes v)) (ot_outcomes db))
      \<and> list_all (\<lambda>v. list_ex (outcome_of_snapshot v) (ot_snapshots db)) (ot_outcomes db))"

text \<open>What may change: rows are added, and a running experiment is closed.\<close>

definition closes :: "observation_experiment \<Rightarrow> observation_experiment \<Rightarrow> bool" where
  "closes e e' =
     (e' = e \<or> oe_status e = Obs_Running \<and>
        e' = e\<lparr>oe_status := oe_status e', oe_completed_at := oe_completed_at e', oe_interruption_reason := oe_interruption_reason e'\<rparr>)"

definition extends :: "observation_store \<Rightarrow> observation_store \<Rightarrow> bool" where
  "extends db db' =
     ((\<exists>es fs. ot_experiments db' = es @ fs \<and> list_all2 closes (ot_experiments db) es)
      \<and> (\<exists>xs. ot_snapshots db' = ot_snapshots db @ xs) \<and> (\<exists>xs. ot_contexts db' = ot_contexts db @ xs)
      \<and> (\<exists>xs. ot_variants db' = ot_variants db @ xs) \<and> (\<exists>xs. ot_outcomes db' = ot_outcomes db @ xs))"

lemma closes_refl [simp]: "closes e e"
  by (simp add: closes_def)

lemma list_all2_closes_refl [simp]: "list_all2 closes es es"
  by (simp add: list_all2_refl)

lemma closes_trans: "closes a b \<Longrightarrow> closes b c \<Longrightarrow> closes a c"
  by (cases a, cases b, cases c) (auto simp: closes_def)

lemma extends_refl [simp]: "extends db db"
  unfolding extends_def by (auto intro: exI [of _ "ot_experiments db"])

lemma extends_trans:
  assumes "extends a b" "extends b c"
  shows "extends a c"
proof -
  obtain es fs where b: "ot_experiments b = es @ fs" "list_all2 closes (ot_experiments a) es"
    using assms(1) unfolding extends_def by blast
  obtain gs hs where c: "ot_experiments c = gs @ hs" "list_all2 closes (es @ fs) gs"
    using assms(2) b(1) unfolding extends_def by auto
  then obtain g1 g2 where g: "gs = g1 @ g2" "list_all2 closes es g1" by (auto simp: list_all2_append1)
  have "list_all2 closes (ot_experiments a) g1"
    using list_all2_trans [of closes closes closes] closes_trans b(2) g(2) by blast
  then have "\<exists>es fs. ot_experiments c = es @ fs \<and> list_all2 closes (ot_experiments a) es"
    using c(1) g(1) by auto
  then show ?thesis using assms unfolding extends_def by (metis append.assoc)
qed

lemma closes_fields:
  "closes e e' \<Longrightarrow> oe_experiment_id e' = oe_experiment_id e \<and> oe_portfolio_id e' = oe_portfolio_id e
     \<and> oe_strategy_version e' = oe_strategy_version e \<and> oe_config_hash e' = oe_config_hash e
     \<and> oe_started_at e' = oe_started_at e \<and> oe_planned_end_at e' = oe_planned_end_at e
     \<and> oe_starting_equity e' = oe_starting_equity e"
  by (cases e, cases e') (auto simp: closes_def)

lemma snapshot_of_experiment_closes:
  "snapshot_of_experiment s e \<Longrightarrow> closes e e' \<Longrightarrow> snapshot_of_experiment s e'"
  by (auto simp: snapshot_of_experiment_def dest: closes_fields)

lemma context_of_experiment_closes:
  "context_of_experiment c e \<Longrightarrow> closes e e' \<Longrightarrow> context_of_experiment c e'"
  by (auto simp: context_of_experiment_def dest: closes_fields)

lemma list_ex_closes:
  assumes "list_ex P es" "list_all2 closes es fs" "\<And>e e'. P e \<Longrightarrow> closes e e' \<Longrightarrow> Q e'"
  shows "list_ex Q fs"
proof -
  obtain k where k: "k < length es" "P (es ! k)" using assms(1) by (auto simp: list_ex_length)
  then have "Q (fs ! k)" "k < length fs"
    using assms(2,3) list_all2_nthD list_all2_lengthD by metis+
  then show ?thesis by (auto simp: list_ex_length)
qed

lemma ids_closes: "list_all2 closes es fs \<Longrightarrow> map oe_experiment_id fs = map oe_experiment_id es"
  by (induction rule: list_all2_induct) (auto dest: closes_fields)

section \<open>Saving an experiment\<close>

lemma find_observation_Some:
  "find_observation i db = Some e \<Longrightarrow> e \<in> set (ot_experiments db) \<and> oe_experiment_id e = i"
  unfolding find_observation_def by (drule find_Some_in) simp

lemma find_observation_None:
  "find_observation i db = None \<longleftrightarrow> i \<notin> set (map oe_experiment_id (ot_experiments db))"
  by (auto simp: find_observation_def find_None_all)

lemma find_decision_Some:
  "find_decision i db = Some s \<Longrightarrow> s \<in> set (ot_snapshots db) \<and> dn_snapshot_id s = i"
  unfolding find_decision_def by (drule find_Some_in) simp

lemma observation_Inr: "observation i db = Inr e \<Longrightarrow> find_observation i db = Some e"
  by (auto simp: observation_def check_observation_def split: option.splits if_splits)

lemma save_new:
  assumes "observations_ok db" "find_observation (oe_experiment_id e) db = None" "observation_ok e"
  shows "observations_ok (save_observation e db) \<and> extends db (save_observation e db)"
proof -
  have s: "save_observation e db = db\<lparr>ot_experiments := ot_experiments db @ [e]\<rparr>"
    using assms(2) by (simp add: save_observation_def)
  have "list_ex P (ot_experiments db @ [e])" if "list_ex P (ot_experiments db)" for P
    using that by simp
  then show ?thesis
    using assms find_observation_None [of "oe_experiment_id e" db] unfolding s
    by (auto simp: observations_ok_def extends_def list_all_iff)
qed

lemma closed_experiments_ok:
  assumes ok: "observations_ok db" and l: "list_all2 closes (ot_experiments db) es" and "list_all observation_ok es"
  shows "observations_ok (db\<lparr>ot_experiments := es\<rparr>)"
  using assms list_ex_closes [OF _ l snapshot_of_experiment_closes] list_ex_closes [OF _ l context_of_experiment_closes]
    ids_closes [OF l]
  unfolding observations_ok_def by (auto simp: list_all_iff)

lemma save_closed:
  assumes ok: "observations_ok db" and e: "find_observation i db = Some e" "oe_status e = Obs_Running"
    and e': "closes e e'" "observation_ok e'"
  shows "observations_ok (save_observation e' db) \<and> extends db (save_observation e' db)"
proof -
  let ?upd = "\<lambda>x. if oe_experiment_id x = oe_experiment_id e' then x\<lparr>oe_status := oe_status e', oe_completed_at := oe_completed_at e',
                         oe_interruption_reason := oe_interruption_reason e'\<rparr> else x"
  have m: "e \<in> set (ot_experiments db)" "oe_experiment_id e = i" using find_observation_Some [OF e(1)] by auto
  have i: "oe_experiment_id e' = i" using closes_fields [OF e'(1)] m(2) by simp
  have s: "save_observation e' db = db\<lparr>ot_experiments := map ?upd (ot_experiments db)\<rparr>"
    using e(1) i by (simp add: save_observation_def)
  have d: "distinct (map oe_experiment_id (ot_experiments db))" using ok by (simp add: observations_ok_def)
  have upd: "?upd x = (if x = e then e' else x)" if "x \<in> set (ot_experiments db)" for x
  proof (cases "x = e")
    case True
    then show ?thesis using e'(1) i m(2) by (cases e, cases e') (auto simp: closes_def)
  next
    case False
    then have "oe_experiment_id x \<noteq> i" using d m that by (metis eq_key_imp_eq_value distinct_map inj_onD)
    then show ?thesis using False i by simp
  qed
  have l: "list_all2 closes (ot_experiments db) (map ?upd (ot_experiments db))"
    unfolding list_all2_map2 list_all2_same using upd e'(1) by simp
  moreover have "list_all observation_ok (map ?upd (ot_experiments db))"
    using ok e'(2) upd unfolding observations_ok_def list_all_iff by auto
  ultimately have "observations_ok (save_observation e' db)"
    unfolding s using closed_experiments_ok [OF ok] by blast
  moreover have "extends db (save_observation e' db)"
    using l unfolding s extends_def by (auto intro: exI [of _ "map ?upd (ot_experiments db)"] exI [of _ "[]"])
  ultimately show ?thesis by blast
qed

section \<open>Storing a decision\<close>

lemma insert_snapshots_result:
  assumes "insert_snapshots vs db = Inr (db', n)"
  shows "\<exists>ws. db' = db\<lparr>ot_snapshots := ot_snapshots db @ ws\<rparr> \<and> set ws \<subseteq> set vs \<and> n = int (length ws)
    \<and> (\<forall>v \<in> set vs. snapshot_conflict v db')"
  using assms
proof (induction vs db arbitrary: db' n rule: insert_snapshots.induct)
  case (2 v vs db)
  show ?case
  proof (cases "snapshot_conflict v db")
    case True
    then obtain ws where w: "db' = db\<lparr>ot_snapshots := ot_snapshots db @ ws\<rparr>" "set ws \<subseteq> set vs" "n = int (length ws)"
      "\<forall>v \<in> set vs. snapshot_conflict v db'" using 2 by auto
    moreover have "snapshot_conflict v db'" using True w(1) by (simp add: snapshot_conflict_def)
    ultimately show ?thesis by auto
  next
    case False
    then obtain k where k: "insert_snapshots vs (db\<lparr>ot_snapshots := ot_snapshots db @ [v]\<rparr>) = Inr (db', k)" "n = k + 1"
      and f: "find_observation (dn_experiment_id v) db \<noteq> None"
      using 2(3) by (auto simp: py_result split: if_splits)
    then obtain ws where w: "db' = db\<lparr>ot_snapshots := (ot_snapshots db @ [v]) @ ws\<rparr>" "set ws \<subseteq> set vs"
      "k = int (length ws)" "\<forall>v \<in> set vs. snapshot_conflict v db'"
      using 2(2) [OF False f k(1)] by auto
    moreover have "snapshot_conflict v db'" using w(1) by (simp add: snapshot_conflict_def)
    ultimately show ?thesis using k(2) by (intro exI [of _ "v # ws"]) auto
  qed
qed auto

lemma insert_snapshots_ok:
  assumes "insert_snapshots vs db = Inr (db', n)" "observations_ok db"
    and "\<And>v. v \<in> set vs \<Longrightarrow> list_ex (snapshot_of_experiment v) (ot_experiments db)"
  shows "observations_ok db'"
  using assms
proof (induction vs db arbitrary: db' n rule: insert_snapshots.induct)
  case (2 v vs db)
  show ?case
  proof (cases "snapshot_conflict v db")
    case False
    let ?db = "db\<lparr>ot_snapshots := ot_snapshots db @ [v]\<rparr>"
    obtain k where k: "insert_snapshots vs ?db = Inr (db', k)" and f: "find_observation (dn_experiment_id v) db \<noteq> None"
      using 2(3) False by (auto simp: py_result split: if_splits)
    have "dn_snapshot_id v \<notin> set (map dn_snapshot_id (ot_snapshots db))"
      "(dn_experiment_id v, dn_decision_id v, dn_asset v)
         \<notin> set (map (\<lambda>s. (dn_experiment_id s, dn_decision_id s, dn_asset s)) (ot_snapshots db))"
      using False unfolding snapshot_conflict_def list_ex_iff by auto
    then have "observations_ok ?db"
      using 2(4) 2(5) [of v] unfolding observations_ok_def by (auto simp: list_all_iff)
    then show ?thesis using 2(2) [OF False f k] 2(5) by simp
  qed (use 2 in auto)
qed simp

lemma insert_context_ok:
  assumes "insert_market_context c db = Inr (db', new)" "observations_ok db"
    and "list_ex (context_of_experiment c) (ot_experiments db)"
  shows "observations_ok db' \<and> (\<exists>xs. db' = db\<lparr>ot_contexts := ot_contexts db @ xs\<rparr>)"
proof -
  have k: "(mx_experiment_id c, mx_decision_id c) \<notin> set (map (\<lambda>c. (mx_experiment_id c, mx_decision_id c)) (ot_contexts db))"
    if "\<not> list_ex (\<lambda>x. mx_experiment_id x = mx_experiment_id c \<and> mx_decision_id x = mx_decision_id c) (ot_contexts db)"
    using that unfolding list_ex_iff by auto
  consider "db' = db" | "db' = db\<lparr>ot_contexts := ot_contexts db @ [c]\<rparr>"
      "\<not> list_ex (\<lambda>x. mx_experiment_id x = mx_experiment_id c \<and> mx_decision_id x = mx_decision_id c) (ot_contexts db)"
    using assms(1) unfolding insert_market_context_def by (auto split: if_splits)
  then show ?thesis
  proof cases
    case 1
    then show ?thesis using assms(2) by (auto intro: exI [of _ "[]"])
  next
    case 2
    then show ?thesis using assms(2,3) k unfolding observations_ok_def by auto
  qed
qed

lemma insert_variants_ok:
  assumes "insert_selection_variants vs db = Inr db'" "observations_ok db" "\<And>v. v \<in> set vs \<Longrightarrow> variant_ok v"
  shows "observations_ok db' \<and> (\<exists>xs. db' = db\<lparr>ot_variants := ot_variants db @ xs\<rparr>)"
  using assms
proof (induction vs db arbitrary: db' rule: insert_selection_variants.induct)
  case (1 db)
  then show ?case by (auto intro: exI [of _ "[]"])
next
  case (2 v vs db)
  let ?present = "list_ex (\<lambda>w. dv_snapshot_id w = dv_snapshot_id v \<and> dv_variant_id w = dv_variant_id v) (ot_variants db)"
  show ?case
  proof (cases ?present)
    case False
    let ?db = "db\<lparr>ot_variants := ot_variants db @ [v]\<rparr>"
    have f: "find_decision (dv_snapshot_id v) db \<noteq> None" and i: "insert_selection_variants vs ?db = Inr db'"
      using 2(3) False by (auto split: if_splits)
    have "dv_snapshot_id v \<in> set (map dn_snapshot_id (ot_snapshots db))"
      using f find_decision_Some [of "dv_snapshot_id v" db] by (metis image_eqI list.set_map not_None_eq)
    moreover have "(dv_snapshot_id v, dv_variant_id v) \<notin> set (map (\<lambda>v. (dv_snapshot_id v, dv_variant_id v)) (ot_variants db))"
      using False unfolding list_ex_iff by auto
    ultimately have "observations_ok ?db" using 2(4) 2(5) [of v] unfolding observations_ok_def by auto
    then obtain xs where "observations_ok db'" "db' = ?db\<lparr>ot_variants := ot_variants ?db @ xs\<rparr>"
      using 2(2) [OF False f i] 2(5) by auto
    then show ?thesis by (auto intro: exI [of _ "v # xs"])
  qed (use 2 in auto)
qed

lemma insert_variants_all:
  assumes "insert_selection_variants vs db = Inr db'" "v \<in> set vs"
  shows "list_ex (\<lambda>w. dv_snapshot_id w = dv_snapshot_id v \<and> dv_variant_id w = dv_variant_id v) (ot_variants db')"
proof -
  have "set (ot_variants db) \<subseteq> set (ot_variants db') \<and> (\<forall>v \<in> set vs.
      list_ex (\<lambda>w. dv_snapshot_id w = dv_snapshot_id v \<and> dv_variant_id w = dv_variant_id v) (ot_variants db'))"
    using assms(1)
    by (induction vs db rule: insert_selection_variants.induct) (auto simp: list_ex_iff split: if_splits)
  then show ?thesis using assms(2) by blast
qed

lemma snapshot_of_fields [simp]:
  "dn_snapshot_id (snapshot_of sha256 e r f c) = observed_snapshot_id sha256 (oe_experiment_id e) (rr_as_of r) (ca_pair c)"
  "dn_experiment_id (snapshot_of sha256 e r f c) = oe_experiment_id e"
  "dn_decision_id (snapshot_of sha256 e r f c) = cf_decision_id f"
  "dn_strategy_version (snapshot_of sha256 e r f c) = oe_strategy_version e"
  "dn_config_hash (snapshot_of sha256 e r f c) = oe_config_hash e"
  "dn_decision_time (snapshot_of sha256 e r f c) = rr_as_of r"
  by (simp_all add: snapshot_of_def Let_def split: prod.split)

lemma check_variant_ok: "check_variant v = Inr w \<Longrightarrow> w = v \<and> variant_ok v"
  by (auto simp: check_variant_def variant_ok_def split: if_splits)

lemma observed_variant_rows_ok:
  assumes "observed_variant_rows variants ids = Inr rows" "v \<in> set rows"
  shows "variant_ok v"
proof -
  obtain rs where r: "map_result (variant_rows ids) variants = Inr rs" "v \<in> set (concat rs)"
    using assms by (auto simp: observed_variant_rows_def py_result split: if_splits)
  then obtain vs where vs: "vs \<in> set rs" "v \<in> set vs" by auto
  then obtain w where "variant_rows ids w = Inr vs" using map_result_Inr_set [OF r(1)] by blast
  then have "map_result (variant_row (sv_variant_id w) (dict_of sa_pair id (sv_selected w))) ids = Inr vs"
    by (auto simp: variant_rows_def Let_def split: if_splits)
  then obtain i where "variant_row (sv_variant_id w) (dict_of sa_pair id (sv_selected w)) i = Inr v"
    using map_result_Inr_set vs(2) by metis
  then show ?thesis unfolding variant_row_def using check_variant_ok by blast
qed

lemma bind_pair:
  "bind_result m (\<lambda>(a, b). f a b) = Inr y \<longleftrightarrow> (\<exists>a b. m = Inr (a, b) \<and> f a b = Inr y)"
  by (auto simp: bind_result_Inr)

text \<open>What a successful or failed bundle leaves.\<close>

lemma save_bundle_cases:
  assumes "save_decision_bundle vs context variants db = (db', res)"
  obtains "db' = db" "\<exists>e. res = Inl e"
  | db1 n db2 new where "insert_snapshots vs db = Inr (db1, n)"
      "(case context of None \<Rightarrow> Inr (db1, False) | Some c \<Rightarrow> insert_market_context c db1) = Inr (db2, new)"
      "insert_selection_variants variants db2 = Inr db'" "res = Inr n"
proof -
  consider "db' = db" "\<exists>e. res = Inl e" | n where "bind_result (insert_snapshots vs db) (\<lambda>(db1, n).
             bind_result (case context of None \<Rightarrow> Inr (db1, False) | Some c \<Rightarrow> insert_market_context c db1) (\<lambda>(db2, _).
             bind_result (insert_selection_variants variants db2) (\<lambda>db3. Inr (db3, n)))) = Inr (db', n)" "res = Inr n"
    using assms unfolding save_decision_bundle_def by (auto split: if_splits sum.splits)
  then show ?thesis
  proof cases
    case (2 n)
    then obtain db1 k db2 new where "insert_snapshots vs db = Inr (db1, k)"
      "(case context of None \<Rightarrow> Inr (db1, False) | Some c \<Rightarrow> insert_market_context c db1) = Inr (db2, new)"
      "bind_result (insert_selection_variants variants db2) (\<lambda>db3. Inr (db3, k)) = Inr (db', n)"
      unfolding bind_pair by blast
    then show ?thesis using that(2) 2(2) by (auto simp: py_result)
  qed (use that in blast)
qed

lemma save_bundle_ok:
  assumes b: "save_decision_bundle vs context variants db = (db', res)" and ok: "observations_ok db"
    and "\<And>v. v \<in> set vs \<Longrightarrow> list_ex (snapshot_of_experiment v) (ot_experiments db)"
    and "\<And>c. context = Some c \<Longrightarrow> list_ex (context_of_experiment c) (ot_experiments db)"
    and "\<And>v. v \<in> set variants \<Longrightarrow> variant_ok v"
  shows "observations_ok db' \<and> extends db db'"
  using b
proof (cases rule: save_bundle_cases)
  case 1
  then show ?thesis using ok by simp
next
  case (2 db1 n db2 new)
  obtain ws where d1: "db1 = db\<lparr>ot_snapshots := ot_snapshots db @ ws\<rparr>" using insert_snapshots_result [OF 2(1)] by blast
  have ok1: "observations_ok db1" using insert_snapshots_ok [OF 2(1) ok assms(3)] .
  have "observations_ok db2 \<and> (\<exists>xs. db2 = db1\<lparr>ot_contexts := ot_contexts db1 @ xs\<rparr>)"
  proof (cases "context")
    case None
    then show ?thesis using 2(2) ok1 by (auto intro: exI [of _ "[]"])
  next
    case (Some c)
    then show ?thesis using 2(2) insert_context_ok [OF _ ok1] assms(4) [OF Some] d1 by simp
  qed
  then obtain xs where ok2: "observations_ok db2" "db2 = db1\<lparr>ot_contexts := ot_contexts db1 @ xs\<rparr>" by blast
  obtain ys where "observations_ok db'" "db' = db2\<lparr>ot_variants := ot_variants db2 @ ys\<rparr>"
    using insert_variants_ok [OF 2(3) ok2(1) assms(5)] by blast
  then show ?thesis using d1 ok2(2) by (simp add: extends_def) (metis append_Nil2 list_all2_closes_refl)
qed

lemma store_decision_ok:
  assumes "store_decision sha256 p e r db = (db', res)" "observations_ok db"
    and e: "list_ex (\<lambda>e'. closes e e') (ot_experiments db)" "oe_started_at e \<le> rr_as_of r" "rr_as_of r \<le> oe_planned_end_at e"
  shows "observations_ok db' \<and> extends db db'"
proof -
  have s: "list_ex (snapshot_of_experiment (snapshot_of sha256 e r f c)) (ot_experiments db)" for f c
  proof -
    have "snapshot_of_experiment (snapshot_of sha256 e r f c) e" using e by (simp add: snapshot_of_experiment_def)
    then show ?thesis using e(1) snapshot_of_experiment_closes unfolding list_ex_iff by blast
  qed
  have c: "list_ex (context_of_experiment c) (ot_experiments db)" if "context_of e r f = Some c" for f c
  proof -
    have "context_of_experiment c e" using that by (auto simp: context_of_def context_of_experiment_def)
    then show ?thesis using e(1) context_of_experiment_closes unfolding list_ex_iff by blast
  qed
  from assms(1) show ?thesis
    unfolding store_decision_def Let_def
  proof (elim act_bind_elim, goal_cases)
    case (3 db1 f db2 variants)
    then have st: "db2 = db" and v: "observed_variant_rows (rr_selection_variants r)
        (dict_of ca_pair (\<lambda>c. observed_snapshot_id sha256 (oe_experiment_id e) (rr_as_of r) (ca_pair c))
          (rr_assessments r)) = Inr variants" by (simp_all add: act_lift_eq)
    show ?case
      using save_bundle_ok [OF 3(3) [unfolded st] assms(2)] s c observed_variant_rows_ok [OF v] by fastforce
  qed (simp_all add: act_lift_eq assms(2))
qed

section \<open>Operations keep the tables sound and frozen\<close>

lemma time_or_now_lift: "act_lift (time_or_now t now name) db = (db, time_or_now t now name)"
  by (simp add: act_lift_def)

lemma start_ok:
  assumes "start_observation sha256 l i pid p t now db = (db', res)" "observations_ok db"
  shows "observations_ok db' \<and> extends db db'"
proof -
  have new: ?thesis if "Inr e = check_observation
      \<lparr>oe_experiment_id = i, oe_portfolio_id = pid, oe_strategy_version = dp_strategy_version p,
       oe_config_hash = fingerprint, oe_started_at = start, oe_planned_end_at = start + hours 168,
       oe_status = Obs_Running, oe_starting_equity = equity, oe_completed_at = None,
       oe_interruption_reason = None\<rparr>" "save_observation e db = db'" "observation i db = Inl (KeyError k)"
    for fingerprint start equity e k
  proof -
    have "observation_ok e" "oe_experiment_id e = i"
      using that(1) by (auto simp: check_observation_def observation_ok_def hours_def split: if_splits)
    moreover have "find_observation i db = None"
      using that(3) by (auto simp: observation_def check_observation_def split: option.splits if_splits)
    ultimately show ?thesis using save_new [OF assms(2)] that(2) by metis
  qed
  from assms(1) show ?thesis
    unfolding start_observation_def
  proof (elim act_bind_elim, goal_cases)
    case (3 db1 start db2 fingerprint)
    then have st: "db1 = db" "db2 = db" by (simp_all add: act_lift_eq)
    show ?case
    proof (cases "observation i db")
      case (Inr e)
      then show ?thesis using 3(3) st assms(2) by auto
    next
      case (Inl e)
      show ?thesis
      proof (cases "\<exists>k. e = KeyError k")
        case False
        then show ?thesis using 3(3) st Inl assms(2) by (cases e) auto
      next
        case True
        then obtain k where k: "e = KeyError k" by blast
        show ?thesis
          using 3(3) unfolding st Inl k sum.case py_error.case
        proof (elim act_bind_elim, goal_cases)
          case (4 db3 s db4 equity db5 e)
          then show ?case using new [OF _ _ Inl [unfolded k]] by (auto simp: act_lift_eq)
        qed (simp_all add: act_lift_eq assms(2))
      qed
    qed
  qed (simp_all add: act_lift_eq assms(2))
qed

lemma close_running:
  assumes "observations_ok db" "observation i db = Inr e" "oe_status e = Obs_Running" "status \<notin> {Obs_Created, Obs_Running}"
  shows "observations_ok (save_observation (closed_as status t reason e) db)
       \<and> extends db (save_observation (closed_as status t reason e) db)
       \<and> list_ex (closes e) (ot_experiments (save_observation (closed_as status t reason e) db))"
proof -
  have f: "find_observation i db = Some e" using observation_Inr [OF assms(2)] .
  have c: "closes e (closed_as status t reason e)" using assms(3) by (simp add: closes_def closed_as_def)
  have "observation_ok e"
    using find_observation_Some [OF f] assms(1) by (auto simp: observations_ok_def list_all_iff)
  then have ok: "observation_ok (closed_as status t reason e)"
    using assms(4) by (auto simp: observation_ok_def closed_as_def)
  obtain es fs where "ot_experiments (save_observation (closed_as status t reason e) db) = es @ fs"
    "list_all2 closes (ot_experiments db) es"
    using save_closed [OF assms(1) f assms(3) c ok] unfolding extends_def by blast
  moreover have "list_ex (\<lambda>x. x = e) (ot_experiments db)"
    using find_observation_Some [OF f] by (auto simp: list_ex_iff)
  ultimately have "list_ex (closes e) (ot_experiments (save_observation (closed_as status t reason e) db))"
    using list_ex_closes [of "\<lambda>x. x = e" _ _ "closes e"] by auto
  then show ?thesis using save_closed [OF assms(1) f assms(3) c ok] by blast
qed

lemma permits_ok:
  assumes "permits_execution sha256 i pid p now db = (db', res)" "observations_ok db"
  shows "observations_ok db' \<and> extends db db'"
  using assms(1) unfolding permits_execution_def
proof (elim act_bind_elim, goal_cases)
  case (3 db1 current db2 e)
  then have e: "observation i db = Inr e" "db1 = db" "db2 = db" by (simp_all add: act_lift_eq act_read_eq)
  show ?case
  proof (cases "oe_status e = Obs_Running")
    case True
    have c: "observations_ok (save_observation (closed_as status t reason e) db)
       \<and> extends db (save_observation (closed_as status t reason e) db)" if "status \<notin> {Obs_Created, Obs_Running}" for status t reason
      using close_running [OF assms(2) e(1) True that] by blast
    show ?thesis
      using 3(3) True assms(2) unfolding e
      by (auto simp: act_bind_def act_lift_def c split: if_splits sum.splits)
  qed (use 3(3) e assms(2) in \<open>auto simp: act_lift_eq\<close>)
qed (simp_all add: act_lift_eq act_read_eq assms(2))

lemma interrupt_ok:
  assumes "interrupt_observation i reason t now db = (db', res)" "observations_ok db"
  shows "observations_ok db' \<and> extends db db'"
  using assms(1) unfolding interrupt_observation_def
proof (elim act_bind_elim, goal_cases)
  case (2 db1 e)
  then have e: "observation i db = Inr e" "db1 = db" by (simp_all add: act_read_eq)
  show ?case
  proof (cases "oe_status e = Obs_Running")
    case True
    have "e\<lparr>oe_status := Obs_Interrupted, oe_completed_at := Some u, oe_interruption_reason := Some reason\<rparr>
        = closed_as Obs_Interrupted u (Some reason) e" for u by (simp add: closed_as_def)
    then show ?thesis
      using 2(2) True close_running [OF assms(2) e(1) True, of Obs_Interrupted] assms(2) unfolding e
      by (auto simp: act_bind_def act_lift_def Let_def split: sum.splits)
  qed (use 2(2) e assms(2) in \<open>auto simp: act_lift_eq\<close>)
qed (simp_all add: act_read_eq assms(2))

lemma capture_decision_ok:
  assumes "capture_decision sha256 i r p db = (db', res)" "observations_ok db"
  shows "observations_ok db' \<and> extends db db'"
  using assms(1) unfolding capture_decision_def
proof (elim act_bind_elim, goal_cases)
  case (2 db1 e)
  then have e: "observation i db = Inr e" "db1 = db" by (simp_all add: act_read_eq)
  have here: "list_ex (closes e) (ot_experiments db)"
    using find_observation_Some [OF observation_Inr [OF e(1)]] by (auto simp: list_ex_iff intro: bexI [of _ e])
  show ?case
  proof (cases "oe_status e = Obs_Running \<and> oe_started_at e \<le> rr_as_of r \<and> rr_as_of r \<le> oe_planned_end_at e")
    case True
    have c: "observations_ok (save_observation (closed_as status t reason e) db)
       \<and> extends db (save_observation (closed_as status t reason e) db)
       \<and> list_ex (closes e) (ot_experiments (save_observation (closed_as status t reason e) db))"
      if "status \<notin> {Obs_Created, Obs_Running}" for status t reason
      using close_running [OF assms(2) e(1) _ that] True by blast
    have st: "observations_ok db3 \<and> extends db db3" if "store_decision sha256 p e r db2 = (db3, res3)"
      "observations_ok db2 \<and> extends db db2 \<and> list_ex (closes e) (ot_experiments db2)" for db2 db3 res3
      using store_decision_ok [OF that(1)] that(2) True extends_trans by blast
    show ?thesis
      using 2(2) True here assms(2) unfolding e
      by (auto simp: act_bind_def act_lift_def c split: if_splits sum.splits dest!: st)
  qed (use 2(2) e assms(2) in \<open>auto simp: act_lift_eq split: if_splits\<close>)
qed (simp_all add: act_read_eq assms(2))

text \<open>Market data made of candles, whose constructor checks their range.\<close>

definition candle_range :: "candle \<Rightarrow> bool" where
  "candle_range c = (low_price c \<le> close_price c \<and> close_price c \<le> high_price c)"

definition fetches_candles :: "market_fetch \<Rightarrow> bool" where
  "fetches_candles fetch =
     (\<forall>u a b bundle symbol cs. fetch u a b = Inr bundle \<longrightarrow> candles_of symbol bundle = Inr cs \<longrightarrow> list_all candle_range cs)"

lemma max_of_ge: "y \<in> set (x # xs) \<Longrightarrow> y \<le> max_of x xs"
  unfolding max_of_def Max.set_eq_fold [symmetric] by (rule Max_ge) simp_all

lemma least_of_le: "y \<in> set (x # xs) \<Longrightarrow> least_of x xs \<le> y"
  unfolding least_of_def Min.set_eq_fold [symmetric] by (rule Min_le) simp_all

lemma change_from_mono:
  assumes "change_from r a = Inr x" "change_from r b = Inr y" "0 < r" "a \<le> b"
  shows "x \<le> y"
proof -
  have "fquot a r \<le> fquot b r" using assms(3,4) by (simp add: fquot_def flt.rnd_mono divide_right_mono)
  then show ?thesis using assms(1-3) by (auto simp: change_from_def fdiv_def py_result fsub_def intro!: flt.rnd_mono)
qed

lemma outcome_candles_range:
  assumes "outcome_candles fetch s target symbol = Inr (cs, missing)" "fetches_candles fetch"
  shows "list_all candle_range cs"
proof -
  consider "cs = []" | u b all where "fetch u (dn_decision_time s - minutes 15) target = Inr b"
      "candles_of symbol b = Inr all" "set cs \<subseteq> set all"
    using assms(1) unfolding outcome_candles_def by (auto simp: py_result split: sum.splits py_error.splits)
  then show ?thesis
  proof cases
    case 2
    then have "list_all candle_range all" using assms(2) unfolding fetches_candles_def by blast
    then show ?thesis using 2(3) by (auto simp: list_all_iff)
  qed simp
qed

lemma outcome_of_ok:
  assumes "outcome_of fetch s h target t = Inr v" "fetches_candles fetch" "dn_reference_price s = Some r" "0 < r"
  shows "do_snapshot_id v = dn_snapshot_id s \<and> do_horizon_minutes v = h \<and> do_target_at v = target
    \<and> do_evaluated_at v = t \<and> (do_status v = MISSING_DATA \<and> target + outcome_data_grace \<le> t \<or> do_status v = Outcome_Completed
        \<longrightarrow> outcome_judged v)"
proof -
  obtain symbol cs missing where c: "outcome_candles fetch s target symbol = Inr (cs, missing)"
    and v: "outcome_from s h target t cs missing = Inr v"
    using assms(1) unfolding outcome_of_def bind_result_Inr by auto
  show ?thesis
  proof (cases "cs = [] \<or> minutes 30 < target - available_at (last cs)")
    case True
    then show ?thesis
      using v by (auto simp: outcome_from_def missing_outcome_def outcome_judged_def split: list.splits)
  next
    case False
    then obtain c cs' where cs: "cs = c # cs'" by (cases cs) auto
    have range: "candle_range (last cs)" "last cs \<in> set cs"
      using outcome_candles_range [OF c assms(2)] cs by (auto simp: list_all_iff)
    obtain f m a where f: "change_from r (flt (close_price (last cs))) = Inr f"
      "change_from r (max_of (flt (high_price c)) (map (\<lambda>c. flt (high_price c)) cs')) = Inr m"
      "change_from r (least_of (flt (low_price c)) (map (\<lambda>c. flt (low_price c)) cs')) = Inr a"
      and w: "v = \<lparr>do_snapshot_id = dn_snapshot_id s, do_horizon_minutes = h, do_target_at = target,
                        do_evaluated_at = t, do_status = Outcome_Completed, do_forward_return = Some f,
                        do_mfe = Some m, do_mae = Some a, do_missing_reason = None\<rparr>"
      using v False assms(3) unfolding cs outcome_from_def by (auto simp: py_result simp del: last.simps)
    have "flt (close_price (last cs)) \<le> flt (high_price (last cs))" "flt (low_price (last cs)) \<le> flt (close_price (last cs))"
      using range(1) by (simp_all add: candle_range_def flt.rnd_mono)
    moreover have "flt (high_price (last cs)) \<in> set (flt (high_price c) # map (\<lambda>c. flt (high_price c)) cs')"
      "flt (low_price (last cs)) \<in> set (flt (low_price c) # map (\<lambda>c. flt (low_price c)) cs')"
      using range(2) cs by auto
    ultimately have "f \<le> m" "a \<le> f"
      using change_from_mono [OF f(1,2) assms(4)] change_from_mono [OF f(3,1) assms(4)] max_of_ge least_of_le
      by (blast intro: order_trans)+
    then show ?thesis by (simp add: w outcome_judged_def)
  qed
qed

lemma save_outcome_ok:
  assumes "save_outcome v db = (db', res)" "observations_ok db" "s \<in> set (ot_snapshots db)" "outcome_of_snapshot v s"
  shows "observations_ok db' \<and> extends db db' \<and> ot_snapshots db' = ot_snapshots db"
proof -
  let ?present = "list_ex (\<lambda>w. do_snapshot_id w = do_snapshot_id v \<and> do_horizon_minutes w = do_horizon_minutes v) (ot_outcomes db)"
  consider "db' = db" | "\<not> ?present" "db' = db\<lparr>ot_outcomes := ot_outcomes db @ [v]\<rparr>"
    using assms(1) unfolding save_outcome_def by (auto split: if_splits)
  then show ?thesis
  proof cases
    case 2
    have "(do_snapshot_id v, do_horizon_minutes v) \<notin> set (map (\<lambda>v. (do_snapshot_id v, do_horizon_minutes v)) (ot_outcomes db))"
      using 2(1) unfolding list_ex_iff by auto
    moreover have "list_ex (outcome_of_snapshot v) (ot_snapshots db)" using assms(3,4) by (auto simp: list_ex_iff)
    ultimately show ?thesis
      using assms(2) unfolding 2(2) observations_ok_def extends_def by (auto intro: exI [of _ "ot_experiments db"])
  qed (use assms(2) in auto)
qed

text \<open>The rows an evaluation looks at.\<close>

definition row_ok :: "observation_store \<Rightarrow> decision_snapshot \<times> int \<Rightarrow> bool" where
  "row_ok db row =
     (fst row \<in> set (ot_snapshots db) \<and> snd row \<in> set horizons
      \<and> (case dn_reference_price (fst row) of None \<Rightarrow> False | Some r \<Rightarrow> 0 < r))"

lemma pending_rows_ok: "list_all (row_ok db) (pending_rows i db)"
  by (auto simp: list_all_iff pending_rows_def decision_snapshots_def lane_snapshots_def row_ok_def split: option.splits)

lemma evaluate_one_ok:
  assumes "evaluate_one fetch existing t row db = (db', res)" "observations_ok db" "row_ok db row" "fetches_candles fetch"
  shows "observations_ok db' \<and> extends db db' \<and> ot_snapshots db' = ot_snapshots db"
proof (cases "(dn_snapshot_id (fst row), snd row) \<in> existing \<or> t < dn_decision_time (fst row) + minutes (snd row)")
  case True
  then show ?thesis using assms(1,2) by (auto simp: evaluate_one_def Let_def act_lift_def split: prod.splits)
next
  case False
  obtain r where r: "dn_reference_price (fst row) = Some r" "0 < r" using assms(3) by (auto simp: row_ok_def split: option.splits)
  let ?target = "dn_decision_time (fst row) + minutes (snd row)"
  consider "db' = db" | v new where "outcome_of fetch (fst row) (snd row) ?target t = Inr v"
      "\<not> (do_status v = MISSING_DATA \<and> t < ?target + outcome_data_grace)" "save_outcome v db = (db', new)"
    using assms(1) False unfolding evaluate_one_def Let_def
    by (auto simp: act_bind_def act_lift_def split: prod.splits sum.splits if_splits)
  then show ?thesis
  proof cases
    case (2 v new)
    have "outcome_of_snapshot v (fst row)"
      using outcome_of_ok [OF 2(1) assms(4) r] 2(2) False assms(3)
      by (cases "do_status v") (auto simp: outcome_of_snapshot_def row_ok_def)
    then show ?thesis using save_outcome_ok [OF 2(3) assms(2)] assms(3) by (auto simp: row_ok_def)
  qed (use assms(2) in simp)
qed

lemma evaluate_rows_ok:
  assumes "evaluate_rows fetch existing t rows db = (db', res)" "observations_ok db" "list_all (row_ok db) rows" "fetches_candles fetch"
  shows "observations_ok db' \<and> extends db db'"
  using assms(1-3)
proof (induction rows arbitrary: db db' res)
  case Nil
  then show ?case by (simp add: act_lift_def)
next
  case (Cons row rows)
  obtain db1 res1 where o: "evaluate_one fetch existing t row db = (db1, res1)" by fastforce
  have one: "observations_ok db1 \<and> extends db db1 \<and> ot_snapshots db1 = ot_snapshots db"
    using evaluate_one_ok [OF o Cons.prems(2) _ assms(4)] Cons.prems(3) by simp
  have rows: "list_all (row_ok db1) rows" using Cons.prems(3) one by (simp add: list_all_iff row_ok_def)
  consider "db' = db1" | res2 where "evaluate_rows fetch existing t rows db1 = (db', res2)"
    using Cons.prems(1) o by (auto simp: act_bind_def act_lift_def split: sum.splits prod.splits)
  then show ?case
  proof cases
    case 2
    then show ?thesis using Cons.IH [OF 2] one rows extends_trans by blast
  qed (use one in simp)
qed

lemma evaluate_ok:
  assumes "evaluate_pending fetch i t now db = (db', res)" "observations_ok db" "fetches_candles fetch"
  shows "observations_ok db' \<and> extends db db'"
  using assms(1) unfolding evaluate_pending_def
proof (elim act_bind_elim, goal_cases)
  case (3 db1 current db2 e)
  then have e: "observation i db = Inr e" "db1 = db" "db2 = db" by (simp_all add: act_lift_eq act_read_eq)
  let ?db = "if oe_status e = Obs_Running \<and> oe_planned_end_at e \<le> current
             then save_observation (closed_as Obs_Completed (oe_planned_end_at e) None e) db else db"
  have db: "observations_ok ?db \<and> extends db ?db"
    using close_running [OF assms(2) e(1)] assms(2) by simp
  show ?case
    using evaluate_rows_ok [OF _ _ pending_rows_ok assms(3)] db 3(3) extends_trans unfolding e Let_def by blast
qed (simp_all add: act_lift_eq act_read_eq assms(2))

section \<open>The observation over its life\<close>

inductive observation_run :: "digest \<Rightarrow> observation_store \<Rightarrow> observation_store \<Rightarrow> bool" for sha256 where
  begins: "observation_run sha256 db db"
| starts: "observation_run sha256 db0 db \<Longrightarrow> start_observation sha256 l i pid p t now db = (db', res)
     \<Longrightarrow> observation_run sha256 db0 db'"
| permits: "observation_run sha256 db0 db \<Longrightarrow> permits_execution sha256 i pid p t db = (db', allowed)
     \<Longrightarrow> observation_run sha256 db0 db'"
| captures: "observation_run sha256 db0 db \<Longrightarrow> capture_decision sha256 i r p db = (db', stored)
     \<Longrightarrow> observation_run sha256 db0 db'"
| interrupts: "observation_run sha256 db0 db \<Longrightarrow> interrupt_observation i reason t now db = (db', res)
     \<Longrightarrow> observation_run sha256 db0 db'"
| evaluates: "observation_run sha256 db0 db \<Longrightarrow> evaluate_pending fetch i t now db = (db', added)
     \<Longrightarrow> fetches_candles fetch \<Longrightarrow> observation_run sha256 db0 db'"

lemma observation_run_ok:
  "observation_run sha256 db0 db \<Longrightarrow> observations_ok db0 \<Longrightarrow> observations_ok db \<and> extends db0 db"
proof (induction rule: observation_run.induct)
  case (starts db0 db l i pid p t now db' res)
  then show ?case using start_ok extends_trans by metis
next
  case (permits db0 db i pid p t db' allowed)
  then show ?case using permits_ok extends_trans by metis
next
  case (captures db0 db i r p db' stored)
  then show ?case using capture_decision_ok extends_trans by metis
next
  case (interrupts db0 db i reason t now db' res)
  then show ?case using interrupt_ok extends_trans by metis
next
  case (evaluates db0 db fetch i t now db' added)
  then show ?case using evaluate_ok extends_trans by metis
qed simp

lemma empty_observations_ok: "observations_ok empty_observations"
  by (simp add: observations_ok_def empty_observations_def)

text \<open>C29: on every store the observation reaches, the rows refer to each other and are unique, every snapshot
  carries the frozen configuration and lies in the period of its experiment, and every outcome was judged at or
  after its horizon, missing data only after the grace period.\<close>

theorem observations_sound:
  assumes "observation_run sha256 empty_observations db"
  shows "observations_ok db
    \<and> (\<forall>s \<in> set (ot_snapshots db). \<exists>e \<in> set (ot_experiments db). dn_experiment_id s = oe_experiment_id e
         \<and> dn_config_hash s = oe_config_hash e \<and> oe_started_at e \<le> dn_decision_time s
         \<and> dn_decision_time s \<le> oe_planned_end_at e)
    \<and> (\<forall>v \<in> set (ot_outcomes db). \<exists>s \<in> set (ot_snapshots db). do_snapshot_id v = dn_snapshot_id s
         \<and> dn_decision_time s + minutes (do_horizon_minutes v) \<le> do_evaluated_at v)"
proof -
  have ok: "observations_ok db" using observation_run_ok [OF assms empty_observations_ok] by blast
  then have s: "list_ex (snapshot_of_experiment s) (ot_experiments db)" if "s \<in> set (ot_snapshots db)" for s
    using that by (simp add: observations_ok_def list_all_iff)
  have v: "list_ex (outcome_of_snapshot v) (ot_snapshots db)" if "v \<in> set (ot_outcomes db)" for v
    using that ok by (simp add: observations_ok_def list_all_iff)
  show ?thesis
    using ok s v unfolding list_ex_iff snapshot_of_experiment_def outcome_of_snapshot_def by fastforce
qed

text \<open>C30: evidence is frozen: nothing that happens later changes or removes a snapshot, a context, a selection or
  an outcome, nor an experiment that is no longer running.\<close>

theorem evidence_frozen:
  assumes "observation_run sha256 empty_observations db" "observation_run sha256 db db'"
  shows "set (ot_snapshots db) \<subseteq> set (ot_snapshots db') \<and> set (ot_contexts db) \<subseteq> set (ot_contexts db')
    \<and> set (ot_variants db) \<subseteq> set (ot_variants db') \<and> set (ot_outcomes db) \<subseteq> set (ot_outcomes db')
    \<and> (\<forall>e \<in> set (ot_experiments db). oe_status e \<noteq> Obs_Running \<longrightarrow> e \<in> set (ot_experiments db'))
    \<and> (\<forall>e \<in> set (ot_experiments db). \<exists>e' \<in> set (ot_experiments db'). oe_experiment_id e' = oe_experiment_id e
         \<and> oe_config_hash e' = oe_config_hash e \<and> oe_planned_end_at e' = oe_planned_end_at e)"
proof -
  have "extends db db'"
    using observation_run_ok [OF assms(2)] observation_run_ok [OF assms(1) empty_observations_ok] by blast
  then obtain es fs where es: "ot_experiments db' = es @ fs" "list_all2 closes (ot_experiments db) es"
    and rows: "set (ot_snapshots db) \<subseteq> set (ot_snapshots db')" "set (ot_contexts db) \<subseteq> set (ot_contexts db')"
      "set (ot_variants db) \<subseteq> set (ot_variants db')" "set (ot_outcomes db) \<subseteq> set (ot_outcomes db')"
    unfolding extends_def by force
  have "\<exists>e' \<in> set (ot_experiments db'). closes e e'" if "e \<in> set (ot_experiments db)" for e
  proof -
    obtain k where k: "k < length (ot_experiments db)" "e = ot_experiments db ! k"
      using \<open>e \<in> _\<close> by (auto simp: in_set_conv_nth)
    then have "closes e (es ! k)" "es ! k \<in> set es"
      using list_all2_nthD [OF es(2)] list_all2_lengthD [OF es(2)] by auto
    then show ?thesis using es(1) by auto
  qed
  then show ?thesis using rows closes_fields unfolding closes_def by metis
qed

section \<open>Capturing twice\<close>

lemma find_saved:
  assumes "find_observation i db = Some e" "closes e e'"
  shows "find_observation i (save_observation e' db) = Some e'"
proof -
  have i: "oe_experiment_id e = i" "oe_experiment_id e' = i"
    using find_observation_Some [OF assms(1)] closes_fields [OF assms(2)] by auto
  have upd: "e\<lparr>oe_status := oe_status e', oe_completed_at := oe_completed_at e', oe_interruption_reason := oe_interruption_reason e'\<rparr> = e'"
    using assms(2) by (cases e, cases e') (auto simp: closes_def)
  have "find (\<lambda>x. oe_experiment_id x = i) (map (\<lambda>x. if oe_experiment_id x = i then f x else x) xs)
      = map_option f (find (\<lambda>x. oe_experiment_id x = i) xs)" if "\<And>x. oe_experiment_id (f x) = oe_experiment_id x" for f xs
    by (induction xs) (auto simp: that)
  from this [of "\<lambda>e. e\<lparr>oe_status := oe_status e', oe_completed_at := oe_completed_at e', oe_interruption_reason := oe_interruption_reason e'\<rparr>" "ot_experiments db"]
  show ?thesis
    using assms(1) i(2) upd unfolding save_observation_def find_observation_def by simp
qed

lemma insert_snapshots_again: "\<forall>v \<in> set vs. snapshot_conflict v db \<Longrightarrow> insert_snapshots vs db = Inr (db, 0)"
  by (induction vs) auto

lemma insert_variants_again:
  "\<forall>v \<in> set vs. list_ex (\<lambda>w. dv_snapshot_id w = dv_snapshot_id v \<and> dv_variant_id w = dv_variant_id v) (ot_variants db)
    \<Longrightarrow> insert_selection_variants vs db = Inr db"
  by (induction vs) auto

lemma insert_context_shape:
  "insert_market_context c db = Inr (db', new) \<Longrightarrow> insert_market_context c db' = Inr (db', False)
     \<and> (\<exists>xs. db' = db\<lparr>ot_contexts := ot_contexts db @ xs\<rparr>)"
  by (auto simp: insert_market_context_def split: if_splits intro: exI [of _ "[]"])

lemma insert_variants_shape:
  "insert_selection_variants vs db = Inr db' \<Longrightarrow> \<exists>xs. db' = db\<lparr>ot_variants := ot_variants db @ xs\<rparr>"
proof (induction vs db rule: insert_selection_variants.induct)
  case (1 db)
  then show ?case by (auto intro: exI [of _ "[]"])
next
  case (2 v vs db)
  then show ?case by (fastforce split: if_splits)
qed

lemma save_bundle_again:
  assumes "save_decision_bundle vs context variants db = (db', Inr n)"
  shows "save_decision_bundle vs context variants db' = (db', Inr 0) \<and> ot_experiments db' = ot_experiments db"
  using assms
proof (cases rule: save_bundle_cases)
  case (2 db1 m db2 new)
  obtain ws where d1: "db1 = db\<lparr>ot_snapshots := ot_snapshots db @ ws\<rparr>" and c1: "\<forall>v \<in> set vs. snapshot_conflict v db1"
    using insert_snapshots_result [OF 2(1)] by blast
  obtain xs where d2: "db2 = db1\<lparr>ot_contexts := ot_contexts db1 @ xs\<rparr>"
    and c2: "(case context of None \<Rightarrow> Inr (db2, False) | Some c \<Rightarrow> insert_market_context c db2) = Inr (db2, False)"
  proof (cases "context")
    case None
    then show ?thesis using 2(2) that [of "[]"] by simp
  next
    case (Some c)
    then show ?thesis using 2(2) insert_context_shape that by (metis option.case(2))
  qed
  obtain ys where d3: "db' = db2\<lparr>ot_variants := ot_variants db2 @ ys\<rparr>" using insert_variants_shape [OF 2(3)] by blast
  have s: "insert_snapshots vs db' = Inr (db', 0)"
    using c1 unfolding d3 d2 by (intro insert_snapshots_again) (simp add: snapshot_conflict_def)
  have c: "(case context of None \<Rightarrow> Inr (db', False) | Some c \<Rightarrow> insert_market_context c db') = Inr (db', False)"
    using c2 unfolding d3 by (cases "context") (auto simp: insert_market_context_def split: if_splits)
  have v: "insert_selection_variants variants db' = Inr db'"
    using insert_variants_all [OF 2(3)] by (intro insert_variants_again) blast
  have "save_decision_bundle vs context variants db' =
      (case bind_result (insert_snapshots vs db') (\<lambda>(db1, n).
             bind_result (case context of None \<Rightarrow> Inr (db1, False) | Some c \<Rightarrow> insert_market_context c db1) (\<lambda>(db2, _).
             bind_result (insert_selection_variants variants db2) (\<lambda>db3. Inr (db3, n)))) of
          Inl e \<Rightarrow> (db', Inl e)
        | Inr (db', n) \<Rightarrow> (db', Inr n))"
    using assms unfolding save_decision_bundle_def by (auto split: if_splits)
  also have "\<dots> = (db', Inr 0)" by (simp only: s c v bind_result.simps prod.case sum.case)
  finally show ?thesis by (simp add: d3 d2 d1)
qed simp

text \<open>Capturing the same result again stores nothing.\<close>

lemma capture_idempotent:
  assumes "capture_decision sha256 i r p db = (db', Inr n)"
  shows "capture_decision sha256 i r p db' = (db', Inr 0)"
proof -
  obtain e where e: "observation i db = Inr e"
    using assms by (auto simp: capture_decision_def act_bind_def act_read_def split: sum.splits)
  then have f: "find_observation i db = Some e" "check_observation e = Inr e"
    by (auto simp: observation_def check_observation_def split: option.splits if_splits)
  let ?db = "if oe_planned_end_at e \<le> rr_as_of r then save_observation (closed_as Obs_Completed (rr_as_of r) None e) db else db"
  show ?thesis
  proof (cases "oe_status e = Obs_Running \<and> oe_started_at e \<le> rr_as_of r \<and> rr_as_of r \<le> oe_planned_end_at e")
    case False
    then have "db' = db" using assms e by (auto simp: capture_decision_def act_bind_def act_read_def act_lift_def split: if_splits)
    then show ?thesis using False e by (auto simp: capture_decision_def act_bind_def act_read_def act_lift_def)
  next
    case True
    have st: "store_decision sha256 p e r ?db = (db', Inr n)"
      using assms True e
      by (auto simp: capture_decision_def act_bind_def act_read_def act_lift_def py_result split: if_splits sum.splits)
    have again: "store_decision sha256 p e r db' = (db', Inr 0) \<and> ot_experiments db' = ot_experiments ?db"
      using st save_bundle_again unfolding store_decision_def Let_def
      by (auto simp: act_bind_def act_lift_def split: sum.splits)
    then have fd: "find_observation i db' = find_observation i ?db" by (simp add: find_observation_def)
    show ?thesis
    proof (cases "oe_planned_end_at e \<le> rr_as_of r")
      case True
      let ?e = "closed_as Obs_Completed (rr_as_of r) None e"
      have "closes e ?e" using \<open>oe_status e = Obs_Running \<and> _\<close> by (simp add: closes_def closed_as_def)
      then have "find_observation i db' = Some ?e" using fd True find_saved [OF f(1)] by simp
      moreover have "check_observation ?e = Inr ?e" using f(2) by (auto simp: check_observation_def closed_as_def split: if_splits)
      ultimately have "observation i db' = Inr ?e" by (simp add: observation_def)
      then show ?thesis by (simp add: capture_decision_def act_bind_def act_read_def act_lift_def closed_as_def)
    next
      case False
      then have "observation i db' = Inr e" using fd f by (simp add: observation_def)
      then show ?thesis
        using assms again False e \<open>oe_status e = Obs_Running \<and> _\<close>
        by (auto simp: capture_decision_def act_bind_def act_read_def act_lift_def py_result split: if_splits sum.splits)
    qed
  qed
qed

section \<open>Evaluating\<close>





definition outcome_present :: "observation_store \<Rightarrow> decision_snapshot \<times> int \<Rightarrow> bool" where
  "outcome_present db row =
     list_ex (\<lambda>v. do_snapshot_id v = dn_snapshot_id (fst row) \<and> do_horizon_minutes v = snd row) (ot_outcomes db)"

lemma outcome_from_key:
  "outcome_from s h target t cs missing = Inr v \<Longrightarrow> do_snapshot_id v = dn_snapshot_id s \<and> do_horizon_minutes v = h"
  by (auto simp: outcome_from_def missing_outcome_def Let_def py_result split: list.splits if_splits)

lemma evaluate_one_result:
  assumes "evaluate_one fetch existing t row db = (db', Inr n)"
  shows "\<exists>vs. ot_outcomes db' = ot_outcomes db @ vs \<and> n = int (length vs)
    \<and> ((dn_snapshot_id (fst row), snd row) \<in> existing \<or> outcome_present db' row
       \<or> t < dn_decision_time (fst row) + minutes (snd row) + outcome_data_grace)"
proof -
  let ?target = "dn_decision_time (fst row) + minutes (snd row)"
  have g: "0 \<le> outcome_data_grace" by (simp add: outcome_data_grace_def minutes_def)
  consider "(dn_snapshot_id (fst row), snd row) \<in> existing \<or> t < ?target" "db' = db" "n = 0"
    | "t < ?target + outcome_data_grace" "db' = db" "n = 0"
    | v new where "outcome_of fetch (fst row) (snd row) ?target t = Inr v"
      "save_outcome v db = (db', Inr new)" "n = (if new then 1 else 0)"
    using assms unfolding evaluate_one_def Let_def
    by (auto simp: act_bind_def act_lift_def split: prod.splits sum.splits if_splits)
  then show ?thesis
  proof cases
    case (3 v new)
    have "do_snapshot_id v = dn_snapshot_id (fst row) \<and> do_horizon_minutes v = snd row"
      using 3(1) outcome_from_key unfolding outcome_of_def bind_result_Inr by auto
    then show ?thesis
      using 3(2,3) unfolding save_outcome_def outcome_present_def
      by (auto simp: list_ex_iff split: if_splits)
  qed (use g in auto)
qed

lemma evaluate_rows_result:
  assumes "evaluate_rows fetch existing t rows db = (db', Inr n)"
  shows "\<exists>vs. ot_outcomes db' = ot_outcomes db @ vs \<and> n = int (length vs)
    \<and> (\<forall>row \<in> set rows. (dn_snapshot_id (fst row), snd row) \<in> existing \<or> outcome_present db' row
       \<or> t < dn_decision_time (fst row) + minutes (snd row) + outcome_data_grace)"
  using assms
proof (induction rows arbitrary: db db' n)
  case Nil
  then show ?case by (auto simp: act_lift_def)
next
  case (Cons row rows)
  obtain db1 k m where one: "evaluate_one fetch existing t row db = (db1, Inr k)"
    and rest: "evaluate_rows fetch existing t rows db1 = (db', Inr m)" "n = k + m"
    using Cons.prems by (auto simp: act_bind_def act_lift_def split: prod.splits sum.splits)
  obtain vs where vs: "ot_outcomes db1 = ot_outcomes db @ vs" "k = int (length vs)"
    "(dn_snapshot_id (fst row), snd row) \<in> existing \<or> outcome_present db1 row
       \<or> t < dn_decision_time (fst row) + minutes (snd row) + outcome_data_grace"
    using evaluate_one_result [OF one] by blast
  obtain ws where ws: "ot_outcomes db' = ot_outcomes db1 @ ws" "m = int (length ws)"
    "\<forall>row \<in> set rows. (dn_snapshot_id (fst row), snd row) \<in> existing \<or> outcome_present db' row
       \<or> t < dn_decision_time (fst row) + minutes (snd row) + outcome_data_grace"
    using Cons.IH [OF rest(1)] by blast
  have "outcome_present db1 row \<Longrightarrow> outcome_present db' row" using ws(1) by (simp add: outcome_present_def)
  then show ?case using vs ws rest(2) by (intro exI [of _ "vs @ ws"]) auto
qed

lemma joined_in:
  "(r, s) \<in> set (joined f i db rows) \<Longrightarrow> r \<in> set rows"
  by (auto simp: joined_def map_filter_def split: option.splits if_splits)

text \<open>An evaluation that returns has judged every priced snapshot of the experiment at every horizon whose
  grace period is over, and returns the number of outcomes it has added.\<close>

lemma evaluation_complete:
  assumes run: "evaluate_pending fetch i (Some (Aware t)) now db = (db', Inr n)"
    and s: "s \<in> set (ot_snapshots db)" "dn_experiment_id s = i" "dn_reference_price s = Some r" "0 < r"
    and h: "h \<in> set horizons" "dn_decision_time s + minutes h + outcome_data_grace \<le> t"
  shows "(\<exists>v \<in> set (ot_outcomes db'). do_snapshot_id v = dn_snapshot_id s \<and> do_horizon_minutes v = h)
    \<and> int (length (ot_outcomes db')) = int (length (ot_outcomes db)) + n"
proof -
  let ?close = "\<lambda>e. if oe_status e = Obs_Running \<and> oe_planned_end_at e \<le> t
             then save_observation (closed_as Obs_Completed (oe_planned_end_at e) None e) db else db"
  obtain e where e: "evaluate_rows fetch (set (map (\<lambda>v. (do_snapshot_id v, do_horizon_minutes v)) (decision_outcomes i (?close e)))) t
      (pending_rows i (?close e)) (?close e) = (db', Inr n)"
    using run unfolding evaluate_pending_def time_or_now_def
    by (auto simp: act_bind_def act_lift_def act_read_def Let_def split: sum.splits)
  have c: "ot_snapshots (?close e) = ot_snapshots db" "ot_outcomes (?close e) = ot_outcomes db"
    by (simp_all add: save_observation_def)
  have "(s, h) \<in> set (pending_rows i (?close e))"
    using s h(1) c(1) by (force simp: pending_rows_def decision_snapshots_def lane_snapshots_def)
  then have "(dn_snapshot_id s, h) \<in> set (map (\<lambda>v. (do_snapshot_id v, do_horizon_minutes v)) (decision_outcomes i (?close e)))
      \<or> outcome_present db' (s, h)" and n: "int (length (ot_outcomes db')) = int (length (ot_outcomes db)) + n"
    and old: "set (ot_outcomes db) \<subseteq> set (ot_outcomes db')"
    using evaluate_rows_result [OF e] h(2) c(2) by fastforce+
  moreover have "set (decision_outcomes i (?close e)) \<subseteq> set (ot_outcomes db)"
    using c(2) by (auto simp: decision_outcomes_def dest: joined_in)
  ultimately show ?thesis by (force simp: outcome_present_def list_ex_iff)
qed

section \<open>Permission to trade\<close>

text \<open>Orders are permitted only for a running experiment of that portfolio and exactly that frozen
  configuration, from its start to before its planned end.\<close>

lemma permitted_only_in_period:
  assumes "permits_execution sha256 i pid p now db = (db', Inr True)"
  shows "db' = db \<and> (\<exists>e t. now = Aware t \<and> observation i db = Inr e \<and> oe_status e = Obs_Running
    \<and> oe_portfolio_id e = pid \<and> oe_strategy_version e = dp_strategy_version p
    \<and> strategy_config_hash sha256 p = Inr (oe_config_hash e)
    \<and> oe_started_at e \<le> t \<and> t < oe_planned_end_at e)"
  using assms unfolding permits_execution_def
  by (cases now) (auto simp: act_bind_def act_lift_def act_read_def bind_result_Inr split: sum.splits if_splits)

section \<open>What the health report misses\<close>

lemma lane_matured:
  assumes "\<forall>s \<in> set (lane_snapshots i db). dn_reference_price s \<noteq> None \<and> dn_decision_time s + minutes 1440 \<le> current"
  shows "hc_matured_outcomes (health_counts_of i current db) = 6 * length (lane_snapshots i db)"
proof -
  have "matured_at (current - minutes m) (lane_snapshots i db) = lane_snapshots i db" if "m \<le> 1440" for m
    unfolding matured_at_def using assms that
    by (auto simp: filter_id_conv julian_ms_def minutes_def intro!: zdiv_mono1)
  then show ?thesis by (simp add: health_counts_of_def health_cutoffs_def Let_def)
qed

text \<open>The backlog of the health report counts six of the seven horizons, so a candidate that is evaluated
  everywhere but at one of them is reported as no backlog.\<close>

lemma backlog_misses_a_horizon:
  assumes "observation_health_of src i current db = Inr h"
    and "\<forall>s \<in> set (lane_snapshots i db). dn_reference_price s \<noteq> None \<and> dn_decision_time s + minutes 1440 \<le> current"
  shows "oh_outcome_evaluation_backlog h = max 0 (6 * int (length (lane_snapshots i db)) - oh_outcome_rows h)
    \<and> length horizons = 7"
  using assms(1) lane_matured [OF assms(2)] by (auto simp: observation_health_of_def Let_def py_result horizons_def)

section \<open>A concrete observation\<close>

definition short_digest :: digest where
  "short_digest _ = ''h''"

definition sample_observation :: observation_experiment where
  "sample_observation =
     \<lparr>oe_experiment_id = ''lab'', oe_portfolio_id = ''paper'', oe_strategy_version = ''dynamic-intraday-v2.7'',
      oe_config_hash = ''h'', oe_started_at = 0, oe_planned_end_at = hours 168, oe_status = Obs_Running,
      oe_starting_equity = 100000, oe_completed_at = None, oe_interruption_reason = None\<rparr>"

definition started_observations :: observation_store where
  "started_observations = empty_observations\<lparr>ot_experiments := [sample_observation]\<rparr>"

definition sample_cycle :: rebalance_result where
  "sample_cycle =
     \<lparr>rr_portfolio_id = ''paper'', rr_as_of = hours 1, rr_universe_observed_at = 0, rr_dry_run = True, rr_equity = 100000,
      rr_selected = [], rr_assessments = [(rejected ''BTCKRW'' ''LOW_LIQUIDITY'')\<lparr>ca_latest_price := Some 1000\<rparr>], rr_orders = [],
      rr_final_portfolio = \<lparr>ps_portfolio_id = ''paper'', ps_purpose = PAPER_TRADING, ps_cash_asset = pair_quote btc_krw,
        ps_cash_balance = 100000, ps_positions = [], ps_updated_at = 0\<rparr>,
      rr_risk_violations = [], rr_decision_reasons = [], rr_derivatives_overlay = None, rr_selection_variants = [],
      rr_decision_diagnostics = [], rr_execution_model_version = ''m'', rr_execution_fee_rate = 0,
      rr_execution_slippage_rate = 0\<rparr>"

lemma v27_hash: "strategy_config_hash short_digest policy_v27 = Inr ''h''"
proof -
  have "is_ok (strategy_policy_config_values policy_v27)"
    using early_publishable(7)
    by (auto simp: publishable_def strategy_policy_config_values_def validate_version_def raise_if_def is_ok_def
        schema_version_for_policy_def policy_fields_for_schema_def Let_def split: sum.splits if_splits)
  then show ?thesis by (auto simp: strategy_config_hash_def short_digest_def is_ok_iff)
qed

lemma krw_asset: "mk_asset ''KRW'' CASH = Inr (pair_quote btc_krw)"
  by code_simp

lemma sample_starts:
  "start_observation short_digest sample_ledger ''lab'' ''paper'' policy_v27 (Some (Aware 0)) 0 empty_observations
    = (started_observations, Inr sample_observation)"
  using flt_of_int [of 100000] v27_version
  by (simp add: start_observation_def time_or_now_def v27_hash act_bind_def act_lift_def observation_def
      find_observation_def empty_observations_def started_observations_def sample_observation_def save_observation_def
      check_observation_def portfolio_equity_def list_rebalance_decisions_def get_portfolio_def sample_ledger_defs
      rows_of_def krw_asset sort_by_def hours_def)

text \<open>The observation of the sample cycle, and the data of an exchange without files.\<close>

definition observed_cycle :: observation_store where
  "observed_cycle = fst (capture_decision short_digest ''lab'' sample_cycle policy_v27 started_observations)"

definition no_files :: market_fetch where
  "no_files u start t = Inl (FileNotFoundError ''candles'')"

lemma sample_captures:
  "capture_decision short_digest ''lab'' sample_cycle policy_v27 started_observations = (observed_cycle, Inr 1)"
  "map dn_snapshot_id (ot_snapshots observed_cycle) = [''h'']"
  "map dn_asset (ot_snapshots observed_cycle) = [''BTC'']"
  "map dn_decision_time (ot_snapshots observed_cycle) = [hours 1]"
  "map dn_reference_price (ot_snapshots observed_cycle) = [Some 1000]"
  "map dn_experiment_id (ot_snapshots observed_cycle) = [''lab'']"
  "ot_experiments observed_cycle = [sample_observation]" "ot_outcomes observed_cycle = []"
  using flt_of_int [of 100000] flt_of_int [of 1000]
  by (simp_all add: observed_cycle_def capture_decision_def started_observations_def empty_observations_def observation_def
      find_observation_def check_observation_def sample_observation_def sample_cycle_def hours_def v27_version v27_hash
      act_bind_def act_read_def act_lift_def store_decision_def capture_frame_of_def final_weights_def dict_of_def
      rejected_def base_symbol_def ranks_of_def observed_ranking_def sort_on_def sort_by_def context_of_def
      observed_variant_rows_def save_decision_bundle_def snapshot_conflict_def snapshot_of_def action_reason_def
      observed_snapshot_id_def short_digest_def Let_def)

lemma btc_universe:
  "\<exists>u. build_universe [''BTC/KRW''] = Inr u \<and> universe_pairs u = [btc_krw]"
proof -
  have "case build_universe [''BTC/KRW''] of Inl _ \<Rightarrow> False | Inr u \<Rightarrow> universe_pairs u = [btc_krw]"
    by code_simp
  then show ?thesis by (simp split: sum.splits)
qed

lemma no_files_candles: "fetches_candles no_files"
  by (simp add: fetches_candles_def no_files_def)

lemma no_files_outcome:
  assumes "dn_asset s = ''BTC''"
  shows "outcome_of no_files s h target t = Inr (missing_outcome s h target t ''MARKET_DATA_FILE_NOT_FOUND'')"
proof -
  obtain u where "build_universe [''BTC/KRW''] = Inr u" "universe_pairs u = [btc_krw]" using btc_universe by blast
  then show ?thesis using assms by (simp add: outcome_of_def outcome_candles_def no_files_def outcome_from_def)
qed

text \<open>Five hours after the decision the horizons up to four hours are over.\<close>

lemma sample_evaluates:
  "\<exists>db. evaluate_pending no_files ''lab'' (Some (Aware (hours 6))) 0 observed_cycle = (db, Inr 5)
     \<and> map do_horizon_minutes (ot_outcomes db) = [15, 30, 60, 120, 240]
     \<and> map do_snapshot_id (ot_outcomes db) = [''h'', ''h'', ''h'', ''h'', ''h''] \<and> ot_experiments db = [sample_observation]
     \<and> ot_snapshots db = ot_snapshots observed_cycle"
proof -
  obtain s where s: "ot_snapshots observed_cycle = [s]" "dn_snapshot_id s = ''h''" "dn_asset s = ''BTC''"
    "dn_decision_time s = hours 1" "dn_reference_price s = Some 1000" "dn_experiment_id s = ''lab''"
    using sample_captures(2-6) by (cases "ot_snapshots observed_cycle") auto
  have o: "observation ''lab'' observed_cycle = Inr sample_observation"
    by (simp add: observation_def find_observation_def sample_captures(7) check_observation_def sample_observation_def hours_def)
  have p: "pending_rows ''lab'' observed_cycle = map (\<lambda>h. (s, h)) horizons"
    by (simp add: pending_rows_def decision_snapshots_def lane_snapshots_def s)
  have d: "decision_outcomes ''lab'' observed_cycle = []"
    by (simp add: decision_outcomes_def sample_captures(8) joined_def map_filter_def)
  have st: "oe_status sample_observation = Obs_Running" "\<not> oe_planned_end_at sample_observation \<le> hours 6"
    by (simp_all add: sample_observation_def hours_def)
  have one: "evaluate_one no_files {} (hours 6) (s, h) db =
      (if h \<le> 270 \<and> \<not> list_ex (\<lambda>w. do_snapshot_id w = ''h'' \<and> do_horizon_minutes w = h) (ot_outcomes db)
       then (db\<lparr>ot_outcomes := ot_outcomes db @ [missing_outcome s h (hours 1 + minutes h) (hours 6) ''MARKET_DATA_FILE_NOT_FOUND'']\<rparr>, Inr 1)
       else (db, Inr 0))" if "ot_snapshots db = [s]" for h db
    using that s by (auto simp: evaluate_one_def no_files_outcome act_bind_def act_lift_def save_outcome_def find_decision_def
        missing_outcome_def outcome_data_grace_def hours_def minutes_def Let_def)
  show ?thesis
    by (simp add: evaluate_pending_def time_or_now_def act_bind_def act_lift_def act_read_def o p d
        st horizons_def one s(1,2) sample_captures(7,8) missing_outcome_def)
qed

lemma sample_run: "observation_run short_digest empty_observations observed_cycle"
  using observation_run.captures [OF observation_run.starts [OF observation_run.begins sample_starts] sample_captures(1)] .

lemma observations_sound_witness:
  "observations_ok observed_cycle \<and> length (ot_snapshots observed_cycle) = 1"
  using observations_sound [OF sample_run] sample_captures(2) by (metis length_map list.size(3) length_Cons One_nat_def)

lemma evidence_frozen_witness:
  "\<exists>db n. evaluate_pending no_files ''lab'' (Some (Aware (hours 6))) 0 observed_cycle = (db, Inr n)
     \<and> set (ot_snapshots observed_cycle) \<subseteq> set (ot_snapshots db)"
proof -
  obtain db where e: "evaluate_pending no_files ''lab'' (Some (Aware (hours 6))) 0 observed_cycle = (db, Inr 5)"
    using sample_evaluates by blast
  have "observation_run short_digest observed_cycle db"
    using observation_run.evaluates [OF observation_run.begins e no_files_candles] .
  from evidence_frozen [OF sample_run this] e show ?thesis by blast
qed




definition report_inputs :: report_sources where
  "report_inputs =
     \<lparr>rs_files = None, rs_job_names = Map.empty, rs_fetch = no_files, rs_ledger = empty_ledger, rs_now = 0, rs_half_power = id\<rparr>"

text \<open>Ten days later every horizon of the cycle is owed but the one of a day, and the backlog tells one.\<close>

end
