(* ===== verification/Runtime.thy ===== *)
theory Runtime
  imports Texts Actions
begin

text \<open>
  The job runtime (\<^verbatim>\<open>runtime/domain.py\<close>, \<^verbatim>\<open>config.py\<close>, \<^verbatim>\<open>infrastructure.py\<close>, \<^verbatim>\<open>service.py\<close>, \<^verbatim>\<open>scheduler.py\<close>):
  executions and the state of the engine, their JSON files, the leases, and \<^verbatim>\<open>RuntimeStateService.run_job\<close>.

  \<^verbatim>\<open>run_job\<close> runs in many threads and processes at once, so it is a step machine: every step is one
  critical section, one file write or one transaction of the lease table, and the threads interleave.
  The clock, the random part of identifiers, the delivery of an event and what a handler does are inputs.
  An event is made and its delivery settled in one step.
\<close>

section \<open>Domain\<close>

datatype engine_status = Eng_Starting | Eng_Idle | Eng_Running | Eng_Degraded | Eng_Error | Eng_Stopped

datatype job_status =
    Job_Scheduled | Job_Running | Job_Completed | Job_Failed | Job_Skipped | Skipped_Locked | Skipped_Duplicate
  | Job_Cancelled

datatype event_type =
    Engine_Started | Engine_Stopping | Heartbeat | Job_Scheduled_Event | Job_Started_Event | Job_Completed_Event
  | Job_Failed_Event | Job_Skipped_Event

datatype error_category =
  Data_Provider_Error | Data_Validation_Error | Research_Error | Model_Error | Storage_Error | Internal_Error

record runtime_error_info =
  ri_category :: error_category
  ri_code :: string
  ri_message :: string

record job_execution =
  je_execution_id :: string
  je_job_name :: string
  je_status :: job_status
  je_scheduled_at :: utc
  je_started_at :: "utc option"
  je_finished_at :: "utc option"
  je_error :: "runtime_error_info option"
  je_retry_count :: int
  je_metadata :: "(string \<times> json) list"

text \<open>The civil date of a day since the epoch, in years that begin in March.\<close>

definition civil_of_days :: "int \<Rightarrow> int \<times> int \<times> int" where
  "civil_of_days n =
     (let z = n + 719468; era = z div 146097; doe = z mod 146097;
          yoe = (doe - doe div 1460 + doe div 36524 - doe div 146096) div 365;
          doy = doe - (365 * yoe + yoe div 4 - yoe div 100);
          mp = (5 * doy + 2) div 153;
          d = doy - (153 * mp + 2) div 5 + 1;
          m = (if mp < 10 then mp + 3 else mp - 9)
      in (yoe + era * 400 + (if m \<le> 2 then 1 else 0), m, d))"

definition padded :: "nat \<Rightarrow> int \<Rightarrow> string" where
  "padded width n = (let s = int_text n in replicate (width - length s) CHR ''0'' @ s)"

text \<open>\<^verbatim>\<open>f"{timestamp:%Y%m%dT%H%M%S%fZ}"\<close>.\<close>

definition stamp_text :: "utc \<Rightarrow> string" where
  "stamp_text t =
     (let (y, m, d) = civil_of_days (t div 86400000000); s = t mod 86400000000 div 1000000
      in padded 4 y @ padded 2 m @ padded 2 d @ ''T'' @ padded 2 (s div 3600) @ padded 2 (s mod 3600 div 60)
         @ padded 2 (s mod 60) @ padded 6 (t mod 1000000) @ ''Z'')"

definition new_execution :: "string \<Rightarrow> utc \<Rightarrow> string \<Rightarrow> string option \<Rightarrow> job_execution" where
  "new_execution job_name now uuid identity =
     \<lparr>je_execution_id = ''exec-'' @ stamp_text now @ ''-'' @ take 8 uuid, je_job_name = job_name,
      je_status = Job_Scheduled, je_scheduled_at = now, je_started_at = None, je_finished_at = None, je_error = None,
      je_retry_count = 0,
      je_metadata = (case identity of
         None \<Rightarrow> [] | Some i \<Rightarrow> if i = [] then [] else [(''executionIdentity'', JStr i)])\<rparr>"

definition start_execution :: "utc \<Rightarrow> job_execution \<Rightarrow> job_execution result" where
  "start_execution now x =
     (if je_status x \<noteq> Job_Scheduled then Inl (ValueError ''only a scheduled job can start'')
      else Inr (x\<lparr>je_status := Job_Running, je_started_at := Some now\<rparr>))"

definition terminal_statuses :: "job_status list" where
  "terminal_statuses = [Job_Completed, Job_Failed, Job_Skipped, Skipped_Locked, Skipped_Duplicate, Job_Cancelled]"

definition finish_execution ::
    "job_status \<Rightarrow> runtime_error_info option \<Rightarrow> utc \<Rightarrow> job_execution \<Rightarrow> job_execution result" where
  "finish_execution status err now x =
     (if je_status x \<notin> {Job_Scheduled, Job_Running} then Inl (ValueError ''job is already terminal'')
      else if status \<notin> set terminal_statuses then Inl (ValueError ''invalid terminal job status'')
      else Inr (x\<lparr>je_status := status, je_finished_at := Some now, je_error := err\<rparr>))"

record engine_state =
  en_engine :: string
  en_instance_id :: string
  en_status :: engine_status
  en_version :: string
  en_started_at :: utc
  en_reported_at :: utc
  en_active_execution_ids :: "string list"
  en_last_successful_execution_id :: "string option"
  en_last_failed_execution_id :: "string option"
  en_reporting_degraded :: bool

record engine_event =
  ev_event_id :: string
  ev_event_type :: event_type
  ev_occurred_at :: utc
  ev_state :: engine_state
  ev_execution :: "job_execution option"

text \<open>\<^verbatim>\<open>EngineEvent.create\<close>; the event keeps the identity and the status of the state it is made from.\<close>

definition event_of :: "string \<Rightarrow> utc \<Rightarrow> engine_state \<Rightarrow> event_type \<Rightarrow> job_execution option \<Rightarrow> engine_event" where
  "event_of uuid now s kind x =
     \<lparr>ev_event_id = ''evt-'' @ uuid, ev_event_type = kind, ev_occurred_at = now, ev_state = s, ev_execution = x\<rparr>"

section \<open>The files of the runtime\<close>

fun status_text :: "job_status \<Rightarrow> string" where
  "status_text Job_Scheduled = ''SCHEDULED''"
| "status_text Job_Running = ''RUNNING''"
| "status_text Job_Completed = ''COMPLETED''"
| "status_text Job_Failed = ''FAILED''"
| "status_text Job_Skipped = ''SKIPPED''"
| "status_text Skipped_Locked = ''SKIPPED_LOCKED''"
| "status_text Skipped_Duplicate = ''SKIPPED_DUPLICATE''"
| "status_text Job_Cancelled = ''CANCELLED''"

definition job_statuses :: "job_status list" where
  "job_statuses = [Job_Scheduled, Job_Running] @ terminal_statuses"

fun category_text :: "error_category \<Rightarrow> string" where
  "category_text Data_Provider_Error = ''DATA_PROVIDER_ERROR''"
| "category_text Data_Validation_Error = ''DATA_VALIDATION_ERROR''"
| "category_text Research_Error = ''RESEARCH_ERROR''"
| "category_text Model_Error = ''MODEL_ERROR''"
| "category_text Storage_Error = ''STORAGE_ERROR''"
| "category_text Internal_Error = ''INTERNAL_ERROR''"

definition error_categories :: "error_category list" where
  "error_categories =
     [Data_Provider_Error, Data_Validation_Error, Research_Error, Model_Error, Storage_Error, Internal_Error]"

definition error_json :: "runtime_error_info \<Rightarrow> json" where
  "error_json e = JObj
     [(''category'', JStr (category_text (ri_category e))), (''code'', JStr (ri_code e)), (''message'', JStr (ri_message e))]"

text \<open>\<^verbatim>\<open>asdict(execution)\<close>.\<close>

definition execution_json :: "job_execution \<Rightarrow> json" where
  "execution_json x = JObj
     [(''execution_id'', JStr (je_execution_id x)), (''job_name'', JStr (je_job_name x)),
      (''status'', JStr (status_text (je_status x))), (''scheduled_at'', JTime (je_scheduled_at x)),
      (''started_at'', json_opt JTime (je_started_at x)), (''finished_at'', json_opt JTime (je_finished_at x)),
      (''error'', json_opt error_json (je_error x)), (''retry_count'', JInt (je_retry_count x)),
      (''metadata'', JObj (je_metadata x))]"

definition error_of_json :: "json option \<Rightarrow> runtime_error_info option result" where
  "error_of_json v =
     (case v of
        Some (JObj kvs) \<Rightarrow>
          bind_result (enum_at category_text error_categories ''category'' (JObj kvs)) (\<lambda>c.
          bind_result (text_at ''code'' (JObj kvs)) (\<lambda>code.
          bind_result (text_at ''message'' (JObj kvs)) (\<lambda>message.
            Inr (Some \<lparr>ri_category = c, ri_code = code, ri_message = message\<rparr>))))
      | _ \<Rightarrow> Inr None)"

definition metadata_of_json :: "json \<Rightarrow> (string \<times> json) list" where
  "metadata_of_json v = (case json_get ''metadata'' v of Some (JObj kvs) \<Rightarrow> kvs | _ \<Rightarrow> [])"

fun execution_of_json :: "json \<Rightarrow> job_execution result" where
  "execution_of_json (JObj kvs) =
     (let v = JObj kvs
      in bind_result (error_of_json (json_get ''error'' v)) (\<lambda>err.
         bind_result (text_at ''execution_id'' v) (\<lambda>i.
         bind_result (text_at ''job_name'' v) (\<lambda>name.
         bind_result (enum_at status_text job_statuses ''status'' v) (\<lambda>status.
         bind_result (time_at ''scheduled_at'' v) (\<lambda>scheduled.
         bind_result (optional_at json_time ''started_at'' v) (\<lambda>started.
         bind_result (optional_at json_time ''finished_at'' v) (\<lambda>finished.
         bind_result (optional_at json_int ''retry_count'' v) (\<lambda>retries.
           Inr \<lparr>je_execution_id = i, je_job_name = name, je_status = status, je_scheduled_at = scheduled,
                je_started_at = started, je_finished_at = finished, je_error = err,
                je_retry_count = (case retries of None \<Rightarrow> 0 | Some n \<Rightarrow> n), je_metadata = metadata_of_json v\<rparr>)))))))))"
| "execution_of_json _ = Inl (ValueError ''invalid runtime state record'')"

text \<open>A file of an execution is written beside its place and moved there, so it is never seen half written.\<close>

record runtime_store =
  rf_engine :: "engine_state option"
  rf_executions :: "(string \<times> json) list"

definition empty_runtime_store :: runtime_store where
  "empty_runtime_store = \<lparr>rf_engine = None, rf_executions = []\<rparr>"

definition execution_file :: "string \<Rightarrow> string" where
  "execution_file i = i @ ''.json''"

definition save_state :: "engine_state \<Rightarrow> runtime_store \<Rightarrow> runtime_store" where
  "save_state s st = st\<lparr>rf_engine := Some s\<rparr>"

definition save_execution :: "job_execution \<Rightarrow> runtime_store \<Rightarrow> runtime_store" where
  "save_execution x st =
     st\<lparr>rf_executions := dict_set (execution_file (je_execution_id x)) (execution_json x) (rf_executions st)\<rparr>"

definition list_runtime_executions :: "int \<Rightarrow> runtime_store \<Rightarrow> job_execution list result" where
  "list_runtime_executions limit st =
     map_result (\<lambda>(name, v). execution_of_json v) (py_take limit (rev (sort_key fst (rf_executions st))))"

definition get_execution :: "string \<Rightarrow> runtime_store \<Rightarrow> job_execution result" where
  "get_execution i st =
     (case map_of (rf_executions st) (execution_file i) of
        None \<Rightarrow> Inl (FileNotFoundError (execution_file i))
      | Some v \<Rightarrow> execution_of_json v)"

definition identity_of :: "job_execution \<Rightarrow> json option" where
  "identity_of x = map_of (je_metadata x) ''executionIdentity''"

definition claims_identity :: "string \<Rightarrow> job_execution \<Rightarrow> bool" where
  "claims_identity identity x = (identity_of x = Some (JStr identity) \<and> je_status x \<in> {Job_Running, Job_Completed})"

definition find_execution_by_identity :: "string \<Rightarrow> runtime_store \<Rightarrow> job_execution option result" where
  "find_execution_by_identity identity st =
     bind_result (list_runtime_executions 10000 st) (\<lambda>xs. Inr (find (claims_identity identity) xs))"

section \<open>Leases\<close>

record job_lease =
  jl_lock_key :: string
  jl_owner_id :: string
  jl_acquired_at :: utc
  jl_expires_at :: utc

text \<open>\<^verbatim>\<open>BEGIN IMMEDIATE\<close>: reading the lease and writing it are one transaction.\<close>

definition lease_of :: "string \<Rightarrow> job_lease list \<Rightarrow> job_lease option" where
  "lease_of key ls = find (\<lambda>l. jl_lock_key l = key) ls"

definition lease_acquire ::
    "string \<Rightarrow> string \<Rightarrow> timedelta \<Rightarrow> utc \<Rightarrow> job_lease list \<Rightarrow> job_lease list \<times> bool result" where
  "lease_acquire key owner ttl now ls =
     (if key = [] \<or> owner = [] \<or> ttl \<le> 0
      then (ls, Inl (ValueError ''lease requires key, owner, and positive TTL''))
      else
        let fresh = \<lparr>jl_lock_key = key, jl_owner_id = owner, jl_acquired_at = now, jl_expires_at = now + ttl\<rparr>
        in case lease_of key ls of
             None \<Rightarrow> (ls @ [fresh], Inr True)
           | Some l \<Rightarrow>
               if now < jl_expires_at l then (ls, Inr False)
               else (map (\<lambda>x. if jl_lock_key x = key then fresh else x) ls, Inr True))"

definition lease_release :: "string \<Rightarrow> string \<Rightarrow> job_lease list \<Rightarrow> job_lease list \<times> bool" where
  "lease_release key owner ls =
     (let mine = (\<lambda>l. jl_lock_key l = key \<and> jl_owner_id l = owner)
      in (filter (\<lambda>l. \<not> mine l) ls, length (filter mine ls) = 1))"

section \<open>Reporting\<close>

text \<open>
  \<^verbatim>\<open>HttpEngineEventPublisher.publish\<close>: one attempt more than there are delays; the result holds the delays it
  slept and whether the event was delivered.  \<open>accepted n\<close> tells whether the n-th attempt is answered well.
\<close>

fun publish_attempts :: "(nat \<Rightarrow> bool) \<Rightarrow> nat \<Rightarrow> pyfloat list \<Rightarrow> pyfloat list \<times> unit result" where
  "publish_attempts accepted n [] =
     ([], if accepted n then Inr () else Inl (RuntimeError ''engine event delivery failed after finite retries''))"
| "publish_attempts accepted n (d # ds) =
     (if accepted n then ([], Inr ())
      else let (slept, r) = publish_attempts accepted (Suc n) ds in (d # slept, r))"

definition check_retry_policy :: "pyfloat list \<Rightarrow> pyfloat list result" where
  "check_retry_policy ds =
     (if list_ex (\<lambda>d. d < 0) ds then Inl (ValueError ''event retry delays cannot be negative'') else Inr ds)"

definition error_payload :: "runtime_error_info \<Rightarrow> json" where
  "error_payload e = error_json e"

fun event_type_text :: "event_type \<Rightarrow> string" where
  "event_type_text Engine_Started = ''ENGINE_STARTED''"
| "event_type_text Engine_Stopping = ''ENGINE_STOPPING''"
| "event_type_text Heartbeat = ''HEARTBEAT''"
| "event_type_text Job_Scheduled_Event = ''JOB_SCHEDULED''"
| "event_type_text Job_Started_Event = ''JOB_STARTED''"
| "event_type_text Job_Completed_Event = ''JOB_COMPLETED''"
| "event_type_text Job_Failed_Event = ''JOB_FAILED''"
| "event_type_text Job_Skipped_Event = ''JOB_SKIPPED''"

fun engine_status_text :: "engine_status \<Rightarrow> string" where
  "engine_status_text Eng_Starting = ''STARTING''"
| "engine_status_text Eng_Idle = ''IDLE''"
| "engine_status_text Eng_Running = ''RUNNING''"
| "engine_status_text Eng_Degraded = ''DEGRADED''"
| "engine_status_text Eng_Error = ''ERROR''"
| "engine_status_text Eng_Stopped = ''STOPPED''"

definition event_payload :: "engine_event \<Rightarrow> json" where
  "event_payload ev =
     (let s = ev_state ev; x = ev_execution ev;
          opt = (\<lambda>k f. case Option.bind x f of None \<Rightarrow> [] | Some v \<Rightarrow> [(k, v)])
      in JObj ([(''eventId'', JStr (ev_event_id ev)), (''engine'', JStr (en_engine s)),
          (''instanceId'', JStr (en_instance_id s)), (''eventType'', JStr (event_type_text (ev_event_type ev))),
          (''occurredAt'', JTime (ev_occurred_at ev)), (''engineStatus'', JStr (engine_status_text (en_status s))),
          (''version'', JStr (en_version s))]
        @ opt ''executionId'' (\<lambda>x. Some (JStr (je_execution_id x)))
        @ opt ''jobName'' (\<lambda>x. Some (JStr (je_job_name x)))
        @ opt ''startedAt'' (\<lambda>x. map_option JTime (je_started_at x))
        @ opt ''finishedAt'' (\<lambda>x. map_option JTime (je_finished_at x))
        @ opt ''error'' (\<lambda>x. map_option error_payload (je_error x))))"

section \<open>The service\<close>

record runtime_service =
  sv_state :: engine_state
  sv_active_jobs :: "string set"
  sv_accepting :: bool
  sv_has_lock :: bool
  sv_sent :: "engine_event list"

definition new_service :: "string \<Rightarrow> string \<Rightarrow> string \<Rightarrow> bool \<Rightarrow> utc \<Rightarrow> runtime_service" where
  "new_service engine instance_id version has_lock now =
     \<lparr>sv_state = \<lparr>en_engine = engine, en_instance_id = instance_id, en_status = Eng_Starting, en_version = version,
        en_started_at = now, en_reported_at = now, en_active_execution_ids = [], en_last_successful_execution_id = None,
        en_last_failed_execution_id = None, en_reporting_degraded = False\<rparr>,
      sv_active_jobs = {}, sv_accepting = True, sv_has_lock = has_lock, sv_sent = []\<rparr>"

definition with_engine_status :: "engine_status \<Rightarrow> utc \<Rightarrow> engine_state \<Rightarrow> engine_state" where
  "with_engine_status status now s = s\<lparr>en_status := status, en_reported_at := now\<rparr>"

definition state_with_active :: "string \<Rightarrow> utc \<Rightarrow> engine_state \<Rightarrow> engine_state" where
  "state_with_active i now s =
     (with_engine_status Eng_Running now s)\<lparr>en_active_execution_ids := en_active_execution_ids s @ [i]\<rparr>"

definition status_of_active :: "string list \<Rightarrow> engine_status" where
  "status_of_active ids = (if ids = [] then Eng_Idle else Eng_Running)"

text \<open>What a delivery or its failure does to the state, and whether the state is written.\<close>

definition after_delivery :: "bool \<Rightarrow> utc \<Rightarrow> engine_state \<Rightarrow> engine_state option" where
  "after_delivery delivered now s =
     (if delivered
      then if en_reporting_degraded s
           then Some (s\<lparr>en_status := status_of_active (en_active_execution_ids s), en_reported_at := now,
                        en_reporting_degraded := False\<rparr>)
           else None
      else Some (s\<lparr>en_status := (if en_status s \<in> {Eng_Running, Eng_Stopped} then en_status s else Eng_Degraded),
                   en_reported_at := now, en_reporting_degraded := True\<rparr>))"

text \<open>\<^verbatim>\<open>_publish\<close>: \<open>made_at\<close> is when the event is made and \<open>now\<close> when it is delivered or given up.\<close>

definition publish_event ::
    "event_type \<Rightarrow> job_execution option \<Rightarrow> string \<Rightarrow> utc \<Rightarrow> bool \<Rightarrow> utc \<Rightarrow> runtime_service \<times> runtime_store
     \<Rightarrow> runtime_service \<times> runtime_store" where
  "publish_event kind x uuid made_at delivered now sys =
     (let (sv, st) = sys; sent = sv\<lparr>sv_sent := sv_sent sv @ [event_of uuid made_at (sv_state sv) kind x]\<rparr>
      in case after_delivery delivered now (sv_state sv) of
           None \<Rightarrow> (sent, st)
         | Some s \<Rightarrow> (sent\<lparr>sv_state := s\<rparr>, save_state s st))"

definition service_start :: "string \<Rightarrow> utc \<Rightarrow> bool \<Rightarrow> runtime_service \<times> runtime_store \<Rightarrow> runtime_service \<times> runtime_store" where
  "service_start uuid now delivered sys =
     (let (sv, st) = sys; s = with_engine_status Eng_Idle now (sv_state sv)
      in publish_event Engine_Started None uuid now delivered now (sv\<lparr>sv_state := s\<rparr>, save_state s st))"

definition service_stop :: "string \<Rightarrow> utc \<Rightarrow> bool \<Rightarrow> runtime_service \<times> runtime_store \<Rightarrow> runtime_service \<times> runtime_store" where
  "service_stop uuid now delivered sys =
     (let (sv, st) = sys; s = with_engine_status Eng_Stopped now (sv_state sv)
      in publish_event Engine_Stopping None uuid now delivered now
           (sv\<lparr>sv_accepting := False, sv_state := s\<rparr>, save_state s st))"

definition service_heartbeat :: "string \<Rightarrow> utc \<Rightarrow> bool \<Rightarrow> runtime_service \<times> runtime_store \<Rightarrow> runtime_service \<times> runtime_store" where
  "service_heartbeat uuid now delivered sys = publish_event Heartbeat None uuid now delivered now sys"

text \<open>\<^verbatim>\<open>_complete\<close>.\<close>

definition complete_state :: "job_execution \<Rightarrow> utc \<Rightarrow> engine_state \<Rightarrow> engine_state" where
  "complete_state x now s =
     (let ids = filter (\<lambda>i. i \<noteq> je_execution_id x) (en_active_execution_ids s)
      in s\<lparr>en_status := status_of_active ids, en_reported_at := now, en_active_execution_ids := ids,
           en_last_successful_execution_id :=
             (if je_status x = Job_Completed then Some (je_execution_id x) else en_last_successful_execution_id s),
           en_last_failed_execution_id :=
             (if je_status x = Job_Failed then Some (je_execution_id x) else en_last_failed_execution_id s)\<rparr>)"

text \<open>\<^verbatim>\<open>text.replace(old, new)\<close>, from the left.\<close>

fun replace_text :: "nat \<Rightarrow> string \<Rightarrow> string \<Rightarrow> string \<Rightarrow> string" where
  "replace_text n old fresh [] = []"
| "replace_text 0 old fresh (c # cs) =
     (if has_prefix old (c # cs) then fresh @ replace_text (length old - 1) old fresh cs
      else c # replace_text 0 old fresh cs)"
| "replace_text (Suc n) old fresh (c # cs) = replace_text n old fresh cs"

text \<open>What a handler does: a \<^verbatim>\<open>TimeoutError\<close> is an elapsed time limit or one raised by the handler itself.\<close>

datatype handler_outcome =
    Returns
  | Times_Out
  | Raises string bool string  \<comment> \<open>the name of the type, whether it is a ValueError, the text\<close>

definition classify_error :: "string \<Rightarrow> bool \<Rightarrow> string \<Rightarrow> runtime_error_info" where
  "classify_error type_name is_value_error text =
     (let name = py_upper type_name; message = take 500 (replace_text 0 ''Authorization'' ''[REDACTED]'' text)
      in \<lparr>ri_category = (if has_infix ''HTTP'' name \<or> has_infix ''TIMEOUT'' name then Data_Provider_Error
                        else if is_value_error then Data_Validation_Error else Internal_Error),
          ri_code = name, ri_message = (if message = [] then ''job execution failed'' else message)\<rparr>)"

definition timeout_text :: "int option \<Rightarrow> string" where
  "timeout_text t = (case t of None \<Rightarrow> ''None'' | Some n \<Rightarrow> int_text n)"

definition settled_as :: "int option \<Rightarrow> handler_outcome \<Rightarrow> job_status \<times> runtime_error_info option" where
  "settled_as timeout_seconds r =
     (case r of
        Returns \<Rightarrow> (Job_Completed, None)
      | Times_Out \<Rightarrow> (Job_Failed, Some \<lparr>ri_category = Internal_Error, ri_code = ''JOB_TIMEOUT'',
          ri_message = ''job exceeded configured timeout of '' @ timeout_text timeout_seconds @ '' seconds''\<rparr>)
      | Raises n v t \<Rightarrow> (Job_Failed, Some (classify_error n v t)))"

section \<open>Running a job\<close>

record job_call =
  jc_job_name :: string
  jc_timeout_seconds :: "int option"
  jc_lock_key :: "string option"
  jc_lock_ttl_seconds :: "int option"
  jc_execution_identity :: "string option"

definition lock_key_of :: "job_call \<Rightarrow> string option" where
  "lock_key_of c = (case jc_lock_key c of None \<Rightarrow> None | Some k \<Rightarrow> if k = [] then None else Some k)"

definition scope_of :: "job_call \<Rightarrow> string" where
  "scope_of c = (case lock_key_of c of None \<Rightarrow> jc_job_name c | Some k \<Rightarrow> k)"

datatype job_pc =
    J_Idle
  | J_Save
  | J_Publish event_type job_pc
  | J_Claim
  | J_Acquire
  | J_Identity
  | J_Return_Lease
  | J_Drop job_status
  | J_Skip job_status
  | J_Begin
  | J_Run
  | J_Complete job_status "runtime_error_info option"
  | J_Release
  | J_Discard
  | J_Done

record job_thread =
  jt_service :: nat
  jt_call :: job_call
  jt_execution :: job_execution
  jt_lease :: bool
  jt_pc :: job_pc
  jt_result :: "job_execution result"

record runtime_world =
  rw_services :: "nat \<Rightarrow> runtime_service"
  rw_store :: runtime_store
  rw_leases :: "job_lease list"
  rw_threads :: "nat \<Rightarrow> job_thread"

text \<open>
  What a thread may touch in a step: its service, the files, the leases and itself.  A step reads the clock
  at \<open>now\<close>; \<open>uuid\<close>, \<open>delivered\<close> and \<open>outcome\<close> are what the outside answers in it.
\<close>

record job_view =
  jv_service :: runtime_service
  jv_store :: runtime_store
  jv_leases :: "job_lease list"
  jv_thread :: job_thread

record job_input =
  ji_now :: utc
  ji_uuid :: string
  ji_delivered :: bool
  ji_outcome :: handler_outcome

definition go :: "job_pc \<Rightarrow> job_view \<Rightarrow> job_view" where
  "go pc v = v\<lparr>jv_thread := (jv_thread v)\<lparr>jt_pc := pc\<rparr>\<rparr>"

definition raise_from :: "py_error \<Rightarrow> job_view \<Rightarrow> job_view" where
  "raise_from e v = v\<lparr>jv_thread := (jv_thread v)\<lparr>jt_pc := J_Done, jt_lease := False, jt_result := Inl e\<rparr>\<rparr>"

definition with_execution :: "job_execution \<Rightarrow> job_view \<Rightarrow> job_view" where
  "with_execution x v =
     v\<lparr>jv_store := save_execution x (jv_store v), jv_thread := (jv_thread v)\<lparr>jt_execution := x, jt_result := Inr x\<rparr>\<rparr>"

definition discard_scope :: "job_view \<Rightarrow> job_view" where
  "discard_scope v =
     v\<lparr>jv_service := (jv_service v)\<lparr>sv_active_jobs := sv_active_jobs (jv_service v) - {scope_of (jt_call (jv_thread v))}\<rparr>\<rparr>"

definition claim_step :: "job_view \<Rightarrow> job_view" where
  "claim_step v =
     (let sv = jv_service v; c = jt_call (jv_thread v); scope = scope_of c
      in if \<not> sv_accepting sv \<or> scope \<in> sv_active_jobs sv
         then go (J_Skip (if lock_key_of c \<noteq> None then Skipped_Locked else Job_Skipped)) v
         else go (if lock_key_of c \<noteq> None then J_Acquire else J_Identity)
                (v\<lparr>jv_service := sv\<lparr>sv_active_jobs := insert scope (sv_active_jobs sv)\<rparr>\<rparr>))"

definition acquire_step :: "utc \<Rightarrow> job_view \<Rightarrow> job_view" where
  "acquire_step now v =
     (let c = jt_call (jv_thread v)
      in case (sv_has_lock (jv_service v), lock_key_of c, jc_lock_ttl_seconds c) of
           (True, Some key, Some ttl) \<Rightarrow>
             (case lease_acquire key (je_execution_id (jt_execution (jv_thread v))) (seconds ttl) now (jv_leases v) of
                (ls, Inl e) \<Rightarrow> raise_from e (v\<lparr>jv_leases := ls\<rparr>)
              | (ls, Inr False) \<Rightarrow> go (J_Drop Skipped_Locked) (v\<lparr>jv_leases := ls\<rparr>)
              | (ls, Inr True) \<Rightarrow>
                  go J_Identity (v\<lparr>jv_leases := ls, jv_thread := (jv_thread v)\<lparr>jt_lease := True\<rparr>\<rparr>))
         | _ \<Rightarrow> raise_from (ValueError ''locked job requires a JobLock and lease TTL'') (discard_scope v))"

definition identity_step :: "job_view \<Rightarrow> job_view" where
  "identity_step v =
     (case jc_execution_identity (jt_call (jv_thread v)) of
        None \<Rightarrow> go J_Begin v
      | Some i \<Rightarrow>
          if i = [] then go J_Begin v
          else case find_execution_by_identity i (jv_store v) of
                 Inl e \<Rightarrow> raise_from e v
               | Inr None \<Rightarrow> go J_Begin v
               | Inr (Some previous) \<Rightarrow> go (if jt_lease (jv_thread v) then J_Return_Lease else J_Drop Skipped_Duplicate) v)"

definition release_lease :: "job_view \<Rightarrow> job_view" where
  "release_lease v =
     (case lock_key_of (jt_call (jv_thread v)) of
        None \<Rightarrow> v
      | Some key \<Rightarrow>
          if jt_lease (jv_thread v)
          then v\<lparr>jv_leases := fst (lease_release key (je_execution_id (jt_execution (jv_thread v))) (jv_leases v)),
                 jv_thread := (jv_thread v)\<lparr>jt_lease := False\<rparr>\<rparr>
          else v)"

definition begin_step :: "utc \<Rightarrow> job_view \<Rightarrow> job_view" where
  "begin_step now v =
     (case start_execution now (jt_execution (jv_thread v)) of
        Inl e \<Rightarrow> raise_from e v
      | Inr x \<Rightarrow>
          (let s = state_with_active (je_execution_id x) now (sv_state (jv_service v)); v = with_execution x v
           in go (J_Publish Job_Started_Event J_Run)
                (v\<lparr>jv_service := (jv_service v)\<lparr>sv_state := s\<rparr>, jv_store := save_state s (jv_store v)\<rparr>)))"

definition complete_step :: "job_status \<Rightarrow> runtime_error_info option \<Rightarrow> utc \<Rightarrow> job_view \<Rightarrow> job_view" where
  "complete_step status err now v =
     (case finish_execution status err now (jt_execution (jv_thread v)) of
        Inl e \<Rightarrow> raise_from e v
      | Inr x \<Rightarrow>
          (let s = complete_state x now (sv_state (jv_service v)); v = with_execution x v
           in go (J_Publish (if status = Job_Completed then Job_Completed_Event else Job_Failed_Event) J_Release)
                (v\<lparr>jv_service := (jv_service v)\<lparr>sv_state := s\<rparr>, jv_store := save_state s (jv_store v)\<rparr>)))"

definition skip_step :: "job_status \<Rightarrow> utc \<Rightarrow> job_view \<Rightarrow> job_view" where
  "skip_step status now v =
     (case finish_execution status None now (jt_execution (jv_thread v)) of
        Inl e \<Rightarrow> raise_from e v
      | Inr x \<Rightarrow> go (J_Publish Job_Skipped_Event J_Done) (with_execution x v))"

definition publish_step :: "event_type \<Rightarrow> job_pc \<Rightarrow> job_input \<Rightarrow> job_view \<Rightarrow> job_view" where
  "publish_step kind next i v =
     (let (sv, st) = publish_event kind (Some (jt_execution (jv_thread v))) (ji_uuid i) (ji_now i) (ji_delivered i) (ji_now i)
                       (jv_service v, jv_store v)
      in go next (v\<lparr>jv_service := sv, jv_store := st\<rparr>))"

definition view_step :: "job_input \<Rightarrow> job_view \<Rightarrow> job_view" where
  "view_step i v =
     (let t = jv_thread v; now = ji_now i
      in case jt_pc t of
           J_Idle \<Rightarrow> v
         | J_Save \<Rightarrow>
             (let x = new_execution (jc_job_name (jt_call t)) now (ji_uuid i) (jc_execution_identity (jt_call t))
              in go (J_Publish Job_Scheduled_Event J_Claim) (with_execution x v))
         | J_Publish kind next \<Rightarrow> publish_step kind next i v
         | J_Claim \<Rightarrow> claim_step v
         | J_Acquire \<Rightarrow> acquire_step now v
         | J_Identity \<Rightarrow> identity_step v
         | J_Return_Lease \<Rightarrow> go (J_Drop Skipped_Duplicate) (release_lease v)
         | J_Drop status \<Rightarrow> go (J_Skip status) (discard_scope v)
         | J_Skip status \<Rightarrow> skip_step status now v
         | J_Begin \<Rightarrow> begin_step now v
         | J_Run \<Rightarrow>
             (let (status, err) = settled_as (jc_timeout_seconds (jt_call t)) (ji_outcome i)
              in go (J_Complete status err) v)
         | J_Complete status err \<Rightarrow> complete_step status err now v
         | J_Release \<Rightarrow> go J_Discard (release_lease v)
         | J_Discard \<Rightarrow> go J_Done (discard_scope v)
         | J_Done \<Rightarrow> v)"

definition view_of :: "nat \<Rightarrow> runtime_world \<Rightarrow> job_view" where
  "view_of k w =
     \<lparr>jv_service = rw_services w (jt_service (rw_threads w k)), jv_store = rw_store w, jv_leases = rw_leases w,
      jv_thread = rw_threads w k\<rparr>"

definition put_view :: "nat \<Rightarrow> job_view \<Rightarrow> runtime_world \<Rightarrow> runtime_world" where
  "put_view k v w =
     w\<lparr>rw_services := (rw_services w)(jt_service (rw_threads w k) := jv_service v), rw_store := jv_store v,
       rw_leases := jv_leases v, rw_threads := (rw_threads w)(k := jv_thread v)\<rparr>"

definition thread_step :: "nat \<Rightarrow> job_input \<Rightarrow> runtime_world \<Rightarrow> runtime_world" where
  "thread_step k i w = put_view k (view_step i (view_of k w)) w"

text \<open>A thread enters \<^verbatim>\<open>run_job\<close>.\<close>

definition call_job :: "nat \<Rightarrow> job_call \<Rightarrow> runtime_world \<Rightarrow> runtime_world" where
  "call_job k c w =
     w\<lparr>rw_threads := (rw_threads w)(k := (rw_threads w k)\<lparr>jt_call := c, jt_lease := False, jt_pc := J_Save\<rparr>)\<rparr>"

section \<open>Jobs and their schedule\<close>

datatype job_class = Read_Only | Refresh | State_Mutation | Execution

record job_policy =
  jp_max_instances :: int
  jp_coalesce :: bool
  jp_misfire_grace_time_seconds :: int
  jp_lock_required :: bool
  jp_lock_ttl_seconds :: "int option"

fun policy_of_class :: "job_class \<Rightarrow> job_policy" where
  "policy_of_class Read_Only = \<lparr>jp_max_instances = 2, jp_coalesce = True, jp_misfire_grace_time_seconds = 60,
      jp_lock_required = False, jp_lock_ttl_seconds = None\<rparr>"
| "policy_of_class Refresh = \<lparr>jp_max_instances = 1, jp_coalesce = True, jp_misfire_grace_time_seconds = 300,
      jp_lock_required = False, jp_lock_ttl_seconds = None\<rparr>"
| "policy_of_class State_Mutation = \<lparr>jp_max_instances = 1, jp_coalesce = True, jp_misfire_grace_time_seconds = 60,
      jp_lock_required = True, jp_lock_ttl_seconds = Some 3600\<rparr>"
| "policy_of_class Execution = \<lparr>jp_max_instances = 1, jp_coalesce = True, jp_misfire_grace_time_seconds = 30,
      jp_lock_required = True, jp_lock_ttl_seconds = Some 900\<rparr>"

record job_config =
  jg_name :: string
  jg_cron :: string
  jg_enabled :: bool
  jg_timeout_seconds :: "int option"
  jg_execution_class :: job_class
  jg_lock_key :: "string option"

definition jg_policy :: "job_config \<Rightarrow> job_policy" where
  "jg_policy g = policy_of_class (jg_execution_class g)"

text \<open>\<^verbatim>\<open>text.split()\<close>.\<close>

fun split_words :: "string \<Rightarrow> string \<Rightarrow> string list" where
  "split_words w [] = (if w = [] then [] else [rev w])"
| "split_words w (c # cs) =
     (if py_isspace c then (if w = [] then split_words [] cs else rev w # split_words [] cs)
      else split_words (c # w) cs)"

definition check_job_config :: "job_config \<Rightarrow> job_config result" where
  "check_job_config g =
     (if py_strip (jg_name g) = [] \<or> length (split_words [] (jg_cron g)) \<noteq> 5
      then Inl (ValueError ''job requires a name and five-field cron expression'')
      else if (case jg_timeout_seconds g of None \<Rightarrow> False | Some n \<Rightarrow> n \<le> 0)
      then Inl (ValueError ''timeout_seconds must be positive'')
      else if jp_lock_required (jg_policy g) \<and> (jg_lock_key g = None \<or> jg_lock_key g = Some [])
      then Inl (ValueError ''state-changing job requires a scoped lock key'')
      else if (case (jg_timeout_seconds g, jp_lock_ttl_seconds (jg_policy g)) of
                 (Some n, Some ttl) \<Rightarrow> n \<noteq> 0 \<and> ttl \<noteq> 0 \<and> ttl \<le> n | _ \<Rightarrow> False)
      then Inl (ValueError ''job timeout must be shorter than lock lease TTL'')
      else Inr g)"

text \<open>\<^verbatim>\<open>APSchedulerRuntime._run\<close>: the identity of a locked job is its name and the minute it fires in.\<close>

definition iso_minute :: "utc \<Rightarrow> string" where
  "iso_minute t =
     (let (y, m, d) = civil_of_days (t div 86400000000); s = t mod 86400000000 div 1000000
      in padded 4 y @ ''-'' @ padded 2 m @ ''-'' @ padded 2 d @ ''T'' @ padded 2 (s div 3600) @ '':''
         @ padded 2 (s mod 3600 div 60) @ '':00+00:00'')"

definition call_of :: "job_config \<Rightarrow> utc \<Rightarrow> job_call" where
  "call_of g now =
     \<lparr>jc_job_name = jg_name g, jc_timeout_seconds = jg_timeout_seconds g, jc_lock_key = jg_lock_key g,
      jc_lock_ttl_seconds = jp_lock_ttl_seconds (jg_policy g),
      jc_execution_identity =
        (if jp_lock_required (jg_policy g) then Some (jg_name g @ '':'' @ iso_minute now) else None)\<rparr>"

definition resolve_job :: "(string \<times> 'h) list \<Rightarrow> string \<Rightarrow> 'h result" where
  "resolve_job jobs name =
     (case map_of jobs name of None \<Rightarrow> Inl (ValueError (''unknown autonomous job: '' @ name)) | Some h \<Rightarrow> Inr h)"

record scheduled_job =
  sj_id :: string
  sj_fields :: "string list"
  sj_policy :: job_policy

text \<open>What \<^verbatim>\<open>start\<close> hands to the scheduler; a later job of the same name replaces an earlier one.\<close>

definition schedule_jobs :: "(string \<times> 'h) list \<Rightarrow> job_config list \<Rightarrow> (string \<times> scheduled_job) list result" where
  "schedule_jobs jobs gs =
     bind_result (map_result (\<lambda>g.
         bind_result (resolve_job jobs (jg_name g)) (\<lambda>h.
         if length (split_words [] (jg_cron g)) \<noteq> 5 then Inl (ValueError ''not enough values to unpack'')
         else Inr \<lparr>sj_id = jg_name g, sj_fields = split_words [] (jg_cron g), sj_policy = jg_policy g\<rparr>))
       (filter jg_enabled gs)) (\<lambda>js.
     Inr (fold (\<lambda>j. dict_set (sj_id j) j) js []))"

definition run_now_call :: "(string \<times> 'h) list \<Rightarrow> job_config list \<Rightarrow> string \<Rightarrow> utc \<Rightarrow> (job_call \<times> 'h) result" where
  "run_now_call jobs gs name now =
     (case find (\<lambda>g. jg_name g = name) gs of
        None \<Rightarrow> Inl (ValueError (''job is not configured: '' @ name))
      | Some g \<Rightarrow> bind_result (resolve_job jobs name) (\<lambda>h. Inr (call_of g now, h)))"

section \<open>The composition of the engine\<close>

text \<open>The settings of \<^verbatim>\<open>build_autonomous_runtime\<close>; a job with an optional handler is there when its lock key is given.\<close>

record runtime_settings =
  rt_heartbeat_cron :: string
  rt_universe_snapshot_cron :: string
  rt_market_sync_cron :: string
  rt_intraday_sync_cron :: string
  rt_derivatives_snapshot :: "string option"
  rt_dynamic_rebalance :: "(string \<times> string option) option"
  rt_shadow_rebalance :: "(string \<times> string option) option"
  rt_observation_outcome :: "(string \<times> string option) option"
  rt_strategy_review :: "(string \<times> string option) option"

definition job_config_of :: "string \<Rightarrow> string \<Rightarrow> int option \<Rightarrow> job_class \<Rightarrow> string option \<Rightarrow> job_config" where
  "job_config_of name cron timeout cls key =
     \<lparr>jg_name = name, jg_cron = cron, jg_enabled = True, jg_timeout_seconds = timeout, jg_execution_class = cls,
      jg_lock_key = key\<rparr>"

definition optional_job ::
    "string \<Rightarrow> job_class \<Rightarrow> (string \<times> string option) option \<Rightarrow> job_config list" where
  "optional_job name cls setting =
     (case setting of None \<Rightarrow> [] | Some (cron, key) \<Rightarrow> [job_config_of name cron (Some 300) cls key])"

definition runtime_configs :: "runtime_settings \<Rightarrow> job_config list result" where
  "runtime_configs rt =
     map_result check_job_config
       ([job_config_of ''runtime_heartbeat'' (rt_heartbeat_cron rt) None Read_Only None,
         job_config_of ''crypto_universe_snapshot'' (rt_universe_snapshot_cron rt) (Some 60) State_Mutation
           (Some ''dataset:crypto-universe:refresh''),
         job_config_of ''crypto_market_sync'' (rt_market_sync_cron rt) (Some 1800) State_Mutation
           (Some ''dataset:crypto-daily-market:refresh''),
         job_config_of ''crypto_intraday_15m_sync'' (rt_intraday_sync_cron rt) (Some 300) State_Mutation
           (Some ''dataset:crypto-15m-market:refresh'')]
        @ (case rt_derivatives_snapshot rt of
             None \<Rightarrow> []
           | Some cron \<Rightarrow> [job_config_of ''crypto_derivatives_snapshot'' cron (Some 60) State_Mutation
                             (Some ''dataset:crypto-derivatives:refresh'')])
        @ optional_job ''crypto_dynamic_paper_rebalance'' Execution (rt_dynamic_rebalance rt)
        @ optional_job ''crypto_dynamic_paper_shadow_rebalance'' Execution (rt_shadow_rebalance rt)
        @ optional_job ''crypto_observation_outcome_evaluation'' State_Mutation (rt_observation_outcome rt)
        @ optional_job ''crypto_strategy_review'' State_Mutation (rt_strategy_review rt))"

text \<open>The intraday job fails when a pair failed or was deferred.\<close>

definition intraday_job_result :: "(string \<times> string) list \<Rightarrow> unit result" where
  "intraday_job_result results =
     (let failures = filter (\<lambda>(pair, status). status = ''FAILED'') results;
          deferred = filter (\<lambda>(pair, status). status = ''DEFERRED'') results
      in raise_if (failures \<noteq> [] \<or> deferred \<noteq> [])
           (RuntimeError (''intraday sync incomplete: '' @ int_text (int (length failures)) @ '' failed, ''
              @ int_text (int (length deferred)) @ '' deferred; sample: ''
              @ join_with '', '' (map fst (take 10 (failures @ deferred))))))"

text \<open>A JSON \<^verbatim>\<open>true\<close> is an \<^verbatim>\<open>int\<close> of Python.\<close>

fun number_value :: "json \<Rightarrow> pyfloat option" where
  "number_value (JInt n) = Some (flt (of_int n))"
| "number_value (JNum r) = Some r"
| "number_value (JBool b) = Some (if b then 1 else 0)"
| "number_value _ = None"

definition parse_float_tuple :: "json \<Rightarrow> pyfloat list result" where
  "parse_float_tuple v =
     (case v of
        JList xs \<Rightarrow>
          if list_all (\<lambda>x. number_value x \<noteq> None) xs then Inr (map (\<lambda>x. the (number_value x)) xs)
          else Inl (ValueError ''retry delays must be a JSON number list'')
      | _ \<Rightarrow> Inl (ValueError ''retry delays must be a JSON number list''))"

definition parse_string_tuple :: "json \<Rightarrow> string list result" where
  "parse_string_tuple v =
     (case v of
        JList xs \<Rightarrow>
          if list_all (\<lambda>x. json_str x \<noteq> None) xs then Inr (map (\<lambda>x. the (json_str x)) xs)
          else Inl (ValueError ''market pairs must be a JSON string list'')
      | _ \<Rightarrow> Inl (ValueError ''market pairs must be a JSON string list''))"

end
