(* ===== verification/RuntimeProofs.thy ===== *)
theory RuntimeProofs
  imports Runtime
begin

text \<open>
  What the runtime guarantees: executions read back as they were written, a lease excludes everyone else, and a
  job that is locked runs once for its name and minute, however its threads interleave or die.  Where the
  code fails: a state that is reported after stopping, and a scope that is never given back.
\<close>

section \<open>Executions read back\<close>

lemma status_roundtrip: "find (\<lambda>m. status_text m = status_text s) job_statuses = Some s"
  by (cases s) (simp_all add: job_statuses_def terminal_statuses_def)

lemma category_roundtrip: "find (\<lambda>m. category_text m = category_text c) error_categories = Some c"
  by (cases c) (simp_all add: error_categories_def)

lemma execution_roundtrip [simp]: "execution_of_json (execution_json x) = Inr x"
  by (cases "je_started_at x"; cases "je_finished_at x"; cases "je_error x")
    (simp_all add: execution_json_def error_of_json_def error_json_def json_opt_def enum_at_def text_at_def time_at_def
      optional_at_def metadata_of_json_def category_roundtrip status_roundtrip)

lemma execution_json_inj: "execution_json x = execution_json y \<longleftrightarrow> x = y"
  using execution_roundtrip by (metis Inr_inject)

type_synonym execution_files = "(string \<times> json) list"

definition claims :: "execution_files \<Rightarrow> string \<Rightarrow> string set" where
  "claims ex i = {n. \<exists>x. map_of ex n = Some (execution_json x) \<and> claims_identity i x}"

definition wf_files :: "execution_files \<Rightarrow> bool" where
  "wf_files ex = (distinct (map fst ex) \<and> (\<forall>(n, v) \<in> set ex. \<exists>x. v = execution_json x \<and> n = execution_file (je_execution_id x)))"

definition stored_as :: "job_execution \<Rightarrow> execution_files \<Rightarrow> execution_files" where
  "stored_as x ex = dict_set (execution_file (je_execution_id x)) (execution_json x) ex"

lemma execution_file_inj: "execution_file a = execution_file b \<longleftrightarrow> a = b"
  by (simp add: execution_file_def)

lemma claims_stored:
  "claims (stored_as x ex) i =
     (if claims_identity i x then insert (execution_file (je_execution_id x)) (claims ex i)
      else claims ex i - {execution_file (je_execution_id x)})"
  by (auto simp: claims_def stored_as_def execution_json_inj)

lemma set_dict_set: "set (dict_set k v d) \<subseteq> insert (k, v) (set d)"
  by (induction k v d rule: dict_set.induct) auto

lemma wf_files_stored: "wf_files ex \<Longrightarrow> wf_files (stored_as x ex)"
  using set_dict_set [of "execution_file (je_execution_id x)" "execution_json x" ex]
  unfolding wf_files_def stored_as_def by (auto simp: distinct_keys_dict_set)

lemma unclaimed_when_not_found:
  assumes "wf_files (rf_executions st)" "length (rf_executions st) \<le> 10000"
    and f: "find_execution_by_identity i st = Inr None"
  shows "claims (rf_executions st) i = {}"
proof -
  let ?rows = "rev (sort_key fst (rf_executions st))"
  have "py_take 10000 ?rows = ?rows" using assms(2) by (simp add: py_take_def)
  then obtain xs where m: "map_result (\<lambda>(name, v). execution_of_json v) ?rows = Inr xs" and none: "find (claims_identity i) xs = None"
    using f by (auto simp: find_execution_by_identity_def list_runtime_executions_def py_result)
  have "\<not> claims_identity i x" if "map_of (rf_executions st) n = Some (execution_json x)" for n x
  proof -
    have "(n, execution_json x) \<in> set ?rows" using map_of_SomeD [OF that] by simp
    then obtain y where "y \<in> set xs" "(\<lambda>(name, v). execution_of_json v) (n, execution_json x) = Inr y"
      using map_result_Inr_set2 [OF m] by blast
    then show ?thesis using none by (simp add: find_None_all)
  qed
  then show ?thesis by (auto simp: claims_def)
qed

section \<open>A lease excludes everyone else\<close>

definition held_by :: "string \<Rightarrow> string \<Rightarrow> job_lease list \<Rightarrow> bool" where
  "held_by key owner ls = (\<exists>l. lease_of key ls = Some l \<and> jl_owner_id l = owner)"

lemma lease_of_append: "lease_of key (ls @ [l]) = (case lease_of key ls of None \<Rightarrow> if jl_lock_key l = key then Some l else None | r \<Rightarrow> r)"
  by (induction ls) (auto simp: lease_of_def)

lemma lease_of_map:
  assumes "jl_lock_key l = key"
  shows "lease_of k (map (\<lambda>x. if jl_lock_key x = key then l else x) ls) =
    (if k = key then map_option (\<lambda>_. l) (lease_of key ls) else lease_of k ls)"
  using assms by (induction ls) (auto simp: lease_of_def)

lemma lease_of_release:
  assumes "lease_of key ls = Some l" "(k, owner) \<noteq> (key, jl_owner_id l)"
  shows "lease_of key (fst (lease_release k owner ls)) = Some l"
  using assms by (induction ls) (auto simp: lease_of_def lease_release_def Let_def split: if_splits)

lemma lease_release_other: "k \<noteq> key \<Longrightarrow> lease_of k (fst (lease_release key owner ls)) = lease_of k ls"
  by (induction ls) (auto simp: lease_of_def lease_release_def Let_def)

lemma acquire_result:
  assumes "lease_acquire key owner ttl now ls = (ls', Inr True)"
  shows "lease_of key ls' = Some \<lparr>jl_lock_key = key, jl_owner_id = owner, jl_acquired_at = now, jl_expires_at = now + ttl\<rparr>"
    and "k \<noteq> key \<Longrightarrow> lease_of k ls' = lease_of k ls"
    and "lease_of key ls = Some l \<Longrightarrow> jl_expires_at l \<le> now" and "0 < ttl"
  using assms by (auto simp: lease_acquire_def Let_def lease_of_append lease_of_map split: if_splits option.splits)

lemma acquire_other:
  assumes "lease_acquire key owner ttl now ls = (ls', r)" "r \<noteq> Inr True"
  shows "ls' = ls"
  using assms by (auto simp: lease_acquire_def Let_def split: if_splits option.splits)

text \<open>What others do to the leases while an owner keeps one.\<close>

inductive lease_use :: "string \<Rightarrow> string \<Rightarrow> utc \<Rightarrow> job_lease list \<Rightarrow> job_lease list \<Rightarrow> bool" for key owner until where
  unused: "lease_use key owner until ls ls"
| acquires: "lease_use key owner until ls0 ls \<Longrightarrow> now < until \<Longrightarrow> lease_acquire k o' ttl now ls = (ls', r)
     \<Longrightarrow> lease_use key owner until ls0 ls'"
| releases: "lease_use key owner until ls0 ls \<Longrightarrow> (k, o') \<noteq> (key, owner) \<Longrightarrow> lease_use key owner until ls0 (fst (lease_release k o' ls))"

text \<open>A lease that was acquired stays with its owner until it expires or the owner releases it, whatever
  others acquire and release in between, and every attempt on its key until then is refused.\<close>

lemma lease_excludes_others:
  assumes a: "lease_acquire key owner ttl now ls = (ls1, Inr True)" and u: "lease_use key owner (now + ttl) ls1 ls2"
    and "o' \<noteq> []" "0 < ttl'" "later < now + ttl"
  shows "lease_acquire key o' ttl' later ls2 = (ls2, Inr False) \<and> held_by key owner ls2"
proof -
  let ?l = "\<lparr>jl_lock_key = key, jl_owner_id = owner, jl_acquired_at = now, jl_expires_at = now + ttl\<rparr>"
  have "lease_of key ls2 = Some ?l"
    using u acquire_result(1) [OF a]
  proof (induction rule: lease_use.induct)
    case unused
    then show ?case .
  next
    case (acquires ls0 ls now' k o'' ttl'' ls' r)
    then show ?case
      using acquire_result(2,3) [of k o'' ttl'' now' ls ls'] acquire_other by (cases "r = Inr True \<and> k \<noteq> key") (fastforce)+
  next
    case (releases ls0 ls k o'')
    then show ?case using lease_of_release by simp
  qed
  moreover have "key \<noteq> []" using a by (auto simp: lease_acquire_def split: if_splits)
  ultimately show ?thesis using assms(3-5) by (simp add: lease_acquire_def Let_def held_by_def)
qed

section \<open>The threads of the runtime\<close>

fun inner_pc :: "job_pc \<Rightarrow> job_pc" where
  "inner_pc (J_Publish kind next) = inner_pc next"
| "inner_pc pc = pc"

fun needs_lease :: "job_pc \<Rightarrow> bool" where
  "needs_lease (J_Publish kind next) = needs_lease next"
| "needs_lease (J_Complete status err) = True"
| "needs_lease pc = (pc \<in> {J_Identity, J_Return_Lease, J_Begin, J_Run, J_Release})"

fun running :: "job_pc \<Rightarrow> bool" where
  "running (J_Publish kind next) = running next"
| "running (J_Complete status err) = True"
| "running pc = (pc = J_Run)"

fun skips :: "job_pc \<Rightarrow> bool" where
  "skips (J_Publish kind next) = skips next"
| "skips (J_Drop status) = (status \<noteq> Job_Completed)"
| "skips (J_Skip status) = (status \<noteq> Job_Completed)"
| "skips pc = True"

definition in_flight :: "job_pc \<Rightarrow> bool" where
  "in_flight pc = (inner_pc pc \<notin> {J_Idle, J_Save, J_Done})"

abbreviation id_of :: "job_thread \<Rightarrow> string" where "id_of t \<equiv> je_execution_id (jt_execution t)"

text \<open>An identity determines the key its job is locked with.\<close>

definition locked_call :: "(string \<Rightarrow> string) \<Rightarrow> job_call \<Rightarrow> bool" where
  "locked_call key c =
     (\<forall>i. jc_execution_identity c = Some i \<longrightarrow> i \<noteq> [] \<longrightarrow> key i \<noteq> [] \<and> jc_lock_key c = Some (key i))"

definition carries_identity :: "job_thread \<Rightarrow> bool" where
  "carries_identity t =
     (\<forall>i. i \<noteq> [] \<longrightarrow> (identity_of (jt_execution t) = Some (JStr i)) = (jc_execution_identity (jt_call t) = Some i))"

definition stored_in :: "execution_files \<Rightarrow> job_thread \<Rightarrow> bool" where
  "stored_in ex t = (map_of ex (execution_file (id_of t)) = Some (execution_json (jt_execution t)))"

definition holds_lease :: "job_lease list \<Rightarrow> job_thread \<Rightarrow> bool" where
  "holds_lease ls t = (case lock_key_of (jt_call t) of None \<Rightarrow> False | Some k \<Rightarrow> held_by k (id_of t) ls)"

definition unclaimed :: "execution_files \<Rightarrow> job_call \<Rightarrow> bool" where
  "unclaimed ex c = (\<forall>i. jc_execution_identity c = Some i \<longrightarrow> i \<noteq> [] \<longrightarrow> claims ex i = {})"

definition thread_ok :: "(string \<Rightarrow> string) \<Rightarrow> execution_files \<Rightarrow> job_lease list \<Rightarrow> job_thread \<Rightarrow> bool" where
  "thread_ok key ex ls t =
     ((inner_pc (jt_pc t) \<noteq> J_Idle \<longrightarrow> locked_call key (jt_call t))
      \<and> (in_flight (jt_pc t) \<longrightarrow> stored_in ex t \<and> carries_identity t)
      \<and> skips (jt_pc t)
      \<and> (running (jt_pc t) \<longrightarrow> je_status (jt_execution t) = Job_Running)
      \<and> jt_lease t = (needs_lease (jt_pc t) \<and> lock_key_of (jt_call t) \<noteq> None)
      \<and> (jt_lease t \<longrightarrow> holds_lease ls t)
      \<and> (inner_pc (jt_pc t) = J_Begin \<longrightarrow> unclaimed ex (jt_call t)))"

definition single :: "'a set \<Rightarrow> bool" where
  "single A = (\<forall>a \<in> A. \<forall>b \<in> A. a = b)"

definition runtime_ok :: "(string \<Rightarrow> string) \<Rightarrow> runtime_world \<Rightarrow> bool" where
  "runtime_ok key w =
     ((\<forall>k. thread_ok key (rf_executions (rw_store w)) (rw_leases w) (rw_threads w k))
      \<and> (\<forall>j k. j \<noteq> k \<longrightarrow> in_flight (jt_pc (rw_threads w j)) \<longrightarrow> in_flight (jt_pc (rw_threads w k))
            \<longrightarrow> id_of (rw_threads w j) \<noteq> id_of (rw_threads w k))
      \<and> (\<forall>i. i \<noteq> [] \<longrightarrow> single (claims (rf_executions (rw_store w)) i)) \<and> wf_files (rf_executions (rw_store w)))"

section \<open>One step of a thread\<close>

abbreviation files_of :: "job_view \<Rightarrow> execution_files" where "files_of v \<equiv> rf_executions (jv_store v)"

text \<open>What a step that starts at thread \<open>t\<close>, files \<open>ex\<close> and leases \<open>ls\<close> may do.\<close>

definition step_effect ::
    "(string \<Rightarrow> string) \<Rightarrow> utc \<Rightarrow> job_thread \<Rightarrow> execution_files \<Rightarrow> job_lease list \<Rightarrow> job_view \<Rightarrow> bool" where
  "step_effect key now t ex ls v =
     (let t' = jv_thread v
      in thread_ok key (files_of v) (jv_leases v) t' \<and> jt_service t' = jt_service t \<and> jt_call t' = jt_call t
         \<and> (files_of v = ex \<or> files_of v = stored_as (jt_execution t') ex
              \<and> (in_flight (jt_pc t) \<or> in_flight (jt_pc t')))
         \<and> (in_flight (jt_pc t) \<longrightarrow> id_of t' = id_of t)
         \<and> (\<not> in_flight (jt_pc t) \<longrightarrow> in_flight (jt_pc t') \<longrightarrow> map_of ex (execution_file (id_of t')) = None)
         \<and> (\<forall>i. i \<noteq> [] \<longrightarrow> single (claims ex i) \<longrightarrow> single (claims (files_of v) i))
         \<and> (\<forall>i. i \<noteq> [] \<longrightarrow> claims ex i = {} \<longrightarrow> claims (files_of v) i = {}
              \<or> jt_pc t = J_Begin \<and> jc_execution_identity (jt_call t) = Some i)
         \<and> (\<forall>k own. held_by k own ls \<longrightarrow> (in_flight (jt_pc t) \<longrightarrow> own \<noteq> id_of t') \<longrightarrow> held_by k own (jv_leases v)
              \<or> jt_pc t = J_Acquire \<and> lock_key_of (jt_call t) = Some k
                \<and> (\<exists>l. lease_of k ls = Some l \<and> jl_expires_at l \<le> now)))"

text \<open>A step that writes no execution and leaves the leases alone.\<close>

lemma quiet_effect:
  assumes t: "thread_ok key ex ls t" and v: "jv_thread v = t" "files_of v = ex" "jv_leases v = ls"
    and pc: "inner_pc (jt_pc t) \<noteq> J_Idle \<or> inner_pc pc = J_Idle" "in_flight pc \<Longrightarrow> in_flight (jt_pc t)" "running pc \<Longrightarrow> running (jt_pc t)"
      "lock_key_of (jt_call t) \<noteq> None \<Longrightarrow> needs_lease pc = needs_lease (jt_pc t)"
      "inner_pc pc = J_Begin \<Longrightarrow> unclaimed ex (jt_call t)" "skips pc"
  shows "step_effect key now t ex ls (go pc v)"
  using assms unfolding step_effect_def thread_ok_def stored_in_def carries_identity_def holds_lease_def Let_def go_def
  by auto

lemma claims_after_write:
  assumes "stored_in ex t" "id_of t' = id_of t" "carries_identity t" "carries_identity t'" "jt_call t' = jt_call t"
    and "claims_identity i (jt_execution t') \<Longrightarrow> je_status (jt_execution t) = Job_Running" "i \<noteq> []"
  shows "claims (stored_as (jt_execution t') ex) i \<subseteq> claims ex i"
  using assms unfolding claims_stored by (auto simp: claims_def stored_in_def carries_identity_def claims_identity_def)

lemma single_subset: "A \<subseteq> B \<Longrightarrow> single B \<Longrightarrow> single A"
  by (auto simp: single_def)

text \<open>A step that writes the execution of its thread.\<close>

lemma writing_effect:
  assumes t: "thread_ok key ex ls t" and in_flight: "in_flight (jt_pc t)"
    and v: "jv_thread v = t\<lparr>jt_pc := pc, jt_execution := x, jt_result := r\<rparr>" "files_of v = stored_as x ex" "jv_leases v = ls"
    and x: "je_execution_id x = id_of t" "je_metadata x = je_metadata (jt_execution t)"
      "je_status x = Job_Completed \<Longrightarrow> running (jt_pc t)" "je_status x = Job_Running \<longleftrightarrow> jt_pc t = J_Begin"
    and pc: "running pc \<Longrightarrow> jt_pc t = J_Begin" "inner_pc pc \<noteq> J_Begin" "skips pc"
      "lock_key_of (jt_call t) \<noteq> None \<Longrightarrow> needs_lease pc = needs_lease (jt_pc t)"
  shows "step_effect key now t ex ls v"
proof -
  let ?t = "t\<lparr>jt_pc := pc, jt_execution := x, jt_result := r\<rparr>"
  have stored: "stored_in ex t" "carries_identity t" using t in_flight by (auto simp: thread_ok_def)
  have carries: "carries_identity ?t" using stored(2) x(2) by (simp add: carries_identity_def identity_of_def)
  have "inner_pc (jt_pc t) \<noteq> J_Idle" using in_flight by (simp add: in_flight_def)
  then have ok: "thread_ok key (stored_as x ex) ls ?t"
    using t carries x(1,4) pc unfolding thread_ok_def holds_lease_def
    by (auto simp: stored_in_def stored_as_def split: option.splits)
  have less: "claims (stored_as x ex) i \<subseteq> claims ex i" if "i \<noteq> []" "jt_pc t \<noteq> J_Begin" for i
    using claims_after_write [OF stored(1) _ stored(2) carries, of i] t x that
    by (auto simp: claims_identity_def thread_ok_def)
  have one: "single (claims (stored_as x ex) i) \<and> (claims ex i = {} \<longrightarrow> claims (stored_as x ex) i = {}
      \<or> jc_execution_identity (jt_call t) = Some i)"
    if "i \<noteq> []" "jt_pc t = J_Begin" "single (claims ex i)" for i
  proof (cases "jc_execution_identity (jt_call t) = Some i")
    case True
    then have "claims ex i = {}" using t that by (auto simp: thread_ok_def unclaimed_def)
    then show ?thesis using True by (auto simp: claims_stored single_def)
  next
    case False
    then have "\<not> claims_identity i x" using carries that(1) by (auto simp: carries_identity_def claims_identity_def)
    then show ?thesis using that(3) by (auto simp: claims_stored single_def)
  qed
  have all: "single (claims (stored_as x ex) i)" if "i \<noteq> []" "single (claims ex i)" for i
    using less [of i] one [of i] single_subset that by (cases "jt_pc t = J_Begin") auto
  have empty: "claims (stored_as x ex) i = {} \<or> jt_pc t = J_Begin \<and> jc_execution_identity (jt_call t) = Some i"
    if "i \<noteq> []" "claims ex i = {}" for i
    using less [of i] one [of i] that by (cases "jt_pc t = J_Begin") (auto simp: single_def)
  show ?thesis
    unfolding step_effect_def v Let_def
    by (intro conjI allI impI all empty) (simp_all add: ok in_flight x(1))
qed

lemma raise_effect:
  assumes "thread_ok key ex ls t" "inner_pc (jt_pc t) \<noteq> J_Idle" "jv_thread v = t" "files_of v = ex" "jv_leases v = ls"
  shows "step_effect key now t ex ls (raise_from e v)"
  using assms unfolding step_effect_def thread_ok_def raise_from_def Let_def by (simp add: in_flight_def)

lemma lease_effect:
  assumes t: "thread_ok key ex ls t"
    and v: "jv_thread v = t\<lparr>jt_lease := b, jt_pc := pc\<rparr>" "files_of v = ex" "jv_leases v = ls'"
    and pc: "in_flight (jt_pc t)" "in_flight pc" "\<not> running pc" "inner_pc pc \<noteq> J_Begin" "skips pc"
      "b = (needs_lease pc \<and> lock_key_of (jt_call t) \<noteq> None)" "b \<Longrightarrow> holds_lease ls' t"
    and kept: "\<And>k own. held_by k own ls \<Longrightarrow> own \<noteq> id_of t \<Longrightarrow> held_by k own ls'
      \<or> jt_pc t = J_Acquire \<and> lock_key_of (jt_call t) = Some k \<and> (\<exists>l. lease_of k ls = Some l \<and> jl_expires_at l \<le> now)"
  shows "step_effect key now t ex ls v"
proof -
  have "inner_pc (jt_pc t) \<noteq> J_Idle" using pc(1) by (simp add: in_flight_def)
  then have "thread_ok key ex ls' (t\<lparr>jt_lease := b, jt_pc := pc\<rparr>)"
    using t pc unfolding thread_ok_def by (simp add: stored_in_def carries_identity_def holds_lease_def split: option.splits)
  then show ?thesis using v pc(1) kept unfolding step_effect_def by simp
qed

lemma release_effect:
  assumes t: "thread_ok key ex ls t" and v: "jv_thread v = t" "files_of v = ex" "jv_leases v = ls"
    and pc: "jt_pc t \<in> {J_Release, J_Return_Lease}" "pc \<in> {J_Discard, J_Drop Skipped_Duplicate}"
  shows "step_effect key now t ex ls (go pc (release_lease v))"
proof (cases "lock_key_of (jt_call t)")
  case None
  then have "release_lease v = v" using v by (simp add: release_lease_def)
  moreover have "step_effect key now t ex ls (go pc v)"
    by (rule quiet_effect [OF t v]) (use pc None in \<open>auto simp: in_flight_def\<close>)
  ultimately show ?thesis by simp
next
  case (Some k)
  have "jt_lease t" using t pc Some by (auto simp: thread_ok_def)
  then have step: "go pc (release_lease v) =
      v\<lparr>jv_leases := fst (lease_release k (id_of t) ls), jv_thread := t\<lparr>jt_lease := False, jt_pc := pc\<rparr>\<rparr>"
    using Some v by (simp add: release_lease_def go_def)
  have kept: "held_by k' own (fst (lease_release k (id_of t) ls))" if "held_by k' own ls" "own \<noteq> id_of t" for k' own
    using that lease_of_release [of k' ls _ k "id_of t"] unfolding held_by_def by auto
  show ?thesis
    unfolding step by (rule lease_effect [OF t, where pc = pc and b = False and ls' = "fst (lease_release k (id_of t) ls)"]) (use pc v Some kept in \<open>auto simp: in_flight_def\<close>)
qed

lemma acquire_effect:
  assumes t: "thread_ok key ex ls t" and v: "jv_thread v = t" "files_of v = ex" "jv_leases v = ls" and pc: "jt_pc t = J_Acquire"
  shows "step_effect key now t ex ls (acquire_step now v)"
proof (cases "sv_has_lock (jv_service v) \<and> lock_key_of (jt_call t) \<noteq> None \<and> jc_lock_ttl_seconds (jt_call t) \<noteq> None")
  case False
  then have "acquire_step now v = raise_from (ValueError ''locked job requires a JobLock and lease TTL'') (discard_scope v)"
    using v(1) by (auto simp: acquire_step_def Let_def split: option.splits bool.splits)
  then show ?thesis
    using raise_effect [OF t, of "discard_scope v"] v pc by (simp add: discard_scope_def)
next
  case True
  then obtain k ttl where k: "lock_key_of (jt_call t) = Some k" "jc_lock_ttl_seconds (jt_call t) = Some ttl" by auto
  obtain ls' r where a: "lease_acquire k (id_of t) (seconds ttl) now ls = (ls', r)" by fastforce
  have step: "acquire_step now v = (case r of
      Inl e \<Rightarrow> raise_from e (v\<lparr>jv_leases := ls'\<rparr>)
    | Inr b \<Rightarrow> if b then v\<lparr>jv_leases := ls', jv_thread := t\<lparr>jt_lease := True, jt_pc := J_Identity\<rparr>\<rparr>
        else go (J_Drop Skipped_Locked) (v\<lparr>jv_leases := ls'\<rparr>))"
    using True k a v by (simp add: acquire_step_def go_def split: sum.splits bool.splits)
  show ?thesis
  proof (cases "r = Inr True")
    case False
    then have same: "v\<lparr>jv_leases := ls'\<rparr> = v" using acquire_other [OF a] v by simp
    have "step_effect key now t ex ls (go (J_Drop Skipped_Locked) v)"
      by (rule quiet_effect [OF t v]) (use pc in \<open>auto simp: in_flight_def\<close>)
    moreover have "step_effect key now t ex ls (raise_from e v)" for e
      by (rule raise_effect [OF t]) (use pc v in auto)
    ultimately show ?thesis using False unfolding step same by (auto split: sum.splits)
  next
    case got: True
    note new = acquire_result [OF a [unfolded got]]
    have held: "held_by k (id_of t) ls'" using new(1) by (simp add: held_by_def)
    have kept: "held_by k' own ls' \<or> k' = k \<and> (\<exists>l. lease_of k ls = Some l \<and> jl_expires_at l \<le> now)"
      if "held_by k' own ls" for k' own
      using that new(2) [of k'] new(3) unfolding held_by_def by (cases "k' = k") auto
    have step': "acquire_step now v = v\<lparr>jv_leases := ls', jv_thread := t\<lparr>jt_lease := True, jt_pc := J_Identity\<rparr>\<rparr>"
      using step got by simp
    show ?thesis
      unfolding step'
    proof (rule lease_effect [OF t, where pc = J_Identity and b = True and ls' = ls'])
      show "held_by k' own ls' \<or> jt_pc t = J_Acquire \<and> lock_key_of (jt_call t) = Some k'
          \<and> (\<exists>l. lease_of k' ls = Some l \<and> jl_expires_at l \<le> now)" if "held_by k' own ls" for k' own
        using kept [OF that] pc k by auto
    qed (use v pc k held in \<open>auto simp: in_flight_def holds_lease_def\<close>)
  qed
qed

lemma save_effect:
  assumes t: "thread_ok key ex ls t" and v: "jv_thread v = t" "files_of v = ex" "jv_leases v = ls" and pc: "jt_pc t = J_Save"
    and x: "x = new_execution (jc_job_name (jt_call t)) now uuid (jc_execution_identity (jt_call t))"
    and fresh: "map_of ex (execution_file (je_execution_id x)) = None"
  shows "step_effect key now' t ex ls (go (J_Publish Job_Scheduled_Event J_Claim) (with_execution x v))"
proof -
  let ?t = "t\<lparr>jt_execution := x, jt_result := Inr x, jt_pc := J_Publish Job_Scheduled_Event J_Claim\<rparr>"
  have status: "je_status x = Job_Scheduled" by (simp add: x new_execution_def)
  have metadata: "je_metadata x = (case jc_execution_identity (jt_call t) of
      None \<Rightarrow> [] | Some i \<Rightarrow> if i = [] then [] else [(''executionIdentity'', JStr i)])"
    by (simp add: x new_execution_def)
  have carries: "carries_identity ?t"
    by (cases "jc_execution_identity (jt_call t)") (auto simp: carries_identity_def identity_of_def metadata)
  have "\<not> jt_lease t" using t pc by (simp add: thread_ok_def)
  then have ok: "thread_ok key (stored_as x ex) ls ?t"
    using t pc carries unfolding thread_ok_def by (simp add: stored_in_def stored_as_def)
  have claims: "claims (stored_as x ex) i = claims ex i" for i
    using fresh status unfolding claims_stored by (auto simp: claims_identity_def claims_def)
  have step: "jv_thread w = ?t" "files_of w = stored_as x ex" "jv_leases w = ls"
    if "w = go (J_Publish Job_Scheduled_Event J_Claim) (with_execution x v)" for w
    using v that by (simp_all add: go_def with_execution_def save_execution_def stored_as_def)
  have "in_flight (J_Publish Job_Scheduled_Event J_Claim)" "\<not> in_flight (jt_pc t)" using pc by (simp_all add: in_flight_def)
  then show ?thesis
    unfolding step_effect_def Let_def step [OF refl] claims using ok fresh by simp
qed

lemma no_read_error:
  assumes wf: "wf_files (rf_executions st)"
  shows "find_execution_by_identity i st \<noteq> Inl e"
proof -
  let ?rows = "rev (sort_key fst (rf_executions st))"
  have rows: "\<exists>x. execution_of_json (snd r) = Inr x" if "r \<in> set ?rows" for r
    using wf that unfolding wf_files_def by fastforce
  have "\<exists>xs. map_result (\<lambda>(name, v). execution_of_json v) rs = Inr xs" if "set rs \<subseteq> set ?rows" for rs
    using that
  proof (induction rs)
    case (Cons r rs)
    then show ?case using rows [of r] by (auto simp: case_prod_beta)
  qed simp
  moreover have "set (py_take 10000 ?rows) \<subseteq> set ?rows" by (auto simp: py_take_def dest: in_set_takeD)
  ultimately obtain xs where "list_runtime_executions 10000 st = Inr xs"
    unfolding list_runtime_executions_def by blast
  then show ?thesis by (simp add: find_execution_by_identity_def)
qed

lemma identity_effect:
  assumes t: "thread_ok key (files_of v) ls t" and v: "jv_thread v = t" "jv_leases v = ls" and pc: "jt_pc t = J_Identity"
    and wf: "wf_files (files_of v)" "length (files_of v) \<le> 10000"
  shows "step_effect key now t (files_of v) ls (identity_step v)"
proof -
  have begins: "step_effect key now t (files_of v) ls (go J_Begin v)" if "unclaimed (files_of v) (jt_call t)"
    by (rule quiet_effect [OF t v(1) refl v(2)]) (use pc that in \<open>auto simp: in_flight_def\<close>)
  have "step_effect key now t (files_of v) ls (go J_Return_Lease v)"
    by (rule quiet_effect [OF t v(1) refl v(2)]) (use pc in \<open>auto simp: in_flight_def\<close>)
  moreover have "step_effect key now t (files_of v) ls (go (J_Drop Skipped_Duplicate) v)" if "\<not> jt_lease t"
    by (rule quiet_effect [OF t v(1) refl v(2)]) (use t pc that in \<open>auto simp: in_flight_def thread_ok_def\<close>)
  ultimately show ?thesis
    using begins v no_read_error [OF wf(1)] unclaimed_when_not_found [OF wf]
    unfolding identity_step_def by (auto simp: unclaimed_def split: option.splits sum.splits)
qed

lemma start_execution_Inr:
  "start_execution now x = Inr y \<Longrightarrow> y = x\<lparr>je_status := Job_Running, je_started_at := Some now\<rparr>"
  by (simp add: start_execution_def split: if_splits)

lemma finish_execution_Inr:
  "finish_execution status err now x = Inr y \<Longrightarrow>
     y = x\<lparr>je_status := status, je_finished_at := Some now, je_error := err\<rparr> \<and> status \<noteq> Job_Running"
  by (auto simp: finish_execution_def terminal_statuses_def split: if_splits)

lemma with_execution_view:
  "jv_thread (with_execution x v) = (jv_thread v)\<lparr>jt_execution := x, jt_result := Inr x\<rparr>"
  "files_of (with_execution x v) = stored_as x (files_of v)"
  "jv_leases (with_execution x v) = jv_leases v" "jv_service (with_execution x v) = jv_service v"
  by (simp_all add: with_execution_def save_execution_def stored_as_def)

lemma begin_effect:
  assumes t: "thread_ok key ex ls t" and v: "jv_thread v = t" "files_of v = ex" "jv_leases v = ls" and pc: "jt_pc t = J_Begin"
  shows "step_effect key now' t ex ls (begin_step now v)"
proof (cases "start_execution now (jt_execution t)")
  case (Inl e)
  then show ?thesis using raise_effect [OF t _ v] pc v by (simp add: begin_step_def)
next
  case (Inr x)
  note x = start_execution_Inr [OF Inr]
  let ?v = "begin_step now v"
  have step: "jv_thread ?v = t\<lparr>jt_pc := J_Publish Job_Started_Event J_Run, jt_execution := x, jt_result := Inr x\<rparr>"
      "files_of ?v = stored_as x ex" "jv_leases ?v = ls"
    using Inr v by (simp_all add: begin_step_def go_def Let_def with_execution_view save_state_def)
  show ?thesis
    by (rule writing_effect [OF t _ step]) (use pc x in \<open>auto simp: in_flight_def\<close>)
qed

lemma complete_effect:
  assumes t: "thread_ok key ex ls t" and v: "jv_thread v = t" "files_of v = ex" "jv_leases v = ls"
    and pc: "jt_pc t = J_Complete status err"
  shows "step_effect key now' t ex ls (complete_step status err now v)"
proof (cases "finish_execution status err now (jt_execution t)")
  case (Inl e)
  then show ?thesis using raise_effect [OF t _ v] pc v by (simp add: complete_step_def)
next
  case (Inr x)
  note x = finish_execution_Inr [OF Inr]
  let ?v = "complete_step status err now v"
  let ?pc = "J_Publish (if status = Job_Completed then Job_Completed_Event else Job_Failed_Event) J_Release"
  have step: "jv_thread ?v = t\<lparr>jt_pc := ?pc, jt_execution := x, jt_result := Inr x\<rparr>"
      "files_of ?v = stored_as x ex" "jv_leases ?v = ls"
    using Inr v by (simp_all add: complete_step_def go_def Let_def with_execution_view save_state_def)
  show ?thesis
    by (rule writing_effect [OF t _ step]) (use pc x in \<open>auto simp: in_flight_def\<close>)
qed

lemma skip_effect:
  assumes t: "thread_ok key ex ls t" and v: "jv_thread v = t" "files_of v = ex" "jv_leases v = ls"
    and pc: "jt_pc t = J_Skip status"
  shows "step_effect key now' t ex ls (skip_step status now v)"
proof (cases "finish_execution status None now (jt_execution t)")
  case (Inl e)
  then show ?thesis using raise_effect [OF t _ v] pc v by (simp add: skip_step_def)
next
  case (Inr x)
  note x = finish_execution_Inr [OF Inr]
  let ?v = "skip_step status now v"
  have "status \<noteq> Job_Completed" using t pc by (simp add: thread_ok_def)
  moreover have step: "jv_thread ?v = t\<lparr>jt_pc := J_Publish Job_Skipped_Event J_Done, jt_execution := x, jt_result := Inr x\<rparr>"
      "files_of ?v = stored_as x ex" "jv_leases ?v = ls"
    using Inr v by (simp_all add: skip_step_def go_def with_execution_view)
  ultimately show ?thesis
    by (intro writing_effect [OF t _ step]) (use pc x in \<open>auto simp: in_flight_def\<close>)
qed

text \<open>The view of the thread that steps, with what a step needs to know of its surroundings.\<close>

lemma view_step_effect:
  assumes t: "thread_ok key (files_of v) (jv_leases v) (jv_thread v)" and wf: "wf_files (files_of v)"
    and fresh: "jt_pc (jv_thread v) = J_Save \<Longrightarrow> map_of (files_of v)
      (execution_file (je_execution_id (new_execution (jc_job_name (jt_call (jv_thread v))) (ji_now i) (ji_uuid i)
        (jc_execution_identity (jt_call (jv_thread v)))))) = None"
    and few: "jt_pc (jv_thread v) = J_Identity \<Longrightarrow> length (files_of v) \<le> 10000"
  shows "step_effect key (ji_now i) (jv_thread v) (files_of v) (jv_leases v) (view_step i v)"
proof (cases "jt_pc (jv_thread v)")
  case J_Idle
  then have "view_step i v = go J_Idle v" by (simp add: view_step_def go_def)
  then show ?thesis using quiet_effect [OF t refl refl refl, of J_Idle] J_Idle by simp
next
  case J_Done
  then have "view_step i v = go J_Done v" by (simp add: view_step_def go_def)
  then show ?thesis using quiet_effect [OF t refl refl refl, of J_Done] J_Done by simp
next
  case J_Save
  then show ?thesis using save_effect [OF t refl refl refl J_Save refl fresh [OF J_Save]] by (simp add: view_step_def Let_def)
next
  case (J_Publish kind pc)
  define w where "w = (let (sv, st) = publish_event kind (Some (jt_execution (jv_thread v))) (ji_uuid i) (ji_now i)
      (ji_delivered i) (ji_now i) (jv_service v, jv_store v) in v\<lparr>jv_service := sv, jv_store := st\<rparr>)"
  have w: "jv_thread w = jv_thread v" "files_of w = files_of v" "jv_leases w = jv_leases v"
    by (simp_all add: w_def publish_event_def save_state_def Let_def split: prod.splits option.splits)
  have "view_step i v = go pc w" using J_Publish by (simp add: view_step_def publish_step_def w_def split_beta Let_def)
  moreover have "skips pc" "inner_pc pc = J_Begin \<Longrightarrow> unclaimed (files_of v) (jt_call (jv_thread v))"
    using t J_Publish by (simp_all add: thread_ok_def)
  ultimately show ?thesis using quiet_effect [OF t w, of pc] J_Publish by (simp add: in_flight_def)
next
  case J_Claim
  define w where "w = v\<lparr>jv_service := (jv_service v)\<lparr>sv_active_jobs :=
    insert (scope_of (jt_call (jv_thread v))) (sv_active_jobs (jv_service v))\<rparr>\<rparr>"
  have w: "jv_thread w = jv_thread v" "files_of w = files_of v" "jv_leases w = jv_leases v" by (simp_all add: w_def)
  have "view_step i v = (if \<not> sv_accepting (jv_service v) \<or> scope_of (jt_call (jv_thread v)) \<in> sv_active_jobs (jv_service v)
      then go (J_Skip (if lock_key_of (jt_call (jv_thread v)) \<noteq> None then Skipped_Locked else Job_Skipped)) v
      else go (if lock_key_of (jt_call (jv_thread v)) \<noteq> None then J_Acquire else J_Identity) w)"
    using J_Claim by (simp add: view_step_def claim_step_def w_def Let_def)
  moreover have "step_effect key (ji_now i) (jv_thread v) (files_of v) (jv_leases v) (go (J_Skip status) v)"
    if "status \<noteq> Job_Completed" for status
    by (rule quiet_effect [OF t refl refl refl]) (use J_Claim that in \<open>auto simp: in_flight_def\<close>)
  moreover have "step_effect key (ji_now i) (jv_thread v) (files_of v) (jv_leases v)
      (go (if lock_key_of (jt_call (jv_thread v)) \<noteq> None then J_Acquire else J_Identity) w)"
    by (rule quiet_effect [OF t w]) (use J_Claim in \<open>auto simp: in_flight_def split: if_splits\<close>)
  ultimately show ?thesis by simp
next
  case J_Acquire
  then show ?thesis using acquire_effect [OF t refl refl refl J_Acquire] by (simp add: view_step_def)
next
  case J_Identity
  then show ?thesis using identity_effect [OF t refl refl J_Identity wf few [OF J_Identity]] by (simp add: view_step_def)
next
  case J_Return_Lease
  then show ?thesis using release_effect [OF t refl refl refl, of "J_Drop Skipped_Duplicate"] by (simp add: view_step_def)
next
  case (J_Drop status)
  have w: "jv_thread (discard_scope v) = jv_thread v" "files_of (discard_scope v) = files_of v"
      "jv_leases (discard_scope v) = jv_leases v" by (simp_all add: discard_scope_def)
  have "status \<noteq> Job_Completed" using t J_Drop by (simp add: thread_ok_def)
  then show ?thesis using quiet_effect [OF t w, of "J_Skip status"] J_Drop by (simp add: view_step_def in_flight_def)
next
  case (J_Skip status)
  then show ?thesis using skip_effect [OF t refl refl refl J_Skip] by (simp add: view_step_def)
next
  case J_Begin
  then show ?thesis using begin_effect [OF t refl refl refl J_Begin] by (simp add: view_step_def)
next
  case J_Run
  obtain status err where r: "settled_as (jc_timeout_seconds (jt_call (jv_thread v))) (ji_outcome i) = (status, err)"
    by fastforce
  show ?thesis
    using quiet_effect [OF t refl refl refl, of "J_Complete status err"] J_Run r by (simp add: view_step_def in_flight_def)
next
  case (J_Complete status err)
  then show ?thesis using complete_effect [OF t refl refl refl J_Complete] by (simp add: view_step_def)
next
  case J_Release
  then show ?thesis using release_effect [OF t refl refl refl, of J_Discard] by (simp add: view_step_def)
next
  case J_Discard
  have w: "jv_thread (discard_scope v) = jv_thread v" "files_of (discard_scope v) = files_of v"
      "jv_leases (discard_scope v) = jv_leases v" by (simp_all add: discard_scope_def)
  show ?thesis using quiet_effect [OF t w, of J_Done] J_Discard by (simp add: view_step_def in_flight_def)
qed

section \<open>Runs of the runtime\<close>

text \<open>
  What the code relies on: a new execution does not take the name of a file, a lease does not expire while the
  thread that owns it still works, and the directory has no more executions than are searched.
\<close>

definition timely :: "runtime_world \<Rightarrow> nat \<Rightarrow> job_input \<Rightarrow> bool" where
  "timely w k i =
     (let t = rw_threads w k; ex = rf_executions (rw_store w); c = jt_call t
      in case jt_pc t of
           J_Save \<Rightarrow>
             map_of ex (execution_file (je_execution_id
               (new_execution (jc_job_name c) (ji_now i) (ji_uuid i) (jc_execution_identity c)))) = None
         | J_Acquire \<Rightarrow>
             (\<forall>l j. l \<in> set (rw_leases w) \<longrightarrow> jt_lease (rw_threads w j) \<longrightarrow> jl_owner_id l = id_of (rw_threads w j)
                \<longrightarrow> ji_now i < jl_expires_at l)
         | J_Identity \<Rightarrow> length ex \<le> 10000
         | _ \<Rightarrow> True)"

text \<open>A thread dies where it is.\<close>

definition crash :: "nat \<Rightarrow> runtime_world \<Rightarrow> runtime_world" where
  "crash k w = w\<lparr>rw_threads := (rw_threads w)(k := (rw_threads w k)\<lparr>jt_pc := J_Done, jt_lease := False\<rparr>)\<rparr>"

text \<open>Calls, steps and deaths of threads, and whatever the services do to themselves and to the engine's file.\<close>

inductive runtime_run :: "(string \<Rightarrow> string) \<Rightarrow> runtime_world \<Rightarrow> bool" for key where
  begins: "(\<And>k. jt_pc (rw_threads w k) = J_Idle \<and> \<not> jt_lease (rw_threads w k)) \<Longrightarrow> rf_executions (rw_store w) = []
     \<Longrightarrow> runtime_run key w"
| calls: "runtime_run key w \<Longrightarrow> jt_pc (rw_threads w k) \<in> {J_Idle, J_Done} \<Longrightarrow> locked_call key c
     \<Longrightarrow> runtime_run key (call_job k c w)"
| steps: "runtime_run key w \<Longrightarrow> timely w k i \<Longrightarrow> runtime_run key (thread_step k i w)"
| dies: "runtime_run key w \<Longrightarrow> inner_pc (jt_pc (rw_threads w k)) \<noteq> J_Idle \<Longrightarrow> runtime_run key (crash k w)"
| serves: "runtime_run key w \<Longrightarrow> rf_executions st = rf_executions (rw_store w)
     \<Longrightarrow> runtime_run key (w\<lparr>rw_services := svs, rw_store := st\<rparr>)"

lemma needs_lease_in_flight: "needs_lease pc \<Longrightarrow> in_flight pc"
  by (induction pc) (auto simp: in_flight_def)

lemma begin_needs_lease: "inner_pc pc = J_Begin \<Longrightarrow> needs_lease pc"
  by (induction pc) auto

lemma held_once: "held_by k a ls \<Longrightarrow> held_by k b ls \<Longrightarrow> a = b"
  by (auto simp: held_by_def)

lemma lease_of_in: "lease_of k ls = Some l \<Longrightarrow> l \<in> set ls"
  by (simp add: lease_of_def find_Some_in)

lemma locked_identity:
  assumes "thread_ok key ex ls t" "needs_lease (jt_pc t)" "jc_execution_identity (jt_call t) = Some i" "i \<noteq> []"
  shows "held_by (key i) (id_of t) ls"
proof -
  have "inner_pc (jt_pc t) \<noteq> J_Idle" using needs_lease_in_flight [OF assms(2)] by (simp add: in_flight_def)
  then have "lock_key_of (jt_call t) = Some (key i)"
    using assms by (auto simp: thread_ok_def locked_call_def lock_key_of_def)
  then show ?thesis using assms(1,2) by (auto simp: thread_ok_def holds_lease_def)
qed

lemma effect_leases:
  "step_effect key now t ex ls v \<Longrightarrow> held_by k own ls \<Longrightarrow> (in_flight (jt_pc t) \<Longrightarrow> own \<noteq> id_of (jv_thread v)) \<Longrightarrow>
     held_by k own (jv_leases v) \<or> jt_pc t = J_Acquire \<and> lock_key_of (jt_call t) = Some k
       \<and> (\<exists>l. lease_of k ls = Some l \<and> jl_expires_at l \<le> now)"
  by (simp add: step_effect_def Let_def)

lemma effect_stored:
  assumes effect: "step_effect key now t ex ls v" and u: "stored_in ex u" "in_flight (jt_pc u)"
    and other: "in_flight (jt_pc (jv_thread v)) \<or> in_flight (jt_pc t) \<Longrightarrow> id_of (jv_thread v) \<noteq> id_of u"
  shows "stored_in (files_of v) u"
proof (cases "files_of v = ex")
  case True
  then show ?thesis using u by simp
next
  case False
  then have f: "files_of v = stored_as (jt_execution (jv_thread v)) ex" "in_flight (jt_pc t) \<or> in_flight (jt_pc (jv_thread v))"
    using effect by (simp_all add: step_effect_def Let_def) (blast+)?
  then show ?thesis using u other by (auto simp: stored_in_def stored_as_def execution_file_inj)
qed

text \<open>What a step of one thread leaves of another.\<close>

lemma thread_ok_other:
  assumes ok: "runtime_ok key w"
    and effect: "step_effect key (ji_now i) (rw_threads w k) (rf_executions (rw_store w)) (rw_leases w) v"
    and jk: "j \<noteq> k" and timely: "timely w k i"
  shows "thread_ok key (files_of v) (jv_leases v) (rw_threads w j)"
    and "in_flight (jt_pc (rw_threads w j)) \<Longrightarrow> in_flight (jt_pc (jv_thread v)) \<or> in_flight (jt_pc (rw_threads w k))
      \<Longrightarrow> id_of (jv_thread v) \<noteq> id_of (rw_threads w j)"
proof -
  let ?ex = "rf_executions (rw_store w)" and ?t = "rw_threads w k" and ?u = "rw_threads w j" and ?t' = "jv_thread v"
  have u: "thread_ok key ?ex (rw_leases w) ?u" and t: "thread_ok key ?ex (rw_leases w) ?t"
    using ok by (auto simp: runtime_ok_def)
  show other: "id_of ?t' \<noteq> id_of ?u"
    if "in_flight (jt_pc ?u)" "in_flight (jt_pc ?t') \<or> in_flight (jt_pc ?t)"
  proof (cases "in_flight (jt_pc ?t)")
    case True
    then show ?thesis using effect ok jk that by (auto simp: step_effect_def runtime_ok_def Let_def)
  next
    case False
    then have "map_of ?ex (execution_file (id_of ?t')) = None" using effect that by (auto simp: step_effect_def Let_def)
    moreover have "stored_in ?ex ?u" using u that(1) by (simp add: thread_ok_def)
    ultimately show ?thesis by (auto simp: stored_in_def)
  qed
  have stored: "stored_in (files_of v) ?u" if "in_flight (jt_pc ?u)"
    using effect_stored [OF effect _ that] other that u by (simp add: thread_ok_def)
  have lease: "holds_lease (jv_leases v) ?u" if owns: "jt_lease ?u"
  proof -
    obtain k' where k': "lock_key_of (jt_call ?u) = Some k'" and held: "held_by k' (id_of ?u) (rw_leases w)"
      using u owns by (auto simp: thread_ok_def holds_lease_def split: option.splits)
    have flying: "in_flight (jt_pc ?u)" using u owns needs_lease_in_flight by (auto simp: thread_ok_def)
    have "in_flight (jt_pc ?t) \<Longrightarrow> id_of ?u \<noteq> id_of ?t'" using other flying by auto
    then have "held_by k' (id_of ?u) (jv_leases v) \<or> jt_pc ?t = J_Acquire
        \<and> (\<exists>l. lease_of k' (rw_leases w) = Some l \<and> jl_expires_at l \<le> ji_now i)"
      using effect_leases [OF effect held] by auto
    moreover have "ji_now i < jl_expires_at l" if "jt_pc ?t = J_Acquire" "lease_of k' (rw_leases w) = Some l" for l
    proof -
      have "jl_owner_id l = id_of ?u" using held that(2) by (simp add: held_by_def)
      then show ?thesis using timely that(1) owns lease_of_in [OF that(2)] by (simp add: timely_def Let_def)
    qed
    ultimately show ?thesis using k' by (auto simp: holds_lease_def)
  qed
  have begins: "unclaimed (files_of v) (jt_call ?u)" if "inner_pc (jt_pc ?u) = J_Begin"
    unfolding unclaimed_def
  proof (intro allI impI)
    fix n assume n: "jc_execution_identity (jt_call ?u) = Some n" "n \<noteq> []"
    have pc: "needs_lease (jt_pc ?u)" using begin_needs_lease that by simp
    have "claims ?ex n = {}" using u that n by (simp add: thread_ok_def unclaimed_def)
    then have "claims (files_of v) n = {} \<or> jt_pc ?t = J_Begin \<and> jc_execution_identity (jt_call ?t) = Some n"
      using effect n(2) by (simp add: step_effect_def Let_def)
    moreover have False if "jt_pc ?t = J_Begin" "jc_execution_identity (jt_call ?t) = Some n"
    proof -
      have "needs_lease (jt_pc ?t)" "in_flight (jt_pc ?t)" using that(1) by (simp_all add: in_flight_def)
      moreover have "id_of ?t = id_of ?u"
        using locked_identity [OF t calculation(1) that(2) n(2)] locked_identity [OF u pc n] held_once by simp
      ultimately show False using ok jk needs_lease_in_flight [OF pc] by (auto simp: runtime_ok_def)
    qed
    ultimately show "claims (files_of v) n = {}" by blast
  qed
  show "thread_ok key (files_of v) (jv_leases v) ?u"
    using u stored lease begins unfolding thread_ok_def by simp
qed

lemma thread_step_ok:
  assumes ok: "runtime_ok key w" and timely: "timely w k i"
  shows "runtime_ok key (thread_step k i w)"
proof -
  let ?v = "view_of k w" and ?w = "thread_step k i w"
  let ?v' = "view_step i ?v"
  have v: "jv_thread ?v = rw_threads w k" "files_of ?v = rf_executions (rw_store w)" "jv_leases ?v = rw_leases w"
    by (simp_all add: view_of_def)
  have w: "rw_threads ?w = (rw_threads w)(k := jv_thread ?v')" "rf_executions (rw_store ?w) = files_of ?v'"
      "rw_leases ?w = jv_leases ?v'"
    by (simp_all add: thread_step_def put_view_def)
  have t: "thread_ok key (files_of ?v) (jv_leases ?v) (jv_thread ?v)" and wf: "wf_files (files_of ?v)"
    using ok v by (simp_all add: runtime_ok_def)
  have effect: "step_effect key (ji_now i) (rw_threads w k) (rf_executions (rw_store w)) (rw_leases w) ?v'"
    by (rule view_step_effect [OF t wf, of i, unfolded v]) (use timely in \<open>simp_all add: timely_def Let_def\<close>)
  note other = thread_ok_other [OF ok effect _ timely]
  have threads: "thread_ok key (files_of ?v') (jv_leases ?v') (rw_threads ?w j)" for j
    using other(1) [of j] effect by (cases "j = k") (simp_all add: w step_effect_def Let_def)
  have apart: "id_of (jv_thread ?v') \<noteq> id_of (rw_threads w j)"
    if "j \<noteq> k" "in_flight (jt_pc (rw_threads w j))" "in_flight (jt_pc (jv_thread ?v'))" for j
    using other(2) [of j] that by simp
  have distinct: "id_of (rw_threads ?w j) \<noteq> id_of (rw_threads ?w l)"
    if "j \<noteq> l" "in_flight (jt_pc (rw_threads ?w j))" "in_flight (jt_pc (rw_threads ?w l))" for j l
  proof (cases "j = k")
    case True
    then show ?thesis using apart [of l] that by (simp add: w)
  next
    case False
    then show ?thesis using apart [of j] that ok by (cases "l = k") (auto simp: w runtime_ok_def)
  qed
  have "single (claims (files_of ?v') n)" if "n \<noteq> []" for n
    using effect ok that by (simp add: step_effect_def runtime_ok_def Let_def)
  moreover have "wf_files (files_of ?v')"
    using effect wf wf_files_stored unfolding v step_effect_def Let_def by auto
  ultimately show ?thesis
    unfolding runtime_ok_def w(2,3) using threads distinct by blast
qed

lemma resting_ok:
  assumes "runtime_ok key w" "\<not> in_flight (jt_pc t)" "thread_ok key (rf_executions (rw_store w)) (rw_leases w) t"
  shows "runtime_ok key (w\<lparr>rw_threads := (rw_threads w)(k := t)\<rparr>)"
  using assms by (auto simp: runtime_ok_def)

lemma runtime_run_ok: "runtime_run key w \<Longrightarrow> runtime_ok key w"
proof (induction rule: runtime_run.induct)
  case (begins w)
  then show ?case by (simp add: runtime_ok_def thread_ok_def in_flight_def claims_def single_def wf_files_def)
next
  case (calls w k c)
  then show ?case unfolding call_job_def by (intro resting_ok) (auto simp: thread_ok_def in_flight_def)
next
  case (steps w k i)
  then show ?case using thread_step_ok by simp
next
  case (dies w k)
  then have "locked_call key (jt_call (rw_threads w k))" by (auto simp: runtime_ok_def thread_ok_def)
  then show ?case using dies unfolding crash_def by (intro resting_ok) (auto simp: thread_ok_def in_flight_def)
next
  case (serves w st svs)
  then show ?case by (simp add: runtime_ok_def)
qed

lemma claims_count:
  assumes "wf_files ex" "single (claims ex i)"
  shows "length (filter (\<lambda>(n, v). case execution_of_json v of Inl _ \<Rightarrow> False | Inr x \<Rightarrow> claims_identity i x) ex) \<le> 1"
proof -
  let ?P = "\<lambda>(n, v). case execution_of_json v of Inl _ \<Rightarrow> False | Inr x \<Rightarrow> claims_identity i x"
  have "n \<in> claims ex i" if r: "(n, v) \<in> set ex" "?P (n, v)" for n v
  proof -
    obtain x where x: "v = execution_json x" using assms(1) r(1) by (auto simp: wf_files_def)
    moreover have "map_of ex n = Some v" using assms(1) r(1) by (simp add: wf_files_def)
    ultimately show ?thesis using r(2) by (auto simp: claims_def)
  qed
  then have "set (map fst (filter ?P ex)) \<subseteq> claims ex i" by auto
  moreover have d: "distinct (map fst (filter ?P ex))" using assms(1) by (simp add: wf_files_def distinct_map_filter)
  ultimately have "\<exists>a. set (map fst (filter ?P ex)) \<subseteq> {a}"
    using assms(2) unfolding single_def by blast
  then obtain a where "set (map fst (filter ?P ex)) \<subseteq> {a}" by blast
  then have "card (set (map fst (filter ?P ex))) \<le> 1" using card_mono [of "{a}"] by force
  moreover have "card (set (map fst (filter ?P ex))) = length (filter ?P ex)"
    using distinct_card [OF d] by simp
  ultimately show ?thesis by simp
qed

text \<open>C32: when an identity fixes the key its job is locked with, then from an empty store at most one execution of
  every identity is ever running or completed, however threads and processes interleave, skip and die, as long
  as no job outlives its lease, execution files do not repeat their names, and the directory holds no more
  executions than are searched.\<close>

theorem identity_runs_once:
  assumes "runtime_run key w" "identity \<noteq> []"
  shows "length (filter (\<lambda>(n, v). case execution_of_json v of Inl _ \<Rightarrow> False | Inr x \<Rightarrow> claims_identity identity x)
    (rf_executions (rw_store w))) \<le> 1"
  using runtime_run_ok [OF assms(1)] assms(2) by (intro claims_count) (auto simp: runtime_ok_def)

text \<open>In such runs two threads never run their handlers at the same time under one lock key.\<close>

lemma locked_jobs_exclude:
  assumes "runtime_run key w" "jt_pc (rw_threads w j) = J_Run" "jt_pc (rw_threads w k) = J_Run"
    and "lock_key_of (jt_call (rw_threads w j)) = Some l" "lock_key_of (jt_call (rw_threads w k)) = Some l"
  shows "j = k"
proof (rule ccontr)
  assume "j \<noteq> k"
  note ok = runtime_run_ok [OF assms(1)]
  have held: "held_by l (id_of (rw_threads w n)) (rw_leases w)"
    if "jt_pc (rw_threads w n) = J_Run" "lock_key_of (jt_call (rw_threads w n)) = Some l" for n
  proof -
    have t: "thread_ok key (rf_executions (rw_store w)) (rw_leases w) (rw_threads w n)" using ok by (simp add: runtime_ok_def)
    then have "jt_lease (rw_threads w n)" using that by (simp add: thread_ok_def)
    then show ?thesis using t that by (simp add: thread_ok_def holds_lease_def)
  qed
  then have "id_of (rw_threads w j) = id_of (rw_threads w k)"
    using held_once assms by blast
  then show False using ok assms(2,3) \<open>j \<noteq> k\<close> by (auto simp: runtime_ok_def in_flight_def)
qed

section \<open>Samples\<close>

definition idle_thread :: "nat \<Rightarrow> job_call \<Rightarrow> job_thread" where
  "idle_thread service c =
     \<lparr>jt_service = service, jt_call = c, jt_execution = new_execution ''none'' 0 ''00000000'' None, jt_lease = False,
      jt_pc = J_Idle, jt_result = Inl (RuntimeError ''not run'')\<rparr>"

definition sample_job :: job_config where
  "sample_job = job_config_of ''rebalance'' ''0 * * * *'' (Some 300) Execution (Some ''portfolio:p'')"

text \<open>Two processes on one store and one lease table, each with a thread of its own.\<close>

definition two_processes :: "utc \<Rightarrow> utc \<Rightarrow> runtime_world" where
  "two_processes t0 t1 =
     \<lparr>rw_services = (\<lambda>k. new_service ''engine'' (if k = 0 then ''a'' else ''b'') ''1.0'' True 0),
      rw_store = empty_runtime_store, rw_leases = [],
      rw_threads = (\<lambda>k. idle_thread k (call_of sample_job (if k = 0 then t0 else t1)))\<rparr>"

definition tick :: "utc \<Rightarrow> string \<Rightarrow> job_input" where
  "tick now uuid = \<lparr>ji_now = now, ji_uuid = uuid, ji_delivered = True, ji_outcome = Returns\<rparr>"

text \<open>Where a thread is, in the parts of its view that the way of a job depends on.\<close>

definition job_point ::
    "job_pc \<Rightarrow> execution_files \<Rightarrow> job_lease list \<Rightarrow> string set \<Rightarrow> job_call \<Rightarrow> job_execution \<Rightarrow> bool \<Rightarrow> job_view \<Rightarrow> bool" where
  "job_point pc ex ls active c x lease v =
     (jt_pc (jv_thread v) = pc \<and> files_of v = ex \<and> jv_leases v = ls \<and> sv_active_jobs (jv_service v) = active
      \<and> jt_call (jv_thread v) = c \<and> jt_execution (jv_thread v) = x \<and> jt_lease (jv_thread v) = lease
      \<and> sv_accepting (jv_service v) \<and> sv_has_lock (jv_service v))"

lemma point_save:
  "job_point J_Save ex ls active c x0 b v \<Longrightarrow> x = new_execution (jc_job_name c) (ji_now i) (ji_uuid i) (jc_execution_identity c)
   \<Longrightarrow> job_point (J_Publish Job_Scheduled_Event J_Claim) (stored_as x ex) ls active c x b (view_step i v)"
  by (simp add: job_point_def view_step_def go_def with_execution_view Let_def)

lemma point_publish:
  "job_point (J_Publish kind pc) ex ls active c x b v \<Longrightarrow> job_point pc ex ls active c x b (view_step i v)"
  by (auto simp: job_point_def view_step_def publish_step_def publish_event_def go_def save_state_def Let_def
      split: prod.splits option.splits)

lemma point_claim:
  "job_point J_Claim ex ls active c x b v \<Longrightarrow> scope_of c \<notin> active \<Longrightarrow> lock_key_of c = Some k
   \<Longrightarrow> job_point J_Acquire ex ls (insert (scope_of c) active) c x b (view_step i v)"
  by (simp add: job_point_def view_step_def claim_step_def go_def Let_def)

lemma point_acquire:
  "job_point J_Acquire ex ls active c x b v \<Longrightarrow> lock_key_of c = Some k \<Longrightarrow> jc_lock_ttl_seconds c = Some ttl
   \<Longrightarrow> lease_acquire k (je_execution_id x) (seconds ttl) (ji_now i) ls = (ls', Inr True)
   \<Longrightarrow> job_point J_Identity ex ls' active c x True (view_step i v)"
  by (simp add: job_point_def view_step_def acquire_step_def go_def Let_def)

lemma find_by_files:
  "rf_executions st = rf_executions st' \<Longrightarrow> find_execution_by_identity n st = find_execution_by_identity n st'"
  by (simp add: find_execution_by_identity_def list_runtime_executions_def)

lemma point_identity:
  "job_point J_Identity ex ls active c x b v \<Longrightarrow> jc_execution_identity c = Some n \<Longrightarrow>
   find_execution_by_identity n (empty_runtime_store\<lparr>rf_executions := ex\<rparr>) = Inr None
   \<Longrightarrow> job_point J_Begin ex ls active c x b (view_step i v)"
  using find_by_files [of "jv_store v" "empty_runtime_store\<lparr>rf_executions := ex\<rparr>" n]
  by (simp add: job_point_def view_step_def identity_step_def go_def Let_def)

lemma point_duplicate:
  "job_point J_Identity ex ls active c x True v \<Longrightarrow> jc_execution_identity c = Some n \<Longrightarrow> n \<noteq> [] \<Longrightarrow>
   find_execution_by_identity n (empty_runtime_store\<lparr>rf_executions := ex\<rparr>) = Inr (Some y)
   \<Longrightarrow> job_point J_Return_Lease ex ls active c x True (view_step i v)"
  using find_by_files [of "jv_store v" "empty_runtime_store\<lparr>rf_executions := ex\<rparr>" n]
  by (simp add: job_point_def view_step_def identity_step_def go_def Let_def)

lemma point_begin:
  "job_point J_Begin ex ls active c x b v \<Longrightarrow> je_status x = Job_Scheduled
   \<Longrightarrow> x' = x\<lparr>je_status := Job_Running, je_started_at := Some (ji_now i)\<rparr>
   \<Longrightarrow> job_point (J_Publish Job_Started_Event J_Run) (stored_as x' ex) ls active c x' b (view_step i v)"
  by (simp add: job_point_def view_step_def begin_step_def start_execution_def go_def Let_def with_execution_view save_state_def)

text \<open>A job whose scope and lease are free and whose identity is new runs its handler.\<close>

lemma point_starts:
  assumes v: "job_point J_Save ex ls active c x0 b v"
    and x: "x = new_execution (jc_job_name c) (ji_now i) (ji_uuid i) (jc_execution_identity c)"
    and c: "scope_of c \<notin> active" "lock_key_of c = Some k" "jc_lock_ttl_seconds c = Some ttl" "jc_execution_identity c = Some n"
    and free: "lease_acquire k (je_execution_id x) (seconds ttl) (ji_now i) ls = (ls', Inr True)"
      "find_execution_by_identity n (empty_runtime_store\<lparr>rf_executions := stored_as x ex\<rparr>) = Inr None"
  shows "job_point J_Run (stored_as (x\<lparr>je_status := Job_Running, je_started_at := Some (ji_now i)\<rparr>) (stored_as x ex)) ls'
    (insert (scope_of c) active) c (x\<lparr>je_status := Job_Running, je_started_at := Some (ji_now i)\<rparr>) True
    ((view_step i ^^ 7) v)"
proof -
  have scheduled: "je_status x = Job_Scheduled" by (simp add: x new_execution_def)
  note before = point_publish [OF point_save [OF v x]]
  note asked = point_acquire [OF point_claim [OF before c(1,2)] c(2,3) free(1)]
  show ?thesis
    using point_publish [OF point_begin [OF point_identity [OF asked c(4) free(2)] scheduled refl]]
    by (simp add: eval_nat_numeral)
qed

lemma found_is_claimed:
  assumes "wf_files (rf_executions st)" "find_execution_by_identity i st = Inr (Some x)"
  shows "claims (rf_executions st) i \<noteq> {}"
proof -
  let ?rows = "rev (sort_key fst (rf_executions st))"
  obtain xs where m: "map_result (\<lambda>(name, v). execution_of_json v) (py_take 10000 ?rows) = Inr xs"
    and f: "find (claims_identity i) xs = Some x"
    using assms(2) by (auto simp: find_execution_by_identity_def list_runtime_executions_def py_result)
  then have x: "x \<in> set xs" "claims_identity i x" by (auto simp: find_Some_iff)
  obtain r where r: "r \<in> set (py_take 10000 ?rows)" "execution_of_json (snd r) = Inr x"
    using map_result_Inr_set [OF m x(1)] by auto
  then have r_in: "(fst r, snd r) \<in> set (rf_executions st)" by (auto simp: py_take_def dest: in_set_takeD)
  then obtain y where "snd r = execution_json y" using assms(1) by (fastforce simp: wf_files_def)
  then have "snd r = execution_json x" using r(2) by simp
  then have "map_of (rf_executions st) (fst r) = Some (execution_json x)"
    using r_in assms(1) by (simp add: wf_files_def)
  then show ?thesis using x(2) by (auto simp: claims_def)
qed

lemma not_found:
  assumes "wf_files ex" "claims ex i = {}"
  shows "find_execution_by_identity i (empty_runtime_store\<lparr>rf_executions := ex\<rparr>) = Inr None"
proof -
  let ?st = "empty_runtime_store\<lparr>rf_executions := ex\<rparr>"
  obtain r where r: "find_execution_by_identity i ?st = Inr r"
    using no_read_error [of ?st i] assms(1) by (cases "find_execution_by_identity i ?st") auto
  then show ?thesis using found_is_claimed [of ?st i] assms by (cases r) auto
qed

lemma view_step_service: "jt_service (jv_thread (view_step i v)) = jt_service (jv_thread v)"
  by (cases "jt_pc (jv_thread v)")
    (auto simp: view_step_def go_def with_execution_view publish_step_def claim_step_def acquire_step_def identity_step_def
      raise_from_def discard_scope_def release_lease_def skip_step_def begin_step_def complete_step_def Let_def
      split: prod.splits option.splits sum.splits bool.splits)

lemma view_of_step [simp]: "view_of k (thread_step k i w) = view_step i (view_of k w)"
  by (simp add: thread_step_def put_view_def view_of_def view_step_service [of i "view_of k w", unfolded view_of_def, simplified])

lemma view_of_steps: "view_of k ((thread_step k i ^^ n) w) = (view_step i ^^ n) (view_of k w)"
  by (induction n) simp_all

lemma other_thread: "j \<noteq> k \<Longrightarrow> rw_threads ((thread_step k i ^^ n) w) j = rw_threads w j"
  by (induction n) (simp_all add: thread_step_def put_view_def)

lemma service_of_steps:
  "jt_service (rw_threads ((thread_step k i ^^ n) w) k) = jt_service (rw_threads w k)"
proof (induction n)
  case (Suc n)
  have "rw_threads (thread_step k i u) k = jv_thread (view_step i (view_of k u))" for u
    by (simp add: thread_step_def put_view_def)
  then show ?case using Suc by (simp add: view_step_service view_of_def)
qed simp

lemma other_service:
  "m \<noteq> jt_service (rw_threads w k) \<Longrightarrow> rw_services ((thread_step k i ^^ n) w) m = rw_services w m"
proof (induction n)
  case (Suc n)
  have "rw_services (thread_step k i u) m = rw_services u m" if "m \<noteq> jt_service (rw_threads u k)" for u
    using that by (simp add: thread_step_def put_view_def)
  then show ?case using Suc service_of_steps [where k = k and i = i and n = n and w = w] by simp
qed simp

lemma run_starting:
  assumes run: "runtime_run key w" and v: "job_point J_Save ex ls active c x0 b (view_of k w)"
    and x: "x = new_execution (jc_job_name c) (ji_now i) (ji_uuid i) (jc_execution_identity c)"
    and c: "scope_of c \<notin> active" "lock_key_of c = Some l" "jc_lock_ttl_seconds c = Some ttl" "jc_execution_identity c = Some n"
    and new: "find_execution_by_identity n (empty_runtime_store\<lparr>rf_executions := stored_as x ex\<rparr>) = Inr None"
    and fresh: "map_of ex (execution_file (je_execution_id x)) = None"
    and free: "lease_acquire l (je_execution_id x) (seconds ttl) (ji_now i) ls = (ls', Inr True)"
      "\<And>h j. h \<in> set ls \<Longrightarrow> jt_lease (rw_threads w j) \<Longrightarrow> j \<noteq> k \<Longrightarrow> jl_owner_id h = id_of (rw_threads w j)
        \<Longrightarrow> ji_now i < jl_expires_at h"
    and unowned: "\<not> b" and few: "length (stored_as x ex) \<le> 10000"
  shows "runtime_run key ((thread_step k i ^^ 7) w)"
proof -
  let ?w = "\<lambda>n. (thread_step k i ^^ n) w" and ?v = "\<lambda>n. (view_step i ^^ n) (view_of k w)"
  have thread: "rw_threads (?w n) k = jv_thread (?v n)" "rf_executions (rw_store (?w n)) = files_of (?v n)"
      "rw_leases (?w n) = jv_leases (?v n)" for n
    unfolding view_of_steps [symmetric] by (simp_all add: view_of_def)
  note p1 = point_save [OF v x]
  note p2 = point_publish [OF p1, of i]
  note p3 = point_claim [OF p2 c(1,2), of i]
  note p4 = point_acquire [OF p3 c(2,3) free(1)]
  note p5 = point_identity [OF p4 c(4) new, of i]
  have scheduled: "je_status x = Job_Scheduled" by (simp add: x new_execution_def)
  note p6 = point_begin [OF p5 scheduled refl, of i]
  have "timely (?w 0) k i"
    using v fresh x thread [of 0] by (simp add: timely_def job_point_def Let_def)
  moreover have "timely (?w 1) k i" using p1 thread [of 1] by (simp add: timely_def job_point_def Let_def)
  moreover have "timely (?w 2) k i" using p2 thread [of 2] by (simp add: timely_def job_point_def Let_def eval_nat_numeral)
  moreover have "timely (?w 3) k i"
  proof -
    have s: "jt_pc (rw_threads (?w 3) k) = J_Acquire" "rw_leases (?w 3) = ls" "\<not> jt_lease (rw_threads (?w 3) k)"
      using p3 unowned thread [of 3] by (simp_all add: job_point_def eval_nat_numeral)
    have "ji_now i < jl_expires_at h"
      if "h \<in> set ls" "jt_lease (rw_threads (?w 3) j)" "jl_owner_id h = id_of (rw_threads (?w 3) j)" for h j
      using free(2) [of h j] that s(3) other_thread [of j k 3 i w] by (cases "j = k") auto
    then show ?thesis using s by (simp add: timely_def Let_def)
  qed
  moreover have "timely (?w 4) k i"
    using p4 few thread [of 4] by (simp add: timely_def job_point_def Let_def eval_nat_numeral)
  moreover have "timely (?w 5) k i" using p5 thread [of 5] by (simp add: timely_def job_point_def Let_def eval_nat_numeral)
  moreover have "timely (?w 6) k i" using p6 thread [of 6] by (simp add: timely_def job_point_def Let_def eval_nat_numeral)
  ultimately show ?thesis using run by (simp add: eval_nat_numeral runtime_run.steps)
qed

definition sample_call :: "utc \<Rightarrow> job_call" where
  "sample_call t = call_of sample_job t"

definition first_started :: runtime_world where
  "first_started = (thread_step 0 (tick 0 ''aaaaaaaa'') ^^ 7) (call_job 0 (sample_call 0) (two_processes 0 900000000))"

definition second_started :: runtime_world where
  "second_started =
     (thread_step 1 (tick 900000000 ''bbbbbbbb'') ^^ 7) (call_job 1 (sample_call 900000000) first_started)"

definition sample_execution :: "utc \<Rightarrow> string \<Rightarrow> job_execution" where
  "sample_execution t uuid = new_execution ''rebalance'' t uuid (jc_execution_identity (sample_call t))"

definition sample_running :: "utc \<Rightarrow> string \<Rightarrow> job_execution" where
  "sample_running t uuid = (sample_execution t uuid)\<lparr>je_status := Job_Running, je_started_at := Some t\<rparr>"

lemma sample_call_facts:
  "jc_job_name (sample_call t) = ''rebalance''" "scope_of (sample_call t) = ''portfolio:p''"
  "lock_key_of (sample_call t) = Some ''portfolio:p''" "jc_lock_ttl_seconds (sample_call t) = Some 900"
  "jc_execution_identity (sample_call t) = Some (''rebalance:'' @ iso_minute t)"
  "jc_lock_key (sample_call t) = Some ''portfolio:p''"
  by (simp_all add: sample_call_def call_of_def sample_job_def job_config_of_def jg_policy_def scope_of_def lock_key_of_def)

lemma sample_execution_facts:
  "je_status (sample_execution t uuid) = Job_Scheduled"
  "identity_of (sample_execution t uuid) = Some (JStr (''rebalance:'' @ iso_minute t))"
  "je_execution_id (sample_execution t uuid) = ''exec-'' @ stamp_text t @ ''-'' @ take 8 uuid"
  by (simp_all add: sample_execution_def new_execution_def identity_of_def sample_call_facts)

lemma sample_running_facts:
  "je_execution_id (sample_running t uuid) = je_execution_id (sample_execution t uuid)"
  "identity_of (sample_running t uuid) = identity_of (sample_execution t uuid)" "je_status (sample_running t uuid) = Job_Running"
  by (simp_all add: sample_running_def identity_of_def)

lemma sample_stamps: "stamp_text 0 = ''19700101T000000000000Z''" "stamp_text 900000000 = ''19700101T001500000000Z''"
  "iso_minute 0 = ''1970-01-01T00:00:00+00:00''" "iso_minute 900000000 = ''1970-01-01T00:15:00+00:00''"
  by code_simp+

lemma first_point:
  "job_point J_Save [] [] {} (sample_call 0) (new_execution ''none'' 0 ''00000000'' None) False
     (view_of 0 (call_job 0 (sample_call 0) (two_processes 0 900000000)))"
  by (simp add: job_point_def view_of_def call_job_def two_processes_def idle_thread_def new_service_def empty_runtime_store_def)

definition first_files :: execution_files where
  "first_files = stored_as (sample_running 0 ''aaaaaaaa'') (stored_as (sample_execution 0 ''aaaaaaaa'') [])"

definition first_leases :: "job_lease list" where
  "first_leases = [\<lparr>jl_lock_key = ''portfolio:p'', jl_owner_id = je_execution_id (sample_execution 0 ''aaaaaaaa''),
     jl_acquired_at = 0, jl_expires_at = 900000000\<rparr>]"

lemma first_free:
  "lease_acquire ''portfolio:p'' (je_execution_id (sample_execution 0 ''aaaaaaaa'')) (seconds 900) 0 [] = (first_leases, Inr True)"
  by (simp add: lease_acquire_def first_leases_def lease_of_def sample_execution_facts seconds_def)

lemma no_files: "wf_files []" "claims [] i = {}"
  by (simp_all add: wf_files_def claims_def)

lemma first_new:
  "find_execution_by_identity (''rebalance:'' @ iso_minute 0)
     (empty_runtime_store\<lparr>rf_executions := stored_as (sample_execution 0 ''aaaaaaaa'') []\<rparr>) = Inr None"
  by (rule not_found) (simp_all add: wf_files_stored no_files claims_stored claims_identity_def sample_execution_facts)

lemma first_running:
  "job_point J_Run first_files first_leases {''portfolio:p''} (sample_call 0) (sample_running 0 ''aaaaaaaa'') True
     (view_of 0 first_started)"
  using point_starts [OF first_point, of "sample_execution 0 ''aaaaaaaa''" "tick 0 ''aaaaaaaa''"] first_free first_new
  by (simp add: sample_call_facts tick_def sample_execution_def view_of_steps first_started_def first_files_def sample_running_def)

lemma first_run: "runtime_run (\<lambda>i. ''portfolio:p'') first_started"
  unfolding first_started_def
proof (rule run_starting [OF _ first_point refl])
  have "runtime_run (\<lambda>i. ''portfolio:p'') (two_processes 0 900000000)"
    by (rule runtime_run.begins) (simp_all add: two_processes_def idle_thread_def empty_runtime_store_def)
  then show "runtime_run (\<lambda>i. ''portfolio:p'') (call_job 0 (sample_call 0) (two_processes 0 900000000))"
    by (rule runtime_run.calls) (simp_all add: two_processes_def idle_thread_def locked_call_def sample_call_facts)
qed (use first_free first_new in \<open>simp_all add: sample_call_facts tick_def sample_execution_def stored_as_def\<close>)

lemma identity_runs_once_witness:
  "length (filter (\<lambda>(n, v). case execution_of_json v of Inl _ \<Rightarrow> False | Inr x \<Rightarrow>
       claims_identity (''rebalance:'' @ iso_minute 0) x) (rf_executions (rw_store first_started))) \<le> 1
   \<and> jt_pc (rw_threads first_started 0) = J_Run"
  using identity_runs_once [OF first_run, of "''rebalance:'' @ iso_minute 0"] first_running
  by (simp add: job_point_def view_of_def)

lemma first_claims: "claims first_files (''rebalance:'' @ iso_minute 900000000) = {}"
  unfolding first_files_def claims_stored
  by (simp add: no_files claims_identity_def sample_execution_facts sample_running_facts sample_stamps)

lemma first_wf: "wf_files first_files"
  by (simp add: first_files_def wf_files_stored no_files)

lemma second_point:
  "job_point J_Save first_files first_leases {} (sample_call 900000000) (new_execution ''none'' 0 ''00000000'' None) False
     (view_of 1 (call_job 1 (sample_call 900000000) first_started))"
proof -
  have "rw_threads first_started 1 = idle_thread 1 (call_of sample_job 900000000)"
    unfolding first_started_def by (subst other_thread) (simp_all add: call_job_def two_processes_def)
  moreover have "rw_services first_started 1 = new_service ''engine'' ''b'' ''1.0'' True 0"
    unfolding first_started_def by (subst other_service) (simp_all add: call_job_def two_processes_def idle_thread_def)
  moreover have "rf_executions (rw_store first_started) = first_files" "rw_leases first_started = first_leases"
    using first_running by (simp_all add: job_point_def view_of_def)
  ultimately show ?thesis
    by (simp add: job_point_def view_of_def call_job_def idle_thread_def new_service_def)
qed

definition second_leases :: "job_lease list" where
  "second_leases = [\<lparr>jl_lock_key = ''portfolio:p'', jl_owner_id = je_execution_id (sample_execution 900000000 ''bbbbbbbb''),
     jl_acquired_at = 900000000, jl_expires_at = 1800000000\<rparr>]"

lemma second_free:
  "lease_acquire ''portfolio:p'' (je_execution_id (sample_execution 900000000 ''bbbbbbbb'')) (seconds 900) 900000000
     first_leases = (second_leases, Inr True)"
  by (simp add: lease_acquire_def first_leases_def second_leases_def lease_of_def sample_execution_facts seconds_def)

lemma second_new:
  "find_execution_by_identity (''rebalance:'' @ iso_minute 900000000)
     (empty_runtime_store\<lparr>rf_executions := stored_as (sample_execution 900000000 ''bbbbbbbb'') first_files\<rparr>) = Inr None"
  using first_claims
  by (intro not_found) (simp_all add: wf_files_stored first_wf claims_stored claims_identity_def sample_execution_facts)

lemma second_running:
  "\<exists>ex. job_point J_Run ex second_leases {''portfolio:p''} (sample_call 900000000) (sample_running 900000000 ''bbbbbbbb'') True
     (view_of 1 second_started)"
  using point_starts [OF second_point, of "sample_execution 900000000 ''bbbbbbbb''" "tick 900000000 ''bbbbbbbb''"
      "''portfolio:p''" 900 "''rebalance:'' @ iso_minute 900000000" second_leases]
    second_free second_new
  by (auto simp: sample_call_facts tick_def sample_execution_def view_of_steps second_started_def sample_running_def)

text \<open>A locked job has no time limit of its own, so one that outlives its lease of fifteen minutes still runs
  when the next one of another process acquires the lease and runs under the same key.\<close>

lemma expired_lease_lets_two_run:
  "jt_pc (rw_threads second_started 0) = J_Run \<and> jt_pc (rw_threads second_started 1) = J_Run
   \<and> lock_key_of (jt_call (rw_threads second_started 0)) = Some ''portfolio:p''
   \<and> lock_key_of (jt_call (rw_threads second_started 1)) = Some ''portfolio:p''"
proof -
  have "jt_pc (rw_threads second_started 1) = J_Run \<and> jt_call (rw_threads second_started 1) = sample_call 900000000"
    using second_running by (auto simp: job_point_def view_of_def)
  moreover have "rw_threads second_started 0 = rw_threads first_started 0"
    unfolding second_started_def by (subst other_thread) (simp_all add: call_job_def)
  ultimately show ?thesis
    using first_running by (simp add: job_point_def view_of_def sample_call_facts)
qed

section \<open>A started job ends\<close>

lemma point_run:
  assumes "job_point J_Run ex ls active c x b v"
  shows "\<exists>status err. status \<in> {Job_Completed, Job_Failed} \<and> job_point (J_Complete status err) ex ls active c x b (view_step i v)"
  using assms by (cases "ji_outcome i") (auto simp: job_point_def view_step_def go_def Let_def settled_as_def)

lemma point_complete:
  assumes "job_point (J_Complete status err) ex ls active c x b v" "je_status x = Job_Running" "status \<in> {Job_Completed, Job_Failed}"
  shows "\<exists>kind y. je_status y = status \<and> je_execution_id y = je_execution_id x \<and>
    job_point (J_Publish kind J_Release) (stored_as y ex) ls active c y b (view_step i v)"
  using assms by (auto simp: job_point_def view_step_def complete_step_def finish_execution_def terminal_statuses_def go_def
      with_execution_view save_state_def Let_def)

lemma point_release:
  "job_point J_Release ex ls active c x True v \<Longrightarrow> lock_key_of c = Some k
   \<Longrightarrow> job_point J_Discard ex (fst (lease_release k (je_execution_id x) ls)) active c x False (view_step i v)"
  by (simp add: job_point_def view_step_def release_lease_def go_def Let_def)

lemma point_discard:
  "job_point J_Discard ex ls active c x b v \<Longrightarrow> job_point J_Done ex ls (active - {scope_of c}) c x b (view_step i v)"
  by (simp add: job_point_def view_step_def discard_scope_def go_def Let_def)

lemma release_frees: "\<not> held_by k own (fst (lease_release k own ls))"
proof
  assume "held_by k own (fst (lease_release k own ls))"
  then obtain l where "l \<in> set (fst (lease_release k own ls))" "jl_lock_key l = k" "jl_owner_id l = own"
    unfolding held_by_def lease_of_def by (auto dest: find_Some_in)
  then show False by (auto simp: lease_release_def Let_def)
qed

text \<open>Whatever its handler does, a locked job that runs is settled five steps later: its file says completed or
  failed, its lease is given back and its scope is free again.\<close>

lemma started_job_settles:
  assumes v: "job_point J_Run ex ls active c x True v" "je_status x = Job_Running" "lock_key_of c = Some k"
  shows "\<exists>y ex' ls'. je_status y \<in> {Job_Completed, Job_Failed} \<and> map_of ex' (execution_file (je_execution_id x)) = Some (execution_json y)
    \<and> \<not> held_by k (je_execution_id x) ls' \<and> job_point J_Done ex' ls' (active - {scope_of c}) c y False ((view_step i ^^ 5) v)"
proof -
  obtain status err where s: "status \<in> {Job_Completed, Job_Failed}"
      "job_point (J_Complete status err) ex ls active c x True (view_step i v)" using point_run [OF v(1)] by blast
  obtain kind y where y: "je_status y = status" "je_execution_id y = je_execution_id x"
      "job_point (J_Publish kind J_Release) (stored_as y ex) ls active c y True (view_step i (view_step i v))"
    using point_complete [OF s(2) v(2) s(1)] by blast
  have "job_point J_Done (stored_as y ex) (fst (lease_release k (je_execution_id y) ls)) (active - {scope_of c}) c y False
      ((view_step i ^^ 5) v)"
    using point_discard [OF point_release [OF point_publish [OF y(3)] v(3)]] by (simp add: eval_nat_numeral)
  moreover have "map_of (stored_as y ex) (execution_file (je_execution_id x)) = Some (execution_json y)"
    using y(2) by (simp add: stored_as_def)
  ultimately show ?thesis using s(1) y(1,2) release_frees by metis
qed

section \<open>Stopping\<close>

text \<open>An engine that stops while its reports fail, and whose last report gets through, writes that it is idle.\<close>

lemma stopped_engine_reports_idle:
  "let sys = service_stop ''2'' 2 True (service_start ''1'' 1 False (new_service ''engine'' ''a'' ''1.0'' False 0, empty_runtime_store))
   in en_status (sv_state (fst sys)) = Eng_Idle \<and> map_option en_status (rf_engine (snd sys)) = Some Eng_Idle
      \<and> \<not> sv_accepting (fst sys)"
  by code_simp

text \<open>An engine that stops with its reports in order stays stopped until a job of it completes.\<close>

lemma stop_is_written:
  assumes "\<not> en_reporting_degraded (sv_state (fst sys))"
  shows "map_option en_status (rf_engine (snd (service_stop uuid now delivered sys))) = Some Eng_Stopped"
  using assms by (cases sys) (simp add: service_stop_def publish_event_def after_delivery_def with_engine_status_def
      save_state_def Let_def)

end
