(* ===== verification/ReviewStats.thy ===== *)
theory ReviewStats
  imports ObservationReport
begin

text \<open>
  The evidence of a strategy review (\<^verbatim>\<open>research/strategy_review.py\<close>): the rows a review reads, its
  thresholds, the helper statistics, and the analysis of every horizon.  A dictionary of the report is a
  record with a field for every key; a key that repeats the value of another one is left out.

  A \<^verbatim>\<open>defaultdict(list)\<close> is an association list in the order of insertion.  \<open>sqrt_of\<close> is \<^verbatim>\<open>math.sqrt\<close>, an
  argument of the definitions that use it.
\<close>

section \<open>Thresholds\<close>

record review_thresholds =
  th_minimum_calendar_days :: int
  th_minimum_mature_1h_cohorts :: int
  th_minimum_mature_4h_cohorts :: int
  th_minimum_decision_coverage :: pyfloat
  th_maximum_outcome_missing_rate :: pyfloat
  th_minimum_selected_gross_return :: pyfloat
  th_minimum_selected_spread :: pyfloat
  th_minimum_score_ic :: pyfloat
  th_minimum_paper_net_return :: pyfloat
  th_minimum_profit_factor :: pyfloat
  th_maximum_drawdown :: pyfloat
  th_maximum_selection_concentration :: pyfloat
  th_minimum_derivatives_context_coverage :: pyfloat
  th_minimum_derivatives_available_rate :: pyfloat
  th_required_derivatives_feature_version :: string
  th_required_derivatives_basis_input_source :: "string option"
  th_minimum_derivatives_basis_input_source_match_rate :: pyfloat
  th_selection_control_variant_id :: "string option"
  th_minimum_selection_control_variant_coverage :: pyfloat
  th_minimum_selection_control_paired_4h_cohorts :: int
  th_minimum_selection_control_changed_cohorts :: int
  th_minimum_selection_control_outcome_coverage :: pyfloat
  th_maximum_selection_control_outcome_coverage_gap :: pyfloat
  th_minimum_selection_control_actual_minus_control :: pyfloat
  th_economic_round_trip_cost :: pyfloat
  th_decision_interval_minutes :: int
  th_outcome_settlement_grace_minutes :: int

definition default_thresholds :: review_thresholds where
  "default_thresholds =
     \<lparr>th_minimum_calendar_days = 3, th_minimum_mature_1h_cohorts = 192, th_minimum_mature_4h_cohorts = 96,
      th_minimum_decision_coverage = flt (98 / 100), th_maximum_outcome_missing_rate = flt (1 / 100),
      th_minimum_selected_gross_return = flt (25 / 10000), th_minimum_selected_spread = flt (2 / 1000),
      th_minimum_score_ic = flt (3 / 100), th_minimum_paper_net_return = 0, th_minimum_profit_factor = flt (12 / 10),
      th_maximum_drawdown = flt (2 / 100), th_maximum_selection_concentration = flt (25 / 100),
      th_minimum_derivatives_context_coverage = flt (98 / 100), th_minimum_derivatives_available_rate = flt (90 / 100),
      th_required_derivatives_feature_version = ''btc-squeeze-v2-market-streams'',
      th_required_derivatives_basis_input_source = None, th_minimum_derivatives_basis_input_source_match_rate = 1,
      th_selection_control_variant_id = None, th_minimum_selection_control_variant_coverage = 1,
      th_minimum_selection_control_paired_4h_cohorts = 96, th_minimum_selection_control_changed_cohorts = 30,
      th_minimum_selection_control_outcome_coverage = flt (90 / 100),
      th_maximum_selection_control_outcome_coverage_gap = flt (5 / 100),
      th_minimum_selection_control_actual_minus_control = 0, th_economic_round_trip_cost = flt (2 / 1000),
      th_decision_interval_minutes = 15, th_outcome_settlement_grace_minutes = 30\<rparr>"

definition unit_interval :: "pyfloat \<Rightarrow> bool" where
  "unit_interval x = (0 \<le> x \<and> x \<le> 1)"

definition check_thresholds :: "review_thresholds \<Rightarrow> review_thresholds result" where
  "check_thresholds th =
     (if list_ex (\<lambda>n. n \<le> 0) [th_minimum_calendar_days th, th_minimum_mature_1h_cohorts th,
           th_minimum_mature_4h_cohorts th, th_minimum_selection_control_paired_4h_cohorts th,
           th_minimum_selection_control_changed_cohorts th, th_decision_interval_minutes th]
      then Inl (ValueError ''minimum counts and decision interval must be positive'')
      else if th_outcome_settlement_grace_minutes th < 0
      then Inl (ValueError ''outcome settlement grace cannot be negative'')
      else if list_ex (\<lambda>x. \<not> unit_interval x) [th_minimum_decision_coverage th, th_maximum_outcome_missing_rate th,
           th_maximum_drawdown th, th_maximum_selection_concentration th, th_minimum_derivatives_context_coverage th,
           th_minimum_derivatives_available_rate th, th_minimum_derivatives_basis_input_source_match_rate th,
           th_minimum_selection_control_variant_coverage th, th_minimum_selection_control_outcome_coverage th,
           th_maximum_selection_control_outcome_coverage_gap th]
      then Inl (ValueError ''coverage, missing rate, drawdown, and concentration use [0, 1]'')
      else if th_minimum_profit_factor th < 0 then Inl (ValueError ''minimum profit factor cannot be negative'')
      else if \<not> unit_interval (th_economic_round_trip_cost th)
      then Inl (ValueError ''economic round-trip cost must use [0, 1]'')
      else if py_strip (th_required_derivatives_feature_version th) = []
      then Inl (ValueError ''required derivatives feature version cannot be blank'')
      else if (case th_required_derivatives_basis_input_source th of
                 None \<Rightarrow> False | Some s \<Rightarrow> py_strip s \<notin> {''OFFICIAL'', ''MARK_INDEX_PROXY''})
      then Inl (ValueError ''required derivatives basis input source is unsupported'')
      else if (case th_selection_control_variant_id th of None \<Rightarrow> False | Some s \<Rightarrow> py_strip s = [])
      then Inl (ValueError ''selection control variant ID cannot be blank'')
      else Inr th)"

text \<open>
  \<^verbatim>\<open>thresholds_for_strategy_version\<close> (\<^verbatim>\<open>research/strategy_review_policy.py\<close>): each published version is
  judged against its own rule control.
\<close>

definition with_proxy_inputs :: "string \<Rightarrow> review_thresholds \<Rightarrow> review_thresholds" where
  "with_proxy_inputs feature th =
     th\<lparr>th_required_derivatives_feature_version := feature, th_minimum_derivatives_context_coverage := flt (95 / 100),
        th_minimum_derivatives_available_rate := flt (95 / 100),
        th_required_derivatives_basis_input_source := Some ''MARK_INDEX_PROXY'',
        th_minimum_derivatives_basis_input_source_match_rate := 1\<rparr>"

definition with_rule_control :: "string \<Rightarrow> review_thresholds \<Rightarrow> review_thresholds" where
  "with_rule_control variant th =
     th\<lparr>th_selection_control_variant_id := Some variant, th_minimum_selection_control_variant_coverage := 1,
        th_minimum_selection_control_paired_4h_cohorts := 96, th_minimum_selection_control_changed_cohorts := 30,
        th_minimum_selection_control_outcome_coverage := flt (90 / 100),
        th_maximum_selection_control_outcome_coverage_gap := flt (5 / 100),
        th_minimum_selection_control_actual_minus_control := 0\<rparr>"

definition thresholds_for_strategy_version ::
    "string \<Rightarrow> string \<Rightarrow> review_thresholds option \<Rightarrow> review_thresholds result" where
  "thresholds_for_strategy_version version feature base =
     (let th = (case base of None \<Rightarrow> default_thresholds | Some b \<Rightarrow> b)
      in check_thresholds
           (if version = ''dynamic-intraday-v2.5'' then with_rule_control ''v2.4-rule-control'' (with_proxy_inputs feature th)
            else if version = ''dynamic-intraday-v2.6'' then with_rule_control ''v2.5-rule-control'' (with_proxy_inputs feature th)
            else if version = ''dynamic-intraday-v2.7'' then with_rule_control ''v2.6-rule-control'' (with_proxy_inputs feature th)
            else if version = ''dynamic-intraday-v2.7-accuracy-v1'' then with_proxy_inputs feature th
            else th\<lparr>th_required_derivatives_feature_version := feature\<rparr>))"

section \<open>Rows\<close>

record review_snapshot =
  vs_snapshot_id :: string
  vs_decision_id :: string
  vs_decision_time :: utc
  vs_asset :: string
  vs_score :: "pyfloat option"
  vs_selected :: bool
  vs_candidate_reasons :: "string list"
  vs_candidate_reasons_recorded :: bool

record review_outcome =
  vo_snapshot_id :: string
  vo_horizon_minutes :: int
  vo_evaluated_at :: utc
  vo_status :: outcome_status
  vo_forward_return :: "pyfloat option"
  vo_mfe :: "pyfloat option"
  vo_mae :: "pyfloat option"

record review_variant =
  vv_snapshot_id :: string
  vv_variant_id :: string
  vv_selected :: bool

record paper_decision =
  vp_decision_id :: string
  vp_as_of :: utc
  vp_equity :: pyfloat
  vp_status :: string
  vp_created_at :: utc

record review_execution =
  vx_pair :: string
  vx_side :: order_side
  vx_quantity :: pyfloat
  vx_price :: pyfloat
  vx_fee :: pyfloat
  vx_realized_pnl :: pyfloat
  vx_executed_at :: utc

record review_cutoff =
  vc_decision_id :: string
  vc_decision_time :: utc
  vc_completed_at :: utc

record review_context =
  vm_decision_id :: string
  vm_decision_time :: utc
  vm_payload :: "(string \<times> json) list"

section \<open>Helper statistics\<close>

definition rate :: "nat \<Rightarrow> nat \<Rightarrow> pyfloat option" where
  "rate n d = (if d = 0 then None else Some (fquot (of_nat n) (of_nat d)))"

definition missing_rate :: "nat \<Rightarrow> nat \<Rightarrow> pyfloat option" where
  "missing_rate mature completed = rate (mature - completed) mature"

definition median_of :: "pyfloat list \<Rightarrow> pyfloat" where
  "median_of xs =
     (let s = sort xs; n = length s
      in if odd n then s ! (n div 2) else fquot (fadd (s ! (n div 2 - 1)) (s ! (n div 2))) 2)"

definition median_or_none :: "pyfloat list \<Rightarrow> pyfloat option" where
  "median_or_none xs = (if xs = [] then None else Some (median_of xs))"

definition percentile_or_none :: "pyfloat list \<Rightarrow> pyfloat \<Rightarrow> pyfloat option" where
  "percentile_or_none xs quantile =
     (let s = sort xs
      in case s of
           [] \<Rightarrow> None
         | [x] \<Rightarrow> Some x
         | _ \<Rightarrow>
             (let position = fmul quantile (of_nat (length s - 1)); lower = \<lfloor>position\<rfloor>; upper = \<lceil>position\<rceil>
              in if lower = upper then Some (s ! nat lower)
                 else Some (fadd (s ! nat lower)
                        (fmul (fsub (s ! nat upper) (s ! nat lower)) (fsub position (of_int lower))))))"

text \<open>\<^verbatim>\<open>_average_ranks\<close>: the runs of equal values share the mean of their ranks.\<close>

fun rank_runs :: "nat \<Rightarrow> (nat \<times> pyfloat) list \<Rightarrow> (nat \<times> pyfloat) list" where
  "rank_runs start [] = []"
| "rank_runs start ((i, v) # rest) =
     (let same = takeWhile (\<lambda>(j, w). w = v) rest; finish = start + 1 + length same
      in map (\<lambda>(j, w). (j, fquot (of_nat (start + 1 + finish)) 2)) ((i, v) # same)
         @ rank_runs finish (drop (length same) rest))"

definition average_ranks :: "pyfloat list \<Rightarrow> pyfloat list" where
  "average_ranks xs =
     (let ranks = rank_runs 0 (sort_key snd (enumerate 0 xs))
      in map (\<lambda>i. case map_of ranks i of None \<Rightarrow> 0 | Some r \<Rightarrow> r) [0..<length xs])"

definition pearson :: "(pyfloat \<Rightarrow> pyfloat) \<Rightarrow> pyfloat list \<Rightarrow> pyfloat list \<Rightarrow> pyfloat option" where
  "pearson sqrt_of xs ys =
     (let mx = fmean xs; my = fmean ys; cx = map (\<lambda>x. fsub x mx) xs; cy = map (\<lambda>y. fsub y my) ys;
          denominator = sqrt_of (fmul (float_sum (map (\<lambda>x. fmul x x) cx)) (float_sum (map (\<lambda>y. fmul y y) cy)))
      in if denominator = 0 then None
         else Some (fquot (float_sum (map (\<lambda>(x, y). fmul x y) (zip cx cy))) denominator))"

definition spearman :: "(pyfloat \<Rightarrow> pyfloat) \<Rightarrow> pyfloat list \<Rightarrow> pyfloat list \<Rightarrow> pyfloat option" where
  "spearman sqrt_of xs ys =
     (if length xs \<noteq> length ys \<or> length xs < 2 then None else pearson sqrt_of (average_ranks xs) (average_ranks ys))"

text \<open>\<^verbatim>\<open>_maximum_drawdown\<close>: the peak is of the values that are not negative.\<close>

fun loss_from :: "pyfloat option \<Rightarrow> pyfloat \<Rightarrow> pyfloat list \<Rightarrow> pyfloat" where
  "loss_from peak maximum [] = maximum"
| "loss_from peak maximum (v # vs) =
     (if v < 0 then loss_from peak maximum vs
      else let p = (case peak of None \<Rightarrow> v | Some p \<Rightarrow> max p v)
           in loss_from (Some p) (if 0 < p then max maximum (fsub 1 (fquot v p)) else maximum) vs)"

definition maximum_loss :: "pyfloat list \<Rightarrow> pyfloat" where
  "maximum_loss equity = loss_from None 0 equity"

definition halves :: "'a list \<Rightarrow> 'a list \<times> 'a list" where
  "halves vs = (take (length vs div 2) vs, drop (length vs div 2) vs)"

definition finite_max :: "pyfloat option list \<Rightarrow> pyfloat option" where
  "finite_max xs =
     (case List.map_filter (\<lambda>x. x) xs of [] \<Rightarrow> None | v # vs \<Rightarrow> Some (max_of v vs))"

text \<open>The rows of a dictionary of lists, in the order in which its keys were first seen.\<close>

definition cohorts_of :: "('k \<times> 'v) list \<Rightarrow> ('k \<times> 'v list) list" where
  "cohorts_of rows = fold (\<lambda>(k, v). group_add k v) rows []"

definition text_set :: "string list \<Rightarrow> string list" where
  "text_set xs = sorted_list_of_set (set xs)"

section \<open>Outcomes of snapshots\<close>

definition outcome_at :: "review_outcome list \<Rightarrow> int \<Rightarrow> string \<Rightarrow> review_outcome option" where
  "outcome_at outs h i = find (\<lambda>v. vo_snapshot_id v = i \<and> vo_horizon_minutes v = h) (rev outs)"

text \<open>The return of an outcome that is complete.\<close>

definition complete_return :: "review_outcome \<Rightarrow> pyfloat option" where
  "complete_return v = (if vo_status v = Outcome_Completed then vo_forward_return v else None)"

definition is_complete :: "review_outcome option \<Rightarrow> bool" where
  "is_complete v = (case v of None \<Rightarrow> False | Some v \<Rightarrow> complete_return v \<noteq> None)"

definition completed_return :: "review_outcome list \<Rightarrow> int \<Rightarrow> review_snapshot \<Rightarrow> pyfloat option" where
  "completed_return outs h s = Option.bind (outcome_at outs h (vs_snapshot_id s)) complete_return"

definition completed_forward_returns :: "review_outcome list \<Rightarrow> int \<Rightarrow> review_snapshot list \<Rightarrow> pyfloat list" where
  "completed_forward_returns outs h ss = List.map_filter (completed_return outs h) ss"

definition completed_values ::
    "review_outcome list \<Rightarrow> int \<Rightarrow> review_snapshot list \<Rightarrow> (review_snapshot \<times> pyfloat) list" where
  "completed_values outs h ss = List.map_filter (\<lambda>s. map_option (Pair s) (completed_return outs h s)) ss"

text \<open>\<^verbatim>\<open>_mature_snapshots\<close>: a snapshot is mature when its horizon and the settlement grace are over.\<close>

definition mature_snapshots ::
    "review_thresholds \<Rightarrow> utc option \<Rightarrow> int \<Rightarrow> review_snapshot list \<Rightarrow> review_snapshot list" where
  "mature_snapshots th cutoff h ss =
     (case cutoff of
        None \<Rightarrow> []
      | Some t \<Rightarrow>
          filter (\<lambda>s. vs_decision_time s + minutes (h + th_outcome_settlement_grace_minutes th) \<le> t) ss)"

record group_summary =
  gs_mature :: nat
  gs_completed :: nat
  gs_missing :: nat
  gs_missing_rate :: "pyfloat option"
  gs_mean_forward_return :: "pyfloat option"
  gs_negative_observations :: nat
  gs_negative_observation_rate :: "pyfloat option"
  gs_mean_negative_forward_return :: "pyfloat option"

definition outcome_group_summary :: "review_outcome list \<Rightarrow> int \<Rightarrow> review_snapshot list \<Rightarrow> group_summary" where
  "outcome_group_summary outs h ss =
     (let completed = completed_forward_returns outs h ss; negative = filter (\<lambda>v. v < 0) completed
      in \<lparr>gs_mature = length ss, gs_completed = length completed, gs_missing = length ss - length completed,
          gs_missing_rate = missing_rate (length ss) (length completed), gs_mean_forward_return = mean_or_none completed,
          gs_negative_observations = length negative,
          gs_negative_observation_rate = rate (length negative) (length completed),
          gs_mean_negative_forward_return = mean_or_none negative\<rparr>)"

record arm_summary =
  am_mature_selected :: nat
  am_completed_selected :: nat
  am_missing_selected :: nat
  am_missing_rate :: "pyfloat option"
  am_mature_decisions :: nat
  am_completed_decisions :: nat
  am_missing_decisions :: nat
  am_mean_forward_return :: "pyfloat option"
  am_pooled_mean_forward_return :: "pyfloat option"
  am_negative_decisions :: nat
  am_negative_decision_rate :: "pyfloat option"
  am_mean_negative_decision_return :: "pyfloat option"
  am_negative_observations :: nat
  am_negative_observation_rate :: "pyfloat option"

text \<open>\<^verbatim>\<open>_selection_control_outcome_summary\<close>: every decision counts once, however many assets it selects.\<close>

definition arm_summary_of :: "review_outcome list \<Rightarrow> int \<Rightarrow> review_snapshot list \<Rightarrow> arm_summary" where
  "arm_summary_of outs h ss =
     (let completed = completed_values outs h ss; pooled = map snd completed;
          means = map (\<lambda>(k, vs). fmean vs) (grouped (map (\<lambda>(s, v). (vs_decision_id s, v)) completed));
          decisions = length (remdups (map vs_decision_id ss));
          negative_means = filter (\<lambda>v. v < 0) means; negative = filter (\<lambda>v. v < 0) pooled
      in \<lparr>am_mature_selected = length ss, am_completed_selected = length pooled,
          am_missing_selected = length ss - length pooled, am_missing_rate = missing_rate (length ss) (length pooled),
          am_mature_decisions = decisions, am_completed_decisions = length means,
          am_missing_decisions = decisions - length means, am_mean_forward_return = mean_or_none means,
          am_pooled_mean_forward_return = mean_or_none pooled, am_negative_decisions = length negative_means,
          am_negative_decision_rate = rate (length negative_means) (length means),
          am_mean_negative_decision_return = mean_or_none negative_means,
          am_negative_observations = length negative,
          am_negative_observation_rate = rate (length negative) (length pooled)\<rparr>)"

end
