(* ===== verification/ReviewAnalysis.thy ===== *)
theory ReviewAnalysis
  imports ReviewStats
begin

text \<open>
  The analyses of a strategy review (\<^verbatim>\<open>research/strategy_review.py\<close>): the quality, signal and stability of
  a horizon, the economic and incremental alpha of the selections, the same-input rule control, the quality of
  the derivatives context, and the paper performance.
\<close>

section \<open>A horizon\<close>

record horizon_quality =
  hq_mature_cohorts :: nat
  hq_mature_scored :: nat
  hq_completed_scored :: nat
  hq_scored_missing_rate :: "pyfloat option"
  hq_mature_selected :: nat
  hq_completed_selected :: nat
  hq_selected_missing_rate :: "pyfloat option"

record loss_validation =
  lv_selected_mean :: "pyfloat option"
  lv_nonselected_mean :: "pyfloat option"
  lv_paired_spread :: "pyfloat option"
  lv_selected_negative :: nat
  lv_selected_negative_rate :: "pyfloat option"
  lv_nonselected_negative :: nat
  lv_nonselected_negative_rate :: "pyfloat option"
  lv_selected_mean_negative :: "pyfloat option"
  lv_nonselected_mean_negative :: "pyfloat option"
  lv_selected_negative_cohorts :: nat
  lv_selected_negative_cohort_rate :: "pyfloat option"
  lv_nonselected_negative_cohorts :: nat
  lv_nonselected_negative_cohort_rate :: "pyfloat option"
  lv_paired_cohorts :: nat
  lv_underperformed :: nat
  lv_underperformance_rate :: "pyfloat option"
  lv_negative_and_underperformed :: nat
  lv_negative_and_underperformed_rate :: "pyfloat option"
  lv_mfe_available :: nat
  lv_mfe_rate :: "pyfloat option"
  lv_mean_mfe :: "pyfloat option"
  lv_median_mfe :: "pyfloat option"
  lv_mae_available :: nat
  lv_mae_rate :: "pyfloat option"
  lv_mean_mae :: "pyfloat option"
  lv_median_mae :: "pyfloat option"

definition negatives :: "pyfloat list \<Rightarrow> pyfloat list" where
  "negatives xs = filter (\<lambda>v. v < 0) xs"

definition selection_loss_validation ::
    "pyfloat list \<Rightarrow> pyfloat list \<Rightarrow> pyfloat list \<Rightarrow> pyfloat list \<Rightarrow> (pyfloat \<times> pyfloat) list \<Rightarrow> review_outcome list
     \<Rightarrow> loss_validation" where
  "selection_loss_validation selected nonselected selected_means nonselected_means paired outs =
     (let under = filter (\<lambda>(s, n). s < n) paired; lost = filter (\<lambda>(s, n). s < 0 \<and> s < n) paired;
          mfe = List.map_filter vo_mfe outs; mae = List.map_filter vo_mae outs
      in \<lparr>lv_selected_mean = mean_or_none selected_means, lv_nonselected_mean = mean_or_none nonselected_means,
          lv_paired_spread = mean_or_none (map (\<lambda>(s, n). fsub s n) paired),
          lv_selected_negative = length (negatives selected),
          lv_selected_negative_rate = rate (length (negatives selected)) (length selected),
          lv_nonselected_negative = length (negatives nonselected),
          lv_nonselected_negative_rate = rate (length (negatives nonselected)) (length nonselected),
          lv_selected_mean_negative = mean_or_none (negatives selected),
          lv_nonselected_mean_negative = mean_or_none (negatives nonselected),
          lv_selected_negative_cohorts = length (negatives selected_means),
          lv_selected_negative_cohort_rate = rate (length (negatives selected_means)) (length selected_means),
          lv_nonselected_negative_cohorts = length (negatives nonselected_means),
          lv_nonselected_negative_cohort_rate = rate (length (negatives nonselected_means)) (length nonselected_means),
          lv_paired_cohorts = length paired, lv_underperformed = length under,
          lv_underperformance_rate = rate (length under) (length paired),
          lv_negative_and_underperformed = length lost,
          lv_negative_and_underperformed_rate = rate (length lost) (length paired),
          lv_mfe_available = length mfe, lv_mfe_rate = rate (length mfe) (length outs),
          lv_mean_mfe = mean_or_none mfe, lv_median_mfe = median_or_none mfe,
          lv_mae_available = length mae, lv_mae_rate = rate (length mae) (length outs),
          lv_mean_mae = mean_or_none mae, lv_median_mae = median_or_none mae\<rparr>)"

record guard_counterfactual =
  gc_reasons_recorded :: bool
  gc_selected :: group_summary
  gc_guard :: group_summary
  gc_guard_only :: group_summary

definition guard_reason :: string where
  "guard_reason = ''NEW_ENTRY_BLOCKED_BY_4H_FALLING_KNIFE_GUARD''"

definition four_hour_guard_counterfactual :: "review_snapshot list \<Rightarrow> review_outcome list \<Rightarrow> guard_counterfactual" where
  "four_hour_guard_counterfactual scored outs =
     (let guarded = filter (\<lambda>s. guard_reason \<in> set (vs_candidate_reasons s)) scored
      in \<lparr>gc_reasons_recorded = list_ex vs_candidate_reasons_recorded scored,
          gc_selected = outcome_group_summary outs 240 (filter vs_selected scored),
          gc_guard = outcome_group_summary outs 240 guarded,
          gc_guard_only = outcome_group_summary outs 240
            (filter (\<lambda>s. list_all (\<lambda>r. r = guard_reason) (vs_candidate_reasons s)) guarded)\<rparr>)"

record horizon_signal =
  hs_selected_observations :: nat
  hs_nonselected_observations :: nat
  hs_analyzable_cohorts :: nat
  hs_selected_mean :: "pyfloat option"
  hs_nonselected_mean :: "pyfloat option"
  hs_pooled_selected_mean :: "pyfloat option"
  hs_pooled_nonselected_mean :: "pyfloat option"
  hs_raw_spread :: "pyfloat option"
  hs_paired_spread :: "pyfloat option"
  hs_score_ic :: "pyfloat option"
  hs_score_ic_cohorts :: nat
  hs_loss_validation :: loss_validation
  hs_guard :: "guard_counterfactual option"

record stability =
  sb_first_cohorts :: nat
  sb_second_cohorts :: nat
  sb_first_spread :: "pyfloat option"
  sb_second_spread :: "pyfloat option"
  sb_both_positive :: "bool option"

text \<open>The values of a cohort that are selected, or not.\<close>

definition arm_values :: "bool \<Rightarrow> (review_snapshot \<times> pyfloat) list \<Rightarrow> pyfloat list" where
  "arm_values selected vs = map snd (filter (\<lambda>(s, v). vs_selected s = selected) vs)"

text \<open>The means of both arms of a cohort that has both.\<close>

definition paired_means :: "(review_snapshot \<times> pyfloat) list \<Rightarrow> (pyfloat \<times> pyfloat) option" where
  "paired_means vs =
     (if arm_values True vs = [] \<or> arm_values False vs = [] then None
      else Some (fmean (arm_values True vs), fmean (arm_values False vs)))"

definition arm_means :: "bool \<Rightarrow> (review_snapshot \<times> pyfloat) list list \<Rightarrow> pyfloat list" where
  "arm_means selected cohorts = List.map_filter (\<lambda>vs. mean_or_none (arm_values selected vs)) cohorts"

definition cohort_ic :: "(pyfloat \<Rightarrow> pyfloat) \<Rightarrow> (review_snapshot \<times> pyfloat) list \<Rightarrow> pyfloat option" where
  "cohort_ic sqrt_of vs =
     (let scored = List.map_filter (\<lambda>(s, v). map_option (\<lambda>x. (x, v)) (vs_score s)) vs
      in if length scored < 3 then None else spearman sqrt_of (map fst scored) (map snd scored))"

text \<open>The cohorts in the order of their sorted identifiers.\<close>

definition value_cohorts :: "(review_snapshot \<times> pyfloat) list \<Rightarrow> (review_snapshot \<times> pyfloat) list list" where
  "value_cohorts completed = map snd (grouped (map (\<lambda>(s, v). (vs_decision_id s, (s, v))) completed))"

text \<open>
  \<^verbatim>\<open>_temporal_stability\<close>: the cohorts that have both arms in the order of their time and identifier, split in
  two halves.
\<close>

definition temporal_stability :: "(review_snapshot \<times> pyfloat) list \<Rightarrow> stability" where
  "temporal_stability completed =
     (let timed = sort_key fst (List.map_filter (\<lambda>vs. map_option (\<lambda>(s, n). (vs_decision_time (fst (last vs)), fsub s n))
            (paired_means vs)) (value_cohorts completed));
          (first, second) = halves (map snd timed);
          m1 = mean_or_none first; m2 = mean_or_none second
      in \<lparr>sb_first_cohorts = length first, sb_second_cohorts = length second, sb_first_spread = m1, sb_second_spread = m2,
          sb_both_positive = (case (m1, m2) of (Some a, Some b) \<Rightarrow> Some (0 < a \<and> 0 < b) | _ \<Rightarrow> None)\<rparr>)"

definition horizon_quality_of ::
    "review_thresholds \<Rightarrow> int \<Rightarrow> utc option \<Rightarrow> review_snapshot list \<Rightarrow> review_outcome list \<Rightarrow> horizon_quality" where
  "horizon_quality_of th h cutoff ss outs =
     (let mature = mature_snapshots th cutoff h ss; scored = filter (\<lambda>s. vs_score s \<noteq> None) mature;
          selected = filter vs_selected mature;
          finished = (\<lambda>s. is_complete (outcome_at outs h (vs_snapshot_id s)))
      in \<lparr>hq_mature_cohorts = length (remdups (map vs_decision_id scored)), hq_mature_scored = length scored,
          hq_completed_scored = length (filter finished scored),
          hq_scored_missing_rate = missing_rate (length scored) (length (filter finished scored)),
          hq_mature_selected = length selected, hq_completed_selected = length (filter finished selected),
          hq_selected_missing_rate = missing_rate (length selected) (length (filter finished selected))\<rparr>)"

definition mature_scored ::
    "review_thresholds \<Rightarrow> int \<Rightarrow> utc option \<Rightarrow> review_snapshot list \<Rightarrow> review_snapshot list" where
  "mature_scored th h cutoff ss = filter (\<lambda>s. vs_score s \<noteq> None) (mature_snapshots th cutoff h ss)"

definition horizon_signal_of ::
    "(pyfloat \<Rightarrow> pyfloat) \<Rightarrow> int \<Rightarrow> review_snapshot list \<Rightarrow> review_outcome list \<Rightarrow> horizon_signal" where
  "horizon_signal_of sqrt_of h scored outs =
     (let completed = completed_values outs h scored; cohorts = value_cohorts completed;
          selected = concat (map (arm_values True) cohorts); nonselected = concat (map (arm_values False) cohorts);
          selected_means = arm_means True cohorts; nonselected_means = arm_means False cohorts;
          paired = List.map_filter paired_means cohorts;
          ics = List.map_filter (cohort_ic sqrt_of) cohorts;
          ms = mean_or_none selected_means; mn = mean_or_none nonselected_means
      in \<lparr>hs_selected_observations = length selected, hs_nonselected_observations = length nonselected,
          hs_analyzable_cohorts = length paired, hs_selected_mean = ms, hs_nonselected_mean = mn,
          hs_pooled_selected_mean = mean_or_none selected, hs_pooled_nonselected_mean = mean_or_none nonselected,
          hs_raw_spread = (case (ms, mn) of (Some a, Some b) \<Rightarrow> Some (fsub a b) | _ \<Rightarrow> None),
          hs_paired_spread = mean_or_none (map (\<lambda>(s, n). fsub s n) paired),
          hs_score_ic = mean_or_none ics, hs_score_ic_cohorts = length ics,
          hs_loss_validation = selection_loss_validation selected nonselected selected_means nonselected_means paired
            (List.map_filter (\<lambda>(s, v). if vs_selected s then outcome_at outs h (vs_snapshot_id s) else None) completed),
          hs_guard = (if h = 240 then Some (four_hour_guard_counterfactual scored outs) else None)\<rparr>)"

definition horizon_stability_of :: "int \<Rightarrow> review_snapshot list \<Rightarrow> review_outcome list \<Rightarrow> stability" where
  "horizon_stability_of h scored outs = temporal_stability (completed_values outs h scored)"

section \<open>Economic alpha\<close>

record economic_horizon =
  eh_mature_cohorts :: nat
  eh_selected_cohorts :: nat
  eh_mean_gross :: "pyfloat option"
  eh_median_gross :: "pyfloat option"
  eh_p05_gross :: "pyfloat option"
  eh_mean_net :: "pyfloat option"
  eh_gross_positive_rate :: "pyfloat option"
  eh_net_positive_rate :: "pyfloat option"
  eh_nonselected_mean :: "pyfloat option"
  eh_paired_spread :: "pyfloat option"
  eh_mean_mfe :: "pyfloat option"
  eh_median_mfe :: "pyfloat option"
  eh_mean_mae :: "pyfloat option"
  eh_median_mae :: "pyfloat option"
  eh_deciles :: "(int \<times> nat \<times> pyfloat option) list"

definition p05 :: pyfloat where "p05 = flt (5 / 100)"

definition decision_cohorts :: "review_snapshot list \<Rightarrow> (string \<times> review_snapshot list) list" where
  "decision_cohorts ss = cohorts_of (map (\<lambda>s. (vs_decision_id s, s)) ss)"

definition net_of :: "pyfloat \<Rightarrow> pyfloat option \<Rightarrow> pyfloat option" where
  "net_of cost gross = map_option (\<lambda>g. fsub g cost) gross"

text \<open>The scored values of a cohort, each with the tenth of the ranking it falls into.\<close>

definition decile_rows :: "(review_snapshot \<times> pyfloat) list \<Rightarrow> (int \<times> pyfloat) list" where
  "decile_rows completed =
     (let scored = List.map_filter (\<lambda>(s, v). map_option (\<lambda>x. ((x, vs_snapshot_id s), v)) (vs_score s)) completed;
          ranked = sort_key (\<lambda>r. fst (fst r)) (sort_key (\<lambda>r. snd (fst r)) scored); n = int (length ranked)
      in map (\<lambda>(index, (_, v)). (min 10 (int index * 10 div max 1 n + 1), v)) (enumerate 0 ranked))"

definition economic_horizon_of ::
    "review_thresholds \<Rightarrow> utc option \<Rightarrow> review_snapshot list \<Rightarrow> review_outcome list \<Rightarrow> int \<Rightarrow> economic_horizon" where
  "economic_horizon_of th cutoff ss outs h =
     (let cost = th_economic_round_trip_cost th; cohorts = decision_cohorts (mature_snapshots th cutoff h ss);
          completed = map (\<lambda>(d, rows). completed_values outs h rows) cohorts;
          selected = arm_means True completed;
          chosen = List.map_filter (\<lambda>(s, v). if vs_selected s then outcome_at outs h (vs_snapshot_id s) else None)
                     (concat completed);
          mfe = List.map_filter vo_mfe chosen; mae = List.map_filter vo_mae chosen
      in \<lparr>eh_mature_cohorts = length cohorts, eh_selected_cohorts = length selected,
          eh_mean_gross = mean_or_none selected, eh_median_gross = median_or_none selected,
          eh_p05_gross = percentile_or_none selected p05, eh_mean_net = net_of cost (mean_or_none selected),
          eh_gross_positive_rate = rate (length (filter (\<lambda>v. 0 < v) selected)) (length selected),
          eh_net_positive_rate = rate (length (filter (\<lambda>v. cost < v) selected)) (length selected),
          eh_nonselected_mean = mean_or_none (arm_means False completed),
          eh_paired_spread = mean_or_none (map (\<lambda>(s, n). fsub s n) (List.map_filter paired_means completed)),
          eh_mean_mfe = mean_or_none mfe, eh_median_mfe = median_or_none mfe,
          eh_mean_mae = mean_or_none mae, eh_median_mae = median_or_none mae,
          eh_deciles = map (\<lambda>(d, vs). (d, length vs, mean_or_none vs)) (grouped (concat (map decile_rows completed)))\<rparr>)"

definition economic_horizons :: "int list" where
  "economic_horizons = [15, 60, 240]"

definition economic_alpha_baseline ::
    "review_thresholds \<Rightarrow> utc option \<Rightarrow> review_snapshot list \<Rightarrow> review_outcome list \<Rightarrow> (int \<times> economic_horizon) list" where
  "economic_alpha_baseline th cutoff ss outs =
     map (\<lambda>h. (h, economic_horizon_of th cutoff ss outs h)) economic_horizons"

section \<open>Incremental variants\<close>

record variant_arm =
  va_variant_id :: string
  va_opportunities :: nat
  va_accepted :: nat
  va_blocked :: nat
  va_missing :: nat
  va_mean_gross :: "pyfloat option"
  va_median_gross :: "pyfloat option"
  va_p05_gross :: "pyfloat option"
  va_net_positive_rate :: "pyfloat option"
  va_mean_utility :: "pyfloat option"
  va_median_utility :: "pyfloat option"
  va_p05_utility :: "pyfloat option"
  va_first_half_utility :: "pyfloat option"
  va_second_half_utility :: "pyfloat option"

record variant_comparison =
  vk_paired :: nat
  vk_mean_increment :: "pyfloat option"
  vk_improved_rate :: "pyfloat option"

record variant_horizon =
  vh_arms :: "(string \<times> variant_arm) list"
  vh_comparisons :: "((string \<times> string) \<times> variant_comparison) list"

datatype control_availability = Not_Recorded | Pending_Outcomes | Incomplete_Control | Available_Control | Partial_Control

record incremental_report =
  ir_availability :: control_availability
  ir_coverage :: "(string \<times> pyfloat option) list"
  ir_horizons :: "(int \<times> variant_horizon) list"

definition variant_labels :: "(string \<times> string) list" where
  "variant_labels =
     [(''v2.7a-momentum-only'', ''A_MOMENTUM_ONLY''), (''v2.7b-raw-derivatives'', ''B_RAW_DERIVATIVES''),
      (''v2.7c-crowding-only'', ''C_CROWDING_ONLY''), (''v2.7d-production-gates'', ''D_PRODUCTION_GATES'')]"

definition recorded_ids :: "string \<Rightarrow> review_variant list \<Rightarrow> string list" where
  "recorded_ids variant rows = map vv_snapshot_id (filter (\<lambda>r. vv_variant_id r = variant) rows)"

definition selected_ids :: "string \<Rightarrow> review_variant list \<Rightarrow> string list" where
  "selected_ids variant rows = map vv_snapshot_id (filter (\<lambda>r. vv_variant_id r = variant \<and> vv_selected r) rows)"

text \<open>
  What an arm makes of an opportunity: nothing selected has no cost and no return; a selection without a
  completed outcome has no value.
\<close>

definition arm_gross ::
    "review_outcome list \<Rightarrow> int \<Rightarrow> string list \<Rightarrow> review_snapshot list \<Rightarrow> pyfloat option option" where
  "arm_gross outs h chosen cohort =
     (let selected = filter (\<lambda>s. vs_snapshot_id s \<in> set chosen) cohort
      in if selected = [] then None else Some (mean_or_none (completed_forward_returns outs h selected)))"

definition arm_utility :: "pyfloat \<Rightarrow> pyfloat option option \<Rightarrow> pyfloat option" where
  "arm_utility cost gross = (case gross of None \<Rightarrow> Some 0 | Some g \<Rightarrow> net_of cost g)"

definition variant_arm_of ::
    "review_thresholds \<Rightarrow> review_outcome list \<Rightarrow> int \<Rightarrow> review_variant list \<Rightarrow> review_snapshot list list \<Rightarrow> string \<Rightarrow> variant_arm" where
  "variant_arm_of th outs h variants cohorts variant =
     (let cost = th_economic_round_trip_cost th;
          gross = map (arm_gross outs h (selected_ids variant variants)) cohorts;
          accepted = List.map_filter (\<lambda>g. g) gross; returns = List.map_filter (\<lambda>g. g) accepted;
          utility = List.map_filter (arm_utility cost) gross; (first, second) = halves utility
      in \<lparr>va_variant_id = variant, va_opportunities = length cohorts, va_accepted = length accepted,
          va_blocked = length cohorts - length accepted, va_missing = length accepted - length returns,
          va_mean_gross = mean_or_none returns, va_median_gross = median_or_none returns,
          va_p05_gross = percentile_or_none returns p05,
          va_net_positive_rate = rate (length (filter (\<lambda>v. cost < v) returns)) (length returns),
          va_mean_utility = mean_or_none utility, va_median_utility = median_or_none utility,
          va_p05_utility = percentile_or_none utility p05,
          va_first_half_utility = mean_or_none first, va_second_half_utility = mean_or_none second\<rparr>)"

definition variant_comparison_of ::
    "review_thresholds \<Rightarrow> review_outcome list \<Rightarrow> int \<Rightarrow> review_variant list \<Rightarrow> review_snapshot list list
     \<Rightarrow> string \<Rightarrow> string \<Rightarrow> variant_comparison" where
  "variant_comparison_of th outs h variants cohorts left right =
     (let utility = (\<lambda>variant cohort. arm_utility (th_economic_round_trip_cost th)
                       (arm_gross outs h (selected_ids variant variants) cohort));
          differences = List.map_filter (\<lambda>cohort. case (utility left cohort, utility right cohort) of
             (Some l, Some r) \<Rightarrow> Some (fsub r l) | _ \<Rightarrow> None) cohorts
      in \<lparr>vk_paired = length differences, vk_mean_increment = mean_or_none differences,
          vk_improved_rate = rate (length (filter (\<lambda>v. 0 < v) differences)) (length differences)\<rparr>)"

definition label_of :: "string \<Rightarrow> string" where
  "label_of variant = (case map_of variant_labels variant of None \<Rightarrow> variant | Some l \<Rightarrow> l)"

text \<open>The opportunities of a horizon: its mature decisions in which the momentum arm selects something.\<close>

definition variant_horizon_of ::
    "review_thresholds \<Rightarrow> utc option \<Rightarrow> review_snapshot list \<Rightarrow> review_outcome list \<Rightarrow> review_variant list \<Rightarrow> int
     \<Rightarrow> variant_horizon" where
  "variant_horizon_of th cutoff ss outs variants h =
     (let momentum = selected_ids ''v2.7a-momentum-only'' variants;
          decisions = map vs_decision_id (filter (\<lambda>s. vs_snapshot_id s \<in> set momentum) ss);
          cohorts = map snd (filter (\<lambda>(d, rows). d \<in> set decisions)
            (sort_key fst (decision_cohorts (mature_snapshots th cutoff h ss))))
      in \<lparr>vh_arms = map (\<lambda>(variant, label). (label, variant_arm_of th outs h variants cohorts variant)) variant_labels,
          vh_comparisons = map (\<lambda>(l, r). ((label_of l, label_of r), variant_comparison_of th outs h variants cohorts l r))
            [(''v2.7a-momentum-only'', ''v2.7b-raw-derivatives''), (''v2.7b-raw-derivatives'', ''v2.7c-crowding-only''),
             (''v2.7c-crowding-only'', ''v2.7d-production-gates'')]\<rparr>)"

definition incremental_alpha_variants ::
    "review_thresholds \<Rightarrow> utc option \<Rightarrow> review_snapshot list \<Rightarrow> review_outcome list \<Rightarrow> review_variant list
     \<Rightarrow> incremental_report" where
  "incremental_alpha_variants th cutoff ss outs variants =
     (let all_ids = length (remdups (map vs_snapshot_id ss));
          coverage = map (\<lambda>(variant, label). (label, rate (length (remdups (recorded_ids variant variants))) all_ids)) variant_labels
      in \<lparr>ir_availability = (if variants = [] then Not_Recorded
            else if list_all (\<lambda>(l, c). c = Some 1) coverage then Available_Control else Partial_Control),
          ir_coverage = coverage,
          ir_horizons = map (\<lambda>h. (h, variant_horizon_of th cutoff ss outs variants h)) economic_horizons\<rparr>)"

section \<open>The crowding gate\<close>

record crowding_horizon =
  ch_mature_disagreements :: nat
  ch_completed_cohorts :: nat
  ch_mean_gross :: "pyfloat option"
  ch_p05_gross :: "pyfloat option"
  ch_mean_net :: "pyfloat option"
  ch_net_positive_rate :: "pyfloat option"

record crowding_disagreement =
  cd_contexts :: nat
  cd_decisions :: nat
  cd_horizons :: "(int \<times> crowding_horizon) list"

definition payload_get :: "string \<Rightarrow> review_context \<Rightarrow> json option" where
  "payload_get k x = map_of (vm_payload x) k"

definition gate_disagrees :: "review_context \<Rightarrow> bool" where
  "gate_disagrees x =
     (case payload_get ''decisionDiagnostics'' x of
        Some (JObj kvs) \<Rightarrow> map_of kvs ''crowdingGateDisagreement'' = Some (JBool True)
      | _ \<Rightarrow> False)"

definition crowding_horizon_of ::
    "review_thresholds \<Rightarrow> utc option \<Rightarrow> review_snapshot list \<Rightarrow> review_outcome list \<Rightarrow> string list \<Rightarrow> int \<Rightarrow> crowding_horizon" where
  "crowding_horizon_of th cutoff ss outs decisions h =
     (let cost = th_economic_round_trip_cost th;
          mature = filter (\<lambda>s. vs_decision_id s \<in> set decisions) (mature_snapshots th cutoff h ss);
          completed = completed_values outs h (filter vs_selected mature);
          values = map (\<lambda>(d, vs). fmean vs) (cohorts_of (map (\<lambda>(s, v). (vs_decision_id s, v)) completed))
      in \<lparr>ch_mature_disagreements = length (remdups (map vs_decision_id mature)), ch_completed_cohorts = length values,
          ch_mean_gross = mean_or_none values, ch_p05_gross = percentile_or_none values p05,
          ch_mean_net = net_of cost (mean_or_none values),
          ch_net_positive_rate = rate (length (filter (\<lambda>v. cost < v) values)) (length values)\<rparr>)"

definition crowding_gate_disagreement ::
    "review_thresholds \<Rightarrow> utc option \<Rightarrow> review_snapshot list \<Rightarrow> review_outcome list \<Rightarrow> review_context list
     \<Rightarrow> crowding_disagreement" where
  "crowding_gate_disagreement th cutoff ss outs contexts =
     (let decisions = remdups (map vm_decision_id (filter gate_disagrees contexts))
      in \<lparr>cd_contexts = length contexts, cd_decisions = length decisions,
          cd_horizons = map (\<lambda>h. (h, crowding_horizon_of th cutoff ss outs decisions h)) economic_horizons\<rparr>)"

section \<open>The same-input rule control\<close>

record paired_comparison =
  pk_paired_cohorts :: nat
  pk_actual_minus_control :: "pyfloat option"
  pk_outperformed :: nat
  pk_underperformed :: nat
  pk_nonnegative_rate :: "pyfloat option"
  pk_first_half_cohorts :: nat
  pk_first_half :: "pyfloat option"
  pk_second_half_cohorts :: nat
  pk_second_half :: "pyfloat option"
  pk_both_nonnegative :: "bool option"

record rule_control =
  rc_variant_id :: string
  rc_availability :: control_availability
  rc_mature_snapshots :: nat
  rc_control_rows :: nat
  rc_control_coverage :: "pyfloat option"
  rc_mature_decisions :: nat
  rc_complete_decisions :: nat
  rc_actual_selected :: nat
  rc_control_selected :: nat
  rc_both_selected :: nat
  rc_actual_only :: nat
  rc_control_only :: nat
  rc_union_selected :: nat
  rc_jaccard :: "pyfloat option"
  rc_changed_decisions :: nat
  rc_changed_rate :: "pyfloat option"
  rc_actual :: arm_summary
  rc_control :: arm_summary
  rc_paired :: paired_comparison

definition paired_comparison_of :: "pyfloat list \<Rightarrow> paired_comparison" where
  "paired_comparison_of differences =
     (let (first, second) = halves differences; m1 = mean_or_none first; m2 = mean_or_none second
      in \<lparr>pk_paired_cohorts = length differences, pk_actual_minus_control = mean_or_none differences,
          pk_outperformed = length (filter (\<lambda>v. 0 < v) differences),
          pk_underperformed = length (negatives differences),
          pk_nonnegative_rate = rate (length (filter (\<lambda>v. 0 \<le> v) differences)) (length differences),
          pk_first_half_cohorts = length first, pk_first_half = m1,
          pk_second_half_cohorts = length second, pk_second_half = m2,
          pk_both_nonnegative = (case (m1, m2) of (Some a, Some b) \<Rightarrow> Some (0 \<le> a \<and> 0 \<le> b) | _ \<Rightarrow> None)\<rparr>)"

text \<open>What the control says of a snapshot; a later row of the same snapshot takes the place of an earlier one.\<close>

definition control_of :: "string \<Rightarrow> review_variant list \<Rightarrow> string \<Rightarrow> bool option" where
  "control_of variant rows i =
     map_option vv_selected (find (\<lambda>r. vv_variant_id r = variant \<and> vv_snapshot_id r = i) (rev rows))"

text \<open>The mature decisions with their snapshots, in the order of their times and identifiers.\<close>

definition timed_cohorts :: "review_snapshot list \<Rightarrow> review_snapshot list list" where
  "timed_cohorts mature =
     sort_key (\<lambda>rows. vs_decision_time (last rows)) (map snd (sort_key fst (decision_cohorts mature)))"

definition control_variant :: "review_thresholds \<Rightarrow> string" where
  "control_variant th =
     (case th_selection_control_variant_id th of
        None \<Rightarrow> ''v2.4-rule-control'' | Some v \<Rightarrow> if v = [] then ''v2.4-rule-control'' else v)"

definition same_input_rule_control ::
    "review_thresholds \<Rightarrow> utc option \<Rightarrow> review_snapshot list \<Rightarrow> review_outcome list \<Rightarrow> review_variant list \<Rightarrow> rule_control" where
  "same_input_rule_control th cutoff ss outs variants =
     (let variant = control_variant th; mature = mature_snapshots th cutoff 240 ss;
          control = (\<lambda>s. control_of variant variants (vs_snapshot_id s)); chosen = (\<lambda>s. control s = Some True);
          controlled = length (remdups (map vs_snapshot_id (filter (\<lambda>s. control s \<noteq> None) mature)));
          mature_ids = length (remdups (map vs_snapshot_id mature));
          cohorts = timed_cohorts mature;
          complete = filter (list_all (\<lambda>s. control s \<noteq> None)) cohorts;
          comparable = filter (\<lambda>s. list_ex (\<lambda>rows. vs_decision_id (last rows) = vs_decision_id s) complete) mature;
          actual = filter vs_selected comparable; chosen_rows = filter chosen comparable;
          count = (\<lambda>P. length (remdups (map vs_snapshot_id (filter P comparable))));
          both = count (\<lambda>s. vs_selected s \<and> chosen s); either = count (\<lambda>s. vs_selected s \<or> chosen s);
          changed = length (filter (list_ex (\<lambda>s. vs_selected s \<noteq> chosen s)) complete);
          differences = List.map_filter (\<lambda>rows.
            case (mean_or_none (completed_forward_returns outs 240 (filter vs_selected rows)),
                  mean_or_none (completed_forward_returns outs 240 (filter chosen rows))) of
              (Some a, Some c) \<Rightarrow> Some (fsub a c) | _ \<Rightarrow> None) complete;
          coverage = rate controlled mature_ids
      in \<lparr>rc_variant_id = variant,
          rc_availability =
            (if \<not> list_ex (\<lambda>r. vv_variant_id r = variant) variants then Not_Recorded
             else if mature = [] then Pending_Outcomes
             else if coverage \<noteq> Some 1 then Incomplete_Control
             else if differences = [] then Pending_Outcomes else Available_Control),
          rc_mature_snapshots = length mature, rc_control_rows = controlled, rc_control_coverage = coverage,
          rc_mature_decisions = length cohorts, rc_complete_decisions = length complete,
          rc_actual_selected = count vs_selected, rc_control_selected = count chosen, rc_both_selected = both,
          rc_actual_only = count (\<lambda>s. vs_selected s \<and> \<not> chosen s),
          rc_control_only = count (\<lambda>s. \<not> vs_selected s \<and> chosen s), rc_union_selected = either,
          rc_jaccard = rate both either, rc_changed_decisions = changed, rc_changed_rate = rate changed (length complete),
          rc_actual = arm_summary_of outs 240 actual, rc_control = arm_summary_of outs 240 chosen_rows,
          rc_paired = paired_comparison_of differences\<rparr>)"

section \<open>The derivatives context\<close>

text \<open>\<^verbatim>\<open>float(text)\<close> takes an underscore only between two digits; a value that rounds to infinity is not finite.\<close>

fun underscores_between :: "bool \<Rightarrow> string \<Rightarrow> bool" where
  "underscores_between after_digit [] = True"
| "underscores_between after_digit (c # cs) =
     (if c = CHR ''_''
      then after_digit \<and> (case cs of [] \<Rightarrow> False | d # ds \<Rightarrow> digit_char d) \<and> underscores_between False cs
      else underscores_between (digit_char c) cs)"

definition finite_float_text :: "string \<Rightarrow> bool" where
  "finite_float_text s =
     (underscores_between False (py_strip s)
      \<and> (case decimal_of_text s of Inl _ \<Rightarrow> False | Inr d \<Rightarrow> \<bar>d\<bar> < (2 ^ 54 - 1) * 2 ^ 970))"

text \<open>A decimal of a context is stored as its text; integers of a context are those a float can hold.\<close>

fun is_finite_json_number :: "json \<Rightarrow> bool" where
  "is_finite_json_number (JStr s) = finite_float_text s"
| "is_finite_json_number (JInt n) = True"
| "is_finite_json_number (JNum r) = True"
| "is_finite_json_number (JDec d) = True"
| "is_finite_json_number _ = False"

definition has_number :: "string \<Rightarrow> review_context \<Rightarrow> bool" where
  "has_number k x = (case payload_get k x of None \<Rightarrow> False | Some v \<Rightarrow> is_finite_json_number v)"

definition normalized_basis_source :: "json option \<Rightarrow> string" where
  "normalized_basis_source v =
     (case v of
        Some (JStr s) \<Rightarrow>
          (let n = py_upper (py_strip s) in if n \<in> {''OFFICIAL'', ''MARK_INDEX_PROXY''} then n else ''UNKNOWN'')
      | _ \<Rightarrow> ''UNKNOWN'')"

definition declared_basis :: "review_context \<Rightarrow> string" where
  "declared_basis x = normalized_basis_source (payload_get ''basisInputSource'' x)"

text \<open>\<^verbatim>\<open>dict(sorted(Counter(values).items()))\<close>.\<close>

definition counts_of :: "string list \<Rightarrow> (string \<times> nat) list" where
  "counts_of values = map (\<lambda>v. (v, count_list values v)) (text_set values)"

text \<open>\<^verbatim>\<open>str(payload.get(key, missing))\<close>; \<open>text_of\<close> is \<^verbatim>\<open>str\<close> of a value that is not a text.\<close>

definition shown_text :: "(json \<Rightarrow> string) \<Rightarrow> string \<Rightarrow> string \<Rightarrow> review_context \<Rightarrow> string" where
  "shown_text text_of missing k x =
     (case payload_get k x of None \<Rightarrow> missing | Some (JStr s) \<Rightarrow> s | Some v \<Rightarrow> text_of v)"

record basis_coverage =
  bv_official_available :: nat
  bv_official_rate :: "pyfloat option"
  bv_official_missing_rate :: "pyfloat option"
  bv_proxy_available :: nat
  bv_proxy_rate :: "pyfloat option"
  bv_proxy_missing_rate :: "pyfloat option"
  bv_complete :: nat
  bv_incomplete :: nat
  bv_rate_missing :: nat
  bv_unknown_sources :: nat
  bv_source_counts :: "(string \<times> nat) list"
  bv_source_rates :: "(string \<times> pyfloat option) list"
  bv_complete_source_counts :: "(string \<times> nat) list"
  bv_complete_source_coverage :: "(string \<times> pyfloat option) list"
  bv_coverage :: "pyfloat option"
  bv_missing_decisions :: int
  bv_missing_rate :: "pyfloat option"

text \<open>There may be more contexts than decisions, so the decisions without an input are an integer.\<close>

definition int_rate :: "int \<Rightarrow> nat \<Rightarrow> pyfloat option" where
  "int_rate n d = (if d = 0 then None else Some (fquot (of_int n) (of_nat d)))"

definition basis_coverage_of :: "nat \<Rightarrow> review_context list \<Rightarrow> basis_coverage" where
  "basis_coverage_of decisions xs =
     (let n = length xs; official = length (filter (has_number ''basisRate'') xs);
          proxy = length (filter (has_number ''markIndexBasisRate'') xs);
          declared = map declared_basis xs;
          with_rate = filter (has_number ''basisInputRate'') xs;
          inputs = filter (\<lambda>v. v \<noteq> ''UNKNOWN'') (map declared_basis with_rate);
          missing = int decisions - int (length inputs)
      in \<lparr>bv_official_available = official, bv_official_rate = rate official n, bv_official_missing_rate = rate (n - official) n,
          bv_proxy_available = proxy, bv_proxy_rate = rate proxy n, bv_proxy_missing_rate = rate (n - proxy) n,
          bv_complete = length inputs, bv_incomplete = n - length inputs, bv_rate_missing = n - length with_rate,
          bv_unknown_sources = count_list declared ''UNKNOWN'', bv_source_counts = counts_of declared,
          bv_source_rates = map (\<lambda>(s, c). (s, rate c n)) (counts_of declared),
          bv_complete_source_counts = counts_of inputs,
          bv_complete_source_coverage = map (\<lambda>(s, c). (s, rate c decisions)) (counts_of inputs),
          bv_coverage = rate (length inputs) decisions, bv_missing_decisions = missing,
          bv_missing_rate = int_rate missing decisions\<rparr>)"

record derivatives_quality =
  dq_decision_cohorts :: nat
  dq_context_rows :: nat
  dq_context_coverage :: "pyfloat option"
  dq_available_rate :: "pyfloat option"
  dq_version_match_rate :: "pyfloat option"
  dq_availability_counts :: "(string \<times> nat) list"
  dq_recommendation_counts :: "(string \<times> nat) list"
  dq_basis_source_counts :: "(string \<times> nat) list"
  dq_basis_source_match_rate :: "pyfloat option"
  dq_available_rows :: nat
  dq_basis_coverage :: basis_coverage

definition derivatives_context_quality ::
    "(json \<Rightarrow> string) \<Rightarrow> review_thresholds \<Rightarrow> string list \<Rightarrow> review_context list \<Rightarrow> derivatives_quality" where
  "derivatives_context_quality text_of th decisions contexts =
     (let xs = filter (\<lambda>x. vm_decision_id x \<in> set decisions) contexts; n = length (remdups decisions);
          availability = map (shown_text text_of ''INVALID'' ''availability'') xs;
          available = filter (\<lambda>x. payload_get ''availability'' x = Some (JStr ''AVAILABLE'')) xs;
          matches = length (filter (\<lambda>x. Some (declared_basis x) = th_required_derivatives_basis_input_source th
                                        \<and> has_number ''basisInputRate'' x) available);
          versions = length (filter (\<lambda>x. payload_get ''featureVersion'' x
                                         = Some (JStr (th_required_derivatives_feature_version th))) xs)
      in \<lparr>dq_decision_cohorts = n, dq_context_rows = length xs, dq_context_coverage = rate (length xs) n,
          dq_available_rate = rate (count_list availability ''AVAILABLE'') n, dq_version_match_rate = rate versions n,
          dq_availability_counts = counts_of availability,
          dq_recommendation_counts = counts_of (map (shown_text text_of ''INVALID'' ''recommendation'') xs),
          dq_basis_source_counts = counts_of (map (shown_text text_of ''UNKNOWN'' ''basisInputSource'') xs),
          dq_basis_source_match_rate =
            (if th_required_derivatives_basis_input_source th = None then None else rate matches (length available)),
          dq_available_rows = length available, dq_basis_coverage = basis_coverage_of n xs\<rparr>)"

section \<open>Paper performance\<close>

record paper_metrics =
  pf_starting_equity :: pyfloat
  pf_ending_equity :: "pyfloat option"
  pf_net_pnl :: "pyfloat option"
  pf_net_return :: "pyfloat option"
  pf_total_fees :: pyfloat
  pf_total_turnover :: pyfloat
  pf_execution_count :: nat
  pf_completed_trades :: nat
  pf_win_rate :: "pyfloat option"
  pf_gross_profit :: pyfloat
  pf_gross_loss :: pyfloat
  pf_profit_factor :: "pyfloat option"
  pf_unbounded :: bool
  pf_realized_pnl :: pyfloat
  pf_maximum_drawdown :: "pyfloat option"

definition paper_metrics_of :: "pyfloat \<Rightarrow> paper_decision list \<Rightarrow> review_execution list \<Rightarrow> paper_metrics" where
  "paper_metrics_of starting decisions executions =
     (let ending = (if decisions = [] then None else Some (vp_equity (last decisions)));
          pnl = map_option (\<lambda>e. fsub e starting) ending;
          realized = map vx_realized_pnl (filter (\<lambda>x. vx_side x = SELL) executions);
          winners = filter (\<lambda>v. 0 < v) realized; losers = negatives realized;
          profit = float_sum winners; loss = - float_sum losers
      in \<lparr>pf_starting_equity = starting, pf_ending_equity = ending, pf_net_pnl = pnl,
          pf_net_return = (if 0 < starting then map_option (\<lambda>p. fquot p starting) pnl else None),
          pf_total_fees = float_sum (map vx_fee executions),
          pf_total_turnover = float_sum (map (\<lambda>x. fmul (vx_quantity x) (vx_price x)) executions),
          pf_execution_count = length executions, pf_completed_trades = length realized,
          pf_win_rate = rate (length winners) (length realized), pf_gross_profit = profit, pf_gross_loss = loss,
          pf_profit_factor = (if 0 < loss then Some (fquot profit loss) else None),
          pf_unbounded = (realized \<noteq> [] \<and> 0 < profit \<and> loss = 0), pf_realized_pnl = float_sum realized,
          pf_maximum_drawdown =
            (if decisions = [] then None else Some (maximum_loss (starting # map vp_equity decisions)))\<rparr>)"

end
