(* ===== verification/Review.thy ===== *)
theory Review
  imports ReviewAnalysis
begin

text \<open>
  The review itself (\<^verbatim>\<open>StrategyReviewAnalyzer.analyze\<close>): the cutoff, the rows up to it, the gates, and the
  decision.  The two databases are the tables of the observation and the ledger; both are read in one
  transaction each, so a review is a function of them.

  The columns hold the values; what an older schema lacks is told by two flags.  A time in a \<^verbatim>\<open>TEXT\<close> column
  is ISO text in UTC, whose order is the order of the instants.
\<close>

section \<open>Reading up to the cutoff\<close>

record review_sources =
  rw_observations :: observation_store
  rw_ledger :: ledger
  rw_reasons_recorded :: bool
  rw_variants_recorded :: bool

definition load_experiment :: "string \<Rightarrow> observation_store \<Rightarrow> observation_experiment result" where
  "load_experiment i db = (case find_observation i db of None \<Rightarrow> Inl (KeyError i) | Some e \<Rightarrow> Inr e)"

text \<open>\<^verbatim>\<open>MAX(decision_time) ... GROUP BY decision_id\<close>.\<close>

definition observed_time :: "string \<Rightarrow> string \<Rightarrow> observation_store \<Rightarrow> utc option" where
  "observed_time i decision db =
     (case map dn_decision_time (filter (\<lambda>s. dn_decision_id s = decision) (lane_snapshots i db)) of
        [] \<Rightarrow> None
      | t # ts \<Rightarrow> Some (fold max ts t))"

definition complete_decision_statuses :: "string list" where
  "complete_decision_statuses = [''EXECUTED'', ''DRY_RUN'']"

definition load_paper_decisions :: "string \<Rightarrow> string \<Rightarrow> ledger \<Rightarrow> paper_decision list" where
  "load_paper_decisions pid version l =
     map (\<lambda>d. \<lparr>vp_decision_id = rd_decision_id d, vp_as_of = rd_as_of d, vp_equity = flt (rd_equity d),
               vp_status = rd_status d, vp_created_at = rd_created_at d\<rparr>)
       (filter (\<lambda>d. rd_status d \<in> set complete_decision_statuses)
         (sort_key rd_as_of (sort_key rd_decision_id
           (filter (\<lambda>d. rd_portfolio_id d = pid \<and> rd_strategy_version d = version) (tbl_decision l)))))"

text \<open>\<^verbatim>\<open>max(common, key=lambda item: (item.created_at, item.decision_id))\<close>, the first of equal items.\<close>

definition later_decision :: "paper_decision \<Rightarrow> paper_decision \<Rightarrow> bool" where
  "later_decision a b =
     (vp_created_at b < vp_created_at a \<or> vp_created_at a = vp_created_at b \<and> vp_decision_id b < vp_decision_id a)"

definition select_cutoff :: "(string \<Rightarrow> utc option) \<Rightarrow> paper_decision list \<Rightarrow> review_cutoff option" where
  "select_cutoff observed decisions =
     (case filter (\<lambda>d. observed (vp_decision_id d) \<noteq> None) decisions of
        [] \<Rightarrow> None
      | d # ds \<Rightarrow>
          (let latest = fold (\<lambda>a b. if later_decision a b then a else b) ds d
           in map_option (\<lambda>t. \<lparr>vc_decision_id = vp_decision_id latest, vc_decision_time = t,
                               vc_completed_at = vp_created_at latest\<rparr>) (observed (vp_decision_id latest))))"

definition candidate_reasons :: "json \<Rightarrow> string list" where
  "candidate_reasons v =
     (case v of
        JList xs \<Rightarrow> List.map_filter (\<lambda>x. case x of JStr s \<Rightarrow> if s = [] then None else Some s | _ \<Rightarrow> None) xs
      | _ \<Rightarrow> [])"

text \<open>The snapshots that a review is about: up to the cutoff, and scored or selected.\<close>

definition reviewed :: "review_cutoff \<Rightarrow> decision_snapshot \<Rightarrow> bool" where
  "reviewed cutoff s = (dn_decision_time s \<le> vc_decision_time cutoff \<and> (dn_score s \<noteq> None \<or> dn_selected s))"

definition load_snapshots :: "bool \<Rightarrow> string \<Rightarrow> review_cutoff option \<Rightarrow> observation_store \<Rightarrow> review_snapshot list" where
  "load_snapshots stored i cutoff db =
     (case cutoff of
        None \<Rightarrow> []
      | Some until \<Rightarrow>
          map (\<lambda>s. \<lparr>vs_snapshot_id = dn_snapshot_id s, vs_decision_id = dn_decision_id s,
                    vs_decision_time = dn_decision_time s, vs_asset = dn_asset s, vs_score = dn_score s,
                    vs_selected = dn_selected s,
                    vs_candidate_reasons = (if stored then candidate_reasons (dn_candidate_reasons_json s) else []),
                    vs_candidate_reasons_recorded = stored\<rparr>)
            (sort_key dn_decision_time (sort_key dn_decision_id (sort_key dn_asset (sort_key dn_snapshot_id
              (filter (reviewed until) (lane_snapshots i db)))))))"

text \<open>Rows of a table joined with the snapshots a review is about, in the order of the snapshots.\<close>

definition reviewed_rows ::
    "('r \<Rightarrow> string) \<Rightarrow> ('r \<Rightarrow> 'k :: linorder) \<Rightarrow> string \<Rightarrow> review_cutoff \<Rightarrow> observation_store \<Rightarrow> 'r list \<Rightarrow> 'r list" where
  "reviewed_rows id_of key i until db rows =
     map fst (sort_key (\<lambda>(r, s). dn_decision_time s) (sort_key (\<lambda>(r, s). dn_decision_id s) (sort_key (\<lambda>(r, s). dn_asset s)
       (sort_key (\<lambda>(r, s). key r) (filter (\<lambda>(r, s). reviewed until s) (joined id_of i db rows))))))"

definition load_outcomes :: "string \<Rightarrow> review_cutoff option \<Rightarrow> observation_store \<Rightarrow> review_outcome list" where
  "load_outcomes i cutoff db =
     (case cutoff of
        None \<Rightarrow> []
      | Some until \<Rightarrow>
          map (\<lambda>v. \<lparr>vo_snapshot_id = do_snapshot_id v, vo_horizon_minutes = do_horizon_minutes v,
                    vo_evaluated_at = do_evaluated_at v, vo_status = do_status v,
                    vo_forward_return = do_forward_return v, vo_mfe = do_mfe v, vo_mae = do_mae v\<rparr>)
            (reviewed_rows do_snapshot_id do_horizon_minutes i until db
              (filter (\<lambda>v. do_evaluated_at v \<le> vc_completed_at until \<and> do_horizon_minutes v \<in> set economic_horizons)
                (ot_outcomes db))))"

definition load_selection_variants ::
    "bool \<Rightarrow> string \<Rightarrow> review_cutoff option \<Rightarrow> observation_store \<Rightarrow> review_variant list" where
  "load_selection_variants stored i cutoff db =
     (case cutoff of
        None \<Rightarrow> []
      | Some until \<Rightarrow>
          if \<not> stored then []
          else map (\<lambda>v. \<lparr>vv_snapshot_id = dv_snapshot_id v, vv_variant_id = dv_variant_id v, vv_selected = dv_selected v\<rparr>)
                 (reviewed_rows dv_snapshot_id dv_variant_id i until db (ot_variants db)))"

definition load_market_contexts :: "string \<Rightarrow> review_cutoff option \<Rightarrow> observation_store \<Rightarrow> review_context list" where
  "load_market_contexts i cutoff db =
     (case cutoff of
        None \<Rightarrow> []
      | Some until \<Rightarrow>
          map (\<lambda>c. \<lparr>vm_decision_id = mx_decision_id c, vm_decision_time = mx_decision_time c,
                    vm_payload = (case mx_context_json c of JObj kvs \<Rightarrow> kvs | _ \<Rightarrow> [])\<rparr>)
            (sort_key mx_decision_time (sort_key mx_decision_id
              (filter (\<lambda>c. mx_experiment_id c = i \<and> mx_decision_time c \<le> vc_decision_time until) (ot_contexts db)))))"

definition filter_paper_decisions :: "review_cutoff option \<Rightarrow> paper_decision list \<Rightarrow> paper_decision list" where
  "filter_paper_decisions cutoff ds =
     (case cutoff of
        None \<Rightarrow> []
      | Some until \<Rightarrow> filter (\<lambda>d. vp_as_of d \<le> vc_decision_time until \<and> vp_created_at d \<le> vc_completed_at until) ds)"

definition load_executions :: "string \<Rightarrow> review_cutoff option \<Rightarrow> ledger \<Rightarrow> review_execution list" where
  "load_executions pid cutoff l =
     (case cutoff of
        None \<Rightarrow> []
      | Some until \<Rightarrow>
          map (\<lambda>x. \<lparr>vx_pair = pe_pair x, vx_side = pe_side x, vx_quantity = flt (pe_quantity x), vx_price = flt (pe_price x),
                    vx_fee = flt (pe_fee x), vx_realized_pnl = flt (pe_realized_pnl x), vx_executed_at = pe_executed_at x\<rparr>)
            (sort_key pe_executed_at (sort_key pe_order_id
              (filter (\<lambda>x. pe_portfolio_id x = pid \<and> pe_executed_at x \<le> vc_completed_at until) (tbl_execution l)))))"

section \<open>Gates\<close>

datatype review_stage = Paper_Review | Shadow_To_Paper

datatype gate_category = READINESS | QUALITY | PERFORMANCE | STABILITY | RISK

datatype gate_value = No_Value | Number pyfloat | Flag bool | Availability control_availability

datatype gate_operator = At_Least | Above | At_Most | Is_Value

record review_gate =
  gt_category :: gate_category
  gt_required :: bool
  gt_actual :: gate_value
  gt_operator :: gate_operator
  gt_threshold :: gate_value
  gt_passed :: "bool option"

definition compares :: "gate_operator \<Rightarrow> pyfloat \<Rightarrow> pyfloat \<Rightarrow> bool" where
  "compares op a t = (case op of At_Least \<Rightarrow> t \<le> a | Above \<Rightarrow> t < a | _ \<Rightarrow> a \<le> t)"

definition numeric_gate :: "gate_category \<Rightarrow> pyfloat option \<Rightarrow> gate_operator \<Rightarrow> pyfloat \<Rightarrow> review_gate" where
  "numeric_gate category actual op threshold =
     \<lparr>gt_category = category, gt_required = True, gt_actual = (case actual of None \<Rightarrow> No_Value | Some a \<Rightarrow> Number a),
      gt_operator = op, gt_threshold = Number threshold, gt_passed = map_option (\<lambda>a. compares op a threshold) actual\<rparr>"

definition stability_gate :: "bool option \<Rightarrow> review_gate" where
  "stability_gate b =
     \<lparr>gt_category = STABILITY, gt_required = True, gt_actual = (case b of None \<Rightarrow> No_Value | Some x \<Rightarrow> Flag x),
      gt_operator = Is_Value, gt_threshold = Flag True, gt_passed = b\<rparr>"

definition count_value :: "nat \<Rightarrow> pyfloat option" where "count_value n = Some (of_nat n)"

definition horizon_gates ::
    "review_thresholds \<Rightarrow> string \<Rightarrow> horizon_quality \<Rightarrow> horizon_signal \<Rightarrow> stability \<Rightarrow> (string \<times> review_gate) list" where
  "horizon_gates th suffix q s b =
     [(''SCORED_OUTCOME_MISSING_RATE_'' @ suffix,
         numeric_gate QUALITY (hq_scored_missing_rate q) At_Most (th_maximum_outcome_missing_rate th)),
      (''SELECTED_OUTCOME_MISSING_RATE_'' @ suffix,
         numeric_gate QUALITY (hq_selected_missing_rate q) At_Most (th_maximum_outcome_missing_rate th)),
      (''SELECTED_GROSS_RETURN_'' @ suffix,
         numeric_gate PERFORMANCE (hs_selected_mean s) Above (th_minimum_selected_gross_return th)),
      (''SELECTED_SPREAD_'' @ suffix,
         numeric_gate PERFORMANCE (hs_paired_spread s) Above (th_minimum_selected_spread th)),
      (''SCORE_IC_'' @ suffix, numeric_gate PERFORMANCE (hs_score_ic s) Above (th_minimum_score_ic th)),
      (''TEMPORAL_STABILITY_'' @ suffix, stability_gate (sb_both_positive b))]"

definition profit_factor_gate :: "review_thresholds \<Rightarrow> paper_metrics \<Rightarrow> review_gate" where
  "profit_factor_gate th pm =
     \<lparr>gt_category = PERFORMANCE, gt_required = True,
      gt_actual = (case pf_profit_factor pm of None \<Rightarrow> No_Value | Some a \<Rightarrow> Number a), gt_operator = At_Least,
      gt_threshold = Number (th_minimum_profit_factor th),
      gt_passed = (if pf_unbounded pm then Some True
                   else map_option (\<lambda>f. th_minimum_profit_factor th \<le> f) (pf_profit_factor pm))\<rparr>"

definition outcome_completion :: "pyfloat option \<Rightarrow> pyfloat option" where
  "outcome_completion m =
     (case m of None \<Rightarrow> None | Some x \<Rightarrow> if 0 \<le> x \<and> x \<le> 1 then Some (fsub 1 x) else None)"

definition absolute_difference :: "pyfloat option \<Rightarrow> pyfloat option \<Rightarrow> pyfloat option" where
  "absolute_difference a b = (case (a, b) of (Some x, Some y) \<Rightarrow> Some \<bar>fsub x y\<bar> | _ \<Rightarrow> None)"

definition control_prefix :: "string option \<Rightarrow> string" where
  "control_prefix variant =
     (case variant of
        None \<Rightarrow> ''SELECTION_RULE_CONTROL''
      | Some v \<Rightarrow>
          if v = ''v2.4-rule-control'' then ''V25_RULE_CONTROL''
          else if v = ''v2.5-rule-control'' then ''V26_RULE_CONTROL''
          else if v = ''v2.6-rule-control'' then ''V27_RULE_CONTROL'' else ''SELECTION_RULE_CONTROL'')"

definition availability_gate :: "control_availability \<Rightarrow> review_gate" where
  "availability_gate a =
     \<lparr>gt_category = QUALITY, gt_required = True, gt_actual = Availability a, gt_operator = Is_Value,
      gt_threshold = Availability Available_Control,
      gt_passed = (case a of Available_Control \<Rightarrow> Some True | Pending_Outcomes \<Rightarrow> None | _ \<Rightarrow> Some False)\<rparr>"

definition selection_control_gates :: "review_thresholds \<Rightarrow> rule_control \<Rightarrow> (string \<times> review_gate) list" where
  "selection_control_gates th c =
     (let prefix = control_prefix (th_selection_control_variant_id th);
          actual = outcome_completion (am_missing_rate (rc_actual c));
          control = outcome_completion (am_missing_rate (rc_control c))
      in [(prefix @ ''_AVAILABILITY'', availability_gate (rc_availability c)),
          (prefix @ ''_COVERAGE'',
             numeric_gate QUALITY (rc_control_coverage c) At_Least (th_minimum_selection_control_variant_coverage th)),
          (prefix @ ''_PAIRED_4H_COHORTS'',
             numeric_gate READINESS (count_value (pk_paired_cohorts (rc_paired c))) At_Least
               (of_int (th_minimum_selection_control_paired_4h_cohorts th))),
          (prefix @ ''_CHANGED_COHORTS'',
             numeric_gate READINESS (count_value (rc_changed_decisions c)) At_Least
               (of_int (th_minimum_selection_control_changed_cohorts th))),
          (prefix @ ''_ACTUAL_OUTCOME_COVERAGE'',
             numeric_gate QUALITY actual At_Least (th_minimum_selection_control_outcome_coverage th)),
          (prefix @ ''_CONTROL_OUTCOME_COVERAGE'',
             numeric_gate QUALITY control At_Least (th_minimum_selection_control_outcome_coverage th)),
          (prefix @ ''_OUTCOME_COVERAGE_GAP'',
             numeric_gate QUALITY (absolute_difference actual control) At_Most
               (th_maximum_selection_control_outcome_coverage_gap th)),
          (prefix @ ''_ACTUAL_MINUS_CONTROL'',
             numeric_gate PERFORMANCE (pk_actual_minus_control (rc_paired c)) At_Least
               (th_minimum_selection_control_actual_minus_control th)),
          (prefix @ ''_TEMPORAL_STABILITY_4H'', stability_gate (pk_both_nonnegative (rc_paired c)))])"

definition derivatives_gates ::
    "review_thresholds \<Rightarrow> derivatives_quality \<Rightarrow> (string \<times> review_gate) list" where
  "derivatives_gates th d =
     [(''DERIVATIVES_CONTEXT_COVERAGE'',
         numeric_gate QUALITY (dq_context_coverage d) At_Least (th_minimum_derivatives_context_coverage th)),
      (''DERIVATIVES_AVAILABLE_RATE'',
         numeric_gate QUALITY (dq_available_rate d) At_Least (th_minimum_derivatives_available_rate th)),
      (''DERIVATIVES_FEATURE_VERSION_MATCH'', numeric_gate QUALITY (dq_version_match_rate d) At_Least 1)]
     @ (if th_required_derivatives_basis_input_source th = None then []
        else [(''DERIVATIVES_BASIS_INPUT_SOURCE_MATCH'',
                 numeric_gate QUALITY (dq_basis_source_match_rate d) At_Least
                   (th_minimum_derivatives_basis_input_source_match_rate th))])"

definition not_required :: "review_gate \<Rightarrow> review_gate" where
  "not_required g = g\<lparr>gt_required := False\<rparr>"

text \<open>A shadow has no paper results of its own: those gates stay, and are not required.\<close>

definition paper_gates :: "review_thresholds \<Rightarrow> review_stage \<Rightarrow> paper_metrics \<Rightarrow> (string \<times> review_gate) list" where
  "paper_gates th stage pm =
     (let gates = [(''PAPER_NET_RETURN'', numeric_gate PERFORMANCE (pf_net_return pm) Above (th_minimum_paper_net_return th)),
                   (''PROFIT_FACTOR'', profit_factor_gate th pm),
                   (''MAXIMUM_DRAWDOWN'', numeric_gate RISK (pf_maximum_drawdown pm) At_Most (th_maximum_drawdown th))]
      in if stage = Shadow_To_Paper then map (\<lambda>(n, g). (n, not_required g)) gates else gates)"

record review_evidence =
  re_calendar_days :: nat
  re_coverage :: "pyfloat option"
  re_quality :: "int \<Rightarrow> horizon_quality"
  re_signal :: "int \<Rightarrow> horizon_signal"
  re_stability :: "int \<Rightarrow> stability"
  re_control :: rule_control
  re_paper :: paper_metrics
  re_concentration :: "pyfloat option"
  re_derivatives :: derivatives_quality

definition evaluate_gates :: "review_thresholds \<Rightarrow> review_stage \<Rightarrow> review_evidence \<Rightarrow> (string \<times> review_gate) list" where
  "evaluate_gates th stage ev =
     [(''MINIMUM_CALENDAR_DAYS'',
         numeric_gate READINESS (count_value (re_calendar_days ev)) At_Least (of_int (th_minimum_calendar_days th))),
      (''MINIMUM_MATURE_1H_COHORTS'',
         numeric_gate READINESS (count_value (hq_mature_cohorts (re_quality ev 60))) At_Least
           (of_int (th_minimum_mature_1h_cohorts th))),
      (''MINIMUM_MATURE_4H_COHORTS'',
         numeric_gate READINESS (count_value (hq_mature_cohorts (re_quality ev 240))) At_Least
           (of_int (th_minimum_mature_4h_cohorts th))),
      (''DECISION_COVERAGE'', numeric_gate QUALITY (re_coverage ev) At_Least (th_minimum_decision_coverage th))]
     @ horizon_gates th ''1H'' (re_quality ev 60) (re_signal ev 60) (re_stability ev 60)
     @ horizon_gates th ''4H'' (re_quality ev 240) (re_signal ev 240) (re_stability ev 240)
     @ paper_gates th stage (re_paper ev)
     @ (if stage = Shadow_To_Paper
        then derivatives_gates th (re_derivatives ev)
             @ (if th_selection_control_variant_id th = None then [] else selection_control_gates th (re_control ev))
        else [])
     @ [(''SELECTION_CONCENTRATION'',
           numeric_gate RISK (re_concentration ev) At_Most (th_maximum_selection_concentration th))]"

section \<open>The decision\<close>

datatype review_decision = Collecting | Rejected | Promotion_Ready | Shadow_Ready

definition readiness_names :: "string list" where
  "readiness_names = [''MINIMUM_CALENDAR_DAYS'', ''MINIMUM_MATURE_1H_COHORTS'', ''MINIMUM_MATURE_4H_COHORTS'']"

definition gate_names :: "(review_gate \<Rightarrow> bool) \<Rightarrow> (string \<times> review_gate) list \<Rightarrow> string list" where
  "gate_names P gates = map fst (filter (\<lambda>(n, g). gt_required g \<and> P g) gates)"

definition review_decision_of :: "review_stage \<Rightarrow> (string \<times> review_gate) list \<Rightarrow> review_decision" where
  "review_decision_of stage gates =
     (if list_ex (\<lambda>(n, g). n \<in> set readiness_names \<and> gt_passed g \<noteq> Some True) gates then Collecting
      else if list_all (\<lambda>(n, g). gt_required g \<longrightarrow> gt_passed g = Some True) gates
      then (if stage = Shadow_To_Paper then Shadow_Ready else Promotion_Ready)
      else Rejected)"

text \<open>The date in Seoul, which is nine hours ahead of UTC in all the years the engine trades in.\<close>

definition seoul_day :: "utc \<Rightarrow> int" where
  "seoul_day t = (t + hours 9) div 86400000000"

definition expected_cycles :: "review_thresholds \<Rightarrow> utc \<Rightarrow> utc option \<Rightarrow> nat" where
  "expected_cycles th started cutoff =
     (case cutoff of
        None \<Rightarrow> 0
      | Some t \<Rightarrow>
          if t < started then 0
          else nat (max 1 \<lfloor>total_seconds (t - started) / of_int (th_decision_interval_minutes th * 60)\<rfloor>))"

definition coverage_of :: "nat \<Rightarrow> nat \<Rightarrow> pyfloat option" where
  "coverage_of actual expected = map_option (min 1) (rate actual expected)"

text \<open>How many cohorts select an asset, in the order of the assets.\<close>

definition selection_counts :: "review_snapshot list \<Rightarrow> (string \<times> nat) list" where
  "selection_counts ss =
     (let picks = remdups (map (\<lambda>s. (vs_decision_id s, vs_asset s)) (filter vs_selected ss))
      in counts_of (map snd picks))"

definition cohorts_with_selection :: "review_snapshot list \<Rightarrow> nat" where
  "cohorts_with_selection ss = length (remdups (map vs_decision_id (filter vs_selected ss)))"

definition concentration_of :: "review_snapshot list \<Rightarrow> pyfloat option" where
  "concentration_of ss = rate (fold max (map snd (selection_counts ss)) 0) (cohorts_with_selection ss)"

definition gate_policy_version :: "review_thresholds \<Rightarrow> string" where
  "gate_policy_version th =
     (if th_selection_control_variant_id th = Some ''v2.6-rule-control'' then ''strategy-promotion-gates-v6-v27-control''
      else if th_selection_control_variant_id th = Some ''v2.5-rule-control'' then ''strategy-promotion-gates-v5-v26-control''
      else if th_selection_control_variant_id th \<noteq> None \<or> th_required_derivatives_basis_input_source th \<noteq> None
      then ''strategy-promotion-gates-v4-v25-control''
      else ''strategy-promotion-gates-v3'')"

definition thresholds_json :: "review_thresholds \<Rightarrow> json" where
  "thresholds_json th = JObj
     [(''minimumCalendarDays'', JInt (th_minimum_calendar_days th)),
      (''minimumMature1hCohorts'', JInt (th_minimum_mature_1h_cohorts th)),
      (''minimumMature4hCohorts'', JInt (th_minimum_mature_4h_cohorts th)),
      (''minimumDecisionCoverage'', JNum (th_minimum_decision_coverage th)),
      (''maximumOutcomeMissingRate'', JNum (th_maximum_outcome_missing_rate th)),
      (''minimumSelectedGrossReturn'', JNum (th_minimum_selected_gross_return th)),
      (''minimumSelectedSpread'', JNum (th_minimum_selected_spread th)),
      (''minimumScoreIc'', JNum (th_minimum_score_ic th)),
      (''minimumPaperNetReturn'', JNum (th_minimum_paper_net_return th)),
      (''minimumProfitFactor'', JNum (th_minimum_profit_factor th)),
      (''maximumDrawdown'', JNum (th_maximum_drawdown th)),
      (''maximumSelectionConcentration'', JNum (th_maximum_selection_concentration th)),
      (''minimumDerivativesContextCoverage'', JNum (th_minimum_derivatives_context_coverage th)),
      (''minimumDerivativesAvailableRate'', JNum (th_minimum_derivatives_available_rate th)),
      (''requiredDerivativesFeatureVersion'', JStr (th_required_derivatives_feature_version th)),
      (''requiredDerivativesBasisInputSource'', json_opt JStr (th_required_derivatives_basis_input_source th)),
      (''minimumDerivativesBasisInputSourceMatchRate'', JNum (th_minimum_derivatives_basis_input_source_match_rate th)),
      (''selectionControlVariantId'', json_opt JStr (th_selection_control_variant_id th)),
      (''minimumSelectionControlVariantCoverage'', JNum (th_minimum_selection_control_variant_coverage th)),
      (''minimumSelectionControlPaired4hCohorts'', JInt (th_minimum_selection_control_paired_4h_cohorts th)),
      (''minimumSelectionControlChangedCohorts'', JInt (th_minimum_selection_control_changed_cohorts th)),
      (''minimumSelectionControlOutcomeCoverage'', JNum (th_minimum_selection_control_outcome_coverage th)),
      (''maximumSelectionControlOutcomeCoverageGap'', JNum (th_maximum_selection_control_outcome_coverage_gap th)),
      (''minimumSelectionControlActualMinusControl'', JNum (th_minimum_selection_control_actual_minus_control th)),
      (''economicRoundTripCost'', JNum (th_economic_round_trip_cost th)),
      (''decisionIntervalMinutes'', JInt (th_decision_interval_minutes th)),
      (''outcomeSettlementGraceMinutes'', JInt (th_outcome_settlement_grace_minutes th))]"

definition stage_text :: "review_stage \<Rightarrow> string" where
  "stage_text stage = (case stage of Paper_Review \<Rightarrow> ''PAPER'' | Shadow_To_Paper \<Rightarrow> ''SHADOW_TO_PAPER'')"

definition analysis_id ::
    "digest \<Rightarrow> review_thresholds \<Rightarrow> observation_experiment \<Rightarrow> review_cutoff option \<Rightarrow> review_stage \<Rightarrow> string" where
  "analysis_id sha256 th e cutoff stage =
     ''review-'' @ take 24 (sha256 (JObj
       [(''experimentId'', JStr (oe_experiment_id e)), (''portfolioId'', JStr (oe_portfolio_id e)),
        (''configHash'', JStr (oe_config_hash e)), (''reportSchemaVersion'', JInt 5),
        (''gatePolicyVersion'', JStr (gate_policy_version th)), (''reviewStage'', JStr (stage_text stage)),
        (''thresholds'', thresholds_json th), (''cutoffDecisionId'', json_opt (\<lambda>c. JStr (vc_decision_id c)) cutoff),
        (''cutoffCompletedAt'', json_opt (\<lambda>c. JTime (vc_completed_at c)) cutoff)]))"

record review_report =
  rp_gate_policy_version :: string
  rp_stage :: review_stage
  rp_analysis_id :: string
  rp_cutoff :: "review_cutoff option"
  rp_experiment :: observation_experiment
  rp_thresholds :: review_thresholds
  rp_actual_cycles :: nat
  rp_expected_cycles :: nat
  rp_candidate_snapshots :: nat
  rp_outcome_rows :: nat
  rp_maximum_scored_missing :: "pyfloat option"
  rp_maximum_selected_missing :: "pyfloat option"
  rp_evidence :: review_evidence
  rp_economic :: "(int \<times> economic_horizon) list"
  rp_incremental :: incremental_report
  rp_crowding :: crowding_disagreement
  rp_total_selections :: nat
  rp_cohorts_with_selection :: nat
  rp_asset_counts :: "(string \<times> nat) list"
  rp_gates :: "(string \<times> review_gate) list"
  rp_decision :: review_decision
  rp_promotion_eligible :: bool
  rp_paper_activation_eligible :: bool
  rp_failed_gates :: "string list"
  rp_pending_gates :: "string list"

text \<open>What a review depends on besides the tables: \<^verbatim>\<open>math.sqrt\<close>, SHA-256 and \<^verbatim>\<open>str\<close> of a value that is not a text.\<close>

record review_environment =
  ru_sqrt :: "pyfloat \<Rightarrow> pyfloat"
  ru_sha256 :: digest
  ru_text_of :: "json \<Rightarrow> string"

record review_rows =
  ro_cutoff :: "review_cutoff option"
  ro_snapshots :: "review_snapshot list"
  ro_outcomes :: "review_outcome list"
  ro_variants :: "review_variant list"
  ro_contexts :: "review_context list"
  ro_decisions :: "paper_decision list"
  ro_executions :: "review_execution list"

definition evidence_of ::
    "review_environment \<Rightarrow> review_thresholds \<Rightarrow> observation_experiment \<Rightarrow> review_rows \<Rightarrow> review_evidence" where
  "evidence_of env th e rows =
     (let cutoff = map_option vc_completed_at (ro_cutoff rows); ss = ro_snapshots rows; outs = ro_outcomes rows;
          times = remdups (map vs_decision_time ss)
      in \<lparr>re_calendar_days = length (remdups (map seoul_day times)),
          re_coverage = coverage_of (length times) (expected_cycles th (oe_started_at e) cutoff),
          re_quality = (\<lambda>h. horizon_quality_of th h cutoff ss outs),
          re_signal = (\<lambda>h. horizon_signal_of (ru_sqrt env) h (mature_scored th h cutoff ss) outs),
          re_stability = (\<lambda>h. horizon_stability_of h (mature_scored th h cutoff ss) outs),
          re_control = same_input_rule_control th cutoff ss outs (ro_variants rows),
          re_paper = paper_metrics_of (oe_starting_equity e)
            (filter (\<lambda>d. oe_started_at e \<le> vp_as_of d) (ro_decisions rows))
            (filter (\<lambda>x. oe_started_at e \<le> vx_executed_at x) (ro_executions rows)),
          re_concentration = concentration_of ss,
          re_derivatives = derivatives_context_quality (ru_text_of env) th (map vs_decision_id ss) (ro_contexts rows)\<rparr>)"

definition build_report ::
    "review_environment \<Rightarrow> review_thresholds \<Rightarrow> observation_experiment \<Rightarrow> review_stage \<Rightarrow> review_rows \<Rightarrow> review_report" where
  "build_report env th e stage rows =
     (let cutoff = ro_cutoff rows; completed = map_option vc_completed_at cutoff; ss = ro_snapshots rows;
          outs = ro_outcomes rows; ev = evidence_of env th e rows; gates = evaluate_gates th stage ev;
          decision = review_decision_of stage gates; counts = selection_counts ss
      in \<lparr>rp_gate_policy_version = gate_policy_version th, rp_stage = stage,
          rp_analysis_id = analysis_id (ru_sha256 env) th e cutoff stage, rp_cutoff = cutoff, rp_experiment = e,
          rp_thresholds = th, rp_actual_cycles = length (remdups (map vs_decision_time ss)),
          rp_expected_cycles = expected_cycles th (oe_started_at e) completed,
          rp_candidate_snapshots = length ss, rp_outcome_rows = length outs,
          rp_maximum_scored_missing = finite_max [hq_scored_missing_rate (re_quality ev 60), hq_scored_missing_rate (re_quality ev 240)],
          rp_maximum_selected_missing = finite_max [hq_selected_missing_rate (re_quality ev 60), hq_selected_missing_rate (re_quality ev 240)],
          rp_evidence = ev, rp_economic = economic_alpha_baseline th completed ss outs,
          rp_incremental = incremental_alpha_variants th completed ss outs (ro_variants rows),
          rp_crowding = crowding_gate_disagreement th completed ss outs (ro_contexts rows),
          rp_total_selections = sum_list (map snd counts), rp_cohorts_with_selection = cohorts_with_selection ss,
          rp_asset_counts = counts, rp_gates = gates, rp_decision = decision,
          rp_promotion_eligible = (decision = Promotion_Ready),
          rp_paper_activation_eligible = (decision \<in> {Promotion_Ready, Shadow_Ready}),
          rp_failed_gates = gate_names (\<lambda>g. gt_passed g = Some False) gates,
          rp_pending_gates = gate_names (\<lambda>g. gt_passed g = None) gates\<rparr>)"

definition review_rows_of :: "review_sources \<Rightarrow> observation_experiment \<Rightarrow> review_rows" where
  "review_rows_of src e =
     (let db = rw_observations src; i = oe_experiment_id e;
          paper = load_paper_decisions (oe_portfolio_id e) (oe_strategy_version e) (rw_ledger src);
          cutoff = select_cutoff (\<lambda>d. observed_time i d db) paper
      in \<lparr>ro_cutoff = cutoff, ro_snapshots = load_snapshots (rw_reasons_recorded src) i cutoff db,
          ro_outcomes = load_outcomes i cutoff db,
          ro_variants = load_selection_variants (rw_variants_recorded src) i cutoff db,
          ro_contexts = load_market_contexts i cutoff db, ro_decisions = filter_paper_decisions cutoff paper,
          ro_executions = load_executions (oe_portfolio_id e) cutoff (rw_ledger src)\<rparr>)"

text \<open>\<^verbatim>\<open>analyze\<close>.\<close>

definition analyze ::
    "review_environment \<Rightarrow> review_thresholds \<Rightarrow> string \<Rightarrow> string option \<Rightarrow> review_stage \<Rightarrow> review_sources
     \<Rightarrow> review_report result" where
  "analyze env th i portfolio stage src =
     bind_result (load_experiment i (rw_observations src)) (\<lambda>e.
       if portfolio \<noteq> None \<and> portfolio \<noteq> Some (oe_portfolio_id e)
       then Inl (ValueError ''portfolio override does not match observation experiment'')
       else Inr (build_report env th e stage (review_rows_of src e)))"

end
