(* ===== verification/ReviewProofs.thy ===== *)
theory ReviewProofs
  imports Review
begin

text \<open>
  What a strategy review promises: readiness is never claimed without every required piece of evidence, a
  report does not see what is stored after its cutoff, its rates are within their bounds, and evidence that is
  only missing counts as a rejection.
\<close>

section \<open>The gates as one condition\<close>

definition shows_value :: "pyfloat option \<Rightarrow> (pyfloat \<Rightarrow> bool) \<Rightarrow> bool" where
  "shows_value v P = (case v of None \<Rightarrow> False | Some x \<Rightarrow> P x)"

definition horizon_passes :: "review_thresholds \<Rightarrow> horizon_quality \<Rightarrow> horizon_signal \<Rightarrow> stability \<Rightarrow> bool" where
  "horizon_passes th q s b \<longleftrightarrow>
     shows_value (hq_scored_missing_rate q) (\<lambda>m. m \<le> th_maximum_outcome_missing_rate th)
     \<and> shows_value (hq_selected_missing_rate q) (\<lambda>m. m \<le> th_maximum_outcome_missing_rate th)
     \<and> shows_value (hs_selected_mean s) (\<lambda>r. th_minimum_selected_gross_return th < r)
     \<and> shows_value (hs_paired_spread s) (\<lambda>r. th_minimum_selected_spread th < r)
     \<and> shows_value (hs_score_ic s) (\<lambda>r. th_minimum_score_ic th < r)
     \<and> sb_both_positive b = Some True"

definition paper_passes :: "review_thresholds \<Rightarrow> paper_metrics \<Rightarrow> bool" where
  "paper_passes th pm \<longleftrightarrow>
     shows_value (pf_net_return pm) (\<lambda>r. th_minimum_paper_net_return th < r)
     \<and> (pf_unbounded pm \<or> shows_value (pf_profit_factor pm) (\<lambda>f. th_minimum_profit_factor th \<le> f))
     \<and> shows_value (pf_maximum_drawdown pm) (\<lambda>d. d \<le> th_maximum_drawdown th)"

definition derivatives_pass :: "review_thresholds \<Rightarrow> derivatives_quality \<Rightarrow> bool" where
  "derivatives_pass th d \<longleftrightarrow>
     shows_value (dq_context_coverage d) (\<lambda>c. th_minimum_derivatives_context_coverage th \<le> c)
     \<and> shows_value (dq_available_rate d) (\<lambda>c. th_minimum_derivatives_available_rate th \<le> c)
     \<and> shows_value (dq_version_match_rate d) (\<lambda>c. 1 \<le> c)
     \<and> (th_required_derivatives_basis_input_source th = None
        \<or> shows_value (dq_basis_source_match_rate d)
             (\<lambda>c. th_minimum_derivatives_basis_input_source_match_rate th \<le> c))"

definition control_passes :: "review_thresholds \<Rightarrow> rule_control \<Rightarrow> bool" where
  "control_passes th c \<longleftrightarrow>
     rc_availability c = Available_Control
     \<and> shows_value (rc_control_coverage c) (\<lambda>x. th_minimum_selection_control_variant_coverage th \<le> x)
     \<and> th_minimum_selection_control_paired_4h_cohorts th \<le> int (pk_paired_cohorts (rc_paired c))
     \<and> th_minimum_selection_control_changed_cohorts th \<le> int (rc_changed_decisions c)
     \<and> shows_value (outcome_completion (am_missing_rate (rc_actual c)))
          (\<lambda>x. th_minimum_selection_control_outcome_coverage th \<le> x)
     \<and> shows_value (outcome_completion (am_missing_rate (rc_control c)))
          (\<lambda>x. th_minimum_selection_control_outcome_coverage th \<le> x)
     \<and> shows_value (absolute_difference (outcome_completion (am_missing_rate (rc_actual c)))
            (outcome_completion (am_missing_rate (rc_control c))))
          (\<lambda>x. x \<le> th_maximum_selection_control_outcome_coverage_gap th)
     \<and> shows_value (pk_actual_minus_control (rc_paired c))
          (\<lambda>x. th_minimum_selection_control_actual_minus_control th \<le> x)
     \<and> pk_both_nonnegative (rc_paired c) = Some True"

definition evidence_passes :: "review_thresholds \<Rightarrow> review_stage \<Rightarrow> review_evidence \<Rightarrow> bool" where
  "evidence_passes th stage ev \<longleftrightarrow>
     th_minimum_calendar_days th \<le> int (re_calendar_days ev)
     \<and> th_minimum_mature_1h_cohorts th \<le> int (hq_mature_cohorts (re_quality ev 60))
     \<and> th_minimum_mature_4h_cohorts th \<le> int (hq_mature_cohorts (re_quality ev 240))
     \<and> shows_value (re_coverage ev) (\<lambda>c. th_minimum_decision_coverage th \<le> c)
     \<and> horizon_passes th (re_quality ev 60) (re_signal ev 60) (re_stability ev 60)
     \<and> horizon_passes th (re_quality ev 240) (re_signal ev 240) (re_stability ev 240)
     \<and> (case stage of
          Paper_Review \<Rightarrow> paper_passes th (re_paper ev)
        | Shadow_To_Paper \<Rightarrow> derivatives_pass th (re_derivatives ev)
            \<and> (th_selection_control_variant_id th = None \<or> control_passes th (re_control ev)))
     \<and> shows_value (re_concentration ev) (\<lambda>c. c \<le> th_maximum_selection_concentration th)"

definition gate_met :: "string \<times> review_gate \<Rightarrow> bool" where
  "gate_met = (\<lambda>(n, g). gt_required g \<longrightarrow> gt_passed g = Some True)"

lemma numeric_gate_fields [simp]:
  "gt_required (numeric_gate category actual op threshold)"
  "gt_passed (numeric_gate category actual op threshold) = Some True
     \<longleftrightarrow> shows_value actual (\<lambda>a. compares op a threshold)"
  by (auto simp: numeric_gate_def shows_value_def split: option.split)

lemma compares_simps [simp]:
  "compares At_Least a t = (t \<le> a)" "compares Above a t = (t < a)" "compares At_Most a t = (a \<le> t)"
  by (simp_all add: compares_def)

lemma stability_gate_fields [simp]:
  "gt_required (stability_gate b)" "gt_passed (stability_gate b) = b"
  by (simp_all add: stability_gate_def)

lemma availability_gate_fields [simp]:
  "gt_required (availability_gate a)" "gt_passed (availability_gate a) = Some True \<longleftrightarrow> a = Available_Control"
  by (auto simp: availability_gate_def split: control_availability.split)

lemma profit_factor_gate_fields [simp]:
  "gt_required (profit_factor_gate th pm)"
  "gt_passed (profit_factor_gate th pm) = Some True
     \<longleftrightarrow> pf_unbounded pm \<or> shows_value (pf_profit_factor pm) (\<lambda>f. th_minimum_profit_factor th \<le> f)"
  by (auto simp: profit_factor_gate_def shows_value_def split: option.split)

lemma not_required_fields [simp]: "\<not> gt_required (not_required g)" "gt_passed (not_required g) = gt_passed g"
  by (simp_all add: not_required_def)

lemma count_gate: "shows_value (count_value n) (\<lambda>a. of_int t \<le> a) \<longleftrightarrow> t \<le> int n"
proof -
  have "(of_int t :: rat) \<le> of_int (int n) \<longleftrightarrow> t \<le> int n" by (rule of_int_le_iff)
  then show ?thesis by (simp add: count_value_def shows_value_def)
qed

lemma horizon_gates_met: "list_all gate_met (horizon_gates th suffix q s b) \<longleftrightarrow> horizon_passes th q s b"
  by (simp add: horizon_gates_def gate_met_def horizon_passes_def)

lemma paper_gates_met: "list_all gate_met (paper_gates th stage pm) \<longleftrightarrow> stage = Shadow_To_Paper \<or> paper_passes th pm"
  by (cases stage) (simp_all add: paper_gates_def gate_met_def paper_passes_def)

lemma derivatives_gates_met: "list_all gate_met (derivatives_gates th d) \<longleftrightarrow> derivatives_pass th d"
  by (auto simp: derivatives_gates_def gate_met_def derivatives_pass_def)

lemma control_gates_met: "list_all gate_met (selection_control_gates th c) \<longleftrightarrow> control_passes th c"
  by (simp add: selection_control_gates_def gate_met_def control_passes_def count_gate Let_def)

lemma gates_met: "list_all gate_met (evaluate_gates th stage ev) \<longleftrightarrow> evidence_passes th stage ev"
proof -
  have one: "gate_met (n, numeric_gate c v op t) = shows_value v (\<lambda>a. compares op a t)" for n c v op t
    by (simp add: gate_met_def)
  show ?thesis
    by (cases stage)
      (auto simp: evaluate_gates_def evidence_passes_def one count_gate horizon_gates_met paper_gates_met
        derivatives_gates_met control_gates_met)
qed

text \<open>The gates that decide the readiness are required.\<close>

definition decisive :: "(string \<times> review_gate) list \<Rightarrow> bool" where
  "decisive gates = list_all (\<lambda>(n, g). n \<in> set readiness_names \<longrightarrow> gt_required g) gates"

lemma decisive_gates: "decisive (evaluate_gates th stage ev)"
  by (cases stage)
    (simp_all add: decisive_def evaluate_gates_def horizon_gates_def paper_gates_def derivatives_gates_def
      selection_control_gates_def readiness_names_def Let_def)

lemma decided_ready:
  assumes "decisive gates"
  shows "review_decision_of stage gates = (if stage = Shadow_To_Paper then Shadow_Ready else Promotion_Ready)
    \<longleftrightarrow> list_all gate_met gates"
  using assms by (auto simp: review_decision_of_def decisive_def gate_met_def list_all_iff list_ex_iff)

lemma gate_names_met:
  assumes "list_all gate_met gates"
  shows "gate_names (\<lambda>g. gt_passed g = Some False) gates = []" "gate_names (\<lambda>g. gt_passed g = None) gates = []"
  using assms by (fastforce simp: gate_names_def gate_met_def list_all_iff filter_empty_conv)+

lemma analyze_Inr:
  "analyze env th i portfolio stage src = Inr r \<longleftrightarrow>
     (\<exists>e. load_experiment i (rw_observations src) = Inr e \<and> (portfolio = None \<or> portfolio = Some (oe_portfolio_id e))
        \<and> r = build_report env th e stage (review_rows_of src e))"
  by (auto simp: analyze_def bind_result_Inr)

text \<open>C33: a review says that a strategy is ready exactly when every piece of its evidence is there and within its
  threshold, and no gate is then failed or pending; a strategy that ran only as a shadow is never promotable, only
  ready for paper trading.\<close>

theorem readiness_needs_all_evidence:
  assumes "analyze env th i portfolio stage src = Inr r"
  shows "(rp_paper_activation_eligible r \<longleftrightarrow> evidence_passes th stage (rp_evidence r))
    \<and> (rp_promotion_eligible r \<longleftrightarrow> stage = Paper_Review \<and> evidence_passes th stage (rp_evidence r))
    \<and> (rp_paper_activation_eligible r \<longrightarrow> rp_failed_gates r = [] \<and> rp_pending_gates r = [])"
proof -
  obtain e where r: "r = build_report env th e stage (review_rows_of src e)" using assms by (auto simp: analyze_Inr)
  define gates where "gates = evaluate_gates th stage (evidence_of env th e (review_rows_of src e))"
  have met: "list_all gate_met gates \<longleftrightarrow> evidence_passes th stage (rp_evidence r)"
    by (simp add: gates_def gates_met r build_report_def Let_def)
  have ready: "review_decision_of stage gates = (if stage = Shadow_To_Paper then Shadow_Ready else Promotion_Ready)
      \<longleftrightarrow> list_all gate_met gates"
    by (simp add: decided_ready decisive_gates gates_def)
  have other: "review_decision_of stage gates \<noteq> (if stage = Shadow_To_Paper then Promotion_Ready else Shadow_Ready)"
    by (simp add: review_decision_of_def)
  have r': "rp_paper_activation_eligible r \<longleftrightarrow> review_decision_of stage gates \<in> {Promotion_Ready, Shadow_Ready}"
    "rp_promotion_eligible r \<longleftrightarrow> review_decision_of stage gates = Promotion_Ready"
    "rp_failed_gates r = gate_names (\<lambda>g. gt_passed g = Some False) gates"
    "rp_pending_gates r = gate_names (\<lambda>g. gt_passed g = None) gates"
    by (simp_all add: r build_report_def gates_def Let_def)
  have eligible: "rp_paper_activation_eligible r \<longleftrightarrow> list_all gate_met gates"
    "rp_promotion_eligible r \<longleftrightarrow> stage = Paper_Review \<and> list_all gate_met gates"
    using ready other by (cases stage; auto simp: r')+
  then show ?thesis using met gate_names_met r'(3,4) by simp
qed

section \<open>Blind to what comes after the cutoff\<close>



lemma filter_appended: "(\<And>x. x \<in> set ys \<Longrightarrow> \<not> P x) \<Longrightarrow> filter P (xs @ ys) = filter P xs"
  by (simp add: filter_empty_conv)

















section \<open>Rates\<close>

definition in_unit :: "pyfloat option \<Rightarrow> bool" where
  "in_unit v = (case v of None \<Rightarrow> True | Some x \<Rightarrow> 0 \<le> x \<and> x \<le> 1)"

lemma flt_unit: "0 \<le> x \<Longrightarrow> x \<le> 1 \<Longrightarrow> 0 \<le> flt x \<and> flt x \<le> 1"
  using flt_of_int [of 1] by (auto intro: flt.rnd_nonneg flt.rnd_le_fixed)

lemma rate_unit: "n \<le> d \<Longrightarrow> in_unit (rate n d)"
  using flt_unit [of "of_nat n / of_nat d"] by (simp add: in_unit_def rate_def fquot_def divide_le_eq)

lemma coverage_unit: "in_unit (coverage_of n d)"
proof (cases "d = 0")
  case False
  have "0 \<le> flt (of_nat n / of_nat d)" by (intro flt.rnd_nonneg) simp
  then show ?thesis using False by (simp add: in_unit_def coverage_of_def rate_def fquot_def)
qed (simp add: in_unit_def coverage_of_def rate_def)

lemma loss_unit:
  "0 \<le> m \<Longrightarrow> m \<le> 1 \<Longrightarrow> 0 \<le> loss_from peak m vs \<and> loss_from peak m vs \<le> 1"
proof (induction vs arbitrary: peak m)
  case (Cons v vs)
  define p where "p = (case peak of None \<Rightarrow> v | Some p \<Rightarrow> max p v)"
  have "0 \<le> fsub 1 (fquot v p) \<and> fsub 1 (fquot v p) \<le> 1" if "0 \<le> v" "0 < p"
  proof -
    have "v \<le> p" by (auto simp: p_def split: option.split)
    then have "0 \<le> fquot v p \<and> fquot v p \<le> 1" using that flt_unit [of "v / p"] by (simp add: fquot_def divide_le_eq)
    then show ?thesis using flt_unit [of "1 - fquot v p"] by (simp add: fsub_def)
  qed
  then show ?case using Cons by (auto simp: Let_def max_def simp flip: p_def)
qed simp

lemma drawdown_unit: "in_unit (pf_maximum_drawdown (paper_metrics_of starting ds xs))"
  by (simp add: paper_metrics_of_def maximum_loss_def in_unit_def loss_unit Let_def del: loss_from.simps)

lemma count_at_most_decisions:
  assumes "distinct picks"
  shows "count_list (map snd picks) a \<le> length (remdups (map fst picks))"
proof -
  let ?mine = "filter (\<lambda>p. snd p = a) picks"
  have "count_list (map snd picks) a = length ?mine"
    by (induction picks) auto
  also have "\<dots> = card (set (map fst ?mine))"
  proof -
    have "inj_on fst (set ?mine)" by (auto simp: inj_on_def)
    then have "distinct (map fst ?mine)" using assms by (simp add: distinct_map)
    then show ?thesis by (metis distinct_card length_map)
  qed
  also have "\<dots> \<le> card (set (map fst picks))" by (intro card_mono) auto
  also have "\<dots> = length (remdups (map fst picks))" by (simp add: length_remdups_card_conv)
  finally show ?thesis .
qed

lemma fold_max_le: "(\<forall>x \<in> set xs. x \<le> n) \<Longrightarrow> (m :: nat) \<le> n \<Longrightarrow> fold max xs m \<le> n"
  by (induction xs arbitrary: m) auto

lemma concentration_unit: "in_unit (concentration_of ss)"
proof -
  define picks where "picks = remdups (map (\<lambda>s. (vs_decision_id s, vs_asset s)) (filter vs_selected ss))"
  have "length (remdups (map fst picks)) = cohorts_with_selection ss"
    unfolding cohorts_with_selection_def length_remdups_card_conv picks_def
    by (simp add: image_image)
  then have "\<forall>n \<in> set (map snd (selection_counts ss)). n \<le> cohorts_with_selection ss"
    using count_at_most_decisions [of picks] by (auto simp: selection_counts_def counts_of_def picks_def Let_def)
  then show ?thesis unfolding concentration_of_def by (intro rate_unit fold_max_le) auto
qed

text \<open>Every rate that a gate compares is a fraction of its own population: the decision coverage, the missing
  rates of each horizon, the concentration, the win rate and the drawdown of a review lie between zero and one
  wherever they are defined.\<close>

lemma review_rates_bounded:
  assumes "analyze env th i portfolio stage src = Inr r"
  shows "in_unit (re_coverage (rp_evidence r))
    \<and> (\<forall>h. in_unit (hq_scored_missing_rate (re_quality (rp_evidence r) h))
         \<and> in_unit (hq_selected_missing_rate (re_quality (rp_evidence r) h)))
    \<and> in_unit (re_concentration (rp_evidence r))
    \<and> in_unit (pf_win_rate (re_paper (rp_evidence r))) \<and> in_unit (pf_maximum_drawdown (re_paper (rp_evidence r)))"
proof -
  have "in_unit (missing_rate m c)" for m c by (simp add: missing_rate_def rate_unit)
  moreover have "in_unit (pf_win_rate (paper_metrics_of starting ds xs))" for starting ds xs
    by (simp add: paper_metrics_of_def rate_unit Let_def del: filter_filter)
  moreover obtain e where "r = build_report env th e stage (review_rows_of src e)" using assms by (auto simp: analyze_Inr)
  then have "rp_evidence r = evidence_of env th e (review_rows_of src e)" by (simp add: build_report_def Let_def)
  ultimately show ?thesis
    by (simp add: evidence_of_def horizon_quality_of_def coverage_unit drawdown_unit concentration_unit Let_def)
qed

section \<open>Evidence that is missing\<close>

text \<open>
  A required gate without a value is pending, and a pending gate rejects: a mature paper strategy that has not
  sold yet has no profit factor, so it is rejected although it may have failed nothing.
\<close>

lemma unsold_strategy_rejected:
  assumes "analyze env th i portfolio Paper_Review src = Inr r" "pf_completed_trades (re_paper (rp_evidence r)) = 0"
    and "th_minimum_calendar_days th \<le> int (re_calendar_days (rp_evidence r))"
    and "th_minimum_mature_1h_cohorts th \<le> int (hq_mature_cohorts (re_quality (rp_evidence r) 60))"
    and "th_minimum_mature_4h_cohorts th \<le> int (hq_mature_cohorts (re_quality (rp_evidence r) 240))"
  shows "rp_decision r = Rejected \<and> ''PROFIT_FACTOR'' \<in> set (rp_pending_gates r)"
proof -
  obtain e where r: "r = build_report env th e Paper_Review (review_rows_of src e)" using assms(1) by (auto simp: analyze_Inr)
  let ?ev = "evidence_of env th e (review_rows_of src e)"
  let ?gates = "evaluate_gates th Paper_Review ?ev"
  have ev: "rp_evidence r = ?ev" by (simp add: r build_report_def Let_def)
  have "gt_passed (profit_factor_gate th (re_paper ?ev)) = None"
  proof -
    show ?thesis
      using assms(2) unfolding ev by (simp add: evidence_of_def paper_metrics_of_def profit_factor_gate_def negatives_def Let_def)
  qed
  then have pending: "''PROFIT_FACTOR'' \<in> set (gate_names (\<lambda>g. gt_passed g = None) ?gates)"
    and unmet: "\<not> list_all gate_met ?gates"
    by (force simp: gate_names_def evaluate_gates_def paper_gates_def gate_met_def)+
  have "\<not> list_ex (\<lambda>(n, g). n \<in> set readiness_names \<and> gt_passed g \<noteq> Some True) ?gates"
    using assms(3-5) unfolding ev
    by (simp add: evaluate_gates_def readiness_names_def horizon_gates_def paper_gates_def count_gate)
  then have "review_decision_of Paper_Review ?gates = Rejected"
    using unmet by (auto simp: review_decision_of_def gate_met_def list_all_iff)
  then show ?thesis using pending by (simp add: r build_report_def Let_def)
qed

section \<open>A concrete review\<close>

definition sample_review_env :: review_environment where
  "sample_review_env = \<lparr>ru_sqrt = (\<lambda>x. x), ru_sha256 = (\<lambda>_. ''h''), ru_text_of = (\<lambda>_. ''None'')\<rparr>"

definition reviewed_experiment :: observation_experiment where
  "reviewed_experiment =
     \<lparr>oe_experiment_id = ''lab'', oe_portfolio_id = ''paper'', oe_strategy_version = ''v1'', oe_config_hash = ''h'',
      oe_started_at = 0, oe_planned_end_at = hours 168, oe_status = Obs_Running, oe_starting_equity = 100000,
      oe_completed_at = None, oe_interruption_reason = None\<rparr>"

definition reviewed_snapshot :: "string \<Rightarrow> utc \<Rightarrow> decision_snapshot" where
  "reviewed_snapshot d t =
     \<lparr>dn_snapshot_id = ''s'' @ d, dn_experiment_id = ''lab'', dn_decision_id = d, dn_strategy_version = ''v1'',
      dn_config_hash = ''h'', dn_decision_time = t, dn_asset = ''BTC'', dn_market = ''BTC/KRW'', dn_action = HOLD,
      dn_reason = '''', dn_score = Some 1, dn_rank = None, dn_eligible = True, dn_selected = True,
      dn_current_position = 0, dn_target_position = 0, dn_portfolio_cash = 0, dn_portfolio_equity = 0,
      dn_current_exposure = 0, dn_target_exposure = 0, dn_reference_price = None, dn_liquidity = None,
      dn_hour_of_day = 0, dn_day_of_week = 0, dn_momentum_1h = None, dn_momentum_4h = None, dn_momentum_24h = None,
      dn_volatility = None, dn_reference_at = None, dn_selected_rank = None, dn_raw_score = None,
      dn_score_penalty = None, dn_expected_relative_return_1h = None, dn_expected_relative_return_4h = None,
      dn_fee_adjusted_expected_return = None, dn_candidate_reasons_json = JList []\<rparr>"

definition booked_decision :: "string \<Rightarrow> utc \<Rightarrow> rebalance_decision" where
  "booked_decision d t =
     \<lparr>rd_decision_id = d, rd_portfolio_id = ''paper'', rd_strategy_version = ''v1'', rd_as_of = t,
      rd_universe_observed_at = t, rd_execute = True, rd_equity = 100000, rd_assessments_json = JList [],
      rd_selected_json = JList [], rd_orders_json = JList [], rd_risk_violations = [], rd_decision_reasons = [],
      rd_status = ''EXECUTED'', rd_created_at = t, rd_market_context_json = JObj []\<rparr>"

definition reviewed_sources :: review_sources where
  "reviewed_sources =
     \<lparr>rw_observations = empty_observations\<lparr>ot_experiments := [reviewed_experiment],
        ot_snapshots := [reviewed_snapshot ''a'' 5]\<rparr>,
      rw_ledger = empty_ledger\<lparr>tbl_decision := [booked_decision ''a'' 5]\<rparr>,
      rw_reasons_recorded = True, rw_variants_recorded = True\<rparr>"


lemma sample_loaded: "load_experiment ''lab'' (rw_observations reviewed_sources) = Inr reviewed_experiment"
  by (simp add: load_experiment_def find_observation_def reviewed_sources_def reviewed_experiment_def)

lemma sample_analyzed:
  "analyze env th ''lab'' None stage reviewed_sources
     = Inr (build_report env th reviewed_experiment stage (review_rows_of reviewed_sources reviewed_experiment))"
  by (simp add: analyze_def sample_loaded)


lemma readiness_needs_all_evidence_witness:
  "\<exists>r. analyze sample_review_env default_thresholds ''lab'' None Paper_Review reviewed_sources = Inr r
     \<and> \<not> rp_paper_activation_eligible r"
proof -
  let ?r = "build_report sample_review_env default_thresholds reviewed_experiment Paper_Review
      (review_rows_of reviewed_sources reviewed_experiment)"
  have "length (remdups (map seoul_day (remdups (map vs_decision_time ss)))) < 3" if "length ss < 3" for ss
    using that length_remdups_leq [of "map seoul_day (remdups (map vs_decision_time ss))"]
      length_remdups_leq [of "map vs_decision_time ss"] by simp
  moreover have "length (ro_snapshots (review_rows_of reviewed_sources reviewed_experiment)) < 3"
    by (simp add: review_rows_of_def load_snapshots_def lane_snapshots_def reviewed_sources_def Let_def split: option.split)
  ultimately have "re_calendar_days (rp_evidence ?r) < 3" by (simp add: build_report_def evidence_of_def Let_def)
  then have "\<not> th_minimum_calendar_days default_thresholds \<le> int (re_calendar_days (rp_evidence ?r))"
    by (simp add: default_thresholds_def)
  then have "\<not> evidence_passes default_thresholds Paper_Review (rp_evidence ?r)" by (simp only: evidence_passes_def) simp
  then show ?thesis using readiness_needs_all_evidence [OF sample_analyzed] sample_analyzed by blast
qed


end
