(* ===== verification/Spec2Isabelle.thy ===== *)
theory Spec2Isabelle
  imports Profiles Runs LifecycleProofs ObserverProofs StreamLock Streams ObservationProofs RuntimeProofs ReviewProofs
begin

text \<open>
  A verification development of the crypto paper-trading engine of
  \<^verbatim>\<open>investment-research-engine\<close> (\<^verbatim>\<open>src/src/investment/crypto\<close> and \<^verbatim>\<open>src/src/investment/runtime\<close>).  Paths
  below are relative to \<^verbatim>\<open>src/src/investment\<close>.


  The program.  Every fifteen minutes a job (\<^verbatim>\<open>runtime\<close>) lets the dynamic paper rebalance decide: it values
  the portfolio of the paper ledger, scores the universe of that instant, asks the derivatives observer
  whether entries are allowed, selects at most a few assets, plans orders, has the risk engine approve
  them, fills them in the paper exchange and books the fills.  The profile that decides comes from a
  registry of immutable versions.  A forward observation records what was decided and later what it was
  worth; a strategy review judges these records against thresholds; the research lifecycle runs
  challengers against a champion in backtests and promotes them.  The observer itself captures snapshots
  and is fed by stream collectors that run as threads under a lock.


  Theories, in the order of their imports.

  \<^item> Prelude, PyNumbers, Texts, Actions: exceptions as values of a sum (\<^verbatim>\<open>Inl\<close> the exception), strings,
    sorting by a key, Python's \<^verbatim>\<open>Decimal\<close> (28 digits) and \<^verbatim>\<open>float\<close> (53 bits) arithmetic with its rounding over
    rational numbers (locale \<^verbatim>\<open>rounding\<close>), numbers as text, and actions that leave a state also when they raise.
  \<^item> Domain, Ports, Exchange, Ledger, Risk: the value objects of \<^verbatim>\<open>crypto/domain\<close> with the checks of their
    constructors; the execution loop over the ports (locale \<^verbatim>\<open>execution_ports\<close>, interpreted by the paper gateway and
    the SQLite ledger); \<^verbatim>\<open>infrastructure/paper_exchange.py\<close>; \<^verbatim>\<open>infrastructure/sqlite_accounting.py\<close> as a record
    of four tables; \<^verbatim>\<open>risk/engine.py\<close> and \<^verbatim>\<open>portfolio/equal_weight.py\<close>.
  \<^item> Policy, Assess, Gates, Select, History, Rebalance with Plans, Runs, Profiles:
    \<^verbatim>\<open>application/dynamic_paper_rebalance.py\<close>, from the published profiles over scoring, gates, selection,
    history, planning and execution to \<^verbatim>\<open>run\<close> with its early returns and its audit rows.
  \<^item> Strategies, Backtest, BacktestProofs: regimes, momentum, the liquidity universe and the backtest engine
    with its services.  Locales \<^verbatim>\<open>point_in_time\<close>, \<^verbatim>\<open>causal\<close>, \<^verbatim>\<open>causal_engine\<close> and \<^verbatim>\<open>sound_engine\<close> state what a
    model of the engine has to promise; every model of the code interprets them.
  \<^item> Research, ResearchStore, Lifecycle, LifecycleProofs: the research lifecycle, its JSON repository (locale
    \<^verbatim>\<open>record_store\<close>: files refine maps of records) and its service with the partial writes of every use case.
  \<^item> Derivatives, DerivStore, Signals, Overlay, Capture, ObserverProofs: the derivatives observer, its tables
    (locale \<^verbatim>\<open>append_only\<close>), its calculators, the overlay a decision sees, and the capture.
  \<^item> StreamLock, Streams: the ownership lock as interleaved file-system steps, the message parsers, and the
    worker of one stream with its watchdog and supervisor as a step relation.
  \<^item> Registry, RegistryProofs, Publication: \<^verbatim>\<open>strategy_registry.py\<close>; profiles as documents, publication by an
    exclusive link.
  \<^item> Observation, ObservationService, ObservationReport, ObservationProofs: \<^verbatim>\<open>crypto/observation\<close>; six tables,
    start, capture, evaluation, interruption, health and report.
  \<^item> Runtime, RuntimeProofs: \<^verbatim>\<open>runtime\<close>; a job is a program counter and \<^verbatim>\<open>run_job\<close> a step relation that
    threads and processes interleave, with leases in a shared table.
  \<^item> ReviewStats, ReviewAnalysis, Review, ReviewProofs: \<^verbatim>\<open>crypto/research/strategy_review.py\<close> and its
    thresholds; statistics, gates and the decision of a report.


  What the theorems show.

  \<^item> Ledger and Runs: every reachable ledger keeps its books; a run keeps them on every outcome, touches one
    portfolio only, trades nothing when dry, and books each planned order once however often it is executed.
  \<^item> Plans, Select, Gates, Risk: planned orders are safe; the selection is total, bounded and ordered; the gates
    fail closed; the weights of up to five positions sum exactly to one and are approved.  Six positions of
    a neutral regime raise (Risk), and an order at the minimum notional can be refused by the risk engine
    of its own execution (Plans).
  \<^item> BacktestProofs: no price is used before it is known; costs never help; the universe is a partition.
  \<^item> LifecycleProofs: a strategy becomes active only by a promotion, runs settle, the status machine ends; a
    promotion on a stale champion leaves two active strategies.
  \<^item> ObserverProofs, Signals: what is stored later never changes an earlier overlay; overlays fail closed;
    captures are total; signals are valid.
  \<^item> StreamLock, Streams: one owner while no stale lock is taken over, and the race when one is; whatever row a
    worker starts from, whichever of its writes fail, and however often it dies and is restarted, the
    store confirms coverage only on a recorded connection, or while the write that ends it is the next
    step of the thread, or after a write that failed, or on the row the worker inherited.  Each of the last
    two cases occurs (\<^verbatim>\<open>coverage_outlives_connection\<close> is the lost write of a watchdog).
  \<^item> Publication: a published version never changes, loads safely and survives its own document.
  \<^item> ObservationProofs: the tables stay sound, evidence is frozen, and no outcome is judged by a candle after its
    horizon.  RuntimeProofs: an identity runs at most once while leases outlast their jobs, and how it runs
    twice when they do not.
  \<^item> ReviewProofs: a report says ready exactly when every required piece of evidence is there and within its
    threshold, and does not change by what is stored after its cutoff.


  How state and effects are represented.  Tables are lists of records in the order of insertion, with the primary key
  of the schema enforced by the insert of the model; a directory of files is an association of
  names with documents.  Services are functions from the state to the state and a result, so that writes
  before an exception stay.  Threads and processes are \<^theory_text>\<open>inductive\<close> step relations.  Clock readings, random
  identities, replies of handlers and of failing writes are inputs of the steps.  The worker of Streams
  carries one ghost field, the outcome of its last write, that no step reads.


  Parameters.  Code that is not in the repository is an argument of the definitions that use it: SHA-256,
  numpy's mean and standard deviation, \<^verbatim>\<open>log1p\<close>, square roots and fractional powers, the order in which Python
  iterates a set where a sum depends on it, the candles and universes the file readers deliver, and the
  answers of the exchange.


  Bounds and fuel.  \<^verbatim>\<open>drop_zeros\<close> and \<^verbatim>\<open>decimal_places\<close> have fuel 60, above the 28 digits of a decimal.
  Millisecond timestamps of the wire are exact below \<^verbatim>\<open>2^32\<close> seconds.  Identities of the runtime are looked
  for among 10,000 executions, as in the code, and the theorem about them is stated below that number.


  Not modelled.

  \<^item> Exponent limits, infinities, NaN and trailing zeros of \<^verbatim>\<open>Decimal\<close>; overflow and NaN of \<^verbatim>\<open>float\<close> (a value
    that Python would read as not finite is a case of the parsed input).  \<^verbatim>\<open>x**2\<close> is taken as correctly rounded; sums
    of floats are CPython 3.12's compensated sum and \<^verbatim>\<open>fmean\<close> the correctly rounded one.
  \<^item> Strings beyond ASCII.  JSON and TOML texts are held as the values they denote; the texts of numbers
    inside them are modelled where the code computes with them.
  \<^item> Migrations of old schemas, Postgres (the SQLite branch is modelled), journal modes and locks of the
    database, the order of rows that tie in every key of a query, \<^verbatim>\<open>julianday\<close> below a millisecond.
  \<^item> HTTP, the websocket transport, subscription texts, logging, the command lines and the texts that explain
    a report.  Local days are those of Seoul, nine hours ahead of UTC.  The worker waits two seconds for its
    watchdog before a connection is left, which is taken to be enough for the watchdog's write.
  \<^item> The machine-learning models, the pandas research code outside \<^verbatim>\<open>crypto\<close>, market data synchronisation and the
    HTTP interface: libraries, files and network around the modelled core.
\<close>

end
